(* ===== verification/Prelude.thy ===== *)
theory Prelude
  imports Main "HOL-Library.Word" "HOL-Library.AList" "HOL-Library.Sublist"
begin

unbundle bit_operations_syntax

text \<open>
  Shared vocabulary of the development: machine integers and byte strings, the standard
  library's byte-order conversions, hash maps, the result monad with early return, and the two
  generic contracts that several components meet (a dictionary, and a guarded machine with an
  invariant).

  Conventions.  A \<open>usize\<close> is a \<open>nat\<close> (the code runs on 64-bit targets and every length it
  handles is far below \<open>2 ^ 64\<close>); every narrower integer is a word of its width.  A Rust
  \<open>String\<close> is its list of UTF-8 bytes, one \<open>char\<close> per byte.  \<open>Result<T, E>\<close> is the sum
  \<open>'e + 't\<close> with \<open>Inl\<close> for \<open>Err\<close>.
\<close>

section \<open>Types\<close>

type_synonym u8 = "8 word"
type_synonym u16 = "16 word"
type_synonym u32 = "32 word"
type_synonym u64 = "64 word"
type_synonym bytes = "u8 list"

named_theorems wire_simps \<open>byte-level encoders and decoders\<close>
named_theorems hm_simps \<open>hash map operations\<close>

section \<open>Byte order\<close>

text \<open>\<open>to_be_bytes\<close>, \<open>from_be_bytes\<close> and their little-endian versions, per width.\<close>

definition be16 :: "u16 \<Rightarrow> bytes" where
  "be16 w = [ucast (drop_bit 8 w), ucast w]"

definition of_be16 :: "u8 \<Rightarrow> u8 \<Rightarrow> u16" where
  "of_be16 a b = push_bit 8 (ucast a) OR ucast b"

definition be32 :: "u32 \<Rightarrow> bytes" where
  "be32 w = [ucast (drop_bit 24 w), ucast (drop_bit 16 w), ucast (drop_bit 8 w), ucast w]"

definition of_be32 :: "u8 \<Rightarrow> u8 \<Rightarrow> u8 \<Rightarrow> u8 \<Rightarrow> u32" where
  "of_be32 a b c d =
     push_bit 24 (ucast a) OR push_bit 16 (ucast b) OR push_bit 8 (ucast c) OR ucast d"

definition le16 :: "u16 \<Rightarrow> bytes" where
  "le16 w = rev (be16 w)"

definition le32 :: "u32 \<Rightarrow> bytes" where
  "le32 w = rev (be32 w)"

definition be64 :: "u64 \<Rightarrow> bytes" where
  "be64 w = be32 (ucast (drop_bit 32 w)) @ be32 (ucast w)"

definition le64 :: "u64 \<Rightarrow> bytes" where
  "le64 w = rev (be64 w)"

lemma of_be16_be16 [wire_simps]: "of_be16 (ucast (drop_bit 8 w)) (ucast w) = w"
  unfolding of_be16_def
  by (rule bit_word_eqI) (auto simp: bit_simps)

lemma of_be32_be32 [wire_simps]:
  "of_be32 (ucast (drop_bit 24 w)) (ucast (drop_bit 16 w)) (ucast (drop_bit 8 w)) (ucast w) = w"
  unfolding of_be32_def
proof (rule bit_word_eqI)
  fix n :: nat assume "n < LENGTH(32)"
  then consider "n < 8" | "8 \<le> n" "n < 16" | "16 \<le> n" "n < 24" | "24 \<le> n" "n < 32"
    by (simp, linarith)
  then show "bit (push_bit 24 (ucast (ucast (drop_bit 24 w) :: u8)) OR
      push_bit 16 (ucast (ucast (drop_bit 16 w) :: u8)) OR
      push_bit 8 (ucast (ucast (drop_bit 8 w) :: u8)) OR ucast (ucast w :: u8) :: u32) n
    = bit w n"
    by cases (cases "bit w n"; simp add: bit_simps; linarith)+
qed

lemma not_bit_u8: "8 \<le> n \<Longrightarrow> \<not> bit (b :: u8) n"
  using bit_imp_le_length [of b n] by auto

lemma be32_of_be32 [wire_simps]: "be32 (of_be32 a b c d) = [a, b, c, d]"
  unfolding of_be32_def be32_def list.inject
  by (intro conjI; (rule bit_word_eqI)?; simp add: bit_simps not_bit_u8)

lemma be16_of_be16 [wire_simps]: "be16 (of_be16 a b) = [a, b]"
  unfolding of_be16_def be16_def list.inject
  by (intro conjI; (rule bit_word_eqI)?; simp add: bit_simps not_bit_u8)

lemma be32_inject: "be32 v = be32 w \<longleftrightarrow> v = w"
proof
  assume "be32 v = be32 w"
  then have "of_be32 (ucast (drop_bit 24 v)) (ucast (drop_bit 16 v)) (ucast (drop_bit 8 v)) (ucast v)
   = of_be32 (ucast (drop_bit 24 w)) (ucast (drop_bit 16 w)) (ucast (drop_bit 8 w)) (ucast w)"
    by (simp only: be32_def list.inject)
  then show "v = w" by (simp only: of_be32_be32)
qed simp

lemma u64_split: "(ucast (drop_bit 32 v) :: u32) = ucast (drop_bit 32 w) \<Longrightarrow> (ucast v :: u32) = ucast w \<Longrightarrow> v = (w :: u64)"
proof (rule bit_word_eqI)
  fix n :: nat
  assume h: "(ucast (drop_bit 32 v) :: u32) = ucast (drop_bit 32 w)" "(ucast v :: u32) = ucast w"
    and n: "n < LENGTH(64)"
  show "bit v n = bit w n"
  proof (cases "n < 32")
    case True
    have "bit (ucast v :: u32) n = bit (ucast w :: u32) n" using h(2) by simp
    with True show ?thesis by (simp add: bit_simps)
  next
    case False
    have "bit (ucast (drop_bit 32 v) :: u32) (n - 32) = bit (ucast (drop_bit 32 w) :: u32) (n - 32)"
      using h(1) by simp
    then show ?thesis using False n by (simp add: bit_simps) linarith
  qed
qed


lemma be64_inject: "be64 v = be64 w \<longleftrightarrow> v = w"
proof
  assume "be64 v = be64 w"
  then have "be32 (ucast (drop_bit 32 v)) = be32 (ucast (drop_bit 32 w))"
    and "be32 (ucast v) = be32 (ucast w)"
    by (auto simp: be64_def be32_def)
  then show "v = w" by (auto simp: be32_inject intro: u64_split)
qed simp

lemma length_be [simp, wire_simps]:
  "length (be16 v) = 2" "length (be32 w) = 4" "length (be64 x) = 8"
  "length (le16 v) = 2" "length (le32 w) = 4" "length (le64 x) = 8"
  by (simp_all add: be16_def be32_def be64_def le16_def le32_def le64_def)

text \<open>Casting a length: \<open>data.len() as u32\<close> keeps the low 32 bits.\<close>

definition len_u32 :: "'a list \<Rightarrow> u32" where
  "len_u32 xs = word_of_nat (length xs)"

lemma unat_len_u32 [wire_simps]: "length xs < 2 ^ 32 \<Longrightarrow> unat (len_u32 xs) = length xs"
  by (simp add: len_u32_def unat_of_nat)

lemma unat_u8_less: "unat (b :: u8) < 256"
proof -
  have "unat b < 2 ^ LENGTH(8)" by (rule unsigned_less)
  then show ?thesis by simp
qed

section \<open>Results and early return\<close>

text \<open>The \<open>?\<close> operator on a pure \<open>Result\<close>.\<close>

fun try_res :: "'e + 'a \<Rightarrow> ('a \<Rightarrow> 'e + 'b) \<Rightarrow> 'e + 'b" where
  "try_res (Inl e) k = Inl e"
| "try_res (Inr x) k = k x"

lemma try_res_Inr: "try_res m k = Inr y \<longleftrightarrow> (\<exists>x. m = Inr x \<and> k x = Inr y)"
  by (cases m) auto

lemma try_res_Inl: "try_res m k = Inl e \<longleftrightarrow> m = Inl e \<or> (\<exists>x. m = Inr x \<and> k x = Inl e)"
  by (cases m) auto

lemma try_res_assoc: "try_res (try_res m f) g = try_res m (\<lambda>x. try_res (f x) g)"
  by (cases m) auto

lemma try_res_if: "try_res (if b then m else m') k = (if b then try_res m k else try_res m' k)"
  by simp

fun map_err :: "('e \<Rightarrow> 'f) \<Rightarrow> 'e + 'a \<Rightarrow> 'f + 'a" where
  "map_err f (Inl e) = Inl (f e)"
| "map_err f (Inr x) = Inr x"

section \<open>Hash maps\<close>

text \<open>
  \<open>std::collections::HashMap\<close> as an association list with distinct keys.  The order of the list
  stands for the map's unspecified iteration order, so a property of an operation that iterates
  holds for every order the map could choose.
\<close>

type_synonym ('k, 'v) hm = "('k \<times> 'v) list"

definition hm_wf :: "('k, 'v) hm \<Rightarrow> bool" where
  "hm_wf m = distinct (map fst m)"

definition hm_get :: "('k, 'v) hm \<Rightarrow> 'k \<Rightarrow> 'v option" where
  "hm_get m = map_of m"

definition hm_insert :: "'k \<Rightarrow> 'v \<Rightarrow> ('k, 'v) hm \<Rightarrow> ('k, 'v) hm" where
  "hm_insert k v m = AList.update k v m"

definition hm_remove :: "'k \<Rightarrow> ('k, 'v) hm \<Rightarrow> ('k, 'v) hm" where
  "hm_remove k m = AList.delete k m"

definition hm_keys :: "('k, 'v) hm \<Rightarrow> 'k list" where
  "hm_keys m = map fst m"

lemma hm_get_empty [hm_simps]: "hm_get [] k = None"
  by (simp add: hm_get_def)

lemma hm_get_insert [hm_simps]: "hm_get (hm_insert k v m) = (hm_get m)(k \<mapsto> v)"
  by (simp add: hm_get_def hm_insert_def update_conv')

lemma hm_get_remove [hm_simps]: "hm_get (hm_remove k m) = (hm_get m)(k := None)"
  by (simp add: hm_get_def hm_remove_def delete_conv')

lemma hm_wf_empty [hm_simps]: "hm_wf []"
  by (simp add: hm_wf_def)

lemma hm_wf_insert [hm_simps]: "hm_wf m \<Longrightarrow> hm_wf (hm_insert k v m)"
  by (simp add: hm_wf_def hm_insert_def distinct_update)

lemma hm_wf_remove [hm_simps]: "hm_wf m \<Longrightarrow> hm_wf (hm_remove k m)"
  by (simp add: hm_wf_def hm_remove_def distinct_delete)

lemma hm_get_Some_iff: "hm_wf m \<Longrightarrow> hm_get m k = Some v \<longleftrightarrow> (k, v) \<in> set m"
  by (simp add: hm_get_def hm_wf_def)

lemma hm_get_None_iff: "hm_get m k = None \<longleftrightarrow> k \<notin> set (hm_keys m)"
  by (simp add: hm_get_def hm_keys_def map_of_eq_None_iff)

section \<open>The dictionary contract\<close>

text \<open>
  What the components rely on of a keyed table: lookups after inserts and removals, and that the
  operations keep the table well formed.  The client lemmas are about removing a list of keys, the
  pattern of every "close all" and "sync" operation of the code.
\<close>

locale dictionary =
  fixes get :: "'m \<Rightarrow> 'k \<Rightarrow> 'v option"
    and put :: "'k \<Rightarrow> 'v \<Rightarrow> 'm \<Rightarrow> 'm"
    and del :: "'k \<Rightarrow> 'm \<Rightarrow> 'm"
    and ok :: "'m \<Rightarrow> bool"
  assumes get_put: "get (put k v m) = (get m)(k \<mapsto> v)"
    and get_del: "get (del k m) = (get m)(k := None)"
    and ok_put: "ok m \<Longrightarrow> ok (put k v m)"
    and ok_del: "ok m \<Longrightarrow> ok (del k m)"
begin

lemma get_del_all:
  "get (fold del ks m) k = (if k \<in> set ks then None else get m k)"
  by (induction ks arbitrary: m) (auto simp: get_del)

lemma ok_del_all: "ok m \<Longrightarrow> ok (fold del ks m)"
  by (induction ks arbitrary: m) (auto simp: ok_del)

lemma get_put_all:
  "get (fold (\<lambda>x. put (f x) (g x)) xs m) k =
     (case find (\<lambda>x. f x = k) (rev xs) of Some x \<Rightarrow> Some (g x) | None \<Rightarrow> get m k)"
proof (induction xs rule: rev_induct)
  case (snoc x xs)
  then show ?case by (auto simp: get_put)
qed simp

lemma ok_put_all: "ok m \<Longrightarrow> ok (fold (\<lambda>x. put (f x) (g x)) xs m)"
  by (induction xs arbitrary: m) (auto simp: ok_put)

end

interpretation hm: dictionary hm_get hm_insert hm_remove hm_wf
  by unfold_locales (simp_all add: hm_simps)

section \<open>Machines with an invariant\<close>

text \<open>
  Several components are a state with operations.  \<open>run\<close> executes a list of operations; an
  invariant that holds at the start and that every operation keeps holds after every run.
\<close>

fun run :: "('s \<Rightarrow> 'o \<Rightarrow> 's) \<Rightarrow> 's \<Rightarrow> 'o list \<Rightarrow> 's" where
  "run step s [] = s"
| "run step s (x # xs) = run step (step s x) xs"

lemma run_append: "run step s (xs @ ys) = run step (run step s xs) ys"
  by (induction xs arbitrary: s) auto

locale machine =
  fixes step :: "'s \<Rightarrow> 'o \<Rightarrow> 's"
    and start :: 's
    and inv :: "'s \<Rightarrow> bool"
  assumes inv_start: "inv start"
    and inv_step: "inv s \<Longrightarrow> inv (step s x)"
begin

lemma inv_run_from: "inv s \<Longrightarrow> inv (run step s xs)"
  by (induction xs arbitrary: s) (auto simp: inv_step)

lemma inv_run: "inv (run step start xs)"
  by (rule inv_run_from [OF inv_start])

end

section \<open>Lists\<close>

lemma suffix_snoc_same: "suffix xs ys \<Longrightarrow> suffix (xs @ [z]) (ys @ [z])"
  by (auto simp: suffix_def)

end
