(* ===== verification/RustText.thy ===== *)
theory RustText
  imports Prelude
begin

text \<open>
  The parts of Rust's standard library for text that the modelled code calls: UTF-8 checking and
  lossy decoding, searching, splitting, trimming, and decimal numbers.  A \<open>str\<close> is the list of
  its UTF-8 bytes, so a position is a byte offset as in Rust, and a slice is legal exactly at the
  offsets \<open>is_char_boundary\<close> accepts.
\<close>

section \<open>Bytes and text\<close>

definition str_of_bytes :: "bytes \<Rightarrow> string" where
  "str_of_bytes bs = map (\<lambda>b. char_of (unat b)) bs"

definition bytes_of_str :: "string \<Rightarrow> bytes" where
  "bytes_of_str s = map (\<lambda>c. word_of_nat (of_char c)) s"

lemma unat_char: "unat (word_of_nat (of_char c) :: u8) = of_char c"
proof -
  have "of_char c < (256 :: nat)"
    using of_char_mod_256 [of c, where 'a = nat] by (metis mod_less_divisor zero_less_numeral)
  then show ?thesis by (simp add: unat_of_nat)
qed

lemma str_of_bytes_of_str [simp]: "str_of_bytes (bytes_of_str s) = s"
  by (induction s) (simp_all add: str_of_bytes_def bytes_of_str_def unat_char)

lemma bytes_of_str_of_bytes [simp]: "bytes_of_str (str_of_bytes bs) = bs"
proof -
  have "unat b < 2 ^ LENGTH(8)" for b :: u8
    by (rule unsigned_less)
  then have "unat b mod 256 = unat b" for b :: u8
    by simp
  then show ?thesis
    by (induction bs) (simp_all add: str_of_bytes_def bytes_of_str_def)
qed

lemma length_str_bytes [simp]:
  "length (str_of_bytes bs) = length bs" "length (bytes_of_str s) = length s"
  by (simp_all add: str_of_bytes_def bytes_of_str_def)

text \<open>
  \<open>utf8_head\<close> looks at the first code point: whether it is well formed, and how many bytes it
  takes, or, when it is not, how many bytes one replacement character stands for.
\<close>

definition cont :: "u8 \<Rightarrow> bool" where
  "cont b \<longleftrightarrow> 0x80 \<le> b \<and> b \<le> 0xBF"

definition second_ok :: "u8 \<Rightarrow> u8 \<Rightarrow> bool" where
  "second_ok b0 b1 \<longleftrightarrow>
     (if b0 = 0xE0 then 0xA0 \<le> b1 \<and> b1 \<le> 0xBF
      else if b0 = 0xED then 0x80 \<le> b1 \<and> b1 \<le> 0x9F
      else if b0 = 0xF0 then 0x90 \<le> b1 \<and> b1 \<le> 0xBF
      else if b0 = 0xF4 then 0x80 \<le> b1 \<and> b1 \<le> 0x8F
      else cont b1)"

definition utf8_width :: "u8 \<Rightarrow> nat" where
  "utf8_width b =
     (if b < 0x80 then 1 else if 0xC2 \<le> b \<and> b \<le> 0xDF then 2
      else if 0xE0 \<le> b \<and> b \<le> 0xEF then 3 else if 0xF0 \<le> b \<and> b \<le> 0xF4 then 4 else 0)"

definition utf8_head :: "bytes \<Rightarrow> bool \<times> nat" where
  "utf8_head bs =
     (case bs of [] \<Rightarrow> (True, 1)
      | b0 # r \<Rightarrow>
        let w = utf8_width b0 in
        if w = 1 then (True, 1)
        else if w = 0 then (False, 1)
        else (case r of [] \<Rightarrow> (False, 1)
              | b1 # r1 \<Rightarrow>
                if \<not> second_ok b0 b1 then (False, 1)
                else if w = 2 then (True, 2)
                else (case r1 of [] \<Rightarrow> (False, 2)
                      | b2 # r2 \<Rightarrow>
                        if \<not> cont b2 then (False, 2)
                        else if w = 3 then (True, 3)
                        else (case r2 of [] \<Rightarrow> (False, 3)
                              | b3 # _ \<Rightarrow> if cont b3 then (True, 4) else (False, 3)))))"

lemma utf8_head_pos: "0 < snd (utf8_head bs)"
  by (auto simp: utf8_head_def Let_def split: list.splits)

function utf8_valid :: "bytes \<Rightarrow> bool" where
  "utf8_valid bs =
     (if bs = [] then True
      else if fst (utf8_head bs) then utf8_valid (drop (snd (utf8_head bs)) bs) else False)"
  by pat_completeness auto
termination
proof (relation "measure length")
  fix bs :: bytes assume "\<not> bs = []"
  then show "(drop (snd (utf8_head bs)) bs, bs) \<in> measure length"
    using utf8_head_pos [of bs] by (cases bs) auto
qed simp

declare utf8_valid.simps [simp del]

definition from_utf8 :: "bytes \<Rightarrow> string option" where
  "from_utf8 bs = (if utf8_valid bs then Some (str_of_bytes bs) else None)"

function utf8_lossy :: "bytes \<Rightarrow> bytes" where
  "utf8_lossy bs =
     (if bs = [] then []
      else (if fst (utf8_head bs) then take (snd (utf8_head bs)) bs else [0xEF, 0xBF, 0xBD]) @
           utf8_lossy (drop (snd (utf8_head bs)) bs))"
  by pat_completeness auto
termination
proof (relation "measure length")
  fix bs :: bytes assume "\<not> bs = []"
  then show "(drop (snd (utf8_head bs)) bs, bs) \<in> measure length"
    using utf8_head_pos [of bs] by (cases bs) auto
qed simp

declare utf8_lossy.simps [simp del]

definition from_utf8_lossy :: "bytes \<Rightarrow> string" where
  "from_utf8_lossy bs = str_of_bytes (utf8_lossy bs)"

lemma utf8_lossy_valid: "utf8_valid bs \<Longrightarrow> utf8_lossy bs = bs"
proof (induction bs rule: utf8_lossy.induct)
  case (1 bs)
  show ?case
  proof (cases "bs = []")
    case True
    then show ?thesis by (simp add: utf8_lossy.simps)
  next
    case False
    with 1(2) have "fst (utf8_head bs)" "utf8_valid (drop (snd (utf8_head bs)) bs)"
      by (auto simp: utf8_valid.simps [of bs] split: if_splits)
    with False 1(1) show ?thesis by (simp add: utf8_lossy.simps [of bs])
  qed
qed

lemma from_utf8_lossy_valid: "from_utf8 bs = Some s \<Longrightarrow> from_utf8_lossy bs = s"
  by (auto simp: from_utf8_def from_utf8_lossy_def utf8_lossy_valid split: if_splits)

lemma utf8_valid_ascii: "\<forall>b \<in> set bs. b < 0x80 \<Longrightarrow> utf8_valid bs"
proof (induction bs)
  case (Cons b bs)
  then have "utf8_head (b # bs) = (True, 1)"
    by (simp add: utf8_head_def utf8_width_def)
  with Cons show ?case by (simp add: utf8_valid.simps [of "b # bs"])
qed (simp add: utf8_valid.simps)

lemma utf8_lossy_ascii_append: "\<forall>b \<in> set xs. b < 0x80 \<Longrightarrow> utf8_lossy (xs @ ys) = xs @ utf8_lossy ys"
proof (induction xs)
  case (Cons b xs)
  then have "utf8_head (b # xs @ ys) = (True, 1)"
    by (simp add: utf8_head_def utf8_width_def)
  with Cons show ?case by (simp add: utf8_lossy.simps [of "b # xs @ ys"])
qed simp

lemma str_of_bytes_append [simp]: "str_of_bytes (xs @ ys) = str_of_bytes xs @ str_of_bytes ys"
  by (simp add: str_of_bytes_def)

lemma bytes_of_str_append [simp]: "bytes_of_str (xs @ ys) = bytes_of_str xs @ bytes_of_str ys"
  by (simp add: bytes_of_str_def)

text \<open>A slice \<open>&s[i..]\<close> panics unless \<open>i\<close> is at most the length and at a boundary.\<close>

definition is_char_boundary :: "string \<Rightarrow> nat \<Rightarrow> bool" where
  "is_char_boundary s i \<longleftrightarrow>
     i = 0 \<or> i = length s \<or>
     i < length s \<and> \<not> (0x80 \<le> (of_char (s ! i) :: nat) \<and> (of_char (s ! i) :: nat) < 0xC0)"

section \<open>Searching and splitting\<close>

fun find_sub :: "string \<Rightarrow> string \<Rightarrow> nat option" where
  "find_sub p [] = (if p = [] then Some 0 else None)"
| "find_sub p (c # cs) = (if prefix p (c # cs) then Some 0 else map_option Suc (find_sub p cs))"

fun find_char :: "char \<Rightarrow> string \<Rightarrow> nat option" where
  "find_char c [] = None"
| "find_char c (x # xs) = (if x = c then Some 0 else map_option Suc (find_char c xs))"

fun rfind_char :: "char \<Rightarrow> string \<Rightarrow> nat option" where
  "rfind_char c [] = None"
| "rfind_char c (x # xs) =
     (case rfind_char c xs of Some i \<Rightarrow> Some (Suc i)
      | None \<Rightarrow> if x = c then Some 0 else None)"

fun rfind_sub :: "string \<Rightarrow> string \<Rightarrow> nat option" where
  "rfind_sub p [] = (if p = [] then Some 0 else None)"
| "rfind_sub p (c # cs) =
     (case rfind_sub p cs of Some i \<Rightarrow> Some (Suc i)
      | None \<Rightarrow> if prefix p (c # cs) then Some 0 else None)"

fun split_on :: "char \<Rightarrow> string \<Rightarrow> string list" where
  "split_on c [] = [[]]"
| "split_on c (x # xs) =
     (if x = c then [] # split_on c xs
      else case split_on c xs of w # ws \<Rightarrow> (x # w) # ws | [] \<Rightarrow> [[x]])"

fun splitn :: "nat \<Rightarrow> char \<Rightarrow> string \<Rightarrow> string list" where
  "splitn 0 c s = []"
| "splitn (Suc n) c s =
     (if n = 0 then [s]
      else case find_char c s of None \<Rightarrow> [s]
           | Some i \<Rightarrow> take i s # splitn n c (drop (Suc i) s))"

fun join :: "string \<Rightarrow> string list \<Rightarrow> string" where
  "join sep [] = []"
| "join sep [w] = w"
| "join sep (w # v # ws) = w @ sep @ join sep (v # ws)"

definition strip_cr :: "string \<Rightarrow> string" where
  "strip_cr s = (if s \<noteq> [] \<and> last s = CHR 0x0D then butlast s else s)"

text \<open>\<open>str::lines\<close>: a carriage return is dropped only before a line feed.\<close>

definition lines :: "string \<Rightarrow> string list" where
  "lines s =
     (let ps = split_on CHR 0x0A s
      in map strip_cr (butlast ps) @ (if last ps = [] then [] else [last ps]))"

definition strip_prefix :: "string \<Rightarrow> string \<Rightarrow> string option" where
  "strip_prefix p s = (if prefix p s then Some (drop (length p) s) else None)"

lemma find_sub_prefix:
  "find_sub p s = Some i \<Longrightarrow> prefix p (drop i s) \<and> i + length p \<le> length s"
proof (induction p s arbitrary: i rule: find_sub.induct)
  case (2 p c cs)
  then show ?case by (auto split: if_splits dest: prefix_length_le)
qed (auto split: if_splits)

lemma find_char_Some:
  "find_char c s = Some i \<Longrightarrow> i < length s \<and> s ! i = c \<and> c \<notin> set (take i s)"
  by (induction s arbitrary: i) (auto split: if_splits)

lemma find_char_None [simp]: "find_char c s = None \<longleftrightarrow> c \<notin> set s"
  by (induction s) auto

lemma find_char_append:
  "c \<notin> set xs \<Longrightarrow> find_char c (xs @ c # ys) = Some (length xs)"
  by (induction xs) auto

lemma rfind_char_Some:
  "rfind_char c s = Some i \<Longrightarrow> i < length s \<and> s ! i = c \<and> c \<notin> set (drop (Suc i) s)"
proof (induction s arbitrary: i)
  case (Cons x xs)
  have none: "rfind_char c ys = None \<Longrightarrow> c \<notin> set ys" for ys
    by (induction ys) (auto split: option.splits if_splits)
  from Cons show ?case
    by (auto split: option.splits if_splits dest: none)
qed simp

lemma rfind_char_None [simp]: "rfind_char c s = None \<longleftrightarrow> c \<notin> set s"
  by (induction s) (auto split: option.splits)

lemma rfind_char_fresh: "c \<notin> set s \<Longrightarrow> rfind_char c s = None"
  by simp

lemma rfind_char_append:
  "c \<notin> set ys \<Longrightarrow> rfind_char c (xs @ c # ys) = Some (length xs)"
  by (induction xs) (simp_all add: rfind_char_fresh del: rfind_char_None)

lemma split_on_nonempty [simp]: "split_on c s \<noteq> []"
  by (induction s) (auto split: list.splits)

lemma split_on_fresh: "c \<notin> set w \<Longrightarrow> split_on c w = [w]"
  by (induction w) auto

lemma split_on_append:
  "c \<notin> set w \<Longrightarrow> split_on c (w @ c # s) = w # split_on c s"
  by (induction w) auto

lemma split_on_join:
  "ws \<noteq> [] \<Longrightarrow> \<forall>w \<in> set ws. c \<notin> set w \<Longrightarrow> split_on c (join [c] ws) = ws"
  by (induction "[c]" ws rule: join.induct) (simp_all add: split_on_fresh split_on_append)

lemma lines_first:
  assumes "CHR 0x0A \<notin> set l"
  shows "lines (l @ CHR 0x0D # CHR 0x0A # rest) = l # lines rest"
proof -
  have "split_on CHR 0x0A ((l @ [CHR 0x0D]) @ CHR 0x0A # rest) = (l @ [CHR 0x0D]) # split_on CHR 0x0A rest"
    using assms by (intro split_on_append) simp
  then show ?thesis by (simp add: lines_def Let_def strip_cr_def)
qed

lemma set_split_on: "w \<in> set (split_on c s) \<Longrightarrow> c \<notin> set w \<and> set w \<subseteq> set s"
proof (induction s arbitrary: w)
  case (Cons x xs)
  show ?case
  proof (cases "x = c")
    case True
    with Cons show ?thesis by fastforce
  next
    case False
    obtain u us where u: "split_on c xs = u # us"
      by (cases "split_on c xs") auto
    with Cons.prems False have "w = x # u \<or> w \<in> set us" by auto
    with Cons.IH [of u] Cons.IH [of w] u False show ?thesis by auto
  qed
qed simp

section \<open>Trimming\<close>

text \<open>The UTF-8 encodings of the code points with the property \<open>White_Space\<close>.\<close>

definition white_space :: "string list" where
  "white_space =
     [[CHR 0x09], [CHR 0x0A], [CHR 0x0B], [CHR 0x0C], [CHR 0x0D], [CHR 0x20],
      [CHR 0xC2, CHR 0x85], [CHR 0xC2, CHR 0xA0], [CHR 0xE1, CHR 0x9A, CHR 0x80],
      [CHR 0xE2, CHR 0x80, CHR 0x80], [CHR 0xE2, CHR 0x80, CHR 0x81],
      [CHR 0xE2, CHR 0x80, CHR 0x82], [CHR 0xE2, CHR 0x80, CHR 0x83],
      [CHR 0xE2, CHR 0x80, CHR 0x84], [CHR 0xE2, CHR 0x80, CHR 0x85],
      [CHR 0xE2, CHR 0x80, CHR 0x86], [CHR 0xE2, CHR 0x80, CHR 0x87],
      [CHR 0xE2, CHR 0x80, CHR 0x88], [CHR 0xE2, CHR 0x80, CHR 0x89],
      [CHR 0xE2, CHR 0x80, CHR 0x8A], [CHR 0xE2, CHR 0x80, CHR 0xA8],
      [CHR 0xE2, CHR 0x80, CHR 0xA9], [CHR 0xE2, CHR 0x80, CHR 0xAF],
      [CHR 0xE2, CHR 0x81, CHR 0x9F], [CHR 0xE3, CHR 0x80, CHR 0x80]]"

definition ws_len :: "string \<Rightarrow> nat" where
  "ws_len s = (case find (\<lambda>w. prefix w s) white_space of Some w \<Rightarrow> length w | None \<Rightarrow> 0)"

definition ws_len_end :: "string \<Rightarrow> nat" where
  "ws_len_end s = (case find (\<lambda>w. suffix w s) white_space of Some w \<Rightarrow> length w | None \<Rightarrow> 0)"

lemma ws_len_le: "ws_len s \<le> length s" "ws_len_end s \<le> length s"
  by (auto simp: ws_len_def ws_len_end_def find_Some_iff
      split: option.splits dest: prefix_length_le suffix_length_le)

function trim_start :: "string \<Rightarrow> string" where
  "trim_start s = (if ws_len s = 0 then s else trim_start (drop (ws_len s) s))"
  by pat_completeness auto
termination
proof (relation "measure length")
  fix s :: string assume "ws_len s \<noteq> 0"
  then show "(drop (ws_len s) s, s) \<in> measure length"
    using ws_len_le(1) [of s] by auto
qed simp

function trim_end :: "string \<Rightarrow> string" where
  "trim_end s =
     (if ws_len_end s = 0 then s else trim_end (take (length s - ws_len_end s) s))"
  by pat_completeness auto
termination
proof (relation "measure length")
  fix s :: string assume "ws_len_end s \<noteq> 0"
  then show "(take (length s - ws_len_end s) s, s) \<in> measure length"
    using ws_len_le(2) [of s] by auto
qed simp

declare trim_start.simps [simp del] trim_end.simps [simp del]

definition trim :: "string \<Rightarrow> string" where
  "trim s = trim_end (trim_start s)"

function split_ws_acc :: "string \<Rightarrow> string \<Rightarrow> string list" where
  "split_ws_acc cur s =
     (if s = [] then (if cur = [] then [] else [cur])
      else if ws_len s \<noteq> 0 then
        (if cur = [] then [] else [cur]) @ split_ws_acc [] (drop (ws_len s) s)
      else split_ws_acc (cur @ [hd s]) (tl s))"
  by pat_completeness auto
termination
proof (relation "measure (\<lambda>(cur, s). length s)")
  fix cur s :: string assume "s \<noteq> []" "ws_len s \<noteq> 0"
  then show "(([], drop (ws_len s) s), cur, s) \<in> measure (\<lambda>(cur, s). length s)"
    using ws_len_le(1) [of s] by auto
qed auto

declare split_ws_acc.simps [simp del]

definition split_whitespace :: "string \<Rightarrow> string list" where
  "split_whitespace s = split_ws_acc [] s"

definition trim_start_char :: "char \<Rightarrow> string \<Rightarrow> string" where
  "trim_start_char c s = dropWhile ((=) c) s"

definition trim_end_char :: "char \<Rightarrow> string \<Rightarrow> string" where
  "trim_end_char c s = rev (dropWhile ((=) c) (rev s))"

text \<open>Printable ASCII without the space is never white space, at either end.\<close>

definition graphic :: "char \<Rightarrow> bool" where
  "graphic c \<longleftrightarrow> 0x20 < (of_char c :: nat) \<and> (of_char c :: nat) < 0x7F"

lemma white_space_not_graphic:
  "w \<in> set white_space \<Longrightarrow> w \<noteq> [] \<and> \<not> graphic (hd w) \<and> \<not> graphic (last w)"
proof -
  have "list_all (\<lambda>w. w \<noteq> [] \<and> \<not> graphic (hd w) \<and> \<not> graphic (last w)) white_space"
    by code_simp
  then show "w \<in> set white_space \<Longrightarrow> ?thesis" by (simp add: list_all_iff)
qed

lemma ws_len_graphic [simp]: "graphic c \<Longrightarrow> ws_len (c # s) = 0"
proof -
  assume g: "graphic c"
  have "\<not> prefix w (c # s)" if "w \<in> set white_space" for w
    using white_space_not_graphic [OF that] g by (cases w) auto
  then have "find (\<lambda>w. prefix w (c # s)) white_space = None"
    by (simp add: find_None_iff)
  then show ?thesis by (simp add: ws_len_def)
qed

lemma ws_len_Nil [simp]: "ws_len [] = 0" "ws_len_end [] = 0"
  using ws_len_le [of "[]"] by simp_all

lemma ws_len_end_graphic [simp]: "graphic c \<Longrightarrow> ws_len_end (s @ [c]) = 0"
proof -
  assume g: "graphic c"
  have "\<not> suffix w (s @ [c])" if "w \<in> set white_space" for w
  proof
    assume "suffix w (s @ [c])"
    then obtain u where "s @ [c] = u @ w" by (auto simp: suffix_def)
    moreover have "w \<noteq> []" and "\<not> graphic (last w)"
      using white_space_not_graphic [OF that] by auto
    ultimately have "last w = c" by (metis last_snoc last_appendR)
    with \<open>\<not> graphic (last w)\<close> g show False by simp
  qed
  then have "find (\<lambda>w. suffix w (s @ [c])) white_space = None"
    by (simp add: find_None_iff)
  then show ?thesis by (simp add: ws_len_end_def)
qed

lemma trim_start_graphic: "s = [] \<or> graphic (hd s) \<Longrightarrow> trim_start s = s"
  by (subst trim_start.simps, cases s) auto

lemma trim_end_graphic: "s = [] \<or> graphic (last s) \<Longrightarrow> trim_end s = s"
  by (subst trim_end.simps, cases s rule: rev_cases) auto

lemma trim_graphic: "s = [] \<or> graphic (hd s) \<and> graphic (last s) \<Longrightarrow> trim s = s"
  by (auto simp: trim_def trim_start_graphic trim_end_graphic)

lemma split_ws_acc_graphic:
  "\<forall>c \<in> set w. graphic c \<Longrightarrow> split_ws_acc cur (w @ s) = split_ws_acc (cur @ w) s"
proof (induction w arbitrary: cur)
  case (Cons c w)
  then show ?case by (simp add: split_ws_acc.simps [of cur "c # w @ s"])
qed simp

lemma split_ws_acc_space:
  "split_ws_acc cur (CHR 0x20 # s) = (if cur = [] then [] else [cur]) @ split_ws_acc [] s"
proof -
  have "ws_len (CHR 0x20 # s) = 1"
    by (simp add: ws_len_def white_space_def)
  then show ?thesis by (subst split_ws_acc.simps) simp
qed

lemma split_whitespace_spaces:
  "\<forall>w \<in> set ws. w \<noteq> [] \<and> (\<forall>c \<in> set w. graphic c) \<Longrightarrow> split_whitespace (join '' '' ws) = ws"
proof (induction "'' ''" ws rule: join.induct)
  case (2 w)
  then have "split_ws_acc [] (w @ []) = [w]"
    by (subst split_ws_acc_graphic) (auto simp: split_ws_acc.simps)
  then show ?case by (simp add: split_whitespace_def)
next
  case (3 w v ws)
  then show ?case
    by (simp add: split_whitespace_def split_ws_acc_graphic split_ws_acc_space)
qed (simp add: split_whitespace_def split_ws_acc.simps)

section \<open>Decimal numbers\<close>

definition digit_char :: "nat \<Rightarrow> char" where
  "digit_char d = char_of (48 + d)"

fun show_nat :: "nat \<Rightarrow> string" where
  "show_nat n = (if n < 10 then [digit_char n] else show_nat (n div 10) @ [digit_char (n mod 10)])"

declare show_nat.simps [simp del]

text \<open>A byte as two upper-case hexadecimal digits.\<close>

definition upper_hex2 :: "u8 \<Rightarrow> string" where
  "upper_hex2 b =
     (let d = (\<lambda>n. if n < 10 then char_of (48 + n) else char_of (55 + n)) in [d (unat b div 16), d (unat b mod 16)])"

definition is_digit :: "char \<Rightarrow> bool" where
  "is_digit c \<longleftrightarrow> 48 \<le> (of_char c :: nat) \<and> (of_char c :: nat) \<le> 57"

definition digit_val :: "char \<Rightarrow> nat" where
  "digit_val c = of_char c - 48"

definition digits_val :: "string \<Rightarrow> nat" where
  "digits_val s = foldl (\<lambda>n c. 10 * n + digit_val c) 0 s"

text \<open>\<open>str::parse\<close> to an unsigned integer whose largest value is \<open>mx\<close>: one leading plus sign.\<close>

definition parse_uint :: "nat \<Rightarrow> string \<Rightarrow> nat option" where
  "parse_uint mx s =
     (let ds = (case s of c # r \<Rightarrow> if c = CHR ''+'' then r else s | [] \<Rightarrow> [])
      in if ds = [] \<or> \<not> list_all is_digit ds then None
         else if digits_val ds \<le> mx then Some (digits_val ds) else None)"

lemma digit_char_props:
  "d < 10 \<Longrightarrow> is_digit (digit_char d) \<and> digit_val (digit_char d) = d \<and> graphic (digit_char d)"
  by (simp add: is_digit_def digit_val_def digit_char_def graphic_def)

lemma show_nat_digits: "list_all is_digit (show_nat n) \<and> show_nat n \<noteq> []"
proof (induction n rule: show_nat.induct)
  case (1 n)
  then show ?case by (simp add: show_nat.simps [of n] digit_char_props)
qed

lemma digits_val_snoc: "digits_val (s @ [c]) = 10 * digits_val s + digit_val c"
  by (simp add: digits_val_def)

lemma digits_val_show: "digits_val (show_nat n) = n"
proof (induction n rule: show_nat.induct)
  case (1 n)
  show ?case
  proof (cases "n < 10")
    case True
    then show ?thesis
      using digits_val_snoc [of "[]" "digit_char n"]
      by (simp add: show_nat.simps [of n] digit_char_props digits_val_def)
  next
    case False
    with 1 show ?thesis
      by (simp add: show_nat.simps [of n] digits_val_snoc digit_char_props)
  qed
qed

lemma is_digit_graphic: "is_digit c \<Longrightarrow> graphic c"
  by (simp add: is_digit_def graphic_def)

lemma show_nat_not: "\<not> is_digit c \<Longrightarrow> c \<notin> set (show_nat n)"
  using show_nat_digits [of n] by (auto simp: list_all_iff)

lemma parse_uint_show [simp]: "n \<le> mx \<Longrightarrow> parse_uint mx (show_nat n) = Some n"
proof -
  assume "n \<le> mx"
  have "\<not> is_digit (CHR ''+'')" by (simp add: is_digit_def)
  then have "hd (show_nat n) \<noteq> CHR ''+''"
    using show_nat_digits [of n] by (metis hd_in_set list_all_iff)
  with \<open>n \<le> mx\<close> show ?thesis
    using show_nat_digits [of n]
    by (cases "show_nat n") (auto simp: parse_uint_def Let_def digits_val_show list_all_iff split: if_splits dest: sym)
qed

lemma parse_uint_bound: "parse_uint mx s = Some n \<Longrightarrow> n \<le> mx"
  by (auto simp: parse_uint_def Let_def split: if_splits)

end
