(* ===== verification/Net.thy ===== *)
theory Net
  imports RustText
begin

text \<open>
  Connections.  A socket is what the peer will send, as the list of segments the successive
  \<open>read\<close> calls return (an empty segment, or the end of the list, is the end of the stream), the
  bytes written to it so far, and how many further non-empty writes succeed before the peer is
  gone.  Handlers are functions on this state that return a result; \<open>io_bind\<close> is sequencing with
  the early return of the \<open>?\<close> operator.
\<close>

section \<open>Sockets\<close>

datatype io_error = UnexpectedEof | BrokenPipe | AddrInUse | OtherIo string

record sock =
  rx :: "bytes list"
  tx :: bytes
  writes_left :: nat

type_synonym ('s, 'e, 'a) io = "'s \<Rightarrow> ('e + 'a) \<times> 's"

definition io_ret :: "'a \<Rightarrow> ('s, 'e, 'a) io" where
  "io_ret x s = (Inr x, s)"

definition io_err :: "'e \<Rightarrow> ('s, 'e, 'a) io" where
  "io_err e s = (Inl e, s)"

definition io_bind :: "('s, 'e, 'a) io \<Rightarrow> ('a \<Rightarrow> ('s, 'e, 'b) io) \<Rightarrow> ('s, 'e, 'b) io" where
  "io_bind m k s = (case m s of (Inl e, s') \<Rightarrow> (Inl e, s') | (Inr x, s') \<Rightarrow> k x s')"

definition io_map_err :: "('e \<Rightarrow> 'f) \<Rightarrow> ('s, 'e, 'a) io \<Rightarrow> ('s, 'f, 'a) io" where
  "io_map_err f m s = (case m s of (r, s') \<Rightarrow> (map_err f r, s'))"

text \<open>The bytes that can still be read.\<close>

definition avail :: "bytes list \<Rightarrow> bytes" where
  "avail ss = concat (takeWhile (\<lambda>s. s \<noteq> []) ss)"

fun take_exact :: "nat \<Rightarrow> bytes list \<Rightarrow> bytes option \<times> bytes list" where
  "take_exact n [] = (if n = 0 then (Some [], []) else (None, []))"
| "take_exact n (s # ss) =
     (if n = 0 then (Some [], s # ss)
      else if s = [] then (None, s # ss)
      else if n < length s then (Some (take n s), drop n s # ss)
      else (case take_exact (n - length s) ss of
              (Some r, rest) \<Rightarrow> (Some (s @ r), rest)
            | (None, rest) \<Rightarrow> (None, rest)))"

definition read_exact :: "nat \<Rightarrow> (sock, io_error, bytes) io" where
  "read_exact n sk =
     (case take_exact n (rx sk) of
        (Some bs, rest) \<Rightarrow> (Inr bs, sk\<lparr>rx := rest\<rparr>)
      | (None, rest) \<Rightarrow> (Inl UnexpectedEof, sk\<lparr>rx := rest\<rparr>))"

text \<open>One \<open>read\<close> into a buffer of \<open>cap\<close> bytes; zero bytes is the end of the stream.\<close>

definition read_some :: "nat \<Rightarrow> (sock, io_error, bytes) io" where
  "read_some cap sk =
     (case rx sk of
        [] \<Rightarrow> (Inr [], sk)
      | s # ss \<Rightarrow>
          if length s \<le> cap \<and> s \<noteq> [] then (Inr s, sk\<lparr>rx := ss\<rparr>)
          else (Inr (take cap s), sk\<lparr>rx := drop cap s # ss\<rparr>))"

definition write_all :: "bytes \<Rightarrow> (sock, io_error, unit) io" where
  "write_all bs sk =
     (if bs = [] then (Inr (), sk)
      else case writes_left sk of
             0 \<Rightarrow> (Inl BrokenPipe, sk)
           | Suc k \<Rightarrow> (Inr (), sk\<lparr>tx := tx sk @ bs, writes_left := k\<rparr>))"

lemmas io_simps = io_ret_def io_err_def io_bind_def io_map_err_def

lemma avail_Nil [simp]: "avail [] = []"
  by (simp add: avail_def)

lemma avail_Cons: "avail (s # ss) = (if s = [] then [] else s @ avail ss)"
  by (simp add: avail_def)

lemma take_exact_Some:
  "n \<le> length (avail ss) \<Longrightarrow>
   \<exists>rest. take_exact n ss = (Some (take n (avail ss)), rest) \<and> avail rest = drop n (avail ss)"
proof (induction n ss rule: take_exact.induct)
  case (2 n s ss)
  show ?case
  proof (cases "n = 0 \<or> n < length s")
    case True
    with 2(2) show ?thesis by (auto simp: avail_Cons split: if_splits)
  next
    case False
    with 2(2) have s: "s \<noteq> []" "n - length s \<le> length (avail ss)"
      by (auto simp: avail_Cons split: if_splits)
    with 2(1) False obtain rest where
      "take_exact (n - length s) ss = (Some (take (n - length s) (avail ss)), rest)"
      "avail rest = drop (n - length s) (avail ss)"
      by auto
    with s False show ?thesis by (auto simp: avail_Cons)
  qed
qed simp

lemma take_exact_None:
  "length (avail ss) < n \<Longrightarrow> fst (take_exact n ss) = None"
proof (induction n ss rule: take_exact.induct)
  case (2 n s ss)
  then show ?case
    by (cases "take_exact (n - length s) ss") (auto simp: avail_Cons split: if_splits option.splits)
qed simp

text \<open>Reading in two portions is reading at once.\<close>

lemma take_exact_0: "take_exact 0 ss = (Some [], ss)"
  by (cases ss) simp_all

lemma take_exact_short:
  "n \<noteq> 0 \<Longrightarrow> n < length s \<Longrightarrow> take_exact n (s # ss) = (Some (take n s), drop n s # ss)"
  by auto

lemma take_exact_long:
  "s \<noteq> [] \<Longrightarrow> length s \<le> n \<Longrightarrow> take_exact n (s # ss) =
     (case take_exact (n - length s) ss of
        (Some r, rest) \<Rightarrow> (Some (s @ r), rest) | (None, rest) \<Rightarrow> (None, rest))"
  by auto

lemma take_exact_add:
  "take_exact (m + n) ss =
     (case take_exact m ss of
        (None, r) \<Rightarrow> (None, r)
      | (Some d, r) \<Rightarrow> (case take_exact n r of (None, r') \<Rightarrow> (None, r') | (Some e, r') \<Rightarrow> (Some (d @ e), r')))"
proof (induction m ss arbitrary: n rule: take_exact.induct)
  case (1 m)
  show ?case by (cases "m = 0"; cases "n = 0") simp_all
next
  case (2 m s ss)
  consider "m = 0" | "m \<noteq> 0" "s = []" | "m \<noteq> 0" "n = 0" | "m \<noteq> 0" "n \<noteq> 0" "s \<noteq> []" "m + n < length s"
    | "m \<noteq> 0" "n \<noteq> 0" "m < length s" "length s \<le> m + n" | "m \<noteq> 0" "s \<noteq> []" "length s \<le> m"
    by linarith
  then show ?case
  proof cases
    case 1
    then show ?thesis
      by (cases "take_exact n (s # ss)")
        (simp add: take_exact_0 del: take_exact.simps split: option.split)
  next
    case 2
    then show ?thesis by simp
  next
    case 3
    then show ?thesis
      by (cases "take_exact m (s # ss)")
        (simp add: take_exact_0 del: take_exact.simps split: option.split)
  next
    case 4
    then show ?thesis by (simp add: take_exact_short take_add add.commute del: take_exact.simps)
  next
    case 5
    then have eq: "m + n - length s = n - length (drop m s)" by simp
    from 5 have s: "take m s @ drop m s = s" "drop m s \<noteq> []" "length (drop m s) \<le> n" "s \<noteq> []"
      by auto
    have "length s \<le> m + n" by fact
    obtain e r where er: "take_exact (n - length (drop m s)) ss = (e, r)" by fastforce
    have "take_exact m (s # ss) = (Some (take m s), drop m s # ss)"
      using 5 by (intro take_exact_short) auto
    moreover have "take_exact n (drop m s # ss) =
        (case e of Some r0 \<Rightarrow> (Some (drop m s @ r0), r) | None \<Rightarrow> (None, r))"
      unfolding take_exact_long [OF s(2,3)] er by (cases e) simp_all
    moreover have "take_exact (m + n) (s # ss) = (case e of Some r0 \<Rightarrow> (Some (s @ r0), r) | None \<Rightarrow> (None, r))"
      unfolding take_exact_long [OF s(4) \<open>length s \<le> m + n\<close>] eq er by (cases e) simp_all
    ultimately show ?thesis
      by (cases e) (simp_all add: s(1) flip: append_assoc del: take_exact.simps)
  next
    case 6
    then have eq: "m + n - length s = (m - length s) + n" by simp
    obtain d r where dr: "take_exact (m - length s) ss = (d, r)" by fastforce
    obtain e r' where er: "take_exact n r = (e, r')" by fastforce
    have ih: "take_exact (m - length s + n) ss =
        (case take_exact (m - length s) ss of
           (None, r) \<Rightarrow> (None, r)
         | (Some d, r) \<Rightarrow> (case take_exact n r of (None, r') \<Rightarrow> (None, r') | (Some e, r') \<Rightarrow> (Some (d @ e), r')))"
      by (rule "2.IH") (use 6 in auto)
    have "take_exact (m - length s + n) ss =
        (case d of None \<Rightarrow> (None, r) | Some x \<Rightarrow> (case e of None \<Rightarrow> (None, r') | Some y \<Rightarrow> (Some (x @ y), r')))"
      unfolding ih dr prod.case er by (cases d; cases e; simp add: er)
    moreover have "take_exact m (s # ss) = (case d of Some r0 \<Rightarrow> (Some (s @ r0), r) | None \<Rightarrow> (None, r))"
      unfolding take_exact_long [OF 6(2,3)] dr by (cases d) simp_all
    moreover have "length s \<le> m + n" using 6(3) by simp
    ultimately show ?thesis
      unfolding take_exact_long [OF 6(2) \<open>length s \<le> m + n\<close>] eq
      by (cases d; cases e) (simp_all add: er del: take_exact.simps)
  qed
qed

lemma read_exact_ok:
  assumes "n \<le> length (avail (rx sk))"
  obtains rest where
    "read_exact n sk = (Inr (take n (avail (rx sk))), sk\<lparr>rx := rest\<rparr>)"
    "avail rest = drop n (avail (rx sk))"
  using take_exact_Some [OF assms] by (auto simp: read_exact_def)

lemma read_exact_eof:
  "length (avail (rx sk)) < n \<Longrightarrow> fst (read_exact n sk) = Inl UnexpectedEof"
  using take_exact_None [of "rx sk" n]
  by (cases "take_exact n (rx sk)") (auto simp: read_exact_def)

lemma read_exact_frame:
  "tx (snd (read_exact n sk)) = tx sk" "writes_left (snd (read_exact n sk)) = writes_left sk"
  by (auto simp: read_exact_def split: prod.splits option.splits)

lemma read_exact_cases:
  obtains (eof) rest where "read_exact n sk = (Inl UnexpectedEof, sk\<lparr>rx := rest\<rparr>)"
      "length (avail (rx sk)) < n"
    | (full) rest where "read_exact n sk = (Inr (take n (avail (rx sk))), sk\<lparr>rx := rest\<rparr>)"
      "avail rest = drop n (avail (rx sk))" "n \<le> length (avail (rx sk))"
proof (cases "n \<le> length (avail (rx sk))")
  case True
  then obtain rest where "read_exact n sk = (Inr (take n (avail (rx sk))), sk\<lparr>rx := rest\<rparr>)"
    "avail rest = drop n (avail (rx sk))"
    by (rule read_exact_ok)
  then show ?thesis using True by (rule full)
next
  case False
  then have "fst (read_exact n sk) = Inl UnexpectedEof"
    by (simp add: read_exact_eof)
  then obtain rest where "read_exact n sk = (Inl UnexpectedEof, sk\<lparr>rx := rest\<rparr>)"
    by (auto simp: read_exact_def split: prod.splits option.splits)
  with False show ?thesis by (auto intro: eof)
qed

section \<open>Reading a stream of messages\<close>

fun read_many :: "('s \<Rightarrow> ('a \<times> 's) option) \<Rightarrow> nat \<Rightarrow> 's \<Rightarrow> ('a list \<times> 's) option" where
  "read_many get 0 s = Some ([], s)"
| "read_many get (Suc n) s =
     (case get s of None \<Rightarrow> None
      | Some (x, s') \<Rightarrow> map_option (\<lambda>(xs, t). (x # xs, t)) (read_many get n s'))"

text \<open>
  The contract of a self-delimiting encoding: a reader at a point of the stream where one encoded
  message starts returns that message and stops right after it.
\<close>

locale framing =
  fixes valid :: "'a \<Rightarrow> bool"
    and enc :: "'a \<Rightarrow> bytes"
    and get :: "'s \<Rightarrow> ('a \<times> 's) option"
    and view :: "'s \<Rightarrow> bytes"
  assumes get_enc: "valid x \<Longrightarrow> view s = enc x @ rest \<Longrightarrow> \<exists>s'. get s = Some (x, s') \<and> view s' = rest"
begin

lemma read_many_enc:
  "\<forall>x \<in> set xs. valid x \<Longrightarrow> view s = concat (map enc xs) @ rest \<Longrightarrow>
   \<exists>s'. read_many get (length xs) s = Some (xs, s') \<and> view s' = rest"
proof (induction xs arbitrary: s)
  case (Cons x xs)
  then obtain t where t: "get s = Some (x, t)" "view t = concat (map enc xs) @ rest"
    using get_enc [of x s "concat (map enc xs) @ rest"] by auto
  moreover obtain s' where "read_many get (length xs) t = Some (xs, s')" "view s' = rest"
    using Cons.IH [of t] Cons.prems(1) t(2) by auto
  ultimately show ?case by simp
qed simp

lemma enc_uniquely_decodable:
  assumes xs: "\<forall>x \<in> set xs. valid x" and ys: "\<forall>y \<in> set ys. valid y"
    and len: "length xs = length ys"
    and eq: "concat (map enc xs) = concat (map enc ys)" and s: "view s = concat (map enc xs)"
  shows "xs = ys"
proof -
  obtain t where "read_many get (length xs) s = Some (xs, t)"
    using read_many_enc [OF xs, of s "[]"] s by auto
  moreover obtain u where "read_many get (length ys) s = Some (ys, u)"
    using read_many_enc [OF ys, of s "[]"] s eq by auto
  ultimately have "Some (xs, t) = Some (ys, u)"
    by (simp only: len)
  then show ?thesis by blast
qed

end

end
