(* ===== verification/Errors.thy ===== *)
theory Errors
  imports Net
begin

text \<open>
  \<open>crates/core/src/error.rs\<close>: the error codes sent to the user interface, the internal error type
  of the core library and its translation.  The payloads that are errors of other libraries
  (\<open>serde_json::Error\<close>, \<open>rusqlite::Error\<close>) are carried as their display text.
\<close>

datatype ErrorCode =
    PortConflict | AuthFailed | SshConnectFailed | SshDisconnected | HostKeyMismatch
  | ConfigCorrupt | ConfigMigrationFailed | CredentialNotFound | CredentialStoreFailed
  | TemplateNotFound | TriggerNotFound | ServerNotFound | ProxyPortInUse | NeedsPrivilege
  | ImportFailed | DecryptionFailed | TriggerCommandFailed | Internal | InvalidParams

datatype IpcError = IpcError (err_code: ErrorCode) (err_detail: string)

datatype Error =
    Ipc IpcError
  | Ssh string
  | Io io_error
  | Config string
  | Crypto string
  | Serde string
  | Sqlite string
  | Other string

definition ipc_err :: "ErrorCode \<Rightarrow> string \<Rightarrow> Error" where
  "ipc_err c d = Ipc (IpcError c d)"

text \<open>The display text of an I/O error is the operating system's; \<open>show_io\<close> stands for it.\<close>

fun to_ipc :: "(io_error \<Rightarrow> string) \<Rightarrow> Error \<Rightarrow> IpcError" where
  "to_ipc show_io (Ipc ipc) = ipc"
| "to_ipc show_io (Ssh msg) = IpcError SshConnectFailed msg"
| "to_ipc show_io (Io e) = IpcError Internal (show_io e)"
| "to_ipc show_io (Config msg) = IpcError ConfigCorrupt msg"
| "to_ipc show_io (Crypto msg) = IpcError DecryptionFailed msg"
| "to_ipc show_io (Serde e) = IpcError ImportFailed e"
| "to_ipc show_io (Sqlite e) = IpcError Internal e"
| "to_ipc show_io (Other msg) = IpcError Internal msg"

text \<open>Translating twice is translating once: an error that crossed the boundary is stable.\<close>

lemma to_ipc_idem: "to_ipc show_io (Ipc (to_ipc show_io e)) = to_ipc show_io e"
  by simp

end
