(* ===== verification/IpcFrames.thy ===== *)
theory IpcFrames
  imports Net
begin

text \<open>
  \<open>crates/daemon/src/frame.rs\<close>: the length-prefixed frames of the local IPC connection, and the
  JSON layer on top of them.  The JSON library is a parameter (\<open>to_vec\<close>, \<open>from_slice\<close>).  Flushing
  a TCP, Unix or named-pipe stream is a no-op in tokio and is left out.
\<close>

datatype frame_error = FrameTooLarge nat | FrameIo io_error | FrameJson string

definition MAX_FRAME_SIZE :: nat where
  "MAX_FRAME_SIZE = 1024 * 1024"

definition write_frame :: "bytes \<Rightarrow> (sock, frame_error, unit) io" where
  "write_frame data =
     (if length data > MAX_FRAME_SIZE then io_err (FrameTooLarge (length data))
      else io_bind (io_map_err FrameIo (write_all (be32 (len_u32 data)))) (\<lambda>_.
           io_map_err FrameIo (write_all data)))"

definition len_of_header :: "bytes \<Rightarrow> nat" where
  "len_of_header hdr =
     (case hdr of [a, b, c, d] \<Rightarrow> unat (of_be32 a b c d) | _ \<Rightarrow> 0)"

definition read_frame :: "(sock, frame_error, bytes) io" where
  "read_frame =
     io_bind (io_map_err FrameIo (read_exact 4)) (\<lambda>hdr.
       let len = len_of_header hdr in
       if len > MAX_FRAME_SIZE then io_err (FrameTooLarge len)
       else io_map_err FrameIo (read_exact len))"

definition write_json :: "('v \<Rightarrow> string + bytes) \<Rightarrow> 'v \<Rightarrow> (sock, frame_error, unit) io" where
  "write_json to_vec v =
     (case to_vec v of Inl e \<Rightarrow> io_err (FrameJson e) | Inr data \<Rightarrow> write_frame data)"

definition read_json :: "(bytes \<Rightarrow> string + 'v) \<Rightarrow> (sock, frame_error, 'v) io" where
  "read_json from_slice =
     io_bind read_frame (\<lambda>data.
       case from_slice data of Inl e \<Rightarrow> io_err (FrameJson e) | Inr v \<Rightarrow> io_ret v)"

section \<open>Correctness\<close>

text \<open>The bytes one frame puts on the wire, and the frames that can be written.\<close>

definition frame_bytes :: "bytes \<Rightarrow> bytes" where
  "frame_bytes data = be32 (len_u32 data) @ data"

definition frame_valid :: "bytes \<Rightarrow> bool" where
  "frame_valid data \<longleftrightarrow> length data \<le> MAX_FRAME_SIZE"

lemma frame_valid_u32: "frame_valid data \<Longrightarrow> length data < 2 ^ 32"
  by (simp add: frame_valid_def MAX_FRAME_SIZE_def)

lemma len_of_header_be32: "length data < 2 ^ 32 \<Longrightarrow> len_of_header (be32 (len_u32 data)) = length data"
  by (simp add: len_of_header_def be32_def of_be32_be32 unat_len_u32)

lemma write_frame_tx:
  "frame_valid data \<Longrightarrow> 2 \<le> writes_left sk \<Longrightarrow>
   write_frame data sk =
     (Inr (), sk\<lparr>tx := tx sk @ frame_bytes data,
                 writes_left := writes_left sk - (if data = [] then 1 else 2)\<rparr>)"
  by (auto simp: write_frame_def frame_valid_def frame_bytes_def io_simps write_all_def be32_def
      split: nat.splits)

lemma read_frame_enc:
  assumes "frame_valid data" "avail (rx sk) = frame_bytes data @ rest"
  obtains rest' where "read_frame sk = (Inr data, sk\<lparr>rx := rest'\<rparr>)" "avail rest' = rest"
proof -
  have "4 \<le> length (avail (rx sk))"
    by (simp add: assms frame_bytes_def)
  then obtain r1 where r1: "read_exact 4 sk = (Inr (take 4 (avail (rx sk))), sk\<lparr>rx := r1\<rparr>)"
    "avail r1 = drop 4 (avail (rx sk))"
    by (rule read_exact_ok)
  have hdr: "take 4 (avail (rx sk)) = be32 (len_u32 data)" and a1: "avail r1 = data @ rest"
    using r1(2) by (simp_all add: assms frame_bytes_def)
  have "length data \<le> length (avail (rx (sk\<lparr>rx := r1\<rparr>)))"
    by (simp add: a1)
  then obtain r2 where r2: "read_exact (length data) (sk\<lparr>rx := r1\<rparr>) = (Inr data, sk\<lparr>rx := r2\<rparr>)"
    "avail r2 = rest"
    by (rule read_exact_ok) (simp add: a1)
  have "read_frame sk = (Inr data, sk\<lparr>rx := r2\<rparr>)"
    using assms(1) frame_valid_u32 [OF assms(1)] r1(1) r2(1) hdr
    by (simp add: read_frame_def io_simps len_of_header_be32 frame_valid_def)
  then show ?thesis using r2(2) by (rule that)
qed

definition get_frame :: "sock \<Rightarrow> (bytes \<times> sock) option" where
  "get_frame sk = (case read_frame sk of (Inr d, sk') \<Rightarrow> Some (d, sk') | (Inl e, sk') \<Rightarrow> None)"

interpretation ipc: framing frame_valid frame_bytes get_frame "\<lambda>sk. avail (rx sk)"
proof
  fix x :: bytes and s :: sock and rest :: bytes
  assume "frame_valid x" "avail (rx s) = frame_bytes x @ rest"
  then show "\<exists>s'. get_frame s = Some (x, s') \<and> avail (rx s') = rest"
    by (rule read_frame_enc) (simp add: get_frame_def)
qed

text \<open>
  C1. A frame written to a connection is read back unchanged, whatever the segments in which the
  network delivers it, and the reader stops exactly at its end: for any list of frames within the
  size limit, the bytes the writer produced are read as exactly those frames, leaving exactly what
  follows.
\<close>

theorem frames_round_trip:
  assumes "\<forall>d \<in> set ds. length d \<le> MAX_FRAME_SIZE"
    and "avail (rx sk) = concat (map (\<lambda>d. tx (snd (write_frame d \<lparr>rx = [], tx = [], writes_left = 2\<rparr>))) ds) @ rest"
  shows "\<exists>sk'. read_many get_frame (length ds) sk = Some (ds, sk') \<and> avail (rx sk') = rest"
proof -
  have "map (\<lambda>d. tx (snd (write_frame d \<lparr>rx = [], tx = [], writes_left = 2\<rparr>))) ds = map frame_bytes ds"
    using assms(1) by (simp add: write_frame_tx frame_valid_def)
  with assms(2) have "avail (rx sk) = concat (map frame_bytes ds) @ rest"
    by (simp only:)
  moreover have "\<forall>d \<in> set ds. frame_valid d"
    using assms(1) by (simp add: frame_valid_def)
  ultimately show ?thesis by (intro ipc.read_many_enc)
qed

theorem frames_round_trip_witness:
  "\<exists>sk'. read_many get_frame (length [[7 :: u8], []]) \<lparr>rx = [[0, 0], [0, 1, 7, 0, 0], [0, 0, 9]], tx = [], writes_left = 0\<rparr>
     = Some ([[7], []], sk') \<and> avail (rx sk') = [9]"
proof -
  let ?sk = "\<lparr>rx = [[0, 0], [0, 1, 7, 0, 0], [0, 0, 9]], tx = [], writes_left = 0\<rparr>"
  have valid: "\<forall>d \<in> set [[7], []]. length d \<le> MAX_FRAME_SIZE"
    by (simp add: MAX_FRAME_SIZE_def)
  have stream: "avail (rx ?sk) =
      concat (map (\<lambda>d. tx (snd (write_frame d \<lparr>rx = [], tx = [], writes_left = 2\<rparr>))) [[7], []]) @ [9]"
    by (simp add: write_frame_tx frame_valid_def frame_bytes_def MAX_FRAME_SIZE_def avail_Cons
        len_u32_def be32_def)
  show ?thesis by (rule frames_round_trip [OF valid stream])
qed

text \<open>
  The size limit is enforced on both sides: a writer refuses a larger frame before sending a
  byte of it, and a reader whose peer announces a larger frame fails with the announced length
  after reading only the four header bytes, so no payload is buffered.
\<close>

theorem oversized_frames_refused:
  assumes "MAX_FRAME_SIZE < n" "n < 2 ^ 32"
    and "avail (rx sk) = be32 (word_of_nat n) @ rest"
  shows "(length data = n \<longrightarrow> write_frame data sk = (Inl (FrameTooLarge n), sk))
    \<and> fst (read_frame sk) = Inl (FrameTooLarge n)
    \<and> avail (rx (snd (read_frame sk))) = rest"
proof -
  have "4 \<le> length (avail (rx sk))"
    by (simp add: assms(3))
  then obtain r1 where r1: "read_exact 4 sk = (Inr (take 4 (avail (rx sk))), sk\<lparr>rx := r1\<rparr>)"
    "avail r1 = drop 4 (avail (rx sk))"
    by (rule read_exact_ok)
  have "len_of_header (be32 (word_of_nat n)) = n"
    using assms(2) by (simp add: len_of_header_def be32_def of_be32_be32 unat_of_nat)
  then have "read_frame sk = (Inl (FrameTooLarge n), sk\<lparr>rx := r1\<rparr>)"
    using assms r1 by (simp add: read_frame_def io_simps)
  moreover have "avail r1 = rest"
    using r1(2) by (simp add: assms(3))
  ultimately show ?thesis
    using assms(1) by (auto simp: write_frame_def io_simps)
qed

theorem oversized_frames_refused_witness:
  "fst (read_frame \<lparr>rx = [[0xFF, 0xFF, 0xFF, 0xFF, 1]], tx = [], writes_left = 0\<rparr>)
     = Inl (FrameTooLarge 4294967295)"
proof -
  have lim: "MAX_FRAME_SIZE < 4294967295" "(4294967295 :: nat) < 2 ^ 32"
    by (simp_all add: MAX_FRAME_SIZE_def)
  have "avail (rx \<lparr>rx = [[0xFF, 0xFF, 0xFF, 0xFF, 1]], tx = [], writes_left = 0\<rparr>)
      = be32 (word_of_nat 4294967295) @ [1]"
    by (simp add: avail_Cons be32_def)
  from oversized_frames_refused [OF lim this] show ?thesis by simp
qed

text \<open>The JSON layer adds nothing to the wire and inherits the round trip.\<close>

lemma read_json_written:
  assumes "to_vec v = Inr data" "from_slice data = Inr v" "frame_valid data"
    and "avail (rx sk) = frame_bytes data @ rest"
  obtains sk' where "read_json from_slice sk = (Inr v, sk')" "avail (rx sk') = rest"
proof -
  obtain r where r: "read_frame sk = (Inr data, sk\<lparr>rx := r\<rparr>)" "avail r = rest"
    using assms(3,4) by (rule read_frame_enc)
  have "read_json from_slice sk = (Inr v, sk\<lparr>rx := r\<rparr>)"
    by (simp add: read_json_def io_simps assms(2) r(1))
  then show ?thesis by (rule that) (simp add: r(2))
qed

end
