(* ===== verification/RemoteFrame.thy ===== *)
theory RemoteFrame
  imports RustText
begin

text \<open>
  \<open>crates/daemon/src/remote_frame.rs\<close>: the frames exchanged with a paired device, their
  constructors, wire format and payload parsers, and the ring buffer that keeps a terminal's
  history.  JSON payloads built with \<open>serde_json::json!\<close> are given by parameters from the fields to
  the text.
\<close>

section \<open>Frames\<close>

definition PROTOCOL_VERSION :: u8 where "PROTOCOL_VERSION = 1"
definition MAX_OUTPUT_DATA :: nat where "MAX_OUTPUT_DATA = 65536"
definition MAX_HISTORY_DATA :: nat where "MAX_HISTORY_DATA = 65531"

definition HELLO :: u8 where "HELLO = 0x00"
definition LIST_REQUEST :: u8 where "LIST_REQUEST = 0x01"
definition LIST_RESPONSE :: u8 where "LIST_RESPONSE = 0x02"
definition SUBSCRIBE :: u8 where "SUBSCRIBE = 0x03"
definition UNSUBSCRIBE :: u8 where "UNSUBSCRIBE = 0x04"
definition OUTPUT :: u8 where "OUTPUT = 0x05"
definition INPUT :: u8 where "INPUT = 0x06"
definition RESIZE :: u8 where "RESIZE = 0x07"
definition GOODBYE :: u8 where "GOODBYE = 0x08"
definition ERROR :: u8 where "ERROR = 0x09"
definition HISTORY :: u8 where "HISTORY = 0x0A"
definition REDRAW_REQUEST :: u8 where "REDRAW_REQUEST = 0x0B"
definition NOTIFY :: u8 where "NOTIFY = 0x0C"
definition FRAME_OK :: u8 where "FRAME_OK = 0x0D"
definition INPUT_ANSWER :: u8 where "INPUT_ANSWER = 0x0E"
definition QUESTION_RESOLVED :: u8 where "QUESTION_RESOLVED = 0x0F"
definition FILE_REQUEST :: u8 where "FILE_REQUEST = 0x10"
definition DESKTOP_PAIR :: u8 where "DESKTOP_PAIR = 0x11"
definition INFO_REQUEST :: u8 where "INFO_REQUEST = 0x12"
definition INFO_RESPONSE :: u8 where "INFO_RESPONSE = 0x13"
definition NEW_TERMINAL :: u8 where "NEW_TERMINAL = 0x14"
definition CLOSE_TERMINAL :: u8 where "CLOSE_TERMINAL = 0x15"
definition TRIGGER_LIST_REQUEST :: u8 where "TRIGGER_LIST_REQUEST = 0x16"
definition TRIGGER_LIST_RESPONSE :: u8 where "TRIGGER_LIST_RESPONSE = 0x17"
definition TRIGGER_EXEC :: u8 where "TRIGGER_EXEC = 0x18"
definition TRIGGER_EXEC_RESULT :: u8 where "TRIGGER_EXEC_RESULT = 0x19"
definition TRIGGER_ADD :: u8 where "TRIGGER_ADD = 0x1A"
definition TRIGGER_UPDATE :: u8 where "TRIGGER_UPDATE = 0x1B"
definition TRIGGER_REMOVE :: u8 where "TRIGGER_REMOVE = 0x1C"

lemmas frame_types =
  HELLO_def LIST_REQUEST_def LIST_RESPONSE_def SUBSCRIBE_def UNSUBSCRIBE_def OUTPUT_def INPUT_def
  RESIZE_def GOODBYE_def ERROR_def HISTORY_def REDRAW_REQUEST_def NOTIFY_def FRAME_OK_def
  INPUT_ANSWER_def QUESTION_RESOLVED_def FILE_REQUEST_def DESKTOP_PAIR_def INFO_REQUEST_def
  INFO_RESPONSE_def NEW_TERMINAL_def CLOSE_TERMINAL_def TRIGGER_LIST_REQUEST_def
  TRIGGER_LIST_RESPONSE_def TRIGGER_EXEC_def TRIGGER_EXEC_RESULT_def TRIGGER_ADD_def
  TRIGGER_UPDATE_def TRIGGER_REMOVE_def

record Frame =
  version :: u8
  frame_type :: u8
  terminal_id :: u32
  payload :: bytes
  compressed_flag :: bool

definition frame_new :: "u8 \<Rightarrow> u32 \<Rightarrow> bytes \<Rightarrow> Frame" where
  "frame_new ty tid p =
     \<lparr>version = PROTOCOL_VERSION, frame_type = ty, terminal_id = tid, payload = p,
      compressed_flag = False\<rparr>"

definition hello_frame :: "u16 \<Rightarrow> bytes \<Rightarrow> Frame" where
  "hello_frame capabilities random = frame_new HELLO 0 (be16 capabilities @ random)"

definition list_request_frame :: Frame where
  "list_request_frame = frame_new LIST_REQUEST 0 []"

definition list_response_frame :: "u32 \<Rightarrow> string \<Rightarrow> Frame" where
  "list_response_frame tid json = frame_new LIST_RESPONSE tid (bytes_of_str json)"

definition subscribe_frame :: "u32 \<Rightarrow> Frame" where
  "subscribe_frame tid = frame_new SUBSCRIBE tid []"

definition unsubscribe_frame :: "u32 \<Rightarrow> Frame" where
  "unsubscribe_frame tid = frame_new UNSUBSCRIBE tid []"

definition output_frame :: "u32 \<Rightarrow> bytes \<Rightarrow> Frame" where
  "output_frame tid data = frame_new OUTPUT tid data"

definition input_frame :: "u32 \<Rightarrow> bytes \<Rightarrow> Frame" where
  "input_frame tid data = frame_new INPUT tid data"

definition resize_frame :: "u32 \<Rightarrow> u16 \<Rightarrow> u16 \<Rightarrow> Frame" where
  "resize_frame tid cols rows = frame_new RESIZE tid (be16 cols @ be16 rows)"

definition goodbye_frame :: Frame where
  "goodbye_frame = frame_new GOODBYE 0 []"

definition error_frame :: "string \<Rightarrow> Frame" where
  "error_frame msg = frame_new ERROR 0 (bytes_of_str msg)"

definition error_with_terminal_frame :: "u32 \<Rightarrow> string \<Rightarrow> Frame" where
  "error_with_terminal_frame tid msg = frame_new ERROR tid (bytes_of_str msg)"

definition history_frame :: "u32 \<Rightarrow> u32 \<Rightarrow> bool \<Rightarrow> bytes \<Rightarrow> Frame" where
  "history_frame tid seq is_last data =
     frame_new HISTORY tid (be32 seq @ [if is_last then 1 else 0] @ data)"

definition redraw_request_frame :: "u32 \<Rightarrow> Frame" where
  "redraw_request_frame tid = frame_new REDRAW_REQUEST tid []"

definition ok_frame :: "u32 \<Rightarrow> Frame" where
  "ok_frame tid = frame_new FRAME_OK tid []"

definition ok_with_payload_frame :: "u32 \<Rightarrow> string \<Rightarrow> Frame" where
  "ok_with_payload_frame tid json = frame_new FRAME_OK tid (bytes_of_str json)"

definition info_request_frame :: Frame where
  "info_request_frame = frame_new INFO_REQUEST 0 []"

definition info_response_frame :: "string \<Rightarrow> Frame" where
  "info_response_frame json = frame_new INFO_RESPONSE 0 (bytes_of_str json)"

definition new_terminal_frame ::
  "(string option \<Rightarrow> string option \<Rightarrow> string option \<Rightarrow> string) \<Rightarrow>
   string option \<Rightarrow> string option \<Rightarrow> string option \<Rightarrow> Frame" where
  "new_terminal_frame json shell name server_id =
     frame_new NEW_TERMINAL 0 (bytes_of_str (json shell name server_id))"

definition close_terminal_frame :: "u32 \<Rightarrow> Frame" where
  "close_terminal_frame tid = frame_new CLOSE_TERMINAL tid []"

definition trigger_list_request_frame :: Frame where
  "trigger_list_request_frame = frame_new TRIGGER_LIST_REQUEST 0 []"

definition trigger_list_response_frame :: "string \<Rightarrow> Frame" where
  "trigger_list_response_frame json = frame_new TRIGGER_LIST_RESPONSE 0 (bytes_of_str json)"

definition trigger_exec_frame :: "string \<Rightarrow> Frame" where
  "trigger_exec_frame json = frame_new TRIGGER_EXEC 0 (bytes_of_str json)"

definition trigger_exec_result_frame :: "string \<Rightarrow> Frame" where
  "trigger_exec_result_frame json = frame_new TRIGGER_EXEC_RESULT 0 (bytes_of_str json)"

definition trigger_add_frame :: "string \<Rightarrow> Frame" where
  "trigger_add_frame json = frame_new TRIGGER_ADD 0 (bytes_of_str json)"

definition trigger_update_frame :: "string \<Rightarrow> Frame" where
  "trigger_update_frame json = frame_new TRIGGER_UPDATE 0 (bytes_of_str json)"

definition trigger_remove_frame :: "string \<Rightarrow> Frame" where
  "trigger_remove_frame json = frame_new TRIGGER_REMOVE 0 (bytes_of_str json)"

definition notify_frame :: "u32 \<Rightarrow> string \<Rightarrow> Frame" where
  "notify_frame tid json = frame_new NOTIFY tid (bytes_of_str json)"

definition input_answer_frame :: "(string \<Rightarrow> string \<Rightarrow> string) \<Rightarrow> u32 \<Rightarrow> string \<Rightarrow> string \<Rightarrow> Frame" where
  "input_answer_frame json tid question_id answer =
     frame_new INPUT_ANSWER tid (bytes_of_str (json question_id answer))"

definition question_resolved_frame ::
  "(string \<Rightarrow> string \<Rightarrow> string) \<Rightarrow> u32 \<Rightarrow> string \<Rightarrow> string \<Rightarrow> Frame" where
  "question_resolved_frame json tid question_id answer =
     frame_new QUESTION_RESOLVED tid (bytes_of_str (json question_id answer))"

definition file_request_frame :: "u32 \<Rightarrow> string \<Rightarrow> Frame" where
  "file_request_frame tid file_path = frame_new FILE_REQUEST tid (bytes_of_str file_path)"

definition desktop_pair_frame :: "string \<Rightarrow> Frame" where
  "desktop_pair_frame json = frame_new DESKTOP_PAIR 0 (bytes_of_str json)"

definition desktop_pair_response_frame :: "string \<Rightarrow> Frame" where
  "desktop_pair_response_frame json = frame_new DESKTOP_PAIR 0 (bytes_of_str json)"

section \<open>Wire format\<close>

definition serialize :: "Frame \<Rightarrow> bytes" where
  "serialize f =
     (let payload_len = len_u32 (payload f) OR (if compressed_flag f then 0x80000000 else 0)
      in [version f, frame_type f] @ be32 (terminal_id f) @ be32 payload_len @ payload f)"

definition deserialize :: "bytes \<Rightarrow> string + Frame" where
  "deserialize data =
     (case data of
        v # ty # t0 # t1 # t2 # t3 # l0 # l1 # l2 # l3 # rest \<Rightarrow>
          let raw = of_be32 l0 l1 l2 l3;
              flag = (raw AND 0x80000000 \<noteq> 0);
              actual_len = unat (raw AND 0x7FFFFFFF)
          in if length data < 10 + actual_len then Inl ''incomplete payload''
             else Inr \<lparr>version = v, frame_type = ty, terminal_id = of_be32 t0 t1 t2 t3,
                       payload = take actual_len rest, compressed_flag = flag\<rparr>
      | _ \<Rightarrow> Inl ''frame too short'')"

definition parse_resize :: "Frame \<Rightarrow> (u16 \<times> u16) option" where
  "parse_resize f =
     (case payload f of
        c0 # c1 # r0 # r1 # _ \<Rightarrow> Some (of_be16 c0 c1, of_be16 r0 r1)
      | _ \<Rightarrow> None)"

definition parse_hello :: "Frame \<Rightarrow> (u16 \<times> bytes) option" where
  "parse_hello f =
     (if length (payload f) < 34 then None
      else Some (of_be16 (payload f ! 0) (payload f ! 1), take 32 (drop 2 (payload f))))"

lemma bit_flag31: "bit (0x80000000 :: u32) k \<longleftrightarrow> k = 31"
proof -
  have "(0x80000000 :: u32) = 2 ^ 31" by simp
  then show ?thesis by (simp only: bit_exp_iff) auto
qed

lemma bit_mask31: "bit (0x7FFFFFFF :: u32) k \<longleftrightarrow> k < 31"
proof -
  have "(0x7FFFFFFF :: u32) = mask 31" by (simp add: mask_eq_exp_minus_1)
  then show ?thesis by (simp only: bit_mask_iff) auto
qed

lemma flag_test: "(w AND 0x80000000 \<noteq> (0 :: u32)) = bit w 31"
proof
  assume "w AND 0x80000000 \<noteq> 0"
  then obtain k where "bit (w AND 0x80000000) k" by (auto simp: bit_eq_iff)
  then show "bit w 31" by (simp only: bit_and_iff bit_flag31) auto
next
  assume "bit w 31"
  then have "bit (w AND 0x80000000) 31" by (simp only: bit_and_iff bit_flag31)
  then show "w AND 0x80000000 \<noteq> 0" by (auto simp del: bit_and_iff)
qed

lemma small_word_bit: "n < 2 ^ 31 \<Longrightarrow> bit (word_of_nat n :: u32) k \<Longrightarrow> k < 31"
proof -
  assume n: "n < 2 ^ 31" and "bit (word_of_nat n :: u32) k"
  then have "bit n k" by (simp add: bit_of_nat_iff)
  with n show "k < 31" by (metis bit_take_bit_iff take_bit_nat_eq_self)
qed

lemma len_flag_and:
  fixes w :: u32
  assumes "n < 2 ^ 31" and w: "w = word_of_nat n OR (if c then 0x80000000 else 0)"
  shows "w AND 0x7FFFFFFF = word_of_nat n" and "(w AND 0x80000000 \<noteq> 0) = c"
  using small_word_bit [OF assms(1)]
  by (rule_tac bit_word_eqI, simp_all only: w flag_test bit_or_iff bit_and_iff bit_mask31 if_distrib
      [of "\<lambda>x. bit x _"] bit_flag31 bit_0_eq bot_apply)
    auto

lemma serialize_length: "length (serialize f) = 10 + length (payload f)"
  by (simp add: serialize_def Let_def)

lemma deserialize_serialize:
  assumes "length (payload f) < 2 ^ 31"
  shows "deserialize (serialize f @ junk) = Inr f"
proof -
  obtain w where w: "w = word_of_nat (length (payload f)) OR (if compressed_flag f then 0x80000000 else (0 :: u32))"
    by simp
  have "unat (w AND 0x7FFFFFFF) = length (payload f)"
    using assms by (simp only: len_flag_and(1) [OF assms w]) (simp add: unat_of_nat)
  moreover have "(w AND 0x80000000 \<noteq> 0) = compressed_flag f"
    by (rule len_flag_and(2) [OF assms w])
  moreover have "serialize f = [version f, frame_type f] @ be32 (terminal_id f) @ be32 w @ payload f"
    by (simp only: serialize_def Let_def len_u32_def w)
  ultimately show ?thesis
    by (simp add: deserialize_def Let_def be32_def of_be32_be32)
qed

lemma word_of_unat: "word_of_nat (unat (w :: u32)) = w"
  by simp

lemma raw_len_canonical:
  fixes w :: u32
  shows "(word_of_nat (unat (w AND 0x7FFFFFFF)) :: u32) OR (if w AND 0x80000000 \<noteq> 0 then 0x80000000 else 0) = w"
    and "unat (w AND 0x7FFFFFFF) < 2 ^ 31"
proof -
  show "(word_of_nat (unat (w AND 0x7FFFFFFF)) :: u32) OR (if w AND 0x80000000 \<noteq> 0 then 0x80000000 else 0) = w"
  proof (rule bit_word_eqI)
    fix k assume "k < LENGTH(32)"
    then have "k < 31 \<or> k = 31" by auto
    then show "bit ((word_of_nat (unat (w AND 0x7FFFFFFF)) :: u32) OR
        (if w AND 0x80000000 \<noteq> 0 then 0x80000000 else 0)) k = bit w k"
      by (simp only: flag_test bit_or_iff bit_and_iff bit_mask31 if_distrib [of "\<lambda>x. bit x _"]
          bit_flag31 bit_0_eq bot_apply word_of_unat) auto
  qed
  have "(0x7FFFFFFF :: u32) = mask 31" by (simp add: mask_eq_exp_minus_1)
  then have "w AND 0x7FFFFFFF = take_bit 31 w" by (simp only: take_bit_eq_mask)
  then show "unat (w AND 0x7FFFFFFF) < 2 ^ 31"
    using take_bit_nat_less_exp [of 31 "unat w"] by (simp add: unsigned_take_bit_eq)
qed

lemma serialize_of_deserialize:
  assumes "deserialize data = Inr f"
  shows "prefix (serialize f) data \<and> length (payload f) < 2 ^ 31"
proof -
  obtain v ty t0 t1 t2 t3 l0 l1 l2 l3 rest where
    data: "data = v # ty # t0 # t1 # t2 # t3 # l0 # l1 # l2 # l3 # rest"
    using assms by (auto simp: deserialize_def split: list.splits)
  define raw where "raw = of_be32 l0 l1 l2 l3"
  have ok: "unat (raw AND 0x7FFFFFFF) \<le> length rest" and
    f: "f = \<lparr>version = v, frame_type = ty, terminal_id = of_be32 t0 t1 t2 t3,
          payload = take (unat (raw AND 0x7FFFFFFF)) rest, compressed_flag = (raw AND 0x80000000 \<noteq> 0)\<rparr>"
    using assms by (auto simp: data deserialize_def Let_def raw_def split: if_splits)
  have "serialize f = [v, ty] @ be32 (of_be32 t0 t1 t2 t3) @ be32 raw @ payload f"
    using raw_len_canonical(1) [of raw] ok
    by (simp add: serialize_def Let_def f len_u32_def min_absorb2)
  moreover have "be32 raw = [l0, l1, l2, l3]"
    by (simp only: raw_def be32_of_be32)
  ultimately have "data = serialize f @ drop (unat (raw AND 0x7FFFFFFF)) rest"
    by (simp add: data f be32_of_be32)
  moreover have "length (payload f) < 2 ^ 31"
    using raw_len_canonical(2) [of raw] ok by (simp add: f)
  ultimately show ?thesis by (auto simp: prefix_def)
qed

text \<open>
  The wire format is canonical: a byte string decodes to a frame exactly when it begins with
  that frame's encoding (and the payload fits the 31 length bits).  So decoding inverts encoding,
  the version, type, terminal and compression flag included, two frames never share an encoding,
  and bytes after the frame are ignored.
\<close>

theorem deserialize_iff:
  "deserialize data = Inr f \<longleftrightarrow> prefix (serialize f) data \<and> length (payload f) < 2 ^ 31"
  using serialize_of_deserialize deserialize_serialize by (auto simp: prefix_def)

text \<open>
  The constructors produce version 1 frames, and the payload parsers invert the constructors that
  carry structured payloads.
\<close>

lemma parse_resize_frame: "parse_resize (resize_frame tid cols rows) = Some (cols, rows)"
  by (simp add: parse_resize_def resize_frame_def frame_new_def be16_def of_be16_be16)

lemma parse_hello_frame:
  "length random = 32 \<Longrightarrow> parse_hello (hello_frame caps random) = Some (caps, random)"
  by (simp add: parse_hello_def hello_frame_def frame_new_def be16_def of_be16_be16)

lemma parse_hello_random_length: "parse_hello f = Some (caps, r) \<Longrightarrow> length r = 32"
  by (auto simp: parse_hello_def split: if_splits)

section \<open>Bounded histories\<close>

text \<open>
  The contract of a history that forgets its oldest entries: adding an entry keeps a suffix of
  the old contents and the new entry.  Whatever is added, the contents are then a suffix of what
  was added since the start.
\<close>

locale history =
  fixes push :: "'x \<Rightarrow> 's \<Rightarrow> 's"
    and contents :: "'s \<Rightarrow> 'x list"
    and cost :: "'x list \<Rightarrow> nat"
    and limit :: "'s \<Rightarrow> nat"
    and good :: "'s \<Rightarrow> bool"
  assumes good_push: "good s \<Longrightarrow> good (push x s)"
    and limit_push: "good s \<Longrightarrow> limit (push x s) = limit s"
    and contents_push: "good s \<Longrightarrow>
      suffix ys (contents (push x s)) \<longleftrightarrow> suffix ys (contents s @ [x]) \<and> cost ys \<le> limit s"
    and cost_fits: "good s \<Longrightarrow> cost (contents s) \<le> limit s"
    and cost_suffix: "suffix ys zs \<Longrightarrow> cost ys \<le> cost zs"
    and cost_snoc: "cost ys \<le> cost (ys @ [x])"
    and cost_empty: "cost [] = 0"
begin

lemma good_pushes: "good s \<Longrightarrow> good (fold push xs s) \<and> limit (fold push xs s) = limit s"
  by (induction xs arbitrary: s) (auto simp: good_push limit_push)

lemma suffix_pushes:
  assumes "good s"
  shows "suffix ys (contents (fold push xs s)) \<longleftrightarrow>
    suffix ys (contents s @ xs) \<and> cost ys \<le> limit s"
proof (induction xs arbitrary: ys rule: rev_induct)
  case Nil
  show ?case using assms cost_suffix cost_fits by fastforce
next
  case (snoc x xs)
  note t = good_pushes [OF assms, of xs]
  show ?case
  proof (cases ys rule: rev_cases)
    case Nil
    then show ?thesis by (simp add: cost_empty)
  next
    case (snoc zs z)
    have "suffix ys (contents (fold push (xs @ [x]) s)) \<longleftrightarrow>
        z = x \<and> suffix zs (contents (fold push xs s)) \<and> cost ys \<le> limit s"
      using t by (auto simp: contents_push snoc)
    also have "\<dots> \<longleftrightarrow> z = x \<and> suffix zs (contents s @ xs) \<and> cost ys \<le> limit s"
      using snoc.IH [of zs] cost_snoc [of zs z] snoc by auto
    finally show ?thesis
      by (simp add: snoc flip: append_assoc)
  qed
qed

end

text \<open>The ring buffer: chunks of output, bounded by their total length.\<close>

record RingBuffer =
  buf :: "bytes list"
  capacity_bytes :: nat
  current_bytes :: nat

definition ring_new :: "nat \<Rightarrow> RingBuffer" where
  "ring_new capacity = \<lparr>buf = [], capacity_bytes = capacity, current_bytes = 0\<rparr>"

fun evict :: "nat \<Rightarrow> nat \<Rightarrow> bytes list \<Rightarrow> nat \<times> bytes list" where
  "evict cap cur [] = (cur, [])"
| "evict cap cur (oldest # rest) =
     (if cur > cap then evict cap (cur - length oldest) rest else (cur, oldest # rest))"

definition ring_push :: "bytes \<Rightarrow> RingBuffer \<Rightarrow> RingBuffer" where
  "ring_push data rb =
     (case evict (capacity_bytes rb) (current_bytes rb + length data) (buf rb @ [data]) of
        (cur, chunks) \<Rightarrow> rb\<lparr>buf := chunks, current_bytes := cur\<rparr>)"

definition ring_iter :: "RingBuffer \<Rightarrow> bytes list" where
  "ring_iter rb = buf rb"

definition total_bytes :: "RingBuffer \<Rightarrow> nat" where
  "total_bytes rb = current_bytes rb"

definition ring_clear :: "RingBuffer \<Rightarrow> RingBuffer" where
  "ring_clear rb = rb\<lparr>buf := [], current_bytes := 0\<rparr>"

definition size_of :: "bytes list \<Rightarrow> nat" where
  "size_of cs = sum_list (map length cs)"

definition ring_ok :: "RingBuffer \<Rightarrow> bool" where
  "ring_ok rb \<longleftrightarrow> current_bytes rb = size_of (buf rb) \<and> current_bytes rb \<le> capacity_bytes rb"

lemma size_of_simps [simp]:
  "size_of [] = 0" "size_of (c # cs) = length c + size_of cs" "size_of (cs @ ds) = size_of cs + size_of ds"
  by (simp_all add: size_of_def)

lemma size_of_suffix: "suffix xs ys \<Longrightarrow> size_of xs \<le> size_of ys"
  by (auto simp: suffix_def)

lemma evict_spec:
  assumes "evict cap (size_of cs) cs = (cur, ds)"
  shows "cur = size_of ds \<and> cur \<le> cap \<and> (\<forall>ys. suffix ys ds \<longleftrightarrow> suffix ys cs \<and> size_of ys \<le> cap)"
  using assms
proof (induction cs)
  case (Cons c cs)
  show ?case
  proof (cases "size_of (c # cs) > cap")
    case True
    with Cons.prems have "evict cap (size_of cs) cs = (cur, ds)"
      by simp
    note ih = Cons.IH [OF this]
    have "suffix ys ds \<longleftrightarrow> suffix ys (c # cs) \<and> size_of ys \<le> cap" for ys
      using ih True by (cases "ys = c # cs") (simp_all add: suffix_Cons)
    with ih show ?thesis by blast
  next
    case False
    then have "(size_of (c # cs), c # cs) = (cur, ds)"
      using Cons.prems by (simp only: evict.simps if_False)
    then have eq: "cur = size_of (c # cs)" "ds = c # cs"
      by blast+
    have "size_of ys \<le> cap" if "suffix ys (c # cs)" for ys
      using False size_of_suffix [OF that] by simp
    then show ?thesis using False eq by (metis linorder_not_less)
  qed
qed auto

interpretation ring: history ring_push ring_iter size_of capacity_bytes ring_ok
proof
  fix s :: RingBuffer and x :: bytes and ys :: "bytes list"
  assume ok: "ring_ok s"
  obtain cur ds where e: "evict (capacity_bytes s) (size_of (buf s @ [x])) (buf s @ [x]) = (cur, ds)"
    by fastforce
  have push: "ring_push x s = s\<lparr>buf := ds, current_bytes := cur\<rparr>"
    using ok e by (simp add: ring_push_def ring_ok_def)
  note spec = evict_spec [OF e]
  show "ring_ok (ring_push x s)"
    using spec by (simp add: push ring_ok_def)
  show "capacity_bytes (ring_push x s) = capacity_bytes s"
    by (simp add: push)
  show "suffix ys (ring_iter (ring_push x s)) \<longleftrightarrow>
      suffix ys (ring_iter s @ [x]) \<and> size_of ys \<le> capacity_bytes s"
    using spec by (simp add: push ring_iter_def)
  show "size_of (ring_iter s) \<le> capacity_bytes s"
    using ok by (simp add: ring_ok_def ring_iter_def)
qed (simp_all add: size_of_suffix)

lemma ring_ok_new: "ring_ok (ring_new cap)"
  by (simp add: ring_ok_def ring_new_def)

text \<open>
  C2. After any sequence of pushes a fresh ring buffer holds exactly the longest suffix of the
  pushed chunks that fits its capacity: it is a suffix, it fits, every fitting suffix is kept, and
  the byte count the buffer maintains is the true one (so the eviction loop never underflows).
\<close>

theorem ring_buffer_keeps_longest_suffix:
  "(\<forall>ys. suffix ys (ring_iter (fold ring_push chunks (ring_new cap))) \<longleftrightarrow>
       suffix ys chunks \<and> size_of ys \<le> cap)
   \<and> total_bytes (fold ring_push chunks (ring_new cap))
       = size_of (ring_iter (fold ring_push chunks (ring_new cap)))
   \<and> total_bytes (fold ring_push chunks (ring_new cap)) \<le> cap"
  using ring.suffix_pushes [OF ring_ok_new, of _ chunks cap] ring.good_pushes [OF ring_ok_new, of chunks cap]
  by (simp add: ring_ok_def ring_iter_def ring_new_def total_bytes_def)

end
