(* ===== verification/FrameCrypto.thy ===== *)
theory FrameCrypto
  imports RemoteFrame
begin

text \<open>
  \<open>crates/daemon/src/frame_crypto.rs\<close>: the per-direction frame cipher with its counter nonces and
  session keys, and the HELLO exchange that both ends run (\<open>RemoteServer::handle_hello\<close>,
  \<open>RemoteServer::send_frame\<close> and the HELLO part of \<open>run_client_once\<close> in \<open>remote_client.rs\<close>).
  AES-256-GCM and HKDF-SHA256 are parameters, gathered in the record \<open>crypto\<close>; the documented law
  of an AEAD, that opening inverts sealing, is the named hypothesis \<open>aead_ok\<close>.
\<close>

section \<open>The frame cipher\<close>

record crypto =
  aead_seal :: "bytes \<Rightarrow> bytes \<Rightarrow> bytes \<Rightarrow> bytes option"
  aead_open :: "bytes \<Rightarrow> bytes \<Rightarrow> bytes \<Rightarrow> bytes option"
  hkdf_sha256 :: "bytes \<Rightarrow> bytes \<Rightarrow> bytes \<Rightarrow> bytes"

definition aead_ok :: "crypto \<Rightarrow> bool" where
  "aead_ok cr \<longleftrightarrow> (\<forall>k n p c. aead_seal cr k n p = Some c \<longrightarrow> aead_open cr k n c = Some p)"

definition HKDF_INFO :: bytes where
  "HKDF_INFO = bytes_of_str ''termfast-session-v1''"

definition NONCE_LEN :: nat where
  "NONCE_LEN = 12"

definition DIR_DESKTOP_TO_MOBILE :: u8 where
  "DIR_DESKTOP_TO_MOBILE = 0"

definition DIR_MOBILE_TO_DESKTOP :: u8 where
  "DIR_MOBILE_TO_DESKTOP = 1"

definition encode_nonce :: "u8 \<Rightarrow> u64 \<Rightarrow> bytes" where
  "encode_nonce dir ctr = [dir] @ be64 ctr @ [0, 0, 0]"

definition derive_session_key :: "crypto \<Rightarrow> bytes \<Rightarrow> bytes \<Rightarrow> bytes \<Rightarrow> bytes" where
  "derive_session_key cr pairing_key client_random server_random =
     hkdf_sha256 cr (client_random @ server_random) pairing_key HKDF_INFO"

record FrameCipher =
  cipher_key :: bytes
  cipher_dir :: u8
  cipher_counter :: u64

definition cipher_new :: "bytes \<Rightarrow> u8 \<Rightarrow> FrameCipher" where
  "cipher_new k dir = \<lparr>cipher_key = k, cipher_dir = dir, cipher_counter = 0\<rparr>"

definition from_session_key :: "crypto \<Rightarrow> bytes \<Rightarrow> bytes \<Rightarrow> bytes \<Rightarrow> u8 \<Rightarrow> FrameCipher" where
  "from_session_key cr pairing_key client_random server_random dir =
     cipher_new (derive_session_key cr pairing_key client_random server_random) dir"

definition from_pairing_key :: "bytes \<Rightarrow> u8 \<Rightarrow> FrameCipher" where
  "from_pairing_key pairing_key dir = cipher_new pairing_key dir"

text \<open>
  Encryption returns the result and the cipher's next state.  On counter overflow the sealed
  bytes are dropped and the counter stays at its last value.
\<close>

definition encrypt :: "crypto \<Rightarrow> bytes \<Rightarrow> FrameCipher \<Rightarrow> (string + bytes) \<times> FrameCipher" where
  "encrypt cr plaintext c =
     (let nonce = encode_nonce (cipher_dir c) (cipher_counter c) in
      case aead_seal cr (cipher_key c) nonce plaintext of
        None \<Rightarrow> (Inl ''encrypt error'', c)
      | Some ciphertext \<Rightarrow>
          if cipher_counter c = - 1
          then (Inl ''frame crypto counter overflow (nonce reuse risk)'', c)
          else (Inr (nonce @ ciphertext), c\<lparr>cipher_counter := cipher_counter c + 1\<rparr>))"

definition decrypt :: "crypto \<Rightarrow> FrameCipher \<Rightarrow> bytes \<Rightarrow> string + bytes" where
  "decrypt cr c data =
     (if length data < NONCE_LEN then Inl ''ciphertext too short (missing nonce)''
      else case aead_open cr (cipher_key c) (take NONCE_LEN data) (drop NONCE_LEN data) of
             None \<Rightarrow> Inl ''decrypt error''
           | Some p \<Rightarrow> Inr p)"

section \<open>Nonces\<close>

lemma length_encode_nonce [simp]: "length (encode_nonce d n) = NONCE_LEN"
  by (simp add: encode_nonce_def NONCE_LEN_def)

lemma encode_nonce_inject: "encode_nonce d n = encode_nonce e m \<longleftrightarrow> d = e \<and> n = m"
  by (auto simp: encode_nonce_def be64_inject)

text \<open>Encrypting a list of messages; the successful outputs are what goes on the wire.\<close>

fun encrypt_all :: "crypto \<Rightarrow> bytes list \<Rightarrow> FrameCipher \<Rightarrow> bytes list" where
  "encrypt_all cr [] c = []"
| "encrypt_all cr (p # ps) c =
     (case encrypt cr p c of
        (Inl e, c') \<Rightarrow> encrypt_all cr ps c'
      | (Inr out, c') \<Rightarrow> out # encrypt_all cr ps c')"

lemma encrypt_Inr:
  "encrypt cr p c = (Inr out, c') \<longleftrightarrow>
   (\<exists>ct. aead_seal cr (cipher_key c) (encode_nonce (cipher_dir c) (cipher_counter c)) p = Some ct \<and>
      cipher_counter c \<noteq> - 1 \<and>
      out = encode_nonce (cipher_dir c) (cipher_counter c) @ ct \<and>
      c' = c\<lparr>cipher_counter := cipher_counter c + 1\<rparr>)"
  by (auto simp: encrypt_def Let_def split: option.splits)

lemma encrypt_Inl: "encrypt cr p c = (Inl e, c') \<Longrightarrow> c' = c"
  by (auto simp: encrypt_def Let_def split: option.splits if_splits)

lemma suc_counter: "n \<noteq> (- 1 :: u64) \<Longrightarrow> n < n + 1"
proof -
  assume "n \<noteq> - 1"
  then have "1 + n \<noteq> 0" by (simp add: eq_neg_iff_add_eq_0 add.commute)
  then have "unat (1 + n) = Suc (unat n)" by (rule unatSuc)
  then show "n < n + 1" by (simp add: word_less_nat_alt add.commute)
qed

lemma encrypt_all_nonces:
  "out \<in> set (encrypt_all cr ps c) \<Longrightarrow>
   \<exists>n \<ge> cipher_counter c. take NONCE_LEN out = encode_nonce (cipher_dir c) n"
proof (induction ps arbitrary: c)
  case (Cons p ps)
  show ?case
  proof (cases "encrypt cr p c")
    case (Pair r c')
    show ?thesis
    proof (cases r)
      case (Inl e)
      with Pair Cons show ?thesis by (auto dest: encrypt_Inl)
    next
      case (Inr o1)
      then have e: "encrypt cr p c = (Inr o1, c')" using Pair by simp
      then have c': "c' = c\<lparr>cipher_counter := cipher_counter c + 1\<rparr>" "cipher_counter c \<noteq> - 1"
        and o1: "take NONCE_LEN o1 = encode_nonce (cipher_dir c) (cipher_counter c)"
        by (auto simp: encrypt_Inr)
      from Cons.prems e have "out = o1 \<or> out \<in> set (encrypt_all cr ps c')" by simp
      then show ?thesis
        using Cons.IH [of c'] o1 c' suc_counter [of "cipher_counter c"]
        by (auto intro: order.trans less_imp_le)
    qed
  qed
qed simp

lemma encrypt_all_distinct: "distinct (map (take NONCE_LEN) (encrypt_all cr ps c))"
proof (induction ps arbitrary: c)
  case (Cons p ps)
  show ?case
  proof (cases "encrypt cr p c")
    case (Pair r c')
    show ?thesis
    proof (cases r)
      case (Inl e)
      with Pair Cons show ?thesis by simp
    next
      case (Inr o1)
      then have e: "encrypt cr p c = (Inr o1, c')" using Pair by simp
      then have c': "c' = c\<lparr>cipher_counter := cipher_counter c + 1\<rparr>" "cipher_counter c \<noteq> - 1"
        and o1: "take NONCE_LEN o1 = encode_nonce (cipher_dir c) (cipher_counter c)"
        by (auto simp: encrypt_Inr)
      have "take NONCE_LEN o1 \<noteq> take NONCE_LEN out" if "out \<in> set (encrypt_all cr ps c')" for out
        using encrypt_all_nonces [OF that] c' o1 suc_counter [of "cipher_counter c"]
        by (auto simp: encode_nonce_inject)
      then show ?thesis using Cons.IH [of c'] by (auto simp: e)
    qed
  qed
qed simp

text \<open>
  C3. Under one session key no nonce is ever sent twice, in either direction, however many messages
  are encrypted: the desktop's and the mobile's outputs all carry different nonces, and past the
  last counter value encryption fails instead of wrapping.
\<close>

theorem session_nonces_unique:
  "distinct (map (take NONCE_LEN)
     (encrypt_all cr ps (from_session_key cr k crnd srnd DIR_DESKTOP_TO_MOBILE) @
      encrypt_all cr qs (from_session_key cr k crnd srnd DIR_MOBILE_TO_DESKTOP)))"
proof -
  have "take NONCE_LEN x \<noteq> take NONCE_LEN y"
    if "x \<in> set (encrypt_all cr ps (from_session_key cr k crnd srnd DIR_DESKTOP_TO_MOBILE))"
      "y \<in> set (encrypt_all cr qs (from_session_key cr k crnd srnd DIR_MOBILE_TO_DESKTOP))" for x y
    using encrypt_all_nonces [OF that(1)] encrypt_all_nonces [OF that(2)]
    by (auto simp: from_session_key_def cipher_new_def encode_nonce_inject
        DIR_DESKTOP_TO_MOBILE_def DIR_MOBILE_TO_DESKTOP_def)
  then show ?thesis
    unfolding map_append distinct_append set_map using encrypt_all_distinct by blast
qed

lemma open_encrypted:
  assumes "aead_ok cr" "encrypt cr p c = (Inr out, c')"
  shows "cipher_key d = cipher_key c \<Longrightarrow> decrypt cr d out = Inr p"
  using assms by (auto simp: encrypt_Inr decrypt_def aead_ok_def)

text \<open>
  Decryption inverts encryption for any two ciphers of the same key, whatever their direction
  and counter.  (So a frame is accepted again when it is replayed, and when it is reflected to its
  sender: the receiver checks neither the direction byte nor the counter of the nonce.)
\<close>

theorem decrypt_encrypt:
  assumes "aead_ok cr" "encrypt cr p c = (Inr out, c')" "cipher_key d = cipher_key c"
  shows "decrypt cr d out = Inr p"
  by (rule open_encrypted [OF assms])

text \<open>A concrete cipher for the witnesses: the tag is the start of the key.\<close>

definition toy_crypto :: crypto where
  "toy_crypto =
     \<lparr>aead_seal = (\<lambda>k n p. Some (p @ take 2 k)),
      aead_open = (\<lambda>k n c. if suffix (take 2 k) c then Some (take (length c - length (take 2 k)) c) else None),
      hkdf_sha256 = (\<lambda>salt ikm info. take 4 (ikm @ salt))\<rparr>"

lemma toy_aead_ok: "aead_ok toy_crypto"
  by (auto simp: aead_ok_def toy_crypto_def suffix_def)

theorem decrypt_encrypt_witness:
  "decrypt toy_crypto (cipher_new [1, 2] DIR_MOBILE_TO_DESKTOP)
     ([0, 0, 0, 0, 0, 0, 0, 0, 0, 0, 0, 0] @ [42, 1, 2]) = Inr [42]"
proof (rule decrypt_encrypt [OF toy_aead_ok])
  show "encrypt toy_crypto [42] (cipher_new [1, 2] DIR_DESKTOP_TO_MOBILE) =
      (Inr ([0, 0, 0, 0, 0, 0, 0, 0, 0, 0, 0, 0] @ [42, 1, 2]),
       (cipher_new [1, 2] DIR_DESKTOP_TO_MOBILE)\<lparr>cipher_counter := 1\<rparr>)"
    by (simp add: encrypt_Inr toy_crypto_def cipher_new_def encode_nonce_def be64_def be32_def
        DIR_DESKTOP_TO_MOBILE_def)
qed (simp add: cipher_new_def)

section \<open>The HELLO exchange\<close>

text \<open>
  \<open>send_frame\<close> of the server: serialise, encrypt, and hand to the outbound channel, which refuses
  when its receiver is gone.  It returns the result, the cipher and what reached the channel.
\<close>

definition send_frame ::
  "crypto \<Rightarrow> bool \<Rightarrow> Frame \<Rightarrow> FrameCipher \<Rightarrow> (string + unit) \<times> FrameCipher \<times> bytes list" where
  "send_frame cr outbound_open f c =
     (case encrypt cr (serialize f) c of
        (Inl e, c') \<Rightarrow> (Inl e, c', [])
      | (Inr out, c') \<Rightarrow>
          if outbound_open then (Inr (), c', [out]) else (Inl ''outbound send'', c', []))"

datatype recv = Received bytes | ChannelClosed | RecvTimeout

definition SERVER_VERSION :: u8 where "SERVER_VERSION = 1"
definition MIN_SUPPORTED_VERSION :: u8 where "MIN_SUPPORTED_VERSION = 1"
definition SERVER_CAPS_4A :: u16 where "SERVER_CAPS_4A = 2"
definition CLIENT_CAPABILITIES :: u16 where "CLIENT_CAPABILITIES = 1"

text \<open>
  \<open>handle_hello\<close> returns the session's send and receive ciphers, or \<open>None\<close>, and what it sent.
  \<open>server_random\<close> is the value the random generator returns in this call.
\<close>

definition hello_refusal :: "crypto \<Rightarrow> bytes \<Rightarrow> bool \<Rightarrow> string \<Rightarrow> bytes list" where
  "hello_refusal cr pairing_key outbound_open msg =
     snd (snd (send_frame cr outbound_open (error_frame msg)
                 (from_pairing_key pairing_key DIR_DESKTOP_TO_MOBILE)))"

definition handle_hello ::
  "crypto \<Rightarrow> bytes \<Rightarrow> recv \<Rightarrow> bool \<Rightarrow> bytes \<Rightarrow> (FrameCipher \<times> FrameCipher) option \<times> bytes list" where
  "handle_hello cr pairing_key inbound outbound_open server_random =
     (case inbound of
        ChannelClosed \<Rightarrow> (None, [])
      | RecvTimeout \<Rightarrow> (None, [])
      | Received encrypted \<Rightarrow>
          (case decrypt cr (from_pairing_key pairing_key DIR_MOBILE_TO_DESKTOP) encrypted of
             Inl e \<Rightarrow> (None, [])
           | Inr plaintext \<Rightarrow>
               (case deserialize plaintext of
                  Inl e \<Rightarrow> (None, [])
                | Inr f \<Rightarrow>
                    if frame_type f \<noteq> HELLO then (None, hello_refusal cr pairing_key outbound_open ''hello_required'')
                    else (case parse_hello f of
                            None \<Rightarrow> (None, [])
                          | Some (client_caps, client_random) \<Rightarrow>
                              if version f < MIN_SUPPORTED_VERSION
                              then (None, hello_refusal cr pairing_key outbound_open ''unsupported_version'')
                              else
                                let negotiated_caps = client_caps AND SERVER_CAPS_4A;
                                    send_cipher = from_session_key cr pairing_key client_random
                                      server_random DIR_DESKTOP_TO_MOBILE;
                                    recv_cipher = from_session_key cr pairing_key client_random
                                      server_random DIR_MOBILE_TO_DESKTOP
                                in case send_frame cr outbound_open
                                          (hello_frame negotiated_caps server_random)
                                          (from_pairing_key pairing_key DIR_DESKTOP_TO_MOBILE) of
                                     (Inl e, _, sent) \<Rightarrow> (None, sent)
                                   | (Inr _, _, sent) \<Rightarrow> (Some (send_cipher, recv_cipher), sent)))))"

text \<open>The client's two halves: the HELLO it sends, and what it makes of the answer.\<close>

definition client_hello :: "crypto \<Rightarrow> bytes \<Rightarrow> bytes \<Rightarrow> string + bytes" where
  "client_hello cr pairing_key client_random =
     fst (encrypt cr (serialize (hello_frame CLIENT_CAPABILITIES client_random))
            (from_pairing_key pairing_key DIR_MOBILE_TO_DESKTOP))"

definition client_finish :: "crypto \<Rightarrow> bytes \<Rightarrow> bytes \<Rightarrow> bytes \<Rightarrow> string + (FrameCipher \<times> FrameCipher)" where
  "client_finish cr pairing_key client_random encrypted_response =
     try_res (decrypt cr (from_pairing_key pairing_key DIR_DESKTOP_TO_MOBILE) encrypted_response) (\<lambda>plaintext.
     try_res (map_err (\<lambda>e. ''deserialize: '' @ e) (deserialize plaintext)) (\<lambda>server_hello.
       if frame_type server_hello \<noteq> HELLO then Inl (''expected HELLO, got 0x'' @ upper_hex2 (frame_type server_hello))
       else case parse_hello server_hello of
              None \<Rightarrow> Inl ''invalid HELLO payload''
            | Some (_, server_random) \<Rightarrow>
                Inr (from_session_key cr pairing_key client_random server_random DIR_MOBILE_TO_DESKTOP,
                     from_session_key cr pairing_key client_random server_random DIR_DESKTOP_TO_MOBILE)))"

lemma deserialize_serialize0: "length (payload f) < 2 ^ 31 \<Longrightarrow> deserialize (serialize f) = Inr f"
  using deserialize_serialize [of f "[]"] by simp

lemma hello_round_trip:
  "length r = 32 \<Longrightarrow> deserialize (serialize (hello_frame caps r)) = Inr (hello_frame caps r)"
  by (rule deserialize_serialize0) (simp add: hello_frame_def frame_new_def)

lemma hello_frame_sel [simp]:
  "frame_type (hello_frame caps r) = HELLO" "version (hello_frame caps r) = 1"
  by (simp_all add: hello_frame_def frame_new_def PROTOCOL_VERSION_def)

lemma client_finish_reply:
  assumes ok: "aead_ok cr" and len: "length srnd = 32"
    and reply: "encrypt cr (serialize (hello_frame caps srnd)) (from_pairing_key k DIR_DESKTOP_TO_MOBILE) = (Inr reply, c')"
  shows "client_finish cr k crnd reply =
    Inr (from_session_key cr k crnd srnd DIR_MOBILE_TO_DESKTOP, from_session_key cr k crnd srnd DIR_DESKTOP_TO_MOBILE)"
  using open_encrypted [OF ok reply, of "from_pairing_key k DIR_DESKTOP_TO_MOBILE"] len
  by (simp add: client_finish_def hello_round_trip parse_hello_frame)

lemma handle_hello_client:
  assumes ok: "aead_ok cr" and len: "length crnd = 32"
    and hello: "client_hello cr k crnd = Inr hello"
  shows "handle_hello cr k (Received hello) outbound srnd =
    (case send_frame cr outbound (hello_frame (CLIENT_CAPABILITIES AND SERVER_CAPS_4A) srnd)
            (from_pairing_key k DIR_DESKTOP_TO_MOBILE) of
       (Inl e, _, sent) \<Rightarrow> (None, sent)
     | (Inr _, _, sent) \<Rightarrow>
         (Some (from_session_key cr k crnd srnd DIR_DESKTOP_TO_MOBILE,
                from_session_key cr k crnd srnd DIR_MOBILE_TO_DESKTOP), sent))"
proof -
  obtain c' where "encrypt cr (serialize (hello_frame CLIENT_CAPABILITIES crnd))
      (from_pairing_key k DIR_MOBILE_TO_DESKTOP) = (Inr hello, c')"
    using hello unfolding client_hello_def by (metis prod.collapse)
  from open_encrypted [OF ok this, of "from_pairing_key k DIR_MOBILE_TO_DESKTOP"] len show ?thesis
    by (simp add: handle_hello_def hello_round_trip parse_hello_frame Let_def MIN_SUPPORTED_VERSION_def)
qed

lemma toy_client_hello: "\<exists>hello. client_hello toy_crypto [7, 8] (replicate 32 1) = Inr hello"
  by (simp add: client_hello_def encrypt_def toy_crypto_def from_pairing_key_def cipher_new_def Let_def)

lemma toy_handle_hello:
  assumes "client_hello toy_crypto [7, 8] (replicate 32 1) = Inr hello"
  shows "\<exists>c d sent. handle_hello toy_crypto [7, 8] (Received hello) True srnd = (Some (c, d), sent)"
  unfolding handle_hello_client [OF toy_aead_ok length_replicate assms]
  by (simp add: send_frame_def encrypt_def Let_def toy_crypto_def from_pairing_key_def cipher_new_def)

text \<open>
  The two ends agree: when the client's HELLO reaches the server and both seals succeed, the
  server answers with one message, and the client makes of it the same two ciphers with the roles
  exchanged, so each side's sending cipher is the other side's receiving cipher (key, direction and
  counter), and the two directions of the session use different nonce spaces.
\<close>

theorem hello_agreement:
  assumes "aead_ok cr" "length crnd = 32" "length srnd = 32"
    and "client_hello cr k crnd = Inr hello"
    and "aead_seal cr k (encode_nonce DIR_DESKTOP_TO_MOBILE 0)
           (serialize (hello_frame (CLIENT_CAPABILITIES AND SERVER_CAPS_4A) srnd)) = Some ct"
  shows "\<exists>reply snd_c rcv_c.
    handle_hello cr k (Received hello) True srnd = (Some (snd_c, rcv_c), [reply]) \<and>
    client_finish cr k crnd reply = Inr (rcv_c, snd_c) \<and>
    cipher_key snd_c = cipher_key rcv_c \<and> cipher_dir snd_c \<noteq> cipher_dir rcv_c"
proof -
  let ?c = "from_pairing_key k DIR_DESKTOP_TO_MOBILE"
  let ?p = "serialize (hello_frame (CLIENT_CAPABILITIES AND SERVER_CAPS_4A) srnd)"
  have enc: "encrypt cr ?p ?c = (Inr (encode_nonce DIR_DESKTOP_TO_MOBILE 0 @ ct), ?c\<lparr>cipher_counter := 1\<rparr>)"
    using assms(5) by (simp add: encrypt_Inr from_pairing_key_def cipher_new_def)
  have "send_frame cr True (hello_frame (CLIENT_CAPABILITIES AND SERVER_CAPS_4A) srnd) ?c =
      (Inr (), ?c\<lparr>cipher_counter := 1\<rparr>, [encode_nonce DIR_DESKTOP_TO_MOBILE 0 @ ct])"
    by (simp add: send_frame_def enc)
  then have "handle_hello cr k (Received hello) True srnd =
      (Some (from_session_key cr k crnd srnd DIR_DESKTOP_TO_MOBILE,
         from_session_key cr k crnd srnd DIR_MOBILE_TO_DESKTOP), [encode_nonce DIR_DESKTOP_TO_MOBILE 0 @ ct])"
    by (simp add: handle_hello_client [OF assms(1,2,4)])
  moreover note client_finish_reply [OF assms(1,3) enc, of crnd]
  ultimately show ?thesis
    by (simp add: from_session_key_def cipher_new_def DIR_DESKTOP_TO_MOBILE_def DIR_MOBILE_TO_DESKTOP_def)
qed

theorem hello_agreement_witness:
  "\<exists>hello reply snd_c rcv_c.
    client_hello toy_crypto [7, 8] (replicate 32 1) = Inr hello \<and>
    handle_hello toy_crypto [7, 8] (Received hello) True (replicate 32 2) = (Some (snd_c, rcv_c), [reply]) \<and>
    client_finish toy_crypto [7, 8] (replicate 32 1) reply = Inr (rcv_c, snd_c)"
proof -
  obtain hello where hello: "client_hello toy_crypto [7, 8] (replicate 32 1) = Inr hello"
    using toy_client_hello ..
  have "\<exists>ct. aead_seal toy_crypto [7, 8] (encode_nonce DIR_DESKTOP_TO_MOBILE 0)
      (serialize (hello_frame (CLIENT_CAPABILITIES AND SERVER_CAPS_4A) (replicate 32 2))) = Some ct"
    by (simp add: toy_crypto_def)
  then obtain ct where ct: "aead_seal toy_crypto [7, 8] (encode_nonce DIR_DESKTOP_TO_MOBILE 0)
      (serialize (hello_frame (CLIENT_CAPABILITIES AND SERVER_CAPS_4A) (replicate 32 2))) = Some ct" ..
  from hello_agreement [OF toy_aead_ok _ _ hello ct] hello show ?thesis by auto
qed

text \<open>
  Only a holder of the pairing key completes the exchange: whenever the server installs session
  ciphers, what it received opened under the pairing key to a HELLO frame of a supported version,
  and it has answered with exactly one message.
\<close>

theorem handle_hello_authentic:
  assumes "handle_hello cr k inbound outbound_open srnd = (Some (snd_c, rcv_c), sent)"
  shows "\<exists>data p f caps crnd reply. inbound = Received data \<and>
    aead_open cr k (take NONCE_LEN data) (drop NONCE_LEN data) = Some p \<and>
    deserialize p = Inr f \<and> frame_type f = HELLO \<and> MIN_SUPPORTED_VERSION \<le> version f \<and>
    parse_hello f = Some (caps, crnd) \<and> length crnd = 32 \<and>
    snd_c = from_session_key cr k crnd srnd DIR_DESKTOP_TO_MOBILE \<and>
    rcv_c = from_session_key cr k crnd srnd DIR_MOBILE_TO_DESKTOP \<and>
    outbound_open \<and> sent = [reply]"
  using assms
  by (auto simp: handle_hello_def Let_def send_frame_def decrypt_def from_pairing_key_def cipher_new_def
      dest: parse_hello_random_length
      split: recv.splits sum.splits if_splits option.splits prod.splits)

theorem handle_hello_authentic_witness:
  "\<exists>hello p f caps crnd. client_hello toy_crypto [7, 8] (replicate 32 1) = Inr hello \<and>
     aead_open toy_crypto [7, 8] (take NONCE_LEN hello) (drop NONCE_LEN hello) = Some p \<and>
     deserialize p = Inr f \<and> parse_hello f = Some (caps, crnd)"
proof -
  obtain hello where hello: "client_hello toy_crypto [7, 8] (replicate 32 1) = Inr hello"
    using toy_client_hello ..
  obtain snd_c rcv_c sent where
    "handle_hello toy_crypto [7, 8] (Received hello) True (replicate 32 2) = (Some (snd_c, rcv_c), sent)"
    using toy_handle_hello [OF hello] by blast
  from handle_hello_authentic [OF this] hello show ?thesis by auto
qed

text \<open>
  The answers of two connections of the same pairing reuse a nonce under one key: both are
  sealed under the pairing key with direction 0 and counter 0, although the server randoms they
  carry, and so the two plaintexts, differ.
\<close>

theorem hello_reply_nonce_reuse:
  assumes "handle_hello cr k in1 open1 srnd1 = (Some c1, sent1)"
    and "handle_hello cr k in2 open2 srnd2 = (Some c2, sent2)"
    and "length srnd1 = 32" "length srnd2 = 32" "srnd1 \<noteq> srnd2"
  shows "\<exists>p1 p2 ct1 ct2. p1 \<noteq> p2 \<and>
    aead_seal cr k (encode_nonce DIR_DESKTOP_TO_MOBILE 0) p1 = Some ct1 \<and>
    aead_seal cr k (encode_nonce DIR_DESKTOP_TO_MOBILE 0) p2 = Some ct2 \<and>
    sent1 = [encode_nonce DIR_DESKTOP_TO_MOBILE 0 @ ct1] \<and>
    sent2 = [encode_nonce DIR_DESKTOP_TO_MOBILE 0 @ ct2]"
proof -
  have sent: "\<exists>caps ct. aead_seal cr k (encode_nonce DIR_DESKTOP_TO_MOBILE 0) (serialize (hello_frame caps srnd)) = Some ct
      \<and> sent = [encode_nonce DIR_DESKTOP_TO_MOBILE 0 @ ct]"
    if "handle_hello cr k inb op srnd = (Some c, sent)" for inb op srnd c sent
    using that
    by (auto simp: handle_hello_def Let_def send_frame_def encrypt_Inr from_pairing_key_def cipher_new_def
        split: recv.splits sum.splits if_splits option.splits prod.splits)
  obtain caps1 caps2 ct1 ct2 where
    "aead_seal cr k (encode_nonce DIR_DESKTOP_TO_MOBILE 0) (serialize (hello_frame caps1 srnd1)) = Some ct1"
    "sent1 = [encode_nonce DIR_DESKTOP_TO_MOBILE 0 @ ct1]"
    "aead_seal cr k (encode_nonce DIR_DESKTOP_TO_MOBILE 0) (serialize (hello_frame caps2 srnd2)) = Some ct2"
    "sent2 = [encode_nonce DIR_DESKTOP_TO_MOBILE 0 @ ct2]"
    using sent [OF assms(1)] sent [OF assms(2)] by blast
  moreover have "serialize (hello_frame caps1 srnd1) \<noteq> serialize (hello_frame caps2 srnd2)"
    using assms(5) hello_round_trip [OF assms(3)] hello_round_trip [OF assms(4)]
      parse_hello_frame [OF assms(3)] parse_hello_frame [OF assms(4)]
    by (metis Inr_inject option.inject prod.inject)
  ultimately show ?thesis by blast
qed

theorem hello_reply_nonce_reuse_witness:
  "\<exists>hello sent1 sent2. client_hello toy_crypto [7, 8] (replicate 32 1) = Inr hello \<and>
     sent1 = snd (handle_hello toy_crypto [7, 8] (Received hello) True (replicate 32 2)) \<and>
     sent2 = snd (handle_hello toy_crypto [7, 8] (Received hello) True (replicate 32 3)) \<and>
     take NONCE_LEN (hd sent1) = take NONCE_LEN (hd sent2)"
proof -
  obtain hello where hello: "client_hello toy_crypto [7, 8] (replicate 32 1) = Inr hello"
    using toy_client_hello ..
  obtain c1 sent1 c2 sent2 where
    h1: "handle_hello toy_crypto [7, 8] (Received hello) True (replicate 32 2) = (Some c1, sent1)" and
    h2: "handle_hello toy_crypto [7, 8] (Received hello) True (replicate 32 3) = (Some c2, sent2)"
    using toy_handle_hello [OF hello] by blast
  have "take NONCE_LEN (hd sent1) = take NONCE_LEN (hd sent2)"
    using hello_reply_nonce_reuse [OF h1 h2] by (auto simp: replicate_eq_replicate)
  with hello h1 h2 show ?thesis by auto
qed

end
