(* ===== verification/Channels.thy ===== *)
theory Channels
  imports Errors
begin

text \<open>
  \<open>crates/core/src/proxy/manager.rs\<close>: the channel manager that limits the SSH channels of the
  proxies, and the bidirectional forwarding loop the proxy handlers share.  The state of one
  handler is its client socket, its channel (a socket too: what the remote end will send and what
  was sent to it), the manager's counters and the log of channels it asked the SSH layer for.  The
  SSH layer is the parameter \<open>opener\<close>.

  Waiting for a permit of the semaphore is the outcome \<open>Waiting\<close>: the task stays there until
  another task returns a permit.  The permit of a channel is an owned guard, so it goes back on
  every way out of the handler; the counter of active clients is a plain counter.
\<close>

record ChannelManager =
  max_channels :: nat
  permits :: nat
  active_clients :: u32
  bytes_in :: u64
  bytes_out :: u64

record world =
  sk :: sock
  chan :: sock
  mgr :: ChannelManager
  opened :: "(string \<times> u16) list"

datatype stop = Failed Error | Waiting

type_synonym 'a handler = "(world, stop, 'a) io"

type_synonym opener = "string \<Rightarrow> u16 \<Rightarrow> Error + unit"

definition manager_new :: "nat \<Rightarrow> ChannelManager" where
  "manager_new maxc =
     \<lparr>max_channels = maxc, permits = maxc, active_clients = 0, bytes_in = 0, bytes_out = 0\<rparr>"

definition available :: "ChannelManager \<Rightarrow> nat" where
  "available m = permits m"

definition active_channel_count :: "ChannelManager \<Rightarrow> u32" where
  "active_channel_count m = word_of_nat (max_channels m - permits m)"

definition is_near_capacity :: "ChannelManager \<Rightarrow> bool" where
  "is_near_capacity m \<longleftrightarrow> available m < max_channels m div 5"

definition mgr_open :: "opener \<Rightarrow> string \<Rightarrow> u16 \<Rightarrow> unit handler" where
  "mgr_open opener host port w =
     (if permits (mgr w) = 0 then (Inl Waiting, w)
      else case opener host port of
             Inl e \<Rightarrow> (Inl (Failed e), w\<lparr>opened := opened w @ [(host, port)]\<rparr>)
           | Inr _ \<Rightarrow>
               (Inr (),
                w\<lparr>mgr := (mgr w)\<lparr>permits := permits (mgr w) - 1,
                                 active_clients := active_clients (mgr w) + 1\<rparr>,
                  opened := opened w @ [(host, port)]\<rparr>))"

text \<open>Dropping the \<open>ManagedChannel\<close> returns its permit; the handlers decrement the counter.\<close>

definition drop_permit :: "world \<Rightarrow> world" where
  "drop_permit w = w\<lparr>mgr := (mgr w)\<lparr>permits := permits (mgr w) + 1\<rparr>\<rparr>"

definition client_done :: "world \<Rightarrow> world" where
  "client_done w = w\<lparr>mgr := (mgr w)\<lparr>active_clients := active_clients (mgr w) - 1\<rparr>\<rparr>"

definition count_in :: "nat \<Rightarrow> world \<Rightarrow> world" where
  "count_in n w = w\<lparr>mgr := (mgr w)\<lparr>bytes_in := bytes_in (mgr w) + word_of_nat n\<rparr>\<rparr>"

definition count_out :: "nat \<Rightarrow> world \<Rightarrow> world" where
  "count_out n w = w\<lparr>mgr := (mgr w)\<lparr>bytes_out := bytes_out (mgr w) + word_of_nat n\<rparr>\<rparr>"

text \<open>Socket operations inside a handler: an I/O error leaves it as \<open>Error::Io\<close>.\<close>

definition on_sock :: "(sock, io_error, 'a) io \<Rightarrow> 'a handler" where
  "on_sock m w = (case m (sk w) of (r, s) \<Rightarrow> (map_err (\<lambda>e. Failed (Io e)) r, w\<lparr>sk := s\<rparr>))"

definition fail :: "Error \<Rightarrow> 'a handler" where
  "fail e w = (Inl (Failed e), w)"

text \<open>Handler steps that never ask for a channel, and what a step took from the client.\<close>

definition quiet :: "'a handler \<Rightarrow> bool" where
  "quiet m \<longleftrightarrow> (\<forall>w. opened (snd (m w)) = opened w \<and> mgr (snd (m w)) = mgr w \<and> chan (snd (m w)) = chan w)"

definition reads :: "world \<Rightarrow> bytes \<Rightarrow> world \<Rightarrow> bool" where
  "reads w d w' \<longleftrightarrow> avail (rx (sk w)) = d @ avail (rx (sk w'))"

definition recv :: "nat \<Rightarrow> bytes handler" where
  "recv n = on_sock (read_exact n)"

definition send :: "bytes \<Rightarrow> unit handler" where
  "send bs = on_sock (write_all bs)"

lemma reads_refl: "reads w [] w"
  by (simp add: reads_def)

lemma reads_trans: "reads w d w1 \<Longrightarrow> reads w1 e w2 \<Longrightarrow> reads w (d @ e) w2"
  by (simp add: reads_def)

lemma quietD: "quiet m \<Longrightarrow> m w = (r, w') \<Longrightarrow> opened w' = opened w \<and> mgr w' = mgr w \<and> chan w' = chan w"
  unfolding quiet_def by (metis snd_conv)

lemma quiet_bind:
  assumes m: "quiet m" and k: "\<And>x. quiet (k x)"
  shows "quiet (io_bind m k)"
proof -
  have "opened (snd (io_bind m k w)) = opened w \<and> mgr (snd (io_bind m k w)) = mgr w \<and>
      chan (snd (io_bind m k w)) = chan w" for w
  proof (cases "m w")
    case (Pair r w1)
    note q = quietD [OF m Pair]
    show ?thesis
    proof (cases r)
      case (Inl e)
      with Pair q show ?thesis by (simp add: io_bind_def)
    next
      case (Inr x)
      obtain r2 w2 where "k x w1 = (r2, w2)" by fastforce
      with Pair q Inr quietD [OF k this] show ?thesis by (simp add: io_bind_def)
    qed
  qed
  then show ?thesis by (simp add: quiet_def)
qed

lemma quiet_basic: "quiet (io_ret x)" "quiet (fail e)" "quiet (recv n)" "quiet (send bs)"
  by (auto simp: quiet_def io_ret_def fail_def on_sock_def recv_def send_def split: prod.splits)

lemma quiet_cases:
  "quiet a \<Longrightarrow> quiet b \<Longrightarrow> quiet (if c then a else b)"
  "quiet a \<Longrightarrow> (\<And>x. quiet (f x)) \<Longrightarrow> quiet (case opt of None \<Rightarrow> a | Some x \<Rightarrow> f x)"
  "(\<And>x y. quiet (g x y)) \<Longrightarrow> quiet (case p of (x, y) \<Rightarrow> g x y)"
  by (simp_all split: option.split prod.split)

lemmas quiet_intros = quiet_bind quiet_basic quiet_cases

lemma io_bind_Inr: "io_bind m k w = (Inr y, w') \<longleftrightarrow> (\<exists>x w1. m w = (Inr x, w1) \<and> k x w1 = (Inr y, w'))"
  by (auto simp: io_bind_def split: prod.splits sum.splits)

text \<open>A handler that opened a channel got past its quiet first phase.\<close>

lemma quiet_first:
  assumes "io_bind m k w = (r, w')" "quiet m" "opened w' \<noteq> opened w"
  obtains x w1 where "m w = (Inr x, w1)" "k x w1 = (r, w')" "opened w1 = opened w"
proof (cases "m w")
  case (Pair r1 w1)
  note q = quietD [OF assms(2) Pair]
  with assms(1,3) Pair obtain x where "r1 = Inr x"
    by (cases r1) (auto simp: io_bind_def)
  with Pair assms(1) q show ?thesis by (intro that [of x w1]) (simp_all add: io_bind_def)
qed

lemma recv_Inr:
  assumes "recv n w = (Inr d, w')"
  shows "reads w d w' \<and> length d = n \<and> tx (sk w') = tx (sk w)"
  using assms unfolding recv_def on_sock_def
  by (cases rule: read_exact_cases [where n = n and sk = "sk w"]) (auto simp: reads_def)

lemma send_reads: "reads w [] (snd (send bs w))"
  by (auto simp: reads_def send_def on_sock_def write_all_def split: nat.splits)

lemma send_Inr: "send bs w = (Inr x, w') \<Longrightarrow> reads w [] w'"
  using send_reads [of w bs] by simp

text \<open>A read with enough data, and a write with a live peer, succeed with these effects.\<close>

lemma recv_enough:
  assumes "avail (rx (sk w)) = d @ rest" "length d = n"
  obtains r where "recv n w = (Inr d, w\<lparr>sk := (sk w)\<lparr>rx := r\<rparr>\<rparr>)" "avail r = rest"
proof -
  have "n \<le> length (avail (rx (sk w)))" using assms by simp
  then obtain r where "read_exact n (sk w) = (Inr (take n (avail (rx (sk w)))), (sk w)\<lparr>rx := r\<rparr>)"
    "avail r = drop n (avail (rx (sk w)))"
    by (rule read_exact_ok)
  then show ?thesis using assms by (intro that [of r]) (simp_all add: recv_def on_sock_def)
qed

lemma send_ok:
  "writes_left (sk w) = Suc k \<Longrightarrow> bs \<noteq> [] \<Longrightarrow>
   send bs w = (Inr (), w\<lparr>sk := (sk w)\<lparr>tx := tx (sk w) @ bs, writes_left := k\<rparr>\<rparr>)"
  by (simp add: send_def on_sock_def write_all_def)

section \<open>Forwarding\<close>

text \<open>
  \<open>tokio::io::copy\<close> repeats: read at most 8192 bytes, write them.  The two copies of a connection
  run concurrently and the first to end (end of stream, an error, the timeout) ends the other, so a
  forwarding is a schedule of copy steps of the two directions; the end of the schedule is the
  timeout.
\<close>

datatype relay_step = Up | Down

definition copy_step :: "sock \<Rightarrow> sock \<Rightarrow> bool \<times> sock \<times> sock \<times> nat" where
  "copy_step src dst =
     (case read_some 8192 src of
        (Inl _, src') \<Rightarrow> (False, src', dst, 0)
      | (Inr d, src') \<Rightarrow>
          if d = [] then (False, src', dst, 0)
          else (case write_all d dst of
                  (Inl _, dst') \<Rightarrow> (False, src', dst', length d)
                | (Inr _, dst') \<Rightarrow> (True, src', dst', length d)))"

fun relay :: "relay_step list \<Rightarrow> world \<Rightarrow> world" where
  "relay [] w = w"
| "relay (Up # rest) w =
     (case copy_step (sk w) (chan w) of
        (go, s, c, n) \<Rightarrow>
          let w' = count_in n (w\<lparr>sk := s, chan := c\<rparr>) in if go then relay rest w' else w')"
| "relay (Down # rest) w =
     (case copy_step (chan w) (sk w) of
        (go, c, s, n) \<Rightarrow>
          let w' = count_out n (w\<lparr>sk := s, chan := c\<rparr>) in if go then relay rest w' else w')"

lemma avail_read_some:
  assumes "read_some cap s = (Inr d, s')" "0 < cap"
  shows "avail (rx s) = d @ avail (rx s')" and "tx s' = tx s" and "writes_left s' = writes_left s"
  using assms by (auto simp: read_some_def avail_Cons split: list.splits if_splits)

lemma read_some_bound: "read_some cap s = (Inr d, s') \<Longrightarrow> length d \<le> cap"
  by (auto simp: read_some_def split: list.splits if_splits)

lemma copy_step_spec:
  assumes "copy_step src dst = (go, src', dst', n)"
  obtains d where "avail (rx src) = d @ avail (rx src')" "length d = n" "n \<le> 8192" "tx src' = tx src"
    "rx dst' = rx dst" "tx dst' = tx dst @ d \<or> tx dst' = tx dst \<and> \<not> go"
proof -
  obtain r s1 where r: "read_some 8192 src = (r, s1)" by fastforce
  then obtain d where d: "r = Inr d"
    by (auto simp: read_some_def split: list.splits if_splits)
  note a = avail_read_some [OF r [unfolded d]] and b = read_some_bound [OF r [unfolded d]]
  show ?thesis
  proof (cases "d = []")
    case True
    then show ?thesis using assms r d a by (intro that [of "[]"]) (auto simp: copy_step_def)
  next
    case False
    then show ?thesis using assms r d a b
      by (intro that [of d]) (auto simp: copy_step_def write_all_def split: nat.splits)
  qed
qed

text \<open>
  What one run of the forwarding loop does: \<open>u\<close> was read from the client and \<open>u'\<close> of it reached
  the channel, \<open>v\<close> was read from the channel and \<open>v'\<close> of it reached the client.
\<close>

definition relayed :: "world \<Rightarrow> bytes \<Rightarrow> bytes \<Rightarrow> bytes \<Rightarrow> bytes \<Rightarrow> world \<Rightarrow> bool" where
  "relayed w u u' v v' w' \<longleftrightarrow>
     avail (rx (sk w)) = u @ avail (rx (sk w')) \<and> avail (rx (chan w)) = v @ avail (rx (chan w')) \<and>
     tx (chan w') = tx (chan w) @ u' \<and> tx (sk w') = tx (sk w) @ v' \<and>
     prefix u' u \<and> prefix v' v \<and> length u \<le> length u' + 8192 \<and> length v \<le> length v' + 8192 \<and>
     bytes_in (mgr w') = bytes_in (mgr w) + word_of_nat (length u) \<and>
     bytes_out (mgr w') = bytes_out (mgr w) + word_of_nat (length v) \<and>
     permits (mgr w') = permits (mgr w) \<and> active_clients (mgr w') = active_clients (mgr w) \<and>
     max_channels (mgr w') = max_channels (mgr w) \<and> opened w' = opened w"

lemma relayed_refl: "relayed w [] [] [] [] w"
  by (simp add: relayed_def)

lemma relayed_trans:
  "relayed w u u v v w1 \<Longrightarrow> relayed w1 p p' q q' w2 \<Longrightarrow> relayed w (u @ p) (u @ p') (v @ q) (v @ q') w2"
  by (simp add: relayed_def add.assoc)

lemma relayed_up:
  assumes "copy_step (sk w) (chan w) = (go, s, c, n)"
  obtains u u' where "relayed w u u' [] [] (count_in n (w\<lparr>sk := s, chan := c\<rparr>))" "go \<longrightarrow> u' = u"
proof -
  from assms obtain d where d: "avail (rx (sk w)) = d @ avail (rx s)" "length d = n" "n \<le> 8192"
    "tx s = tx (sk w)" "rx c = rx (chan w)" "tx c = tx (chan w) @ d \<or> tx c = tx (chan w) \<and> \<not> go"
    by (rule copy_step_spec)
  show ?thesis
  proof (cases "tx c = tx (chan w) @ d")
    case True
    with d show ?thesis by (intro that [of d d]) (auto simp: relayed_def count_in_def)
  next
    case False
    with d show ?thesis by (intro that [of d "[]"]) (auto simp: relayed_def count_in_def)
  qed
qed

lemma relayed_down:
  assumes "copy_step (chan w) (sk w) = (go, c, s, n)"
  obtains v v' where "relayed w [] [] v v' (count_out n (w\<lparr>sk := s, chan := c\<rparr>))" "go \<longrightarrow> v' = v"
proof -
  from assms obtain d where d: "avail (rx (chan w)) = d @ avail (rx c)" "length d = n" "n \<le> 8192"
    "tx c = tx (chan w)" "rx s = rx (sk w)" "tx s = tx (sk w) @ d \<or> tx s = tx (sk w) \<and> \<not> go"
    by (rule copy_step_spec)
  show ?thesis
  proof (cases "tx s = tx (sk w) @ d")
    case True
    with d show ?thesis by (intro that [of d d]) (auto simp: relayed_def count_out_def)
  next
    case False
    with d show ?thesis by (intro that [of d "[]"]) (auto simp: relayed_def count_out_def)
  qed
qed

lemma relay_relayed: "\<exists>u u' v v'. relayed w u u' v v' (relay sched w)"
proof (induction sched w rule: relay.induct)
  case (1 w)
  show ?case unfolding relay.simps by (intro exI) (rule relayed_refl)
next
  case (2 rest w)
  obtain go s c n where step: "copy_step (sk w) (chan w) = (go, s, c, n)"
    by (metis prod_cases4)
  then obtain u u' where one: "relayed w u u' [] [] (count_in n (w\<lparr>sk := s, chan := c\<rparr>))" "go \<longrightarrow> u' = u"
    by (rule relayed_up)
  show ?case
  proof (cases go)
    case True
    with 2 step show ?thesis using relayed_trans one by (fastforce simp: Let_def)
  next
    case False
    with one step show ?thesis by (auto simp: Let_def)
  qed
next
  case (3 rest w)
  obtain go s c n where step: "copy_step (chan w) (sk w) = (go, c, s, n)"
    by (metis prod_cases4)
  then obtain v v' where one: "relayed w [] [] v v' (count_out n (w\<lparr>sk := s, chan := c\<rparr>))" "go \<longrightarrow> v' = v"
    by (rule relayed_down)
  show ?case
  proof (cases go)
    case True
    with 3 step show ?thesis using relayed_trans one by (fastforce simp: Let_def)
  next
    case False
    with one step show ?thesis by (auto simp: Let_def)
  qed
qed

text \<open>
  C4. Forwarding is transparent and metered: whatever the interleaving of the two directions, the
  channel receives a prefix of the client's byte stream and the client a prefix of the channel's, in
  order and unmodified, at most one buffer of 8192 bytes of each having been read without being
  delivered; the two byte counters grow by exactly the bytes read; the permits are untouched.
\<close>

theorem relay_transparent:
  "\<exists>u u' v v'. avail (rx (sk w)) = u @ avail (rx (sk (relay sched w))) \<and>
     avail (rx (chan w)) = v @ avail (rx (chan (relay sched w))) \<and>
     tx (chan (relay sched w)) = tx (chan w) @ u' \<and> tx (sk (relay sched w)) = tx (sk w) @ v' \<and>
     prefix u' u \<and> prefix v' v \<and> length u \<le> length u' + 8192 \<and> length v \<le> length v' + 8192 \<and>
     bytes_in (mgr (relay sched w)) = bytes_in (mgr w) + word_of_nat (length u) \<and>
     bytes_out (mgr (relay sched w)) = bytes_out (mgr w) + word_of_nat (length v) \<and>
     permits (mgr (relay sched w)) = permits (mgr w)"
  using relay_relayed [of w sched] unfolding relayed_def by blast

end
