(* ===== verification/Socks5.thy ===== *)
theory Socks5
  imports Channels
begin

text \<open>
  \<open>crates/core/src/proxy/socks5.rs\<close>: the SOCKS5 server's connection handler.
  \<open>handle_connection opener sched auth peeked\<close> takes the SSH layer, the schedule of the forwarding
  phase, the optional credentials and the bytes already taken from the socket.
\<close>

section \<open>Codes, credentials, listening\<close>

definition SUCCEEDED :: u8 where "SUCCEEDED = 0x00"
definition GENERAL_FAILURE :: u8 where "GENERAL_FAILURE = 0x01"
definition COMMAND_NOT_SUPPORTED :: u8 where "COMMAND_NOT_SUPPORTED = 0x07"
definition CMD_CONNECT :: u8 where "CMD_CONNECT = 0x01"
definition CMD_BIND :: u8 where "CMD_BIND = 0x02"
definition CMD_UDP_ASSOCIATE :: u8 where "CMD_UDP_ASSOCIATE = 0x03"
definition ATYP_IPV4 :: u8 where "ATYP_IPV4 = 0x01"
definition ATYP_DOMAINNAME :: u8 where "ATYP_DOMAINNAME = 0x03"
definition ATYP_IPV6 :: u8 where "ATYP_IPV6 = 0x04"

lemmas socks_codes = SUCCEEDED_def GENERAL_FAILURE_def COMMAND_NOT_SUPPORTED_def CMD_CONNECT_def
  CMD_BIND_def CMD_UDP_ASSOCIATE_def ATYP_IPV4_def ATYP_DOMAINNAME_def ATYP_IPV6_def

record Socks5Auth =
  auth_username :: string
  auth_password :: string

text \<open>Binding the listening socket, with the label of the server in the error text.\<close>

definition bind_listener :: "string \<Rightarrow> (string \<Rightarrow> io_error + 'l) \<Rightarrow> u16 \<Rightarrow> Error + 'l" where
  "bind_listener label bind port =
     map_err (\<lambda>e. if e = AddrInUse
                  then ipc_err ProxyPortInUse (label @ '' port '' @ show_nat (unat port) @ '' is in use'')
                  else Io e)
       (bind (''127.0.0.1:'' @ show_nat (unat port)))"

definition socks5_bind :: "(string \<Rightarrow> io_error + 'l) \<Rightarrow> u16 \<Rightarrow> Error + 'l" where
  "socks5_bind = bind_listener ''SOCKS5''"

section \<open>Comparing credentials\<close>

definition ct_eq :: "bytes \<Rightarrow> bytes \<Rightarrow> bool" where
  "ct_eq a b =
     (foldl (\<lambda>diff (x, y). diff OR ucast (x XOR y)) (len_u32 a - len_u32 b) (zip a b) = (0 :: u32))"

lemma ucast_u8_eq_0: "(ucast (w :: u8) :: u32) = 0 \<longleftrightarrow> w = 0"
proof
  assume "(ucast w :: u32) = 0"
  then have "(ucast (ucast w :: u32) :: u8) = ucast (0 :: u32)" by (simp only:)
  moreover have "(ucast (ucast w :: u32) :: u8) = w"
    by (rule bit_word_eqI) (simp add: bit_simps)
  ultimately show "w = 0" by simp
qed simp

lemma xor_eq_0: "x XOR y = 0 \<longleftrightarrow> x = (y :: u8)"
proof
  assume "x XOR y = 0"
  then have "(x XOR y) XOR y = y" by simp
  then show "x = y" by (simp add: xor.assoc)
qed simp

lemma foldl_or_eq_0:
  "foldl (\<lambda>diff (x, y). diff OR ucast (x XOR y)) (d :: u32) ps = 0 \<longleftrightarrow>
   d = 0 \<and> (\<forall>(x, y) \<in> set ps. x = (y :: u8))"
  by (induction ps arbitrary: d) (auto simp: or_eq_0_iff ucast_u8_eq_0 xor_eq_0)

lemma ct_eq_iff:
  assumes "length a < 2 ^ 32" "length b < 2 ^ 32"
  shows "ct_eq a b \<longleftrightarrow> a = b"
proof -
  have "len_u32 a = len_u32 b \<longleftrightarrow> length a = length b"
    using assms by (metis unat_len_u32 len_u32_def)
  then have "ct_eq a b \<longleftrightarrow> length a = length b \<and> (\<forall>(x, y) \<in> set (zip a b). x = y)"
    by (simp add: ct_eq_def foldl_or_eq_0)
  then show ?thesis by (auto simp: list_eq_iff_zip_eq)
qed

section \<open>The handler\<close>

definition read_greeting :: "bytes \<Rightarrow> bytes handler" where
  "read_greeting peeked =
     io_bind (if 2 \<le> length peeked then io_ret (take 2 peeked)
              else if length peeked = 1 then io_bind (recv 1) (\<lambda>b. io_ret (peeked @ b))
              else recv 2) (\<lambda>buf.
     if buf ! 0 \<noteq> 0x05 then fail (Other ''not a SOCKS5 request'')
     else let nmethods = unat (buf ! 1) in
       if 2 < length peeked then
         (let peeked_methods = drop 2 peeked in
          if nmethods \<le> length peeked_methods then io_ret (take nmethods peeked_methods)
          else io_bind (recv (nmethods - length peeked_methods)) (\<lambda>m. io_ret (peeked_methods @ m)))
       else recv nmethods)"

definition password_auth :: "Socks5Auth \<Rightarrow> unit handler" where
  "password_auth auth =
     io_bind (recv 1) (\<lambda>ver.
     if ver ! 0 \<noteq> 0x01 then fail (Other ''invalid auth version'')
     else
       io_bind (recv 1) (\<lambda>ulen.
       io_bind (recv (unat (ulen ! 0))) (\<lambda>username.
       io_bind (recv 1) (\<lambda>plen.
       io_bind (recv (unat (plen ! 0))) (\<lambda>password.
         let user_ok = ct_eq username (bytes_of_str (auth_username auth));
             pass_ok = ct_eq password (bytes_of_str (auth_password auth))
         in if \<not> user_ok \<or> \<not> pass_ok
            then io_bind (send [0x01, 0x01]) (\<lambda>_. fail (Other ''SOCKS5 auth failed''))
            else send [0x01, 0x00])))))"

definition authenticate :: "Socks5Auth option \<Rightarrow> bytes \<Rightarrow> unit handler" where
  "authenticate auth methods =
     (case auth of
        Some a \<Rightarrow>
          if 0x02 \<notin> set methods
          then io_bind (send [0x05, 0xFF]) (\<lambda>_.
               fail (Other ''client doesn't support username/password auth''))
          else io_bind (send [0x05, 0x02]) (\<lambda>_. password_auth a)
      | None \<Rightarrow>
          if 0x00 \<notin> set methods
          then io_bind (send [0x05, 0xFF]) (\<lambda>_. fail (Other ''client doesn't support no-auth''))
          else send [0x05, 0x00])"

text \<open>\<open>Ipv4Addr\<close> and \<open>Ipv6Addr\<close> as text (RFC 5952: the first longest run of zeros).\<close>

definition show_ipv4 :: "bytes \<Rightarrow> string" where
  "show_ipv4 a = join ''.'' (map (\<lambda>b. show_nat (unat b)) a)"

fun show_hex :: "nat \<Rightarrow> string" where
  "show_hex n =
     (let d = \<lambda>k. if k < 10 then char_of (48 + k) else char_of (87 + k) in
      if n < 16 then [d n] else show_hex (n div 16) @ [d (n mod 16)])"

declare show_hex.simps [simp del]

definition zero_run :: "nat list \<Rightarrow> nat \<Rightarrow> nat" where
  "zero_run segs i = length (takeWhile (\<lambda>s. s = 0) (drop i segs))"

definition longest_zeros :: "nat list \<Rightarrow> nat \<times> nat" where
  "longest_zeros segs =
     foldl (\<lambda>(start, len) i. if zero_run segs i > len then (i, zero_run segs i) else (start, len))
       (0, 0) [0..<length segs]"

definition ipv6_segments :: "bytes \<Rightarrow> nat list" where
  "ipv6_segments a = map (\<lambda>i. unat (of_be16 (a ! (2 * i)) (a ! (2 * i + 1)))) [0..<8]"

definition show_ipv6 :: "bytes \<Rightarrow> string" where
  "show_ipv6 a =
     (let segs = ipv6_segments a; (start, len) = longest_zeros segs in
      if take 12 a = replicate 10 0 @ [0xFF, 0xFF] then ''::ffff:'' @ show_ipv4 (drop 12 a)
      else if 1 < len
      then join '':'' (map show_hex (take start segs)) @ ''::'' @
           join '':'' (map show_hex (drop (start + len) segs))
      else join '':'' (map show_hex segs))"

definition recv_port :: "u16 handler" where
  "recv_port = io_bind (recv 2) (\<lambda>b. io_ret (of_be16 (b ! 0) (b ! 1)))"

definition parse_address :: "u8 \<Rightarrow> (string \<times> u16) handler" where
  "parse_address addr_type =
     (if addr_type = ATYP_IPV4 then
        io_bind (recv 4) (\<lambda>addr. io_bind recv_port (\<lambda>port. io_ret (show_ipv4 addr, port)))
      else if addr_type = ATYP_DOMAINNAME then
        io_bind (recv 1) (\<lambda>len. io_bind (recv (unat (len ! 0))) (\<lambda>domain. io_bind recv_port (\<lambda>port.
          case from_utf8 domain of
            None \<Rightarrow> fail (Other ''invalid domain name'')
          | Some host \<Rightarrow> io_ret (host, port))))
      else if addr_type = ATYP_IPV6 then
        io_bind (recv 16) (\<lambda>addr. io_bind recv_port (\<lambda>port. io_ret (show_ipv6 addr, port)))
      else fail (Other (''unsupported address type: '' @ show_nat (unat addr_type))))"

definition reply :: "u8 \<Rightarrow> bytes" where
  "reply code = [0x05, code, 0x00, 0x01, 0, 0, 0, 0, 0, 0]"

definition socks5_connect :: "opener \<Rightarrow> relay_step list \<Rightarrow> string \<Rightarrow> u16 \<Rightarrow> unit handler" where
  "socks5_connect opener sched host port w =
     (case mgr_open opener host port w of
        (Inl Waiting, w1) \<Rightarrow> (Inl Waiting, w1)
      | (Inl (Failed e), w1) \<Rightarrow> (Inl (Failed e), snd (send (reply GENERAL_FAILURE) w1))
      | (Inr _, w1) \<Rightarrow>
          (case send (reply SUCCEEDED) w1 of
             (Inl e, w2) \<Rightarrow> (Inl e, drop_permit w2)
           | (Inr _, w2) \<Rightarrow> (Inr (), drop_permit (client_done (relay sched w2)))))"

definition handle_request :: "opener \<Rightarrow> relay_step list \<Rightarrow> unit handler" where
  "handle_request opener sched =
     io_bind (recv 4) (\<lambda>req.
     if req ! 0 \<noteq> 0x05 then fail (Other ''invalid SOCKS5 version in request'')
     else let command = req ! 1; addr_type = req ! 3 in
       io_bind (parse_address addr_type) (\<lambda>(host, port).
         if command = CMD_CONNECT then socks5_connect opener sched host port
         else if command = CMD_BIND \<or> command = CMD_UDP_ASSOCIATE
         then io_bind (send (reply COMMAND_NOT_SUPPORTED)) (\<lambda>_.
              fail (Other (''command '' @ show_nat (unat command) @ '' not supported'')))
         else io_bind (send (reply COMMAND_NOT_SUPPORTED)) (\<lambda>_.
              fail (Other (''unknown command '' @ show_nat (unat command))))))"

definition socks5_connection ::
  "opener \<Rightarrow> relay_step list \<Rightarrow> Socks5Auth option \<Rightarrow> bytes \<Rightarrow> unit handler" where
  "socks5_connection opener sched auth peeked =
     io_bind (read_greeting peeked) (\<lambda>methods.
     io_bind (authenticate auth methods) (\<lambda>_.
       handle_request opener sched))"

section \<open>Nobody passes without the credentials\<close>

lemma quiet_read_greeting: "quiet (read_greeting peeked)"
  unfolding read_greeting_def Let_def by (intro quiet_intros)

lemma quiet_authenticate: "quiet (authenticate auth methods)"
  unfolding authenticate_def password_auth_def Let_def by (intro quiet_intros)

lemma quiet_parse_address: "quiet (parse_address t)"
  unfolding parse_address_def recv_port_def by (intro quiet_intros)

lemma len1: "length d = Suc 0 \<Longrightarrow> d = [d ! 0]"
  by (cases d) auto

lemma len2: "length d = 2 \<Longrightarrow> d = [d ! 0, d ! 1]"
  by (cases d; cases "tl d") auto

lemma read_greeting_Inr:
  assumes "read_greeting [] w = (Inr ms, w')"
  shows "\<exists>n. reads w ([5, n] @ ms) w' \<and> length ms = unat n"
proof -
  from assms obtain buf w1 where b: "recv 2 w = (Inr buf, w1)" "buf ! 0 = 5"
    "recv (unat (buf ! 1)) w1 = (Inr ms, w')"
    by (auto simp: read_greeting_def io_bind_Inr Let_def fail_def split: if_splits)
  from recv_Inr [OF b(1)] have "reads w [5, buf ! 1] w1"
    using len2 [of buf] b(2) by metis
  with recv_Inr [OF b(3)] show ?thesis
    using reads_trans [of w "[5, buf ! 1]" w1 ms w'] by auto
qed

lemma password_auth_Inr:
  assumes "password_auth a w = (Inr x, w')"
    and "length (auth_username a) < 2 ^ 32" "length (auth_password a) < 2 ^ 32"
  shows "\<exists>ul pl. reads w ([1, ul] @ bytes_of_str (auth_username a) @ [pl] @ bytes_of_str (auth_password a)) w'
     \<and> length (auth_username a) = unat ul \<and> length (auth_password a) = unat pl"
proof -
  from assms(1) obtain v w1 ul w2 u w3 pl w4 p w5 where
    v: "recv 1 w = (Inr v, w1)" "v ! 0 = 1" and ul: "recv 1 w1 = (Inr ul, w2)" and
    u: "recv (unat (ul ! 0)) w2 = (Inr u, w3)" and pl: "recv 1 w3 = (Inr pl, w4)" and
    p: "recv (unat (pl ! 0)) w4 = (Inr p, w5)" and
    eq: "ct_eq u (bytes_of_str (auth_username a))" "ct_eq p (bytes_of_str (auth_password a))" and
    s: "send [1, 0] w5 = (Inr x, w')"
    by (auto simp: password_auth_def io_bind_Inr Let_def fail_def split: if_splits)
  have small: "unat b < 2 ^ 32" for b :: u8
    using unat_u8_less [of b] by simp
  have up: "u = bytes_of_str (auth_username a)" "p = bytes_of_str (auth_password a)"
    using eq recv_Inr [OF u] recv_Inr [OF p] small assms(2,3) by (simp_all add: ct_eq_iff)
  have "reads w [1] w1" "reads w1 [ul ! 0] w2" "reads w3 [pl ! 0] w4"
    using recv_Inr [OF v(1)] recv_Inr [OF ul] recv_Inr [OF pl] v(2) len1 by (metis One_nat_def)+
  then have "reads w ([1] @ [ul ! 0] @ u @ [pl ! 0] @ p @ []) w'"
    using recv_Inr [OF u] recv_Inr [OF p] send_Inr [OF s] by (blast intro: reads_trans)
  then show ?thesis
    using up recv_Inr [OF u] recv_Inr [OF p] by (metis append_Cons append_Nil append_Nil2 length_str_bytes(2))
qed

text \<open>
  C5. With credentials configured, no channel is ever requested for a client that did not send
  them: if the handler asked the SSH layer for a channel, the client's bytes start with a greeting
  that offers method 2 and the sub-negotiation carrying exactly the configured username and
  password.
\<close>

theorem socks5_auth_required:
  assumes "socks5_connection opener sched (Some a) [] w = (r, w')" "opened w' \<noteq> opened w"
    and "length (auth_username a) < 2 ^ 32" "length (auth_password a) < 2 ^ 32"
  shows "\<exists>n methods ul pl rest. avail (rx (sk w)) =
      [5, n] @ methods @ [1, ul] @ bytes_of_str (auth_username a) @ [pl] @ bytes_of_str (auth_password a) @ rest
    \<and> length methods = unat n \<and> 2 \<in> set methods
    \<and> length (auth_username a) = unat ul \<and> length (auth_password a) = unat pl"
proof -
  obtain ms w1 where g: "read_greeting [] w = (Inr ms, w1)" and same: "opened w1 = opened w"
    and rest: "io_bind (authenticate (Some a) ms) (\<lambda>_. handle_request opener sched) w1 = (r, w')"
    using quiet_first [OF assms(1) [unfolded socks5_connection_def] quiet_read_greeting assms(2)]
    by blast
  obtain x w2 where "authenticate (Some a) ms w1 = (Inr x, w2)"
    using quiet_first [OF rest quiet_authenticate] assms(2) same by metis
  then obtain w3 where m: "2 \<in> set ms" and s: "send [5, 2] w1 = (Inr (), w3)"
    and p: "password_auth a w3 = (Inr x, w2)"
    by (auto simp: authenticate_def io_bind_Inr fail_def split: if_splits)
  show ?thesis
    using read_greeting_Inr [OF g] password_auth_Inr [OF p assms(3,4)] send_Inr [OF s] m
    by (fastforce simp: reads_def)
qed

definition demo_world :: "bytes \<Rightarrow> nat \<Rightarrow> world" where
  "demo_world bs writes =
     \<lparr>sk = \<lparr>rx = [bs], tx = [], writes_left = writes\<rparr>, chan = \<lparr>rx = [], tx = [], writes_left = 9\<rparr>,
      mgr = manager_new 4, opened = []\<rparr>"

theorem socks5_auth_required_witness:
  "\<exists>n methods ul pl rest.
     ([5, 1, 2, 1, 1, 117, 1, 112, 5, 1, 0, 3, 1, 97, 0, 80] :: bytes) =
      [5, n] @ methods @ [1, ul] @ bytes_of_str ''u'' @ [pl] @ bytes_of_str ''p'' @ rest
      \<and> 2 \<in> set methods"
proof -
  let ?w = "demo_world [5, 1, 2, 1, 1, 117, 1, 112, 5, 1, 0, 3, 1, 97, 0, 80] 5"
  let ?a = "\<lparr>auth_username = ''u'', auth_password = ''p''\<rparr>"
  have run: "opened (snd (socks5_connection (\<lambda>_ _. Inr ()) [] (Some ?a) [] ?w)) = [(''a'', 80)]"
    by code_simp
  obtain r w' where res: "socks5_connection (\<lambda>_ _. Inr ()) [] (Some ?a) [] ?w = (r, w')"
    by fastforce
  from run have "opened w' = [(''a'', 80)]"
    by (simp only: res snd_conv)
  then have "opened w' \<noteq> opened ?w"
    by (simp add: demo_world_def)
  from socks5_auth_required [OF res this] show ?thesis
    by (auto simp: demo_world_def avail_Cons)
qed

section \<open>The successful path\<close>

lemma length_be16_nth: "be16 p = [be16 p ! 0, be16 p ! 1]"
  by (simp add: be16_def)

lemma recv_port_enough:
  assumes "avail (rx (sk w)) = be16 port @ rest"
  obtains r where "recv_port w = (Inr port, w\<lparr>sk := (sk w)\<lparr>rx := r\<rparr>\<rparr>)" "avail r = rest"
proof -
  obtain r where "recv 2 w = (Inr (be16 port), w\<lparr>sk := (sk w)\<lparr>rx := r\<rparr>\<rparr>)" "avail r = rest"
    using assms by (rule recv_enough [where n = 2]) simp
  then show ?thesis
    by (intro that [of r]) (simp_all add: recv_port_def io_bind_def io_ret_def be16_def of_be16_be16)
qed

lemma parse_domain_enough:
  assumes a: "avail (rx (sk w)) = [word_of_nat (length host)] @ bytes_of_str host @ be16 port @ rest"
    and h: "length host < 256" "from_utf8 (bytes_of_str host) = Some host"
  obtains r where "parse_address ATYP_DOMAINNAME w = (Inr (host, port), w\<lparr>sk := (sk w)\<lparr>rx := r\<rparr>\<rparr>)"
    "avail r = rest"
proof -
  obtain r1 where r1: "recv 1 w = (Inr [word_of_nat (length host)], w\<lparr>sk := (sk w)\<lparr>rx := r1\<rparr>\<rparr>)"
    "avail r1 = bytes_of_str host @ be16 port @ rest"
    using a by (rule recv_enough [where n = 1]) simp
  let ?w1 = "w\<lparr>sk := (sk w)\<lparr>rx := r1\<rparr>\<rparr>"
  have a1: "avail (rx (sk ?w1)) = bytes_of_str host @ be16 port @ rest"
    by (simp add: r1(2))
  obtain r2 where r2: "recv (length host) ?w1 = (Inr (bytes_of_str host), ?w1\<lparr>sk := (sk ?w1)\<lparr>rx := r2\<rparr>\<rparr>)"
    "avail r2 = be16 port @ rest"
    using a1 by (rule recv_enough [where n = "length host"]) simp
  let ?w2 = "?w1\<lparr>sk := (sk ?w1)\<lparr>rx := r2\<rparr>\<rparr>"
  have a2: "avail (rx (sk ?w2)) = be16 port @ rest"
    by (simp add: r2(2))
  obtain r3 where r3: "recv_port ?w2 = (Inr port, ?w2\<lparr>sk := (sk ?w2)\<lparr>rx := r3\<rparr>\<rparr>)" "avail r3 = rest"
    using a2 by (rule recv_port_enough)
  have "unat (word_of_nat (length host) :: u8) = length host"
    using h(1) by (simp add: unat_of_nat)
  with r1(1) r2(1) r3(1) h(2) have
    "parse_address ATYP_DOMAINNAME w = (Inr (host, port), w\<lparr>sk := (sk w)\<lparr>rx := r3\<rparr>\<rparr>)"
    by (simp add: parse_address_def socks_codes io_bind_def io_ret_def)
  then show ?thesis using r3(2) by (rule that)
qed

lemma greeting_enough:
  assumes a: "avail (rx (sk w)) = [5, word_of_nat (length ms)] @ ms @ rest" and l: "length ms < 256"
  obtains r where "read_greeting [] w = (Inr ms, w\<lparr>sk := (sk w)\<lparr>rx := r\<rparr>\<rparr>)" "avail r = rest"
proof -
  obtain r1 where r1: "recv 2 w = (Inr [5, word_of_nat (length ms)], w\<lparr>sk := (sk w)\<lparr>rx := r1\<rparr>\<rparr>)"
    "avail r1 = ms @ rest"
    using a by (rule recv_enough [where n = 2]) simp
  let ?w1 = "w\<lparr>sk := (sk w)\<lparr>rx := r1\<rparr>\<rparr>"
  have a1: "avail (rx (sk ?w1)) = ms @ rest" by (simp add: r1(2))
  obtain r2 where r2: "recv (length ms) ?w1 = (Inr ms, ?w1\<lparr>sk := (sk ?w1)\<lparr>rx := r2\<rparr>\<rparr>)" "avail r2 = rest"
    using a1 by (rule recv_enough [where n = "length ms"]) simp
  have "unat (word_of_nat (length ms) :: u8) = length ms"
    using l by (simp add: unat_of_nat)
  with r1(1) r2(1) have "read_greeting [] w = (Inr ms, w\<lparr>sk := (sk w)\<lparr>rx := r2\<rparr>\<rparr>)"
    by (simp add: read_greeting_def io_bind_def)
  then show ?thesis using r2(2) by (rule that)
qed

text \<open>
  C6. A well-formed unauthenticated CONNECT to a domain name succeeds: the handler answers the
  method selection and the request with exactly the two success replies, asks the SSH layer for that
  host and port, forwards from exactly the byte after the request, and at the end has returned its
  permit and its place in the count of active clients.
\<close>

theorem socks5_connect_domain:
  assumes "avail (rx (sk w)) = [5, word_of_nat (length ms)] @ ms @ [5, 1, rsv, 3]
      @ [word_of_nat (length host)] @ bytes_of_str host @ be16 port @ rest"
    and "length ms < 256" "0 \<in> set ms" "length host < 256" "from_utf8 (bytes_of_str host) = Some host"
    and "writes_left (sk w) = Suc (Suc k)" "permits (mgr w) = Suc m" "opener host port = Inr ()"
  shows "\<exists>w1. socks5_connection opener sched None [] w = (Inr (), drop_permit (client_done (relay sched w1)))
    \<and> avail (rx (sk w1)) = rest \<and> tx (sk w1) = tx (sk w) @ [5, 0] @ reply SUCCEEDED
    \<and> opened w1 = opened w @ [(host, port)] \<and> chan w1 = chan w
    \<and> permits (mgr w1) = m \<and> active_clients (mgr w1) = active_clients (mgr w) + 1"
proof -
  let ?req = "[5, 1, rsv, 3] :: bytes"
  let ?addr = "[word_of_nat (length host)] @ bytes_of_str host @ be16 port @ rest"
  obtain r1 where g: "read_greeting [] w = (Inr ms, w\<lparr>sk := (sk w)\<lparr>rx := r1\<rparr>\<rparr>)" "avail r1 = ?req @ ?addr"
    using assms(1,2) by (rule greeting_enough [where rest = "?req @ ?addr"]) simp
  define s2 where "s2 = (sk w)\<lparr>rx := r1, tx := tx (sk w) @ [5, 0], writes_left := Suc k\<rparr>"
  have a: "authenticate None ms (w\<lparr>sk := (sk w)\<lparr>rx := r1\<rparr>\<rparr>) = (Inr (), w\<lparr>sk := s2\<rparr>)"
    using assms(3,6) by (simp add: authenticate_def send_ok s2_def)
  have v2: "avail (rx (sk (w\<lparr>sk := s2\<rparr>))) = ?req @ ?addr"
    by (simp add: s2_def g(2))
  obtain r3 where q: "recv 4 (w\<lparr>sk := s2\<rparr>) = (Inr ?req, w\<lparr>sk := s2\<lparr>rx := r3\<rparr>\<rparr>)" "avail r3 = ?addr"
    using recv_enough [OF v2, where n = 4] by auto
  obtain r4 where p: "parse_address ATYP_DOMAINNAME (w\<lparr>sk := s2\<lparr>rx := r3\<rparr>\<rparr>) =
      (Inr (host, port), w\<lparr>sk := s2\<lparr>rx := r4\<rparr>\<rparr>)" "avail r4 = rest"
    using parse_domain_enough [of "w\<lparr>sk := s2\<lparr>rx := r3\<rparr>\<rparr>" host port rest] q(2) assms(4,5) by auto
  define w5 where "w5 = w\<lparr>mgr := (mgr w)\<lparr>permits := m, active_clients := active_clients (mgr w) + 1\<rparr>,
    opened := opened w @ [(host, port)],
    sk := s2\<lparr>rx := r4, tx := tx s2 @ reply SUCCEEDED, writes_left := k\<rparr>\<rparr>"
  have c: "socks5_connect opener sched host port (w\<lparr>sk := s2\<lparr>rx := r4\<rparr>\<rparr>) =
      (Inr (), drop_permit (client_done (relay sched w5)))"
    using assms(7,8) by (simp add: socks5_connect_def mgr_open_def send_ok reply_def s2_def w5_def)
  have "socks5_connection opener sched None [] w = (Inr (), drop_permit (client_done (relay sched w5)))"
    using g(1) a q(1) p(1) c
    by (simp add: socks5_connection_def handle_request_def io_bind_def Let_def
        ATYP_DOMAINNAME_def CMD_CONNECT_def)
  then show ?thesis
    using p(2) by (intro exI [of _ w5]) (simp add: w5_def s2_def)
qed

theorem socks5_connect_domain_witness:
  "\<exists>w1. socks5_connection (\<lambda>_ _. Inr ()) [Up] None []
      (demo_world [5, 1, 0, 5, 1, 0, 3, 1, 97, 0, 80, 42] 5) = (Inr (), drop_permit (client_done (relay [Up] w1)))
    \<and> avail (rx (sk w1)) = [42]"
proof -
  let ?w = "demo_world [5, 1, 0, 5, 1, 0, 3, 1, 97, 0, 80, 42] 5"
  have stream: "avail (rx (sk ?w)) = [5, word_of_nat (length [0 :: u8])] @ [0] @ [5, 1, 0, 3]
      @ [word_of_nat (length ''a'')] @ bytes_of_str ''a'' @ be16 80 @ [42]"
    by (simp add: demo_world_def avail_Cons bytes_of_str_def be16_def)
  have utf8: "from_utf8 (bytes_of_str ''a'') = Some ''a''"
    by code_simp
  have pre: "length [0 :: u8] < 256" "0 \<in> set [0 :: u8]" "length ''a'' < 256" "writes_left (sk ?w) = Suc (Suc 3)"
    "permits (mgr ?w) = Suc 3"
    by (simp_all add: demo_world_def manager_new_def)
  from socks5_connect_domain [OF stream pre(1-3) utf8 pre(4,5) refl, of "[Up]"] show ?thesis by blast
qed

section \<open>Accounting\<close>

lemma relay_accounting:
  "permits (mgr (relay sched w)) = permits (mgr w)"
  "active_clients (mgr (relay sched w)) = active_clients (mgr w)"
  using relay_relayed [of w sched] by (auto simp: relayed_def)

text \<open>
  Accounting of one CONNECT, on every outcome: the permit is always back, and the count of
  active clients is back unless the channel was opened and the client was gone before the success
  reply could be written.  In that case the early return skips the decrement and the count stays one
  too high.
\<close>

theorem socks5_connect_accounting:
  "permits (mgr (snd (socks5_connect opener sched host port w))) = permits (mgr w) \<and>
   active_clients (mgr (snd (socks5_connect opener sched host port w))) = active_clients (mgr w) +
     (if permits (mgr w) \<noteq> 0 \<and> opener host port = Inr () \<and> writes_left (sk w) = 0 then 1 else 0)"
proof (cases "permits (mgr w)")
  case 0
  then show ?thesis by (simp add: socks5_connect_def mgr_open_def)
next
  case (Suc m)
  show ?thesis
  proof (cases "opener host port")
    case (Inl e)
    with Suc show ?thesis
      by (simp add: socks5_connect_def mgr_open_def send_def on_sock_def split: prod.splits)
  next
    case (Inr u)
    then show ?thesis using Suc
      by (cases "writes_left (sk w)")
        (simp_all add: socks5_connect_def mgr_open_def send_def on_sock_def write_all_def reply_def
          drop_permit_def client_done_def relay_accounting)
  qed
qed

end
