(* ===== verification/HttpProxy.thy ===== *)
theory HttpProxy
  imports Socks5
begin

text \<open>
  \<open>crates/core/src/proxy/http.rs\<close> and \<open>mixed.rs\<close>: the HTTP proxy's connection handler with its
  request parsing and rewriting, and the mixed proxy that looks at the first byte and delegates.
  The request text is a Rust string obtained by lossy UTF-8 decoding, here its list of bytes.
\<close>

section \<open>Parsing and rewriting\<close>

abbreviation crlf :: string where
  "crlf \<equiv> [CHR 0x0D, CHR 0x0A]"

definition parse_host_port :: "string \<Rightarrow> u16 \<Rightarrow> Error + (string \<times> u16)" where
  "parse_host_port target default_port =
     (case rfind_char CHR '':'' target of
        Some colon \<Rightarrow>
          let host = take colon target; port_str = drop (colon + 1) target;
              host = trim_end_char CHR '']'' (trim_start_char CHR ''['' host);
              port = (case parse_uint 65535 port_str of Some p \<Rightarrow> word_of_nat p | None \<Rightarrow> default_port)
          in Inr (host, port)
      | None \<Rightarrow> Inr (target, default_port))"

definition parse_http_url :: "string \<Rightarrow> Error + (string \<times> u16 \<times> string)" where
  "parse_http_url url0 =
     (let url = (case strip_prefix ''http://'' url0 of Some u \<Rightarrow> u | None \<Rightarrow> url0);
          (host_port, path) = (case find_char CHR ''/'' url of
                                 Some slash \<Rightarrow> (take slash url, drop slash url)
                               | None \<Rightarrow> (url, ''/''))
      in try_res (parse_host_port host_port 80) (\<lambda>(host, port). Inr (host, port, path)))"

definition rewrite_http_request :: "string \<Rightarrow> string \<Rightarrow> string" where
  "rewrite_http_request request path =
     (let line_end = (case find_sub crlf request of Some i \<Rightarrow> i | None \<Rightarrow> length request);
          first_line = take line_end request
      in case splitn 3 CHR '' '' first_line of
           [method, url, ver] \<Rightarrow>
             let new_first_line = method @ '' '' @ path @ '' '' @ ver
             in if line_end < length request then new_first_line @ drop line_end request
                else new_first_line @ crlf @ crlf
         | _ \<Rightarrow> request)"

section \<open>Reading the header block\<close>

definition HEADER_LIMIT :: nat where
  "HEADER_LIMIT = 65536"

definition header_end :: bytes where
  "header_end = [0x0D, 0x0A, 0x0D, 0x0A]"

fun has_window :: "bytes \<Rightarrow> bytes \<Rightarrow> bool" where
  "has_window p [] = (p = [])"
| "has_window p (x # xs) = (prefix p (x # xs) \<or> has_window p xs)"

text \<open>
  \<open>None\<close> is the dropped connection: the buffer is full and holds no header terminator.  Every round
  reads at least one byte into the room left, so the loop ends.
\<close>

function read_headers :: "bytes \<Rightarrow> bytes option handler" where
  "read_headers acc w =
     (if has_window header_end acc then (Inr (Some acc), w)
      else if HEADER_LIMIT \<le> length acc then (Inr None, w)
      else case read_some (HEADER_LIMIT - length acc) (sk w) of
             (Inl e, s) \<Rightarrow> (Inl (Failed (Io e)), w\<lparr>sk := s\<rparr>)
           | (Inr d, s) \<Rightarrow>
               if d = [] then (Inr (Some acc), w\<lparr>sk := s\<rparr>) else read_headers (acc @ d) (w\<lparr>sk := s\<rparr>))"
  by pat_completeness auto
termination
proof (relation "measure (\<lambda>(acc, w). HEADER_LIMIT - length acc)")
  fix acc :: bytes and w and x :: "(io_error + bytes) \<times> sock" and r s and d :: bytes
  assume "\<not> HEADER_LIMIT \<le> length acc" "d \<noteq> []"
  then show "((acc @ d, w\<lparr>sk := s\<rparr>), acc, w) \<in> measure (\<lambda>(acc, w). HEADER_LIMIT - length acc)"
    by (cases d) auto
qed simp

declare read_headers.simps [simp del]

section \<open>The handlers\<close>

definition http_connect :: "opener \<Rightarrow> relay_step list \<Rightarrow> string \<Rightarrow> unit handler" where
  "http_connect opener sched first_line =
     (let parts = split_whitespace first_line in
      if length parts < 2
      then io_bind (send (bytes_of_str (''HTTP/1.1 400 Bad Request'' @ crlf @ crlf))) (\<lambda>_.
           fail (Other ''invalid CONNECT request''))
      else case parse_host_port (parts ! 1) 443 of
             Inl e \<Rightarrow> fail e
           | Inr (host, port) \<Rightarrow> (\<lambda>w.
               case mgr_open opener host port w of
                 (Inl Waiting, w1) \<Rightarrow> (Inl Waiting, w1)
               | (Inl (Failed e), w1) \<Rightarrow>
                   (Inl (Failed e), snd (send (bytes_of_str (''HTTP/1.1 502 Bad Gateway'' @ crlf @ crlf)) w1))
               | (Inr _, w1) \<Rightarrow>
                   (case send (bytes_of_str (''HTTP/1.1 200 Connection Established'' @ crlf @ crlf)) w1 of
                      (Inl e, w2) \<Rightarrow> (Inl e, drop_permit w2)
                    | (Inr _, w2) \<Rightarrow> (Inr (), drop_permit (client_done (relay sched w2))))))"

text \<open>\<open>channel.data_bytes\<close>: one message to the channel.\<close>

definition send_chan :: "bytes \<Rightarrow> unit handler" where
  "send_chan bs w =
     (case write_all bs (chan w) of
        (Inl e, c) \<Rightarrow> (Inl (Failed (Ssh ''failed to send data'')), w\<lparr>chan := c\<rparr>)
      | (Inr _, c) \<Rightarrow> (Inr (), w\<lparr>chan := c\<rparr>))"

definition http_plain :: "opener \<Rightarrow> relay_step list \<Rightarrow> bytes \<Rightarrow> string \<Rightarrow> unit handler" where
  "http_plain opener sched initial_data first_line =
     (let parts = split_whitespace first_line in
      if length parts < 2
      then io_bind (send (bytes_of_str (''HTTP/1.1 400 Bad Request'' @ crlf @ crlf))) (\<lambda>_.
           fail (Other ''invalid HTTP request''))
      else case parse_http_url (parts ! 1) of
             Inl e \<Rightarrow> fail e
           | Inr (host, port, path) \<Rightarrow> (\<lambda>w.
               case mgr_open opener host port w of
                 (Inl Waiting, w1) \<Rightarrow> (Inl Waiting, w1)
               | (Inl (Failed e), w1) \<Rightarrow>
                   (Inl (Failed e), snd (send (bytes_of_str (''HTTP/1.1 502 Bad Gateway'' @ crlf @ crlf)) w1))
               | (Inr _, w1) \<Rightarrow>
                   let rewritten = rewrite_http_request (from_utf8_lossy initial_data) path;
                       w2 = count_in (length rewritten) w1
                   in case send_chan (bytes_of_str rewritten) w2 of
                        (Inl e, w3) \<Rightarrow> (Inl e, drop_permit w3)
                      | (Inr _, w3) \<Rightarrow> (Inr (), drop_permit (client_done (relay sched w3)))))"

definition http_methods :: "string list" where
  "http_methods = [''GET '', ''POST '', ''PUT '', ''DELETE '', ''HEAD '', ''PATCH '']"

definition http_dispatch :: "opener \<Rightarrow> relay_step list \<Rightarrow> bytes \<Rightarrow> unit handler" where
  "http_dispatch opener sched data =
     (let request = from_utf8_lossy data;
          first_line = (case lines request of l # _ \<Rightarrow> l | [] \<Rightarrow> '''')
      in if prefix ''CONNECT '' first_line then http_connect opener sched first_line
         else if list_ex (\<lambda>m. prefix m first_line) http_methods
         then http_plain opener sched data first_line
         else io_bind (send (bytes_of_str (''HTTP/1.1 400 Bad Request'' @ crlf @ ''Content-Length: 0'' @ crlf @ crlf)))
                (\<lambda>_. fail (Other (''invalid HTTP request: '' @ first_line))))"

definition http_connection :: "opener \<Rightarrow> relay_step list \<Rightarrow> bytes \<Rightarrow> unit handler" where
  "http_connection opener sched peeked =
     io_bind (read_headers (take HEADER_LIMIT peeked)) (\<lambda>r.
       case r of
         None \<Rightarrow> io_ret ()
       | Some data \<Rightarrow> if data = [] then io_ret () else http_dispatch opener sched data)"

definition http_bind :: "(string \<Rightarrow> io_error + 'l) \<Rightarrow> u16 \<Rightarrow> Error + 'l" where
  "http_bind = bind_listener ''HTTP proxy''"

definition mixed_bind :: "(string \<Rightarrow> io_error + 'l) \<Rightarrow> u16 \<Rightarrow> Error + 'l" where
  "mixed_bind = bind_listener ''Mixed proxy''"

definition mixed_connection :: "opener \<Rightarrow> relay_step list \<Rightarrow> unit handler" where
  "mixed_connection opener sched =
     io_bind (recv 1) (\<lambda>first_byte.
       if first_byte ! 0 = 0x05 then socks5_connection opener sched None [0x05]
       else io_bind (on_sock (read_some 8191)) (\<lambda>more.
              http_connection opener sched ([first_byte ! 0] @ more)))"

section \<open>Targets\<close>

lemma trim_start_char_other: "s = [] \<or> hd s \<noteq> c \<Longrightarrow> trim_start_char c s = s"
  by (cases s) (auto simp: trim_start_char_def)

lemma trim_end_char_other: "s = [] \<or> last s \<noteq> c \<Longrightarrow> trim_end_char c s = s"
  by (cases s rule: rev_cases) (auto simp: trim_end_char_def)

lemma unbracket:
  assumes "h \<noteq> []" "hd h \<noteq> CHR ''[''" "last h \<noteq> CHR '']''"
  shows "trim_end_char CHR '']'' (trim_start_char CHR ''['' (CHR ''['' # h @ '']'')) = h"
proof -
  have "trim_start_char CHR ''['' (CHR ''['' # h @ '']'') = trim_start_char CHR ''['' (h @ '']'')"
    by (simp add: trim_start_char_def)
  also have "\<dots> = h @ '']''"
    using assms(1,2) by (intro trim_start_char_other) auto
  finally have "trim_end_char CHR '']'' (trim_start_char CHR ''['' (CHR ''['' # h @ '']'')) =
      trim_end_char CHR '']'' h"
    by (simp add: trim_end_char_def)
  also have "\<dots> = h"
    using assms(3) by (intro trim_end_char_other) auto
  finally show ?thesis .
qed

lemma colon_not_digit: "CHR '':'' \<notin> set (show_nat n)"
  by (rule show_nat_not) (simp add: is_digit_def)

lemma parse_uint_u16: "parse_uint 65535 (show_nat (unat (p :: u16))) = Some (unat p)"
proof -
  have "unat p < 2 ^ LENGTH(16)" by (rule unsigned_less)
  then show ?thesis by (intro parse_uint_show) simp
qed

lemma parse_host_port_colon:
  "parse_host_port (x @ CHR '':'' # show_nat (unat p)) d =
   Inr (trim_end_char CHR '']'' (trim_start_char CHR ''['' x), p)"
proof -
  obtain ps where ps: "show_nat (unat p) = ps" "parse_uint 65535 ps = Some (unat p)" "CHR '':'' \<notin> set ps"
    using parse_uint_u16 colon_not_digit by blast
  have "rfind_char CHR '':'' (x @ CHR '':'' # ps) = Some (length x)"
    using ps(3) by (rule rfind_char_append)
  then show ?thesis by (simp add: parse_host_port_def ps(1,2))
qed

text \<open>
  Targets with an explicit port are parsed exactly, for names, IPv4 addresses and bracketed
  IPv6 addresses: the printed form of a host and a port is read back as that host and that port,
  whatever the default.
\<close>

theorem parse_host_port_round_trip:
  assumes "h = [] \<or> hd h \<noteq> CHR ''['' \<and> last h \<noteq> CHR '']''"
  shows "parse_host_port (h @ '':'' @ show_nat (unat p)) d = Inr (h, p) \<and>
    (h \<noteq> [] \<longrightarrow> parse_host_port (''['' @ h @ '']:'' @ show_nat (unat p)) d = Inr (h, p))"
proof -
  have plain: "trim_end_char CHR '']'' (trim_start_char CHR ''['' h) = h"
    using assms by (auto simp: trim_start_char_other trim_end_char_other)
  have "parse_host_port (''['' @ h @ '']:'' @ show_nat (unat p)) d = Inr (h, p)" if "h \<noteq> []"
    using parse_host_port_colon [of "CHR ''['' # h @ '']''" p d] unbracket [of h] that assms
    by (simp only: append.simps append_assoc) simp
  then show ?thesis
    using parse_host_port_colon [of h p d] plain by (simp only: append.simps) simp
qed

theorem parse_host_port_round_trip_witness:
  "parse_host_port (''::1'' @ '':'' @ show_nat (unat (8080 :: u16))) 443 = Inr (''::1'', 8080) \<and>
   parse_host_port (''['' @ ''::1'' @ '']:'' @ show_nat (unat (8080 :: u16))) 443 = Inr (''::1'', 8080)"
proof -
  have pre: "''::1'' = [] \<or> hd ''::1'' \<noteq> CHR ''['' \<and> last ''::1'' \<noteq> CHR '']''"
    by simp
  have ne: "''::1'' \<noteq> []"
    by simp
  note both = parse_host_port_round_trip [OF pre, where p = 8080 and d = 443]
  show ?thesis
    by (rule conjI [OF conjunct1 [OF both] mp [OF conjunct2 [OF both] ne]])
qed

text \<open>
  Without a port a bracketed IPv6 target is misread: the last colon inside the brackets is
  taken for the port separator, so for \<open>[::1]\<close> the proxy connects to the host \<open>:\<close> on the default
  port.  A port out of range is replaced by the default port without an error.
\<close>

theorem parse_host_port_misreads:
  "parse_host_port ''[::1]'' d = Inr ('':'', d) \<and> parse_host_port ''a:70000'' d = Inr (''a'', d)"
proof
  have "parse_uint 65535 ''1]'' = None" "rfind_char CHR '':'' ''[::1]'' = Some 2"
    "trim_end_char CHR '']'' (trim_start_char CHR ''['' ''[:'') = '':''"
    by (simp_all add: parse_uint_def is_digit_def trim_end_char_def trim_start_char_def)
  then show "parse_host_port ''[::1]'' d = Inr ('':'', d)"
    by (simp add: parse_host_port_def)
  have "parse_uint 65535 ''70000'' = None" "rfind_char CHR '':'' ''a:70000'' = Some 1"
    "trim_end_char CHR '']'' (trim_start_char CHR ''['' ''a'') = ''a''"
    by (simp_all add: parse_uint_def is_digit_def digits_val_def digit_val_def
        trim_end_char_def trim_start_char_def)
  then show "parse_host_port ''a:70000'' d = Inr (''a'', d)"
    by (simp add: parse_host_port_def)
qed

section \<open>Rewriting\<close>

lemma find_sub_crlf:
  "CHR 0x0D \<notin> set l \<Longrightarrow> find_sub crlf (l @ crlf @ rest) = Some (length l)"
  by (induction l) auto

lemma splitn_three:
  "CHR '' '' \<notin> set m \<Longrightarrow> CHR '' '' \<notin> set u \<Longrightarrow> splitn 3 CHR '' '' (m @ '' '' @ u @ '' '' @ v) = [m, u, v]"
  by (simp add: numeral_3_eq_3 find_char_append)

text \<open>
  Rewriting replaces the request target by the path and touches nothing else: the method, the
  version, the line ending, all header bytes and the body are kept.
\<close>

theorem rewrite_keeps_rest:
  assumes "CHR '' '' \<notin> set m" "CHR '' '' \<notin> set u" "CHR 0x0D \<notin> set (m @ u @ v)"
  shows "rewrite_http_request (m @ '' '' @ u @ '' '' @ v @ crlf @ rest) path =
    m @ '' '' @ path @ '' '' @ v @ crlf @ rest"
proof -
  let ?l = "m @ '' '' @ u @ '' '' @ v"
  obtain l where l: "l = ?l" by simp
  have f: "find_sub crlf (l @ crlf @ rest) = Some (length l)"
    using assms(3) by (intro find_sub_crlf) (auto simp: l)
  have "splitn 3 CHR '' '' l = [m, u, v]"
    using splitn_three [OF assms(1,2)] by (simp only: l)
  with f have "rewrite_http_request (l @ crlf @ rest) path = m @ '' '' @ path @ '' '' @ v @ crlf @ rest"
    by (simp add: rewrite_http_request_def)
  then show ?thesis by (simp add: l)
qed

theorem rewrite_keeps_rest_witness:
  "rewrite_http_request (''GET'' @ '' '' @ ''http://a/b'' @ '' '' @ ''HTTP/1.1'' @ crlf @ crlf @ ''body'') ''/b'' =
   ''GET'' @ '' '' @ ''/b'' @ '' '' @ ''HTTP/1.1'' @ crlf @ crlf @ ''body''"
  by (rule rewrite_keeps_rest [of "''GET''" "''http://a/b''" "''HTTP/1.1''" "crlf @ ''body''" "''/b''"]) simp_all

section \<open>The header loop\<close>

lemma read_some_more:
  assumes "read_some cap s = (r, s')" "0 < cap"
  obtains d where "r = Inr d" "length d \<le> cap" "avail (rx s) = d @ avail (rx s')" "tx s' = tx s"
    "writes_left s' = writes_left s" "d = [] \<longrightarrow> avail (rx s) = []"
proof -
  from assms obtain d where d: "r = Inr d"
    by (auto simp: read_some_def split: list.splits if_splits)
  have "avail (rx s) = []" if "d = []"
    using assms that d by (auto simp: read_some_def avail_Cons split: list.splits if_splits)
  with avail_read_some [OF assms(1) [unfolded d] assms(2)] read_some_bound [OF assms(1) [unfolded d]] d
  show ?thesis by (intro that [of d]) auto
qed

lemma read_headers_spec:
  "read_headers acc w = (r, w') \<Longrightarrow> length acc \<le> HEADER_LIMIT \<Longrightarrow>
   \<exists>d. avail (rx (sk w)) = d @ avail (rx (sk w')) \<and> length (acc @ d) \<le> HEADER_LIMIT \<and>
     tx (sk w') = tx (sk w) \<and> writes_left (sk w') = writes_left (sk w) \<and>
     opened w' = opened w \<and> mgr w' = mgr w \<and> chan w' = chan w \<and>
     (r = Inr (Some (acc @ d)) \<and> (has_window header_end (acc @ d) \<or> avail (rx (sk w')) = []) \<or>
      r = Inr None \<and> length (acc @ d) = HEADER_LIMIT \<and> \<not> has_window header_end (acc @ d))"
proof (induction acc w arbitrary: r w' rule: read_headers.induct)
  case (1 acc w)
  show ?case
  proof (cases "has_window header_end acc \<or> HEADER_LIMIT \<le> length acc")
    case True
    with "1.prems" show ?thesis
      by (intro exI [of _ "[]"]) (auto simp: read_headers.simps [of acc w] split: if_splits)
  next
    case False
    obtain r1 s1 where rs: "read_some (HEADER_LIMIT - length acc) (sk w) = (r1, s1)"
      by fastforce
    from False have "0 < HEADER_LIMIT - length acc" by simp
    with rs obtain d where d: "r1 = Inr d" "length d \<le> HEADER_LIMIT - length acc"
      "avail (rx (sk w)) = d @ avail (rx s1)" "tx s1 = tx (sk w)" "writes_left s1 = writes_left (sk w)"
      "d = [] \<longrightarrow> avail (rx (sk w)) = []"
      by (rule read_some_more)
    show ?thesis
    proof (cases "d = []")
      case True
      with "1.prems" False rs d show ?thesis
        by (intro exI [of _ "[]"]) (auto simp: read_headers.simps [of acc w])
    next
      case ne: False
      have step: "read_headers (acc @ d) (w\<lparr>sk := s1\<rparr>) = (r, w')"
        using "1.prems"(1) False rs d(1) ne by (simp add: read_headers.simps [of acc w])
      have "length (acc @ d) \<le> HEADER_LIMIT"
        using d(2) \<open>0 < HEADER_LIMIT - length acc\<close> unfolding length_append by linarith
      from "1.IH" [OF _ _ rs [symmetric] d(1) ne step this] False obtain d2 where
        "avail (rx s1) = d2 @ avail (rx (sk w'))" "length ((acc @ d) @ d2) \<le> HEADER_LIMIT"
        "tx (sk w') = tx s1" "writes_left (sk w') = writes_left s1"
        "opened w' = opened w" "mgr w' = mgr w" "chan w' = chan w"
        "r = Inr (Some ((acc @ d) @ d2)) \<and> (has_window header_end ((acc @ d) @ d2) \<or> avail (rx (sk w')) = []) \<or>
         r = Inr None \<and> length ((acc @ d) @ d2) = HEADER_LIMIT \<and> \<not> has_window header_end ((acc @ d) @ d2)"
        by auto
      with d show ?thesis by (intro exI [of _ "d @ d2"]) auto
    qed
  qed
qed

text \<open>
  The header loop always ends, and with one of three outcomes: the data read so far contains
  the header terminator, the client closed its side (the truncated data is processed all the same),
  or 65536 bytes hold no terminator and the connection is dropped.  It never buffers more than that,
  and no other way out exists.
\<close>

theorem read_headers_outcomes:
  "\<exists>d. avail (rx (sk w)) = d @ avail (rx (sk (snd (read_headers [] w)))) \<and> length d \<le> HEADER_LIMIT \<and>
     (fst (read_headers [] w) = Inr (Some d) \<and> has_window header_end d \<or>
      fst (read_headers [] w) = Inr (Some d) \<and> avail (rx (sk (snd (read_headers [] w)))) = [] \<or>
      fst (read_headers [] w) = Inr None \<and> length d = HEADER_LIMIT \<and> \<not> has_window header_end d)"
  using read_headers_spec [of "[]" w "fst (read_headers [] w)" "snd (read_headers [] w)"] by auto

section \<open>The mixed port\<close>

lemma recv_split:
  "recv (m + n) w = io_bind (recv m) (\<lambda>d. io_bind (recv n) (\<lambda>e. io_ret (d @ e))) w"
proof -
  obtain d r where d: "take_exact m (rx (sk w)) = (d, r)" by fastforce
  obtain e r' where e: "take_exact n r = (e, r')" by fastforce
  show ?thesis
    by (cases d; cases e)
      (simp_all add: recv_def on_sock_def read_exact_def take_exact_add d e io_bind_def io_ret_def)
qed

lemma greeting_peeked:
  assumes "recv 1 w = (Inr [5], w1)"
  shows "read_greeting [5] w1 = read_greeting [] w"
proof -
  have "recv 2 w = io_bind (recv 1) (\<lambda>e. io_ret ([5] @ e)) w1"
    using recv_split [of 1 1 w] assms by (simp add: io_bind_def numeral_2_eq_2)
  then show ?thesis
    by (cases "recv 1 w1") (simp add: read_greeting_def io_bind_def io_ret_def split: sum.split)
qed

text \<open>
  On the mixed port a client whose first byte is 5 gets exactly the SOCKS5 server without
  authentication: same result, same replies, same channel requests, same state afterwards, however
  the first bytes are segmented, and on every error.
\<close>

theorem mixed_is_socks5:
  assumes "avail (rx (sk w)) = 5 # rest"
  shows "mixed_connection opener sched w = socks5_connection opener sched None [] w"
proof -
  have a: "avail (rx (sk w)) = [5] @ rest"
    using assms by simp
  obtain r where r: "recv 1 w = (Inr [5], w\<lparr>sk := (sk w)\<lparr>rx := r\<rparr>\<rparr>)"
    using recv_enough [OF a, where n = 1] by auto
  have "mixed_connection opener sched w = socks5_connection opener sched None [5] (w\<lparr>sk := (sk w)\<lparr>rx := r\<rparr>\<rparr>)"
    using r by (simp add: mixed_connection_def io_bind_def)
  also have "\<dots> = socks5_connection opener sched None [] w"
    unfolding socks5_connection_def io_bind_def greeting_peeked [OF r] ..
  finally show ?thesis .
qed

theorem mixed_is_socks5_witness:
  "mixed_connection (\<lambda>_ _. Inr ()) [Up] (demo_world [5, 1, 0] 3) =
   socks5_connection (\<lambda>_ _. Inr ()) [Up] None [] (demo_world [5, 1, 0] 3)"
  by (rule mixed_is_socks5 [where rest = "[1, 0]"]) (simp add: demo_world_def avail_Cons)

section \<open>Plain requests and CONNECT\<close>







lemma lossy_ascii_append:
  "\<forall>c \<in> set s. of_char c < (128 :: nat) \<Longrightarrow> from_utf8_lossy (bytes_of_str s @ bs) = s @ from_utf8_lossy bs"
proof -
  assume a: "\<forall>c \<in> set s. of_char c < (128 :: nat)"
  have "(word_of_nat (of_char c) :: u8) < 0x80" if "c \<in> set s" for c
    using a that unat_char [of c] by (simp add: word_less_nat_alt)
  then have "\<forall>b \<in> set (bytes_of_str s). b < 0x80"
    by (auto simp: bytes_of_str_def)
  then show ?thesis by (simp add: from_utf8_lossy_def utf8_lossy_ascii_append)
qed

text \<open>
  A CONNECT request is handled from its first line alone: bytes the client sent behind the
  header block in the same read (an early TLS hello) change nothing of what the handler does, so
  they never reach the channel.
\<close>

theorem connect_discards_early_data:
  assumes "\<forall>c \<in> set t. 0x20 \<le> (of_char c :: nat) \<and> (of_char c :: nat) < 0x7F"
  shows "http_dispatch opener sched (bytes_of_str (''CONNECT '' @ t @ crlf @ crlf) @ early) w =
    http_connect opener sched (''CONNECT '' @ t) w"
proof -
  have "\<forall>c \<in> set (''CONNECT '' @ t @ crlf @ crlf). of_char c < (128 :: nat)"
    using assms by auto
  then have d: "from_utf8_lossy (bytes_of_str (''CONNECT '' @ t @ crlf @ crlf) @ early) =
      (''CONNECT '' @ t) @ CHR 0x0D # CHR 0x0A # crlf @ from_utf8_lossy early"
    by (subst lossy_ascii_append) simp_all
  have "CHR 0x0A \<notin> set (''CONNECT '' @ t)"
    using assms by auto
  note l = lines_first [OF this, of "crlf @ from_utf8_lossy early"]
  show ?thesis
    unfolding http_dispatch_def d Let_def l list.case by simp
qed

theorem connect_discards_early_data_witness:
  "http_dispatch (\<lambda>_ _. Inr ()) [Up] (bytes_of_str (''CONNECT '' @ ''a:1 H'' @ crlf @ crlf) @ [0x16, 3, 1])
     (demo_world [] 3) = http_connect (\<lambda>_ _. Inr ()) [Up] (''CONNECT '' @ ''a:1 H'') (demo_world [] 3)"
  by (rule connect_discards_early_data) simp

text \<open>
  A request body that is not UTF-8 is corrupted: of a POST whose body is the byte FF the
  channel receives the three bytes of the replacement character instead.
\<close>

theorem http_binary_body_corrupted:
  "tx (chan (snd (http_dispatch (\<lambda>_ _. Inr ()) []
       (bytes_of_str (''POST http://a/ H'' @ crlf @ crlf) @ [0xFF]) (demo_world [] 0)))) =
   bytes_of_str (''POST / H'' @ crlf @ crlf) @ [0xEF, 0xBF, 0xBD]"
  by code_simp

end
