(* ===== verification/Template.thy ===== *)
theory Template
  imports RustText
begin

text \<open>
  \<open>crates/core/src/trigger/template.rs\<close>: the template language of the trigger commands.
  Conditional blocks are resolved first, then placeholders are replaced by shell-quoted values.
  \<open>None\<close> is a panic of the Rust code (a slice out of range or inside a character).
\<close>

type_synonym vars = "(string, string) hm"

section \<open>Quoting and placeholders\<close>

definition quote_char :: char where
  "quote_char = CHR 0x27"

definition shell_escape :: "string \<Rightarrow> string" where
  "shell_escape value =
     (let escaped = concat (map (\<lambda>c. if c = quote_char then [quote_char, CHR 0x5C, quote_char, quote_char]
                                     else [c]) value)
      in [quote_char] @ escaped @ [quote_char])"

function render_variables :: "vars \<Rightarrow> string \<Rightarrow> string" where
  "render_variables vs s =
     (case s of
        [] \<Rightarrow> []
      | c # cs \<Rightarrow>
          if c = CHR ''{'' \<and> cs \<noteq> [] \<and> hd cs = CHR ''{'' then
            (let body = tl cs;
                 tag = trim (takeWhile (\<lambda>c. c \<noteq> CHR ''}'') body);
                 rest = dropWhile (\<lambda>c. c = CHR ''}'') (dropWhile (\<lambda>c. c \<noteq> CHR ''}'') body)
             in (case strip_prefix ''.'' tag of
                   Some var_name \<Rightarrow>
                     (case hm_get vs var_name of Some val \<Rightarrow> shell_escape val | None \<Rightarrow> '''')
                 | None \<Rightarrow> ''{{'' @ tag @ ''}}'') @ render_variables vs rest)
          else c # render_variables vs cs)"
  by pat_completeness auto
termination
proof (relation "measure (\<lambda>(vs, s). length s)", goal_cases)
  case (2 vs s c cs body tag rest)
  have "length rest \<le> length (tl cs)"
    unfolding 2 by (metis length_dropWhile_le order.trans)
  with 2 show ?case by simp
qed auto

declare render_variables.simps [simp del]

section \<open>Conditionals\<close>

definition lower_char :: "char \<Rightarrow> char" where
  "lower_char c =
     (if 65 \<le> (of_char c :: nat) \<and> (of_char c :: nat) \<le> 90 then char_of (of_char c + 32 :: nat) else c)"

definition is_truthy :: "string \<Rightarrow> vars \<Rightarrow> bool" where
  "is_truthy var_name vs =
     (case hm_get vs var_name of
        Some v \<Rightarrow> v \<noteq> [] \<and> map lower_char v \<noteq> ''false''
      | None \<Rightarrow> False)"

text \<open>
  The two scanners.  \<open>rest\<close> stands for \<open>&s[i..]\<close>; taking that slice panics when its first byte
  continues a character, and the scanners advance one byte at a time.
\<close>

definition is_cont :: "char \<Rightarrow> bool" where
  "is_cont c \<longleftrightarrow> 0x80 \<le> (of_char c :: nat) \<and> (of_char c :: nat) < 0xC0"

function matching_endif_from :: "nat \<Rightarrow> string \<Rightarrow> int \<Rightarrow> nat option option" where
  "matching_endif_from i rest depth =
     (if rest = [] then Some None
      else if is_cont (hd rest) then None
      else if prefix ''{{#if '' rest then matching_endif_from (i + 6) (drop 6 rest) (depth + 1)
      else if prefix ''{{/if}}'' rest then
        (if depth - 1 = 0 then Some (Some i)
         else matching_endif_from (i + 7) (drop 7 rest) (depth - 1))
      else matching_endif_from (i + 1) (tl rest) depth)"
  by pat_completeness auto
termination by (relation "measure (\<lambda>(i, rest, d). length rest)") auto

function top_level_else_from :: "nat \<Rightarrow> string \<Rightarrow> int \<Rightarrow> nat option option" where
  "top_level_else_from i rest depth =
     (if rest = [] then Some None
      else if is_cont (hd rest) then None
      else if prefix ''{{#if '' rest then top_level_else_from (i + 6) (drop 6 rest) (depth + 1)
      else if prefix ''{{/if}}'' rest then top_level_else_from (i + 7) (drop 7 rest) (depth - 1)
      else if depth = 0 \<and> prefix ''{{else}}'' rest then Some (Some i)
      else top_level_else_from (i + 1) (tl rest) depth)"
  by pat_completeness auto
termination by (relation "measure (\<lambda>(i, rest, d). length rest)") auto

declare matching_endif_from.simps [simp del] top_level_else_from.simps [simp del]

definition find_matching_endif :: "string \<Rightarrow> nat option option" where
  "find_matching_endif s = matching_endif_from 0 s 1"

definition find_top_level_else :: "string \<Rightarrow> nat option option" where
  "find_top_level_else s = top_level_else_from 0 s 0"

definition tag_end :: "string \<Rightarrow> nat" where
  "tag_end after_start =
     (case find_sub ''}}'' after_start of Some e \<Rightarrow> e | None \<Rightarrow> length after_start)"

function render_conditionals :: "vars \<Rightarrow> string \<Rightarrow> string option" where
  "render_conditionals vs remaining =
     (case find_sub ''{{#if '' remaining of
        None \<Rightarrow> Some remaining
      | Some start \<Rightarrow>
          let after_start = drop (start + 6) remaining;
              end_of_tag = tag_end after_start;
              var_name = trim_start_char CHR ''.'' (trim (take end_of_tag after_start))
          in if length after_start < end_of_tag + 2 then None
             else let after_tag = drop (end_of_tag + 2) after_start in
               (case find_matching_endif after_tag of
                  None \<Rightarrow> None
                | Some None \<Rightarrow> Some (take start remaining @ drop start remaining @ remaining)
                | Some (Some e) \<Rightarrow>
                    let block_content = take e after_tag; after_block = drop (e + 7) after_tag in
                    (case find_top_level_else block_content of
                       None \<Rightarrow> None
                     | Some (Some else_pos) \<Rightarrow>
                         let chosen = (if is_truthy var_name vs then take else_pos block_content
                                       else drop (else_pos + 8) block_content) in
                         (case render_conditionals vs chosen of
                            None \<Rightarrow> None
                          | Some r \<Rightarrow>
                              map_option (\<lambda>q. take start remaining @ r @ q)
                                (render_conditionals vs after_block))
                     | Some None \<Rightarrow>
                         if is_truthy var_name vs then
                           (case render_conditionals vs block_content of
                              None \<Rightarrow> None
                            | Some r \<Rightarrow>
                                map_option (\<lambda>q. take start remaining @ r @ q)
                                  (render_conditionals vs after_block))
                         else
                           map_option (\<lambda>q. take start remaining @ q)
                             (render_conditionals vs after_block))))"
  by pat_completeness auto
termination
  by (relation "measure (\<lambda>(vs, s). length s)") (auto dest!: find_sub_prefix simp: min_def)

declare render_conditionals.simps [simp del]

definition render_template :: "string \<Rightarrow> vars \<Rightarrow> string option" where
  "render_template template vs = map_option (render_variables vs) (render_conditionals vs template)"

definition hash_commands :: "(bytes \<Rightarrow> string) \<Rightarrow> string list \<Rightarrow> string" where
  "hash_commands sha256_hex commands = sha256_hex (bytes_of_str (join [CHR 0x0A] commands))"

section \<open>The shell reads a quoted value as one word\<close>

text \<open>
  How a POSIX shell reads a word: outside quotes a quote opens a quoted part, a backslash makes the
  next character literal, and a delimiter or operator ends the word; inside single quotes every
  character up to the next quote is literal.
\<close>

definition sh_special :: "char \<Rightarrow> bool" where
  "sh_special c \<longleftrightarrow> c \<in> set '' ;&|<>()$`*?[#~=%!{}'' \<or> c = CHR 0x22 \<or> c = CHR 0x09 \<or> c = CHR 0x0A"

fun sh_word :: "bool \<Rightarrow> string \<Rightarrow> (string \<times> string) option" where
  "sh_word True [] = None"
| "sh_word True (c # cs) =
     (if c = quote_char then sh_word False cs
      else map_option (\<lambda>(w, r). (c # w, r)) (sh_word True cs))"
| "sh_word False [] = Some ([], [])"
| "sh_word False (c # cs) =
     (if c = quote_char then sh_word True cs
      else if c = CHR 0x5C then
        (case cs of [] \<Rightarrow> None | d # ds \<Rightarrow> map_option (\<lambda>(w, r). (d # w, r)) (sh_word False ds))
      else if sh_special c then Some ([], c # cs)
      else map_option (\<lambda>(w, r). (c # w, r)) (sh_word False cs))"

lemma sh_word_escaped:
  "sh_word True (concat (map (\<lambda>c. if c = quote_char then [quote_char, CHR 0x5C, quote_char, quote_char]
      else [c]) value) @ quote_char # rest) = map_option (\<lambda>(w, r). (value @ w, r)) (sh_word False rest)"
  by (induction "value") (auto simp: option.map_comp comp_def case_prod_unfold quote_char_def map_option_case
      split: option.split)

text \<open>
  C8. Values cannot break out of their quotes: whatever characters a value has, the shell reads its
  quoted form as one word that is the value itself, and continues right behind it with what the
  template says.
\<close>

theorem shell_escape_one_word:
  "sh_word False (shell_escape v @ rest) = map_option (\<lambda>(w, r). (v @ w, r)) (sh_word False rest)"
  using sh_word_escaped [of v rest] by (simp add: shell_escape_def)

section \<open>The template language\<close>

text \<open>
  The abstract syntax of well-formed templates, its concrete text and its meaning: literal text
  without braces, placeholders, and conditionals that may be nested and may have an else part.
\<close>

datatype tpl =
    End
  | Lit string tpl
  | Hole string tpl
  | If string tpl tpl
  | IfElse string tpl tpl tpl

fun source :: "tpl \<Rightarrow> string" where
  "source End = ''''"
| "source (Lit s t) = s @ source t"
| "source (Hole v t) = ''{{.'' @ v @ ''}}'' @ source t"
| "source (If v a t) = ''{{#if '' @ v @ ''}}'' @ source a @ ''{{/if}}'' @ source t"
| "source (IfElse v a b t) =
     ''{{#if '' @ v @ ''}}'' @ source a @ ''{{else}}'' @ source b @ ''{{/if}}'' @ source t"

definition var_value :: "vars \<Rightarrow> string \<Rightarrow> string" where
  "var_value vs v = (case hm_get vs v of Some x \<Rightarrow> shell_escape x | None \<Rightarrow> '''')"

fun meaning :: "vars \<Rightarrow> tpl \<Rightarrow> string" where
  "meaning vs End = ''''"
| "meaning vs (Lit s t) = s @ meaning vs t"
| "meaning vs (Hole v t) = var_value vs v @ meaning vs t"
| "meaning vs (If v a t) = (if is_truthy v vs then meaning vs a else '''') @ meaning vs t"
| "meaning vs (IfElse v a b t) = (if is_truthy v vs then meaning vs a else meaning vs b) @ meaning vs t"

definition plain_text :: "string \<Rightarrow> bool" where
  "plain_text s \<longleftrightarrow> (\<forall>c \<in> set s. c \<noteq> CHR ''{'' \<and> c \<noteq> CHR ''}'' \<and> \<not> is_cont c)"

definition var_ok :: "string \<Rightarrow> bool" where
  "var_ok v \<longleftrightarrow> v \<noteq> [] \<and> hd v \<noteq> CHR ''.'' \<and> (\<forall>c \<in> set v. graphic c) \<and> plain_text v"

fun tpl_ok :: "tpl \<Rightarrow> bool" where
  "tpl_ok End = True"
| "tpl_ok (Lit s t) = (plain_text s \<and> tpl_ok t)"
| "tpl_ok (Hole v t) = (var_ok v \<and> tpl_ok t)"
| "tpl_ok (If v a t) = (var_ok v \<and> tpl_ok a \<and> tpl_ok t)"
| "tpl_ok (IfElse v a b t) = (var_ok v \<and> tpl_ok a \<and> tpl_ok b \<and> tpl_ok t)"

text \<open>One step of the scanners, on the tokens and on every other byte.\<close>

abbreviation t_if :: "string \<Rightarrow> string" where
  "t_if r \<equiv> CHR ''{'' # CHR ''{'' # CHR ''#'' # CHR ''i'' # CHR ''f'' # CHR '' '' # r"

abbreviation t_end :: "string \<Rightarrow> string" where
  "t_end r \<equiv> CHR ''{'' # CHR ''{'' # CHR ''/'' # CHR ''i'' # CHR ''f'' # CHR ''}'' # CHR ''}'' # r"

abbreviation t_else :: "string \<Rightarrow> string" where
  "t_else r \<equiv> CHR ''{'' # CHR ''{'' # CHR ''e'' # CHR ''l'' # CHR ''s'' # CHR ''e'' # CHR ''}'' # CHR ''}'' # r"

lemma is_cont_brace [simp]: "\<not> is_cont CHR ''{''" "\<not> is_cont CHR ''}''" "\<not> is_cont CHR ''.''"
  by (simp_all add: is_cont_def)

lemma endif_if: "matching_endif_from i (t_if r) d = matching_endif_from (i + 6) r (d + 1)"
  by (subst matching_endif_from.simps) simp

lemma endif_end: "d \<noteq> 1 \<Longrightarrow> matching_endif_from i (t_end r) d = matching_endif_from (i + 7) r (d - 1)"
  by (subst matching_endif_from.simps) simp

lemma endif_found: "matching_endif_from i (t_end r) 1 = Some (Some i)"
  by (subst matching_endif_from.simps) simp

lemma endif_skip:
  "\<not> is_cont c \<Longrightarrow> c \<noteq> CHR ''{'' \<or> \<not> prefix ''{#if '' r \<and> \<not> prefix ''{/if}}'' r \<Longrightarrow>
   matching_endif_from i (c # r) d = matching_endif_from (i + 1) r d"
  by (subst matching_endif_from.simps) auto

lemma else_if: "top_level_else_from i (t_if r) d = top_level_else_from (i + 6) r (d + 1)"
  by (subst top_level_else_from.simps) simp

lemma else_end: "top_level_else_from i (t_end r) d = top_level_else_from (i + 7) r (d - 1)"
  by (subst top_level_else_from.simps) simp

lemma else_found: "top_level_else_from i (t_else r) 0 = Some (Some i)"
  by (subst top_level_else_from.simps) simp

lemma else_skip:
  "\<not> is_cont c \<Longrightarrow> c \<noteq> CHR ''{'' \<or> \<not> prefix ''{#if '' r \<and> \<not> prefix ''{/if}}'' r
     \<and> (d = 0 \<longrightarrow> \<not> prefix ''{else}}'' r) \<Longrightarrow>
   top_level_else_from i (c # r) d = top_level_else_from (i + 1) r d"
  by (subst top_level_else_from.simps) auto

lemma endif_plain: "plain_text s \<Longrightarrow> matching_endif_from i (s @ r) d = matching_endif_from (i + length s) r d"
  by (induction s arbitrary: i) (simp_all add: plain_text_def endif_skip)

lemma else_plain: "plain_text s \<Longrightarrow> top_level_else_from i (s @ r) d = top_level_else_from (i + length s) r d"
  by (induction s arbitrary: i) (simp_all add: plain_text_def else_skip)

lemma is_cont_tokens [simp]: "\<not> is_cont CHR ''e''" "\<not> is_cont CHR ''l''" "\<not> is_cont CHR ''s''"
  by (simp_all add: is_cont_def)

lemma var_ok_plain: "var_ok v \<Longrightarrow> plain_text v"
  by (simp add: var_ok_def)

lemma not_hash: "var_ok v \<Longrightarrow> \<not> prefix ''{#if '' (''{.'' @ v @ r) \<and> \<not> prefix ''{/if}}'' (''{.'' @ v @ r)"
  by simp

lemma endif_source:
  "tpl_ok t \<Longrightarrow> 1 \<le> d \<Longrightarrow>
   matching_endif_from i (source t @ r) d = matching_endif_from (i + length (source t)) r d"
  by (induction t arbitrary: i d r)
    (simp_all add: endif_plain var_ok_plain endif_skip endif_if endif_end ac_simps eval_nat_numeral)

lemma else_source:
  "tpl_ok t \<Longrightarrow> 0 \<le> d \<Longrightarrow>
   top_level_else_from i (source t @ r) d = top_level_else_from (i + length (source t)) r d"
  by (induction t arbitrary: i d r)
    (simp_all add: else_plain var_ok_plain else_skip else_if else_end ac_simps eval_nat_numeral)

text \<open>What is left after the conditionals: literal text (\<open>Inl\<close>) and placeholders (\<open>Inr\<close>).\<close>

fun segs :: "vars \<Rightarrow> tpl \<Rightarrow> (string + string) list" where
  "segs vs End = []"
| "segs vs (Lit s t) = Inl s # segs vs t"
| "segs vs (Hole v t) = Inr v # segs vs t"
| "segs vs (If v a t) = (if is_truthy v vs then segs vs a else []) @ segs vs t"
| "segs vs (IfElse v a b t) = (if is_truthy v vs then segs vs a else segs vs b) @ segs vs t"

fun seg_source :: "string + string \<Rightarrow> string" where
  "seg_source (Inl s) = s"
| "seg_source (Inr v) = ''{{.'' @ v @ ''}}''"

definition inert :: "string \<Rightarrow> bool" where
  "inert p \<longleftrightarrow> (\<forall>r. find_sub ''{{#if '' (p @ r) =
     (case find_sub ''{{#if '' r of None \<Rightarrow> None | Some k \<Rightarrow> Some (length p + k)))"

lemma inertD: "inert p \<Longrightarrow> find_sub ''{{#if '' (p @ r) =
    (case find_sub ''{{#if '' r of None \<Rightarrow> None | Some k \<Rightarrow> Some (length p + k))"
  unfolding inert_def by blast

lemma inert_Nil: "inert ''''"
  unfolding inert_def append_Nil list.size(3) by (simp split: option.split)

lemma inert_append: "inert p \<Longrightarrow> inert q \<Longrightarrow> inert (p @ q)"
  unfolding inert_def [of "p @ q"] append_assoc by (simp only: inertD) (simp split: option.split)

lemma inert_char:
  assumes "c \<noteq> CHR ''{''" shows "inert [c]"
  unfolding inert_def
proof
  fix r
  have "\<not> prefix ''{{#if '' (c # r)" using assms by simp
  then show "find_sub ''{{#if '' ([c] @ r) =
      (case find_sub ''{{#if '' r of None \<Rightarrow> None | Some k \<Rightarrow> Some (length [c] + k))"
    unfolding append.simps find_sub.simps by (simp split: option.split)
qed

lemma inert_plain: "plain_text s \<Longrightarrow> inert s"
proof (induction s)
  case (Cons c s)
  then show ?case using inert_append [OF inert_char, of c s] by (simp add: plain_text_def)
qed (simp add: inert_Nil)

lemma inert_hole: "var_ok v \<Longrightarrow> inert (''{{.'' @ v @ ''}}'')"
proof -
  assume v: "var_ok v"
  have "inert ''}}''"
    using inert_append [of "''}''" "''}''"] inert_char [of "CHR ''}''"] by simp
  then have i: "inert (v @ ''}}'')"
    by (rule inert_append [OF inert_plain [OF var_ok_plain [OF v]]])
  show ?thesis
    unfolding inert_def
  proof
    fix r
    have "find_sub ''{{#if '' (''{{.'' @ (v @ ''}}'') @ r) =
        map_option (\<lambda>k. Suc (Suc (Suc k))) (find_sub ''{{#if '' ((v @ ''}}'') @ r))"
      by (cases "find_sub ''{{#if '' ((v @ ''}}'') @ r)") simp_all
    then show "find_sub ''{{#if '' ((''{{.'' @ v @ ''}}'') @ r) =
        (case find_sub ''{{#if '' r of None \<Rightarrow> None | Some k \<Rightarrow> Some (length (''{{.'' @ v @ ''}}'') + k))"
      unfolding inertD [OF i] by (simp split: option.split)
  qed
qed

lemma find_sub_inert: "inert p \<Longrightarrow> find_sub ''{{#if '' (p @ t_if r) = Some (length p)"
  by (simp only: inertD) simp

lemma find_sub_close: "plain_text v \<Longrightarrow> find_sub ''}}'' (v @ CHR ''}'' # CHR ''}'' # r) = Some (length v)"
  by (induction v) (auto simp: plain_text_def)

lemma var_ok_trim: "var_ok v \<Longrightarrow> trim_start_char CHR ''.'' (trim v) = v"
proof -
  assume v: "var_ok v"
  then have "trim v = v"
    by (intro trim_graphic) (auto simp: var_ok_def)
  with v show ?thesis
    by (cases v) (auto simp: var_ok_def trim_start_char_def)
qed

lemma endif_after_source:
  assumes "tpl_ok a"
  shows "find_matching_endif (source a @ t_end r) = Some (Some (length (source a)))"
  using endif_source [OF assms, of 1 0 "t_end r"] by (simp add: find_matching_endif_def endif_found)

lemma endif_after_else:
  assumes "tpl_ok a" "tpl_ok b"
  shows "find_matching_endif (source a @ t_else (source b @ t_end r)) =
    Some (Some (length (source a) + 8 + length (source b)))"
  using endif_source [OF assms(1), of 1 0] endif_source [OF assms(2), of 1]
  by (simp add: find_matching_endif_def endif_skip endif_found ac_simps)

lemma no_else: "tpl_ok a \<Longrightarrow> find_top_level_else (source a) = Some None"
  using else_source [of a 0 0 "''''"] by (simp add: find_top_level_else_def top_level_else_from.simps)

lemma else_after_source:
  "tpl_ok a \<Longrightarrow> find_top_level_else (source a @ t_else r) = Some (Some (length (source a)))"
  using else_source [of a 0 0 "t_else r"] by (simp add: find_top_level_else_def else_found)

lemma render_if_step:
  assumes "var_ok v" "inert p" "find_matching_endif at = Some (Some e)"
  shows "render_conditionals vs (p @ t_if (v @ CHR ''}'' # CHR ''}'' # at)) =
    (case find_top_level_else (take e at) of
       None \<Rightarrow> None
     | Some (Some k) \<Rightarrow>
         (case render_conditionals vs (if is_truthy v vs then take k (take e at) else drop (k + 8) (take e at)) of
            None \<Rightarrow> None
          | Some r \<Rightarrow> map_option (\<lambda>q. p @ r @ q) (render_conditionals vs (drop (e + 7) at)))
     | Some None \<Rightarrow>
         if is_truthy v vs then
           (case render_conditionals vs (take e at) of None \<Rightarrow> None
            | Some r \<Rightarrow> map_option (\<lambda>q. p @ r @ q) (render_conditionals vs (drop (e + 7) at)))
         else map_option (\<lambda>q. p @ q) (render_conditionals vs (drop (e + 7) at)))"
proof -
  have f: "find_sub ''{{#if '' (p @ t_if (v @ CHR ''}'' # CHR ''}'' # at)) = Some (length p)"
    by (rule find_sub_inert [OF assms(2)])
  have d: "drop (length p + 6) (p @ t_if (v @ CHR ''}'' # CHR ''}'' # at)) = v @ CHR ''}'' # CHR ''}'' # at"
    "take (length p) (p @ t_if (v @ CHR ''}'' # CHR ''}'' # at)) = p"
    by simp_all
  have e: "tag_end (v @ CHR ''}'' # CHR ''}'' # at) = length v"
    using find_sub_close [OF var_ok_plain [OF assms(1)], of at] by (simp add: tag_end_def)
  have t: "take (length v) (v @ CHR ''}'' # CHR ''}'' # at) = v"
    "drop (length v + 2) (v @ CHR ''}'' # CHR ''}'' # at) = at"
    "\<not> length (v @ CHR ''}'' # CHR ''}'' # at) < length v + 2"
    by simp_all
  show ?thesis
    by (subst render_conditionals.simps)
      (simp only: f option.case Let_def d e t assms(3) var_ok_trim [OF assms(1)] if_False)
qed

lemma render_conditionals_source:
  "tpl_ok t \<Longrightarrow> inert p \<Longrightarrow>
   render_conditionals vs (p @ source t) = Some (p @ concat (map seg_source (segs vs t)))"
proof (induction t arbitrary: p)
  case End
  have "find_sub ''{{#if '' (p @ '''') = None"
    unfolding inertD [OF End.prems(2)] by simp
  then show ?case by (simp add: render_conditionals.simps)
next
  case (Lit s t)
  then show ?case using Lit.IH [of "p @ s"] by (simp add: inert_append inert_plain)
next
  case (Hole v t)
  then show ?case
    using Hole.IH [of "p @ ''{{.'' @ v @ ''}}''"] inert_append [OF _ inert_hole, of p v] by simp
next
  case (If v a t)
  have s: "source (If v a t) = t_if (v @ CHR ''}'' # CHR ''}'' # (source a @ t_end (source t)))"
    by simp
  have m: "find_matching_endif (source a @ t_end (source t)) = Some (Some (length (source a)))"
    using If.prems by (intro endif_after_source) simp
  show ?case
    unfolding s using If.prems no_else [of a] If.IH(1) [of "''''"] If.IH(2) [of "''''"] inert_Nil
    by (subst render_if_step [OF _ _ m]) simp_all
next
  case (IfElse v a b t)
  have s: "source (IfElse v a b t) =
      t_if (v @ CHR ''}'' # CHR ''}'' # ((source a @ t_else (source b)) @ t_end (source t)))"
    by simp
  have m: "find_matching_endif ((source a @ t_else (source b)) @ t_end (source t)) =
      Some (Some (length (source a @ t_else (source b))))"
    using endif_after_else [of a b "source t"] IfElse.prems by simp
  have k: "take (length (source a @ t_else (source b))) ((source a @ t_else (source b)) @ t_end (source t)) =
      source a @ t_else (source b)"
    "drop (length (source a @ t_else (source b)) + 7) ((source a @ t_else (source b)) @ t_end (source t)) =
      source t"
    by (simp_all add: eval_nat_numeral)
  have d: "take (length (source a)) (source a @ t_else (source b)) = source a"
    "drop (length (source a) + 8) (source a @ t_else (source b)) = source b"
    by simp_all
  have ok: "var_ok v" "tpl_ok a" "tpl_ok b" "tpl_ok t" using IfElse.prems(1) by simp_all
  have ih: "render_conditionals vs (source x) = Some (concat (map seg_source (segs vs x)))" if "x \<in> {a, b, t}" for x
    using that IfElse.IH(1) [of "''''"] IfElse.IH(2) [of "''''"] IfElse.IH(3) [of "''''"] inert_Nil ok by auto
  show ?case
    unfolding s
    by (subst render_if_step [OF ok(1) IfElse.prems(2) m])
      (simp add: k [simplified] d [simplified] else_after_source ok ih)
qed

fun seg_value :: "vars \<Rightarrow> string + string \<Rightarrow> string" where
  "seg_value vs (Inl s) = s"
| "seg_value vs (Inr v) = var_value vs v"

fun seg_ok :: "string + string \<Rightarrow> bool" where
  "seg_ok (Inl s) = plain_text s"
| "seg_ok (Inr v) = var_ok v"

lemma segs_ok: "tpl_ok t \<Longrightarrow> \<forall>x \<in> set (segs vs t). seg_ok x"
  by (induction t) auto

lemma meaning_segs: "meaning vs t = concat (map (seg_value vs) (segs vs t))"
  by (induction t) auto

lemma no_close: "plain_text v \<Longrightarrow> takeWhile (\<lambda>c. c \<noteq> CHR ''}'') (v @ CHR ''}'' # r) = v \<and>
    dropWhile (\<lambda>c. c \<noteq> CHR ''}'') (v @ CHR ''}'' # r) = CHR ''}'' # r"
  by (induction v) (auto simp: plain_text_def)

lemma render_plain: "plain_text s \<Longrightarrow> render_variables vs (s @ r) = s @ render_variables vs r"
  by (induction s) (simp_all add: plain_text_def render_variables.simps [of vs "_ # _"])

lemma starts_no_close: "\<forall>x \<in> set xs. seg_ok x \<Longrightarrow>
   dropWhile (\<lambda>c. c = CHR ''}'') (concat (map seg_source xs)) = concat (map seg_source xs)"
proof (induction xs)
  case (Cons x xs)
  show ?case
  proof (cases x)
    case (Inl s)
    with Cons show ?thesis by (cases s) (auto simp: plain_text_def)
  qed simp
qed simp

lemma render_hole:
  assumes v: "var_ok v" and r: "dropWhile (\<lambda>c. c = CHR ''}'') r = r"
  shows "render_variables vs (''{{.'' @ v @ ''}}'' @ r) = var_value vs v @ render_variables vs r"
proof -
  have p: "plain_text (CHR ''.'' # v)"
    using var_ok_plain [OF v] by (simp add: plain_text_def)
  have t: "trim (CHR ''.'' # v) = CHR ''.'' # v"
    using v by (intro trim_graphic) (auto simp: var_ok_def graphic_def)
  have s: "strip_prefix ''.'' (CHR ''.'' # v) = Some v"
    by (simp add: strip_prefix_def)
  show ?thesis
    using no_close [OF p, of "CHR ''}'' # r"]
    by (simp add: render_variables.simps [of vs "CHR ''{'' # _"] t s r var_value_def)
qed

lemma render_segs:
  "\<forall>x \<in> set xs. seg_ok x \<Longrightarrow>
   render_variables vs (concat (map seg_source xs)) = concat (map (seg_value vs) xs)"
proof (induction xs)
  case (Cons x xs)
  show ?case
  proof (cases x)
    case (Inl s)
    with Cons show ?thesis by (simp add: render_plain)
  next
    case (Inr v)
    with Cons render_hole [of v "concat (map seg_source xs)" vs] starts_no_close [of xs] show ?thesis
      by simp
  qed
qed (simp add: render_variables.simps)

text \<open>
  C9. Rendering implements the template language: for every well-formed template, nested
  conditionals with and without an else part included, rendering its text gives its meaning: the
  literal text, each placeholder replaced by the quoted value of its variable (nothing when it has
  none), and of each conditional exactly the branch its variable selects.  Values are inserted after
  the conditionals are resolved and are not scanned again.
\<close>

theorem render_template_meaning:
  assumes "tpl_ok t"
  shows "render_template (source t) vs = Some (meaning vs t)"
  using render_conditionals_source [OF assms inert_Nil, of vs] segs_ok [OF assms, of vs]
  by (simp add: render_template_def meaning_segs render_segs)

theorem render_template_meaning_witness:
  "render_template (source (IfElse ''Old'' (Lit ''rm '' (Hole ''Old'' End)) (Lit ''none'' End) (Lit ''; x'' End)))
     [(''Old'', ''a'')] = Some (''rm '' @ shell_escape ''a'' @ ''; x'')"
proof -
  have "tpl_ok (IfElse ''Old'' (Lit ''rm '' (Hole ''Old'' End)) (Lit ''none'' End) (Lit ''; x'' End))"
    by (simp add: var_ok_def plain_text_def is_cont_def graphic_def)
  from render_template_meaning [OF this, of "[(''Old'', ''a'')]"] show ?thesis
    by (simp add: is_truthy_def var_value_def hm_get_def lower_char_def)
qed

text \<open>
  Templates outside that language misbehave in four ways: an opening tag without its end makes
  the whole remaining text appear twice, one without closing braces panics, so does any
  non-ASCII character inside a conditional, and a brace that follows a placeholder is swallowed.
\<close>

theorem malformed_templates:
  "render_conditionals vs ''a{{#if X}}b'' = Some (''a{{#if X}}b'' @ ''a{{#if X}}b'') \<and>
   render_conditionals vs ''a{{#if X'' = None \<and>
   render_conditionals vs (''{{#if X}}'' @ [CHR 0xC3, CHR 0xA9] @ ''{{/if}}'') = None \<and>
   render_variables [(''X'', ''1'')] ''{\"n\":{{.X}}}'' = ''{\"n\":'' @ shell_escape ''1''"
  by (intro conjI; code_simp)

end
