(* ===== verification/ConfigModel.thy ===== *)
theory ConfigModel
  imports Errors
begin

text \<open>
  \<open>crates/core/src/config/config.rs\<close>: the configuration of the application, its records with
  their defaults, and the queries on it.  A field carries the prefix of its struct (\<open>srv_\<close> for
  \<open>ServerConfig\<close>).  The two ways a value gets its defaults are kept apart: the \<open>Default\<close>
  implementation, and the per-field defaults serde uses for what a file leaves out.  SHA-256 in
  hex is a parameter.
\<close>

section \<open>Records\<close>

datatype TriggerType =
    OnConnect | OnReconnect | OnIpChange | OnProcessDead | OnPortClosed
  | OnTerminalOpen | BeforeTerminalClose | OnNetworkDisconnect | OnNetworkConnect
  | OnLanIpChange | OnPublicIpChange | OnInterval | OnSchedule | ManualFire

datatype PortForwardType = LocalForward | RemoteForward

record CustomVariable =
  cv_name :: string
  cv_value :: string

record GeneralConfig =
  gen_auto_start :: bool
  gen_minimize_to_tray :: bool
  gen_theme :: string
  gen_language :: string
  gen_log_level :: string
  gen_max_log_entries :: nat
  gen_log_to_file :: bool
  gen_log_dir :: string
  gen_log_max_days :: u32
  gen_log_max_size_mb :: u32
  gen_system_proxy_server_id :: "string option"
  gen_proxy_test_url :: string
  gen_crash_reporting :: bool
  gen_suppress_firewall_badge :: bool
  gen_notify_connect_success :: bool
  gen_notify_disconnect :: bool
  gen_notify_reconnect_success :: bool
  gen_notify_auth_fail :: bool
  gen_notify_proxy_toggle :: bool
  gen_notify_proxy_port_conflict :: bool
  gen_notify_trigger_fail :: bool
  gen_notify_trigger_success :: bool
  gen_notify_ip_change :: bool
  gen_default_socks5_port :: u16
  gen_default_http_port :: u16
  gen_default_queue_timeout_secs :: u64
  gen_default_trigger_timeout_secs :: u64
  gen_default_continue_on_error :: bool
  gen_default_ip_check_interval_secs :: u64
  gen_custom_variables :: "CustomVariable list"
  gen_cloud_sync_provider :: string
  gen_http_proxy_mode :: string
  gen_http_proxy_url :: string
  gen_terminal_theme :: string
  gen_terminal_font_size :: u16
  gen_terminal_font_family :: string
  gen_dev_terminal_log :: bool
  gen_dev_devtools :: bool
  gen_dev_idle_threshold_secs :: u32
  gen_dev_proxy_enabled :: bool

record ParameterSchema =
  ps_name :: string
  ps_label :: string
  ps_param_type :: string
  ps_required :: bool
  ps_default :: string
  ps_validation :: string

record TriggerTemplate =
  tmpl_id :: string
  tmpl_name :: string
  tmpl_trigger_type :: TriggerType
  tmpl_description :: string
  tmpl_built_in :: bool
  tmpl_template_version :: u32
  tmpl_parameters_schema :: "ParameterSchema list"
  tmpl_commands :: "string list"
  tmpl_check_target :: string
  tmpl_check_interval :: u64
  tmpl_timeout_secs :: u64

record SshConfig =
  ssh_host :: string
  ssh_port :: u16
  ssh_user :: string
  ssh_auth_method :: string
  ssh_key_path :: string
  ssh_key_auto_generated :: bool
  ssh_connection_mode :: string
  ssh_skip_hostkey_verify :: bool
  ssh_host_key_fingerprint :: "string option"

record ProxyConfig =
  px_enabled :: bool
  px_socks5_port :: u16
  px_http_port :: u16
  px_mixed_port :: u16
  px_max_channels :: nat
  px_channel_idle_timeout :: u64

record PortForwardRule =
  pf_id :: string
  pf_name :: string
  pf_forward_type :: PortForwardType
  pf_local_host :: string
  pf_local_port :: u16
  pf_remote_host :: string
  pf_remote_port :: u16
  pf_enabled :: bool
  pf_auto_start :: bool

record ReconnectConfig =
  rc_auto_reconnect :: bool
  rc_heartbeat_interval :: u64
  rc_max_attempts :: u32
  rc_reconnect_timeout_secs :: u64
  rc_initial_backoff_secs :: u64
  rc_max_backoff_secs :: u64

record IpCheckConfig =
  ipc_enabled :: bool
  ipc_interval_secs :: u64

record TriggerInstance =
  trg_id :: string
  trg_template_id :: string
  trg_trigger_type :: TriggerType
  trg_name :: string
  trg_enabled :: bool
  trg_continue_on_error :: bool
  trg_timeout_secs :: u64
  trg_notify_on_success :: bool
  trg_notify_on_failure :: bool
  trg_parameters :: "(string, string) hm"
  trg_commands :: "string list"
  trg_template_hash_at_addition :: string
  trg_cooldown_secs :: u64
  trg_last_fired_at :: "string option"
  trg_exec_in_terminal :: bool
  trg_bind_new_terminals :: bool
  trg_interval_secs :: u64
  trg_schedule_mode :: string
  trg_cron_expr :: string
  trg_scheduled_at :: string

record ServerConfig =
  srv_id :: string
  srv_name :: string
  srv_ssh :: SshConfig
  srv_proxy :: ProxyConfig
  srv_reconnect :: ReconnectConfig
  srv_ip_check :: IpCheckConfig
  srv_last_known_ip :: "string option"
  srv_triggers :: "TriggerInstance list"
  srv_suppress_firewall_badge :: bool
  srv_test_url :: string
  srv_port_forwards :: "PortForwardRule list"
  srv_tmux_mode :: string

record Config =
  cfg_version :: u32
  cfg_general :: GeneralConfig
  cfg_trigger_templates :: "TriggerTemplate list"
  cfg_servers :: "ServerConfig list"
  cfg_local_triggers :: "TriggerInstance list"

section \<open>Defaults\<close>

definition general_default :: GeneralConfig where
  "general_default =
     \<lparr>gen_auto_start = False, gen_minimize_to_tray = True, gen_theme = ''system'',
      gen_language = ''system'', gen_log_level = ''info'', gen_max_log_entries = 1000,
      gen_log_to_file = False, gen_log_dir = [], gen_log_max_days = 30, gen_log_max_size_mb = 50,
      gen_system_proxy_server_id = None, gen_proxy_test_url = ''https://api.ipify.org'',
      gen_crash_reporting = False, gen_suppress_firewall_badge = False,
      gen_notify_connect_success = False, gen_notify_disconnect = True,
      gen_notify_reconnect_success = False, gen_notify_auth_fail = True,
      gen_notify_proxy_toggle = False, gen_notify_proxy_port_conflict = True,
      gen_notify_trigger_fail = True, gen_notify_trigger_success = False,
      gen_notify_ip_change = False, gen_default_socks5_port = 1080, gen_default_http_port = 8080,
      gen_default_queue_timeout_secs = 30, gen_default_trigger_timeout_secs = 30,
      gen_default_continue_on_error = False, gen_default_ip_check_interval_secs = 300,
      gen_custom_variables = [], gen_cloud_sync_provider = [], gen_http_proxy_mode = ''auto'',
      gen_http_proxy_url = [], gen_terminal_theme = ''catppuccin-mocha'',
      gen_terminal_font_size = 13,
      gen_terminal_font_family = [CHR 0x27] @ ''Menlo'' @ [CHR 0x27] @ '', '' @ [CHR 0x27] @ ''Monaco''
        @ [CHR 0x27] @ '', '' @ [CHR 0x27] @ ''Courier New'' @ [CHR 0x27] @ '', monospace'',
      gen_dev_terminal_log = False, gen_dev_devtools = False, gen_dev_idle_threshold_secs = 60,
      gen_dev_proxy_enabled = True\<rparr>"

text \<open>What serde makes of a \<open>general\<close> object that leaves every field out.\<close>

definition general_serde_default :: GeneralConfig where
  "general_serde_default =
     \<lparr>gen_auto_start = False, gen_minimize_to_tray = True, gen_theme = ''system'',
      gen_language = ''system'', gen_log_level = ''info'', gen_max_log_entries = 1000,
      gen_log_to_file = False, gen_log_dir = [], gen_log_max_days = 30, gen_log_max_size_mb = 50,
      gen_system_proxy_server_id = None, gen_proxy_test_url = ''https://api.ipify.org'',
      gen_crash_reporting = False, gen_suppress_firewall_badge = False,
      gen_notify_connect_success = True, gen_notify_disconnect = True,
      gen_notify_reconnect_success = True, gen_notify_auth_fail = True,
      gen_notify_proxy_toggle = False, gen_notify_proxy_port_conflict = False,
      gen_notify_trigger_fail = True, gen_notify_trigger_success = False,
      gen_notify_ip_change = False, gen_default_socks5_port = 1080, gen_default_http_port = 8080,
      gen_default_queue_timeout_secs = 30, gen_default_trigger_timeout_secs = 30,
      gen_default_continue_on_error = False, gen_default_ip_check_interval_secs = 300,
      gen_custom_variables = [], gen_cloud_sync_provider = [], gen_http_proxy_mode = ''auto'',
      gen_http_proxy_url = [], gen_terminal_theme = ''catppuccin-mocha'',
      gen_terminal_font_size = 13,
      gen_terminal_font_family = [CHR 0x27] @ ''Menlo'' @ [CHR 0x27] @ '', '' @ [CHR 0x27] @ ''Monaco''
        @ [CHR 0x27] @ '', '' @ [CHR 0x27] @ ''Courier New'' @ [CHR 0x27] @ '', monospace'',
      gen_dev_terminal_log = False, gen_dev_devtools = False, gen_dev_idle_threshold_secs = 60,
      gen_dev_proxy_enabled = True\<rparr>"

definition reconnect_default :: ReconnectConfig where
  "reconnect_default =
     \<lparr>rc_auto_reconnect = True, rc_heartbeat_interval = 10, rc_max_attempts = 999,
      rc_reconnect_timeout_secs = 86400, rc_initial_backoff_secs = 1, rc_max_backoff_secs = 60\<rparr>"

definition ip_check_default :: IpCheckConfig where
  "ip_check_default = \<lparr>ipc_enabled = True, ipc_interval_secs = 300\<rparr>"

text \<open>The built-in templates are given by \<open>builtins\<close>.\<close>

definition config_default :: "TriggerTemplate list \<Rightarrow> Config" where
  "config_default builtins =
     \<lparr>cfg_version = 2, cfg_general = general_default, cfg_trigger_templates = builtins,
      cfg_servers = [], cfg_local_triggers = []\<rparr>"

section \<open>Queries\<close>

definition find_server :: "Config \<Rightarrow> string \<Rightarrow> ServerConfig option" where
  "find_server c server_id = find (\<lambda>s. srv_id s = server_id) (cfg_servers c)"

definition find_template :: "Config \<Rightarrow> string \<Rightarrow> TriggerTemplate option" where
  "find_template c template_id = find (\<lambda>t. tmpl_id t = template_id) (cfg_trigger_templates c)"

definition is_socks5_port_in_use :: "Config \<Rightarrow> u16 \<Rightarrow> string option \<Rightarrow> bool" where
  "is_socks5_port_in_use c port excl =
     list_ex (\<lambda>s. px_socks5_port (srv_proxy s) = port)
       (filter (\<lambda>s. Some (srv_id s) \<noteq> excl) (cfg_servers c))"

definition is_http_port_in_use :: "Config \<Rightarrow> u16 \<Rightarrow> string option \<Rightarrow> bool" where
  "is_http_port_in_use c port excl =
     list_ex (\<lambda>s. px_http_port (srv_proxy s) = port)
       (filter (\<lambda>s. Some (srv_id s) \<noteq> excl) (cfg_servers c))"

definition is_mixed_port_in_use :: "Config \<Rightarrow> u16 \<Rightarrow> string option \<Rightarrow> bool" where
  "is_mixed_port_in_use c port excl =
     list_ex (\<lambda>s. px_mixed_port (srv_proxy s) = port)
       (filter (\<lambda>s. Some (srv_id s) \<noteq> excl) (cfg_servers c))"

text \<open>The loops of the port-forward check, each with its early return.\<close>

fun proxy_port_taken :: "u16 \<Rightarrow> string option \<Rightarrow> ServerConfig list \<Rightarrow> bool" where
  "proxy_port_taken port excl [] = False"
| "proxy_port_taken port excl (s # ss) =
     (if Some (srv_id s) = excl then proxy_port_taken port excl ss
      else if (px_socks5_port (srv_proxy s) \<noteq> 0 \<and> px_socks5_port (srv_proxy s) = port)
            \<or> (px_http_port (srv_proxy s) \<noteq> 0 \<and> px_http_port (srv_proxy s) = port)
            \<or> (px_mixed_port (srv_proxy s) \<noteq> 0 \<and> px_mixed_port (srv_proxy s) = port)
      then True else proxy_port_taken port excl ss)"

fun rule_port_taken :: "u16 \<Rightarrow> (PortForwardRule \<Rightarrow> bool) \<Rightarrow> PortForwardRule list \<Rightarrow> bool" where
  "rule_port_taken port skip [] = False"
| "rule_port_taken port skip (r # rs) =
     (if pf_forward_type r \<noteq> LocalForward then rule_port_taken port skip rs
      else if skip r then rule_port_taken port skip rs
      else if pf_local_port r = port then True else rule_port_taken port skip rs)"

definition is_port_forward_local_port_in_use ::
  "Config \<Rightarrow> u16 \<Rightarrow> string option \<Rightarrow> string option \<Rightarrow> bool" where
  "is_port_forward_local_port_in_use c port excl_server excl_rule =
     (if proxy_port_taken port excl_server (cfg_servers c) then True
      else list_ex (\<lambda>s. rule_port_taken port
             (\<lambda>r. Some (srv_id s) = excl_server \<and> Some (pf_id r) = excl_rule) (srv_port_forwards s))
             (cfg_servers c))"

definition is_port_forward_local_port_in_server ::
  "Config \<Rightarrow> string \<Rightarrow> u16 \<Rightarrow> string option \<Rightarrow> bool" where
  "is_port_forward_local_port_in_server c server_id port excl_rule =
     (case find_server c server_id of
        None \<Rightarrow> False
      | Some server \<Rightarrow>
          rule_port_taken port (\<lambda>r. Some (pf_id r) = excl_rule) (srv_port_forwards server))"

definition command_hash :: "(bytes \<Rightarrow> string) \<Rightarrow> string list \<Rightarrow> string" where
  "command_hash sha256_hex commands = sha256_hex (bytes_of_str (join [CHR 0x0A] commands))"

definition modified_from_template :: "(bytes \<Rightarrow> string) \<Rightarrow> TriggerInstance \<Rightarrow> bool" where
  "modified_from_template sha t =
     (if trg_template_hash_at_addition t = [] then False
      else command_hash sha (trg_commands t) \<noteq> trg_template_hash_at_addition t)"

definition template_has_update :: "(bytes \<Rightarrow> string) \<Rightarrow> TriggerInstance \<Rightarrow> TriggerTemplate \<Rightarrow> bool" where
  "template_has_update sha t template =
     (if trg_template_hash_at_addition t = [] then False
      else command_hash sha (tmpl_commands template) \<noteq> trg_template_hash_at_addition t)"

section \<open>Correctness\<close>

lemma proxy_port_taken_iff:
  "proxy_port_taken port excl ss \<longleftrightarrow>
   port \<noteq> 0 \<and> (\<exists>s \<in> set ss. Some (srv_id s) \<noteq> excl \<and>
      port \<in> {px_socks5_port (srv_proxy s), px_http_port (srv_proxy s), px_mixed_port (srv_proxy s)})"
  by (induction ss) auto

lemma rule_port_taken_iff:
  "rule_port_taken port skip rs \<longleftrightarrow>
   (\<exists>r \<in> set rs. pf_forward_type r = LocalForward \<and> \<not> skip r \<and> pf_local_port r = port)"
  by (induction rs) auto

text \<open>
  The port check of a forwarding rule, by what listens: a port is taken exactly when another
  server's proxy listens on it, or a local rule other than the one being edited does.  The proxy
  ports of the rule's own server are not looked at, so a rule may be given the very port its
  server's proxy listens on.
\<close>

theorem port_forward_check_spec:
  "is_port_forward_local_port_in_use c port es er =
     ((port \<noteq> 0 \<and> (\<exists>s \<in> set (cfg_servers c). Some (srv_id s) \<noteq> es \<and>
        port \<in> {px_socks5_port (srv_proxy s), px_http_port (srv_proxy s), px_mixed_port (srv_proxy s)}))
   \<or> (\<exists>s \<in> set (cfg_servers c). \<exists>r \<in> set (srv_port_forwards s). pf_forward_type r = LocalForward \<and>
        (Some (srv_id s), Some (pf_id r)) \<noteq> (es, er) \<and> pf_local_port r = port))"
  by (auto simp: is_port_forward_local_port_in_use_def proxy_port_taken_iff rule_port_taken_iff list_ex_iff)

text \<open>
  A \<open>general\<close> section that a file gives without its fields is not the default one: three
  notification switches come out the other way round (connect and reconnect on, port conflict
  off), everything else agrees.
\<close>

theorem general_defaults_disagree:
  "general_serde_default =
     general_default\<lparr>gen_notify_connect_success := True, gen_notify_reconnect_success := True,
       gen_notify_proxy_port_conflict := False\<rparr>
   \<and> \<not> gen_notify_connect_success general_default \<and> \<not> gen_notify_reconnect_success general_default
   \<and> gen_notify_proxy_port_conflict general_default"
  by (simp add: general_serde_default_def general_default_def)

text \<open>The server of the examples.\<close>

definition sample_server :: ServerConfig where
  "sample_server = \<lparr>srv_id = ''a'', srv_name = ''a'',
     srv_ssh = \<lparr>ssh_host = ''h'', ssh_port = 22, ssh_user = ''u'', ssh_auth_method = ''password'', ssh_key_path = [],
       ssh_key_auto_generated = False, ssh_connection_mode = [], ssh_skip_hostkey_verify = False,
       ssh_host_key_fingerprint = None\<rparr>,
     srv_proxy = \<lparr>px_enabled = False, px_socks5_port = 1080, px_http_port = 8080, px_mixed_port = 0,
       px_max_channels = 10, px_channel_idle_timeout = 300\<rparr>,
     srv_reconnect = reconnect_default, srv_ip_check = ip_check_default, srv_last_known_ip = None,
     srv_triggers = [], srv_suppress_firewall_badge = False, srv_test_url = [], srv_port_forwards = [],
     srv_tmux_mode = []\<rparr>"

end
