(* ===== verification/ConfigMigration.thy ===== *)
theory ConfigMigration
  imports ConfigModel
begin

text \<open>
  \<open>crates/core/src/config/migration.rs\<close> and \<open>crates/core/src/fs.rs\<close>: the migration of a
  configuration document from an older schema, the loader with its recovery of a crashed write and
  its fallback for a corrupt file, and the atomic write.  The documents are those of serde_json;
  its parser, its deserialiser and its printer are parameters.
\<close>

section \<open>JSON documents\<close>

datatype number = PosInt u64 | NegInt int | Float string

datatype json =
    JNull | JBool bool | JNum number | JStr string | JArr "json list"
  | JObj "(string, json) hm"

text \<open>\<open>Value::get\<close>, \<open>Value::as_u64\<close>, and assignment through \<open>IndexMut\<close>: it turns \<open>Null\<close> into
  an object and panics (\<open>None\<close>) on every other value that is not one.\<close>

fun json_get :: "json \<Rightarrow> string \<Rightarrow> json option" where
  "json_get (JObj m) k = hm_get m k"
| "json_get _ k = None"

fun as_u64 :: "json \<Rightarrow> u64 option" where
  "as_u64 (JNum (PosInt n)) = Some n"
| "as_u64 _ = None"

fun index_put :: "string \<Rightarrow> json \<Rightarrow> json \<Rightarrow> json option" where
  "index_put k v (JObj m) = Some (JObj (hm_insert k v m))"
| "index_put k v JNull = Some (JObj [(k, v)])"
| "index_put k v _ = None"

section \<open>Migration\<close>

definition CURRENT_VERSION :: u32 where "CURRENT_VERSION = 2"

definition clamp_field :: "string \<Rightarrow> (u64 \<Rightarrow> bool) \<Rightarrow> u64 \<Rightarrow> json \<Rightarrow> json option" where
  "clamp_field key outside v r =
     (case Option.bind (json_get r key) as_u64 of
        Some n \<Rightarrow> if outside n then index_put key (JNum (PosInt v)) r else Some r
      | None \<Rightarrow> Some r)"

definition upgrade_reconnect :: "json \<Rightarrow> json option" where
  "upgrade_reconnect reconnect =
     Option.bind (clamp_field ''heartbeat_interval'' (\<lambda>n. 10 < n) 10 reconnect) (\<lambda>r1.
     Option.bind (clamp_field ''max_attempts'' (\<lambda>n. n < 999) 999 r1) (\<lambda>r2.
     Option.bind (clamp_field ''max_backoff_secs'' (\<lambda>n. 60 < n) 60 r2) (\<lambda>r3.
     if json_get r3 ''reconnect_timeout_secs'' = None
     then index_put ''reconnect_timeout_secs'' (JNum (PosInt 86400)) r3 else Some r3)))"

definition upgrade_server :: "json \<Rightarrow> json option" where
  "upgrade_server server =
     (case json_get server ''reconnect'' of
        None \<Rightarrow> Some server
      | Some reconnect \<Rightarrow> Option.bind (upgrade_reconnect reconnect) (\<lambda>r. index_put ''reconnect'' r server))"

definition migrate_v1_to_v2 :: "json \<Rightarrow> ((Error + unit) \<times> json) option" where
  "migrate_v1_to_v2 doc =
     (case json_get doc ''servers'' of
        Some (JArr servers) \<Rightarrow>
          Option.bind (those (map upgrade_server servers)) (\<lambda>ss.
          map_option (Pair (Inr ())) (index_put ''servers'' (JArr ss) doc))
      | _ \<Rightarrow> Some (Inr (), doc))"

text \<open>The chain of steps, each rolled back when it fails; a panic of a step ends everything.\<close>

definition migration_error :: "(Error \<Rightarrow> string) \<Rightarrow> u32 \<Rightarrow> Error \<Rightarrow> Error" where
  "migration_error show_error v e =
     ipc_err ConfigMigrationFailed
       (''migration v'' @ show_nat (unat v) @ [CHR 0xE2, CHR 0x86, CHR 0x92] @ ''v'' @ show_nat (unat v + 1)
        @ '' failed: '' @ show_error e)"

function migrate_chain ::
  "(Error \<Rightarrow> string) \<Rightarrow> u32 \<Rightarrow> json \<Rightarrow> ((Error + unit) \<times> json) option" where
  "migrate_chain show_error v doc =
     (if v < CURRENT_VERSION then
        Option.bind (if v = 1 then migrate_v1_to_v2 doc else Some (Inr (), doc)) (\<lambda>(res, doc').
          case res of
            Inl e \<Rightarrow> Some (Inl (migration_error show_error v e), doc)
          | Inr _ \<Rightarrow> migrate_chain show_error (v + 1) doc')
      else Some (Inr (), doc))"
  by pat_completeness auto
termination
proof (relation "measure (\<lambda>(_, v, _). unat (CURRENT_VERSION - v))", goal_cases)
  case (2 show_error v)
  then have "unat v = 0 \<or> unat v = 1"
    by (auto simp: CURRENT_VERSION_def word_less_nat_alt)
  then have "v = 0 \<or> v = 1"
    by (simp add: word_unat_eq_iff)
  then show ?case by (auto simp: CURRENT_VERSION_def)
qed simp

declare migrate_chain.simps [simp del]

definition set_version :: "json \<Rightarrow> json" where
  "set_version doc =
     (case json_get doc ''version'' of
        None \<Rightarrow> doc
      | Some _ \<Rightarrow> (case index_put ''version'' (JNum (PosInt (ucast CURRENT_VERSION))) doc of
                    Some d \<Rightarrow> d | None \<Rightarrow> doc))"

definition migrate :: "(Error \<Rightarrow> string) \<Rightarrow> json \<Rightarrow> u32 \<Rightarrow> ((Error + unit) \<times> json) option" where
  "migrate show_error doc from_version =
     (if CURRENT_VERSION < from_version then
        Some (Inl (ipc_err ConfigMigrationFailed
          (''config version '' @ show_nat (unat from_version) @ '' is higher than supported version ''
           @ show_nat (unat CURRENT_VERSION))), doc)
      else map_option (\<lambda>(res, doc'). case res of Inl e \<Rightarrow> (Inl e, doc') | Inr _ \<Rightarrow> (Inr (), set_version doc'))
             (migrate_chain show_error from_version doc))"


section \<open>The directory of the configuration file\<close>

text \<open>
  \<open>config.json\<close>, the \<open>config.tmp\<close> an interrupted write leaves, the backups made of corrupt files,
  and what the operating system will answer: whether the file can be read (as UTF-8), a rename and
  a copy succeed.
\<close>

datatype write_fault =
    NoFault | CreateFails | WriteFails nat | SyncFails | PermsFail | RenameFails

record config_dir =
  main_file :: "string option"
  tmp_file :: "string option"
  backups :: "string list"
  can_read :: bool
  can_rename :: bool
  can_copy :: bool
  can_mkdir :: bool
  next_write :: write_fault

definition backup_corrupt_config :: "config_dir \<Rightarrow> (Error + unit) \<times> config_dir" where
  "backup_corrupt_config d =
     (case main_file d of
        None \<Rightarrow> (Inr (), d)
      | Some t \<Rightarrow> if can_copy d then (Inr (), d\<lparr>backups := backups d @ [t]\<rparr>)
                 else (Inl (Io (OtherIo ''copy'')), d))"

definition recover_tmp :: "config_dir \<Rightarrow> config_dir" where
  "recover_tmp d =
     (if main_file d = None \<and> tmp_file d \<noteq> None \<and> can_rename d
      then d\<lparr>main_file := tmp_file d, tmp_file := None\<rparr> else d)"

text \<open>
  The JSON library and the built-in templates, as a record of functions: the parser (\<open>None\<close> for a
  text that is not JSON), the deserialiser, the printer, and the display of an error.
\<close>

record serde =
  parse_json :: "string \<Rightarrow> json option"
  from_value :: "json \<Rightarrow> string + Config"
  to_json :: "Config \<Rightarrow> string"
  show_error :: "Error \<Rightarrow> string"
  builtin_templates :: "TriggerTemplate list"

abbreviation default_config :: "serde \<Rightarrow> Config" where
  "default_config js \<equiv> config_default (builtin_templates js)"

definition file_version :: "json \<Rightarrow> u32" where
  "file_version doc =
     (case Option.bind (json_get doc ''version'') as_u64 of Some n \<Rightarrow> ucast n | None \<Rightarrow> 1)"

text \<open>Version check, migration and deserialisation of a parsed document; \<open>None\<close> is a panic.\<close>

definition load_document :: "serde \<Rightarrow> json \<Rightarrow> (Error + Config) option" where
  "load_document js doc =
     (if CURRENT_VERSION < file_version doc then
        Some (Inl (ipc_err ConfigMigrationFailed
          (''config version '' @ show_nat (unat (file_version doc)) @ '' > supported ''
           @ show_nat (unat CURRENT_VERSION))))
      else Option.bind
        (if file_version doc < CURRENT_VERSION then migrate (show_error js) doc (file_version doc)
         else Some (Inr (), doc))
        (\<lambda>(res, doc'). case res of
            Inl e \<Rightarrow> Some (Inl e)
          | Inr _ \<Rightarrow> Some (map_err (\<lambda>e. ipc_err ConfigCorrupt (''deserialize error: '' @ e)) (from_value js doc'))))"

definition load_config_with_migration :: "serde \<Rightarrow> config_dir \<Rightarrow> (Error + Config) option \<times> config_dir" where
  "load_config_with_migration js d =
     (let d1 = recover_tmp d in
      case main_file d1 of
        None \<Rightarrow> (Some (Inr (default_config js)), d1)
      | Some content \<Rightarrow>
          if \<not> can_read d1 then (Some (Inl (ipc_err ConfigCorrupt (''read error: '' @ show_error js (Io (OtherIo ''read''))))), d1)
          else (case parse_json js content of
              None \<Rightarrow> (Some (Inr (default_config js)), snd (backup_corrupt_config d1))
            | Some doc \<Rightarrow> (load_document js doc, d1)))"

definition load_config_with_migration_fallback :: "serde \<Rightarrow> config_dir \<Rightarrow> (Config \<times> bool) option \<times> config_dir" where
  "load_config_with_migration_fallback js d =
     (case load_config_with_migration js d of
        (None, d1) \<Rightarrow> (None, d1)
      | (Some (Inr c), d1) \<Rightarrow> (Some (c, c = default_config js \<and> main_file d1 \<noteq> None), d1)
      | (Some (Inl e), d1) \<Rightarrow> (Some (default_config js, True), d1))"

section \<open>The atomic write\<close>

text \<open>
  The write succeeds or stops at one of its steps.  A fault of the permissions step matters for
  restricted files only.
\<close>

definition write_atomic :: "string \<Rightarrow> bool \<Rightarrow> config_dir \<Rightarrow> (io_error + unit) \<times> config_dir" where
  "write_atomic data restrictive d =
     (case next_write d of
        CreateFails \<Rightarrow> (Inl (OtherIo ''create''), d)
      | WriteFails n \<Rightarrow> (Inl (OtherIo ''write''), d\<lparr>tmp_file := Some (take n data)\<rparr>)
      | SyncFails \<Rightarrow> (Inl (OtherIo ''fsync''), d\<lparr>tmp_file := Some data\<rparr>)
      | PermsFail \<Rightarrow>
          if restrictive then (Inl (OtherIo ''chmod''), d\<lparr>tmp_file := None\<rparr>)
          else (Inr (), d\<lparr>main_file := Some data, tmp_file := None\<rparr>)
      | RenameFails \<Rightarrow> (Inl (OtherIo ''rename''), d\<lparr>tmp_file := None\<rparr>)
      | NoFault \<Rightarrow> (Inr (), d\<lparr>main_file := Some data, tmp_file := None\<rparr>))"

text \<open>The directories a loss of power can leave: after each byte written, and after the rename.\<close>

definition crash_states :: "string \<Rightarrow> config_dir \<Rightarrow> config_dir list" where
  "crash_states data d =
     [d] @ map (\<lambda>n. d\<lparr>tmp_file := Some (take n data)\<rparr>) [0..<length data + 1]
     @ [d\<lparr>main_file := Some data, tmp_file := None\<rparr>]"

section \<open>What the migration does\<close>

text \<open>A reconnect section as the second schema wants it.\<close>

definition reconnect_bounds :: "json \<Rightarrow> bool" where
  "reconnect_bounds r \<longleftrightarrow>
     (\<forall>n. Option.bind (json_get r ''heartbeat_interval'') as_u64 = Some n \<longrightarrow> n \<le> 10) \<and>
     (\<forall>n. Option.bind (json_get r ''max_attempts'') as_u64 = Some n \<longrightarrow> 999 \<le> n) \<and>
     (\<forall>n. Option.bind (json_get r ''max_backoff_secs'') as_u64 = Some n \<longrightarrow> n \<le> 60) \<and>
     json_get r ''reconnect_timeout_secs'' \<noteq> None"

text \<open>The values on which assignment panics.\<close>

fun scalar :: "json \<Rightarrow> bool" where
  "scalar (JObj m) = False"
| "scalar JNull = False"
| "scalar _ = True"

lemma json_get_None [simp]: "scalar r \<Longrightarrow> json_get r k = None" "json_get JNull k = None"
  by (cases r; simp)+

lemma json_get_obj: "json_get (JObj m) = hm_get m"
  by (rule ext) simp

lemma json_get_put: "index_put k v r = Some r' \<Longrightarrow> json_get r' = (json_get r)(k \<mapsto> v)"
  by (cases r) (auto simp: hm_get_def hm_insert_def update_conv' json_get_obj fun_eq_iff)

lemma index_put_None: "index_put k v r = None \<longleftrightarrow> scalar r"
  by (cases r) auto

lemma hm_insert_same: "hm_get m k = Some v \<Longrightarrow> hm_insert k v m = m"
  unfolding hm_get_def hm_insert_def by (rule AList.update_triv)

lemma index_put_same: "json_get r k = Some v \<Longrightarrow> index_put k v r = Some r"
  by (cases r) (auto simp: hm_insert_same)

lemma clamp_None: "clamp_field k p v r \<noteq> None"
  by (cases r) (auto simp: clamp_field_def hm_get_def split: option.splits)

lemma clamp_get:
  "clamp_field k p v r = Some r' \<Longrightarrow>
   json_get r' = (case Option.bind (json_get r k) as_u64 of
      Some n \<Rightarrow> if p n then (json_get r)(k \<mapsto> JNum (PosInt v)) else json_get r | None \<Rightarrow> json_get r)"
  by (auto simp: clamp_field_def json_get_put split: option.splits if_splits)

lemma clamp_scalar: "clamp_field k p v r = Some r' \<Longrightarrow> scalar r' = scalar r"
  by (cases r) (auto simp: clamp_field_def hm_get_def split: option.splits if_splits)

lemma clamp_inside: "(\<forall>n. Option.bind (json_get r k) as_u64 = Some n \<longrightarrow> \<not> p n) \<Longrightarrow> clamp_field k p v r = Some r"
  by (auto simp: clamp_field_def split: option.splits)

lemma upgrade_reconnect_None: "upgrade_reconnect r = None \<longleftrightarrow> scalar r"
proof -
  obtain r1 where 1: "clamp_field ''heartbeat_interval'' (\<lambda>n. 10 < n) 10 r = Some r1" using clamp_None by fastforce
  obtain r2 where 2: "clamp_field ''max_attempts'' (\<lambda>n. n < 999) 999 r1 = Some r2" using clamp_None by fastforce
  obtain r3 where 3: "clamp_field ''max_backoff_secs'' (\<lambda>n. 60 < n) 60 r2 = Some r3" using clamp_None by fastforce
  have "scalar r3 = scalar r" using clamp_scalar [OF 1] clamp_scalar [OF 2] clamp_scalar [OF 3] by simp
  then show ?thesis by (auto simp: upgrade_reconnect_def 1 2 3 index_put_None)
qed

lemma upgrade_reconnect_get:
  assumes "upgrade_reconnect r = Some r'"
  shows "reconnect_bounds r'"
    and "k \<notin> {''heartbeat_interval'', ''max_attempts'', ''max_backoff_secs'', ''reconnect_timeout_secs''} \<Longrightarrow>
         json_get r' k = json_get r k"
proof -
  obtain r1 where 1: "clamp_field ''heartbeat_interval'' (\<lambda>n. 10 < n) 10 r = Some r1" using clamp_None by fastforce
  obtain r2 where 2: "clamp_field ''max_attempts'' (\<lambda>n. n < 999) 999 r1 = Some r2" using clamp_None by fastforce
  obtain r3 where 3: "clamp_field ''max_backoff_secs'' (\<lambda>n. 60 < n) 60 r2 = Some r3" using clamp_None by fastforce
  have r': "json_get r' = (if json_get r3 ''reconnect_timeout_secs'' = None
      then (json_get r3)(''reconnect_timeout_secs'' \<mapsto> JNum (PosInt 86400)) else json_get r3)"
    using assms by (auto simp: upgrade_reconnect_def 1 2 3 json_get_put split: if_splits)
  note get = r' clamp_get [OF 1] clamp_get [OF 2] clamp_get [OF 3]
  show "reconnect_bounds r'"
    unfolding reconnect_bounds_def get
    by (auto simp: not_less split: option.splits if_splits bind_splits)
  show "json_get r' k = json_get r k"
    if "k \<notin> {''heartbeat_interval'', ''max_attempts'', ''max_backoff_secs'', ''reconnect_timeout_secs''}"
    using that unfolding get by (auto split: option.splits)
qed

lemma upgrade_reconnect_inside: "reconnect_bounds r \<Longrightarrow> upgrade_reconnect r = Some r"
  by (auto simp: reconnect_bounds_def upgrade_reconnect_def clamp_inside not_less)

lemma upgrade_server_None:
  "upgrade_server s = None \<longleftrightarrow> (\<exists>r. json_get s ''reconnect'' = Some r \<and> scalar r)"
  by (cases s) (auto simp: upgrade_server_def upgrade_reconnect_None bind_eq_None_conv hm_get_def split: option.splits)

lemma upgrade_server_get:
  assumes "upgrade_server s = Some s'"
  shows "json_get s' ''reconnect'' = Some r \<Longrightarrow> reconnect_bounds r"
    and "k \<noteq> ''reconnect'' \<Longrightarrow> json_get s' k = json_get s k"
  using assms
  by (auto simp: upgrade_server_def json_get_put bind_eq_Some_conv upgrade_reconnect_get split: option.splits)

lemma upgrade_server_again: "upgrade_server s = Some s' \<Longrightarrow> upgrade_server s' = Some s'"
  by (auto simp: upgrade_server_def json_get_put bind_eq_Some_conv upgrade_reconnect_inside index_put_same
      dest: upgrade_reconnect_get(1) split: option.splits)

lemma those_Some: "those xs = Some ys \<longleftrightarrow> xs = map Some ys"
  by (induction xs arbitrary: ys) (auto split: option.splits)

lemma those_None: "those xs = None \<longleftrightarrow> None \<in> set xs"
  by (induction xs) (auto split: option.splits)

lemma map_eq_Some: "map f xs = map Some ys \<longleftrightarrow> list_all2 (\<lambda>x y. f x = Some y) xs ys"
  by (induction xs arbitrary: ys) (auto simp: Cons_eq_map_conv list_all2_Cons1)

lemma step_cases:
  "migrate_v1_to_v2 doc = Some (res, doc') \<Longrightarrow>
   res = Inr () \<and> (doc' = doc \<and> (\<nexists>ss. json_get doc ''servers'' = Some (JArr ss)) \<or>
     (\<exists>ss ss'. json_get doc ''servers'' = Some (JArr ss) \<and> list_all2 (\<lambda>x y. upgrade_server x = Some y) ss ss'
        \<and> json_get doc' = (json_get doc)(''servers'' \<mapsto> JArr ss')))"
  by (auto simp: migrate_v1_to_v2_def bind_eq_Some_conv those_Some map_eq_Some json_get_put
      split: option.splits json.splits)

lemma step_None:
  "migrate_v1_to_v2 doc = None \<longleftrightarrow>
   (\<exists>ss. json_get doc ''servers'' = Some (JArr ss) \<and> (\<exists>s \<in> set ss. upgrade_server s = None))"
  by (cases doc) (auto simp: migrate_v1_to_v2_def bind_eq_None_conv those_None hm_get_def image_iff eq_commute [of None]
      split: option.splits json.splits)

lemma step_again: "migrate_v1_to_v2 doc = Some (res, doc') \<Longrightarrow> migrate_v1_to_v2 doc' = Some (Inr (), doc')"
proof (drule step_cases, elim conjE disjE exE)
  fix ss ss' assume "list_all2 (\<lambda>x y. upgrade_server x = Some y) ss ss'" "json_get doc' = (json_get doc)(''servers'' \<mapsto> JArr ss')"
  moreover from this have "list_all2 (\<lambda>x y. upgrade_server x = Some y) ss' ss'"
    by (auto simp: list_all2_conv_all_nth upgrade_server_again)
  ultimately show ?thesis
    by (simp add: migrate_v1_to_v2_def map_eq_Some [THEN iffD2, THEN arg_cong [where f = those]] those_Some [THEN iffD2] index_put_same)
qed (auto simp: migrate_v1_to_v2_def split: option.splits json.splits)

lemma set_version_get:
  "json_get (set_version doc) k =
     (if k = ''version'' \<and> json_get doc k \<noteq> None then Some (JNum (PosInt 2)) else json_get doc k)"
  by (cases doc) (auto simp: set_version_def CURRENT_VERSION_def hm_simps split: option.splits)

lemma migrate_old:
  "v < 2 \<Longrightarrow> migrate sh doc v = map_option (\<lambda>(_, d). (Inr (), set_version d)) (migrate_v1_to_v2 doc)"
proof -
  assume "v < 2"
  then have "unat v = 0 \<or> unat v = 1" by (auto simp: word_less_nat_alt)
  then have "v = 0 \<or> v = 1" by (simp add: word_unat_eq_iff)
  moreover have "migrate_chain sh 2 d = Some (Inr (), d)" for d
    by (subst migrate_chain.simps) (simp add: CURRENT_VERSION_def)
  moreover from this have "migrate_chain sh 1 d = migrate_v1_to_v2 d" for d
    using step_cases [of d]
    by (subst migrate_chain.simps, cases "migrate_v1_to_v2 d") (auto simp: CURRENT_VERSION_def)
  moreover from this have "migrate_chain sh 0 d = migrate_v1_to_v2 d" for d
    by (subst migrate_chain.simps) (simp add: CURRENT_VERSION_def)
  ultimately show ?thesis
    by (auto simp: migrate_def CURRENT_VERSION_def dest: step_cases intro!: option.map_cong split: sum.splits)
qed

lemma step_fixed:
  assumes "\<And>ss s. json_get doc ''servers'' = Some (JArr ss) \<Longrightarrow> s \<in> set ss \<Longrightarrow> upgrade_server s = Some s"
  shows "migrate_v1_to_v2 doc = Some (Inr (), doc)"
proof (cases "\<exists>ss. json_get doc ''servers'' = Some (JArr ss)")
  case True
  then obtain ss where ss: "json_get doc ''servers'' = Some (JArr ss)" by blast
  have "map upgrade_server ss = map Some ss" using assms [OF ss] by simp
  then have "those (map upgrade_server ss) = Some ss" by (simp add: those_Some)
  then show ?thesis by (simp add: migrate_v1_to_v2_def ss index_put_same)
qed (auto simp: migrate_v1_to_v2_def split: option.splits json.splits)

lemma step_result_fixed:
  assumes "migrate_v1_to_v2 doc = Some (res, doc')" "json_get doc' ''servers'' = Some (JArr ss)" "s \<in> set ss"
  shows "upgrade_server s = Some s"
  using step_cases [OF assms(1)] assms(2,3)
  by (auto simp: in_set_conv_nth list_all2_conv_all_nth upgrade_server_again)

lemma set_version_idem: "set_version (set_version doc) = set_version doc"
  using set_version_get [of doc "''version''"]
  by (cases "json_get doc ''version''")
    (simp_all add: set_version_def [of doc], simp add: set_version_def CURRENT_VERSION_def index_put_same split: option.splits)

section \<open>Correctness\<close>

text \<open>
  The migration of a document of the first schema does what the second asks for and nothing
  else: every reconnect section ends within the new bounds, every other field of every server and
  of the document is as it was, the version reads 2 if there was one; and migrating the result
  again changes nothing, so a file without a version field is safe to migrate at every start.
\<close>

theorem migrate_upgrades:
  assumes "migrate sh doc v = Some (Inr (), doc')" and "v < 2" and "w \<le> 2"
  shows "(\<forall>ss. json_get doc ''servers'' = Some (JArr ss) \<longrightarrow>
           (\<exists>ss'. json_get doc' ''servers'' = Some (JArr ss') \<and> list_all2 (\<lambda>s s'.
             (\<forall>r. json_get s' ''reconnect'' = Some r \<longrightarrow> reconnect_bounds r) \<and>
             (\<forall>k. k \<noteq> ''reconnect'' \<longrightarrow> json_get s' k = json_get s k)) ss ss'))
    \<and> (\<forall>k. k \<notin> {''servers'', ''version''} \<longrightarrow> json_get doc' k = json_get doc k)
    \<and> json_get doc' ''version'' \<in> {None, Some (JNum (PosInt 2))}
    \<and> migrate sh doc' w = Some (Inr (), doc')"
proof (intro conjI allI impI)
  obtain d1 where d1: "migrate_v1_to_v2 doc = Some (Inr (), d1)" and doc': "doc' = set_version d1"
    using assms step_cases [of doc] by (auto simp: migrate_old)
  note step = step_cases [OF d1]
  have get: "json_get doc' ''servers'' = json_get d1 ''servers''"
    by (simp add: doc' set_version_get)
  show "\<exists>ss'. json_get doc' ''servers'' = Some (JArr ss') \<and> list_all2 (\<lambda>s s'.
             (\<forall>r. json_get s' ''reconnect'' = Some r \<longrightarrow> reconnect_bounds r) \<and>
             (\<forall>k. k \<noteq> ''reconnect'' \<longrightarrow> json_get s' k = json_get s k)) ss ss'"
    if "json_get doc ''servers'' = Some (JArr ss)" for ss
    using step that by (auto simp: get upgrade_server_get elim!: list_all2_mono)
  show "json_get doc' k = json_get doc k" if "k \<notin> {''servers'', ''version''}" for k
    using step that by (auto simp: doc' set_version_get)
  show "json_get doc' ''version'' \<in> {None, Some (JNum (PosInt 2))}"
    by (simp add: doc' set_version_get)
  have "migrate_v1_to_v2 doc' = Some (Inr (), doc')"
    by (rule step_fixed) (auto simp: get step_result_fixed [OF d1])
  moreover have "migrate_chain sh 2 doc' = Some (Inr (), doc')"
    by (subst migrate_chain.simps) (simp add: CURRENT_VERSION_def)
  moreover have "w < 2 \<or> w = 2" using assms(3) by auto
  ultimately show "migrate sh doc' w = Some (Inr (), doc')"
  proof (elim disjE)
    assume "w = 2" "migrate_chain sh 2 doc' = Some (Inr (), doc')"
    then show ?thesis by (simp add: migrate_def CURRENT_VERSION_def doc' set_version_idem)
  qed (simp add: migrate_old doc' set_version_idem)
qed

definition sample_doc :: json where
  "sample_doc = JObj [(''version'', JNum (PosInt 1)), (''servers'', JArr
     [JObj [(''id'', JStr ''a''), (''reconnect'', JObj [(''heartbeat_interval'', JNum (PosInt 30))])]])]"

lemma migrate_upgrades_witness:
  "\<exists>doc'. migrate (\<lambda>_. []) sample_doc 1 = Some (Inr (), doc') \<and> json_get doc' ''version'' = Some (JNum (PosInt 2))"
proof -
  have "migrate_v1_to_v2 sample_doc \<noteq> None"
    by (simp add: step_None upgrade_server_None sample_doc_def hm_get_def)
  then obtain res d where step: "migrate_v1_to_v2 sample_doc = Some (res, d)" by auto
  then have d: "migrate (\<lambda>_. []) sample_doc 1 = Some (Inr (), set_version d)"
    by (simp add: migrate_old)
  have "json_get (set_version d) ''version'' \<noteq> None"
    using step_cases [OF step]
    by (auto simp: set_version_get sample_doc_def hm_get_def)
  with migrate_upgrades [OF d, of 2] d show ?thesis by auto
qed

text \<open>The migration of a first-schema document panics exactly when some server's \<open>reconnect\<close> is
  a string, a number, a boolean or an array.\<close>

theorem migration_panics:
  "migrate sh doc 1 = None \<longleftrightarrow>
   (\<exists>ss s r. json_get doc ''servers'' = Some (JArr ss) \<and> s \<in> set ss \<and>
      json_get s ''reconnect'' = Some r \<and> scalar r)"
  by (auto simp: migrate_old step_None upgrade_server_None)

text \<open>The version is cut to 32 bits before it is compared: a file of version \<open>2 ^ 32 + 2\<close> counts
  as one of the current version, and is not refused as a newer one.\<close>

theorem version_is_truncated:
  "file_version (JObj [(''version'', JNum (PosInt 0x100000002))]) = CURRENT_VERSION"
  by (simp add: file_version_def hm_get_def CURRENT_VERSION_def)

section \<open>Crash safety\<close>

text \<open>
  What the loader relies on of the JSON library for a configuration: its printed text, with and
  without the final line feed, is read back, as a document of the current version, and no proper
  beginning of the text parses.
\<close>

definition reads_back :: "serde \<Rightarrow> Config \<Rightarrow> bool" where
  "reads_back js c \<longleftrightarrow>
     (\<exists>doc. parse_json js (to_json js c @ [CHR 0x0A]) = Some doc \<and> parse_json js (to_json js c) = Some doc
        \<and> file_version doc = CURRENT_VERSION \<and> from_value js doc = Inr c)
   \<and> (\<forall>n < length (to_json js c). parse_json js (take n (to_json js c)) = None)"

definition saved_text :: "serde \<Rightarrow> Config \<Rightarrow> string" where
  "saved_text js c = to_json js c @ [CHR 0x0A]"

lemma load_saved:
  "reads_back js c \<Longrightarrow> main_file d = Some (saved_text js c) \<or> main_file d = Some (to_json js c) \<Longrightarrow> can_read d \<Longrightarrow>
   load_config_with_migration js d = (Some (Inr c), d)"
  by (auto simp: load_config_with_migration_def recover_tmp_def load_document_def reads_back_def saved_text_def)

lemma load_ignores_tmp:
  "main_file d = Some t \<Longrightarrow> fst (load_config_with_migration js (d\<lparr>tmp_file := x\<rparr>)) = fst (load_config_with_migration js d)"
  by (simp add: load_config_with_migration_def recover_tmp_def Let_def split: option.splits)

lemma load_tmp:
  assumes "reads_back js c" "main_file d = None" "can_read d" "can_rename d" "n \<le> length (saved_text js c)"
  shows "fst (load_config_with_migration js (d\<lparr>tmp_file := Some (take n (saved_text js c))\<rparr>))
     = Some (Inr (if n < length (to_json js c) then default_config js else c))"
proof -
  have "take n (saved_text js c) = (if n \<le> length (to_json js c) then take n (to_json js c) else saved_text js c)"
    using assms(5) by (auto simp: saved_text_def le_Suc_eq)
  then show ?thesis
    using assms by (auto simp: load_config_with_migration_def recover_tmp_def load_document_def reads_back_def saved_text_def)
qed

lemma crash_state_cases:
  assumes "d' \<in> set (crash_states t d)"
  obtains "d' = d" | n where "n \<le> length t" "d' = d\<lparr>tmp_file := Some (take n t)\<rparr>"
    | "d' = d\<lparr>main_file := Some t, tmp_file := None\<rparr>"
proof -
  have "set [0..<length t + 1] = {n. n \<le> length t}" by auto
  with assms show thesis
    by (auto simp del: upt_Suc simp: crash_states_def intro: that)
qed

text \<open>
  C10. A save is crash safe.  Whatever the directory looks like when the power is lost during the
  write, the next start reads either the configuration that was there before or the new one: with
  an old file the old or the new, with no file yet the default or the new.
\<close>

theorem save_crash_safe:
  assumes "reads_back js c" and "can_read d" and "can_rename d"
    and "main_file d = None \<longrightarrow> tmp_file d = None"
    and "d' \<in> set (crash_states (saved_text js c) d)"
  shows "fst (load_config_with_migration js d') \<in> {fst (load_config_with_migration js d), Some (Inr c)}"
proof (cases "main_file d")
  case None
  then have *: "fst (load_config_with_migration js d) = Some (Inr (default_config js))"
    using assms(4) by (simp add: load_config_with_migration_def recover_tmp_def)
  from assms(5) show ?thesis
    by (rule crash_state_cases) (auto simp: * load_tmp [OF assms(1) None assms(2,3)] load_saved [OF assms(1)] assms(2))
next
  case (Some t)
  from assms(5) show ?thesis
    by (rule crash_state_cases) (auto simp: load_ignores_tmp [OF Some] load_saved [OF assms(1)] assms(2))
qed

definition toy_serde :: serde where
  "toy_serde = \<lparr>parse_json = (\<lambda>s. if s = ''{}'' \<or> s = ''{}'' @ [CHR 0x0A]
       then Some (JObj [(''version'', JNum (PosInt 2))]) else None),
     from_value = (\<lambda>_. Inr (config_default [])), to_json = (\<lambda>_. ''{}''), show_error = (\<lambda>_. []),
     builtin_templates = []\<rparr>"

lemma toy_reads_back: "reads_back toy_serde (config_default [])"
proof -
  have "take n ''{}'' \<noteq> ''{}'' \<and> take n ''{}'' \<noteq> ''{}'' @ [CHR 0x0A]" if "n < 2" for n
    using that by (cases n) (auto simp: less_Suc_eq)
  then show ?thesis
    by (auto simp: reads_back_def toy_serde_def file_version_def hm_get_def CURRENT_VERSION_def)
qed

definition empty_dir :: config_dir where
  "empty_dir = \<lparr>main_file = None, tmp_file = None, backups = [], can_read = True, can_rename = True,
     can_copy = True, can_mkdir = True, next_write = NoFault\<rparr>"

lemma save_crash_safe_witness:
  "fst (load_config_with_migration toy_serde (empty_dir\<lparr>tmp_file := Some ''{''\<rparr>)) = Some (Inr (config_default []))"
proof -
  have "empty_dir\<lparr>tmp_file := Some ''{''\<rparr> \<in> set (crash_states (saved_text toy_serde (config_default [])) empty_dir)"
    by (auto simp: crash_states_def saved_text_def toy_serde_def empty_dir_def image_iff intro!: bexI [of _ 1])
  from save_crash_safe [OF toy_reads_back _ _ _ this] show ?thesis
    by (auto simp: empty_dir_def load_config_with_migration_def recover_tmp_def toy_serde_def)
qed

end
