(* ===== verification/ConfigStore.thy ===== *)
theory ConfigStore
  imports ConfigMigration
begin

text \<open>
  \<open>crates/core/src/config/manager.rs\<close> and \<open>storage.rs\<close>: the configuration manager, which keeps
  the configuration in memory, a storage backend and the flag \<open>corrupt_load\<close> that is set when the
  file could not be read.  A backend is the record of functions of the trait \<open>ConfigStorage\<close>; its
  contract is a locale, in which the guarantees of the manager against losing servers are proved
  once; the file backend and the in-memory backend are its interpretations.
\<close>

section \<open>Storage backends\<close>

text \<open>A load that panics gives \<open>None\<close>.\<close>

record 'st ConfigStorage =
  st_load :: "'st \<Rightarrow> (Error + Config) option \<times> 'st"
  st_save :: "Config \<Rightarrow> 'st \<Rightarrow> (Error + unit) \<times> 'st"
  st_exists :: "'st \<Rightarrow> bool"

definition file_save :: "serde \<Rightarrow> Config \<Rightarrow> config_dir \<Rightarrow> (Error + unit) \<times> config_dir" where
  "file_save js c d =
     (if \<not> can_mkdir d then (Inl (Io (OtherIo ''mkdir'')), d)
      else (let (r, d') = write_atomic (to_json js c @ [CHR 0x0A]) False d in (map_err Io r, d')))"

definition file_exists :: "config_dir \<Rightarrow> bool" where
  "file_exists d \<longleftrightarrow> main_file d \<noteq> None"

definition FileConfigStorage :: "serde \<Rightarrow> config_dir ConfigStorage" where
  "FileConfigStorage js =
     \<lparr>st_load = load_config_with_migration js, st_save = file_save js, st_exists = file_exists\<rparr>"

text \<open>The in-memory backend deserialises without migrating; its parser is that of the file backend.\<close>

definition memory_load :: "serde \<Rightarrow> string option \<Rightarrow> (Error + Config) option \<times> string option" where
  "memory_load js st =
     (Some (case st of
        None \<Rightarrow> Inl (ipc_err Internal ''no config in memory'')
      | Some t \<Rightarrow>
          (case parse_json js t of
             None \<Rightarrow> Inl (ipc_err ConfigCorrupt [])
           | Some doc \<Rightarrow> map_err (ipc_err ConfigCorrupt) (from_value js doc))), st)"

definition memory_save :: "serde \<Rightarrow> Config \<Rightarrow> string option \<Rightarrow> (Error + unit) \<times> string option" where
  "memory_save js c st = (Inr (), Some (to_json js c))"

definition InMemoryConfigStorage :: "serde \<Rightarrow> string option ConfigStorage" where
  "InMemoryConfigStorage js =
     \<lparr>st_load = memory_load js, st_save = memory_save js, st_exists = (\<lambda>st. st \<noteq> None)\<rparr>"

section \<open>The manager\<close>

record 'st ConfigManager =
  config :: Config
  storage :: 'st
  corrupt_load :: bool

definition with_storage_and_corrupt :: "Config \<Rightarrow> 'st \<Rightarrow> bool \<Rightarrow> 'st ConfigManager" where
  "with_storage_and_corrupt c st corrupt = \<lparr>config = c, storage = st, corrupt_load = corrupt\<rparr>"

text \<open>Loading at start; the result is an error never, but the loader may panic.\<close>

definition manager_load :: "serde \<Rightarrow> config_dir \<Rightarrow> config_dir ConfigManager option" where
  "manager_load js d =
     (case load_config_with_migration_fallback js d of
        (None, d') \<Rightarrow> None
      | (Some (c, corrupt), d') \<Rightarrow> Some \<lparr>config = c, storage = d', corrupt_load = corrupt\<rparr>)"

definition save_now :: "'st ConfigStorage \<Rightarrow> 'r \<Rightarrow> 'st ConfigManager \<Rightarrow> (Error + 'r) \<times> 'st ConfigManager" where
  "save_now b result m =
     (case st_save b (config m) (storage m) of
        (Inl e, st) \<Rightarrow> (Inl e, m\<lparr>storage := st\<rparr>)
      | (Inr _, st) \<Rightarrow> (Inr result, m\<lparr>storage := st\<rparr>))"

definition modify ::
  "'st ConfigStorage \<Rightarrow> (Config \<Rightarrow> 'r \<times> Config) \<Rightarrow> 'st ConfigManager \<Rightarrow> (Error + 'r) \<times> 'st ConfigManager" where
  "modify b f m =
     (let before = length (cfg_servers (config m));
          (result, c) = f (config m);
          m1 = m\<lparr>config := c\<rparr>;
          after = length (cfg_servers c)
      in if 0 < before \<and> after = 0 then (Inr result, m1\<lparr>corrupt_load := False\<rparr>)
         else if corrupt_load m \<and> after = 0 then (Inr result, m1)
         else save_now b result (m1\<lparr>corrupt_load := False\<rparr>))"

definition modify_unchecked ::
  "'st ConfigStorage \<Rightarrow> (Config \<Rightarrow> 'r \<times> Config) \<Rightarrow> 'st ConfigManager \<Rightarrow> (Error + 'r) \<times> 'st ConfigManager" where
  "modify_unchecked b f m =
     (let (result, c) = f (config m); m1 = m\<lparr>config := c\<rparr>
      in if corrupt_load m \<and> cfg_servers c = [] then (Inr result, m1)
         else save_now b result (m1\<lparr>corrupt_load := False\<rparr>))"

definition save_config :: "'st ConfigStorage \<Rightarrow> 'st ConfigManager \<Rightarrow> (Error + unit) option \<times> 'st ConfigManager" where
  "save_config b m =
     (if cfg_servers (config m) = [] \<and> corrupt_load m then (Some (Inr ()), m)
      else if cfg_servers (config m) = [] \<and> st_exists b (storage m) then
        (case st_load b (storage m) of
           (None, st) \<Rightarrow> (None, m\<lparr>storage := st\<rparr>)
         | (Some (Inr disk), st) \<Rightarrow>
             if cfg_servers disk \<noteq> [] then (Some (Inr ()), m\<lparr>storage := st\<rparr>)
             else apfst Some (save_now b () (m\<lparr>storage := st\<rparr>))
         | (Some (Inl e), st) \<Rightarrow> apfst Some (save_now b () (m\<lparr>storage := st\<rparr>)))
      else apfst Some (save_now b () m))"

lemma save_now_config [simp]:
  "config (snd (save_now b r m)) = config m" "corrupt_load (snd (save_now b r m)) = corrupt_load m"
  by (auto simp: save_now_def split: prod.splits sum.splits)

text \<open>The changes of a running program to a manager, as operations of a machine.\<close>

datatype config_op = Modify "Config \<Rightarrow> Config" | ModifyUnchecked "Config \<Rightarrow> Config" | Save

fun config_step :: "'st ConfigStorage \<Rightarrow> 'st ConfigManager \<Rightarrow> config_op \<Rightarrow> 'st ConfigManager" where
  "config_step b m (Modify f) = snd (modify b (\<lambda>c. ((), f c)) m)"
| "config_step b m (ModifyUnchecked f) = snd (modify_unchecked b (\<lambda>c. ((), f c)) m)"
| "config_step b m Save = snd (save_config b m)"

text \<open>What the next start would load.\<close>

definition on_disk :: "'st ConfigStorage \<Rightarrow> 'st ConfigManager \<Rightarrow> (Error + Config) option" where
  "on_disk b m = fst (st_load b (storage m))"

section \<open>The storage contract\<close>

text \<open>
  What the manager relies on: a successful save of a configuration the format can carry (\<open>good\<close>) is
  what the next load returns, a failed one leaves an existing configuration as it was, and loading
  is repeatable.
\<close>

locale config_storage =
  fixes b :: "'st ConfigStorage"
    and good :: "Config \<Rightarrow> bool"
    and usable :: "'st \<Rightarrow> bool"
  assumes saved: "usable st \<Longrightarrow> good c \<Longrightarrow> st_save b c st = (Inr (), st') \<Longrightarrow>
      st_exists b st' \<and> fst (st_load b st') = Some (Inr c)"
    and not_saved: "st_save b c st = (Inl e, st') \<Longrightarrow> st_exists b st \<Longrightarrow>
      st_exists b st' \<and> fst (st_load b st') = fst (st_load b st)"
    and load_again: "fst (st_load b (snd (st_load b st))) = fst (st_load b st)"
    and usable_save: "usable st \<Longrightarrow> usable (snd (st_save b c st))"
    and usable_load: "usable st \<Longrightarrow> usable (snd (st_load b st))"
begin

lemma save_now_on_disk:
  assumes "usable (storage m)" "good (config m)" "st_exists b (storage m)"
  shows "on_disk b (snd (save_now b r m)) \<in> {on_disk b m, Some (Inr (config m))}"
  using saved [OF assms(1,2)] not_saved [OF _ assms(3), of "config m"]
  by (auto simp: save_now_def on_disk_def split: prod.splits sum.splits)

lemma save_now_ok:
  "usable (storage m) \<Longrightarrow> good (config m) \<Longrightarrow> fst (save_now b r m) = Inr x \<Longrightarrow>
   x = r \<and> on_disk b (snd (save_now b r m)) = Some (Inr (config m))"
  using saved [of "storage m" "config m"]
  by (auto simp: save_now_def on_disk_def split: prod.splits sum.splits)

lemma save_keeps_servers:
  assumes "usable (storage m)" "good (config m)" "st_exists b (storage m)"
    and "on_disk b m = Some (Inr c)" "cfg_servers c \<noteq> []"
  shows "\<exists>c'. on_disk b (snd (save_config b m)) = Some (Inr c') \<and> cfg_servers c' \<noteq> []"
proof (cases "cfg_servers (config m) = []")
  case True
  then show ?thesis
    using assms load_again [of "storage m"]
    by (auto simp: save_config_def on_disk_def split: prod.splits)
next
  case False
  then have "snd (save_config b m) = snd (save_now b () m)"
    by (simp add: save_config_def)
  then show ?thesis
    using save_now_on_disk [OF assms(1-3), of "()"] False assms(4,5) by auto
qed

end

lemma file_load_again:
  "fst (load_config_with_migration js (snd (load_config_with_migration js d))) = fst (load_config_with_migration js d)"
proof -
  have "recover_tmp (recover_tmp d) = recover_tmp d"
    by (auto simp: recover_tmp_def)
  moreover have "recover_tmp (recover_tmp d\<lparr>backups := x\<rparr>) = recover_tmp d\<lparr>backups := x\<rparr>" for x
    by (auto simp: recover_tmp_def)
  ultimately show ?thesis
    by (auto simp: load_config_with_migration_def Let_def backup_corrupt_config_def split: option.splits)
qed

lemma load_keeps_can_read: "can_read (snd (load_config_with_migration js d)) = can_read d"
  by (auto simp: load_config_with_migration_def Let_def backup_corrupt_config_def recover_tmp_def split: option.splits)

lemma file_save_main:
  "file_save js c d = (Inr (), d') \<Longrightarrow> main_file d' = Some (saved_text js c) \<and> can_read d' = can_read d"
  "file_save js c d = (Inl e, d') \<Longrightarrow> \<exists>t. d' = d\<lparr>tmp_file := t\<rparr>"
proof -
  have "\<exists>t. d = d\<lparr>tmp_file := t\<rparr>" by (rule exI [of _ "tmp_file d"]) simp
  then show "file_save js c d = (Inl e, d') \<Longrightarrow> \<exists>t. d' = d\<lparr>tmp_file := t\<rparr>"
    by (auto simp: file_save_def write_atomic_def split: if_splits write_fault.splits)
qed (auto simp: file_save_def write_atomic_def saved_text_def split: if_splits write_fault.splits)

lemma file_save_can_read: "can_read (snd (file_save js c d)) = can_read d"
  by (auto simp: file_save_def write_atomic_def split: write_fault.splits)

interpretation disk: config_storage "FileConfigStorage js" "reads_back js" can_read for js
proof (unfold_locales, goal_cases)
  case (1 st c st')
  then show ?case
    by (auto simp: FileConfigStorage_def file_exists_def load_saved dest!: file_save_main)
next
  case (2 c st e st')
  then obtain t where "st' = st\<lparr>tmp_file := t\<rparr>"
    by (auto simp: FileConfigStorage_def dest!: file_save_main(2))
  with 2 show ?case
    by (auto simp: FileConfigStorage_def file_exists_def load_ignores_tmp)
next
  case (4 st c)
  then show ?case by (simp add: FileConfigStorage_def file_save_can_read)
qed (simp_all add: FileConfigStorage_def file_load_again load_keeps_can_read)

definition memory_reads_back :: "serde \<Rightarrow> Config \<Rightarrow> bool" where
  "memory_reads_back js c \<longleftrightarrow> Option.bind (parse_json js (to_json js c)) (Some \<circ> from_value js) = Some (Inr c)"

interpretation memory: config_storage "InMemoryConfigStorage js" "memory_reads_back js" "\<lambda>_. True" for js
  by unfold_locales
    (auto simp: InMemoryConfigStorage_def memory_save_def memory_load_def memory_reads_back_def
      bind_eq_Some_conv)

section \<open>Correctness\<close>

text \<open>An operation that adds no server to a configuration without any.\<close>

fun adds_no_server :: "config_op \<Rightarrow> bool" where
  "adds_no_server (Modify f) = (\<forall>c. cfg_servers c = [] \<longrightarrow> cfg_servers (f c) = [])"
| "adds_no_server (ModifyUnchecked f) = (\<forall>c. cfg_servers c = [] \<longrightarrow> cfg_servers (f c) = [])"
| "adds_no_server Save = True"

lemma flagged_step:
  assumes "corrupt_load m" "cfg_servers (config m) = []" "adds_no_server x"
  shows "storage (config_step b m x) = storage m \<and> corrupt_load (config_step b m x)
       \<and> cfg_servers (config (config_step b m x)) = []"
  using assms by (cases x) (auto simp: modify_def modify_unchecked_def save_config_def Let_def)

lemma flagged_run:
  assumes "corrupt_load m" "cfg_servers (config m) = []" "list_all adds_no_server ops"
  shows "storage (run (config_step b) m ops) = storage m"
  using assms
proof (induction ops arbitrary: m)
  case (Cons x xs)
  then show ?case using flagged_step [of m x b] by auto
qed simp

lemma manager_load_flagged:
  "manager_load js d = Some m \<Longrightarrow> corrupt_load m \<Longrightarrow> cfg_servers (config m) = []"
  by (auto simp: manager_load_def load_config_with_migration_fallback_def config_default_def
      split: prod.splits option.splits sum.splits)

lemma load_keeps_main:
  "main_file d = Some t \<Longrightarrow> main_file (snd (load_config_with_migration js d)) = Some t"
  by (auto simp: load_config_with_migration_def recover_tmp_def backup_corrupt_config_def split: option.splits)

lemma manager_load_storage:
  "manager_load js d = Some m \<Longrightarrow> storage m = snd (load_config_with_migration js d)"
  by (auto simp: manager_load_def load_config_with_migration_fallback_def split: prod.splits option.splits sum.splits)

text \<open>
  A file that could not be read is safe.  When the manager starts flagged (corrupt file, failed
  migration, unreadable file), no sequence of modifications, unchecked modifications and saves
  writes the file, as long as none of them adds a server.
\<close>

theorem corrupt_file_is_kept:
  assumes "manager_load js d = Some m" and "corrupt_load m" and "list_all adds_no_server ops"
    and "main_file d = Some t"
  shows "main_file (storage (run (config_step (FileConfigStorage js)) m ops)) = Some t"
  using flagged_run [OF assms(2) manager_load_flagged [OF assms(1,2)] assms(3)]
    manager_load_storage [OF assms(1)] load_keeps_main [OF assms(4)]
  by simp

definition garbage_dir :: config_dir where
  "garbage_dir = empty_dir\<lparr>main_file := Some ''garbage''\<rparr>"

lemma corrupt_file_is_kept_witness:
  "main_file (storage (run (config_step (FileConfigStorage toy_serde))
     (the (manager_load toy_serde garbage_dir)) [Save, Modify (\<lambda>c. c\<lparr>cfg_version := 7\<rparr>)])) = Some ''garbage''"
proof -
  have "\<exists>m. manager_load toy_serde garbage_dir = Some m \<and> corrupt_load m"
    by (simp add: manager_load_def load_config_with_migration_fallback_def load_config_with_migration_def
        recover_tmp_def garbage_dir_def empty_dir_def toy_serde_def backup_corrupt_config_def)
  then obtain m where m: "manager_load toy_serde garbage_dir = Some m" "corrupt_load m" by blast
  have "list_all adds_no_server [Save, Modify (\<lambda>c. c\<lparr>cfg_version := 7\<rparr>)]" by simp
  from corrupt_file_is_kept [OF m this] show ?thesis
    by (simp only: m(1) option.sel) (simp add: garbage_dir_def)
qed

text \<open>
  Saving never replaces a stored configuration that has servers by one that has none, whatever
  is in memory and whether the write succeeds or not.
\<close>

theorem save_never_drops_servers:
  assumes "on_disk (FileConfigStorage js) m = Some (Inr c)" and "cfg_servers c \<noteq> []"
    and "file_exists (storage m)" and "can_read (storage m)" and "reads_back js (config m)"
  shows "\<exists>c'. on_disk (FileConfigStorage js) (snd (save_config (FileConfigStorage js) m)) = Some (Inr c')
     \<and> cfg_servers c' \<noteq> []"
  using assms by (intro disk.save_keeps_servers) (auto simp: FileConfigStorage_def)

text \<open>
  A library for two configurations, one with a server and one without, told apart by their text.
\<close>

definition two_serde :: "Config \<Rightarrow> Config \<Rightarrow> serde" where
  "two_serde c1 c2 = \<lparr>parse_json = (\<lambda>s.
       if s = ''{}'' \<or> s = ''{}'' @ [CHR 0x0A] then Some (JObj [(''version'', JNum (PosInt 2))])
       else if s = ''[]'' \<or> s = ''[]'' @ [CHR 0x0A] then Some (JObj [(''version'', JNum (PosInt 2)), (''x'', JNull)])
       else None),
     from_value = (\<lambda>v. Inr (if json_get v ''x'' = None then c1 else c2)),
     to_json = (\<lambda>c. if c = c1 then ''{}'' else ''[]''), show_error = (\<lambda>_. []), builtin_templates = []\<rparr>"

lemma reads_back_two:
  assumes "parse_json js [x, y] = Some doc" "parse_json js [x, y, CHR 0x0A] = Some doc" "parse_json js [] = None"
    "parse_json js [x] = None" "to_json js c = [x, y]" "file_version doc = 2" "from_value js doc = Inr c"
  shows "reads_back js c"
proof -
  have "take n [x, y] = [] \<or> take n [x, y] = [x]" if "n < 2" for n
    using that by (cases n) (auto simp: less_Suc_eq)
  then have "\<forall>n < 2. parse_json js (take n [x, y]) = None"
    using assms(3,4) by metis
  with assms show ?thesis by (simp add: reads_back_def CURRENT_VERSION_def)
qed

lemma two_reads_back: "reads_back (two_serde c1 c2) c1" "c2 \<noteq> c1 \<Longrightarrow> reads_back (two_serde c1 c2) c2"
proof -
  show "reads_back (two_serde c1 c2) c1"
    by (rule reads_back_two [where x = "CHR ''{''" and y = "CHR ''}''" and doc = "JObj [(''version'', JNum (PosInt 2))]"])
      (simp_all add: two_serde_def file_version_def hm_get_def)
  show "reads_back (two_serde c1 c2) c2" if "c2 \<noteq> c1"
    using that
    by (intro reads_back_two [where x = "CHR ''[''" and y = "CHR '']''"
          and doc = "JObj [(''version'', JNum (PosInt 2)), (''x'', JNull)]"])
      (simp_all add: two_serde_def file_version_def hm_get_def)
qed

text \<open>A directory with the configuration of one server, and a manager that has just loaded it.\<close>

definition sample_config :: Config where
  "sample_config = (config_default [])\<lparr>cfg_servers := [sample_server]\<rparr>"

abbreviation sample_serde :: serde where
  "sample_serde \<equiv> two_serde sample_config (config_default [])"

definition sample_manager :: "config_dir ConfigManager" where
  "sample_manager = with_storage_and_corrupt sample_config (empty_dir\<lparr>main_file := Some ''{}''\<rparr>) False"

lemma sample_differs: "config_default [] \<noteq> sample_config" "cfg_servers sample_config \<noteq> []"
  by (auto simp: sample_config_def config_default_def dest: arg_cong [where f = cfg_servers])

lemma sample_on_disk: "on_disk (FileConfigStorage sample_serde) sample_manager = Some (Inr sample_config)"
proof -
  have "main_file (storage sample_manager) = Some (to_json sample_serde sample_config)" "can_read (storage sample_manager)"
    by (simp_all add: sample_manager_def with_storage_and_corrupt_def two_serde_def empty_dir_def)
  then have "load_config_with_migration sample_serde (storage sample_manager) = (Some (Inr sample_config), storage sample_manager)"
    by (intro load_saved two_reads_back disjI2)
  then show ?thesis
    by (simp add: on_disk_def FileConfigStorage_def)
qed

lemma sample_storage:
  "file_exists (storage sample_manager)" "can_read (storage sample_manager)"
  "can_mkdir (storage sample_manager)" "next_write (storage sample_manager) = NoFault"
  "config sample_manager = sample_config" "\<not> corrupt_load sample_manager"
  by (simp_all add: file_exists_def sample_manager_def with_storage_and_corrupt_def empty_dir_def)

lemma save_never_drops_servers_witness:
  "\<exists>c'. on_disk (FileConfigStorage sample_serde) (snd (save_config (FileConfigStorage sample_serde)
      (sample_manager\<lparr>config := config_default []\<rparr>))) = Some (Inr c') \<and> cfg_servers c' \<noteq> []"
proof -
  have "on_disk (FileConfigStorage sample_serde) (sample_manager\<lparr>config := config_default []\<rparr>) = Some (Inr sample_config)"
    using sample_on_disk by (simp add: on_disk_def)
  from save_never_drops_servers [OF this] show ?thesis
    by (simp add: sample_differs sample_storage two_reads_back)
qed

text \<open>
  C11. A modification is durable and its guards are exact.  When \<open>modify\<close> returns a result, the
  configuration in memory is the changed one; it is on disk as well unless the change took the last
  server away, or the start was flagged and there still is no server.
\<close>

theorem modify_durable:
  assumes "fst (modify (FileConfigStorage js) f m) = Inr r" and "f (config m) = (r', c)"
    and "can_read (storage m)" and "reads_back js c"
  shows "r = r' \<and> config (snd (modify (FileConfigStorage js) f m)) = c \<and>
    (if cfg_servers c = [] \<and> (cfg_servers (config m) \<noteq> [] \<or> corrupt_load m)
     then storage (snd (modify (FileConfigStorage js) f m)) = storage m
     else on_disk (FileConfigStorage js) (snd (modify (FileConfigStorage js) f m)) = Some (Inr c))"
  using assms disk.save_now_ok [of "m\<lparr>config := c, corrupt_load := False\<rparr>" js r' r]
  by (auto simp: modify_def Let_def split: if_splits)

lemma modify_durable_witness:
  "on_disk (FileConfigStorage sample_serde) (snd (modify (FileConfigStorage sample_serde) (\<lambda>c. ((), c)) sample_manager))
     = Some (Inr sample_config)"
proof -
  have "fst (modify (FileConfigStorage sample_serde) (\<lambda>c. ((), c)) sample_manager) = Inr ()"
    using sample_storage sample_differs
    by (simp add: modify_def save_now_def FileConfigStorage_def file_save_def write_atomic_def)
  from modify_durable [OF this] show ?thesis
    by (simp add: sample_storage sample_differs two_reads_back)
qed

text \<open>
  The guard of \<open>modify\<close> against losing all servers holds for one call only.  The change that
  empties the list is kept from the file, but it stays in memory and clears the flag, so the next
  modification, of anything, writes the configuration without servers over the file.
\<close>

theorem modify_guard_is_bypassed:
  assumes "cfg_servers (config m) \<noteq> []" and "cfg_servers (f (config m)) = []"
    and "cfg_servers (g (f (config m))) = []" and "reads_back js (g (f (config m)))"
    and "can_read (storage m)" and "can_mkdir (storage m)" and "next_write (storage m) = NoFault"
  shows "storage (config_step (FileConfigStorage js) m (Modify f)) = storage m \<and>
    on_disk (FileConfigStorage js) (run (config_step (FileConfigStorage js)) m [Modify f, Modify g])
      = Some (Inr (g (f (config m))))"
  using assms
  by (simp add: modify_def save_now_def FileConfigStorage_def file_save_def write_atomic_def on_disk_def
      load_saved saved_text_def)

lemma modify_guard_is_bypassed_witness:
  "on_disk (FileConfigStorage sample_serde) (run (config_step (FileConfigStorage sample_serde)) sample_manager
      [Modify (\<lambda>_. config_default []), Modify (\<lambda>c. c)]) = Some (Inr (config_default []))"
  using modify_guard_is_bypassed [of sample_manager "\<lambda>_. config_default []" "\<lambda>c. c" sample_serde]
  by (simp add: sample_storage sample_differs two_reads_back config_default_def [THEN arg_cong [where f = cfg_servers]])

text \<open>
  A valid file that holds exactly the default configuration is taken for a corrupt one: the
  manager starts flagged, so its changes of the settings are not written.
\<close>

theorem default_file_is_flagged:
  assumes "reads_back js (default_config js)" and "main_file d = Some (saved_text js (default_config js))"
    and "can_read d"
  shows "\<exists>m. manager_load js d = Some m \<and> corrupt_load m"
  using assms by (simp add: manager_load_def load_config_with_migration_fallback_def load_saved)

end
