(* ===== verification/Triggers.thy ===== *)
theory Triggers
  imports Template ConfigModel
begin

text \<open>
  \<open>crates/core/src/trigger/engine.rs\<close>, \<open>local_monitor.rs\<close> and \<open>ipcheck.rs\<close>, with the result
  collection and the address parsers of \<open>ssh/exec.rs\<close>: the trigger engine with its pauses and
  cooldowns, the execution of a trigger's commands, and the detectors that produce its events.  The
  shell and the SSH session are a record of functions on a world that also holds the clock.
\<close>

section \<open>Command results\<close>

record ExecResult =
  ex_exit_code :: u32
  ex_stdout :: string
  ex_stderr :: string

definition is_success :: "ExecResult \<Rightarrow> bool" where
  "is_success r \<longleftrightarrow> ex_exit_code r = 0"

datatype channel_msg =
    Data bytes | ExtendedData bytes | ExitStatus u32 | Eof | Close | OtherMsg

text \<open>
  The receive loop: it ends at \<open>Close\<close> or when the channel gives no more messages; without an exit
  status the code is 1.
\<close>

fun read_output :: "channel_msg list \<Rightarrow> bytes \<Rightarrow> bytes \<Rightarrow> u32 option \<Rightarrow> ExecResult" where
  "read_output (Data b # ms) out err code = read_output ms (out @ b) err code"
| "read_output (ExtendedData b # ms) out err code = read_output ms out (err @ b) code"
| "read_output (ExitStatus c # ms) out err code = read_output ms out err (Some c)"
| "read_output (Eof # ms) out err code = read_output ms out err code"
| "read_output (OtherMsg # ms) out err code = read_output ms out err code"
| "read_output (Close # ms) out err code =
     \<lparr>ex_exit_code = (case code of Some c \<Rightarrow> c | None \<Rightarrow> 1), ex_stdout = from_utf8_lossy out,
      ex_stderr = from_utf8_lossy err\<rparr>"
| "read_output [] out err code =
     \<lparr>ex_exit_code = (case code of Some c \<Rightarrow> c | None \<Rightarrow> 1), ex_stdout = from_utf8_lossy out,
      ex_stderr = from_utf8_lossy err\<rparr>"

text \<open>
  What the session answers: opening the channel, sending the request, the messages (\<open>None\<close> when the
  timeout ends the reading).
\<close>

definition exec :: "string + unit \<Rightarrow> string + unit \<Rightarrow> channel_msg list option \<Rightarrow> u64 \<Rightarrow> Error + ExecResult" where
  "exec opened requested msgs timeout_secs =
     try_res (map_err (\<lambda>e. Ssh (''failed to open session channel: '' @ e)) opened) (\<lambda>_.
     try_res (map_err (\<lambda>e. Ssh (''failed to exec command: '' @ e)) requested) (\<lambda>_.
     case msgs of
       Some ms \<Rightarrow> Inr (read_output ms [] [] None)
     | None \<Rightarrow> Inl (ipc_err TriggerCommandFailed (''command timed out after '' @ show_nat (unat timeout_secs) @ ''s''))))"

section \<open>Address parsers\<close>

text \<open>The address parser of the standard library is \<open>valid_ip\<close>.\<close>

definition parse_ss_ip :: "string \<Rightarrow> string option" where
  "parse_ss_ip output =
     (let trimmed = trim output; fields = split_whitespace trimmed
      in if trimmed = [] then None
         else if 4 \<le> length fields then
           (let peer = fields ! 3
            in case rfind_char CHR '':'' peer of
                 Some colon_pos \<Rightarrow> Some (take colon_pos peer)
               | None \<Rightarrow> Some peer)
         else None)"

definition parse_ssh_connection_ip :: "(string \<Rightarrow> bool) \<Rightarrow> string \<Rightarrow> string option" where
  "parse_ssh_connection_ip valid_ip output =
     (let trimmed = trim output; parts = split_whitespace trimmed
      in if trimmed = [] then None
         else (case parts of [] \<Rightarrow> None | ip # _ \<Rightarrow> if valid_ip ip then Some ip else None))"

definition parse_who_ip :: "(string \<Rightarrow> bool) \<Rightarrow> string \<Rightarrow> string option" where
  "parse_who_ip valid_ip output =
     (let trimmed = trim output
      in case rfind_char CHR ''('' trimmed of
           None \<Rightarrow> None
         | Some start \<Rightarrow>
             (case rfind_char CHR '')'' trimmed of
                None \<Rightarrow> None
              | Some fin \<Rightarrow>
                  if start < fin then
                    (let ip = drop (start + 1) (take fin trimmed) in if valid_ip ip then Some ip else None)
                  else None))"

definition ip_family :: "string \<Rightarrow> string" where
  "ip_family ip = (if CHR '':'' \<in> set ip then ''ipv6'' else ''ipv4'')"

text \<open>
  The fallback chain over a session: each command's error ends the detection, each unparsable
  output goes to the next command.
\<close>

fun try_detectors ::
  "(string \<Rightarrow> u64 \<Rightarrow> 'w \<Rightarrow> (Error + ExecResult) \<times> 'w) \<Rightarrow> (string \<times> (string \<Rightarrow> string option)) list \<Rightarrow> 'w \<Rightarrow> (Error + string) \<times> 'w" where
  "try_detectors ssh [] w =
     (Inl (ipc_err Internal ''failed to detect client IP from SSH connection''), w)"
| "try_detectors ssh ((cmd, parse) # ds) w =
     (case ssh cmd 10 w of
        (Inl e, w') \<Rightarrow> (Inl e, w')
      | (Inr r, w') \<Rightarrow>
          (case parse (ex_stdout r) of Some ip \<Rightarrow> (Inr ip, w') | None \<Rightarrow> try_detectors ssh ds w'))"

definition detect_client_ip ::
  "(string \<Rightarrow> bool) \<Rightarrow> (string \<Rightarrow> u64 \<Rightarrow> 'w \<Rightarrow> (Error + ExecResult) \<times> 'w) \<Rightarrow> 'w \<Rightarrow> (Error + string) \<times> 'w" where
  "detect_client_ip valid_ip ssh =
     try_detectors ssh
       [(''echo $SSH_CONNECTION'', parse_ssh_connection_ip valid_ip),
        (''echo $SSH_CLIENT'', parse_ssh_connection_ip valid_ip),
        (''who -m'', parse_who_ip valid_ip),
        (''ss -tnp 2>/dev/null | grep ssh | head -1'', parse_ss_ip)]"

text \<open>The change detector keeps the last address it saw.\<close>

definition check_ip ::
  "(string \<Rightarrow> bool) \<Rightarrow> (string \<Rightarrow> u64 \<Rightarrow> 'w \<Rightarrow> (Error + ExecResult) \<times> 'w) \<Rightarrow> string option \<Rightarrow> 'w \<Rightarrow>
   (Error + string \<times> string option \<times> bool) \<times> string option \<times> 'w" where
  "check_ip valid_ip ssh last_ip w =
     (case detect_client_ip valid_ip ssh w of
        (Inl e, w') \<Rightarrow> (Inl e, last_ip, w')
      | (Inr new_ip, w') \<Rightarrow>
          (let changed = last_ip \<noteq> Some new_ip
           in (Inr (new_ip, last_ip, changed), if changed then Some new_ip else last_ip, w')))"

section \<open>The local network monitor\<close>

datatype LocalNetworkEvent =
    NetworkDisconnect
  | NetworkConnect
  | LanIpChange "string list" "string list"
  | PublicIpChange string "string option"

fun event_trigger_type :: "LocalNetworkEvent \<Rightarrow> TriggerType" where
  "event_trigger_type NetworkDisconnect = OnNetworkDisconnect"
| "event_trigger_type NetworkConnect = OnNetworkConnect"
| "event_trigger_type (LanIpChange _ _) = OnLanIpChange"
| "event_trigger_type (PublicIpChange _ _) = OnPublicIpChange"

record LocalNetworkMonitor =
  last_lan_ips :: "string list"
  last_public_ip :: "string option"
  last_online :: bool
  fail_count :: u32

definition monitor_new :: LocalNetworkMonitor where
  "monitor_new = \<lparr>last_lan_ips = [], last_public_ip = None, last_online = True, fail_count = 0\<rparr>"

text \<open>One round, given what the system answers: the addresses of the interfaces and the public address.\<close>

definition check_once ::
  "string list \<Rightarrow> string option \<Rightarrow> LocalNetworkMonitor \<Rightarrow> LocalNetworkEvent list \<times> LocalNetworkMonitor" where
  "check_once lan public m =
     (let lan_events = (if lan \<noteq> last_lan_ips m \<and> last_lan_ips m \<noteq> [] then [LanIpChange lan (last_lan_ips m)] else []);
          m1 = m\<lparr>last_lan_ips := lan\<rparr>
      in case public of
           Some ip \<Rightarrow>
             (lan_events @ (if last_online m1 then [] else [NetworkConnect])
                @ (if last_public_ip m1 \<noteq> Some ip then [PublicIpChange ip (last_public_ip m1)] else []),
              m1\<lparr>fail_count := 0, last_online := True, last_public_ip := Some ip\<rparr>)
         | None \<Rightarrow>
             (let n = fail_count m1 + 1; m2 = m1\<lparr>fail_count := n\<rparr>
              in if 2 \<le> n \<and> last_online m2 then (lan_events @ [NetworkDisconnect], m2\<lparr>last_online := False\<rparr>)
                 else (lan_events, m2)))"

fun monitor_run ::
  "LocalNetworkMonitor \<Rightarrow> (string list \<times> string option) list \<Rightarrow> LocalNetworkEvent list" where
  "monitor_run m [] = []"
| "monitor_run m ((lan, public) # rs) =
     (let (es, m') = check_once lan public m in es @ monitor_run m' rs)"

section \<open>The engine\<close>

record TriggerEvent =
  ev_server_id :: string
  ev_server_name :: string
  ev_trigger_type :: TriggerType
  ev_new_ip :: "string option"
  ev_old_ip :: "string option"
  ev_new_ips :: "string list option"
  ev_old_ips :: "string list option"
  ev_session_id :: "string option"

record CommandResult =
  cr_command :: string
  cr_exit_code :: u32
  cr_stdout :: string
  cr_stderr :: string
  cr_success :: bool

record TriggerExecutionResult =
  ter_trigger_id :: string
  ter_trigger_name :: string
  ter_success :: bool
  ter_executed_commands :: nat
  ter_total_commands :: nat
  ter_results :: "CommandResult list"

record PendingEvent =
  pe_server_id :: string
  pe_server_name :: string
  pe_trigger_type :: TriggerType
  pe_new_ip :: "string option"
  pe_old_ip :: "string option"
  pe_timestamp :: nat

text \<open>Instants are nanoseconds of the monotonic clock; \<open>locks\<close> holds the servers that have a lock.\<close>

record TriggerEngine =
  locks :: "(string, unit) hm"
  paused :: "(string, bool) hm"
  global_paused :: bool
  cooldowns :: "(string \<times> string, nat) hm"
  running_count :: u32
  pending_events :: "PendingEvent list"
  custom_variables :: "CustomVariable list"

text \<open>
  What surrounds the engine: the local shell, the SSH session if there is one, the clock, and the
  texts of an error and of a disallowed character.
\<close>

record 'w runner =
  local_exec :: "string \<Rightarrow> u64 \<Rightarrow> 'w \<Rightarrow> (Error + ExecResult) \<times> 'w"
  ssh_exec :: "(string \<Rightarrow> u64 \<Rightarrow> 'w \<Rightarrow> (Error + ExecResult) \<times> 'w) option"
  now :: "'w \<Rightarrow> nat"
  error_text :: "Error \<Rightarrow> string"
  char_text :: "string \<Rightarrow> string"

definition engine_new :: TriggerEngine where
  "engine_new = \<lparr>locks = [], paused = [], global_paused = False, cooldowns = [], running_count = 0,
     pending_events = [], custom_variables = []\<rparr>"

definition set_custom_variables :: "CustomVariable list \<Rightarrow> TriggerEngine \<Rightarrow> TriggerEngine" where
  "set_custom_variables vs e = e\<lparr>custom_variables := vs\<rparr>"

definition has_running :: "TriggerEngine \<Rightarrow> bool" where
  "has_running e \<longleftrightarrow> 0 < running_count e"

definition is_paused :: "TriggerEngine \<Rightarrow> string \<Rightarrow> bool" where
  "is_paused e server_id \<longleftrightarrow>
     (if global_paused e then True else (case hm_get (paused e) server_id of Some b \<Rightarrow> b | None \<Rightarrow> False))"

definition pause_all :: "TriggerEngine \<Rightarrow> TriggerEngine" where
  "pause_all e = e\<lparr>global_paused := True\<rparr>"

definition resume_all :: "TriggerEngine \<Rightarrow> PendingEvent list \<times> TriggerEngine" where
  "resume_all e = (pending_events e, e\<lparr>global_paused := False, pending_events := []\<rparr>)"

definition add_pending_event :: "PendingEvent \<Rightarrow> TriggerEngine \<Rightarrow> TriggerEngine" where
  "add_pending_event p e = e\<lparr>pending_events := pending_events e @ [p]\<rparr>"

definition pause_server :: "string \<Rightarrow> TriggerEngine \<Rightarrow> TriggerEngine" where
  "pause_server server_id e = e\<lparr>paused := hm_insert server_id True (paused e)\<rparr>"

definition resume_server :: "string \<Rightarrow> TriggerEngine \<Rightarrow> TriggerEngine" where
  "resume_server server_id e = e\<lparr>paused := hm_insert server_id False (paused e)\<rparr>"

definition is_in_cooldown :: "TriggerEngine \<Rightarrow> nat \<Rightarrow> string \<Rightarrow> string \<Rightarrow> u64 \<Rightarrow> bool" where
  "is_in_cooldown e t server_id trigger_id cooldown_secs \<longleftrightarrow>
     (if cooldown_secs = 0 then False
      else (case hm_get (cooldowns e) (server_id, trigger_id) of
              Some last_fired \<Rightarrow> t - last_fired < unat cooldown_secs * 10 ^ 9
            | None \<Rightarrow> False))"

definition record_fire :: "nat \<Rightarrow> string \<Rightarrow> string \<Rightarrow> TriggerEngine \<Rightarrow> TriggerEngine" where
  "record_fire t server_id trigger_id e = e\<lparr>cooldowns := hm_insert (server_id, trigger_id) t (cooldowns e)\<rparr>"

section \<open>Variables and commands\<close>

definition insert_opt :: "string \<Rightarrow> string option \<Rightarrow> vars \<Rightarrow> vars" where
  "insert_opt k v vs = (case v of Some x \<Rightarrow> hm_insert k x vs | None \<Rightarrow> vs)"

definition system_vars :: "TriggerEvent \<Rightarrow> vars" where
  "system_vars event =
     insert_opt ''SessionId'' (ev_session_id event)
    (insert_opt ''OldIPs'' (map_option (join '','') (ev_old_ips event))
    (insert_opt ''NewIPs'' (map_option (join '','') (ev_new_ips event))
    (insert_opt ''OldIP'' (ev_old_ip event)
    (insert_opt ''IPFamily'' (map_option ip_family (ev_new_ip event))
    (insert_opt ''NewIP'' (ev_new_ip event)
    (hm_insert ''ServerName'' (ev_server_name event) []))))))"

definition add_custom :: "CustomVariable list \<Rightarrow> vars \<Rightarrow> vars" where
  "add_custom cvs vs =
     fold (\<lambda>cv vs. if hm_get vs (cv_name cv) = None then hm_insert (cv_name cv) (cv_value cv) vs else vs) cvs vs"

definition build_vars :: "TriggerEngine \<Rightarrow> TriggerEvent \<Rightarrow> TriggerInstance \<Rightarrow> vars" where
  "build_vars e event trigger =
     add_custom (custom_variables e)
       (fold (\<lambda>(k, v). hm_insert k v) (trg_parameters trigger) (system_vars event))"

text \<open>A panic of a template gives \<open>None\<close>.\<close>

definition render_commands :: "TriggerEngine \<Rightarrow> TriggerEvent \<Rightarrow> TriggerInstance \<Rightarrow> string list option" where
  "render_commands e event trigger =
     those (map (\<lambda>cmd. render_template cmd (build_vars e event trigger)) (trg_commands trigger))"

definition allowed_char :: "char \<Rightarrow> bool" where
  "allowed_char c \<longleftrightarrow>
     (let n = of_char c :: nat in 97 \<le> n \<and> n \<le> 122 \<or> 65 \<le> n \<and> n \<le> 90) \<or> is_digit c
     \<or> c \<in> {CHR '' '', CHR ''.'', CHR ''-'', CHR ''_'', CHR '':'', CHR ''/'', CHR '','', CHR ''@''}"

definition validate_parameter_value :: "(string \<Rightarrow> string) \<Rightarrow> string \<Rightarrow> string + unit" where
  "validate_parameter_value show_char v =
     (if CHR 0x00 \<in> set v then Inl ''parameter contains null byte''
      else if list_all allowed_char v then Inr ()
      else Inl (''parameter contains disallowed character: '' @ show_char (dropWhile allowed_char v)))"

text \<open>The parameters in the order the map iterates; the first rejected one stops the trigger.\<close>

fun add_parameters ::
  "(string \<Rightarrow> string) \<Rightarrow> (string \<times> string) list \<Rightarrow> vars \<Rightarrow> (string \<times> string) + vars" where
  "add_parameters show_char [] vs = Inr vs"
| "add_parameters show_char ((k, v) # ps) vs =
     (case validate_parameter_value show_char v of
        Inl err \<Rightarrow> Inl (k, err)
      | Inr _ \<Rightarrow> add_parameters show_char ps (hm_insert k v vs))"

definition run_command ::
  "'w runner \<Rightarrow> TriggerEvent \<Rightarrow> u64 \<Rightarrow> string \<Rightarrow> 'w \<Rightarrow> CommandResult \<times> 'w" where
  "run_command rn event timeout_secs rendered w =
     (let runner = (case ssh_exec rn of
            None \<Rightarrow> local_exec rn
          | Some ssh \<Rightarrow> if ev_server_id event = ''__local__'' then local_exec rn else ssh)
      in case runner rendered timeout_secs w of
           (Inr r, w') \<Rightarrow>
             (\<lparr>cr_command = rendered, cr_exit_code = ex_exit_code r, cr_stdout = ex_stdout r,
               cr_stderr = ex_stderr r, cr_success = is_success r\<rparr>, w')
         | (Inl e, w') \<Rightarrow>
             (\<lparr>cr_command = rendered, cr_exit_code = 255, cr_stdout = [], cr_stderr = error_text rn e,
               cr_success = False\<rparr>, w'))"

fun run_commands ::
  "'w runner \<Rightarrow> TriggerEvent \<Rightarrow> TriggerInstance \<Rightarrow> vars \<Rightarrow> string list \<Rightarrow> 'w \<Rightarrow> CommandResult list option \<times> 'w" where
  "run_commands rn event trigger vs [] w = (Some [], w)"
| "run_commands rn event trigger vs (cmd # cmds) w =
     (case render_template cmd vs of
        None \<Rightarrow> (None, w)
      | Some rendered \<Rightarrow>
          (let (r, w1) = run_command rn event (trg_timeout_secs trigger) rendered w
           in if \<not> cr_success r \<and> \<not> trg_continue_on_error trigger then (Some [r], w1)
              else (let (rs, w2) = run_commands rn event trigger vs cmds w1
                    in (map_option (Cons r) rs, w2))))"

definition execution_result ::
  "TriggerInstance \<Rightarrow> bool \<Rightarrow> CommandResult list \<Rightarrow> nat \<Rightarrow> TriggerExecutionResult" where
  "execution_result trigger ok rs n =
     \<lparr>ter_trigger_id = trg_id trigger, ter_trigger_name = trg_name trigger, ter_success = ok,
      ter_executed_commands = n, ter_total_commands = length (trg_commands trigger), ter_results = rs\<rparr>"

text \<open>
  The running count is raised before anything else and lowered when the guard is dropped, on the
  return path, on the rejection of a parameter and when the task unwinds from a panic (\<open>None\<close>).
\<close>

definition guarded :: "(TriggerEngine \<Rightarrow> 'a) \<Rightarrow> TriggerEngine \<Rightarrow> 'a \<times> TriggerEngine" where
  "guarded body e =
     (let e1 = e\<lparr>running_count := running_count e + 1\<rparr>; r = body e1
      in (r, e1\<lparr>running_count := running_count e1 - 1\<rparr>))"

definition execute_body ::
  "'w runner \<Rightarrow> TriggerInstance \<Rightarrow> TriggerEvent \<Rightarrow> 'w \<Rightarrow> TriggerEngine \<Rightarrow> TriggerExecutionResult option \<times> 'w" where
  "execute_body rn trigger event w e =
     (case add_parameters (char_text rn) (trg_parameters trigger) (system_vars event) of
        Inl (k, err) \<Rightarrow>
          (Some (execution_result trigger False
             [\<lparr>cr_command = ''parameter validation failed: '' @ k, cr_exit_code = 255, cr_stdout = [],
               cr_stderr = err, cr_success = False\<rparr>] 0), w)
      | Inr vs \<Rightarrow>
          (let (rs, w') = run_commands rn event trigger (add_custom (custom_variables e) vs) (trg_commands trigger) w
           in (map_option (\<lambda>rs. execution_result trigger (list_all cr_success rs) rs (length rs)) rs, w')))"

definition execute_trigger ::
  "'w runner \<Rightarrow> TriggerInstance \<Rightarrow> TriggerEvent \<Rightarrow> TriggerEngine \<Rightarrow> 'w \<Rightarrow>
   (TriggerExecutionResult option \<times> 'w) \<times> TriggerEngine" where
  "execute_trigger rn trigger event e w = guarded (execute_body rn trigger event w) e"

section \<open>Firing\<close>

definition effective_type :: "TriggerTemplate list \<Rightarrow> TriggerInstance \<Rightarrow> TriggerType" where
  "effective_type templates t =
     (if trg_trigger_type t \<noteq> ManualFire \<or> trg_template_id t = [] then trg_trigger_type t
      else (case find (\<lambda>tmpl. tmpl_id tmpl = trg_template_id t) templates of
              Some tmpl \<Rightarrow> tmpl_trigger_type tmpl
            | None \<Rightarrow> ManualFire))"

definition matching_triggers ::
  "TriggerTemplate list \<Rightarrow> TriggerEvent \<Rightarrow> TriggerInstance list \<Rightarrow> TriggerInstance list" where
  "matching_triggers templates event triggers =
     filter (\<lambda>t. effective_type templates t = ev_trigger_type event) (filter trg_enabled triggers)"

text \<open>The loop over the matching triggers; a panic inside ends it.\<close>

fun fire_all ::
  "'w runner \<Rightarrow> TriggerEvent \<Rightarrow> TriggerInstance list \<Rightarrow> TriggerEngine \<Rightarrow> 'w \<Rightarrow>
   TriggerExecutionResult list option \<times> TriggerEngine \<times> 'w" where
  "fire_all rn event [] e w = (Some [], e, w)"
| "fire_all rn event (t # ts) e w =
     (if ev_trigger_type event \<notin> {OnConnect, OnReconnect}
         \<and> is_in_cooldown e (now rn w) (ev_server_id event) (trg_id t) (trg_cooldown_secs t)
      then fire_all rn event ts e w
      else
        (let e1 = record_fire (now rn w) (ev_server_id event) (trg_id t) e;
             ((res, w1), e2) = execute_trigger rn t event e1 w
         in case res of
              None \<Rightarrow> (None, e2, w1)
            | Some r \<Rightarrow>
                if \<not> ter_success r \<and> \<not> trg_continue_on_error t then (Some [r], e2, w1)
                else (let (rs, e3, w2) = fire_all rn event ts e2 w1 in (map_option (Cons r) rs, e3, w2))))"

definition ensure_lock :: "string \<Rightarrow> TriggerEngine \<Rightarrow> TriggerEngine" where
  "ensure_lock server_id e =
     (if hm_get (locks e) server_id = None then e\<lparr>locks := hm_insert server_id () (locks e)\<rparr> else e)"

definition fire_event ::
  "'w runner \<Rightarrow> TriggerInstance list \<Rightarrow> TriggerTemplate list \<Rightarrow> TriggerEvent \<Rightarrow> TriggerEngine \<Rightarrow> 'w \<Rightarrow>
   TriggerExecutionResult list option \<times> TriggerEngine \<times> 'w" where
  "fire_event rn triggers templates event e w =
     (if is_paused e (ev_server_id event) then (Some [], e, w)
      else (let ts = matching_triggers templates event triggers
            in if ts = [] then (Some [], e, w)
               else fire_all rn event ts (ensure_lock (ev_server_id event) e) w))"

definition manual_event :: "string \<Rightarrow> string \<Rightarrow> TriggerEvent" where
  "manual_event server_id server_name =
     \<lparr>ev_server_id = server_id, ev_server_name = server_name, ev_trigger_type = ManualFire,
      ev_new_ip = None, ev_old_ip = None, ev_new_ips = None, ev_old_ips = None, ev_session_id = None\<rparr>"

definition manual_fire ::
  "'w runner \<Rightarrow> string \<Rightarrow> string \<Rightarrow> string \<Rightarrow> TriggerInstance list \<Rightarrow> TriggerEngine \<Rightarrow> 'w \<Rightarrow>
   (Error + TriggerExecutionResult) option \<times> TriggerEngine \<times> 'w" where
  "manual_fire rn server_id server_name trigger_id triggers e w =
     (if is_paused e server_id then (Some (Inl (Other (''triggers paused for server '' @ server_id))), e, w)
      else (case find (\<lambda>t. trg_id t = trigger_id) triggers of
          None \<Rightarrow> (Some (Inl (Other (''trigger '' @ trigger_id @ '' not found for server '' @ server_id))), e, w)
        | Some trigger \<Rightarrow>
            if \<not> trg_enabled trigger then (Some (Inl (Other (''trigger '' @ trigger_id @ '' is disabled''))), e, w)
            else (let e1 = record_fire (now rn w) server_id trigger_id (ensure_lock server_id e);
                      ((res, w1), e2) = execute_trigger rn trigger (manual_event server_id server_name) e1 w
                  in (map_option Inr res, e2, w1))))"

section \<open>Lemmas about execution\<close>

lemma guarded_engine [simp]: "snd (guarded body e) = e"
  by (simp add: guarded_def Let_def)

lemma guarded_result: "fst (guarded body e) = body (e\<lparr>running_count := running_count e + 1\<rparr>)"
  by (simp add: guarded_def Let_def)

lemma execute_trigger_engine [simp]: "snd (execute_trigger rn t event e w) = e"
  by (simp add: execute_trigger_def)

lemma execute_trigger_result: "fst (execute_trigger rn t event e w) = execute_body rn t event w e"
  by (auto simp: execute_trigger_def guarded_result execute_body_def split: sum.splits prod.splits)






section \<open>Correctness\<close>


definition echo_runner :: "nat runner" where
  "echo_runner = \<lparr>local_exec = (\<lambda>c t w. (Inr \<lparr>ex_exit_code = 0, ex_stdout = c, ex_stderr = []\<rparr>, w + 1)),
     ssh_exec = None, now = (\<lambda>w. w * 10 ^ 9), error_text = (\<lambda>_. []), char_text = (\<lambda>_. [])\<rparr>"

definition sample_trigger :: TriggerInstance where
  "sample_trigger = \<lparr>trg_id = ''t'', trg_template_id = [], trg_trigger_type = OnIpChange, trg_name = ''t'',
     trg_enabled = True, trg_continue_on_error = False, trg_timeout_secs = 30, trg_notify_on_success = False,
     trg_notify_on_failure = True, trg_parameters = [(''Port'', ''22'')], trg_commands = [''id''],
     trg_template_hash_at_addition = [], trg_cooldown_secs = 60, trg_last_fired_at = None,
     trg_exec_in_terminal = False, trg_bind_new_terminals = False, trg_interval_secs = 0,
     trg_schedule_mode = [], trg_cron_expr = [], trg_scheduled_at = []\<rparr>"

definition sample_event :: TriggerEvent where
  "sample_event = (manual_event ''s'' ''srv'')\<lparr>ev_trigger_type := OnIpChange, ev_new_ip := Some ''1.2.3.4''\<rparr>"


text \<open>The clock of a runner never goes back.\<close>

definition clock_ok :: "'w runner \<Rightarrow> bool" where
  "clock_ok rn \<longleftrightarrow>
     (\<forall>c t w. now rn w \<le> now rn (snd (local_exec rn c t w))) \<and>
     (\<forall>ssh c t w. ssh_exec rn = Some ssh \<longrightarrow> now rn w \<le> now rn (snd (ssh c t w)))"

lemma clock_run_command: "clock_ok rn \<Longrightarrow> now rn w \<le> now rn (snd (run_command rn event ts c w))"
proof -
  assume ok: "clock_ok rn"
  let ?f = "case ssh_exec rn of None \<Rightarrow> local_exec rn
      | Some ssh \<Rightarrow> if ev_server_id event = ''__local__'' then local_exec rn else ssh"
  have "snd (run_command rn event ts c w) = snd (?f c ts w)"
    by (auto simp: run_command_def Let_def split: prod.splits sum.splits)
  then show ?thesis using ok by (auto simp: clock_ok_def split: option.splits)
qed

lemma clock_run_commands: "clock_ok rn \<Longrightarrow> now rn w \<le> now rn (snd (run_commands rn event t vs cmds w))"
proof (induction cmds arbitrary: w)
  case (Cons cmd cmds)
  have 1: "now rn w \<le> now rn w1" if "run_command rn event (trg_timeout_secs t) c w = (r, w1)" for c r w1
    using clock_run_command [OF Cons.prems, of w event "trg_timeout_secs t" c] that by simp
  have 2: "now rn w1 \<le> now rn w2" if "run_commands rn event t vs cmds w1 = (rs, w2)" for w1 rs w2
    using Cons.IH [OF Cons.prems, of w1] that by simp
  show ?case
    by (auto split: option.splits prod.splits dest!: 1 2)
qed simp

lemma clock_execute: "clock_ok rn \<Longrightarrow> now rn w \<le> now rn (snd (fst (execute_trigger rn t event e w)))"
  by (auto simp: execute_trigger_result execute_body_def split: sum.splits prod.splits)
    (metis clock_run_commands snd_conv)


lemma clock_fire_all: "clock_ok rn \<Longrightarrow> now rn w \<le> now rn (snd (snd (fire_all rn event ts e w)))"
proof (induction ts arbitrary: e w)
  case (Cons t ts)
  have 1: "now rn w \<le> now rn w1" if "execute_trigger rn t event e0 w = ((res, w1), e1)" for e0 res w1 e1
    using clock_execute [OF Cons.prems, of w t event e0] that by simp
  have 2: "now rn w1 \<le> now rn w2" if "fire_all rn event ts e1 w1 = (rs, e2, w2)" for e1 w1 rs e2 w2
    using Cons.IH [OF Cons.prems, of w1 e1] that by simp
  show ?case
    by (auto simp: Let_def Cons.IH [OF Cons.prems] split: option.splits prod.splits dest!: 1 2)
qed simp

text \<open>The two ways the loop goes on after a trigger.\<close>

lemma fire_all_cases:
  assumes "fire_all rn event (t # ts) e w = (rs, e', w')"
  obtains (skipped) "ev_trigger_type event \<notin> {OnConnect, OnReconnect}"
      "is_in_cooldown e (now rn w) (ev_server_id event) (trg_id t) (trg_cooldown_secs t)"
      "fire_all rn event ts e w = (rs, e', w')"
  | (fired) res w1 where "\<not> (ev_trigger_type event \<notin> {OnConnect, OnReconnect} \<and>
        is_in_cooldown e (now rn w) (ev_server_id event) (trg_id t) (trg_cooldown_secs t))"
      "fst (execute_trigger rn t event (record_fire (now rn w) (ev_server_id event) (trg_id t) e) w) = (res, w1)"
      "(\<exists>rs'. fire_all rn event ts (record_fire (now rn w) (ev_server_id event) (trg_id t) e) w1 = (rs', e', w')
          \<and> (\<exists>r. res = Some r \<and> rs = map_option (Cons r) rs'))
       \<or> (rs = map_option (\<lambda>r. [r]) res \<and> e' = record_fire (now rn w) (ev_server_id event) (trg_id t) e \<and> w' = w1)"
proof (cases "ev_trigger_type event \<notin> {OnConnect, OnReconnect} \<and>
        is_in_cooldown e (now rn w) (ev_server_id event) (trg_id t) (trg_cooldown_secs t)")
  case False
  let ?e1 = "record_fire (now rn w) (ev_server_id event) (trg_id t) e"
  obtain res w1 where x: "fst (execute_trigger rn t event ?e1 w) = (res, w1)" by fastforce
  then have "execute_trigger rn t event ?e1 w = ((res, w1), ?e1)"
    using execute_trigger_engine [of rn t event ?e1 w] by (simp add: prod_eq_iff)
  with False assms have "(\<exists>rs'. fire_all rn event ts ?e1 w1 = (rs', e', w')
          \<and> (\<exists>r. res = Some r \<and> rs = map_option (Cons r) rs'))
       \<or> (rs = map_option (\<lambda>r. [r]) res \<and> e' = ?e1 \<and> w' = w1)"
    by (auto simp: Let_def split: option.splits prod.splits if_splits)
  with False x show thesis by (rule fired)
qed (use assms in \<open>auto intro: skipped\<close>)

lemma execute_trigger_id:
  "fst (execute_trigger rn t event e w) = (Some r, w') \<Longrightarrow> ter_trigger_id r = trg_id t"
  by (auto simp: execute_trigger_result execute_body_def execution_result_def split: sum.splits prod.splits)

lemma cooldown_kept:
  assumes "clock_ok rn" "ev_trigger_type event \<notin> {OnConnect, OnReconnect}" "c \<noteq> 0"
  shows "fire_all rn event ts e w = (rs, e', w') \<Longrightarrow>
    hm_get (cooldowns e) (ev_server_id event, tid) = Some t0 \<Longrightarrow>
    (\<And>t. t \<in> set ts \<Longrightarrow> trg_id t = tid \<Longrightarrow> trg_cooldown_secs t = c) \<Longrightarrow>
    now rn w' - t0 < unat c * 10 ^ 9 \<Longrightarrow>
    hm_get (cooldowns e') (ev_server_id event, tid) = Some t0 \<and> (\<forall>xs. rs = Some xs \<longrightarrow> tid \<notin> ter_trigger_id ` set xs)"
proof (induction ts arbitrary: e w rs)
  case (Cons t ts)
  from Cons.prems(1) show ?case
  proof (cases rule: fire_all_cases)
    case skipped
    then show ?thesis using Cons.IH [OF skipped(3) Cons.prems(2)] Cons.prems(3,4) by simp
  next
    case (fired res w1)
    have "now rn w \<le> now rn w'"
      using clock_fire_all [OF assms(1), of w event "t # ts" e] Cons.prems(1) by simp
    then have other: "trg_id t \<noteq> tid"
      using fired(1) assms(2,3) Cons.prems(2,4) Cons.prems(3) [of t]
      by (auto simp: is_in_cooldown_def)
    let ?e1 = "record_fire (now rn w) (ev_server_id event) (trg_id t) e"
    have get: "hm_get (cooldowns ?e1) (ev_server_id event, tid) = Some t0"
      using other Cons.prems(2) by (simp add: record_fire_def hm_simps)
    have id: "res = Some r \<Longrightarrow> ter_trigger_id r = trg_id t" for r
      using execute_trigger_id fired(2) by metis
    from fired(3) show ?thesis
    proof (elim disjE exE conjE)
      fix rs' r assume "fire_all rn event ts ?e1 w1 = (rs', e', w')" "res = Some r" "rs = map_option (Cons r) rs'"
      with Cons.IH [OF this(1) get] Cons.prems(3,4) other id show ?thesis by auto
    qed (use get other id in auto)
  qed
qed simp

text \<open>
  C13. A cooldown is kept.  Once a trigger of a server has been fired, no event other than a connect
  or reconnect fires it again before its cooldown is over, and the time it was fired is not touched
  by the events that are skipped.
\<close>

theorem fire_event_respects_cooldown:
  assumes "clock_ok rn" and "ev_trigger_type event \<notin> {OnConnect, OnReconnect}"
    and "fire_event rn triggers templates event e w = (rs, e', w')"
    and "hm_get (cooldowns e) (ev_server_id event, tid) = Some fired_at"
    and "\<forall>t \<in> set triggers. trg_id t = tid \<longrightarrow> trg_cooldown_secs t = c" and "c \<noteq> 0"
    and "now rn w' - fired_at < unat c * 10 ^ 9"
  shows "hm_get (cooldowns e') (ev_server_id event, tid) = Some fired_at
    \<and> (\<forall>xs. rs = Some xs \<longrightarrow> tid \<notin> ter_trigger_id ` set xs)"
proof (cases "is_paused e (ev_server_id event) \<or> matching_triggers templates event triggers = []")
  case True
  then have "fire_event rn triggers templates event e w = (Some [], e, w)"
    by (cases "is_paused e (ev_server_id event)") (simp_all add: fire_event_def)
  with assms show ?thesis by auto
next
  case False
  have "hm_get (cooldowns (ensure_lock (ev_server_id event) e)) (ev_server_id event, tid) = Some fired_at"
    using assms(4) by (simp add: ensure_lock_def)
  moreover have "fire_all rn event (matching_triggers templates event triggers) (ensure_lock (ev_server_id event) e) w = (rs, e', w')"
    using assms(3) False by (simp add: fire_event_def Let_def)
  moreover have "t \<in> set (matching_triggers templates event triggers) \<Longrightarrow> trg_id t = tid \<Longrightarrow> trg_cooldown_secs t = c" for t
    using assms(5) by (simp add: matching_triggers_def)
  ultimately show ?thesis using cooldown_kept [OF assms(1,2,6)] assms(7) by blast
qed

lemma fire_event_respects_cooldown_witness:
  "hm_get (cooldowns (fst (snd (fire_event echo_runner [sample_trigger] [] sample_event
      (record_fire 0 ''s'' ''t'' engine_new) 5)))) (''s'', ''t'') = Some 0"
proof -
  let ?e = "record_fire 0 ''s'' ''t'' engine_new"
  have ids: "ev_server_id sample_event = ''s''" "ev_trigger_type sample_event = OnIpChange"
    by (simp_all add: sample_event_def manual_event_def)
  have get: "hm_get (cooldowns ?e) (''s'', ''t'') = Some 0"
    by (simp add: record_fire_def hm_simps)
  have run: "fire_event echo_runner [sample_trigger] [] sample_event ?e 5
      = (Some [], ensure_lock ''s'' ?e, 5)"
    using get
    by (simp add: fire_event_def is_paused_def record_fire_def engine_new_def hm_simps matching_triggers_def
        effective_type_def ids sample_trigger_def is_in_cooldown_def echo_runner_def ensure_lock_def)
  have "clock_ok echo_runner"
    by (simp add: clock_ok_def echo_runner_def)
  from fire_event_respects_cooldown [OF this _ run, of "''t''" 0 60]
  have "hm_get (cooldowns (ensure_lock ''s'' ?e)) (''s'', ''t'') = Some 0"
    by (simp add: ids get sample_trigger_def echo_runner_def)
  then show ?thesis by (simp only: run fst_conv snd_conv)
qed

text \<open>The triggers of an event are fired in their order, and only those that match it.\<close>

lemma fire_all_order:
  "fire_all rn event ts e w = (Some xs, e', w') \<Longrightarrow> subseq (map ter_trigger_id xs) (map trg_id ts)"
proof (induction ts arbitrary: e w xs)
  case (Cons t ts)
  from Cons.prems show ?case
  proof (cases rule: fire_all_cases)
    case (fired res w1)
    have id: "res = Some r \<Longrightarrow> ter_trigger_id r = trg_id t" for r
      using execute_trigger_id fired(2) by metis
    from fired(3) show ?thesis
      using Cons.IH id by (auto dest!: sym [of "Some xs"])
  qed (use Cons.IH in auto)
qed simp

text \<open>Events of the connectivity come in turn; \<open>online\<close> is what the last one said.\<close>

fun alternating :: "bool \<Rightarrow> LocalNetworkEvent list \<Rightarrow> bool" where
  "alternating online [] = True"
| "alternating online (NetworkDisconnect # es) = (online \<and> alternating False es)"
| "alternating online (NetworkConnect # es) = (\<not> online \<and> alternating True es)"
| "alternating online (_ # es) = alternating online es"

lemma alternating_check:
  "alternating (last_online (snd (check_once lan public m))) es \<Longrightarrow>
   alternating (last_online m) (fst (check_once lan public m) @ es)"
  by (auto simp: check_once_def Let_def split: option.splits if_splits)

lemma alternating_run: "alternating (last_online m) (monitor_run m rs)"
proof (induction rs arbitrary: m)
  case (Cons r rs)
  obtain lan public where [simp]: "r = (lan, public)" by force
  obtain es m' where c: "check_once lan public m = (es, m')" by force
  show ?case using alternating_check [of lan public m "monitor_run m' rs"] Cons.IH [of m'] c by simp
qed simp

text \<open>
  The network monitor reports the connection once each way: over any run of rounds its
  disconnect and connect events alternate, a disconnect first; and a single failed round after a
  successful one never reports a disconnect.
\<close>

theorem monitor_debounces:
  "alternating True (monitor_run monitor_new rounds)
   \<and> NetworkDisconnect \<notin> set (fst (check_once lan2 None (snd (check_once lan1 (Some ip) m))))"
proof
  show "alternating True (monitor_run monitor_new rounds)"
    using alternating_run [of monitor_new rounds] by (simp add: monitor_new_def)
  have "fail_count (snd (check_once lan1 (Some ip) m)) = 0"
    by (simp add: check_once_def Let_def)
  then show "NetworkDisconnect \<notin> set (fst (check_once lan2 None (snd (check_once lan1 (Some ip) m))))"
    by (simp add: check_once_def [of lan2] Let_def word_le_nat_alt)
qed

end
