(* ===== verification/LogBuffer.thy ===== *)
theory LogBuffer
  imports RemoteFrame Net
begin

text \<open>
  \<open>crates/core/src/log/mod.rs\<close>: the in-memory log with its queries and subscribers, which is a
  \<open>history\<close> counted in entries, and the file logger with rotation over a directory of files.  The
  regular expressions and the time formats are parameters; a subscriber is the list of entries
  delivered to it.
\<close>

section \<open>Entries\<close>

datatype LogLevel = Trace | Debug | Info | Warn | ErrorLevel

datatype LogKind = Connection | Proxy | Trigger | ErrorKind | System

record LogEntry =
  le_timestamp :: nat
  le_server_id :: "string option"
  le_level :: LogLevel
  le_kind :: LogKind
  le_message :: string
  le_data :: "string option"
  le_execution_id :: "string option"

definition log_entry :: "nat \<Rightarrow> string option \<Rightarrow> LogLevel \<Rightarrow> LogKind \<Rightarrow> string \<Rightarrow> LogEntry" where
  "log_entry now server_id level kind message =
     \<lparr>le_timestamp = now, le_server_id = server_id, le_level = level, le_kind = kind,
      le_message = message, le_data = None, le_execution_id = None\<rparr>"

definition log_entry_with_exec ::
  "nat \<Rightarrow> string option \<Rightarrow> LogLevel \<Rightarrow> LogKind \<Rightarrow> string \<Rightarrow> string \<Rightarrow> LogEntry" where
  "log_entry_with_exec now server_id level kind message execution_id =
     \<lparr>le_timestamp = now, le_server_id = server_id, le_level = level, le_kind = kind,
      le_message = message, le_data = None, le_execution_id = Some execution_id\<rparr>"

section \<open>The log buffer\<close>

record LogBuffer =
  entries :: "LogEntry list"
  max_entries :: nat
  subscribers :: "LogEntry list list"

definition log_new :: "nat \<Rightarrow> LogBuffer" where
  "log_new n = \<lparr>entries = [], max_entries = n, subscribers = []\<rparr>"

definition log_add :: "LogEntry \<Rightarrow> LogBuffer \<Rightarrow> LogBuffer" where
  "log_add entry b =
     (let kept = (if max_entries b \<le> length (entries b) then tl (entries b) else entries b)
      in b\<lparr>entries := kept @ [entry], subscribers := map (\<lambda>s. s @ [entry]) (subscribers b)\<rparr>)"

definition matches :: "string option \<Rightarrow> LogKind option \<Rightarrow> LogLevel option \<Rightarrow> LogEntry \<Rightarrow> bool" where
  "matches server_id kind level e =
     (if (case server_id of Some sid \<Rightarrow> le_server_id e \<noteq> Some sid | None \<Rightarrow> False) then False
      else if (case kind of Some k \<Rightarrow> le_kind e \<noteq> k | None \<Rightarrow> False) then False
      else if (case level of Some l \<Rightarrow> le_level e \<noteq> l | None \<Rightarrow> False) then False
      else True)"

definition get_entries :: "string option \<Rightarrow> LogKind option \<Rightarrow> LogLevel option \<Rightarrow> LogBuffer \<Rightarrow> LogEntry list" where
  "get_entries server_id kind level b = filter (matches server_id kind level) (entries b)"

definition get_entries_tail ::
  "string option \<Rightarrow> LogKind option \<Rightarrow> LogLevel option \<Rightarrow> nat \<Rightarrow> LogBuffer \<Rightarrow> LogEntry list" where
  "get_entries_tail server_id kind level limit b =
     rev (take limit (filter (matches server_id kind level) (rev (entries b))))"

definition log_clear :: "LogBuffer \<Rightarrow> LogBuffer" where
  "log_clear b = b\<lparr>entries := []\<rparr>"

definition log_subscribe :: "LogBuffer \<Rightarrow> LogBuffer" where
  "log_subscribe b = b\<lparr>subscribers := subscribers b @ [[]]\<rparr>"

definition log_len :: "LogBuffer \<Rightarrow> nat" where
  "log_len b = length (entries b)"

text \<open>\<open>compile\<close> is the regular-expression engine: an error, or the test on a message.\<close>

definition log_search :: "(string \<Rightarrow> string + (string \<Rightarrow> bool)) \<Rightarrow> string \<Rightarrow> LogBuffer \<Rightarrow> string + LogEntry list" where
  "log_search compile pattern b =
     try_res (compile pattern) (\<lambda>re. Inr (filter (\<lambda>e. re (le_message e)) (entries b)))"

definition search_filtered ::
  "(string \<Rightarrow> string + (string \<Rightarrow> bool)) \<Rightarrow> string \<Rightarrow> string option \<Rightarrow> LogKind option \<Rightarrow> LogLevel option \<Rightarrow>
   LogBuffer \<Rightarrow> string + LogEntry list" where
  "search_filtered compile pattern server_id kind level b =
     try_res (compile pattern) (\<lambda>re.
       Inr (filter (\<lambda>e. if \<not> re (le_message e) then False else matches server_id kind level e) (entries b)))"

definition get_by_execution_id :: "string \<Rightarrow> LogBuffer \<Rightarrow> LogEntry list" where
  "get_by_execution_id execution_id b = filter (\<lambda>e. le_execution_id e = Some execution_id) (entries b)"

text \<open>\<open>Vec::dedup\<close> drops an element equal to its predecessor; \<open>str_sort\<close> is the sort of strings.\<close>

fun dedup :: "'a list \<Rightarrow> 'a list" where
  "dedup (x # y # xs) = (if x = y then dedup (y # xs) else x # dedup (y # xs))"
| "dedup xs = xs"

definition list_execution_ids :: "(string list \<Rightarrow> string list) \<Rightarrow> LogBuffer \<Rightarrow> string list" where
  "list_execution_ids str_sort b = dedup (str_sort (List.map_filter le_execution_id (entries b)))"

section \<open>The file logger\<close>

text \<open>
  The log directory: each file with its modification time and text, in the order the directory is
  read; the wall clock in seconds; whether the next rename and the next append succeed.
\<close>

record log_dir =
  ld_files :: "(string, nat \<times> string) hm"
  ld_now :: nat
  ld_rename_ok :: bool
  ld_append_ok :: bool

record FileLogger =
  current_file :: string
  max_file_size :: nat
  max_files :: nat
  current_size :: nat

definition file_logger_new :: "nat \<Rightarrow> nat \<Rightarrow> log_dir \<Rightarrow> FileLogger" where
  "file_logger_new max_size max_n d =
     \<lparr>current_file = ''termfast.log'', max_file_size = max_size, max_files = max_n,
      current_size = (case hm_get (ld_files d) ''termfast.log'' of Some (_, t) \<Rightarrow> length t | None \<Rightarrow> 0)\<rparr>"

text \<open>Rotated names carry the second of the rotation, formatted by \<open>stamp\<close>.\<close>

definition rotated_name :: "string \<Rightarrow> bool" where
  "rotated_name n \<longleftrightarrow> take 9 n = ''termfast-'' \<and> suffix ''.log'' n"

definition rotated_path :: "(nat \<Rightarrow> string) \<Rightarrow> nat \<Rightarrow> string" where
  "rotated_path stamp t = ''termfast-'' @ stamp t @ ''.log''"

definition rotate_log :: "(nat \<Rightarrow> string) \<Rightarrow> FileLogger \<Rightarrow> log_dir \<Rightarrow> (io_error + unit) \<times> log_dir" where
  "rotate_log stamp l d =
     (case hm_get (ld_files d) (current_file l) of
        None \<Rightarrow> (Inr (), d)
      | Some file \<Rightarrow>
          if \<not> ld_rename_ok d then (Inl (OtherIo ''rename''), d)
          else
            (let fs = hm_insert (rotated_path stamp (ld_now d)) file (hm_remove (current_file l) (ld_files d));
                 rotated = filter (rotated_name \<circ> fst) fs;
                 newest_first = sort_key (\<lambda>f. - int (fst (snd f))) rotated;
                 fs' = fold (\<lambda>f. hm_remove (fst f)) (drop (max_files l) newest_first) fs
             in (Inr (), d\<lparr>ld_files := fs'\<rparr>)))"

definition append_log :: "string \<Rightarrow> string \<Rightarrow> log_dir \<Rightarrow> (io_error + unit) \<times> log_dir" where
  "append_log name line d =
     (if \<not> ld_append_ok d then (Inl (OtherIo ''append''), d)
      else (let old = (case hm_get (ld_files d) name of Some (_, t) \<Rightarrow> t | None \<Rightarrow> [])
            in (Inr (), d\<lparr>ld_files := hm_insert name (ld_now d, old @ line) (ld_files d)\<rparr>)))"

text \<open>The line of an entry is \<open>render\<close>; its length is counted in bytes.\<close>

definition log_write ::
  "(nat \<Rightarrow> string) \<Rightarrow> string \<Rightarrow> FileLogger \<Rightarrow> log_dir \<Rightarrow> (io_error + unit) \<times> FileLogger \<times> log_dir" where
  "log_write stamp line l d =
     (let needs = max_file_size l < current_size l + length line;
          (r, d1) = (if needs then rotate_log stamp l d else (Inr (), d))
      in case r of
           Inl e \<Rightarrow> (Inl e, l, d1)
         | Inr _ \<Rightarrow>
             (let l1 = (if needs then l\<lparr>current_size := 0\<rparr> else l);
                  (r2, d2) = append_log (current_file l) line d1
              in case r2 of
                   Inl e \<Rightarrow> (Inl e, l1, d2)
                 | Inr _ \<Rightarrow> (Inr (), l1\<lparr>current_size := current_size l1 + length line\<rparr>, d2)))"

section \<open>The buffer is a history\<close>

definition log_limit :: "LogBuffer \<Rightarrow> nat" where
  "log_limit b = max 1 (max_entries b)"

interpretation log: history log_add entries length log_limit "\<lambda>b. length (entries b) \<le> log_limit b"
proof
  fix b :: LogBuffer and x ys
  assume ok: "length (entries b) \<le> log_limit b"
  show "length (entries (log_add x b)) \<le> log_limit (log_add x b)"
    using ok by (auto simp: log_add_def log_limit_def Let_def)
  show "log_limit (log_add x b) = log_limit b"
    by (simp add: log_add_def log_limit_def Let_def)
  show "length (entries b) \<le> log_limit b" by (rule ok)
  show "suffix ys (entries (log_add x b)) \<longleftrightarrow> suffix ys (entries b @ [x]) \<and> length ys \<le> log_limit b"
  proof (cases "max_entries b \<le> length (entries b)")
    case False
    then show ?thesis using ok
      by (auto simp: log_add_def log_limit_def Let_def dest: suffix_length_le)
  next
    case True
    then have *: "entries (log_add x b) = tl (entries b) @ [x]" "length (tl (entries b) @ [x]) \<le> log_limit b"
      "length (entries b @ [x]) \<le> Suc (log_limit b)" "entries b = [] \<or> length (entries b) = log_limit b"
      using ok by (cases "entries b"; auto simp: log_add_def log_limit_def Let_def max_def)+
    have tl: "suffix (tl (entries b) @ [x]) (entries b @ [x])"
      by (cases "entries b") (auto simp: suffix_def)
    show ?thesis
    proof
      assume "suffix ys (entries (log_add x b))"
      then show "suffix ys (entries b @ [x]) \<and> length ys \<le> log_limit b"
        using * tl suffix_order.trans suffix_length_le by (metis le_trans)
    next
      assume ys: "suffix ys (entries b @ [x]) \<and> length ys \<le> log_limit b"
      then have "length ys \<le> length (tl (entries b) @ [x])"
        using *(4) by (auto dest: suffix_length_le)
      then show "suffix ys (entries (log_add x b))"
        unfolding *(1) by (rule suffix_length_suffix [OF conjunct1 [OF ys] tl])
    qed
  qed
qed (auto dest: suffix_length_le)

lemma longest_suffix:
  assumes "\<And>ys. suffix ys zs \<longleftrightarrow> suffix ys xs \<and> length ys \<le> n"
  shows "zs = drop (length xs - n) xs"
proof -
  let ?d = "drop (length xs - n) xs"
  have zs: "suffix zs xs" "length zs \<le> n" using assms [of zs] by auto
  from zs have "length zs \<le> length ?d" using suffix_length_le [of zs xs] by simp
  then have "suffix zs ?d" by (rule suffix_length_suffix [OF zs(1) suffix_drop])
  moreover have "suffix ?d zs" by (simp add: assms suffix_drop)
  ultimately show ?thesis by (rule suffix_order.antisym)
qed

text \<open>
  The log holds the latest entries: after any sequence of additions to a new buffer it holds
  exactly the last \<open>max_entries\<close> of them (one, where zero are asked for), a subscriber has received
  every entry added since it subscribed, and the query for the last matches returns the end of
  what the full query returns.
\<close>

theorem log_keeps_latest:
  "entries (fold log_add xs (log_new n)) = drop (length xs - max 1 n) xs
   \<and> subscribers (fold log_add xs (log_subscribe b)) = map (\<lambda>s. s @ xs) (subscribers b) @ [xs]
   \<and> get_entries_tail sid k l m b =
       drop (length (get_entries sid k l b) - m) (get_entries sid k l b)"
proof (intro conjI)
  have "length (entries (log_new n)) \<le> log_limit (log_new n)" by (simp add: log_new_def log_limit_def)
  from log.suffix_pushes [OF this, of _ xs]
  show "entries (fold log_add xs (log_new n)) = drop (length xs - max 1 n) xs"
    by (intro longest_suffix) (simp add: log_new_def log_limit_def)
  have "subscribers (fold log_add xs c) = map (\<lambda>s. s @ xs) (subscribers c)" for c
    by (induction xs arbitrary: c) (simp_all add: log_add_def Let_def)
  then show "subscribers (fold log_add xs (log_subscribe b)) = map (\<lambda>s. s @ xs) (subscribers b) @ [xs]"
    by (simp add: log_subscribe_def)
  show "get_entries_tail sid k l m b = drop (length (get_entries sid k l b) - m) (get_entries sid k l b)"
    by (simp add: get_entries_tail_def get_entries_def rev_filter [symmetric] take_rev)
qed

section \<open>Correctness of the file logger\<close>

text \<open>The logger knows the size of its file, and the rotated files other than it fit the limit.\<close>

definition logger_ok :: "FileLogger \<Rightarrow> log_dir \<Rightarrow> bool" where
  "logger_ok l d \<longleftrightarrow> hm_wf (ld_files d) \<and> current_file l = ''termfast.log'' \<and>
     current_size l = (case hm_get (ld_files d) (current_file l) of Some (_, t) \<Rightarrow> length t | None \<Rightarrow> 0)"

lemma current_not_rotated: "\<not> rotated_name ''termfast.log''"
  by (simp add: rotated_name_def)

lemma hm_fold_remove: "hm_get (fold (\<lambda>f. hm_remove (fst f)) xs m) = (\<lambda>k. if k \<in> fst ` set xs then None else hm_get m k)"
  by (induction xs arbitrary: m) (auto simp: hm_simps fun_eq_iff)

lemma hm_wf_fold_remove: "hm_wf m \<Longrightarrow> hm_wf (fold (\<lambda>f. hm_remove (fst f)) xs m)"
  by (induction xs arbitrary: m) (auto simp: hm_simps)

lemma rotate_spec:
  assumes "logger_ok l d" "rotate_log stamp l d = (Inr (), d')"
  shows "hm_wf (ld_files d') \<and> hm_get (ld_files d') (current_file l) = None"
proof (cases "hm_get (ld_files d) (current_file l)")
  case (Some f)
  have "current_file l \<noteq> rotated_path stamp (ld_now d)"
    using assms(1) by (simp add: logger_ok_def rotated_path_def)
  with Some assms show ?thesis
    by (auto simp: rotate_log_def Let_def hm_fold_remove hm_wf_fold_remove hm_simps logger_ok_def split: if_splits)
qed (use assms in \<open>simp add: rotate_log_def logger_ok_def\<close>)

text \<open>
  Writing to the log file.  A successful write ends with the line in the current file and keeps
  the logger's count equal to the size of the file; the file is never longer than its limit, except
  that a line longer than the limit stands alone in a file of its own.
\<close>

theorem log_write_bounds:
  assumes "logger_ok l d" and "log_write stamp line l d = (Inr (), l', d')"
  shows "logger_ok l' d'
    \<and> (\<exists>t text. hm_get (ld_files d') ''termfast.log'' = Some (t, text) \<and> suffix line text
        \<and> (length text \<le> max_file_size l \<or> text = line))"
proof -
  let ?needs = "max_file_size l < current_size l + length line"
  obtain r d1 where d1: "(if ?needs then rotate_log stamp l d else (Inr (), d)) = (r, d1)"
    by fastforce
  let ?l1 = "if ?needs then l\<lparr>current_size := 0\<rparr> else l"
  have r: "r = Inr ()" using assms(2) d1 by (cases r) (auto simp: log_write_def Let_def)
  have ok: "logger_ok ?l1 d1"
  proof (cases ?needs)
    case True
    with d1 r rotate_spec [OF assms(1), of stamp d1] assms(1) show ?thesis
      by (auto simp: logger_ok_def)
  qed (use d1 assms(1) in auto)
  then have cur: "current_file l = ''termfast.log''" and size: "current_size ?l1 =
      (case hm_get (ld_files d1) ''termfast.log'' of Some (_, t) \<Rightarrow> length t | None \<Rightarrow> 0)"
    by (auto simp: logger_ok_def split: if_splits)
  define old where "old = (case hm_get (ld_files d1) ''termfast.log'' of Some (_, t) \<Rightarrow> t | None \<Rightarrow> [])"
  have old: "current_size ?l1 = length old" using size by (auto simp: old_def split: option.splits)
  have l': "l' = ?l1\<lparr>current_size := current_size ?l1 + length line\<rparr>"
    and d': "d' = d1\<lparr>ld_files := hm_insert ''termfast.log'' (ld_now d1, old @ line) (ld_files d1)\<rparr>"
    using assms(2) d1 r cur
    by (auto simp: log_write_def append_log_def Let_def old_def split: if_splits)
  have "length (old @ line) \<le> max_file_size l \<or> old = []"
    using old by (cases ?needs) auto
  then show ?thesis
    using ok old cur by (auto simp: l' d' logger_ok_def hm_simps suffix_def)
qed

definition sample_log_dir :: log_dir where
  "sample_log_dir = \<lparr>ld_files = [(''termfast.log'', (0, ''abc''))], ld_now = 5, ld_rename_ok = True, ld_append_ok = True\<rparr>"

lemma log_write_bounds_witness:
  "logger_ok (fst (snd (log_write show_nat ''xyz'' (file_logger_new 4 2 sample_log_dir) sample_log_dir)))
     (snd (snd (log_write show_nat ''xyz'' (file_logger_new 4 2 sample_log_dir) sample_log_dir)))"
proof -
  let ?l = "file_logger_new 4 2 sample_log_dir"
  have "logger_ok ?l sample_log_dir"
    by (simp add: logger_ok_def file_logger_new_def sample_log_dir_def hm_wf_def hm_get_def)
  moreover have "fst (log_write show_nat ''xyz'' ?l sample_log_dir) = Inr ()"
    by (simp add: log_write_def file_logger_new_def sample_log_dir_def rotate_log_def append_log_def hm_get_def Let_def)
  then have "log_write show_nat ''xyz'' ?l sample_log_dir =
      (Inr (), fst (snd (log_write show_nat ''xyz'' ?l sample_log_dir)), snd (snd (log_write show_nat ''xyz'' ?l sample_log_dir)))"
    by (simp add: prod_eq_iff)
  ultimately show ?thesis using log_write_bounds by blast
qed

text \<open>
  A rotated file is named after the second of its rotation.  When two rotations fall into one
  second the second one replaces the file of the first, whose lines are lost.
\<close>

theorem rotation_overwrites:
  assumes "hm_get (ld_files d) (current_file l) = Some (t1, new_lines)"
    and "hm_get (ld_files d) (rotated_path stamp (ld_now d)) = Some (t2, old_lines)"
    and "rotated_path stamp (ld_now d) \<noteq> current_file l" and "ld_rename_ok d"
    and "hm_get (ld_files (snd (rotate_log stamp l d))) (rotated_path stamp (ld_now d)) = Some (t3, kept)"
  shows "kept = new_lines"
  using assms by (auto simp: rotate_log_def Let_def hm_fold_remove hm_simps split: if_splits)

end
