(* ===== verification/PortForward.thy ===== *)
theory PortForward
  imports ConfigModel
begin

text \<open>
  \<open>crates/core/src/proxy/port_forward.rs\<close> and \<open>ssh/forwarded_dispatch.rs\<close>: the forwarders of one
  server, their manager and the dispatcher of incoming channels.  A forwarder lives on in its
  spawned loop after the manager has dropped it, so the forwarders are a list of objects, the
  manager's table and the dispatcher's table refer to them by their place, and the loops are steps
  that interleave with the operations.
\<close>

section \<open>Forwarders\<close>

datatype loop_state = Spawned | Looping | Ended

text \<open>
  \<open>fw_listening\<close> says that the bound listener is still in the forwarder's own slot; the accept loop
  takes it out.  \<open>fw_queue\<close> are the channels sent to a receive loop, of capacity 16.
\<close>

record forwarder =
  fw_rule :: PortForwardRule
  fw_listening :: bool
  fw_loop :: loop_state
  fw_cancelled :: bool
  fw_running :: bool
  fw_actual_port :: "u16 option"
  fw_queue :: "nat list"
  fw_active :: u32
  fw_bytes_in :: u64
  fw_bytes_out :: u64

type_synonym forward_key = "string \<times> u16"

record PortForwardManager =
  objs :: "forwarder list"
  forwarders :: "(string, nat) hm"
  ssh_handle :: bool
  senders :: "(forward_key, nat) hm"

record PortForwardStatus =
  pfs_rule_id :: string
  pfs_running :: bool
  pfs_error :: "string option"
  pfs_active_connections :: u32
  pfs_bytes_in :: u64
  pfs_bytes_out :: u64

definition manager_empty :: PortForwardManager where
  "manager_empty = \<lparr>objs = [], forwarders = [], ssh_handle = False, senders = []\<rparr>"

definition forwarder_new :: "PortForwardRule \<Rightarrow> forwarder" where
  "forwarder_new rule =
     \<lparr>fw_rule = rule, fw_listening = False, fw_loop = Spawned, fw_cancelled = False, fw_running = False,
      fw_actual_port = None, fw_queue = [], fw_active = 0, fw_bytes_in = 0, fw_bytes_out = 0\<rparr>"

definition status_of :: "forwarder \<Rightarrow> PortForwardStatus" where
  "status_of f =
     \<lparr>pfs_rule_id = pf_id (fw_rule f), pfs_running = fw_running f, pfs_error = None,
      pfs_active_connections = fw_active f, pfs_bytes_in = fw_bytes_in f, pfs_bytes_out = fw_bytes_out f\<rparr>"

definition update_obj :: "nat \<Rightarrow> (forwarder \<Rightarrow> forwarder) \<Rightarrow> PortForwardManager \<Rightarrow> PortForwardManager" where
  "update_obj i f s = (if i < length (objs s) then s\<lparr>objs := (objs s)[i := f (objs s ! i)]\<rparr> else s)"

section \<open>Sockets\<close>

text \<open>
  A local forwarder keeps its address bound while the listener is in its slot or in its running
  loop.  \<open>others\<close> is what the operating system says of an address this program does not hold.
  Port 0 asks for a free port and never conflicts.
\<close>

definition holds :: "forwarder \<Rightarrow> string \<Rightarrow> u16 \<Rightarrow> bool" where
  "holds f host port \<longleftrightarrow>
     pf_forward_type (fw_rule f) = LocalForward \<and> (fw_listening f \<or> fw_loop f = Looping)
     \<and> pf_local_host (fw_rule f) = host \<and> pf_local_port (fw_rule f) = port \<and> port \<noteq> 0"

definition bind_local ::
  "(string \<Rightarrow> u16 \<Rightarrow> io_error + unit) \<Rightarrow> PortForwardManager \<Rightarrow> string \<Rightarrow> u16 \<Rightarrow> io_error + unit" where
  "bind_local others s host port =
     (if list_ex (\<lambda>f. holds f host port) (objs s) then Inl AddrInUse else others host port)"

section \<open>Starting and stopping\<close>

definition local_start ::
  "(string \<Rightarrow> u16 \<Rightarrow> io_error + unit) \<Rightarrow> PortForwardManager \<Rightarrow> PortForwardRule \<Rightarrow> Error + forwarder" where
  "local_start others s rule =
     (case bind_local others s (pf_local_host rule) (pf_local_port rule) of
        Inl e \<Rightarrow> Inl (if e = AddrInUse
                     then ipc_err ProxyPortInUse (''port '' @ show_nat (unat (pf_local_port rule)) @ '' is already in use'')
                     else Io e)
      | Inr _ \<Rightarrow> Inr ((forwarder_new rule)\<lparr>fw_listening := True, fw_running := True\<rparr>))"

text \<open>The server's answer to the request: an error text or the port it returned.\<close>

definition remote_start :: "string + u32 \<Rightarrow> PortForwardRule \<Rightarrow> Error + forwarder" where
  "remote_start answer rule =
     (case answer of
        Inl e \<Rightarrow>
          (let msg = ''tcpip_forward failed: '' @ e
           in Inl (if find_sub ''rejected by the other party'' msg \<noteq> None
                   then ipc_err Internal
                     (''remote forward rejected by server (check sshd AllowTcpForwarding, PermitListen, or port ''
                      @ show_nat (unat (pf_local_port rule)) @ '' availability): '' @ e)
                   else ipc_err Internal msg))
      | Inr returned_port \<Rightarrow>
          (let port = (ucast (pf_local_port rule) :: u32);
               actual_port = (if returned_port = 0 \<and> port \<noteq> 0 then ucast port else ucast returned_port)
           in Inr ((forwarder_new rule)\<lparr>fw_actual_port := Some actual_port, fw_running := True\<rparr>)))"

definition add_forwarder :: "forwarder \<Rightarrow> PortForwardManager \<Rightarrow> PortForwardManager" where
  "add_forwarder f s =
     s\<lparr>objs := objs s @ [f], forwarders := hm_insert (pf_id (fw_rule f)) (length (objs s)) (forwarders s)\<rparr>"

definition start_rule ::
  "(string \<Rightarrow> u16 \<Rightarrow> io_error + unit) \<Rightarrow> string + u32 \<Rightarrow> PortForwardRule \<Rightarrow> PortForwardManager \<Rightarrow>
   (Error + unit) \<times> PortForwardManager" where
  "start_rule others answer rule s =
     (if hm_get (forwarders s) (pf_id rule) \<noteq> None then
        (Inl (Other (''port forward rule '' @ pf_id rule @ '' already running'')), s)
      else (case (case pf_forward_type rule of
                    LocalForward \<Rightarrow> local_start others s rule
                  | RemoteForward \<Rightarrow>
                      if \<not> ssh_handle s
                      then Inl (ipc_err SshDisconnected ''SSH not connected, please connect first'')
                      else remote_start answer rule) of
              Inl e \<Rightarrow> (Inl e, s)
            | Inr f \<Rightarrow> (Inr (), add_forwarder f s)))"

text \<open>
  Stopping clears the slot of the listener and sets the flags.  Telling the server to stop
  listening has an answer that is ignored.
\<close>

definition stop_forwarder :: "forwarder \<Rightarrow> forwarder" where
  "stop_forwarder f =
     (case pf_forward_type (fw_rule f) of
        LocalForward \<Rightarrow> f\<lparr>fw_cancelled := True, fw_running := False, fw_listening := False\<rparr>
      | RemoteForward \<Rightarrow> f\<lparr>fw_cancelled := True, fw_running := False\<rparr>)"

definition stop_rule :: "string \<Rightarrow> PortForwardManager \<Rightarrow> PortForwardManager" where
  "stop_rule rule_id s =
     (case hm_get (forwarders s) rule_id of
        None \<Rightarrow> s
      | Some i \<Rightarrow> update_obj i stop_forwarder (s\<lparr>forwarders := hm_remove rule_id (forwarders s)\<rparr>))"

definition stop_all :: "PortForwardManager \<Rightarrow> PortForwardManager" where
  "stop_all s = fold (\<lambda>(_, i). update_obj i stop_forwarder) (forwarders s) (s\<lparr>forwarders := []\<rparr>)"

text \<open>The answers of the system and of the server for each rule are given by functions of the rule.\<close>

fun start_auto_rules ::
  "(string \<Rightarrow> u16 \<Rightarrow> io_error + unit) \<Rightarrow> (PortForwardRule \<Rightarrow> string + u32) \<Rightarrow> PortForwardRule list \<Rightarrow>
   PortForwardManager \<Rightarrow> PortForwardManager" where
  "start_auto_rules others answers [] s = s"
| "start_auto_rules others answers (rule # rules) s =
     start_auto_rules others answers rules
       (if pf_auto_start rule \<and> pf_enabled rule then snd (start_rule others (answers rule) rule s) else s)"

definition set_ssh_handle :: "PortForwardManager \<Rightarrow> PortForwardManager" where
  "set_ssh_handle s = s\<lparr>ssh_handle := True\<rparr>"

definition clear_ssh_handle :: "PortForwardManager \<Rightarrow> PortForwardManager" where
  "clear_ssh_handle s = s\<lparr>ssh_handle := False\<rparr>"

definition get_status :: "string \<Rightarrow> PortForwardManager \<Rightarrow> PortForwardStatus option" where
  "get_status rule_id s = map_option (\<lambda>i. status_of (objs s ! i)) (hm_get (forwarders s) rule_id)"

definition get_all_statuses :: "PortForwardManager \<Rightarrow> PortForwardStatus list" where
  "get_all_statuses s = map (\<lambda>(_, i). status_of (objs s ! i)) (forwarders s)"

definition forwards_running :: "PortForwardManager \<Rightarrow> bool" where
  "forwards_running s \<longleftrightarrow> forwarders s \<noteq> []"

section \<open>The dispatcher\<close>

definition register :: "forward_key \<Rightarrow> nat \<Rightarrow> PortForwardManager \<Rightarrow> PortForwardManager" where
  "register key i s = s\<lparr>senders := hm_insert key i (senders s)\<rparr>"

definition unregister :: "forward_key \<Rightarrow> PortForwardManager \<Rightarrow> PortForwardManager" where
  "unregister key s = s\<lparr>senders := hm_remove key (senders s)\<rparr>"

text \<open>
  A channel sent to a receiver that is gone is dropped, and the answer is \<open>True\<close> all the same.  A
  send to a full queue waits, so a dispatch to one is a step that is not yet possible.
\<close>

definition can_dispatch :: "forward_key \<Rightarrow> PortForwardManager \<Rightarrow> bool" where
  "can_dispatch key s \<longleftrightarrow>
     (case hm_get (senders s) key of
        None \<Rightarrow> True
      | Some i \<Rightarrow> fw_loop (objs s ! i) = Looping \<longrightarrow> length (fw_queue (objs s ! i)) < 16)"

definition dispatch :: "forward_key \<Rightarrow> nat \<Rightarrow> PortForwardManager \<Rightarrow> bool \<times> PortForwardManager" where
  "dispatch key channel s =
     (case hm_get (senders s) key of
        None \<Rightarrow> (False, s)
      | Some i \<Rightarrow>
          (True, if fw_loop (objs s ! i) = Looping
                 then update_obj i (\<lambda>f. f\<lparr>fw_queue := fw_queue f @ [channel]\<rparr>) s else s))"

definition dispatch_clear :: "PortForwardManager \<Rightarrow> PortForwardManager" where
  "dispatch_clear s = s\<lparr>senders := []\<rparr>"

section \<open>The loops\<close>

text \<open>
  What wakes a loop: it starts, its timeout of half a second passes, a connection comes in, the
  listener fails.  A loop looks at its cancel flag when it wakes, not before.
\<close>

datatype wake = Begin | Timeout | Incoming | Failure

fun accept_loop :: "wake \<Rightarrow> forwarder \<Rightarrow> forwarder" where
  "accept_loop Begin f =
     (if fw_loop f \<noteq> Spawned then f
      else if \<not> fw_listening f then f\<lparr>fw_loop := Ended\<rparr>
      else if fw_cancelled f then f\<lparr>fw_listening := False, fw_loop := Ended\<rparr>
      else f\<lparr>fw_listening := False, fw_loop := Looping\<rparr>)"
| "accept_loop Timeout f =
     (if fw_loop f = Looping \<and> fw_cancelled f then f\<lparr>fw_loop := Ended\<rparr> else f)"
| "accept_loop Incoming f =
     (if fw_loop f \<noteq> Looping then f
      else if fw_cancelled f then f\<lparr>fw_loop := Ended\<rparr>
      else f\<lparr>fw_active := fw_active f + 1\<rparr>)"
| "accept_loop Failure f = (if fw_loop f = Looping then f\<lparr>fw_loop := Ended\<rparr> else f)"

definition key_of :: "forwarder \<Rightarrow> forward_key" where
  "key_of f = (pf_local_host (fw_rule f),
     case fw_actual_port f of Some p \<Rightarrow> p | None \<Rightarrow> pf_local_port (fw_rule f))"

text \<open>Leaving the receive loop drops the receiver with its queue and unregisters the key.\<close>

definition end_receive :: "nat \<Rightarrow> PortForwardManager \<Rightarrow> PortForwardManager" where
  "end_receive i s =
     unregister (key_of (objs s ! i)) (update_obj i (\<lambda>f. f\<lparr>fw_loop := Ended, fw_queue := []\<rparr>) s)"

text \<open>\<open>Failure\<close> is the closed queue: no sender refers to it any more and it is empty.\<close>

fun receive_loop :: "wake \<Rightarrow> nat \<Rightarrow> PortForwardManager \<Rightarrow> PortForwardManager" where
  "receive_loop Begin i s =
     (if fw_loop (objs s ! i) \<noteq> Spawned then s
      else (let s1 = register (key_of (objs s ! i)) i s
            in if fw_cancelled (objs s ! i) then end_receive i s1
               else update_obj i (\<lambda>f. f\<lparr>fw_loop := Looping\<rparr>) s1))"
| "receive_loop Timeout i s =
     (if fw_loop (objs s ! i) = Looping \<and> fw_cancelled (objs s ! i) then end_receive i s else s)"
| "receive_loop Incoming i s =
     (if fw_loop (objs s ! i) \<noteq> Looping \<or> fw_queue (objs s ! i) = [] then s
      else if fw_cancelled (objs s ! i) then end_receive i s
      else update_obj i (\<lambda>f. f\<lparr>fw_queue := tl (fw_queue f), fw_active := fw_active f + 1\<rparr>) s)"
| "receive_loop Failure i s =
     (if fw_loop (objs s ! i) = Looping \<and> fw_queue (objs s ! i) = [] \<and> i \<notin> snd ` set (senders s)
      then end_receive i s else s)"

definition loop_step :: "wake \<Rightarrow> nat \<Rightarrow> PortForwardManager \<Rightarrow> PortForwardManager" where
  "loop_step e i s =
     (if length (objs s) \<le> i then s
      else case pf_forward_type (fw_rule (objs s ! i)) of
             LocalForward \<Rightarrow> update_obj i (accept_loop e) s
           | RemoteForward \<Rightarrow> receive_loop e i s)"

text \<open>The guard of a connection's task lowers the count when the task ends, however it ends.\<close>

definition connection_end :: "nat \<Rightarrow> PortForwardManager \<Rightarrow> PortForwardManager" where
  "connection_end i = update_obj i (\<lambda>f. f\<lparr>fw_active := fw_active f - 1\<rparr>)"

section \<open>The system of the forwarders\<close>

inductive pf_step :: "PortForwardManager \<Rightarrow> PortForwardManager \<Rightarrow> bool" where
  start: "pf_step s (snd (start_rule others answer rule s))"
| stop: "pf_step s (stop_rule rule_id s)"
| stop_every: "pf_step s (stop_all s)"
| connect: "pf_step s (set_ssh_handle s)"
| disconnect: "pf_step s (clear_ssh_handle s)"
| loop: "pf_step s (loop_step e i s)"
| channel: "can_dispatch key s \<Longrightarrow> pf_step s (snd (dispatch key c s))"
| ended: "0 < fw_active (objs s ! i) \<Longrightarrow> pf_step s (connection_end i s)"

inductive pf_reachable :: "PortForwardManager \<Rightarrow> bool" where
  initial: "pf_reachable manager_empty"
| step: "pf_reachable s \<Longrightarrow> pf_step s s' \<Longrightarrow> pf_reachable s'"

text \<open>
  The table holds running forwarders only, each under the identifier of its rule; no two forwarders
  hold the same address; the dispatcher's keys are those of the forwarders they lead to.
\<close>

definition table_ok :: "PortForwardManager \<Rightarrow> bool" where
  "table_ok s \<longleftrightarrow> hm_wf (forwarders s) \<and>
     (\<forall>rid i. hm_get (forwarders s) rid = Some i \<longrightarrow> i < length (objs s) \<and>
        pf_id (fw_rule (objs s ! i)) = rid \<and> fw_running (objs s ! i) \<and> \<not> fw_cancelled (objs s ! i))"

definition sockets_ok :: "forwarder list \<Rightarrow> bool" where
  "sockets_ok fs \<longleftrightarrow>
     (\<forall>i < length fs. \<forall>j < length fs. \<forall>host port. holds (fs ! i) host port \<longrightarrow> holds (fs ! j) host port \<longrightarrow> i = j)"

definition senders_ok :: "PortForwardManager \<Rightarrow> bool" where
  "senders_ok s \<longleftrightarrow> hm_wf (senders s) \<and>
     (\<forall>key i. hm_get (senders s) key = Some i \<longrightarrow> i < length (objs s) \<and> key_of (objs s ! i) = key)"

definition pf_inv :: "PortForwardManager \<Rightarrow> bool" where
  "pf_inv s \<longleftrightarrow> table_ok s \<and> sockets_ok (objs s) \<and> senders_ok s"

section \<open>The invariant\<close>

lemma update_obj_simps [simp]:
  "forwarders (update_obj i f s) = forwarders s" "senders (update_obj i f s) = senders s"
  "length (objs (update_obj i f s)) = length (objs s)"
  by (auto simp: update_obj_def)

lemma nth_update_obj:
  "j < length (objs s) \<Longrightarrow> objs (update_obj i f s) ! j = (if i = j then f (objs s ! j) else objs s ! j)"
  by (auto simp: update_obj_def nth_list_update)

text \<open>A change of one forwarder that keeps its rule and port, and binds no new address.\<close>

definition harmless :: "(forwarder \<Rightarrow> forwarder) \<Rightarrow> forwarder \<Rightarrow> bool" where
  "harmless f x \<longleftrightarrow> fw_rule (f x) = fw_rule x \<and> fw_actual_port (f x) = fw_actual_port x \<and>
     (\<forall>host port. holds (f x) host port \<longrightarrow> holds x host port)"

lemma harmless_obj:
  assumes "i < length (objs s) \<longrightarrow> harmless f (objs s ! i)" "j < length (objs s)"
  shows "key_of (objs (update_obj i f s) ! j) = key_of (objs s ! j)"
    and "fw_rule (objs (update_obj i f s) ! j) = fw_rule (objs s ! j)"
    and "holds (objs (update_obj i f s) ! j) host port \<Longrightarrow> holds (objs s ! j) host port"
  using assms by (cases "i = j"; auto simp: nth_update_obj harmless_def key_of_def split: option.split)+

lemma sockets_update:
  assumes "sockets_ok (objs s)" "i < length (objs s) \<longrightarrow> harmless f (objs s ! i)"
  shows "sockets_ok (objs (update_obj i f s))"
  unfolding sockets_ok_def update_obj_simps
  using assms(1) harmless_obj(3) [OF assms(2)] unfolding sockets_ok_def by meson

lemma senders_update:
  assumes "senders_ok s" "i < length (objs s) \<longrightarrow> harmless f (objs s ! i)"
  shows "senders_ok (update_obj i f s)"
  using assms(1) harmless_obj(1) [OF assms(2)] by (auto simp: senders_ok_def)

lemma table_update:
  assumes "table_ok s" "i < length (objs s) \<longrightarrow> harmless f (objs s ! i)"
    and "i < length (objs s) \<longrightarrow> i \<notin> snd ` set (forwarders s) \<or>
      (fw_running (f (objs s ! i)) = fw_running (objs s ! i) \<and> fw_cancelled (f (objs s ! i)) = fw_cancelled (objs s ! i))"
  shows "table_ok (update_obj i f s)"
proof -
  have mem: "hm_get (forwarders s) rid = Some j \<Longrightarrow> j \<in> snd ` set (forwarders s)" for rid j
    by (force simp: hm_get_def dest: map_of_SomeD)
  show ?thesis
    using assms by (auto simp: table_ok_def nth_update_obj harmless_def dest: mem)
qed

lemma inv_update:
  assumes "pf_inv s" "i < length (objs s) \<longrightarrow> harmless f (objs s ! i) \<and>
      fw_running (f (objs s ! i)) = fw_running (objs s ! i) \<and> fw_cancelled (f (objs s ! i)) = fw_cancelled (objs s ! i)"
  shows "pf_inv (update_obj i f s)"
  using assms by (simp add: pf_inv_def sockets_update senders_update table_update)

lemma inv_senders:
  assumes "pf_inv s" "hm_wf m" "\<And>key i. hm_get m key = Some i \<Longrightarrow> i < length (objs s) \<and> key_of (objs s ! i) = key"
  shows "pf_inv (s\<lparr>senders := m\<rparr>)"
  using assms by (simp add: pf_inv_def table_ok_def senders_ok_def)

lemma inv_unregister: "pf_inv s \<Longrightarrow> pf_inv (unregister key s)"
  unfolding unregister_def
  by (rule inv_senders) (auto simp: pf_inv_def senders_ok_def hm_simps split: if_splits)

lemma inv_register: "pf_inv s \<Longrightarrow> i < length (objs s) \<Longrightarrow> pf_inv (register (key_of (objs s ! i)) i s)"
  unfolding register_def
  by (rule inv_senders) (auto simp: pf_inv_def senders_ok_def hm_simps split: if_splits)

lemma stop_harmless: "harmless stop_forwarder f"
  by (cases "pf_forward_type (fw_rule f)") (auto simp: harmless_def stop_forwarder_def holds_def)

lemma accept_harmless:
  "pf_forward_type (fw_rule f) = LocalForward \<Longrightarrow> harmless (accept_loop e) f \<and>
   fw_running (accept_loop e f) = fw_running f \<and> fw_cancelled (accept_loop e f) = fw_cancelled f"
  by (cases e) (auto simp: harmless_def holds_def)

lemma remote_holds: "pf_forward_type (fw_rule f) = RemoteForward \<Longrightarrow> \<not> holds f host port"
  by (simp add: holds_def)

lemma inv_end_receive:
  assumes "pf_inv s" "pf_forward_type (fw_rule (objs s ! i)) = RemoteForward"
  shows "pf_inv (end_receive i s)"
  unfolding end_receive_def
  by (intro inv_unregister inv_update assms) (use assms(2) in \<open>auto simp: harmless_def holds_def\<close>)

lemma inv_receive:
  assumes "pf_inv s" "i < length (objs s)" "pf_forward_type (fw_rule (objs s ! i)) = RemoteForward"
  shows "pf_inv (receive_loop e i s)"
proof (cases e)
  case Begin
  have reg: "pf_inv (register (key_of (objs s ! i)) i s)" "objs (register (key_of (objs s ! i)) i s) = objs s"
    using assms by (auto simp: inv_register) (simp add: register_def)
  then show ?thesis
    using assms by (auto simp: Begin Let_def harmless_def holds_def intro!: inv_end_receive inv_update)
qed (use assms in \<open>auto simp: harmless_def holds_def intro!: inv_end_receive inv_update\<close>)

lemma nth_add: "j < length (objs s) \<Longrightarrow> objs (add_forwarder f s) ! j = objs s ! j"
  "objs (add_forwarder f s) ! length (objs s) = f"
  by (auto simp: add_forwarder_def nth_append)

lemma add_table:
  assumes "table_ok s" "fw_running f" "\<not> fw_cancelled f"
  shows "table_ok (add_forwarder f s)"
  using assms by (auto simp: table_ok_def add_forwarder_def hm_simps nth_append intro: less_SucI)

lemma add_senders: "senders_ok s \<Longrightarrow> senders_ok (add_forwarder f s)"
  by (auto simp: senders_ok_def add_forwarder_def nth_append intro: less_SucI)

lemma add_sockets:
  assumes "sockets_ok (objs s)" "\<And>host port x. holds f host port \<Longrightarrow> x \<in> set (objs s) \<Longrightarrow> \<not> holds x host port"
  shows "sockets_ok (objs (add_forwarder f s))"
proof -
  have "\<not> holds (objs s ! i) host port" if "holds f host port" "i < length (objs s)" for i host port
    using assms(2) that nth_mem by blast
  then show ?thesis
    using assms(1) by (auto simp: sockets_ok_def add_forwarder_def nth_append less_Suc_eq)
qed

lemma local_start_ok:
  "local_start others s rule = Inr f \<Longrightarrow> fw_rule f = rule \<and> fw_running f \<and> \<not> fw_cancelled f \<and> fw_loop f = Spawned
     \<and> fw_listening f \<and> (\<forall>host port. holds f host port \<longrightarrow> list_all (\<lambda>x. \<not> holds x host port) (objs s))"
  by (auto simp: local_start_def bind_local_def forwarder_new_def holds_def list_all_iff list_ex_iff split: sum.splits if_splits)

lemma remote_start_ok:
  "remote_start answer rule = Inr f \<Longrightarrow> fw_rule f = rule \<and> fw_running f \<and> \<not> fw_cancelled f \<and> fw_loop f = Spawned \<and> \<not> fw_listening f"
  by (auto simp: remote_start_def forwarder_new_def Let_def split: sum.splits)

lemma inv_start: "pf_inv s \<Longrightarrow> pf_inv (snd (start_rule others answer rule s))"
proof -
  assume inv: "pf_inv s"
  let ?new = "case pf_forward_type rule of LocalForward \<Rightarrow> local_start others s rule
      | RemoteForward \<Rightarrow> if \<not> ssh_handle s then Inl (ipc_err SshDisconnected ''SSH not connected, please connect first'')
          else remote_start answer rule"
  show ?thesis
  proof (cases "hm_get (forwarders s) (pf_id rule) = None \<and> (\<exists>f. ?new = Inr f)")
    case True
    then obtain f where f: "?new = Inr f" by blast
    then have ok: "fw_rule f = rule" "fw_running f" "\<not> fw_cancelled f"
      "\<And>host port x. holds f host port \<Longrightarrow> x \<in> set (objs s) \<Longrightarrow> \<not> holds x host port"
      by (auto dest!: local_start_ok remote_start_ok simp: list_all_iff holds_def split: PortForwardType.splits if_splits)
    have "snd (start_rule others answer rule s) = add_forwarder f s"
      using True f by (simp add: start_rule_def)
    then show ?thesis
      using inv ok by (simp add: pf_inv_def add_table add_senders add_sockets)
  next
    case False
    then have "snd (start_rule others answer rule s) = s"
      by (cases ?new) (auto simp: start_rule_def)
    then show ?thesis using inv by simp
  qed
qed

lemma inv_drop: "pf_inv s \<Longrightarrow> pf_inv (s\<lparr>forwarders := hm_remove rid (forwarders s)\<rparr>)"
  by (auto simp: pf_inv_def table_ok_def senders_ok_def hm_simps split: if_splits)

lemma range_remove:
  assumes "table_ok s" "hm_get (forwarders s) rid = Some i"
  shows "i \<notin> snd ` set (hm_remove rid (forwarders s))"
proof
  assume "i \<in> snd ` set (hm_remove rid (forwarders s))"
  moreover have "hm_wf (hm_remove rid (forwarders s))"
    using assms(1) by (simp add: table_ok_def hm_simps)
  ultimately obtain rid' where "hm_get (hm_remove rid (forwarders s)) rid' = Some i"
    by (force simp: hm_get_Some_iff)
  with assms show False by (auto simp: table_ok_def hm_simps split: if_splits)
qed

lemma inv_stop: "pf_inv s \<Longrightarrow> pf_inv (stop_rule rid s)"
proof (cases "hm_get (forwarders s) rid")
  case (Some i)
  assume inv: "pf_inv s"
  let ?s = "s\<lparr>forwarders := hm_remove rid (forwarders s)\<rparr>"
  have "pf_inv ?s" using inv by (rule inv_drop)
  moreover have "i \<notin> snd ` set (forwarders ?s)"
    using range_remove [OF _ Some] inv by (simp add: pf_inv_def)
  ultimately have "pf_inv (update_obj i stop_forwarder ?s)"
    unfolding pf_inv_def by (intro conjI sockets_update senders_update table_update impI stop_harmless) auto
  then show ?thesis by (simp add: stop_rule_def Some)
qed (simp add: stop_rule_def)

lemma inv_stop_objs:
  "forwarders s = [] \<Longrightarrow> pf_inv s \<Longrightarrow> pf_inv (fold (\<lambda>(_, i). update_obj i stop_forwarder) xs s)"
proof (induction xs arbitrary: s)
  case (Cons x xs)
  obtain r i where [simp]: "x = (r, i)" by force
  have "pf_inv (update_obj i stop_forwarder s)"
    using Cons.prems unfolding pf_inv_def
    by (intro conjI sockets_update senders_update table_update impI stop_harmless) auto
  then show ?case using Cons by simp
qed simp

lemma inv_stop_all: "pf_inv s \<Longrightarrow> pf_inv (stop_all s)"
  unfolding stop_all_def
  by (rule inv_stop_objs) (auto simp: pf_inv_def table_ok_def senders_ok_def hm_simps)

lemma inv_loop: "pf_inv s \<Longrightarrow> pf_inv (loop_step e i s)"
  by (auto simp: loop_step_def accept_harmless intro!: inv_update inv_receive split: PortForwardType.split)

lemma inv_dispatch: "pf_inv s \<Longrightarrow> pf_inv (snd (dispatch key c s))"
  by (auto simp: dispatch_def harmless_def holds_def intro!: inv_update split: option.split)

lemma inv_ended: "pf_inv s \<Longrightarrow> pf_inv (connection_end i s)"
  unfolding connection_end_def by (rule inv_update) (auto simp: harmless_def holds_def)

lemma inv_handle: "pf_inv s \<Longrightarrow> pf_inv (s\<lparr>ssh_handle := b\<rparr>)"
  by (simp add: pf_inv_def table_ok_def senders_ok_def)

lemma inv_step: "pf_step s s' \<Longrightarrow> pf_inv s \<Longrightarrow> pf_inv s'"
  by (induction rule: pf_step.induct)
    (simp_all add: inv_start inv_stop inv_stop_all inv_loop inv_dispatch inv_ended inv_handle
      set_ssh_handle_def clear_ssh_handle_def)

lemma reachable_inv: "pf_reachable s \<Longrightarrow> pf_inv s"
proof (induction rule: pf_reachable.induct)
  case initial
  show ?case
    by (simp add: pf_inv_def manager_empty_def table_ok_def sockets_ok_def senders_ok_def hm_simps)
qed (rule inv_step)

section \<open>Correctness\<close>

text \<open>
  C14. Whatever the order in which rules are started and stopped, loops wake up, connections and
  channels come in: the table of the manager holds exactly forwarders that run and are not
  cancelled, each under the identifier of its rule; no two forwarders, stopped ones included, hold
  the same local address; and a channel is only ever led to a forwarder of its address and port.
\<close>

theorem port_forward_invariant:
  assumes "pf_reachable s"
  shows "hm_wf (forwarders s)
    \<and> (\<forall>rid i. hm_get (forwarders s) rid = Some i \<longrightarrow> i < length (objs s)
         \<and> pf_id (fw_rule (objs s ! i)) = rid \<and> pfs_running (status_of (objs s ! i)) \<and> \<not> fw_cancelled (objs s ! i))
    \<and> (\<forall>i < length (objs s). \<forall>j < length (objs s). \<forall>host port.
         holds (objs s ! i) host port \<longrightarrow> holds (objs s ! j) host port \<longrightarrow> i = j)
    \<and> (\<forall>key i. hm_get (senders s) key = Some i \<longrightarrow> i < length (objs s) \<and> key_of (objs s ! i) = key)"
  using reachable_inv [OF assms]
  unfolding pf_inv_def table_ok_def sockets_ok_def senders_ok_def status_of_def by simp

definition sample_rule :: "PortForwardType \<Rightarrow> PortForwardRule" where
  "sample_rule t = \<lparr>pf_id = ''r'', pf_name = ''r'', pf_forward_type = t, pf_local_host = ''127.0.0.1'',
     pf_local_port = 8080, pf_remote_host = ''h'', pf_remote_port = 80, pf_enabled = True, pf_auto_start = True\<rparr>"

abbreviation free_port :: "string \<Rightarrow> u16 \<Rightarrow> io_error + unit" where
  "free_port \<equiv> \<lambda>_ _. Inr ()"

lemma start_reachable: "pf_reachable s \<Longrightarrow> pf_reachable (snd (start_rule others answer rule s))"
  by (erule pf_reachable.step) (rule pf_step.start)

lemma loop_reachable: "pf_reachable s \<Longrightarrow> pf_reachable (loop_step e i s)"
  by (erule pf_reachable.step) (rule pf_step.loop)

text \<open>A local rule that has been started and whose loop runs.\<close>

definition sample_local :: PortForwardManager where
  "sample_local = loop_step Begin 0 (snd (start_rule free_port (Inr 0) (sample_rule LocalForward) manager_empty))"

lemma sample_local_reachable: "pf_reachable sample_local"
  unfolding sample_local_def by (intro loop_reachable start_reachable pf_reachable.initial)

lemma sample_local_facts:
  "hm_get (forwarders sample_local) ''r'' = Some 0" "length (objs sample_local) = 1"
  "fw_loop (objs sample_local ! 0) = Looping" "fw_rule (objs sample_local ! 0) = sample_rule LocalForward"
  by (simp_all add: sample_local_def manager_empty_def start_rule_def hm_simps local_start_def bind_local_def
      add_forwarder_def forwarder_new_def loop_step_def update_obj_def sample_rule_def)

lemma port_forward_invariant_witness:
  "key_of (objs sample_local ! 0) = (''127.0.0.1'', 8080) \<and> pfs_running (status_of (objs sample_local ! 0))"
proof
  show "pfs_running (status_of (objs sample_local ! 0))"
    using port_forward_invariant [OF sample_local_reachable] sample_local_facts(1) by blast
  show "key_of (objs sample_local ! 0) = (''127.0.0.1'', 8080)"
    by (simp add: sample_local_def manager_empty_def start_rule_def hm_simps local_start_def bind_local_def
      add_forwarder_def forwarder_new_def loop_step_def update_obj_def sample_rule_def key_of_def)
qed

text \<open>
  C15. Restarting a local rule.  Right after a running rule has been stopped its accept loop still
  holds the listener, so starting it again, which is what the automatic reconnect does, fails with
  the port in use and leaves the rule stopped.  Once the loop has woken up the same start succeeds
  (if no other process took the port).
\<close>

theorem restart_of_local_rule:
  assumes "pf_reachable s" and "hm_get (forwarders s) (pf_id rule) = Some i" and "fw_rule (objs s ! i) = rule"
    and "pf_forward_type rule = LocalForward" and "pf_local_port rule \<noteq> 0" and "fw_loop (objs s ! i) = Looping"
    and "others (pf_local_host rule) (pf_local_port rule) = Inr ()"
  shows "(\<exists>msg. start_rule others answer rule (stop_rule (pf_id rule) s)
            = (Inl (ipc_err ProxyPortInUse msg), stop_rule (pf_id rule) s))
    \<and> hm_get (forwarders (stop_rule (pf_id rule) s)) (pf_id rule) = None
    \<and> fst (start_rule others answer rule (loop_step Timeout i (stop_rule (pf_id rule) s))) = Inr ()"
proof -
  note inv = reachable_inv [OF assms(1)]
  have i: "i < length (objs s)" using inv assms(2) by (simp add: pf_inv_def table_ok_def)
  let ?h = "pf_local_host rule" and ?p = "pf_local_port rule" and ?s = "stop_rule (pf_id rule) s"
  have obj: "objs ?s = (objs s)[i := stop_forwarder (objs s ! i)]"
    using i by (simp add: stop_rule_def assms(2) update_obj_def)
  have gone: "hm_get (forwarders ?s) (pf_id rule) = None"
    by (simp add: stop_rule_def assms(2) hm_simps)
  have held: "holds (objs ?s ! i) ?h ?p"
    using i assms by (simp add: obj holds_def stop_forwarder_def)
  then have "list_ex (\<lambda>f. holds f ?h ?p) (objs ?s)"
    using i nth_mem [of i "objs ?s"] by (auto simp: list_ex_iff obj)
  then have 1: "\<exists>msg. start_rule others answer rule ?s = (Inl (ipc_err ProxyPortInUse msg), ?s)"
    using gone assms(4) by (simp add: start_rule_def local_start_def bind_local_def ipc_err_def)
  let ?t = "loop_step Timeout i ?s"
  have tobj: "objs ?t = (objs ?s)[i := (objs ?s ! i)\<lparr>fw_loop := Ended\<rparr>]" and tmap: "forwarders ?t = forwarders ?s"
    using i assms by (simp_all add: loop_step_def obj stop_forwarder_def update_obj_def)
  have "\<not> holds x ?h ?p" if x: "x \<in> set (objs ?t)" for x
  proof -
    obtain j where j: "j < length (objs s)" "x = objs ?t ! j"
      using x by (auto simp: in_set_conv_nth tobj obj)
    show ?thesis
    proof (cases "j = i")
      case True
      then show ?thesis using i j assms by (simp add: tobj obj holds_def stop_forwarder_def)
    next
      case False
      then have "x = objs ?s ! j" using j by (simp add: tobj)
      moreover have "sockets_ok (objs ?s)" using inv_stop [OF inv] by (simp add: pf_inv_def)
      ultimately show ?thesis using held False i j(1) by (auto simp: sockets_ok_def obj)
    qed
  qed
  then have "\<not> list_ex (\<lambda>f. holds f ?h ?p) (objs ?t)" by (auto simp: list_ex_iff)
  then have "fst (start_rule others answer rule ?t) = Inr ()"
    using gone assms(4,7) by (simp add: start_rule_def local_start_def bind_local_def tmap)
  with 1 gone show ?thesis by blast
qed

lemma restart_of_local_rule_witness:
  "hm_get (forwarders (stop_rule ''r'' sample_local)) ''r'' = None
   \<and> fst (start_rule free_port (Inr 0) (sample_rule LocalForward) (stop_rule ''r'' sample_local)) \<noteq> Inr ()
   \<and> fst (start_rule free_port (Inr 0) (sample_rule LocalForward) (loop_step Timeout 0 (stop_rule ''r'' sample_local))) = Inr ()"
proof -
  have id: "pf_id (sample_rule LocalForward) = ''r''" "pf_local_port (sample_rule LocalForward) \<noteq> 0"
    "pf_forward_type (sample_rule LocalForward) = LocalForward"
    by (simp_all add: sample_rule_def)
  show ?thesis
    using restart_of_local_rule [OF sample_local_reachable, of "sample_rule LocalForward" 0 free_port "Inr 0"]
      sample_local_facts id by auto
qed

lemma stop_reachable: "pf_reachable s \<Longrightarrow> pf_reachable (stop_rule rid s)"
  by (erule pf_reachable.step) (rule pf_step.stop)

text \<open>
  Restarting a remote rule.  When a remote rule is stopped and started again and the new loop
  begins before the old one has noticed its cancellation, the old loop, on leaving, removes the
  registration of the new one: the rule is listed as running, but every channel the server opens
  for it is turned away.
\<close>

theorem restart_of_remote_rule:
  assumes "pf_reachable s" and "hm_get (forwarders s) (pf_id rule) = Some i" and "fw_rule (objs s ! i) = rule"
    and "pf_forward_type rule = RemoteForward" and "pf_local_port rule \<noteq> 0" and "fw_loop (objs s ! i) = Looping"
    and "fw_actual_port (objs s ! i) = Some (pf_local_port rule)" and "ssh_handle s"
    and "s1 = snd (start_rule others (Inr 0) rule (stop_rule (pf_id rule) s))"
    and "s2 = loop_step Timeout i (loop_step Begin (length (objs s)) s1)"
  shows "map_option pfs_running (get_status (pf_id rule) s2) = Some True
    \<and> fst (dispatch (pf_local_host rule, pf_local_port rule) c (loop_step Begin (length (objs s)) s1)) = True
    \<and> fst (dispatch (pf_local_host rule, pf_local_port rule) c s2) = False"
proof -
  have i: "i < length (objs s)" using reachable_inv [OF assms(1)] assms(2) by (simp add: pf_inv_def table_ok_def)
  let ?s = "stop_rule (pf_id rule) s" and ?n = "length (objs s)"
  have obj: "objs ?s = (objs s)[i := stop_forwarder (objs s ! i)]" "ssh_handle ?s"
    "hm_get (forwarders ?s) (pf_id rule) = None" "senders ?s = senders s"
    using i assms(8) by (simp_all add: stop_rule_def assms(2) update_obj_def hm_simps)
  define f where "f = (forwarder_new rule)\<lparr>fw_actual_port := Some (pf_local_port rule), fw_running := True\<rparr>"
  have cast: "(ucast (ucast (pf_local_port rule) :: u32) :: u16) = pf_local_port rule"
    by (rule bit_word_eqI) (simp add: bit_simps)
  have nz: "(ucast (pf_local_port rule) :: u32) \<noteq> 0"
    using cast assms(5) by auto
  have s1: "s1 = add_forwarder f ?s"
    using obj(2,3) assms(4) nz
    by (simp add: assms(9) start_rule_def remote_start_def f_def cast)
  have f: "fw_rule f = rule" "fw_loop f = Spawned" "\<not> fw_cancelled f" "fw_running f"
    "key_of f = (pf_local_host rule, pf_local_port rule)"
    by (simp_all add: f_def forwarder_new_def key_of_def)
  let ?b = "loop_step Begin ?n s1"
  have new: "objs s1 ! ?n = f" "objs s1 ! i = stop_forwarder (objs s ! i)" "length (objs s1) = Suc ?n"
    using i by (simp_all add: s1 add_forwarder_def obj nth_append)
  have b: "?b = update_obj ?n (\<lambda>f. f\<lparr>fw_loop := Looping\<rparr>) (register (key_of f) ?n s1)"
    using f assms(4) by (simp add: loop_step_def new Let_def)
  have bobj: "objs ?b ! i = stop_forwarder (objs s ! i)" "length (objs ?b) = Suc ?n"
    "objs ?b ! ?n = f\<lparr>fw_loop := Looping\<rparr>"
    using i new by (simp_all add: b nth_update_obj register_def)
  have old: "fw_cancelled (objs ?b ! i)" "fw_loop (objs ?b ! i) = Looping" "key_of (objs ?b ! i) = key_of f"
      "pf_forward_type (fw_rule (objs ?b ! i)) = RemoteForward"
    using assms(3,4,6,7) f(5) by (simp_all add: bobj stop_forwarder_def key_of_def)
  have s2: "s2 = end_receive i ?b"
    using old i by (simp add: assms(10) loop_step_def [of Timeout] bobj(2))
  have "fst (dispatch (key_of f) c ?b) = True"
    by (simp add: dispatch_def b register_def hm_simps)
  moreover have "fst (dispatch (key_of f) c s2) = False"
    by (simp add: dispatch_def s2 end_receive_def old(3) unregister_def hm_simps)
  moreover have "forwarders s2 = forwarders s1"
    by (simp add: s2 end_receive_def unregister_def b register_def)
  then have "hm_get (forwarders s2) (pf_id rule) = Some ?n"
    by (simp add: s1 add_forwarder_def f hm_simps obj)
  moreover have "objs s2 ! ?n = f\<lparr>fw_loop := Looping\<rparr>"
    using i bobj by (simp add: s2 end_receive_def unregister_def nth_update_obj)
  ultimately show ?thesis
    using f(4,5) by (simp add: get_status_def status_of_def)
qed

definition sample_remote :: PortForwardManager where
  "sample_remote = loop_step Begin 0 (snd (start_rule free_port (Inr 0) (sample_rule RemoteForward)
     (set_ssh_handle manager_empty)))"

lemma restart_of_remote_rule_witness:
  "fst (dispatch (''127.0.0.1'', 8080) 7 (loop_step Timeout 0 (loop_step Begin 1
     (snd (start_rule free_port (Inr 0) (sample_rule RemoteForward) (stop_rule ''r'' sample_remote)))))) = False"
proof -
  have "pf_reachable (set_ssh_handle manager_empty)"
    by (rule pf_reachable.step [OF pf_reachable.initial]) (rule pf_step.connect)
  then have r: "pf_reachable sample_remote"
    unfolding sample_remote_def by (intro loop_reachable start_reachable)
  have facts: "hm_get (forwarders sample_remote) ''r'' = Some 0" "length (objs sample_remote) = 1"
    "fw_rule (objs sample_remote ! 0) = sample_rule RemoteForward" "fw_loop (objs sample_remote ! 0) = Looping"
    "fw_actual_port (objs sample_remote ! 0) = Some 8080" "ssh_handle sample_remote"
    by (simp_all add: sample_remote_def manager_empty_def start_rule_def hm_simps remote_start_def set_ssh_handle_def
      add_forwarder_def forwarder_new_def loop_step_def update_obj_def sample_rule_def Let_def register_def)
  have id: "pf_id (sample_rule RemoteForward) = ''r''" "pf_local_port (sample_rule RemoteForward) = 8080"
    "pf_forward_type (sample_rule RemoteForward) = RemoteForward" "pf_local_host (sample_rule RemoteForward) = ''127.0.0.1''"
    by (simp_all add: sample_rule_def)
  show ?thesis
    using restart_of_remote_rule [OF r, of "sample_rule RemoteForward" 0 _ free_port] facts id by auto
qed

end
