(* ===== verification/Servers.thy ===== *)
theory Servers
  imports Channels Triggers PortForward
begin

text \<open>
  \<open>crates/core/src/server/lifecycle.rs\<close>, \<open>instance.rs\<close> and \<open>manager.rs\<close>: the status of a server,
  one server with its background tasks, its connection, disconnection and automatic reconnection,
  and the table of servers.  A spawned task is a number with what it does; a task runs until it is
  aborted or ends, whether or not its handle is still stored.  The SSH client is a record of
  functions on a world.
\<close>

section \<open>Statuses\<close>

datatype ServerStatus =
  Disconnected | Connecting | Connected | Reconnecting | AuthRefused | Faulty | Offline

text \<open>\<open>AuthRefused\<close> and \<open>Faulty\<close> stand for the source's \<open>AuthFailed\<close> and \<open>Error\<close>.\<close>

fun valid_transition :: "ServerStatus \<Rightarrow> ServerStatus \<Rightarrow> bool" where
  "valid_transition Disconnected Connecting = True"
| "valid_transition Connecting Connected = True"
| "valid_transition Connecting AuthRefused = True"
| "valid_transition Connecting Reconnecting = True"
| "valid_transition Connecting Faulty = True"
| "valid_transition Connecting Disconnected = True"
| "valid_transition Connected Reconnecting = True"
| "valid_transition Connected Disconnected = True"
| "valid_transition Connected Faulty = True"
| "valid_transition Reconnecting Connected = True"
| "valid_transition Reconnecting Disconnected = True"
| "valid_transition Reconnecting Faulty = True"
| "valid_transition Reconnecting AuthRefused = True"
| "valid_transition AuthRefused Disconnected = True"
| "valid_transition AuthRefused Connecting = True"
| "valid_transition Faulty Disconnected = True"
| "valid_transition Faulty Connecting = True"
| "valid_transition a b = (a = b)"

definition transition :: "ServerStatus \<Rightarrow> ServerStatus \<Rightarrow> bool \<times> ServerStatus" where
  "transition state new_state = (if valid_transition state new_state then (True, new_state) else (False, state))"

inductive status_reachable :: "ServerStatus \<Rightarrow> bool" where
  at_start: "status_reachable Disconnected"
| after: "status_reachable s \<Longrightarrow> status_reachable (snd (transition s t))"

text \<open>The status \<open>Offline\<close>, of a server whose network is down, is never entered.\<close>

lemma never_offline: "status_reachable s \<Longrightarrow> s \<noteq> Offline"
proof (induction rule: status_reachable.induct)
  case (after s t)
  then show ?case by (cases s; cases t) (simp_all add: transition_def)
qed simp

lemma connected_from: "transition s Connected = (True, Connected) \<Longrightarrow> s \<in> {Connecting, Reconnecting, Connected}"
  by (cases s) (simp_all add: transition_def)

section \<open>Server instances\<close>

datatype HealthCheckType = ProcessCheck string | PortCheck u16

datatype task_kind =
    ProxyTask
  | IpCheck "string option"
  | HealthCheck HealthCheckType
  | IntervalTimer string
  | OnceTimer string
  | CronTimer string
  | Monitor

record 'auth ServerInstance =
  si_config :: ServerConfig
  si_status :: ServerStatus
  live_tasks :: "(nat \<times> task_kind) list"
  next_task :: nat
  trigger_engine :: TriggerEngine
  trigger_templates :: "TriggerTemplate list"
  triggers :: "TriggerInstance list"
  port_forward_manager :: PortForwardManager
  opener_handle :: bool
  current_ip :: "string option"
  client_ip :: "string option"
  host_key_fingerprint :: "string option"
  proxy_tasks :: "nat list"
  ip_check_task :: "nat option"
  health_check_tasks :: "nat list"
  interval_timer_tasks :: "nat list"
  connection_monitor_task :: "nat option"
  proxy_was_running :: bool
  proxy_running :: bool
  channel_manager :: "ChannelManager option"
  rz_available :: bool
  last_auth :: "'auth option"
  status_broadcasts :: "ServerStatus list"
  result_broadcasts :: "(TriggerEvent \<times> TriggerExecutionResult list) list"

text \<open>
  The surroundings: the SSH client (connecting, whether it has a handle and is connected,
  disconnecting, the host key it recorded, running a command), the runner of the triggers, the
  answers of the operating system and of the server for forwarding rules, the stored last address,
  the address parser, the delay to a scheduled time and the validity of a cron expression.
\<close>

record ('auth, 'w) ssh_env =
  env_connect :: "'auth \<Rightarrow> 'w \<Rightarrow> (Error + unit) \<times> 'w"
  env_handle :: "'w \<Rightarrow> bool"
  env_connected :: "'w \<Rightarrow> bool"
  env_disconnect :: "'w \<Rightarrow> (Error + unit) \<times> 'w"
  env_recorded_key :: "'w \<Rightarrow> string option"
  env_exec :: "string \<Rightarrow> u64 \<Rightarrow> 'w \<Rightarrow> (Error + ExecResult) \<times> 'w"
  env_sleep :: "nat \<Rightarrow> 'w \<Rightarrow> 'w"
  env_runner :: "'w runner"
  env_bind :: "string \<Rightarrow> u16 \<Rightarrow> io_error + unit"
  env_forward :: "PortForwardRule \<Rightarrow> string + u32"
  env_stored_ip :: "string \<Rightarrow> 'w \<Rightarrow> string option"
  env_store_ip :: "string \<Rightarrow> string \<Rightarrow> 'w \<Rightarrow> 'w"
  env_valid_ip :: "string \<Rightarrow> bool"
  env_delay :: "string \<Rightarrow> nat option"
  env_cron_ok :: "string \<Rightarrow> bool"

definition instance_new :: "ServerConfig \<Rightarrow> 'auth ServerInstance" where
  "instance_new cfg =
     \<lparr>si_config = cfg, si_status = Disconnected, live_tasks = [], next_task = 0, trigger_engine = engine_new,
      trigger_templates = [], triggers = srv_triggers cfg, port_forward_manager = manager_empty,
      opener_handle = False, current_ip = None, client_ip = None,
      host_key_fingerprint = ssh_host_key_fingerprint (srv_ssh cfg), proxy_tasks = [], ip_check_task = None,
      health_check_tasks = [], interval_timer_tasks = [], connection_monitor_task = None,
      proxy_was_running = False, proxy_running = False, channel_manager = None, rz_available = False,
      last_auth = None, status_broadcasts = [], result_broadcasts = []\<rparr>"

text \<open>Spawning and aborting a task.\<close>

definition spawn :: "task_kind \<Rightarrow> 'auth ServerInstance \<Rightarrow> nat \<times> 'auth ServerInstance" where
  "spawn k si = (next_task si, si\<lparr>live_tasks := live_tasks si @ [(next_task si, k)], next_task := next_task si + 1\<rparr>)"

definition abort_tasks :: "nat list \<Rightarrow> 'auth ServerInstance \<Rightarrow> 'auth ServerInstance" where
  "abort_tasks ids si = si\<lparr>live_tasks := filter (\<lambda>(i, _). i \<notin> set ids) (live_tasks si)\<rparr>"

fun spawn_all :: "task_kind list \<Rightarrow> 'auth ServerInstance \<Rightarrow> nat list \<times> 'auth ServerInstance" where
  "spawn_all [] si = ([], si)"
| "spawn_all (k # ks) si =
     (let (i, si1) = spawn k si; (is, si2) = spawn_all ks si1 in (i # is, si2))"

section \<open>The proxy of a server\<close>

definition start_proxy :: "'auth ServerInstance \<Rightarrow> 'auth ServerInstance" where
  "start_proxy si =
     (if proxy_running si then si
      else (let cfg = srv_proxy (si_config si);
                si1 = si\<lparr>channel_manager := Some (manager_new (px_max_channels cfg))\<rparr>;
                (ids, si2) = spawn_all (if 0 < px_mixed_port cfg then [ProxyTask] else [ProxyTask, ProxyTask]) si1
            in si2\<lparr>proxy_tasks := ids, proxy_running := True, proxy_was_running := True\<rparr>))"

definition stop_proxy :: "'auth ServerInstance \<Rightarrow> 'auth ServerInstance" where
  "stop_proxy si =
     (if \<not> proxy_running si then si
      else (abort_tasks (proxy_tasks si) si)
        \<lparr>proxy_tasks := [], channel_manager := None, proxy_running := False, proxy_was_running := False\<rparr>)"

definition server_channels :: "'auth ServerInstance \<Rightarrow> u32" where
  "server_channels si =
     (if \<not> proxy_running si then 0
      else (case channel_manager si of Some m \<Rightarrow> active_channel_count m | None \<Rightarrow> 0))"

section \<open>Background work\<close>

definition lookup_first :: "(string, string) hm \<Rightarrow> string \<Rightarrow> string \<Rightarrow> string" where
  "lookup_first ps a b =
     (case hm_get ps a of Some v \<Rightarrow> v | None \<Rightarrow> (case hm_get ps b of Some v \<Rightarrow> v | None \<Rightarrow> []))"

definition health_config :: "TriggerTemplate list \<Rightarrow> TriggerInstance \<Rightarrow> HealthCheckType option" where
  "health_config templates trigger =
     (if \<not> trg_enabled trigger then None
      else (case find (\<lambda>t. tmpl_id t = trg_template_id trigger) templates of
              None \<Rightarrow> None
            | Some tmpl \<Rightarrow>
                (if tmpl_trigger_type tmpl = OnProcessDead then
                   (let name = lookup_first (trg_parameters trigger) ''ProcessName'' ''process''
                    in if name \<noteq> [] then Some (ProcessCheck name) else None)
                 else if tmpl_trigger_type tmpl = OnPortClosed then
                   map_option (\<lambda>n. PortCheck (word_of_nat n))
                     (parse_uint 65535 (lookup_first (trg_parameters trigger) ''ProtectedPort'' ''port''))
                 else None)))"

text \<open>The health checks of the configured triggers are added to those that run already.\<close>

definition start_health_checks :: "'auth ServerInstance \<Rightarrow> 'auth ServerInstance" where
  "start_health_checks si =
     (let checks = List.map_filter (health_config (trigger_templates si)) (srv_triggers (si_config si))
      in if checks = [] then si
         else (let (ids, si1) = spawn_all (map HealthCheck checks) si
               in si1\<lparr>health_check_tasks := health_check_tasks si1 @ ids\<rparr>))"

text \<open>A trigger's timer, if it has one: \<open>None\<close> also for a time in the past or an expression that does not parse.\<close>

definition timer_of :: "(string \<Rightarrow> nat option) \<Rightarrow> (string \<Rightarrow> bool) \<Rightarrow> TriggerInstance \<Rightarrow> task_kind option" where
  "timer_of delay cron_ok t =
     (if \<not> trg_enabled t then None
      else if trg_trigger_type t = OnInterval then
        (if 0 < trg_interval_secs t then Some (IntervalTimer (trg_id t)) else None)
      else if trg_trigger_type t = OnSchedule then
        (if trg_schedule_mode t = ''once'' \<and> trg_scheduled_at t \<noteq> [] then
           (case delay (trg_scheduled_at t) of
              None \<Rightarrow> None
            | Some d \<Rightarrow> if d = 0 then None else Some (OnceTimer (trg_id t)))
         else if trg_schedule_mode t = ''cron'' \<and> trg_cron_expr t \<noteq> [] then
           (if cron_ok (trg_cron_expr t) then Some (CronTimer (trg_id t)) else None)
         else None)
      else None)"

definition start_interval_timers :: "('auth, 'w) ssh_env \<Rightarrow> 'auth ServerInstance \<Rightarrow> 'auth ServerInstance" where
  "start_interval_timers env si =
     (let si1 = (abort_tasks (interval_timer_tasks si) si)\<lparr>interval_timer_tasks := []\<rparr>;
          timers = List.map_filter (timer_of (env_delay env) (env_cron_ok env)) (triggers si1);
          (ids, si2) = spawn_all timers si1
      in si2\<lparr>interval_timer_tasks := ids\<rparr>)"

text \<open>The new check replaces the handle of the previous one, which goes on running.\<close>

definition start_ip_detection :: "('auth, 'w) ssh_env \<Rightarrow> 'auth ServerInstance \<Rightarrow> 'w \<Rightarrow> 'auth ServerInstance" where
  "start_ip_detection env si w =
     (let stored = env_stored_ip env (srv_id (si_config si)) w;
          initial = (case stored of Some ip \<Rightarrow> Some ip | None \<Rightarrow> srv_last_known_ip (si_config si));
          (i, si1) = spawn (IpCheck initial) si
      in si1\<lparr>ip_check_task := Some i\<rparr>)"

section \<open>Firing triggers\<close>

text \<open>A panic inside a trigger ends the operation: the first component is then \<open>False\<close>.\<close>

definition server_event :: "'auth ServerInstance \<Rightarrow> TriggerType \<Rightarrow> TriggerEvent" where
  "server_event si t = (manual_event (srv_id (si_config si)) (srv_name (si_config si)))\<lparr>ev_trigger_type := t\<rparr>"

definition check_rz :: "('auth, 'w) ssh_env \<Rightarrow> 'auth ServerInstance \<Rightarrow> 'w \<Rightarrow> 'auth ServerInstance \<times> 'w" where
  "check_rz env si w =
     (if \<not> env_handle env w then (si, w)
      else (case env_exec env ''command -v rz 2>/dev/null || which rz 2>/dev/null'' 5 w of
              (Inr r, w') \<Rightarrow> (si\<lparr>rz_available := is_success r \<and> trim (ex_stdout r) \<noteq> []\<rparr>, w')
            | (Inl _, w') \<Rightarrow> (si\<lparr>rz_available := False\<rparr>, w')))"

definition fire_connection_triggers ::
  "TriggerType \<Rightarrow> ('auth, 'w) ssh_env \<Rightarrow> 'auth ServerInstance \<Rightarrow> 'w \<Rightarrow> bool \<times> 'auth ServerInstance \<times> 'w" where
  "fire_connection_triggers ttype env si w =
     (let (si1, w1) = check_rz env si w;
          event = server_event si1 ttype;
          background = filter (\<lambda>t. \<not> (trg_trigger_type t = ttype \<and> trg_exec_in_terminal t)) (triggers si1);
          (rs, e, w2) = fire_event (env_runner env) background (trigger_templates si1) event (trigger_engine si1) w1;
          si2 = si1\<lparr>trigger_engine := e\<rparr>
      in case rs of
           None \<Rightarrow> (False, si2, w2)
         | Some results \<Rightarrow> (True, si2\<lparr>result_broadcasts := result_broadcasts si2 @ [(event, results)]\<rparr>, w2))"

section \<open>Connecting and disconnecting\<close>

definition with_handle :: "('auth, 'w) ssh_env \<Rightarrow> 'auth ServerInstance \<Rightarrow> 'w \<Rightarrow> 'auth ServerInstance" where
  "with_handle env si w =
     (if env_handle env w
      then si\<lparr>opener_handle := True, port_forward_manager := set_ssh_handle (port_forward_manager si)\<rparr> else si)"

definition start_forwards :: "('auth, 'w) ssh_env \<Rightarrow> 'auth ServerInstance \<Rightarrow> 'auth ServerInstance" where
  "start_forwards env si =
     si\<lparr>port_forward_manager := start_auto_rules (env_bind env) (env_forward env)
          (srv_port_forwards (si_config si)) (port_forward_manager si)\<rparr>"

definition learn_client_ip :: "('auth, 'w) ssh_env \<Rightarrow> 'auth ServerInstance \<Rightarrow> 'w \<Rightarrow> 'auth ServerInstance \<times> 'w" where
  "learn_client_ip env si w =
     (if env_handle env w
      then (case detect_client_ip (env_valid_ip env) (env_exec env) w of
              (Inr ip, w') \<Rightarrow> (si\<lparr>client_ip := Some ip\<rparr>, w')
            | (Inl _, w') \<Rightarrow> (si, w'))
      else (si, w))"

definition come_online ::
  "('auth, 'w) ssh_env \<Rightarrow> 'auth \<Rightarrow> 'auth ServerInstance \<Rightarrow> 'w \<Rightarrow> (Error + unit) option \<times> 'auth ServerInstance \<times> 'w" where
  "come_online env auth si w =
     (let si1 = (case env_recorded_key env w of
                   Some fp \<Rightarrow> si\<lparr>host_key_fingerprint := Some fp\<rparr> | None \<Rightarrow> si);
          si2 = si1\<lparr>si_status := Connected, last_auth := Some auth\<rparr>;
          si3 = (if ipc_enabled (srv_ip_check (si_config si2)) then start_ip_detection env si2 w else si2);
          si4 = start_interval_timers env (start_health_checks si3);
          (ok, si5, w') = fire_connection_triggers OnConnect env si4 w
      in if ok then (Some (Inr ()), start_forwards env si5, w') else (None, si5, w'))"

definition connect ::
  "('auth, 'w) ssh_env \<Rightarrow> 'auth \<Rightarrow> 'auth ServerInstance \<Rightarrow> 'w \<Rightarrow> (Error + unit) option \<times> 'auth ServerInstance \<times> 'w" where
  "connect env auth si w =
     (case env_connect env auth w of
        (Inl e, w1) \<Rightarrow>
          (Some (Inl e),
           si\<lparr>si_status := (case e of Ipc ipc \<Rightarrow> if err_code ipc = AuthFailed then AuthRefused else Faulty | _ \<Rightarrow> Faulty)\<rparr>, w1)
      | (Inr _, w1) \<Rightarrow>
          (let (si1, w2) = learn_client_ip env (with_handle env (si\<lparr>si_status := Connecting\<rparr>) w1) w1
           in come_online env auth si1 w2))"

definition stop_connection_monitor :: "'auth ServerInstance \<Rightarrow> 'auth ServerInstance" where
  "stop_connection_monitor si =
     (case connection_monitor_task si of
        None \<Rightarrow> si
      | Some i \<Rightarrow> (abort_tasks [i] si)\<lparr>connection_monitor_task := None\<rparr>)"

definition abort_checks :: "'auth ServerInstance \<Rightarrow> 'auth ServerInstance" where
  "abort_checks si =
     (let si1 = (case ip_check_task si of
                   None \<Rightarrow> si | Some i \<Rightarrow> (abort_tasks [i] si)\<lparr>ip_check_task := None\<rparr>);
          si2 = (abort_tasks (health_check_tasks si1) si1)\<lparr>health_check_tasks := []\<rparr>
      in (abort_tasks (interval_timer_tasks si2) si2)\<lparr>interval_timer_tasks := []\<rparr>)"

definition disconnect ::
  "('auth, 'w) ssh_env \<Rightarrow> 'auth ServerInstance \<Rightarrow> 'w \<Rightarrow> (Error + unit) \<times> 'auth ServerInstance \<times> 'w" where
  "disconnect env si w =
     (let si1 = stop_proxy (stop_connection_monitor si);
          si2 = si1\<lparr>port_forward_manager := clear_ssh_handle (stop_all (port_forward_manager si1))\<rparr>;
          si3 = (abort_checks si2)\<lparr>opener_handle := False\<rparr>
      in case env_disconnect env w of
           (Inl e, w1) \<Rightarrow> (Inl e, si3, w1)
         | (Inr _, w1) \<Rightarrow> (Inr (), si3\<lparr>si_status := Disconnected\<rparr>, w1))"

text \<open>What the user is shown: a connected server whose SSH connection is gone counts as disconnected.\<close>

definition shown_status :: "('auth, 'w) ssh_env \<Rightarrow> 'auth ServerInstance \<Rightarrow> 'w \<Rightarrow> ServerStatus" where
  "shown_status env si w =
     (if si_status si = Connected \<and> \<not> env_connected env w then Disconnected else si_status si)"

section \<open>Automatic reconnection\<close>

definition backoff_secs :: "nat \<Rightarrow> nat" where
  "backoff_secs elapsed =
     (if elapsed < 10 then 1 else if elapsed < 60 then 3 else if elapsed < 300 then 10
      else if elapsed < 900 then 30 else 60)"

text \<open>
  The attempts, until one succeeds or the waiting times add up to the timeout; a timeout of zero
  means no limit, and then the loop may never end (\<open>None\<close>).  The result is whether it succeeded,
  the world, the seconds waited and the number of attempts.
\<close>

partial_function (option) reconnect_loop ::
  "('auth, 'w) ssh_env \<Rightarrow> 'auth \<Rightarrow> nat \<Rightarrow> nat \<Rightarrow> nat \<Rightarrow> 'w \<Rightarrow> (bool \<times> 'w \<times> nat \<times> nat) option" where
  "reconnect_loop env auth timeout elapsed attempt w =
     (if 0 < timeout \<and> timeout \<le> elapsed then Some (False, w, elapsed, attempt)
      else (let backoff = backoff_secs elapsed
            in case env_connect env auth (env_sleep env backoff w) of
                 (Inr _, w') \<Rightarrow> Some (True, w', elapsed + backoff, attempt + 1)
               | (Inl _, w') \<Rightarrow> reconnect_loop env auth timeout (elapsed + backoff) (attempt + 1) w'))"

declare reconnect_loop.simps [code]

definition set_and_broadcast :: "ServerStatus \<Rightarrow> 'auth ServerInstance \<Rightarrow> 'auth ServerInstance" where
  "set_and_broadcast s si = si\<lparr>si_status := s, status_broadcasts := status_broadcasts si @ [s]\<rparr>"

definition after_reconnect ::
  "('auth, 'w) ssh_env \<Rightarrow> 'auth ServerInstance \<Rightarrow> 'w \<Rightarrow> bool \<times> 'auth ServerInstance \<times> 'w" where
  "after_reconnect env si w =
     (let si1 = set_and_broadcast Connected (with_handle env si w);
          si2 = (if proxy_was_running si1 then start_proxy si1 else si1);
          si3 = start_forwards env (si2\<lparr>port_forward_manager := stop_all (port_forward_manager si2)\<rparr>);
          si4 = (if ipc_enabled (srv_ip_check (si_config si3)) then start_ip_detection env si3 w else si3)
      in fire_connection_triggers OnReconnect env (start_health_checks si4) w)"

datatype round = Continue | Stopped | Panicked

text \<open>One round of the connection monitor; \<open>None\<close> when its reconnection never ends.\<close>

definition monitor_round ::
  "('auth, 'w) ssh_env \<Rightarrow> 'auth ServerInstance \<Rightarrow> 'w \<Rightarrow> (round \<times> 'auth ServerInstance \<times> 'w) option" where
  "monitor_round env si w =
     (if \<not> rc_auto_reconnect (srv_reconnect (si_config si)) then Some (Continue, si, w)
      else if env_connected env w then Some (Continue, si, w)
      else if si_status si = Disconnected then Some (Stopped, si, w)
      else (let si1 = set_and_broadcast Reconnecting si in
        case last_auth si1 of
          None \<Rightarrow> Some (Stopped, set_and_broadcast Faulty si1, w)
        | Some auth \<Rightarrow>
            (case reconnect_loop env auth (unat (rc_reconnect_timeout_secs (srv_reconnect (si_config si)))) 0 0 w of
               None \<Rightarrow> None
             | Some (False, w', _, _) \<Rightarrow> Some (Stopped, set_and_broadcast Faulty si1, w')
             | Some (True, w', _, _) \<Rightarrow>
                 (let (ok, si2, w2) = after_reconnect env si1 w'
                  in Some (if ok then Continue else Panicked, si2, w2)))))"

definition start_connection_monitor :: "'auth ServerInstance \<Rightarrow> 'auth ServerInstance" where
  "start_connection_monitor si =
     (let (i, si1) = spawn Monitor (stop_connection_monitor si) in si1\<lparr>connection_monitor_task := Some i\<rparr>)"

text \<open>Connecting with the client's own reconnection, given its result.\<close>

definition connect_with_reconnect ::
  "('auth, 'w) ssh_env \<Rightarrow> Error + unit \<Rightarrow> 'auth ServerInstance \<Rightarrow> 'w \<Rightarrow> (Error + unit) option \<times> 'auth ServerInstance \<times> 'w" where
  "connect_with_reconnect env result si w =
     (case result of
        Inl e \<Rightarrow> (Some (Inl e), si, w)
      | Inr _ \<Rightarrow>
          (let si1 = (with_handle env si w)\<lparr>si_status := Connected\<rparr>;
               si2 = (if px_enabled (srv_proxy (si_config si1)) then start_proxy si1 else si1);
               si3 = (if ipc_enabled (srv_ip_check (si_config si2)) then start_ip_detection env si2 w else si2);
               (ok, si4, w2) = fire_connection_triggers OnReconnect env
                  (start_interval_timers env (start_health_checks si3)) w
           in if ok then (Some (Inr ()), start_forwards env si4, w2) else (None, si4, w2)))"

section \<open>What the background tasks do\<close>

text \<open>A round of an address check: the change it saw, and the event it fires.\<close>

definition ip_event :: "'auth ServerInstance \<Rightarrow> string \<Rightarrow> string option \<Rightarrow> TriggerEvent" where
  "ip_event si new_ip old_ip = (server_event si OnIpChange)\<lparr>ev_new_ip := Some new_ip, ev_old_ip := old_ip\<rparr>"

definition ip_check_round ::
  "('auth, 'w) ssh_env \<Rightarrow> nat \<Rightarrow> string option \<Rightarrow> TriggerInstance list \<Rightarrow> 'auth ServerInstance \<Rightarrow> 'w \<Rightarrow>
   bool \<times> 'auth ServerInstance \<times> 'w" where
  "ip_check_round env i last_ip task_triggers si w =
     (case (if env_handle env w then detect_client_ip (env_valid_ip env) (env_exec env) w
            else (Inl (Other ''no SSH handle''), w)) of
        (Inl _, w1) \<Rightarrow> (True, si, w1)
      | (Inr new_ip, w1) \<Rightarrow>
          (let si1 = si\<lparr>current_ip := Some new_ip\<rparr>
           in if last_ip = Some new_ip then (True, si1, w1)
              else (let si2 = si1\<lparr>live_tasks := map (\<lambda>(j, k). (j, if j = i then IpCheck (Some new_ip) else k)) (live_tasks si1)\<rparr>;
                        (rs, e, w2) = fire_event (env_runner env) task_triggers (trigger_templates si2)
                           (ip_event si2 new_ip last_ip) (trigger_engine si2)
                           (env_store_ip env (srv_id (si_config si2)) new_ip w1)
                    in (rs \<noteq> None, si2\<lparr>trigger_engine := e\<rparr>, w2))))"

definition health_command :: "HealthCheckType \<Rightarrow> Error + string" where
  "health_command check =
     (case check of
        ProcessCheck name \<Rightarrow>
          (if name = [] then Inl (Other ''process name must not be empty'')
           else if list_all (\<lambda>c. allowed_char c \<and> c \<notin> {CHR '' '', CHR '':'', CHR '','', CHR ''@''}) name
           then Inr (''pgrep -x '' @ shell_escape name)
           else Inl (Other (''process name contains illegal characters: '' @ name)))
      | PortCheck port \<Rightarrow>
          Inr (''ss -tln | grep '' @ [CHR 0x27] @ '':'' @ show_nat (unat port) @ '' '' @ [CHR 0x27] @ '' | grep -v grep''))"

text \<open>A round of a health check; the task stops when the connection is gone.\<close>

definition health_round ::
  "('auth, 'w) ssh_env \<Rightarrow> HealthCheckType \<Rightarrow> TriggerTemplate list \<Rightarrow> 'auth ServerInstance \<Rightarrow> 'w \<Rightarrow>
   round \<times> 'auth ServerInstance \<times> 'w" where
  "health_round env check templates si w =
     (if \<not> env_connected env w then (Stopped, si, w)
      else (case health_command check of
          Inl _ \<Rightarrow> (Continue, si, w)
        | Inr command \<Rightarrow>
            (case env_exec env command 10 w of
               (Inl _, w1) \<Rightarrow> (Continue, si, w1)
             | (Inr r, w1) \<Rightarrow>
                 if is_success r \<and> trim (ex_stdout r) \<noteq> [] then (Continue, si, w1)
                 else (let t = (case check of ProcessCheck _ \<Rightarrow> OnProcessDead | PortCheck _ \<Rightarrow> OnPortClosed);
                           (rs, e, w2) = fire_event (env_runner env) (srv_triggers (si_config si)) templates
                              (server_event si t) (trigger_engine si) w1
                       in (if rs = None then Panicked else Continue, si\<lparr>trigger_engine := e\<rparr>, w2)))))"

text \<open>
  A tick of an interval or cron timer, and the single shot of a one-time timer, which disables its
  trigger.  The event carries the type of the timer only, not the trigger it belongs to.
\<close>

fun disable_first :: "string \<Rightarrow> TriggerInstance list \<Rightarrow> TriggerInstance list" where
  "disable_first tid [] = []"
| "disable_first tid (t # ts) =
     (if trg_id t = tid then t\<lparr>trg_enabled := False\<rparr> # ts else t # disable_first tid ts)"

definition timer_tick ::
  "('auth, 'w) ssh_env \<Rightarrow> task_kind \<Rightarrow> TriggerTemplate list \<Rightarrow> 'auth ServerInstance \<Rightarrow> 'w \<Rightarrow>
   TriggerExecutionResult list option \<times> 'auth ServerInstance \<times> 'w" where
  "timer_tick env k templates si w =
     (let t = (case k of IntervalTimer _ \<Rightarrow> OnInterval | _ \<Rightarrow> OnSchedule);
          (rs, e, w1) = fire_event (env_runner env) (triggers si) templates (server_event si t) (trigger_engine si) w;
          si1 = si\<lparr>trigger_engine := e\<rparr>
      in (rs, case k of
            OnceTimer tid \<Rightarrow>
              if rs = None then si1
              else si1\<lparr>triggers := disable_first tid (triggers si1)\<rparr>
          | _ \<Rightarrow> si1, w1))"

section \<open>The table of servers\<close>

record 'auth ServerManager =
  servers :: "(string, 'auth ServerInstance) hm"
  connect_count :: nat

definition MAX_CONCURRENT_CONNECTIONS :: nat where "MAX_CONCURRENT_CONNECTIONS = 3"

definition servers_new :: "'auth ServerManager" where
  "servers_new = \<lparr>servers = [], connect_count = 0\<rparr>"

definition add_server :: "ServerConfig \<Rightarrow> 'auth ServerManager \<Rightarrow> (Error + string) \<times> 'auth ServerManager" where
  "add_server cfg m =
     (if hm_get (servers m) (srv_id cfg) \<noteq> None then
        (Inl (ipc_err Internal (''server '' @ srv_id cfg @ '' already exists'')), m)
      else (Inr (srv_id cfg), m\<lparr>servers := hm_insert (srv_id cfg) (instance_new cfg) (servers m)\<rparr>))"

text \<open>Errors of a disconnection are ignored by the operations below; the instance is dropped.\<close>

definition remove_server :: "('auth, 'w) ssh_env \<Rightarrow> string \<Rightarrow> 'auth ServerManager \<Rightarrow> 'w \<Rightarrow> 'auth ServerManager \<times> 'w" where
  "remove_server env server_id m w =
     (case hm_get (servers m) server_id of
        None \<Rightarrow> (m, w)
      | Some si \<Rightarrow> (m\<lparr>servers := hm_remove server_id (servers m)\<rparr>, snd (snd (disconnect env si w))))"

definition get_server :: "string \<Rightarrow> 'auth ServerManager \<Rightarrow> Error + 'auth ServerInstance" where
  "get_server server_id m =
     (case hm_get (servers m) server_id of
        Some si \<Rightarrow> Inr si
      | None \<Rightarrow> Inl (ipc_err ServerNotFound (''server '' @ server_id @ '' not found'')))"

definition list_server_ids :: "'auth ServerManager \<Rightarrow> string list" where
  "list_server_ids m = hm_keys (servers m)"

definition reload_server_config ::
  "('auth, 'w) ssh_env \<Rightarrow> string \<Rightarrow> ServerConfig \<Rightarrow> 'auth ServerManager \<Rightarrow> 'w \<Rightarrow> 'auth ServerManager \<times> 'w" where
  "reload_server_config env server_id new_config m w =
     (let w1 = (case hm_get (servers m) server_id of
                  None \<Rightarrow> w
                | Some old \<Rightarrow> if si_status old = Connected \<or> si_status old = Connecting
                              then snd (snd (disconnect env old w)) else w)
      in (m\<lparr>servers := hm_insert server_id (instance_new new_config) (servers m)\<rparr>, w1))"

definition sync_one ::
  "('auth, 'w) ssh_env \<Rightarrow> ServerConfig \<Rightarrow> 'auth ServerManager \<times> 'w \<Rightarrow> 'auth ServerManager \<times> 'w" where
  "sync_one env cfg mw =
     (case hm_get (servers (fst mw)) (srv_id cfg) of
        Some existing \<Rightarrow>
          if si_config existing = cfg then mw
          else ((fst mw)\<lparr>servers := hm_insert (srv_id cfg) (instance_new cfg) (servers (fst mw))\<rparr>,
                snd (snd (disconnect env existing (snd mw))))
      | None \<Rightarrow> ((fst mw)\<lparr>servers := hm_insert (srv_id cfg) (instance_new cfg) (servers (fst mw))\<rparr>, snd mw))"

definition sync_from_config ::
  "('auth, 'w) ssh_env \<Rightarrow> ServerConfig list \<Rightarrow> 'auth ServerManager \<Rightarrow> 'w \<Rightarrow> 'auth ServerManager \<times> 'w" where
  "sync_from_config env configs m w =
     (let to_remove = filter (\<lambda>id. id \<notin> srv_id ` set configs) (hm_keys (servers m));
          (m1, w1) = fold (\<lambda>id (m, w). remove_server env id m w) to_remove (m, w)
      in fold (sync_one env) configs (m1, w1))"

definition try_acquire_connection :: "'auth ServerManager \<Rightarrow> (Error + unit) \<times> 'auth ServerManager" where
  "try_acquire_connection m =
     (if MAX_CONCURRENT_CONNECTIONS \<le> connect_count m then
        (Inl (ipc_err Internal (''max '' @ show_nat MAX_CONCURRENT_CONNECTIONS @ '' concurrent SSH connections reached'')), m)
      else (Inr (), m\<lparr>connect_count := connect_count m + 1\<rparr>))"

definition release_connection :: "'auth ServerManager \<Rightarrow> 'auth ServerManager" where
  "release_connection m = (if 0 < connect_count m then m\<lparr>connect_count := connect_count m - 1\<rparr> else m)"

definition live_socks5_port_in_use :: "u16 \<Rightarrow> string option \<Rightarrow> 'auth ServerManager \<Rightarrow> bool" where
  "live_socks5_port_in_use port excl m =
     list_ex (\<lambda>(_, s). let p = srv_proxy (si_config s) in
         px_socks5_port p = port \<or> (0 < px_mixed_port p \<and> px_mixed_port p = port))
       (filter (\<lambda>(i, _). Some i \<noteq> excl) (servers m))"

definition live_http_port_in_use :: "u16 \<Rightarrow> string option \<Rightarrow> 'auth ServerManager \<Rightarrow> bool" where
  "live_http_port_in_use port excl m =
     list_ex (\<lambda>(_, s). let p = srv_proxy (si_config s) in
         px_http_port p = port \<or> (0 < px_mixed_port p \<and> px_mixed_port p = port))
       (filter (\<lambda>(i, _). Some i \<noteq> excl) (servers m))"

definition live_mixed_port_in_use :: "u16 \<Rightarrow> string option \<Rightarrow> 'auth ServerManager \<Rightarrow> bool" where
  "live_mixed_port_in_use port excl m =
     list_ex (\<lambda>(_, s). let p = srv_proxy (si_config s) in
         px_mixed_port p = port \<or> px_socks5_port p = port \<or> px_http_port p = port)
       (filter (\<lambda>(i, _). Some i \<noteq> excl) (servers m))"

section \<open>Reconnection ends\<close>



lemma reconnect_step:
  "e < timeout \<or> timeout = 0 \<Longrightarrow> reconnect_loop env auth timeout e a w =
     (case env_connect env auth (env_sleep env (backoff_secs e) w) of
        (Inr _, w') \<Rightarrow> Some (True, w', e + backoff_secs e, a + 1)
      | (Inl _, w') \<Rightarrow> reconnect_loop env auth timeout (e + backoff_secs e) (a + 1) w')"
  by (subst reconnect_loop.simps) (auto simp: Let_def)







text \<open>The surroundings of the examples: the server is up from a given attempt on, and runs no command.\<close>

definition flaky_env :: "nat \<Rightarrow> (string, nat) ssh_env" where
  "flaky_env up =
     \<lparr>env_connect = (\<lambda>auth w. (if up \<le> w then Inr () else Inl (Other ''connection refused''), w + 1)),
      env_handle = (\<lambda>w. up \<le> w), env_connected = (\<lambda>w. up \<le> w \<and> even w), env_disconnect = (\<lambda>w. (Inr (), w)),
      env_recorded_key = (\<lambda>w. None), env_exec = (\<lambda>c t w. (Inl (Other ''no channel''), w)),
      env_sleep = (\<lambda>n w. w), env_runner = echo_runner, env_bind = (\<lambda>h p. Inr ()),
      env_forward = (\<lambda>r. Inr 0), env_stored_ip = (\<lambda>i w. None), env_store_ip = (\<lambda>i ip w. w), env_valid_ip = (\<lambda>s. True),
      env_delay = (\<lambda>s. None), env_cron_ok = (\<lambda>s. True)\<rparr>"


section \<open>The table follows the configuration\<close>

text \<open>What the table of servers promises: a map from identifiers to configurations.\<close>

definition table :: "'auth ServerManager \<Rightarrow> string \<Rightarrow> ServerConfig option" where
  "table m i = map_option si_config (hm_get (servers m) i)"

definition config_map :: "ServerConfig list \<Rightarrow> string \<Rightarrow> ServerConfig option" where
  "config_map cs = fold (\<lambda>c m. m(srv_id c \<mapsto> c)) cs (\<lambda>i. None)"

lemma instance_new_config [simp]: "si_config (instance_new cfg) = cfg"
  by (simp add: instance_new_def)

lemma fold_insert_dom: "(\<forall>c\<in>set cs. srv_id c \<noteq> i) \<Longrightarrow> fold (\<lambda>c m. m(srv_id c \<mapsto> c)) cs m i = m i"
  by (induction cs arbitrary: m) auto

lemma fold_insert_agree:
  "i \<in> srv_id ` set cs \<Longrightarrow> fold (\<lambda>c m. m(srv_id c \<mapsto> c)) cs m i = fold (\<lambda>c m. m(srv_id c \<mapsto> c)) cs m' i"
proof (induction cs arbitrary: m m')
  case (Cons c cs)
  show ?case
  proof (cases "i \<in> srv_id ` set cs")
    case True
    then show ?thesis using Cons.IH by simp
  next
    case False
    then have "\<forall>d\<in>set cs. srv_id d \<noteq> i" by auto
    from fold_insert_dom [OF this] have "fold (\<lambda>c m. m(srv_id c \<mapsto> c)) cs m'' i = m'' i" for m'' .
    moreover have "srv_id c = i" using False Cons.prems by auto
    ultimately show ?thesis by (simp del: fun_upd_apply) simp
  qed
qed simp

lemma sync_one_table: "table (fst (sync_one env c mw)) = (table (fst mw))(srv_id c \<mapsto> c)"
  by (auto simp: sync_one_def table_def hm_simps fun_eq_iff split: option.splits)

lemma sync_all_table: "table (fst (fold (sync_one env) cs mw)) = fold (\<lambda>c m. m(srv_id c \<mapsto> c)) cs (table (fst mw))"
  by (induction cs arbitrary: mw) (simp_all add: sync_one_table)

lemma remove_server_get:
  "hm_get (servers (fst (remove_server env i m w))) = (hm_get (servers m))(i := None)"
  by (auto simp: remove_server_def hm_simps fun_eq_iff split: option.splits)

lemma remove_all_get:
  "hm_get (servers (fst (fold (\<lambda>i (m, w). remove_server env i m w) is mw))) j =
     (if j \<in> set is then None else hm_get (servers (fst mw)) j)"
  by (induction "is" arbitrary: mw) (auto simp: remove_server_get split: prod.splits)

lemma sync_keeps:
  "distinct (map srv_id cs) \<Longrightarrow> hm_get (servers (fst mw)) i = Some s \<Longrightarrow> si_config s \<in> set cs \<and> srv_id (si_config s) = i \<or> i \<notin> srv_id ` set cs \<Longrightarrow>
   hm_get (servers (fst (fold (sync_one env) cs mw))) i = Some s"
proof (induction cs arbitrary: mw)
  case (Cons c cs)
  have k: "hm_get (servers (fst (sync_one env c mw))) i = Some s"
  proof (cases "srv_id c = i")
    case True
    with Cons.prems have "si_config s = c" by (auto simp: image_iff)
    with True Cons.prems(2) show ?thesis by (simp add: sync_one_def)
  next
    case False
    then show ?thesis using Cons.prems(2) by (auto simp: sync_one_def hm_simps split: option.splits)
  qed
  have "si_config s \<in> set cs \<and> srv_id (si_config s) = i \<or> i \<notin> srv_id ` set cs"
    using Cons.prems by (auto simp: image_iff)
  then show ?case using Cons.IH [OF _ k] Cons.prems(1) by simp
qed simp

text \<open>
  C17. The table of servers implements a map of configurations: adding, removing, replacing and
  listing act on it as on the map, and a synchronisation makes it exactly the given list (the last
  entry of an identifier counts), with the instances of unchanged servers left as they are.
\<close>

theorem servers_refine_map:
  "table servers_new = Map.empty
   \<and> table (snd (add_server c m)) = (if table m (srv_id c) = None then (table m)(srv_id c \<mapsto> c) else table m)
   \<and> (isl (fst (add_server c m)) \<longleftrightarrow> table m (srv_id c) \<noteq> None)
   \<and> table (fst (remove_server env i m w)) = (table m)(i := None)
   \<and> table (fst (reload_server_config env i c m w)) = (table m)(i \<mapsto> c)
   \<and> set (list_server_ids m) = dom (table m)
   \<and> table (fst (sync_from_config env cs m w)) = config_map cs
   \<and> (distinct (map srv_id cs) \<longrightarrow> c \<in> set cs \<longrightarrow> get_server (srv_id c) m = Inr s \<longrightarrow> si_config s = c \<longrightarrow>
        get_server (srv_id c) (fst (sync_from_config env cs m w)) = Inr s)"
proof (intro conjI impI)
  show "table servers_new = Map.empty" by (simp add: table_def servers_new_def hm_simps fun_eq_iff)
  show "table (snd (add_server c m)) = (if table m (srv_id c) = None then (table m)(srv_id c \<mapsto> c) else table m)"
    by (auto simp: add_server_def table_def hm_simps fun_eq_iff)
  show "isl (fst (add_server c m)) \<longleftrightarrow> table m (srv_id c) \<noteq> None"
    by (auto simp: add_server_def table_def)
  show "table (fst (remove_server env i m w)) = (table m)(i := None)"
    by (simp add: table_def remove_server_get fun_eq_iff)
  show "table (fst (reload_server_config env i c m w)) = (table m)(i \<mapsto> c)"
    by (auto simp: reload_server_config_def table_def hm_simps fun_eq_iff)
  show "set (list_server_ids m) = dom (table m)"
    by (auto simp: list_server_ids_def table_def hm_get_None_iff dom_def)
next
  define mw where "mw = fold (\<lambda>i (m, w). remove_server env i m w) (filter (\<lambda>i. i \<notin> srv_id ` set cs) (hm_keys (servers m))) (m, w)"
  have s: "sync_from_config env cs m w = fold (sync_one env) cs mw"
    by (simp add: sync_from_config_def mw_def split: prod.splits)
  have g: "hm_get (servers (fst mw)) j = (if j \<in> srv_id ` set cs then hm_get (servers m) j else None)" for j
    using hm_get_None_iff [of "servers m" j] by (auto simp: mw_def remove_all_get)
  show "table (fst (sync_from_config env cs m w)) = config_map cs"
  proof
    fix j
    show "table (fst (sync_from_config env cs m w)) j = config_map cs j"
    proof (cases "j \<in> srv_id ` set cs")
      case True
      then show ?thesis unfolding s sync_all_table config_map_def by (rule fold_insert_agree)
    next
      case False
      then have "\<forall>d\<in>set cs. srv_id d \<noteq> j" by auto
      from fold_insert_dom [OF this] False show ?thesis
        unfolding s sync_all_table config_map_def by (simp add: table_def g)
    qed
  qed
  assume d: "distinct (map srv_id cs)" "c \<in> set cs" "get_server (srv_id c) m = Inr s" "si_config s = c"
  then have "hm_get (servers (fst mw)) (srv_id c) = Some s"
    by (auto simp: g get_server_def split: option.splits)
  then show "get_server (srv_id c) (fst (sync_from_config env cs m w)) = Inr s"
    using d by (simp add: s get_server_def sync_keeps)
qed

lemma servers_refine_map_witness:
  "get_server ''a'' (fst (sync_from_config (flaky_env 0) [sample_server] (snd (add_server sample_server servers_new)) 0))
     = Inr (instance_new sample_server)"
proof -
  have id: "srv_id sample_server = ''a''" by (simp add: sample_server_def)
  have "get_server ''a'' (snd (add_server sample_server servers_new)) = Inr (instance_new sample_server)"
    by (simp add: get_server_def add_server_def servers_new_def hm_simps id)
  then show ?thesis
    using servers_refine_map [of sample_server "snd (add_server sample_server servers_new)" "flaky_env 0" "''a''" 0
        "[sample_server]" "instance_new sample_server"]
    by (elim conjE, simp only: id list.map distinct_singleton list.set insertI1 instance_new_config simp_thms, iprover)
qed

section \<open>What a disconnection stops\<close>

text \<open>
  The life of one server: any sequence of its operations, of rounds of its tasks and of tasks that
  end, in surroundings that may change between any two of them.
\<close>

inductive server_run :: "('auth, 'w) ssh_env \<Rightarrow> 'auth ServerInstance \<Rightarrow> 'w \<Rightarrow> bool" for env where
  created: "server_run env (instance_new cfg) w"
| surroundings: "server_run env si w \<Longrightarrow> server_run env si w'"
| connects: "server_run env si w \<Longrightarrow> connect env auth si w = (r, si', w') \<Longrightarrow> server_run env si' w'"
| connects_with: "server_run env si w \<Longrightarrow> connect_with_reconnect env c si w = (r, si', w') \<Longrightarrow> server_run env si' w'"
| disconnects: "server_run env si w \<Longrightarrow> disconnect env si w = (r', si', w') \<Longrightarrow> server_run env si' w'"
| proxy_on: "server_run env si w \<Longrightarrow> server_run env (start_proxy si) w"
| proxy_off: "server_run env si w \<Longrightarrow> server_run env (stop_proxy si) w"
| monitor_on: "server_run env si w \<Longrightarrow> server_run env (start_connection_monitor si) w"
| timers_on: "server_run env si w \<Longrightarrow> server_run env (start_interval_timers env si) w"
| monitors: "server_run env si w \<Longrightarrow> (i, Monitor) \<in> set (live_tasks si) \<Longrightarrow> monitor_round env si w = Some (rd, si', w') \<Longrightarrow>
    server_run env (if rd = Continue then si' else abort_tasks [i] si') w'"
| checks_ip: "server_run env si w \<Longrightarrow> (i, IpCheck last_ip) \<in> set (live_tasks si) \<Longrightarrow>
    ip_check_round env i last_ip ts si w = (ok, si', w') \<Longrightarrow> server_run env si' w'"
| checks_health: "server_run env si w \<Longrightarrow> (i, HealthCheck h) \<in> set (live_tasks si) \<Longrightarrow>
    health_round env h tmpls si w = (rd, si', w') \<Longrightarrow> server_run env si' w'"
| ticks: "server_run env si w \<Longrightarrow> (i, k) \<in> set (live_tasks si) \<Longrightarrow> timer_tick env k tmpls si w = (rs, si', w') \<Longrightarrow>
    server_run env si' w'"
| ends: "server_run env si w \<Longrightarrow> server_run env (abort_tasks [i] si) w"

text \<open>Every live task other than an address check is held by a handle that a disconnection aborts.\<close>

fun is_ip_check :: "task_kind \<Rightarrow> bool" where
  "is_ip_check (IpCheck _) = True"
| "is_ip_check _ = False"

definition held :: "'auth ServerInstance \<Rightarrow> nat set" where
  "held si = set (proxy_tasks si) \<union> set (health_check_tasks si) \<union> set (interval_timer_tasks si)
     \<union> set_option (connection_monitor_task si)"

definition tracked :: "'auth ServerInstance \<Rightarrow> bool" where
  "tracked si \<longleftrightarrow> (\<forall>x\<in>set (live_tasks si). is_ip_check (snd x) \<or> fst x \<in> held si)
     \<and> (\<not> proxy_running si \<longrightarrow> proxy_tasks si = [])"

lemma spawn_all_fields:
  "spawn_all ks si = (ids, si') \<Longrightarrow>
   \<exists>l n. si' = si\<lparr>live_tasks := l, next_task := n\<rparr>
   \<and> (\<forall>x\<in>set l. x \<in> set (live_tasks si) \<or> fst x \<in> set ids) \<and> set (live_tasks si) \<subseteq> set l"
proof (induction ks arbitrary: si ids)
  case Nil
  then show ?case by (auto intro!: exI [of _ "live_tasks si"] exI [of _ "next_task si"])
next
  case (Cons k ks)
  obtain ids1 where r: "spawn_all ks (si\<lparr>live_tasks := live_tasks si @ [(next_task si, k)], next_task := next_task si + 1\<rparr>) = (ids1, si')"
    and ids: "ids = next_task si # ids1"
    using Cons.prems by (auto simp: spawn_def split: prod.splits)
  from Cons.IH [OF r] obtain l n where "si' = si\<lparr>live_tasks := l, next_task := n\<rparr>"
    "\<forall>x\<in>set l. x = (next_task si, k) \<or> x \<in> set (live_tasks si) \<or> fst x \<in> set ids1" "set (live_tasks si) \<subseteq> set l"
    by auto
  then show ?case by (intro exI [of _ l] exI [of _ n]) (auto simp: ids)
qed

lemma spawn_allE:
  assumes "spawn_all ks si = (ids, si')"
  obtains l n where "si' = si\<lparr>live_tasks := l, next_task := n\<rparr>" "\<forall>x\<in>set l. x \<in> set (live_tasks si) \<or> fst x \<in> set ids"
    "set (live_tasks si) \<subseteq> set l"
  using spawn_all_fields [OF assms] by blast

lemma tracked_update:
  assumes "tracked si" "\<And>x. x \<in> set (live_tasks si') \<Longrightarrow> x \<in> set (live_tasks si) \<or> is_ip_check (snd x) \<or> fst x \<in> held si'"
    "\<And>x. x \<in> set (live_tasks si') \<Longrightarrow> fst x \<in> held si \<Longrightarrow> fst x \<in> held si'"
    "\<not> proxy_running si' \<Longrightarrow> proxy_tasks si' = []"
  shows "tracked si'"
  using assms unfolding tracked_def by blast

lemmas task_ops = start_proxy_def stop_proxy_def start_health_checks_def start_interval_timers_def
  start_ip_detection_def abort_tasks_def spawn_def stop_connection_monitor_def start_connection_monitor_def

lemma tracked_same:
  "tracked si \<Longrightarrow> live_tasks si' = live_tasks si \<Longrightarrow> held si' = held si \<Longrightarrow> proxy_tasks si' = proxy_tasks si \<Longrightarrow>
   proxy_running si' = proxy_running si \<Longrightarrow> tracked si'"
  by (simp add: tracked_def)

lemma tracked_start_proxy: "tracked si \<Longrightarrow> tracked (start_proxy si)"
proof (cases "proxy_running si")
  case False
  assume t: "tracked si"
  obtain ids si2 where *: "spawn_all (if 0 < px_mixed_port (srv_proxy (si_config si)) then [ProxyTask] else [ProxyTask, ProxyTask])
      (si\<lparr>channel_manager := Some (manager_new (px_max_channels (srv_proxy (si_config si))))\<rparr>) = (ids, si2)" by fastforce
  have s: "start_proxy si = si2\<lparr>proxy_tasks := ids, proxy_running := True, proxy_was_running := True\<rparr>"
    using False * by (simp add: start_proxy_def Let_def)
  show ?thesis
    using * by (rule spawn_allE) (use t False in \<open>fastforce simp: s held_def tracked_def\<close>)
qed (simp add: start_proxy_def)

lemma tracked_stop_proxy: "tracked si \<Longrightarrow> tracked (stop_proxy si)"
  by (auto simp: stop_proxy_def abort_tasks_def tracked_def held_def)

lemma tracked_start_health_checks: "tracked si \<Longrightarrow> tracked (start_health_checks si)"
proof (cases "List.map_filter (health_config (trigger_templates si)) (srv_triggers (si_config si)) = []")
  case False
  assume t: "tracked si"
  let ?ks = "map HealthCheck (List.map_filter (health_config (trigger_templates si)) (srv_triggers (si_config si)))"
  obtain ids si1 where *: "spawn_all ?ks si = (ids, si1)" by fastforce
  then have s: "start_health_checks si = si1\<lparr>health_check_tasks := health_check_tasks si1 @ ids\<rparr>"
    using False by (simp add: start_health_checks_def Let_def)
  show ?thesis
    using * by (rule spawn_allE) (use t in \<open>fastforce simp: s held_def tracked_def\<close>)
qed (simp add: start_health_checks_def)

lemma tracked_start_interval_timers: "tracked si \<Longrightarrow> tracked (start_interval_timers env si)"
proof -
  assume t: "tracked si"
  let ?si = "(abort_tasks (interval_timer_tasks si) si)\<lparr>interval_timer_tasks := []\<rparr>"
  obtain ids si1 where *: "spawn_all (List.map_filter (timer_of (env_delay env) (env_cron_ok env)) (triggers ?si)) ?si = (ids, si1)"
    by fastforce
  then have s: "start_interval_timers env si = si1\<lparr>interval_timer_tasks := ids\<rparr>"
    by (simp add: start_interval_timers_def Let_def)
  show ?thesis
    using * by (rule spawn_allE) (use t in \<open>fastforce simp: s held_def tracked_def abort_tasks_def\<close>)
qed

lemma tracked_start_ip_detection: "tracked si \<Longrightarrow> tracked (start_ip_detection env si w)"
  by (auto simp: start_ip_detection_def spawn_def tracked_def held_def)

lemma tracked_monitor: "tracked si \<Longrightarrow> tracked (start_connection_monitor si)"
  by (auto simp: start_connection_monitor_def stop_connection_monitor_def spawn_def abort_tasks_def tracked_def held_def
      split: option.splits)

lemma tracked_abort: "tracked si \<Longrightarrow> tracked (abort_tasks ids si)"
  by (auto simp: abort_tasks_def tracked_def held_def)

text \<open>Operations that leave the tasks alone.\<close>

definition same_tasks :: "'auth ServerInstance \<Rightarrow> 'auth ServerInstance \<Rightarrow> bool" where
  "same_tasks si si' \<longleftrightarrow> live_tasks si' = live_tasks si \<and> proxy_tasks si' = proxy_tasks si
     \<and> health_check_tasks si' = health_check_tasks si \<and> interval_timer_tasks si' = interval_timer_tasks si
     \<and> connection_monitor_task si' = connection_monitor_task si \<and> proxy_running si' = proxy_running si"

lemma tracked_same_tasks: "same_tasks si si' \<Longrightarrow> tracked si \<Longrightarrow> tracked si'"
  by (simp add: same_tasks_def tracked_def held_def)

lemma check_rz_same: "same_tasks si (fst (check_rz env si w))"
  by (auto simp: check_rz_def same_tasks_def split: prod.splits sum.splits)

lemma fire_connection_triggers_same:
  "fire_connection_triggers t env si w = (ok, si', w') \<Longrightarrow> same_tasks si si'"
  using check_rz_same [of si env w]
  by (auto simp: fire_connection_triggers_def same_tasks_def Let_def split: prod.splits option.splits)

lemma tracked_fire:
  "fire_connection_triggers t env si w = (ok, si', w') \<Longrightarrow> tracked si \<Longrightarrow> tracked si'"
  by (rule tracked_same_tasks [OF fire_connection_triggers_same])

lemma tracked_with_handle: "tracked si \<Longrightarrow> tracked (with_handle env si w)"
  by (auto simp: with_handle_def tracked_def held_def)

lemma tracked_start_forwards: "tracked si \<Longrightarrow> tracked (start_forwards env si)"
  by (simp add: start_forwards_def tracked_def held_def)

lemma tracked_upd [simp]:
  "tracked (si\<lparr>si_status := s\<rparr>) = tracked si" "tracked (si\<lparr>client_ip := c\<rparr>) = tracked si"
  "tracked (si\<lparr>host_key_fingerprint := h\<rparr>) = tracked si" "tracked (si\<lparr>last_auth := a\<rparr>) = tracked si"
  "tracked (si\<lparr>status_broadcasts := b\<rparr>) = tracked si" "tracked (si\<lparr>port_forward_manager := p\<rparr>) = tracked si"
  "tracked (si\<lparr>current_ip := i\<rparr>) = tracked si" "tracked (si\<lparr>trigger_engine := e\<rparr>) = tracked si"
  "tracked (si\<lparr>triggers := ts\<rparr>) = tracked si" "tracked (si\<lparr>opener_handle := o'\<rparr>) = tracked si"
  by (simp_all add: tracked_def held_def)

lemmas tracked_intros = tracked_start_proxy tracked_stop_proxy tracked_start_health_checks tracked_start_interval_timers
  tracked_start_ip_detection tracked_monitor tracked_abort tracked_with_handle tracked_start_forwards

lemma tracked_learn_client_ip: "learn_client_ip env si w = (si', w') \<Longrightarrow> tracked si \<Longrightarrow> tracked si'"
  by (auto simp: learn_client_ip_def split: if_splits prod.splits sum.splits)

lemma tracked_come_online: "come_online env auth si w = (r, si', w') \<Longrightarrow> tracked si \<Longrightarrow> tracked si'"
  by (auto simp: come_online_def Let_def split: prod.splits if_splits option.splits
      intro!: tracked_intros elim!: tracked_fire)

lemma tracked_connect: "connect env auth si w = (r, si', w') \<Longrightarrow> tracked si \<Longrightarrow> tracked si'"
  by (auto simp: connect_def split: prod.splits sum.splits
      elim!: tracked_come_online tracked_learn_client_ip intro!: tracked_with_handle)

lemma tracked_connect_with_reconnect:
  "connect_with_reconnect env c si w = (r, si', w') \<Longrightarrow> tracked si \<Longrightarrow> tracked si'"
  by (auto simp: connect_with_reconnect_def Let_def split: sum.splits prod.splits if_splits
      intro!: tracked_intros dest!: tracked_fire)

lemma tracked_after_reconnect: "after_reconnect env si w = (ok, si', w') \<Longrightarrow> tracked si \<Longrightarrow> tracked si'"
  unfolding after_reconnect_def Let_def
  by (erule tracked_fire) (auto intro!: tracked_intros simp: set_and_broadcast_def)

lemma tracked_stop_monitor: "tracked si \<Longrightarrow> tracked (stop_connection_monitor si)"
  by (auto simp: stop_connection_monitor_def abort_tasks_def tracked_def held_def split: option.splits)

lemma tracked_abort_checks: "tracked si \<Longrightarrow> tracked (abort_checks si)"
  by (cases "ip_check_task si") (auto simp: abort_checks_def abort_tasks_def tracked_def held_def Let_def)

lemma tracked_disconnect: "disconnect env si w = (r, si', w') \<Longrightarrow> tracked si \<Longrightarrow> tracked si'"
  by (auto simp: disconnect_def Let_def split: sum.splits prod.splits
      intro!: tracked_abort_checks tracked_stop_proxy tracked_stop_monitor)

lemma tracked_ip_check_round: "ip_check_round env i ip ts si w = (ok, si', w') \<Longrightarrow> (i, IpCheck ip) \<in> set (live_tasks si) \<Longrightarrow> tracked si \<Longrightarrow> tracked si'"
  by (auto simp: ip_check_round_def Let_def split: if_splits prod.splits sum.splits)
     (auto simp: tracked_def held_def split: if_splits)

lemma tracked_health_round: "health_round env h ts si w = (rd, si', w') \<Longrightarrow> tracked si \<Longrightarrow> tracked si'"
  by (auto simp: health_round_def Let_def split: if_splits prod.splits sum.splits)

lemma tracked_timer_tick: "timer_tick env k ts si w = (rs, si', w') \<Longrightarrow> tracked si \<Longrightarrow> tracked si'"
  by (auto simp: timer_tick_def Let_def split: if_splits prod.splits task_kind.splits)

lemma tracked_monitor_round: "monitor_round env si w = Some (rd, si', w') \<Longrightarrow> tracked si \<Longrightarrow> tracked si'"
  by (auto simp: monitor_round_def set_and_broadcast_def Let_def split: if_splits option.splits prod.splits bool.splits
      dest!: tracked_after_reconnect)

lemma run_tracked: "server_run env si w \<Longrightarrow> tracked si"
proof (induction rule: server_run.induct)
  case (created cfg w)
  then show ?case by (simp add: tracked_def instance_new_def)
next
  case (monitors si w i rd si' w')
  then show ?case using tracked_monitor_round tracked_abort by metis
qed (auto intro: tracked_connect tracked_connect_with_reconnect tracked_disconnect tracked_ip_check_round
    tracked_health_round tracked_timer_tick tracked_intros)

lemma stop_monitor_fields [simp]:
  "connection_monitor_task (stop_connection_monitor si) = None" "proxy_running (stop_connection_monitor si) = proxy_running si"
  "proxy_tasks (stop_connection_monitor si) = proxy_tasks si" "si_status (stop_connection_monitor si) = si_status si"
  by (simp_all add: stop_connection_monitor_def abort_tasks_def split: option.split)

lemma stop_proxy_fields [simp]:
  "proxy_running (stop_proxy si) = False" "connection_monitor_task (stop_proxy si) = connection_monitor_task si"
  "si_status (stop_proxy si) = si_status si" "proxy_running si \<Longrightarrow> proxy_tasks (stop_proxy si) = []"
  "\<not> proxy_running si \<Longrightarrow> stop_proxy si = si"
  by (simp_all add: stop_proxy_def abort_tasks_def)

lemma abort_checks_fields [simp]:
  "health_check_tasks (abort_checks si) = []" "interval_timer_tasks (abort_checks si) = []"
  "proxy_tasks (abort_checks si) = proxy_tasks si" "proxy_running (abort_checks si) = proxy_running si"
  "connection_monitor_task (abort_checks si) = connection_monitor_task si"
  "port_forward_manager (abort_checks si) = port_forward_manager si" "si_status (abort_checks si) = si_status si"
  by (cases "ip_check_task si"; simp add: abort_checks_def abort_tasks_def Let_def)+

lemma stop_all_forwarders [simp]: "forwarders (stop_all s) = []"
proof -
  have "forwarders (fold (\<lambda>(_, i). update_obj i stop_forwarder) l s') = forwarders s'"
    for l :: "(string \<times> nat) list" and s'
    by (induction l arbitrary: s') (auto simp: update_obj_def)
  then show ?thesis by (simp add: stop_all_def)
qed

text \<open>
  Whatever a server went through, a disconnection leaves no proxy, health check, timer or
  monitor running, whether or not the client reports an error; only address checks may survive.
  Only a success shows the server as disconnected.
\<close>

theorem disconnect_stops_tasks:
  assumes "server_run env si w" "disconnect env si w = (r, si', w')"
  shows "(\<forall>x\<in>set (live_tasks si'). is_ip_check (snd x)) \<and> \<not> proxy_running si' \<and> \<not> opener_handle si'
     \<and> forwarders (port_forward_manager si') = [] \<and> (r = Inr () \<longrightarrow> si_status si' = Disconnected)
     \<and> (r \<noteq> Inr () \<longrightarrow> si_status si' = si_status si)"
proof -
  have t: "tracked si'" using tracked_disconnect [OF assms(2)] run_tracked [OF assms(1)] by blast
  have f: "held si' = {}" "\<not> proxy_running si'" "\<not> opener_handle si'" "forwarders (port_forward_manager si') = []"
    "r = Inr () \<longrightarrow> si_status si' = Disconnected" "r \<noteq> Inr () \<longrightarrow> si_status si' = si_status si"
    using assms(2) run_tracked [OF assms(1)]
    by (cases "proxy_running si"; auto simp: disconnect_def held_def tracked_def clear_ssh_handle_def Let_def
        split: sum.splits prod.splits)+
  show ?thesis using t f by (simp add: tracked_def)
qed

lemma flaky_simps [simp]:
  "env_connect (flaky_env up) a w = (if up \<le> w then Inr () else Inl (Other ''connection refused''), w + 1)"
  "env_handle (flaky_env up) w = (up \<le> w)" "env_connected (flaky_env up) w = (up \<le> w \<and> even w)"
  "env_disconnect (flaky_env up) w = (Inr (), w)" "env_recorded_key (flaky_env up) w = None"
  "env_stored_ip (flaky_env up) i w = None" "env_sleep (flaky_env up) n w = w"
  by (simp_all add: flaky_env_def)

lemma instance_new_fields [simp]:
  "triggers (instance_new c) = srv_triggers c" "connection_monitor_task (instance_new c) = None" "proxy_tasks (instance_new c) = []"
  "proxy_running (instance_new c) = False" "health_check_tasks (instance_new c) = []" "interval_timer_tasks (instance_new c) = []"
  "proxy_was_running (instance_new c) = False" "trigger_templates (instance_new c) = []" "live_tasks (instance_new c) = []"
  "next_task (instance_new c) = 0" "status_broadcasts (instance_new c) = []"
  by (simp_all add: instance_new_def)

lemma with_handle_config [simp]: "si_config (with_handle env si w) = si_config si"
  by (simp add: with_handle_def)

lemma flaky_fire:
  assumes "triggers si = []"
  shows "\<exists>rz b. fire_connection_triggers t (flaky_env up) si w = (True, si\<lparr>rz_available := rz, result_broadcasts := b\<rparr>, w)"
proof -
  obtain rz where "check_rz (flaky_env up) si w = (si\<lparr>rz_available := rz\<rparr>, w)"
    by (cases "up \<le> w") (auto simp: check_rz_def flaky_env_def intro: that [of "rz_available si"])
  then show ?thesis
    using assms by (auto simp: fire_connection_triggers_def fire_event_def matching_triggers_def Let_def)
qed

lemma flaky_learn: "learn_client_ip (flaky_env up) si w = (si, w)"
  by (simp add: learn_client_ip_def flaky_env_def detect_client_ip_def)

lemma timers_none: "triggers si = [] \<Longrightarrow> interval_timer_tasks si = [] \<Longrightarrow> start_interval_timers env si = si"
  by (simp add: start_interval_timers_def abort_tasks_def Let_def List.map_filter_def)

lemma health_none: "srv_triggers (si_config si) = [] \<Longrightarrow> start_health_checks si = si"
  by (simp add: start_health_checks_def List.map_filter_def)

lemma forwards_none: "srv_port_forwards (si_config si) = [] \<Longrightarrow> start_forwards env si = si"
  by (simp add: start_forwards_def)

lemma sample_server_simps:
  "ipc_enabled (srv_ip_check sample_server)" "srv_triggers sample_server = []" "srv_last_known_ip sample_server = None"
  "rc_auto_reconnect (srv_reconnect sample_server)" "srv_port_forwards sample_server = []"
  "ssh_host_key_fingerprint (srv_ssh sample_server) = None"
  by (simp_all add: sample_server_def reconnect_default_def ip_check_default_def)

lemma flaky_online:
  "\<exists>rz b p. connect (flaky_env 0) ''pw'' (instance_new sample_server) 0 = (Some (Inr ()),
     (instance_new sample_server)\<lparr>si_status := Connected, last_auth := Some ''pw'', live_tasks := [(0, IpCheck None)],
       next_task := 1, ip_check_task := Some 0, opener_handle := True, port_forward_manager := p, rz_available := rz,
       result_broadcasts := b\<rparr>, 1)"
proof -
  let ?si = "(with_handle (flaky_env 0) ((instance_new sample_server)\<lparr>si_status := Connecting\<rparr>) (1::nat))
     \<lparr>si_status := Connected, last_auth := Some ''pw''\<rparr>"
  let ?si' = "start_ip_detection (flaky_env 0) ?si 1"
  have f: "?si' = (instance_new sample_server)\<lparr>si_status := Connected, last_auth := Some ''pw'', live_tasks := [(0, IpCheck None)],
       next_task := 1, ip_check_task := Some 0, opener_handle := True,
       port_forward_manager := set_ssh_handle manager_empty\<rparr>"
    by (simp add: start_ip_detection_def with_handle_def instance_new_def spawn_def flaky_env_def sample_server_simps)
  obtain rz b where "fire_connection_triggers OnConnect (flaky_env 0) ?si' 1 = (True, ?si'\<lparr>rz_available := rz, result_broadcasts := b\<rparr>, 1)"
    using flaky_fire [of ?si' OnConnect 0 1] unfolding f by (auto simp: sample_server_simps)
  then have "connect (flaky_env 0) ''pw'' (instance_new sample_server) 0 = (Some (Inr ()), ?si'\<lparr>rz_available := rz, result_broadcasts := b\<rparr>, 1)"
    unfolding connect_def come_online_def f flaky_simps
    by (simp add: flaky_learn timers_none health_none forwards_none sample_server_simps f [simplified] Let_def)
  then show ?thesis unfolding f by auto
qed

lemma flaky_reconnect:
  assumes r: "si_config si = sample_server" "last_auth si = Some a" "\<not> proxy_was_running si" "triggers si = []"
    "si_status si = Connected"
  obtains si' where "monitor_round (flaky_env 0) si 1 = Some (Continue, si', 2)"
    "live_tasks si' = live_tasks si @ [(next_task si, IpCheck None)]" "ip_check_task si' = Some (next_task si)"
    "connection_monitor_task si' = connection_monitor_task si" "proxy_tasks si' = proxy_tasks si"
    "proxy_running si' = proxy_running si" "health_check_tasks si' = health_check_tasks si"
    "interval_timer_tasks si' = interval_timer_tasks si"
proof -
  let ?env = "flaky_env 0"
  let ?r = "set_and_broadcast Reconnecting si"
  let ?c = "set_and_broadcast Connected (with_handle ?env ?r (2::nat))"
  let ?si = "start_ip_detection ?env (?c\<lparr>port_forward_manager := stop_all (port_forward_manager ?c)\<rparr>) 2"
  have s: "live_tasks ?si = live_tasks si @ [(next_task si, IpCheck None)]" "ip_check_task ?si = Some (next_task si)"
    "connection_monitor_task ?si = connection_monitor_task si" "proxy_tasks ?si = proxy_tasks si"
    "proxy_running ?si = proxy_running si" "health_check_tasks ?si = health_check_tasks si"
    "interval_timer_tasks ?si = interval_timer_tasks si" "triggers ?si = []" "si_config ?si = sample_server"
    using r by (simp_all add: start_ip_detection_def spawn_def set_and_broadcast_def with_handle_def sample_server_simps)
  have p: "\<not> proxy_was_running ?c" "si_config ?c = sample_server"
    using r by (simp_all add: set_and_broadcast_def with_handle_def)
  have "after_reconnect ?env ?r 2 = fire_connection_triggers OnReconnect ?env ?si 2"
    unfolding after_reconnect_def Let_def using p s(9)
    by (simp add: forwards_none health_none sample_server_simps)
  then obtain rz b where ar: "after_reconnect ?env ?r 2 = (True, ?si\<lparr>rz_available := rz, result_broadcasts := b\<rparr>, 2)"
    using flaky_fire [OF s(8), of OnReconnect 0 2] by auto
  have l: "reconnect_loop ?env a t 0 0 1 = Some (True, 2, 1, 1)" for t
    by (cases "t = 0") (simp_all add: reconnect_step backoff_secs_def)
  have "monitor_round ?env si 1 = Some (Continue, ?si\<lparr>rz_available := rz, result_broadcasts := b\<rparr>, 2)"
    using r ar by (simp add: monitor_round_def sample_server_simps set_and_broadcast_def l Let_def del: One_nat_def)
  from that [OF this] s show ?thesis by simp
qed

text \<open>
  An address check is lost on the way: a server that reconnected once has two, of which the
  disconnection stops the newer only.
\<close>

lemma disconnect_stops_tasks_witness:
  "\<exists>si w si'. server_run (flaky_env 0) si w \<and> disconnect (flaky_env 0) si w = (Inr (), si', w)
     \<and> live_tasks si' = [(0, IpCheck None)] \<and> si_status si' = Disconnected"
proof -
  let ?env = "flaky_env 0"
  obtain r1 si1 w1 where c: "connect ?env ''pw'' (instance_new sample_server) 0 = (r1, si1, w1)" by (metis prod_cases3)
  let ?m = "start_connection_monitor si1"
  have one: "live_tasks si1 = [(0, IpCheck None)]" "next_task si1 = 1" "ip_check_task si1 = Some 0" "si_status si1 = Connected"
    "last_auth si1 = Some ''pw''" "triggers si1 = []" "si_config si1 = sample_server" "connection_monitor_task si1 = None"
    "proxy_tasks si1 = []" "\<not> proxy_running si1" "health_check_tasks si1 = []" "interval_timer_tasks si1 = []" "w1 = 1"
    "\<not> proxy_was_running si1" "trigger_templates si1 = []"
    using flaky_online c by (auto simp: sample_server_simps)
  have m: "live_tasks ?m = [(0, IpCheck None), (1, Monitor)]" "next_task ?m = 2" "connection_monitor_task ?m = Some 1"
    "si_config ?m = sample_server" "last_auth ?m = Some ''pw''" "\<not> proxy_was_running ?m" "triggers ?m = []" "si_status ?m = Connected"
    "proxy_tasks ?m = []" "\<not> proxy_running ?m" "health_check_tasks ?m = []" "interval_timer_tasks ?m = []"
    by (simp_all add: one start_connection_monitor_def stop_connection_monitor_def spawn_def)
  obtain si2 where mr: "monitor_round ?env ?m 1 = Some (Continue, si2, 2)"
    and st: "live_tasks si2 = live_tasks ?m @ [(next_task ?m, IpCheck None)]" "ip_check_task si2 = Some (next_task ?m)"
      "connection_monitor_task si2 = connection_monitor_task ?m" "proxy_tasks si2 = proxy_tasks ?m"
      "proxy_running si2 = proxy_running ?m" "health_check_tasks si2 = health_check_tasks ?m"
      "interval_timer_tasks si2 = interval_timer_tasks ?m"
    using flaky_reconnect [OF m(4-8)] by blast
  have "server_run ?env ?m 1" using server_run.monitor_on [OF server_run.connects [OF server_run.created c]] one by simp
  from server_run.monitors [OF this _ mr, of 1] m have run: "server_run ?env si2 2" by simp
  obtain r si' w' where d: "disconnect ?env si2 2 = (r, si', w')" by (metis prod_cases3)
  have e: "r = Inr ()" "w' = 2" "live_tasks si' = [(0, IpCheck None)]"
    using d st m by (auto simp: disconnect_def abort_checks_def stop_proxy_def stop_connection_monitor_def abort_tasks_def Let_def)
  then show ?thesis
    using disconnect_stops_tasks [OF run d] run d by blast
qed

end
