(* ===== verification/Terminals.thy ===== *)
theory Terminals
  imports RemoteFrame
begin

text \<open>
  Terminal sessions (crates/daemon/src/terminal.rs): the table of sessions, the commands sent to
  their tasks, the remote subscribers with their bounded channels, the output path to the ring
  buffer and the subscribers, the lifecycle events, and the loops that carry a local shell and an
  SSH channel.  What the manager tells others (the desktop window, the callbacks of the remote
  server) is the list of \<open>notice\<close>s an operation returns.  Opening a PTY is a parameter.
\<close>

section \<open>Channels of subscribers\<close>

record RemoteSubscriber =
  pairing_id :: string
  sub_terminal_id :: u32
  queue :: "Frame list"
  queue_size :: nat
  receiver_gone :: bool
  lagging :: bool

datatype try_send_error = QueueFull | QueueGone

definition try_send :: "Frame \<Rightarrow> RemoteSubscriber \<Rightarrow> (try_send_error + unit) \<times> RemoteSubscriber" where
  "try_send f s =
     (if receiver_gone s then (Inl QueueGone, s)
      else if queue_size s \<le> length (queue s) then (Inl QueueFull, s)
      else (Inr (), s\<lparr>queue := queue s @ [f]\<rparr>))"

function chunks :: "nat \<Rightarrow> 'a list \<Rightarrow> 'a list list" where
  "chunks n xs = (if xs = [] \<or> n = 0 then [] else take n xs # chunks n (drop n xs))"
  by pat_completeness auto
termination by (relation "measure (length \<circ> snd)") auto

declare chunks.simps [simp del]

text \<open>The frames of a snapshot: numbered, the last one marked.\<close>

fun number_history :: "u32 \<Rightarrow> nat \<Rightarrow> bytes list \<Rightarrow> Frame list" where
  "number_history tid i [] = []"
| "number_history tid i (c # cs) = history_frame tid (word_of_nat i) (cs = []) c # number_history tid (Suc i) cs"

definition history_frames :: "u32 \<Rightarrow> bytes \<Rightarrow> Frame list" where
  "history_frames tid bs = number_history tid 0 (chunks MAX_HISTORY_DATA bs)"

definition push_history :: "bytes \<Rightarrow> RemoteSubscriber \<Rightarrow> RemoteSubscriber" where
  "push_history bs s = fold (\<lambda>f s. snd (try_send f s)) (history_frames (sub_terminal_id s) bs) s"

fun send_output :: "bytes list \<Rightarrow> RemoteSubscriber \<Rightarrow> RemoteSubscriber" where
  "send_output [] s = s"
| "send_output (c # cs) s =
     (case try_send (output_frame (sub_terminal_id s) c) s of
        (Inr _, s') \<Rightarrow> send_output cs s'
      | (Inl QueueFull, s') \<Rightarrow> s'\<lparr>lagging := True\<rparr>
      | (Inl QueueGone, s') \<Rightarrow> s')"

text \<open>One subscriber's share of new output; \<open>hist\<close> is the ring buffer after it.\<close>

definition deliver :: "bytes \<Rightarrow> bytes \<Rightarrow> RemoteSubscriber \<Rightarrow> RemoteSubscriber" where
  "deliver data hist s =
     (if lagging s then
        (if length (queue s) < queue_size s then (push_history hist s)\<lparr>lagging := False\<rparr> else s)
      else send_output (chunks MAX_OUTPUT_DATA data) s)"

section \<open>Sessions\<close>

datatype TerminalCmd = CmdInput bytes | CmdResize u32 u32 | CmdClose

text \<open>\<open>cmds\<close> holds the commands the session's task has not taken yet; \<open>task_alive\<close> says that it still takes some.\<close>

record TerminalSession =
  ts_server_id :: string
  cmds :: "TerminalCmd list"
  task_alive :: bool
  killed :: bool
  tmux_session_name :: "string option"
  has_ssh_handle :: bool
  ts_name :: string
  history :: RingBuffer
  remote_subscribers :: "RemoteSubscriber list"
  pty_size :: "u16 \<times> u16"

datatype TerminalLifecycleEvent = Opened string | Closed string

record TerminalManager =
  sessions :: "(string, TerminalSession) hm"
  local_events :: "TerminalLifecycleEvent list option"
  closed_sessions :: "string list"
  trigger_overrides :: "(string, (string, bool) hm) hm"

datatype notice =
    GuiOutput string bytes bool
  | GuiClosed string
  | GuiRemoveTab string
  | GuiOpened string "string option"
  | ListChanged
  | SessionClosed string
  | RemoteUnsubscribed string
  | TmuxSize string u16 u16

definition LOCAL :: string where "LOCAL = ''__local__''"

definition HISTORY_BYTES :: nat where "HISTORY_BYTES = 256 * 1024"

definition terminals_new :: TerminalManager where
  "terminals_new = \<lparr>sessions = [], local_events = None, closed_sessions = [], trigger_overrides = []\<rparr>"

definition subscribe_local_events :: "TerminalManager \<Rightarrow> TerminalManager" where
  "subscribe_local_events m = m\<lparr>local_events := Some []\<rparr>"

definition clear_closed_sessions :: "TerminalManager \<Rightarrow> TerminalManager" where
  "clear_closed_sessions m = m\<lparr>closed_sessions := []\<rparr>"

definition send_event :: "TerminalLifecycleEvent \<Rightarrow> TerminalManager \<Rightarrow> TerminalManager" where
  "send_event e m = m\<lparr>local_events := map_option (\<lambda>es. es @ [e]) (local_events m)\<rparr>"

definition session_new :: "string \<Rightarrow> string \<Rightarrow> bool \<Rightarrow> u32 \<Rightarrow> u32 \<Rightarrow> TerminalSession" where
  "session_new server_id name ssh cols rows =
     \<lparr>ts_server_id = server_id, cmds = [], task_alive = True, killed = False, tmux_session_name = None,
      has_ssh_handle = ssh, ts_name = name, history = ring_new HISTORY_BYTES, remote_subscribers = [],
      pty_size = (ucast cols, ucast rows)\<rparr>"

text \<open>
  Opening, once the PTY is there: \<open>sid\<close> is the fresh identifier.  The output read before an SSH
  terminal's task starts goes to the caller only.
\<close>

definition open_ssh ::
  "string \<Rightarrow> string + bytes \<Rightarrow> string \<Rightarrow> u32 \<Rightarrow> u32 \<Rightarrow> TerminalManager \<Rightarrow> (string + string \<times> bytes) \<times> TerminalManager" where
  "open_ssh sid pty server_id cols rows m =
     (case pty of
        Inl e \<Rightarrow> (Inl (''failed to open terminal: '' @ e), m)
      | Inr initial \<Rightarrow>
          (Inr (sid, initial),
           m\<lparr>sessions := hm_insert sid (session_new server_id (server_id @ '' #?'') True cols rows) (sessions m)\<rparr>))"

definition set_trigger_overrides :: "string \<Rightarrow> (string, bool) hm \<Rightarrow> TerminalManager \<Rightarrow> TerminalManager" where
  "set_trigger_overrides sid ov m = m\<lparr>trigger_overrides := hm_insert sid ov (trigger_overrides m)\<rparr>"

definition open_local ::
  "string \<Rightarrow> string + unit \<Rightarrow> u32 \<Rightarrow> u32 \<Rightarrow> (string, bool) hm option \<Rightarrow> TerminalManager \<Rightarrow>
   (string + string \<times> bytes) \<times> TerminalManager" where
  "open_local sid pty cols rows overrides m =
     (case pty of
        Inl e \<Rightarrow> (Inl (''failed to open local PTY: '' @ e), m)
      | Inr _ \<Rightarrow>
          (let m1 = m\<lparr>sessions := hm_insert sid (session_new LOCAL ''Local'' False cols rows) (sessions m)\<rparr>;
               m2 = (case overrides of Some ov \<Rightarrow> set_trigger_overrides sid ov m1 | None \<Rightarrow> m1)
           in (Inr (sid, []), send_event (Opened sid) m2)))"

text \<open>Changing one session.\<close>

definition upd_session :: "string \<Rightarrow> (TerminalSession \<Rightarrow> TerminalSession) \<Rightarrow> TerminalManager \<Rightarrow> TerminalManager" where
  "upd_session sid f m =
     (case hm_get (sessions m) sid of
        None \<Rightarrow> m | Some s \<Rightarrow> m\<lparr>sessions := hm_insert sid (f s) (sessions m)\<rparr>)"

definition set_tmux_session_info :: "string \<Rightarrow> string option \<Rightarrow> bool \<Rightarrow> TerminalManager \<Rightarrow> TerminalManager" where
  "set_tmux_session_info sid name handle =
     upd_session sid (\<lambda>s. s\<lparr>tmux_session_name := name, has_ssh_handle := has_ssh_handle s \<or> handle\<rparr>)"

definition send_cmd :: "TerminalCmd \<Rightarrow> TerminalSession \<Rightarrow> TerminalSession" where
  "send_cmd c s = (if task_alive s then s\<lparr>cmds := cmds s @ [c]\<rparr> else s)"

definition resize_pty_only :: "string \<Rightarrow> u32 \<Rightarrow> u32 \<Rightarrow> TerminalManager \<Rightarrow> TerminalManager \<times> notice list" where
  "resize_pty_only sid cols rows m =
     (case hm_get (sessions m) sid of
        None \<Rightarrow> (m, [])
      | Some s \<Rightarrow>
          (upd_session sid (\<lambda>s. (send_cmd (CmdResize cols rows) s)\<lparr>pty_size := (ucast cols, ucast rows)\<rparr>) m,
           case tmux_session_name s of
             Some name \<Rightarrow> if has_ssh_handle s then [TmuxSize name (ucast cols) (ucast rows)] else []
           | None \<Rightarrow> []))"

definition resize_and_notify :: "string \<Rightarrow> u32 \<Rightarrow> u32 \<Rightarrow> TerminalManager \<Rightarrow> TerminalManager \<times> notice list" where
  "resize_and_notify sid cols rows m =
     (let (m1, ns) = resize_pty_only sid cols rows m
      in (upd_session sid (\<lambda>s. s\<lparr>remote_subscribers :=
            map (\<lambda>sub. snd (try_send (resize_frame (sub_terminal_id sub) (ucast cols) (ucast rows)) sub))
              (remote_subscribers s)\<rparr>) m1, ns))"

definition input_with_ack :: "string \<Rightarrow> bytes \<Rightarrow> TerminalManager \<Rightarrow> (string + unit) \<times> TerminalManager" where
  "input_with_ack sid data m =
     (case hm_get (sessions m) sid of
        None \<Rightarrow> (Inl (''terminal session not found: '' @ sid), m)
      | Some s \<Rightarrow>
          if task_alive s then (Inr (), upd_session sid (send_cmd (CmdInput data)) m)
          else (Inl ''failed to send terminal input: channel closed'', m))"

definition resize_terminal :: "string \<Rightarrow> u32 \<Rightarrow> u32 \<Rightarrow> TerminalManager \<Rightarrow> (string + unit) \<times> TerminalManager" where
  "resize_terminal sid cols rows m =
     (case hm_get (sessions m) sid of
        None \<Rightarrow> (Inl (''terminal session not found: '' @ sid), m)
      | Some s \<Rightarrow>
          if task_alive s then (Inr (), upd_session sid (send_cmd (CmdResize cols rows)) m)
          else (Inl ''failed to resize terminal: channel closed'', m))"

definition set_session_name :: "string \<Rightarrow> string \<Rightarrow> TerminalManager \<Rightarrow> TerminalManager" where
  "set_session_name sid name = upd_session sid (\<lambda>s. s\<lparr>ts_name := name\<rparr>)"

definition is_local_session :: "string \<Rightarrow> TerminalManager \<Rightarrow> bool" where
  "is_local_session sid m =
     (case hm_get (sessions m) sid of Some s \<Rightarrow> ts_server_id s = LOCAL | None \<Rightarrow> False)"

definition mark_closed :: "string \<Rightarrow> TerminalManager \<Rightarrow> TerminalManager" where
  "mark_closed sid m = m\<lparr>closed_sessions := List.insert sid (closed_sessions m)\<rparr>"

definition find_session_by_server :: "string \<Rightarrow> TerminalManager \<Rightarrow> string option" where
  "find_session_by_server server_id m =
     map_option fst (find (\<lambda>(_, s). ts_server_id s = server_id) (sessions m))"

definition has_sessions_for_server :: "string \<Rightarrow> TerminalManager \<Rightarrow> bool" where
  "has_sessions_for_server server_id m = list_ex (\<lambda>(_, s). ts_server_id s = server_id) (sessions m)"

definition get_trigger_override :: "string \<Rightarrow> string \<Rightarrow> TerminalManager \<Rightarrow> bool option" where
  "get_trigger_override sid trigger m =
     Option.bind (hm_get (trigger_overrides m) sid) (\<lambda>ov. hm_get ov trigger)"

definition get_all_trigger_overrides :: "string \<Rightarrow> TerminalManager \<Rightarrow> (string, bool) hm" where
  "get_all_trigger_overrides sid m =
     (case hm_get (trigger_overrides m) sid of Some ov \<Rightarrow> ov | None \<Rightarrow> [])"

definition clear_trigger_overrides :: "string \<Rightarrow> TerminalManager \<Rightarrow> TerminalManager" where
  "clear_trigger_overrides sid m = m\<lparr>trigger_overrides := hm_remove sid (trigger_overrides m)\<rparr>"

section \<open>Closing\<close>

text \<open>The closed event of a local terminal is sent by whoever comes first.\<close>

definition announce_closed :: "string \<Rightarrow> TerminalManager \<Rightarrow> TerminalManager" where
  "announce_closed sid m =
     (if sid \<in> set (closed_sessions m) then m else send_event (Closed sid) (mark_closed sid m))"

definition close :: "string \<Rightarrow> TerminalManager \<Rightarrow> (string + unit) \<times> TerminalManager \<times> notice list" where
  "close sid m =
     (case hm_get (sessions m) sid of
        None \<Rightarrow> (Inl (''terminal session not found: '' @ sid), m, [])
      | Some s \<Rightarrow>
          (let m1 = m\<lparr>sessions := hm_remove sid (sessions m)\<rparr>;
               gui = (if ts_server_id s = LOCAL \<and> sid \<notin> set (closed_sessions m) then [GuiClosed sid] else []);
               m2 = (if ts_server_id s = LOCAL then announce_closed sid m1 else m1)
           in (Inr (), clear_trigger_overrides sid m2, gui @ [SessionClosed sid])))"

definition close_remote :: "string \<Rightarrow> TerminalManager \<Rightarrow> (string + unit) \<times> TerminalManager \<times> notice list" where
  "close_remote sid m =
     (let (r, m1, ns) = close sid m in (r, m1, if isl r then ns else ns @ [GuiRemoveTab sid]))"

text \<open>The two operations that close many terminals leave their trigger overrides behind.\<close>

definition close_selected ::
  "(TerminalSession \<Rightarrow> bool) \<Rightarrow> TerminalManager \<Rightarrow> TerminalManager \<times> notice list" where
  "close_selected sel m =
     fold (\<lambda>(sid, s) (m, ns).
         (let m1 = m\<lparr>sessions := hm_remove sid (sessions m)\<rparr>
          in (if ts_server_id s = LOCAL then announce_closed sid m1 else m1, ns @ [SessionClosed sid])))
       (filter (sel \<circ> snd) (sessions m)) (m, [])"

definition close_all_for_server :: "string \<Rightarrow> TerminalManager \<Rightarrow> TerminalManager \<times> notice list" where
  "close_all_for_server server_id = close_selected (\<lambda>s. ts_server_id s = server_id)"

definition close_all_local :: "TerminalManager \<Rightarrow> TerminalManager \<times> notice list" where
  "close_all_local = close_selected (\<lambda>s. ts_server_id s = LOCAL)"

section \<open>Remote subscribers\<close>

definition whole_history :: "TerminalSession \<Rightarrow> bytes" where
  "whole_history s = concat (ring_iter (history s))"

definition add_subscriber :: "RemoteSubscriber \<Rightarrow> TerminalSession \<Rightarrow> TerminalSession" where
  "add_subscriber sub s =
     s\<lparr>remote_subscribers := filter (\<lambda>s. pairing_id s \<noteq> pairing_id sub) (remote_subscribers s)
          @ [push_history (whole_history s) sub]\<rparr>"

definition subscribe_remote :: "string \<Rightarrow> RemoteSubscriber \<Rightarrow> TerminalManager \<Rightarrow> (string + unit) \<times> TerminalManager" where
  "subscribe_remote sid sub m =
     (case hm_get (sessions m) sid of
        None \<Rightarrow> (Inl (''session '' @ sid @ '' not found''), m)
      | Some s \<Rightarrow> (Inr (), upd_session sid (add_subscriber sub) m))"

text \<open>The desktop is told when nobody is left, even if nobody left.\<close>

definition unsubscribe_remote :: "string \<Rightarrow> string \<Rightarrow> TerminalManager \<Rightarrow> TerminalManager \<times> notice list" where
  "unsubscribe_remote sid pid m =
     (case hm_get (sessions m) sid of
        None \<Rightarrow> (m, [])
      | Some s \<Rightarrow>
          (let left = filter (\<lambda>s. pairing_id s \<noteq> pid) (remote_subscribers s)
           in (upd_session sid (\<lambda>s. s\<lparr>remote_subscribers := left\<rparr>) m,
               if left = [] then [RemoteUnsubscribed sid] else [])))"

definition broadcast_to_subscribers_count :: "string \<Rightarrow> Frame \<Rightarrow> TerminalManager \<Rightarrow> nat \<times> TerminalManager" where
  "broadcast_to_subscribers_count sid f m =
     (case hm_get (sessions m) sid of
        None \<Rightarrow> (0, m)
      | Some s \<Rightarrow>
          (length (filter (\<lambda>sub. \<not> isl (fst (try_send f sub))) (remote_subscribers s)),
           upd_session sid (\<lambda>s. s\<lparr>remote_subscribers := map (\<lambda>sub. snd (try_send f sub)) (remote_subscribers s)\<rparr>) m))"

definition broadcast_to_subscribers :: "string \<Rightarrow> Frame \<Rightarrow> TerminalManager \<Rightarrow> TerminalManager" where
  "broadcast_to_subscribers sid f m = snd (broadcast_to_subscribers_count sid f m)"

definition remove_remote_subscribers :: "string \<Rightarrow> TerminalManager \<Rightarrow> TerminalManager" where
  "remove_remote_subscribers pid m =
     m\<lparr>sessions := map (\<lambda>(sid, s). (sid, s\<lparr>remote_subscribers :=
        filter (\<lambda>s. pairing_id s \<noteq> pid) (remote_subscribers s)\<rparr>)) (sessions m)\<rparr>"

definition get_pty_size :: "string \<Rightarrow> TerminalManager \<Rightarrow> (u16 \<times> u16) option" where
  "get_pty_size sid m = map_option pty_size (hm_get (sessions m) sid)"

definition update_pty_size :: "string \<Rightarrow> u16 \<Rightarrow> u16 \<Rightarrow> TerminalManager \<Rightarrow> TerminalManager" where
  "update_pty_size sid cols rows = upd_session sid (\<lambda>s. s\<lparr>pty_size := (cols, rows)\<rparr>)"

definition get_history :: "string \<Rightarrow> TerminalManager \<Rightarrow> bytes list option" where
  "get_history sid m = map_option (\<lambda>s. ring_iter (history s)) (hm_get (sessions m) sid)"

section \<open>The list of terminals\<close>

text \<open>Escape sequences are removed from the preview; a character is a UTF-8 sequence of bytes.\<close>

definition ESC :: char where "ESC = CHR 0x1B"

definition skip_csi :: "string \<Rightarrow> string" where
  "skip_csi s = drop 1 (dropWhile (\<lambda>c. \<not> (0x40 \<le> (of_char c :: nat) \<and> (of_char c :: nat) \<le> 0x7E)) s)"

fun skip_osc :: "string \<Rightarrow> string" where
  "skip_osc [] = []"
| "skip_osc (c # cs) =
     (if c = CHR 0x07 then cs
      else if c = ESC \<and> prefix [CHR 0x5C] cs then drop 1 cs
      else skip_osc cs)"

definition char_width :: "char \<Rightarrow> nat" where
  "char_width c = max 1 (utf8_width (word_of_nat (of_char c)))"

lemma length_skip_csi: "length (skip_csi s) \<le> length s"
  using length_dropWhile_le [of "\<lambda>c. \<not> (0x40 \<le> (of_char c :: nat) \<and> (of_char c :: nat) \<le> 0x7E)" s]
  by (simp add: skip_csi_def)

lemma length_skip_osc: "length (skip_osc s) \<le> length s"
  by (induction s rule: skip_osc.induct) auto

function strip_ansi :: "string \<Rightarrow> string" where
  "strip_ansi [] = []"
| "strip_ansi (c # cs) =
     (if c \<noteq> ESC then c # strip_ansi cs
      else (case cs of
              [] \<Rightarrow> []
            | d # ds \<Rightarrow>
                if d = CHR ''['' then strip_ansi (skip_csi ds)
                else if d = CHR '']'' then strip_ansi (skip_osc ds)
                else strip_ansi (drop (char_width d) cs)))"
  by pat_completeness auto
termination
  by (relation "measure length") (auto simp: le_imp_less_Suc length_skip_csi length_skip_osc less_Suc_eq_le intro: le_trans [OF length_skip_csi] le_trans [OF length_skip_osc])

record SessionInfo =
  inf_session_id :: string
  inf_name :: string
  inf_server_id :: string
  inf_is_local :: bool
  inf_tmux_session_name :: "string option"
  inf_server_name :: string
  inf_terminal_type :: string
  inf_status :: string
  inf_preview :: string

definition preview :: "bytes \<Rightarrow> string" where
  "preview all =
     (let tail = drop (length all - 2048) all;
          ls = lines (strip_ansi (from_utf8_lossy tail))
      in join [CHR 0x0A] (drop (length ls - 5) ls))"

definition session_info :: "string \<times> TerminalSession \<Rightarrow> SessionInfo" where
  "session_info x =
     (let (sid, s) = x; loc = (ts_server_id s = LOCAL)
      in \<lparr>inf_session_id = sid, inf_name = ts_name s, inf_server_id = ts_server_id s, inf_is_local = loc,
          inf_tmux_session_name = tmux_session_name s, inf_server_name = [],
          inf_terminal_type = (if loc then ''local'' else ''ssh''), inf_status = ''active'',
          inf_preview = preview (whole_history s)\<rparr>)"

definition list_session_infos :: "TerminalManager \<Rightarrow> SessionInfo list" where
  "list_session_infos m = map session_info (sessions m)"

section \<open>Output\<close>

definition session_output :: "bytes \<Rightarrow> TerminalSession \<Rightarrow> TerminalSession" where
  "session_output data s =
     (let s1 = s\<lparr>history := ring_push data (history s)\<rparr>
      in s1\<lparr>remote_subscribers := map (deliver data (whole_history s1)) (remote_subscribers s1)\<rparr>)"

definition forward_and_broadcast ::
  "string \<Rightarrow> bytes \<Rightarrow> bool \<Rightarrow> TerminalManager \<Rightarrow> TerminalManager \<times> notice list" where
  "forward_and_broadcast sid data is_stderr m =
     (if is_stderr then m else upd_session sid (session_output data) m, [GuiOutput sid data is_stderr])"

section \<open>The tasks of a terminal\<close>

text \<open>
  A local terminal: output of the shell, the end of its output, and the next command.  The task of
  a session that has been closed may take a last step before it is aborted.
\<close>

datatype local_event = ShellOutput bytes | ShellEnd | TakeCommand bool

definition task_ends :: "string \<Rightarrow> TerminalManager \<Rightarrow> TerminalManager" where
  "task_ends sid = upd_session sid (\<lambda>s. s\<lparr>task_alive := False, cmds := []\<rparr>)"

definition local_exit :: "string \<Rightarrow> TerminalManager \<Rightarrow> TerminalManager \<times> notice list" where
  "local_exit sid m = (task_ends sid (announce_closed sid m), [GuiClosed sid])"

definition next_command :: "string \<Rightarrow> TerminalManager \<Rightarrow> TerminalCmd option" where
  "next_command sid m =
     (case hm_get (sessions m) sid of
        Some s \<Rightarrow> (case cmds s of c # _ \<Rightarrow> Some c | [] \<Rightarrow> None) | None \<Rightarrow> Some CmdClose)"

text \<open>\<open>TakeCommand ok\<close>: whether the writer still takes input.  Writing and resizing go to the PTY.\<close>

definition local_step :: "string \<Rightarrow> local_event \<Rightarrow> TerminalManager \<Rightarrow> TerminalManager \<times> notice list" where
  "local_step sid e m =
     (case e of
        ShellOutput data \<Rightarrow> forward_and_broadcast sid data False m
      | ShellEnd \<Rightarrow> local_exit sid m
      | TakeCommand ok \<Rightarrow>
          (case next_command sid m of
             None \<Rightarrow> (m, [])
           | Some CmdClose \<Rightarrow> local_exit sid m
           | Some (CmdInput data) \<Rightarrow>
               if ok then (upd_session sid (\<lambda>s. s\<lparr>cmds := tl (cmds s)\<rparr>) m, []) else (task_ends sid m, [])
           | Some (CmdResize c r) \<Rightarrow> (upd_session sid (\<lambda>s. s\<lparr>cmds := tl (cmds s)\<rparr>) m, [])))"

text \<open>
  An SSH terminal: data are collected and passed on when a pause of five milliseconds follows; the
  pause is measured anew after every event.
\<close>

datatype ssh_event =
    Pause
  | ChData bytes
  | ChExtended bytes
  | ChExitStatus
  | ChEof
  | ChClose
  | ChNone
  | ChOther
  | Take TerminalCmd "send_outcome list"
  | CmdsGone
and send_outcome = SendDone | SendFailed | SendTimedOut

datatype ssh_effect = Broadcast bytes | Stderr bytes | ToChannel bytes | WindowChange u32 u32 | EofAndClose | TellClosed

record ssh_task =
  data_buf :: bytes
  stderr_buf :: bytes
  has_pending :: bool
  effects :: "ssh_effect list"
  ended :: bool

definition ssh_task_new :: ssh_task where
  "ssh_task_new = \<lparr>data_buf = [], stderr_buf = [], has_pending = False, effects = [], ended = False\<rparr>"

definition emit :: "ssh_effect list \<Rightarrow> ssh_task \<Rightarrow> ssh_task" where
  "emit es t = t\<lparr>effects := effects t @ es\<rparr>"

definition flush_buffers :: "ssh_task \<Rightarrow> ssh_task" where
  "flush_buffers t =
     (emit ((if data_buf t = [] then [] else [Broadcast (data_buf t)]) @
            (if stderr_buf t = [] then [] else [Stderr (stderr_buf t)])) t)
     \<lparr>data_buf := [], stderr_buf := [], has_pending := False\<rparr>"

text \<open>The whole input is sent again after each timeout, three times at most.\<close>

fun send_attempts :: "bytes \<Rightarrow> nat \<Rightarrow> send_outcome list \<Rightarrow> ssh_effect list" where
  "send_attempts data n [] = []"
| "send_attempts data n (SendDone # os) = [ToChannel data]"
| "send_attempts data n (SendFailed # os) = []"
| "send_attempts data n (SendTimedOut # os) = (if 3 \<le> n + 1 then [] else send_attempts data (n + 1) os)"

definition ssh_step :: "ssh_event \<Rightarrow> ssh_task \<Rightarrow> ssh_task" where
  "ssh_step e t =
     (if ended t then t
      else (case e of
        Pause \<Rightarrow> if has_pending t then flush_buffers t else t
      | ChData d \<Rightarrow> t\<lparr>data_buf := data_buf t @ d, has_pending := True\<rparr>
      | ChExtended d \<Rightarrow> t\<lparr>stderr_buf := stderr_buf t @ d, has_pending := True\<rparr>
      | ChExitStatus \<Rightarrow> flush_buffers t
      | ChEof \<Rightarrow> flush_buffers t
      | ChClose \<Rightarrow> (emit [TellClosed] (flush_buffers t))\<lparr>ended := True\<rparr>
      | ChNone \<Rightarrow> (emit [TellClosed] (flush_buffers t))\<lparr>ended := True\<rparr>
      | ChOther \<Rightarrow> t
      | Take (CmdInput d) os \<Rightarrow> emit (send_attempts d 0 os) t
      | Take (CmdResize c r) os \<Rightarrow> emit [WindowChange c r] t
      | Take CmdClose os \<Rightarrow> (emit [EofAndClose, TellClosed] (flush_buffers t))\<lparr>ended := True\<rparr>
      | CmdsGone \<Rightarrow> (emit [EofAndClose] (flush_buffers t))\<lparr>ended := True\<rparr>))"

section \<open>What a subscriber sees\<close>

text \<open>The receiver of the frames: a snapshot starts the screen anew, output is appended to it.\<close>

definition screen_step :: "bytes \<Rightarrow> Frame \<Rightarrow> bytes" where
  "screen_step scr f =
     (if frame_type f = OUTPUT then scr @ payload f
      else if frame_type f = HISTORY then
        (if take 4 (payload f) = be32 0 then drop 5 (payload f) else scr @ drop 5 (payload f))
      else scr)"

definition screen :: "Frame list \<Rightarrow> bytes" where
  "screen = foldl screen_step []"

lemma concat_chunks: "0 < n \<Longrightarrow> concat (chunks n xs) = xs"
  by (induction n xs rule: chunks.induct) (subst chunks.simps, simp)

lemma length_chunks: "0 < n \<Longrightarrow> length (chunks n xs) * n < length xs + n"
proof (induction n xs rule: chunks.induct)
  case (1 n xs)
  then show ?case
    by (subst chunks.simps) (cases "length xs \<le> n", auto simp: chunks.simps [of _ "[]"])
qed

lemma chunks_empty [simp]: "chunks n xs = [] \<longleftrightarrow> xs = [] \<or> n = 0"
  by (subst chunks.simps) simp

lemma chunks_Nil [simp]: "chunks n [] = []"
  by simp

lemma screen_output: "screen_step scr (output_frame tid c) = scr @ c"
  by (simp add: screen_step_def output_frame_def frame_new_def)

lemma screen_history_frame:
  "screen_step scr (history_frame tid q l c) = (if q = 0 then c else scr @ c)"
  using be32_inject [of q 0]
  by (simp add: screen_step_def history_frame_def frame_new_def frame_types be32_def split: if_splits)

lemma number_history_more:
  "0 < i \<Longrightarrow> i + length cs \<le> 2 ^ 32 \<Longrightarrow> foldl screen_step scr (number_history tid i cs) = scr @ concat cs"
proof (induction cs arbitrary: i scr)
  case (Cons c cs)
  have "(word_of_nat i :: u32) \<noteq> 0"
    using Cons.prems by (simp add: word_of_nat_eq_0_iff) (use nat_dvd_not_less in force)
  then show ?case using Cons by (simp add: screen_history_frame)
qed simp

lemma few_chunks: "length bs \<le> HISTORY_BYTES \<Longrightarrow> length (chunks MAX_HISTORY_DATA bs) \<le> 5"
  using length_chunks [of MAX_HISTORY_DATA bs] by (simp add: MAX_HISTORY_DATA_def HISTORY_BYTES_def)

lemma screen_snapshot:
  assumes "bs \<noteq> []" "length bs \<le> HISTORY_BYTES"
  shows "foldl screen_step scr (history_frames tid bs) = bs"
proof -
  have pos: "0 < MAX_HISTORY_DATA" by (simp add: MAX_HISTORY_DATA_def)
  obtain c cs where c: "chunks MAX_HISTORY_DATA bs = c # cs"
    using assms(1) pos by (cases "chunks MAX_HISTORY_DATA bs") auto
  have "length cs \<le> 4" using few_chunks [OF assms(2)] c by simp
  then have "foldl screen_step c (number_history tid (Suc 0) cs) = c @ concat cs"
    by (intro number_history_more) auto
  moreover have "c @ concat cs = bs" using concat_chunks [OF pos, of bs] c by simp
  ultimately show ?thesis by (simp add: history_frames_def c screen_history_frame)
qed

lemma length_number_history [simp]: "length (number_history tid i cs) = length cs"
  by (induction tid i cs rule: number_history.induct) auto

lemma length_history_frames: "length bs \<le> HISTORY_BYTES \<Longrightarrow> length (history_frames tid bs) \<le> 5"
  by (simp add: history_frames_def few_chunks)

lemma push_frames_room:
  "\<not> receiver_gone s \<Longrightarrow> length (queue s) + length fs \<le> queue_size s \<Longrightarrow>
   fold (\<lambda>f s. snd (try_send f s)) fs s = s\<lparr>queue := queue s @ fs\<rparr>"
  by (induction fs arbitrary: s) (auto simp: try_send_def)

lemma push_history_room:
  assumes "\<not> receiver_gone s" "length bs \<le> HISTORY_BYTES" "length (queue s) + 5 \<le> queue_size s"
  shows "push_history bs s = s\<lparr>queue := queue s @ history_frames (sub_terminal_id s) bs\<rparr>"
  using assms length_history_frames [of bs "sub_terminal_id s"] by (simp add: push_history_def push_frames_room)

lemma send_output_keeps:
  "\<not> receiver_gone s \<Longrightarrow> \<not> lagging s \<Longrightarrow> \<exists>q l. send_output cs s = s\<lparr>queue := q, lagging := l\<rparr>
     \<and> (\<not> l \<longrightarrow> foldl screen_step scr q = foldl screen_step scr (queue s) @ concat cs)"
proof (induction cs arbitrary: s)
  case Nil
  then show ?case by (auto intro!: exI [of _ "queue s"] exI [of _ "lagging s"])
next
  case (Cons c cs)
  show ?case
  proof (cases "queue_size s \<le> length (queue s)")
    case True
    then have "send_output (c # cs) s = s\<lparr>queue := queue s, lagging := True\<rparr>"
      using Cons.prems by (simp add: try_send_def)
    then show ?thesis by blast
  next
    case False
    let ?s = "s\<lparr>queue := queue s @ [output_frame (sub_terminal_id s) c]\<rparr>"
    have step: "send_output (c # cs) s = send_output cs ?s"
      using False Cons.prems by (simp add: try_send_def)
    obtain q l where "send_output cs ?s = ?s\<lparr>queue := q, lagging := l\<rparr>"
      "\<not> l \<longrightarrow> foldl screen_step scr q = foldl screen_step scr (queue ?s) @ concat cs"
      using Cons.IH [of ?s] Cons.prems by auto
    then show ?thesis
      unfolding step by (intro exI [of _ q] exI [of _ l]) (auto simp: screen_output)
  qed
qed

text \<open>
  Runs of one terminal: output, and frames taken from the queue of the subscriber at a position.
  A pause of a lagging subscriber has room when its queue is full or has place for a snapshot.
\<close>

datatype stream_event = Out bytes | Take_frame nat

definition take_frame :: "nat \<Rightarrow> TerminalSession \<times> (nat \<Rightarrow> Frame list) \<Rightarrow> TerminalSession \<times> (nat \<Rightarrow> Frame list)" where
  "take_frame j st =
     (case st of (s, rcv) \<Rightarrow>
        if j < length (remote_subscribers s)
        then (case queue (remote_subscribers s ! j) of
                [] \<Rightarrow> st
              | f # q \<Rightarrow> (s\<lparr>remote_subscribers := (remote_subscribers s)[j := (remote_subscribers s ! j)\<lparr>queue := q\<rparr>]\<rparr>,
                            rcv(j := rcv j @ [f])))
        else st)"

fun stream_step :: "TerminalSession \<times> (nat \<Rightarrow> Frame list) \<Rightarrow> stream_event \<Rightarrow> TerminalSession \<times> (nat \<Rightarrow> Frame list)" where
  "stream_step (s, rcv) (Out d) = (session_output d s, rcv)"
| "stream_step st (Take_frame j) = take_frame j st"

fun has_room :: "nat \<Rightarrow> TerminalSession \<Rightarrow> stream_event \<Rightarrow> bool" where
  "has_room i s (Out d) =
     (d \<noteq> [] \<and> length d \<le> HISTORY_BYTES \<and>
      (let sub = remote_subscribers s ! i in
       lagging sub \<longrightarrow> queue_size sub \<le> length (queue sub) \<or> length (queue sub) + 5 \<le> queue_size sub))"
| "has_room i s (Take_frame j) = True"

fun with_room :: "nat \<Rightarrow> TerminalSession \<times> (nat \<Rightarrow> Frame list) \<Rightarrow> stream_event list \<Rightarrow> bool" where
  "with_room i st [] = True"
| "with_room i st (e # es) = (has_room i (fst st) e \<and> with_room i (stream_step st e) es)"

fun total_output :: "stream_event list \<Rightarrow> bytes" where
  "total_output [] = []"
| "total_output (Out d # es) = d @ total_output es"
| "total_output (_ # es) = total_output es"

definition in_sync :: "bytes \<Rightarrow> nat \<Rightarrow> TerminalSession \<times> (nat \<Rightarrow> Frame list) \<Rightarrow> bool" where
  "in_sync outp i st \<longleftrightarrow>
     (let (s, rcv) = st; sub = remote_subscribers s ! i; scr = screen (rcv i @ queue sub)
      in i < length (remote_subscribers s) \<and> \<not> receiver_gone sub \<and> ring_ok (history s)
        \<and> capacity_bytes (history s) = HISTORY_BYTES \<and> suffix (whole_history s) outp
        \<and> (\<not> lagging sub \<longrightarrow> suffix (whole_history s) scr \<and> suffix scr outp))"

lemma whole_after_push:
  assumes "ring_ok (history s)" "length d \<le> capacity_bytes (history s)"
  shows "suffix d (concat (ring_iter (ring_push d (history s))))"
    "suffix (concat (ring_iter (ring_push d (history s)))) (whole_history s @ d)"
    "length (concat (ring_iter (ring_push d (history s)))) \<le> capacity_bytes (history s)"
    "ring_ok (ring_push d (history s))" "capacity_bytes (ring_push d (history s)) = capacity_bytes (history s)"
proof -
  let ?r = "ring_push d (history s)"
  have c: "suffix ys (ring_iter ?r) \<longleftrightarrow> suffix ys (ring_iter (history s) @ [d]) \<and> size_of ys \<le> capacity_bytes (history s)" for ys
    using ring.contents_push [OF assms(1)] .
  have "suffix [d] (ring_iter ?r)" using assms(2) by (simp add: c size_of_def)
  then show "suffix d (concat (ring_iter ?r))" by (auto simp: suffix_def)
  have "suffix (ring_iter ?r) (ring_iter (history s) @ [d])" using c [of "ring_iter ?r"] by simp
  then show "suffix (concat (ring_iter ?r)) (whole_history s @ d)"
    by (auto simp: suffix_def whole_history_def dest!: arg_cong [where f = concat])
  have "size_of (ring_iter ?r) \<le> capacity_bytes (history s)" using c [of "ring_iter ?r"] by simp
  then show "length (concat (ring_iter ?r)) \<le> capacity_bytes (history s)" by (simp add: size_of_def length_concat)
  show "ring_ok ?r" "capacity_bytes ?r = capacity_bytes (history s)"
    using ring.good_push [OF assms(1)] ring.limit_push [OF assms(1)] by simp_all
qed

lemma suffix_append_both: "suffix xs ys \<Longrightarrow> suffix (xs @ zs) (ys @ zs)"
  by (auto simp: suffix_def)

lemma session_output_sub:
  "i < length (remote_subscribers s) \<Longrightarrow>
   remote_subscribers (session_output d s) ! i = deliver d (concat (ring_iter (ring_push d (history s)))) (remote_subscribers s ! i)"
  by (simp add: session_output_def whole_history_def)

lemma session_output_rest:
  "history (session_output d s) = ring_push d (history s)"
  "length (remote_subscribers (session_output d s)) = length (remote_subscribers s)"
  by (simp_all add: session_output_def Let_def)

lemma deliver_in_sync:
  assumes gone: "\<not> receiver_gone sub" and room: "lagging sub \<Longrightarrow> queue_size sub \<le> length (queue sub) \<or> length (queue sub) + 5 \<le> queue_size sub"
    and d: "d \<noteq> []" and hist: "suffix d hist" "length hist \<le> HISTORY_BYTES"
  shows "\<not> receiver_gone (deliver d hist sub) \<and> (\<not> lagging (deliver d hist sub) \<longrightarrow>
     foldl screen_step scr (queue (deliver d hist sub)) = (if lagging sub then hist else foldl screen_step scr (queue sub) @ d))"
proof (cases "lagging sub")
  case True
  have ne: "hist \<noteq> []" using d hist(1) by auto
  show ?thesis
  proof (cases "length (queue sub) < queue_size sub")
    case less: True
    with room True have "length (queue sub) + 5 \<le> queue_size sub" by simp
    then show ?thesis
      using True less push_history_room [OF gone hist(2)] gone screen_snapshot [OF ne hist(2)] by (simp add: deliver_def)
  qed (use True gone in \<open>simp add: deliver_def\<close>)
next
  case False
  have "0 < MAX_OUTPUT_DATA" by (simp add: MAX_OUTPUT_DATA_def)
  then show ?thesis
    using send_output_keeps [OF gone False, of "chunks MAX_OUTPUT_DATA d" scr] False gone
    by (auto simp: deliver_def concat_chunks)
qed

lemma in_sync_output:
  assumes "in_sync outp i (s, rcv)" "has_room i s (Out d)"
  shows "in_sync (outp @ d) i (stream_step (s, rcv) (Out d))"
proof -
  let ?hist = "concat (ring_iter (ring_push d (history s)))"
  note [simp] = session_output_rest session_output_sub
  have s: "i < length (remote_subscribers s)" "\<not> receiver_gone (remote_subscribers s ! i)" "ring_ok (history s)"
    "capacity_bytes (history s) = HISTORY_BYTES" "suffix (whole_history s) outp"
    "\<not> lagging (remote_subscribers s ! i) \<Longrightarrow> suffix (whole_history s) (screen (rcv i @ queue (remote_subscribers s ! i)))"
    "\<not> lagging (remote_subscribers s ! i) \<Longrightarrow> suffix (screen (rcv i @ queue (remote_subscribers s ! i))) outp"
    using assms(1) by (auto simp: in_sync_def Let_def)
  have d: "d \<noteq> []" "length d \<le> HISTORY_BYTES" using assms(2) by simp_all
  note w = whole_after_push [OF s(3), of d, unfolded s(4), OF d(2)]
  have h: "suffix ?hist (outp @ d)" using w(2) suffix_append_both [OF s(5)] suffix_order.trans by blast
  have dl: "\<not> receiver_gone (deliver d ?hist (remote_subscribers s ! i))"
    "\<not> lagging (deliver d ?hist (remote_subscribers s ! i)) \<Longrightarrow>
     screen (rcv i @ queue (deliver d ?hist (remote_subscribers s ! i))) =
       (if lagging (remote_subscribers s ! i) then ?hist else screen (rcv i @ queue (remote_subscribers s ! i)) @ d)"
    using deliver_in_sync [OF s(2) _ d(1) w(1,3), of "screen (rcv i)"] assms(2) by (simp_all add: Let_def screen_def)
  have "whole_history (session_output d s) = ?hist" by (simp add: whole_history_def)
  moreover have "suffix ?hist (screen (rcv i @ queue (remote_subscribers s ! i)) @ d)" if "\<not> lagging (remote_subscribers s ! i)"
    using w(2) suffix_append_both [OF s(6) [OF that]] suffix_order.trans by blast
  ultimately show ?thesis
    using s w h dl suffix_append_both [OF s(7)] by (simp add: in_sync_def Let_def)
qed

lemma in_sync_take:
  assumes "in_sync outp i (s, rcv)"
  shows "in_sync outp i (take_frame j (s, rcv))"
proof (cases "j < length (remote_subscribers s) \<and> queue (remote_subscribers s ! j) \<noteq> []")
  case True
  then obtain f q where q: "queue (remote_subscribers s ! j) = f # q" by (auto simp: neq_Nil_conv)
  show ?thesis
    using assms True q by (cases "i = j") (auto simp: in_sync_def take_frame_def Let_def whole_history_def)
next
  case False
  then have "take_frame j (s, rcv) = (s, rcv)" by (auto simp: take_frame_def split: list.split)
  then show ?thesis using assms by simp
qed

lemma in_sync_run:
  "in_sync outp i st \<Longrightarrow> with_room i st es \<Longrightarrow> in_sync (outp @ total_output es) i (run stream_step st es)"
proof (induction es arbitrary: st outp)
  case (Cons e es)
  obtain s rcv where [simp]: "st = (s, rcv)" by fastforce
  show ?case
  proof (cases e)
    case (Out d)
    then show ?thesis using Cons.IH [of "outp @ d"] in_sync_output Cons.prems by simp
  next
    case (Take_frame j)
    then show ?thesis using Cons.IH [of outp] in_sync_take Cons.prems by simp
  qed
qed simp


text \<open>
  C18. A subscriber that is not marked as lagging sees a contiguous end of the terminal's output
  that includes everything the history still holds: nothing is missing, repeated or out of order,
  however its frames are taken from the queue, as long as a snapshot sent after a pause finds room.
\<close>

theorem subscriber_sees_output:
  assumes "ring_ok (history s)" "capacity_bytes (history s) = HISTORY_BYTES"
    "queue sub = []" "5 \<le> queue_size sub" "\<not> receiver_gone sub"
    "i = length (filter (\<lambda>s. pairing_id s \<noteq> pairing_id sub) (remote_subscribers s))"
    "with_room i (add_subscriber sub s, \<lambda>_. []) es"
    "run stream_step (add_subscriber sub s, \<lambda>_. []) es = (s', rcv)" "\<not> lagging (remote_subscribers s' ! i)"
  shows "suffix (screen (rcv i @ queue (remote_subscribers s' ! i))) (whole_history s @ total_output es)
     \<and> suffix (whole_history s') (screen (rcv i @ queue (remote_subscribers s' ! i)))"
proof -
  have size: "length (whole_history s) \<le> HISTORY_BYTES"
    using assms(1,2) by (simp add: ring_ok_def size_of_def whole_history_def ring_iter_def length_concat)
  have sub: "remote_subscribers (add_subscriber sub s) ! i
      = sub\<lparr>queue := history_frames (sub_terminal_id sub) (whole_history s)\<rparr>" "i < length (remote_subscribers (add_subscriber sub s))"
    using assms(3-6) push_history_room [of sub, OF _ size] by (simp_all add: add_subscriber_def nth_append)
  have "screen (history_frames (sub_terminal_id sub) (whole_history s)) = whole_history s"
    using screen_snapshot [OF _ size, of "[]"]
    by (cases "whole_history s = []") (simp_all add: screen_def history_frames_def)
  moreover have "history (add_subscriber sub s) = history s" by (simp add: add_subscriber_def)
  ultimately have "in_sync (whole_history s) i (add_subscriber sub s, \<lambda>_. [])"
    using assms(1,2,5) sub by (simp add: in_sync_def Let_def whole_history_def)
  from in_sync_run [OF this assms(7)] assms(8,9) show ?thesis by (simp add: in_sync_def Let_def)
qed

definition sample_subscriber :: RemoteSubscriber where
  "sample_subscriber = \<lparr>pairing_id = ''p'', sub_terminal_id = 1, queue = [], queue_size = 256, receiver_gone = False, lagging = False\<rparr>"

lemma output_one:
  assumes "\<not> lagging sub" "\<not> receiver_gone sub" "length (queue sub) < queue_size sub"
  shows "session_output [x] (s\<lparr>remote_subscribers := [sub]\<rparr>) =
    s\<lparr>history := ring_push [x] (history s),
      remote_subscribers := [sub\<lparr>queue := queue sub @ [output_frame (sub_terminal_id sub) [x]]\<rparr>]\<rparr>"
proof -
  have "chunks MAX_OUTPUT_DATA [x] = [[x]]" by (simp add: chunks.simps [of _ "[x]"] MAX_OUTPUT_DATA_def)
  then show ?thesis using assms by (simp add: session_output_def Let_def deliver_def try_send_def)
qed

lemma subscriber_sees_output_witness:
  "\<exists>s' rcv. run stream_step (add_subscriber sample_subscriber (session_new LOCAL ''Local'' False 80 24), \<lambda>_. [])
       [Out [0x68], Take_frame 0, Out [0x69]] = (s', rcv)
     \<and> suffix (screen (rcv 0 @ queue (remote_subscribers s' ! 0))) [0x68, 0x69]
     \<and> suffix (whole_history s') (screen (rcv 0 @ queue (remote_subscribers s' ! 0)))"
proof -
  let ?s = "session_new LOCAL ''Local'' False 80 24"
  let ?es = "[Out [0x68], Take_frame 0, Out [0x69]]"
  have empty: "whole_history ?s = []" "remote_subscribers ?s = []"
    by (simp_all add: whole_history_def session_new_def ring_new_def ring_iter_def)
  have add: "add_subscriber sample_subscriber ?s = ?s\<lparr>remote_subscribers := [sample_subscriber]\<rparr>"
    by (simp add: add_subscriber_def empty push_history_def history_frames_def)
  obtain s' rcv where run: "run stream_step (add_subscriber sample_subscriber ?s, \<lambda>_. []) ?es = (s', rcv)" by fastforce
  have sub: "queue sample_subscriber = []" "5 \<le> queue_size sample_subscriber" "\<not> receiver_gone sample_subscriber"
    "\<not> lagging sample_subscriber" "Suc 0 < queue_size sample_subscriber"
    by (simp_all add: sample_subscriber_def)
  have room: "with_room 0 (add_subscriber sample_subscriber ?s, \<lambda>_. []) ?es" "\<not> lagging (remote_subscribers s' ! 0)"
    using run sub by (auto simp: add output_one take_frame_def HISTORY_BYTES_def)
  have "ring_ok (history ?s)" "capacity_bytes (history ?s) = HISTORY_BYTES"
    by (simp_all add: session_new_def ring_ok_new) (simp add: ring_new_def)
  from subscriber_sees_output [OF this sub(1-3) _ room(1) run room(2)] show ?thesis
    using run by (auto simp: empty)
qed

text \<open>
  The condition on the room is needed: with one free place the first frame of a snapshot fits, the
  others are dropped, and the subscriber counts as caught up.
\<close>

lemma snapshot_is_cut:
  assumes "lagging sub" "\<not> receiver_gone sub" "length (queue sub) + 1 = queue_size sub" "chunks MAX_HISTORY_DATA hist = c # c' # cs"
  shows "\<not> lagging (deliver d hist sub) \<and> screen (queue (deliver d hist sub)) = c"
proof -
  have full: "fold (\<lambda>f s. snd (try_send f s)) fs s = s" if "queue_size s \<le> length (queue s)" for fs s
    using that by (induction fs) (auto simp: try_send_def)
  let ?f = "history_frame (sub_terminal_id sub) 0 False c"
  have "snd (try_send ?f sub) = sub\<lparr>queue := queue sub @ [?f]\<rparr>"
    using assms(2,3) by (simp add: try_send_def)
  moreover have frames: "history_frames (sub_terminal_id sub) hist = ?f # number_history (sub_terminal_id sub) (Suc 0) (c' # cs)"
    by (simp add: history_frames_def assms(4))
  moreover have rest: "fold (\<lambda>f s. snd (try_send f s)) (number_history (sub_terminal_id sub) (Suc 0) (c' # cs))
      (sub\<lparr>queue := queue sub @ [?f]\<rparr>) = sub\<lparr>queue := queue sub @ [?f]\<rparr>"
    by (rule full) (use assms(3) in simp)
  ultimately have "push_history hist sub = sub\<lparr>queue := queue sub @ [?f]\<rparr>"
    unfolding push_history_def frames using rest by (simp only: fold_simps comp_apply)
  then show ?thesis using assms by (simp add: deliver_def screen_def screen_history_frame)
qed

text \<open>The preview holds no escape character, and text without one is left as it is.\<close>

lemma set_skip_csi: "set (skip_csi s) \<subseteq> set s"
  unfolding skip_csi_def by (meson set_drop_subset set_dropWhileD subset_iff)

lemma set_skip_osc: "set (skip_osc s) \<subseteq> set s"
  by (induction s rule: skip_osc.induct) (auto dest: in_set_dropD)

lemma strip_ansi_clean: "ESC \<notin> set (strip_ansi s)"
proof (induction s rule: strip_ansi.induct)
  case (2 c cs)
  then show ?case by (cases cs; cases "c = ESC") simp_all
qed simp

lemma strip_ansi_subset: "set (strip_ansi s) \<subseteq> set s"
proof (induction s rule: strip_ansi.induct)
  case (2 c cs)
  show ?case
  proof (cases "c = ESC \<and> cs \<noteq> []")
    case True
    then obtain d ds where [simp]: "c = ESC" "cs = d # ds" by (cases cs) auto
    have "set (drop (char_width d) (d # ds)) \<subseteq> set (d # ds)" by (rule set_drop_subset)
    then show ?thesis
      using 2 set_skip_csi [of ds] set_skip_osc [of ds]
      by (cases "d = CHR ''[''"; cases "d = CHR '']''") (simp_all, blast+)
  qed (use 2 in \<open>cases cs; auto\<close>)
qed simp

lemma strip_ansi_plain: "ESC \<notin> set s \<Longrightarrow> strip_ansi s = s"
  by (induction s) auto

text \<open>The task of an SSH terminal passes data on in order and loses none; without a pause it only collects them.\<close>

fun data_of :: "ssh_event list \<Rightarrow> bytes" where
  "data_of [] = []"
| "data_of (ChData d # es) = d @ data_of es"
| "data_of (_ # es) = data_of es"

definition passed_on :: "ssh_effect list \<Rightarrow> bytes" where
  "passed_on es = concat (map (\<lambda>e. case e of Broadcast d \<Rightarrow> d | _ \<Rightarrow> []) es)"

lemma passed_on_simps [simp]:
  "passed_on (xs @ ys) = passed_on xs @ passed_on ys" "passed_on [] = []" "passed_on [Broadcast d] = d"
  "passed_on [Stderr d] = []" "passed_on [EofAndClose] = []" "passed_on [TellClosed] = []" "passed_on [WindowChange c r] = []"
  "passed_on [EofAndClose, TellClosed] = []"
  by (simp_all add: passed_on_def)

lemma passed_on_attempts [simp]: "passed_on (send_attempts d n os) = []"
  by (induction d n os rule: send_attempts.induct) (auto simp: passed_on_def)

lemma flush_passes [simp]: "passed_on (effects (flush_buffers t)) = passed_on (effects t) @ data_buf t" "data_buf (flush_buffers t) = []"
  by (simp_all add: flush_buffers_def emit_def)

definition stops :: "ssh_event \<Rightarrow> bool" where
  "stops e \<longleftrightarrow> (case e of ChClose \<Rightarrow> True | ChNone \<Rightarrow> True | CmdsGone \<Rightarrow> True | Take CmdClose os \<Rightarrow> True | _ \<Rightarrow> False)"

lemma ssh_step_passes:
  "\<not> ended t \<Longrightarrow> passed_on (effects (ssh_step e t)) @ data_buf (ssh_step e t)
      = passed_on (effects t) @ data_buf t @ data_of [e] \<and> ended (ssh_step e t) = stops e"
  by (cases e) (auto simp: ssh_step_def emit_def flush_buffers_def stops_def split: TerminalCmd.split)

lemma ssh_task_order:
  "\<not> ended t \<Longrightarrow> list_all (\<lambda>e. \<not> stops e) es \<Longrightarrow>
   (let t' = run (\<lambda>t e. ssh_step e t) t es
    in passed_on (effects t') @ data_buf t' = passed_on (effects t) @ data_buf t @ data_of es \<and> \<not> ended t')"
proof (induction es arbitrary: t)
  case (Cons e es)
  have d: "data_of (e # es) = data_of [e] @ data_of es" by (cases e) auto
  show ?case
    using Cons.IH [of "ssh_step e t"] Cons.prems ssh_step_passes [of t e] by (simp add: Let_def d)
qed simp

lemma ssh_task_waits_for_a_pause:
  "list_all (\<lambda>e. \<exists>d. e = ChData d) es \<Longrightarrow> \<not> ended t \<Longrightarrow>
   effects (run (\<lambda>t e. ssh_step e t) t es) = effects t"
  by (induction es arbitrary: t) (auto simp: ssh_step_def)

text \<open>At most one closed event is sent for a local terminal, whoever notices its end.\<close>

definition closed_once :: "TerminalManager \<Rightarrow> bool" where
  "closed_once m \<longleftrightarrow> (\<forall>sid. count_list (case local_events m of Some es \<Rightarrow> es | None \<Rightarrow> []) (Closed sid)
      \<le> (if sid \<in> set (closed_sessions m) then 1 else 0))"

lemma announce_closed_once: "closed_once m \<Longrightarrow> closed_once (announce_closed sid m)"
proof (cases "local_events m")
  case (Some es)
  assume "closed_once m"
  then have *: "count_list es (Closed i) \<le> (if i \<in> set (closed_sessions m) then 1 else 0)" for i
    by (simp add: closed_once_def Some)
  have "i \<notin> set (closed_sessions m) \<Longrightarrow> count_list es (Closed i) = 0" "count_list es (Closed i) \<le> Suc 0" for i
    using * [of i] by (simp_all split: if_splits)
  then show ?thesis
    by (auto simp: closed_once_def announce_closed_def send_event_def mark_closed_def Some)
qed (simp add: closed_once_def announce_closed_def send_event_def mark_closed_def)

lemma closed_once_fields:
  "closed_sessions m' = closed_sessions m \<Longrightarrow> local_events m' = local_events m \<Longrightarrow> closed_once m' = closed_once m"
  by (simp add: closed_once_def)

lemma upd_session_fields [simp]:
  "closed_sessions (upd_session sid f m) = closed_sessions m" "local_events (upd_session sid f m) = local_events m"
  "trigger_overrides (upd_session sid f m) = trigger_overrides m"
  by (simp_all add: upd_session_def split: option.split)

lemma close_closed_once: "closed_once m \<Longrightarrow> closed_once (fst (snd (close sid m)))"
proof (cases "hm_get (sessions m) sid")
  case (Some s)
  assume "closed_once m"
  then have "closed_once (m\<lparr>sessions := hm_remove sid (sessions m)\<rparr>)" by (simp add: closed_once_def)
  then show ?thesis
    using announce_closed_once by (auto simp: close_def Some Let_def clear_trigger_overrides_def closed_once_fields [of _ "announce_closed _ _"] closed_once_def)
qed (simp add: close_def)

lemma local_exit_closed_once: "closed_once m \<Longrightarrow> closed_once (fst (local_exit sid m))"
  using announce_closed_once by (simp add: local_exit_def task_ends_def closed_once_fields [of "upd_session _ _ _"])

end
