(* ===== verification/Json.thy ===== *)
theory Json
  imports ConfigMigration
begin

text \<open>
  Reading and building documents of serde_json, as the handlers of the daemon and of its remote
  server do: \<open>value["k"].as_str()\<close> and its relatives, which are \<open>None\<close> for a missing key, for a value
  of another type and for a document that is no object, and the constructors behind \<open>json!\<close>.
\<close>

section \<open>Reading\<close>

definition json_str :: "json \<Rightarrow> string \<Rightarrow> string option" where
  "json_str j k = (case json_get j k of Some (JStr s) \<Rightarrow> Some s | _ \<Rightarrow> None)"

definition str_or :: "string \<Rightarrow> string option \<Rightarrow> string" where
  "str_or d s = (case s of Some x \<Rightarrow> x | None \<Rightarrow> d)"

definition json_i64 :: "json \<Rightarrow> string \<Rightarrow> int option" where
  "json_i64 j k =
     (case json_get j k of
        Some (JNum (PosInt n)) \<Rightarrow> if uint n < 2 ^ 63 then Some (uint n) else None
      | Some (JNum (NegInt i)) \<Rightarrow> Some i
      | _ \<Rightarrow> None)"

definition json_bool :: "json \<Rightarrow> string \<Rightarrow> bool option" where
  "json_bool j k = (case json_get j k of Some (JBool b) \<Rightarrow> Some b | _ \<Rightarrow> None)"

definition json_u64 :: "json \<Rightarrow> string \<Rightarrow> u64 option" where
  "json_u64 j k = Option.bind (json_get j k) as_u64"

definition json_array :: "json \<Rightarrow> string \<Rightarrow> json list option" where
  "json_array j k = (case json_get j k of Some (JArr xs) \<Rightarrow> Some xs | _ \<Rightarrow> None)"

definition json_object :: "json \<Rightarrow> string \<Rightarrow> (string, json) hm option" where
  "json_object j k = (case json_get j k of Some (JObj m) \<Rightarrow> Some m | _ \<Rightarrow> None)"

text \<open>\<open>value["k"]\<close> itself is \<open>Null\<close> when there is nothing.\<close>

definition json_index :: "json \<Rightarrow> string \<Rightarrow> json" where
  "json_index j k = (case json_get j k of Some v \<Rightarrow> v | None \<Rightarrow> JNull)"

fun as_str :: "json \<Rightarrow> string option" where
  "as_str (JStr s) = Some s"
| "as_str _ = None"

fun as_bool :: "json \<Rightarrow> bool option" where
  "as_bool (JBool b) = Some b"
| "as_bool _ = None"

text \<open>\<open>iter().filter_map(as_str)\<close>.\<close>

definition strings_of :: "json list \<Rightarrow> string list" where
  "strings_of = List.map_filter as_str"

text \<open>Setting a field from an optional value, the \<open>if let Some(v)\<close> of the update handlers.\<close>

definition put_opt :: "('v \<Rightarrow> 'a \<Rightarrow> 'a) \<Rightarrow> 'v option \<Rightarrow> 'a \<Rightarrow> 'a" where
  "put_opt f v a = (case v of Some x \<Rightarrow> f x a | None \<Rightarrow> a)"

section \<open>Building\<close>

definition jint :: "int \<Rightarrow> json" where
  "jint i = JNum (if 0 \<le> i then PosInt (word_of_int i) else NegInt i)"

definition jnat :: "nat \<Rightarrow> json" where
  "jnat n = JNum (PosInt (word_of_nat n))"

definition jword :: "'a::len word \<Rightarrow> json" where
  "jword w = JNum (PosInt (ucast w))"

definition jopt :: "('a \<Rightarrow> json) \<Rightarrow> 'a option \<Rightarrow> json" where
  "jopt f v = (case v of Some x \<Rightarrow> f x | None \<Rightarrow> JNull)"

fun is_object :: "json \<Rightarrow> bool" where
  "is_object (JObj m) = True"
| "is_object _ = False"

lemma put_opt_None [simp]: "put_opt f None a = a"
  by (simp add: put_opt_def)

lemma put_opt_Some [simp]: "put_opt f (Some v) a = f v a"
  by (simp add: put_opt_def)

text \<open>A field an update does not touch.\<close>

lemma put_opt_frame: "(\<And>v a. g (f v a) = g a) \<Longrightarrow> g (put_opt f v a) = g a"
  by (simp add: put_opt_def split: option.split)

end
