(* ===== verification/RemoteServer.thy ===== *)
theory RemoteServer
  imports Terminals FrameCrypto Json
begin

text \<open>
  The server of the remote terminal protocol (crates/daemon/src/remote_server.rs): the map between
  handles and sessions, the pairings, the questions of agents, the registry of tunnels and the
  handler of every frame.  JSON text, the configuration, the callbacks of the desktop application
  and the opening of terminals are parameters (\<open>remote_env\<close>).  Every tunnel has a bounded channel
  for frames of background work; a handler that waits on the channel of its own tunnel when it is
  full never returns (\<open>Stuck\<close>), because nobody else empties it.
\<close>

section \<open>Handles\<close>

record IdMap =
  handle_to_sid :: "(u32, string) hm"
  sid_to_handle :: "(string, u32) hm"
  next_id :: u32

definition id_map_new :: IdMap where
  "id_map_new = \<lparr>handle_to_sid = [], sid_to_handle = [], next_id = 1\<rparr>"

text \<open>The counter wraps around, as in a build without overflow checks.\<close>

definition get_or_assign :: "string \<Rightarrow> IdMap \<Rightarrow> u32 \<times> IdMap" where
  "get_or_assign sid m =
     (case hm_get (sid_to_handle m) sid of
        Some h \<Rightarrow> (h, m)
      | None \<Rightarrow>
          (next_id m,
           \<lparr>handle_to_sid = hm_insert (next_id m) sid (handle_to_sid m),
            sid_to_handle = hm_insert sid (next_id m) (sid_to_handle m), next_id = next_id m + 1\<rparr>))"

definition lookup_sid :: "u32 \<Rightarrow> IdMap \<Rightarrow> string option" where
  "lookup_sid h m = hm_get (handle_to_sid m) h"

definition id_map_remove :: "string \<Rightarrow> IdMap \<Rightarrow> IdMap" where
  "id_map_remove sid m =
     (case hm_get (sid_to_handle m) sid of
        None \<Rightarrow> m
      | Some h \<Rightarrow> m\<lparr>sid_to_handle := hm_remove sid (sid_to_handle m), handle_to_sid := hm_remove h (handle_to_sid m)\<rparr>)"

section \<open>State\<close>

text \<open>Instants are nanoseconds of the monotonic clock.\<close>

record PendingQuestion =
  question_id :: string
  pq_terminal_id :: u32
  cli :: string
  question :: string
  question_options :: "string list"
  is_multi_question :: bool
  active_tab_index :: int
  total_tabs :: int
  created_at :: nat

definition TTL :: nat where "TTL = 86400 * 10 ^ 9"
definition MAX_PER_SESSION :: nat where "MAX_PER_SESSION = 100"
definition CHANNEL_SIZE :: nat where "CHANNEL_SIZE = 256"

definition is_expired :: "nat \<Rightarrow> PendingQuestion \<Rightarrow> bool" where
  "is_expired now q \<longleftrightarrow> TTL < now - created_at q"

record async_chan =
  waiting :: "Frame list"
  chan_open :: bool

record RemoteServer =
  terminals :: TerminalManager
  id_map :: IdMap
  auth_keys :: "(string, bytes) hm"
  answered_questions :: "(string, string) hm"
  pending_questions :: "(string, PendingQuestion list) hm"
  active_tunnels :: "(string, nat) hm"
  async_chans :: "async_chan list"
  remote_opened_sessions :: "string list"

record DesktopPairMessage =
  dp_action :: string
  dp_pairing_id :: string
  dp_pairing_key_hex :: string
  dp_peer_ecdh_public_key :: string
  dp_pairing_jwt :: string
  dp_peer_name :: string
  dp_pairing_type :: string
  dp_role :: string
  dp_relay_url :: string

record TriggerRequest =
  tr_action :: string
  tr_trigger_id :: string
  tr_trigger :: "json option"

record TriggerResponse =
  tr_success :: bool
  tr_data :: json

record FileUploadResult =
  fu_cloud_path :: string
  fu_file_name :: string
  fu_size :: u64
  fu_sha256 :: string
  fu_mime_type :: string

text \<open>What a handler causes elsewhere.\<close>

datatype effect =
    Notice notice
  | AnswerCallback string json
  | ResizeCallback string u16 u16
  | FrameCallback string u8 u32 bytes
  | StartUpload u32 string

text \<open>
  The surroundings: printing and parsing JSON, the name of the local desktop, the configured
  servers, the callbacks (where one may be unset), the state of the SSH server a terminal is asked
  for, the outcome of opening it, and the identifier a new session gets.
\<close>

record remote_env =
  json_text :: "json \<Rightarrow> string"
  json_of_bytes :: "bytes \<Rightarrow> json option"
  json_of_str :: "string \<Rightarrow> string + json"
  pair_of_str :: "string \<Rightarrow> string + DesktopPairMessage"
  utf8_error :: "bytes \<Rightarrow> string"
  env_servers :: "(string \<times> string) list"
  session_alive :: "(string \<Rightarrow> bool) option"
  has_upload :: bool
  pair_callback :: "(DesktopPairMessage \<Rightarrow> string + unit) option"
  trigger_callback :: "(TriggerRequest \<Rightarrow> TriggerResponse) option"
  has_frame_callback :: bool
  has_answer_callback :: bool
  has_resize_callback :: bool
  validate_shell :: "string \<Rightarrow> string option"
  ssh_state :: "string \<Rightarrow> string + unit"
  open_ssh_result :: "string \<Rightarrow> string + bytes"
  open_local_result :: "string option \<Rightarrow> string + unit"
  fresh_session :: string
  system_info :: json

definition remote_server_new :: RemoteServer where
  "remote_server_new =
     \<lparr>terminals = terminals_new, id_map = id_map_new, auth_keys = [], answered_questions = [],
      pending_questions = [], active_tunnels = [], async_chans = [], remote_opened_sessions = []\<rparr>"

section \<open>Pairings and tunnels\<close>

definition add_pairing :: "string \<Rightarrow> bytes \<Rightarrow> RemoteServer \<Rightarrow> RemoteServer" where
  "add_pairing pid key rs = rs\<lparr>auth_keys := hm_insert pid key (auth_keys rs)\<rparr>"

definition remove_pairing :: "string \<Rightarrow> RemoteServer \<Rightarrow> RemoteServer" where
  "remove_pairing pid rs = rs\<lparr>auth_keys := hm_remove pid (auth_keys rs)\<rparr>"

definition revoke_pairing :: "string \<Rightarrow> RemoteServer \<Rightarrow> RemoteServer" where
  "revoke_pairing pid rs =
     rs\<lparr>auth_keys := hm_remove pid (auth_keys rs), terminals := remove_remote_subscribers pid (terminals rs)\<rparr>"

definition get_pairing_key :: "string \<Rightarrow> RemoteServer \<Rightarrow> bytes option" where
  "get_pairing_key pid rs = hm_get (auth_keys rs) pid"

definition is_tunnel_active :: "string \<Rightarrow> RemoteServer \<Rightarrow> bool" where
  "is_tunnel_active pid rs \<longleftrightarrow> hm_get (active_tunnels rs) pid \<noteq> None"

datatype async_error = AsyncFull | AsyncClosed

definition try_async :: "Frame \<Rightarrow> nat \<Rightarrow> RemoteServer \<Rightarrow> (async_error + unit) \<times> RemoteServer" where
  "try_async f k rs =
     (let c = async_chans rs ! k
      in if length (async_chans rs) \<le> k \<or> \<not> chan_open c then (Inl AsyncClosed, rs)
         else if CHANNEL_SIZE \<le> length (waiting c) then (Inl AsyncFull, rs)
         else (Inr (), rs\<lparr>async_chans := (async_chans rs)[k := c\<lparr>waiting := waiting c @ [f]\<rparr>]\<rparr>))"

text \<open>Sending to all tunnels: \<open>drops\<close> says for which failures a tunnel is taken from the registry.\<close>

fun try_tunnels ::
  "(async_error \<Rightarrow> bool) \<Rightarrow> Frame \<Rightarrow> (string \<times> nat) list \<Rightarrow> nat \<times> string list \<times> RemoteServer \<Rightarrow> nat \<times> string list \<times> RemoteServer" where
  "try_tunnels drops f [] st = st"
| "try_tunnels drops f ((pid, k) # ts) (n, dead, rs) =
     (case try_async f k rs of
        (Inr _, rs') \<Rightarrow> try_tunnels drops f ts (n + 1, dead, rs')
      | (Inl e, rs') \<Rightarrow> try_tunnels drops f ts (n, if drops e then dead @ [pid] else dead, rs'))"

definition broadcast_tunnels :: "(async_error \<Rightarrow> bool) \<Rightarrow> Frame \<Rightarrow> RemoteServer \<Rightarrow> nat \<times> RemoteServer" where
  "broadcast_tunnels drops f rs =
     (let (n, dead, rs') = try_tunnels drops f (active_tunnels rs) (0, [], rs)
      in (n, rs'\<lparr>active_tunnels := fold hm_remove dead (active_tunnels rs')\<rparr>))"

text \<open>A changed list: every failure counts as a disconnection, a full channel too.\<close>

definition broadcast_list_changed :: "remote_env \<Rightarrow> RemoteServer \<Rightarrow> RemoteServer" where
  "broadcast_list_changed env rs =
     snd (broadcast_tunnels (\<lambda>_. True) (notify_frame 0 (json_text env (JObj [(''type'', JStr ''list_changed'')]))) rs)"

definition broadcast_frame_to_all :: "Frame \<Rightarrow> RemoteServer \<Rightarrow> nat \<times> RemoteServer" where
  "broadcast_frame_to_all f rs = broadcast_tunnels (\<lambda>e. e = AsyncClosed) f rs"

text \<open>The notices of the terminals: the callbacks for opened and closed terminals act here.\<close>

definition apply_notice :: "remote_env \<Rightarrow> notice \<Rightarrow> RemoteServer \<Rightarrow> RemoteServer" where
  "apply_notice env n rs =
     (case n of
        SessionClosed sid \<Rightarrow> broadcast_list_changed env (rs\<lparr>id_map := id_map_remove sid (id_map rs)\<rparr>)
      | ListChanged \<Rightarrow> broadcast_list_changed env rs
      | _ \<Rightarrow> rs)"

definition with_terminals :: "remote_env \<Rightarrow> TerminalManager \<times> notice list \<Rightarrow> RemoteServer \<Rightarrow> RemoteServer" where
  "with_terminals env mn rs = fold (apply_notice env) (snd mn) (rs\<lparr>terminals := fst mn\<rparr>)"

text \<open>Waiting on a channel that only this tunnel's loop empties.\<close>

datatype 'a waits = Done 'a | Stuck RemoteServer

fun and_then :: "'a waits \<Rightarrow> ('a \<Rightarrow> 'b waits) \<Rightarrow> 'b waits" where
  "and_then (Done x) f = f x"
| "and_then (Stuck rs) f = Stuck rs"

definition send_own :: "Frame \<Rightarrow> nat \<Rightarrow> RemoteServer \<Rightarrow> (bool \<times> RemoteServer) waits" where
  "send_own f k rs =
     (case try_async f k rs of
        (Inr _, rs') \<Rightarrow> Done (True, rs')
      | (Inl AsyncClosed, rs') \<Rightarrow> Done (False, rs')
      | (Inl AsyncFull, rs') \<Rightarrow> Stuck rs')"

fun send_own_all :: "Frame list \<Rightarrow> nat \<Rightarrow> RemoteServer \<Rightarrow> RemoteServer waits" where
  "send_own_all [] k rs = Done rs"
| "send_own_all (f # fs) k rs = and_then (send_own f k rs) (\<lambda>(_, rs'). send_own_all fs k rs')"

definition resolve_sid :: "u32 \<Rightarrow> RemoteServer \<Rightarrow> string option" where
  "resolve_sid tid rs = lookup_sid tid (id_map rs)"

definition resolve_terminal_id :: "string \<Rightarrow> RemoteServer \<Rightarrow> u32 option" where
  "resolve_terminal_id sid rs = hm_get (sid_to_handle (id_map rs)) sid"

section \<open>Questions of agents\<close>

definition mark_question_answered :: "string \<Rightarrow> string \<Rightarrow> RemoteServer \<Rightarrow> bool \<times> RemoteServer" where
  "mark_question_answered qid answer rs =
     (if hm_get (answered_questions rs) qid \<noteq> None then (False, rs)
      else (True, rs\<lparr>answered_questions := hm_insert qid answer (answered_questions rs)\<rparr>))"

text \<open>The task that forgets an answer thirty seconds after it was given.\<close>

definition forget_answer :: "string \<Rightarrow> RemoteServer \<Rightarrow> RemoteServer" where
  "forget_answer qid rs = rs\<lparr>answered_questions := hm_remove qid (answered_questions rs)\<rparr>"

definition check_question_answered :: "string \<Rightarrow> RemoteServer \<Rightarrow> string option" where
  "check_question_answered qid rs = hm_get (answered_questions rs) qid"

definition to_notify_json :: "PendingQuestion \<Rightarrow> json" where
  "to_notify_json q =
     JObj [(''event_type'', JStr ''agent_blocked''), (''question_id'', JStr (question_id q)),
       (''terminal_id'', jint (uint (pq_terminal_id q))), (''cli'', JStr (cli q)), (''question'', JStr (question q)),
       (''options'', JArr (map JStr (question_options q))), (''is_multi_question'', JBool (is_multi_question q)),
       (''active_tab_index'', jint (active_tab_index q)), (''total_tabs'', jint (total_tabs q))]"

definition question_frame :: "remote_env \<Rightarrow> PendingQuestion \<Rightarrow> Frame" where
  "question_frame env q = notify_frame (pq_terminal_id q) (json_text env (to_notify_json q))"

definition pending_of :: "string \<Rightarrow> RemoteServer \<Rightarrow> PendingQuestion list" where
  "pending_of sid rs = (case hm_get (pending_questions rs) sid of Some qs \<Rightarrow> qs | None \<Rightarrow> [])"

definition enqueue_question :: "nat \<Rightarrow> PendingQuestion \<Rightarrow> PendingQuestion list \<Rightarrow> PendingQuestion list" where
  "enqueue_question now q qs =
     (let qs1 = filter (\<lambda>x. \<not> is_expired now x) qs;
          qs2 = filter (\<lambda>x. question_id x \<noteq> question_id q) qs1;
          qs3 = (if MAX_PER_SESSION \<le> length qs2 then tl qs2 else qs2)
      in qs3 @ [q])"

text \<open>\<open>q\<close> is the question as it was put together; its terminal and its time are set here.\<close>

definition notify_agent_blocked ::
  "remote_env \<Rightarrow> nat \<Rightarrow> string \<Rightarrow> PendingQuestion \<Rightarrow> RemoteServer \<Rightarrow> nat \<times> RemoteServer" where
  "notify_agent_blocked env now sid q rs =
     (case resolve_terminal_id sid rs of
        None \<Rightarrow> (0, rs)
      | Some tid \<Rightarrow>
          (let pq = q\<lparr>pq_terminal_id := tid, created_at := now\<rparr>;
               (sent, tm) = broadcast_to_subscribers_count sid (question_frame env pq) (terminals rs)
           in (sent, rs\<lparr>terminals := tm,
                 pending_questions := hm_insert sid (enqueue_question now pq (pending_of sid rs)) (pending_questions rs)\<rparr>)))"

definition remove_pending :: "string \<Rightarrow> string \<Rightarrow> RemoteServer \<Rightarrow> RemoteServer" where
  "remove_pending sid qid rs =
     (case hm_get (pending_questions rs) sid of
        None \<Rightarrow> rs
      | Some qs \<Rightarrow>
          (let qs' = filter (\<lambda>q. question_id q \<noteq> qid) qs
           in rs\<lparr>pending_questions := (if qs' = [] then hm_remove sid (pending_questions rs)
                                        else hm_insert sid qs' (pending_questions rs))\<rparr>))"

definition broadcast_to :: "string \<Rightarrow> Frame \<Rightarrow> RemoteServer \<Rightarrow> RemoteServer" where
  "broadcast_to sid f rs = rs\<lparr>terminals := broadcast_to_subscribers sid f (terminals rs)\<rparr>"

definition notify_agent_resolved :: "remote_env \<Rightarrow> string \<Rightarrow> string \<Rightarrow> string \<Rightarrow> RemoteServer \<Rightarrow> RemoteServer" where
  "notify_agent_resolved env sid qid answer rs =
     (case resolve_terminal_id sid rs of
        None \<Rightarrow> rs
      | Some tid \<Rightarrow>
          broadcast_to sid (notify_frame tid (json_text env
              (JObj [(''event_type'', JStr ''agent_resolved''), (''question_id'', JStr qid), (''answer'', JStr answer)])))
            (remove_pending sid qid rs))"

text \<open>A question that cannot be sent goes back; those behind it are lost.\<close>

fun flush_list :: "remote_env \<Rightarrow> string \<Rightarrow> PendingQuestion list \<Rightarrow> nat \<Rightarrow> RemoteServer \<Rightarrow> (bool \<times> RemoteServer) waits" where
  "flush_list env sid [] k rs = Done (True, rs)"
| "flush_list env sid (q # qs) k rs =
     and_then (send_own (question_frame env q) k rs) (\<lambda>(ok, rs').
       if ok then flush_list env sid qs k rs'
       else Done (False, rs'\<lparr>pending_questions := hm_insert sid (pending_of sid rs' @ [q]) (pending_questions rs')\<rparr>))"

definition flush_pending_questions :: "remote_env \<Rightarrow> nat \<Rightarrow> string \<Rightarrow> nat \<Rightarrow> RemoteServer \<Rightarrow> RemoteServer waits" where
  "flush_pending_questions env now sid k rs =
     (case hm_get (pending_questions rs) sid of
        None \<Rightarrow> Done rs
      | Some qs \<Rightarrow>
          (let qs' = filter (\<lambda>q. \<not> is_expired now q) qs
           in if qs' = [] then Done (rs\<lparr>pending_questions := hm_remove sid (pending_questions rs)\<rparr>)
              else map_waits snd (flush_list env sid qs' k
                     (rs\<lparr>pending_questions := hm_insert sid [] (pending_questions rs)\<rparr>))))"

fun flush_sessions ::
  "remote_env \<Rightarrow> (string \<times> PendingQuestion list) list \<Rightarrow> nat \<Rightarrow> RemoteServer \<Rightarrow> RemoteServer waits" where
  "flush_sessions env [] k rs = Done rs"
| "flush_sessions env ((sid, qs) # ss) k rs =
     and_then (flush_list env sid qs k rs) (\<lambda>(ok, rs'). if ok then flush_sessions env ss k rs' else Done rs')"

definition flush_all_pending_for_pairing :: "remote_env \<Rightarrow> nat \<Rightarrow> nat \<Rightarrow> RemoteServer \<Rightarrow> RemoteServer waits" where
  "flush_all_pending_for_pairing env now k rs =
     (let live = filter (\<lambda>(_, qs). qs \<noteq> []) (map (\<lambda>(sid, qs). (sid, filter (\<lambda>q. \<not> is_expired now q) qs)) (pending_questions rs))
      in flush_sessions env live k (rs\<lparr>pending_questions := map (\<lambda>(sid, _). (sid, [])) live\<rparr>))"

section \<open>Handlers of frames\<close>

type_synonym handled = "(Frame option \<times> effect list \<times> RemoteServer) waits"

definition reply :: "Frame \<Rightarrow> RemoteServer \<Rightarrow> handled" where
  "reply f rs = Done (Some f, [], rs)"

text \<open>The names of the local desktop and of a numbered terminal, in UTF-8.\<close>

definition DESKTOP_NAME :: string where
  "DESKTOP_NAME = [CHR 0xE6, CHR 0xA1, CHR 0x8C, CHR 0xE9, CHR 0x9D, CHR 0xA2, CHR 0xE7, CHR 0xAB, CHR 0xAF]"

definition terminal_name :: "nat \<Rightarrow> string" where
  "terminal_name n = [CHR 0xE7, CHR 0xBB, CHR 0x88, CHR 0xE7, CHR 0xAB, CHR 0xAF, CHR 0x20] @ show_nat n"

definition server_name :: "remote_env \<Rightarrow> string \<Rightarrow> string" where
  "server_name env server_id =
     (if server_id = LOCAL then DESKTOP_NAME else str_or server_id (map_of (env_servers env) server_id))"

definition terminal_json :: "remote_env \<Rightarrow> u32 \<Rightarrow> SessionInfo \<Rightarrow> json" where
  "terminal_json env h nfo =
     JObj [(''id'', jint (uint h)), (''name'', JStr (inf_name nfo)), (''status'', JStr (inf_status nfo)),
       (''preview'', JStr (inf_preview nfo)), (''server_id'', JStr (inf_server_id nfo)),
       (''server_name'', JStr (server_name env (inf_server_id nfo))), (''terminal_type'', JStr (inf_terminal_type nfo)),
       (''tmux_session_name'', case inf_tmux_session_name nfo of Some n \<Rightarrow> JStr n | None \<Rightarrow> JNull)]"

fun assign_handles :: "remote_env \<Rightarrow> SessionInfo list \<Rightarrow> IdMap \<Rightarrow> json list \<times> IdMap" where
  "assign_handles env [] m = ([], m)"
| "assign_handles env (nfo # infs) m =
     (let (h, m1) = get_or_assign (inf_session_id nfo) m; (js, m2) = assign_handles env infs m1
      in (terminal_json env h nfo # js, m2))"

definition zombies :: "remote_env \<Rightarrow> RemoteServer \<Rightarrow> SessionInfo list \<Rightarrow> string list" where
  "zombies env rs infs =
     (case session_alive env of
        None \<Rightarrow> []
      | Some check \<Rightarrow> map inf_session_id (filter (\<lambda>i. inf_is_local i \<and> inf_session_id i \<notin> set (remote_opened_sessions rs)
          \<and> \<not> check (inf_session_id i)) infs))"

definition server_json :: "string \<Rightarrow> string \<Rightarrow> bool \<Rightarrow> json" where
  "server_json i n l = JObj [(''server_id'', JStr i), (''server_name'', JStr n), (''is_local'', JBool l)]"

definition close_session :: "remote_env \<Rightarrow> string \<Rightarrow> RemoteServer \<Rightarrow> (string + unit) \<times> effect list \<times> RemoteServer" where
  "close_session env sid rs =
     (let (r, tm, ns) = close sid (terminals rs) in (r, map Notice ns, with_terminals env (tm, ns) rs))"

definition reap :: "remote_env \<Rightarrow> string list \<Rightarrow> RemoteServer \<Rightarrow> effect list \<times> RemoteServer" where
  "reap env sids rs = fold (\<lambda>sid (es, rs). let (_, es', rs') = close_session env sid rs in (es @ es', rs')) sids ([], rs)"

text \<open>The list is sent before the terminals nobody shows are closed.\<close>

definition handle_list_request :: "remote_env \<Rightarrow> nat \<Rightarrow> RemoteServer \<Rightarrow> handled" where
  "handle_list_request env k rs =
     (let all = list_session_infos (terminals rs);
          dead = zombies env rs all;
          infs = filter (\<lambda>i. inf_session_id i \<notin> set dead) all;
          (js, m) = assign_handles env infs (id_map rs);
          svs = server_json LOCAL DESKTOP_NAME True # map (\<lambda>(i, n). server_json i n False) (env_servers env);
          f = list_response_frame 0 (json_text env (JObj [(''terminals'', JArr js), (''servers'', JArr svs)]))
      in and_then (send_own f k (rs\<lparr>id_map := m\<rparr>)) (\<lambda>(_, rs1).
           let (es, rs2) = reap env dead rs1 in Done (None, es, rs2)))"

definition SUBSCRIBER_CHANNEL :: nat where "SUBSCRIBER_CHANNEL = 256"

definition handle_subscribe :: "remote_env \<Rightarrow> nat \<Rightarrow> u32 \<Rightarrow> string \<Rightarrow> nat \<Rightarrow> RemoteServer \<Rightarrow> handled" where
  "handle_subscribe env now tid pid k rs =
     (case resolve_sid tid rs of
        None \<Rightarrow> reply (error_frame ''invalid_terminal_id'') rs
      | Some sid \<Rightarrow>
          (case subscribe_remote sid \<lparr>pairing_id = pid, sub_terminal_id = tid, queue = [], queue_size = SUBSCRIBER_CHANNEL,
                   receiver_gone = False, lagging = False\<rparr> (terminals rs) of
             (Inl _, _) \<Rightarrow> reply (error_frame ''terminal_not_found'') rs
           | (Inr _, tm) \<Rightarrow>
               and_then (flush_pending_questions env now sid k (rs\<lparr>terminals := tm\<rparr>))
                 (reply (ok_frame tid))))"

definition handle_unsubscribe :: "remote_env \<Rightarrow> u32 \<Rightarrow> string \<Rightarrow> RemoteServer \<Rightarrow> handled" where
  "handle_unsubscribe env tid pid rs =
     (case resolve_sid tid rs of
        None \<Rightarrow> reply (ok_frame tid) rs
      | Some sid \<Rightarrow>
          (let (tm, ns) = unsubscribe_remote sid pid (terminals rs)
           in Done (Some (ok_frame tid), map Notice ns, with_terminals env (tm, ns) rs)))"

definition handle_input :: "Frame \<Rightarrow> RemoteServer \<Rightarrow> handled" where
  "handle_input f rs =
     (case resolve_sid (terminal_id f) rs of
        None \<Rightarrow> reply (error_frame ''invalid_terminal_id'') rs
      | Some sid \<Rightarrow>
          (case input_with_ack sid (payload f) (terminals rs) of
             (Inl _, _) \<Rightarrow> reply (error_frame ''input_failed'') rs
           | (Inr _, tm) \<Rightarrow> reply (ok_frame (terminal_id f)) (rs\<lparr>terminals := tm\<rparr>)))"

definition resolved_json :: "remote_env \<Rightarrow> string \<Rightarrow> string \<Rightarrow> string" where
  "resolved_json env qid answer = json_text env (JObj [(''question_id'', JStr qid), (''answer'', JStr answer)])"

text \<open>A dismissal and an answer given elsewhere tell the subscribers twice.\<close>

definition tell_resolved :: "remote_env \<Rightarrow> u32 \<Rightarrow> string \<Rightarrow> string \<Rightarrow> string \<Rightarrow> string option \<Rightarrow> RemoteServer \<Rightarrow> RemoteServer" where
  "tell_resolved env tid qid answer reason sid rs =
     (case sid of
        None \<Rightarrow> rs
      | Some s \<Rightarrow>
          broadcast_to s (question_resolved_frame (resolved_json env) tid qid answer)
            (broadcast_to s (notify_frame tid (json_text env (JObj [(''event_type'', JStr ''agent_resolved''),
                (''question_id'', JStr qid), (''terminal_id'', jint (uint tid)), (''reason'', JStr reason)]))) rs))"

definition answer_event ::
  "u32 \<Rightarrow> string option \<Rightarrow> string \<Rightarrow> string \<Rightarrow> int \<Rightarrow> string \<Rightarrow> json \<Rightarrow> bool \<Rightarrow> bool \<Rightarrow> int \<Rightarrow> int \<Rightarrow> json" where
  "answer_event tid sid qid answer index c opts multi_select multi_question tab tabs =
     JObj [(''type'', JStr ''agent_remote_answer''), (''terminal_id'', jint (uint tid)), (''session_id'', JStr (str_or [] sid)),
       (''question_id'', JStr qid), (''answer'', JStr answer), (''option_index'', jint index), (''cli'', JStr c),
       (''options'', opts), (''is_multi_select'', JBool multi_select), (''is_multi_question'', JBool multi_question),
       (''active_tab_index'', jint tab), (''total_tabs'', jint tabs)]"

definition phone_event :: "json \<Rightarrow> u32 \<Rightarrow> string option \<Rightarrow> string \<Rightarrow> string \<Rightarrow> json" where
  "phone_event req tid sid qid answer =
     (let i = (\<lambda>d k. case json_i64 req k of Some i \<Rightarrow> i | None \<Rightarrow> d); b = (\<lambda>k. json_bool req k = Some True)
      in answer_event tid sid qid answer (i 0 ''option_index'') (str_or ''unknown'' (json_str req ''cli''))
           (case json_get req ''options'' of Some o' \<Rightarrow> o' | None \<Rightarrow> JNull) (b ''is_multi_select'')
           (b ''is_multi_question'') (i (- 1) ''active_tab_index'') (i 0 ''total_tabs''))"

definition call_answer :: "remote_env \<Rightarrow> string \<Rightarrow> json \<Rightarrow> effect list" where
  "call_answer env qid event = (if has_answer_callback env then [AnswerCallback qid event] else [])"

text \<open>The answer typed into the terminal; an error of the terminal is ignored.\<close>

definition type_answer :: "string \<Rightarrow> string \<Rightarrow> RemoteServer \<Rightarrow> RemoteServer" where
  "type_answer sid answer rs =
     rs\<lparr>terminals := snd (input_with_ack sid (bytes_of_str (answer @ [CHR 0x0A])) (terminals rs))\<rparr>"

definition act_on_answer ::
  "remote_env \<Rightarrow> json \<Rightarrow> u32 \<Rightarrow> string option \<Rightarrow> string \<Rightarrow> string \<Rightarrow> RemoteServer \<Rightarrow> effect list \<times> RemoteServer" where
  "act_on_answer env req tid sid qid answer rs =
     (if answer = ''__dismissed__'' then ([], tell_resolved env tid qid answer ''dismissed'' sid rs)
      else if answer = ''__answered__'' then
        (call_answer env qid (answer_event tid sid qid ''__answered__'' 0 ''unknown'' JNull False False (- 1) 0),
         tell_resolved env tid qid answer ''answered_remotely'' sid rs)
      else if str_or ''local'' (json_str req ''source'') = ''phone'' then
        (call_answer env qid (phone_event req tid sid qid answer), rs)
      else (case sid of
              None \<Rightarrow> ([], rs)
            | Some s \<Rightarrow> ([], broadcast_to s (question_resolved_frame (resolved_json env) tid qid answer) (type_answer s answer rs))))"

definition handle_input_answer :: "remote_env \<Rightarrow> Frame \<Rightarrow> RemoteServer \<Rightarrow> handled" where
  "handle_input_answer env f rs =
     (case json_of_bytes env (payload f) of
        None \<Rightarrow> reply (error_frame ''invalid_payload'') rs
      | Some req \<Rightarrow>
          (let qid = str_or [] (json_str req ''question_id'');
               answer = str_or [] (json_str req ''answer'');
               is_nav = (answer = ''__nav_prev__'' \<or> answer = ''__nav_next__'');
               is_special = (is_nav \<or> answer = ''__confirm__'');
               tid = terminal_id f
           in if qid = [] then reply (error_frame ''invalid_payload'') rs
              else (let (accepted, rs1) = (if is_special then (True, rs) else mark_question_answered qid answer rs)
                    in if \<not> accepted then reply (error_frame ''already_answered'') rs
                       else (let sid = resolve_sid tid rs1;
                                 rs2 = (case sid of Some s \<Rightarrow> if is_nav then rs1 else remove_pending s qid rs1 | None \<Rightarrow> rs1);
                                 (es, rs3) = act_on_answer env req tid sid qid answer rs2
                             in Done (Some (ok_frame tid), es, rs3)))))"

definition handle_resize :: "remote_env \<Rightarrow> Frame \<Rightarrow> RemoteServer \<Rightarrow> handled" where
  "handle_resize env f rs =
     (case (resolve_sid (terminal_id f) rs, parse_resize f) of
        (Some sid, Some (cols, rows)) \<Rightarrow>
          (let call = (if has_resize_callback env then [ResizeCallback sid cols rows] else [])
           in if cols = 0 \<and> rows = 0 then Done (None, call, rs)
              else (let (tm, ns) = resize_pty_only sid (ucast cols) (ucast rows) (terminals rs)
                    in Done (None, map Notice ns @ call, rs\<lparr>terminals := tm\<rparr>)))
      | _ \<Rightarrow> reply (error_frame ''invalid_terminal_id'') rs)"

definition handle_redraw_request :: "u32 \<Rightarrow> nat \<Rightarrow> RemoteServer \<Rightarrow> handled" where
  "handle_redraw_request tid k rs =
     (case Option.bind (resolve_sid tid rs) (\<lambda>sid. get_history sid (terminals rs)) of
        None \<Rightarrow> reply (error_frame ''invalid_terminal_id'') rs
      | Some h \<Rightarrow>
          (let all = concat h;
               fs = (if all = [] then [history_frame tid 0 True []] else history_frames tid all)
           in and_then (send_own_all fs k rs) (reply (ok_frame tid))))"

definition handle_file_request :: "remote_env \<Rightarrow> Frame \<Rightarrow> RemoteServer \<Rightarrow> handled" where
  "handle_file_request env f rs =
     (case resolve_sid (terminal_id f) rs of
        None \<Rightarrow> reply (error_frame ''invalid_terminal_id'') rs
      | Some sid \<Rightarrow>
          if \<not> is_local_session sid (terminals rs) then reply (error_frame ''file_request_unsupported'') rs
          else (let path = (case json_of_bytes env (payload f) of
                              Some v \<Rightarrow> str_or [] (json_str v ''file_path'')
                            | None \<Rightarrow> from_utf8_lossy (payload f))
                in if path = [] then reply (error_frame ''missing_file_path'') rs
                   else if \<not> has_upload env then reply (error_frame ''file_upload_not_configured'') rs
                   else Done (Some (ok_frame (terminal_id f)), [StartUpload (terminal_id f) path], rs)))"

text \<open>What the background upload sends when it is done.\<close>

definition upload_frame :: "remote_env \<Rightarrow> u32 \<Rightarrow> string + FileUploadResult \<Rightarrow> Frame" where
  "upload_frame env tid r =
     (case r of
        Inr u \<Rightarrow> notify_frame tid (json_text env (JObj [(''event_type'', JStr ''file_ready''),
            (''cloud_path'', JStr (fu_cloud_path u)), (''file_name'', JStr (fu_file_name u)),
            (''size'', JNum (PosInt (fu_size u))), (''sha256'', JStr (fu_sha256 u)), (''mime_type'', JStr (fu_mime_type u))]))
      | Inl e \<Rightarrow> error_with_terminal_frame tid (''file_upload_failed: '' @ e))"

definition pair_answer :: "remote_env \<Rightarrow> (string \<times> string) list \<Rightarrow> RemoteServer \<Rightarrow> handled" where
  "pair_answer env kvs = reply (desktop_pair_response_frame (json_text env (JObj (map (\<lambda>(k, v). (k, JStr v)) kvs))))"

definition handle_desktop_pair_frame :: "remote_env \<Rightarrow> Frame \<Rightarrow> RemoteServer \<Rightarrow> handled" where
  "handle_desktop_pair_frame env f rs =
     (let refuse = (\<lambda>m. pair_answer env [(''action'', ''pair_error''), (''message'', m)] rs)
      in case from_utf8 (payload f) of
           None \<Rightarrow> refuse (''utf8: '' @ utf8_error env (payload f))
         | Some p \<Rightarrow>
             (case pair_of_str env p of
                Inl e \<Rightarrow> refuse (''parse: '' @ e)
              | Inr msg \<Rightarrow>
                  if dp_action msg \<noteq> ''pair'' then refuse (''unexpected action: '' @ dp_action msg)
                  else (case pair_callback env of
                          None \<Rightarrow> refuse ''desktop_pair_not_configured''
                        | Some cb \<Rightarrow>
                            (case cb msg of
                               Inr _ \<Rightarrow> pair_answer env [(''action'', ''pair_ok''), (''pairing_id'', dp_pairing_id msg)] rs
                             | Inl e \<Rightarrow> pair_answer env [(''action'', ''pair_error''), (''pairing_id'', dp_pairing_id msg),
                                          (''message'', e)] rs))))"

definition trigger_action :: "u8 \<Rightarrow> string option" where
  "trigger_action t =
     (if t = TRIGGER_LIST_REQUEST then Some ''list'' else if t = TRIGGER_EXEC then Some ''exec''
      else if t = TRIGGER_ADD then Some ''add'' else if t = TRIGGER_UPDATE then Some ''update''
      else if t = TRIGGER_REMOVE then Some ''remove'' else None)"

definition trigger_request :: "remote_env \<Rightarrow> string \<Rightarrow> Frame \<Rightarrow> string + TriggerRequest" where
  "trigger_request env action f =
     (if action = ''list'' then Inr \<lparr>tr_action = action, tr_trigger_id = [], tr_trigger = None\<rparr>
      else (case from_utf8 (payload f) of
              None \<Rightarrow> Inl (''utf8: '' @ utf8_error env (payload f))
            | Some p \<Rightarrow>
                (case json_of_str env p of
                   Inl e \<Rightarrow> Inl (''parse: '' @ e)
                 | Inr req \<Rightarrow> Inr \<lparr>tr_action = action, tr_trigger_id = str_or [] (json_str req ''trigger_id''),
                     tr_trigger = (if action = ''add'' \<or> action = ''update'' then json_get req ''trigger'' else None)\<rparr>)))"

definition handle_trigger_frame :: "remote_env \<Rightarrow> Frame \<Rightarrow> RemoteServer \<Rightarrow> handled" where
  "handle_trigger_frame env f rs =
     (case trigger_action (frame_type f) of
        None \<Rightarrow> reply (error_frame ''unknown_trigger_frame'') rs
      | Some action \<Rightarrow>
          (case trigger_request env action f of
             Inl e \<Rightarrow> reply (error_frame e) rs
           | Inr request \<Rightarrow>
               (case trigger_callback env of
                  None \<Rightarrow> reply (error_frame ''trigger_not_configured'') rs
                | Some cb \<Rightarrow>
                    (let r = cb request
                     in if \<not> tr_success r then
                          reply (error_frame (case tr_data r of JStr s \<Rightarrow> s | _ \<Rightarrow> ''trigger_error'')) rs
                        else if action = ''list'' then reply (trigger_list_response_frame (json_text env (tr_data r))) rs
                        else if action = ''exec'' then reply (trigger_exec_result_frame (json_text env (tr_data r))) rs
                        else reply (ok_frame 0) rs))))"

text \<open>The first free number for a terminal's name; the names that are taken bound the search.\<close>

fun first_free :: "nat \<Rightarrow> string list \<Rightarrow> nat \<Rightarrow> string" where
  "first_free 0 names n = terminal_name n"
| "first_free (Suc fuel) names n =
     (if terminal_name n \<in> set names then first_free fuel names (n + 1) else terminal_name n)"

definition handle_new_terminal :: "remote_env \<Rightarrow> Frame \<Rightarrow> RemoteServer \<Rightarrow> handled" where
  "handle_new_terminal env f rs =
     (case from_utf8 (payload f) of
        None \<Rightarrow> reply (error_frame ''invalid_payload'') rs
      | Some p \<Rightarrow>
          (case json_of_str env p of
             Inl _ \<Rightarrow> reply (error_frame ''invalid_json'') rs
           | Inr req \<Rightarrow>
               (let shell = Option.bind (json_str req ''shell'') (validate_shell env);
                    server_id = (case json_str req ''server_id'' of
                                   Some s \<Rightarrow> if s \<noteq> [] \<and> s \<noteq> LOCAL then Some s else None | None \<Rightarrow> None);
                    names = remdups (map inf_name (filter (\<lambda>i. inf_server_id i = str_or LOCAL server_id)
                              (list_session_infos (terminals rs))));
                    sid = fresh_session env;
                    opened = (case server_id of
                       Some s \<Rightarrow> (case ssh_state env s of
                          Inl e \<Rightarrow> Inl e
                        | Inr _ \<Rightarrow> Inr (open_ssh sid (open_ssh_result env s) s 80 24 (terminals rs)))
                     | None \<Rightarrow> Inr (open_local sid (open_local_result env shell) 80 24 None (terminals rs)))
                in case opened of
                     Inl e \<Rightarrow> reply (error_frame e) rs
                   | Inr (Inl e, tm) \<Rightarrow> reply (error_frame (''open_failed: '' @ e)) (rs\<lparr>terminals := tm\<rparr>)
                   | Inr (Inr _, tm) \<Rightarrow>
                       (let name = str_or (first_free (length names) names (length names + 1)) (json_str req ''name'');
                            ns = [ListChanged, GuiOpened sid (Some name)];
                            rs1 = with_terminals env (set_session_name sid name tm, ns) rs;
                            (h, m) = get_or_assign sid (id_map rs1);
                            rs2 = rs1\<lparr>remote_opened_sessions := List.insert sid (remote_opened_sessions rs1), id_map := m\<rparr>
                        in Done (Some (ok_with_payload_frame 0 (json_text env (JObj [(''terminal_id'', jint (uint h)),
                             (''session_id'', JStr sid), (''name'', JStr name)]))), map Notice ns, rs2)))))"

definition handle_close_terminal :: "remote_env \<Rightarrow> Frame \<Rightarrow> RemoteServer \<Rightarrow> handled" where
  "handle_close_terminal env f rs =
     (let tid = terminal_id f
      in case resolve_sid tid rs of
           None \<Rightarrow> reply (error_with_terminal_frame tid ''terminal_not_found'') rs
         | Some sid \<Rightarrow>
             (case close_remote sid (terminals rs) of
                (Inl e, _, _) \<Rightarrow> reply (error_with_terminal_frame tid (''close_failed: '' @ e)) rs
              | (Inr _, tm, ns) \<Rightarrow>
                  (let rs1 = with_terminals env (tm, ns) rs
                   in Done (Some (ok_frame tid), map Notice ns,
                        rs1\<lparr>id_map := id_map_remove sid (id_map rs1),
                            remote_opened_sessions := removeAll sid (remote_opened_sessions rs1)\<rparr>))))"

section \<open>A tunnel\<close>

text \<open>Every frame type of the table; the flag says that the tunnel closes.\<close>

definition process_frame ::
  "remote_env \<Rightarrow> nat \<Rightarrow> Frame \<Rightarrow> string \<Rightarrow> nat \<Rightarrow> RemoteServer \<Rightarrow> (Frame option \<times> bool \<times> effect list \<times> RemoteServer) waits" where
  "process_frame env now f pid k rs =
     (let t = frame_type f; tid = terminal_id f; stay = map_waits (\<lambda>(r, es, rs). (r, False, es, rs))
      in if t = LIST_REQUEST then stay (handle_list_request env k rs)
         else if t = SUBSCRIBE then stay (handle_subscribe env now tid pid k rs)
         else if t = UNSUBSCRIBE then stay (handle_unsubscribe env tid pid rs)
         else if t = INPUT then stay (handle_input f rs)
         else if t = INPUT_ANSWER then stay (handle_input_answer env f rs)
         else if t = RESIZE then stay (handle_resize env f rs)
         else if t = REDRAW_REQUEST then stay (handle_redraw_request tid k rs)
         else if t = FILE_REQUEST then stay (handle_file_request env f rs)
         else if t = DESKTOP_PAIR then stay (handle_desktop_pair_frame env f rs)
         else if t = INFO_REQUEST then stay (reply (info_response_frame (json_text env (system_info env))) rs)
         else if t = NEW_TERMINAL then stay (handle_new_terminal env f rs)
         else if t = CLOSE_TERMINAL then stay (handle_close_terminal env f rs)
         else if t \<in> {TRIGGER_LIST_REQUEST, TRIGGER_EXEC, TRIGGER_ADD, TRIGGER_UPDATE, TRIGGER_REMOVE}
           then stay (handle_trigger_frame env f rs)
         else if t = GOODBYE then Done (Some goodbye_frame, True, [], rs)
         else if t = HELLO then stay (reply (error_frame ''hello_already_done'') rs)
         else if t \<in> {LIST_RESPONSE, INFO_RESPONSE, OUTPUT, HISTORY, FRAME_OK, ERROR, NOTIFY}
           then Done (None, False, if has_frame_callback env then [FrameCallback pid t tid (payload f)] else [], rs)
         else stay (reply (error_frame ''unknown_frame_type'') rs))"

datatype tunnel_phase = Serving | Blocked | Ended

text \<open>
  A running tunnel: its pairing, the number of its channel, its ciphers, the encrypted frames it
  has handed on, and whether it still serves, waits for ever, or has ended.
\<close>

record Tunnel =
  tn_pairing :: string
  tn_chan :: nat
  tn_send :: FrameCipher
  tn_recv :: FrameCipher
  tn_out :: "bytes list"
  tn_phase :: tunnel_phase

definition open_tunnel :: "string \<Rightarrow> FrameCipher \<times> FrameCipher \<Rightarrow> RemoteServer \<Rightarrow> Tunnel \<times> RemoteServer" where
  "open_tunnel pid ciphers rs =
     (let k = length (async_chans rs)
      in (\<lparr>tn_pairing = pid, tn_chan = k, tn_send = fst ciphers, tn_recv = snd ciphers, tn_out = [], tn_phase = Serving\<rparr>,
          rs\<lparr>async_chans := async_chans rs @ [\<lparr>waiting = [], chan_open = True\<rparr>],
             active_tunnels := hm_insert pid k (active_tunnels rs)\<rparr>))"

text \<open>Up to the loop: the key, the HELLO exchange, the registration and the waiting questions.\<close>

definition start_tunnel ::
  "crypto \<Rightarrow> remote_env \<Rightarrow> nat \<Rightarrow> string \<Rightarrow> recv \<Rightarrow> bool \<Rightarrow> bytes \<Rightarrow> RemoteServer \<Rightarrow> Tunnel option \<times> bytes list \<times> RemoteServer" where
  "start_tunnel cr env now pid hello outbound_open random rs =
     (case get_pairing_key pid rs of
        None \<Rightarrow> (None, [], rs)
      | Some key \<Rightarrow>
          (case handle_hello cr key hello outbound_open random of
             (None, sent) \<Rightarrow> (None, sent, rs)
           | (Some ciphers, sent) \<Rightarrow>
               (let (t, rs1) = open_tunnel pid ciphers rs
                in case flush_all_pending_for_pairing env now (tn_chan t) rs1 of
                     Stuck rs2 \<Rightarrow> (Some (t\<lparr>tn_phase := Blocked\<rparr>), sent, rs2)
                   | Done rs2 \<Rightarrow> (Some t, sent, rs2))))"

text \<open>The end of a tunnel takes the pairing from the registry, whoever is registered.\<close>

definition end_tunnel :: "Tunnel \<Rightarrow> RemoteServer \<Rightarrow> Tunnel \<times> RemoteServer" where
  "end_tunnel t rs =
     (t\<lparr>tn_phase := Ended\<rparr>,
      rs\<lparr>active_tunnels := hm_remove (tn_pairing t) (active_tunnels rs),
         async_chans := (async_chans rs)[tn_chan t := (async_chans rs ! tn_chan t)\<lparr>chan_open := False\<rparr>]\<rparr>)"

definition tunnel_send :: "crypto \<Rightarrow> bool \<Rightarrow> Frame \<Rightarrow> Tunnel \<Rightarrow> bool \<times> Tunnel" where
  "tunnel_send cr outbound_open f t =
     (let (r, c, sent) = send_frame cr outbound_open f (tn_send t)
      in (\<not> isl r, t\<lparr>tn_send := c, tn_out := tn_out t @ sent\<rparr>))"

text \<open>Encrypted bytes from the phone, the end of them, and the next frame of the tunnel's channel.\<close>

datatype tunnel_event = FromPhone bytes | PhoneGone | NextAsync

definition tunnel_step ::
  "crypto \<Rightarrow> remote_env \<Rightarrow> nat \<Rightarrow> bool \<Rightarrow> tunnel_event \<Rightarrow> Tunnel \<times> RemoteServer \<Rightarrow> effect list \<times> Tunnel \<times> RemoteServer" where
  "tunnel_step cr env now outbound_open e trs =
     (let (t, rs) = trs
      in if tn_phase t \<noteq> Serving then ([], t, rs)
         else (case e of
           PhoneGone \<Rightarrow> ([], end_tunnel t rs)
         | NextAsync \<Rightarrow>
             (case waiting (async_chans rs ! tn_chan t) of
                [] \<Rightarrow> ([], t, rs)
              | f # fs \<Rightarrow>
                  (let rs1 = rs\<lparr>async_chans := (async_chans rs)[tn_chan t := (async_chans rs ! tn_chan t)\<lparr>waiting := fs\<rparr>]\<rparr>;
                       (ok, t1) = tunnel_send cr outbound_open f t
                   in ([], if ok then (t1, rs1) else end_tunnel t1 rs1)))
         | FromPhone enc \<Rightarrow>
             (case decrypt cr (tn_recv t) enc of
                Inl _ \<Rightarrow> ([], end_tunnel t rs)
              | Inr plain \<Rightarrow>
                  (case deserialize plain of
                     Inl _ \<Rightarrow> ([], end_tunnel t rs)
                   | Inr f \<Rightarrow>
                       (case process_frame env now f (tn_pairing t) (tn_chan t) rs of
                          Stuck rs1 \<Rightarrow> ([], t\<lparr>tn_phase := Blocked\<rparr>, rs1)
                        | Done (resp, closing, es, rs1) \<Rightarrow>
                            (let (ok, t1) = (case resp of Some r \<Rightarrow> tunnel_send cr outbound_open r t | None \<Rightarrow> (True, t))
                             in (es, if ok \<and> \<not> closing then (t1, rs1) else end_tunnel t1 rs1)))))))"

text \<open>
  The task behind a subscription: it carries the subscriber's frames to the tunnel's channel, waits
  while that is full, and ends when it is closed.
\<close>

definition forward_sub :: "nat \<Rightarrow> RemoteSubscriber \<Rightarrow> RemoteServer \<Rightarrow> RemoteSubscriber \<times> RemoteServer" where
  "forward_sub k sub rs =
     (case queue sub of
        [] \<Rightarrow> (sub, rs)
      | f # q \<Rightarrow>
          (case try_async f k rs of
             (Inr _, rs') \<Rightarrow> (sub\<lparr>queue := q\<rparr>, rs')
           | (Inl AsyncClosed, rs') \<Rightarrow> (sub\<lparr>queue := q, receiver_gone := True\<rparr>, rs')
           | (Inl AsyncFull, rs') \<Rightarrow> (sub, rs')))"

definition forward_frame :: "string \<Rightarrow> nat \<Rightarrow> nat \<Rightarrow> RemoteServer \<Rightarrow> RemoteServer" where
  "forward_frame sid i k rs =
     (case hm_get (sessions (terminals rs)) sid of
        None \<Rightarrow> rs
      | Some s \<Rightarrow>
          if i < length (remote_subscribers s) then
            (let (sub, rs') = forward_sub k (remote_subscribers s ! i) rs
             in rs'\<lparr>terminals := upd_session sid (\<lambda>s. s\<lparr>remote_subscribers := (remote_subscribers s)[i := sub]\<rparr>) (terminals rs')\<rparr>)
          else rs)"

definition send_frame_to_peer :: "string \<Rightarrow> Frame \<Rightarrow> RemoteServer \<Rightarrow> (string + (async_error + unit)) \<times> RemoteServer" where
  "send_frame_to_peer pid f rs =
     (case hm_get (active_tunnels rs) pid of
        None \<Rightarrow> (Inl (''no active tunnel for pairing_id='' @ pid), rs)
      | Some k \<Rightarrow> (let (r, rs') = try_async f k rs in (Inr r, rs')))"

section \<open>Handles are never shared\<close>

datatype id_op = Assign string | Forget string

fun id_step :: "IdMap \<times> (u32 \<times> string) list \<Rightarrow> id_op \<Rightarrow> IdMap \<times> (u32 \<times> string) list" where
  "id_step (m, given) (Assign sid) = (let (h, m') = get_or_assign sid m in (m', given @ [(h, sid)]))"
| "id_step (m, given) (Forget sid) = (id_map_remove sid m, given)"

definition inverse_maps :: "IdMap \<Rightarrow> bool" where
  "inverse_maps m \<longleftrightarrow> (\<forall>h sid. lookup_sid h m = Some sid \<longleftrightarrow> hm_get (sid_to_handle m) sid = Some h)"

definition given_ok :: "IdMap \<Rightarrow> (u32 \<times> string) set \<Rightarrow> bool" where
  "given_ok m given \<longleftrightarrow> 0 < unat (next_id m)
     \<and> (\<forall>h sid. lookup_sid h m = Some sid \<longrightarrow> (h, sid) \<in> given)
     \<and> (\<forall>x\<in>given. 0 < unat (fst x) \<and> unat (fst x) < unat (next_id m))
     \<and> (\<forall>x\<in>given. \<forall>y\<in>given. fst x = fst y \<longrightarrow> snd x = snd y)"

lemma given_okD:
  assumes "given_ok m given"
  shows "0 < unat (next_id m)" "lookup_sid h m = Some sid \<Longrightarrow> (h, sid) \<in> given"
    "(h, sid) \<in> given \<Longrightarrow> 0 < unat h \<and> unat h < unat (next_id m)"
    "(h, sid) \<in> given \<Longrightarrow> (h, sid') \<in> given \<Longrightarrow> sid = sid'"
  using assms unfolding given_ok_def by fastforce+

lemma forget_lookup:
  assumes "inverse_maps m"
  shows "lookup_sid h (id_map_remove sid m) = (if lookup_sid h m = Some sid then None else lookup_sid h m)"
    "hm_get (sid_to_handle (id_map_remove sid m)) s = (if s = sid then None else hm_get (sid_to_handle m) s)"
    "next_id (id_map_remove sid m) = next_id m"
proof -
  have eq: "lookup_sid h m = Some sid \<longleftrightarrow> hm_get (sid_to_handle m) sid = Some h" for h
    using assms by (simp add: inverse_maps_def)
  show "lookup_sid h (id_map_remove sid m) = (if lookup_sid h m = Some sid then None else lookup_sid h m)"
    unfolding eq by (cases "hm_get (sid_to_handle m) sid") (auto simp: id_map_remove_def lookup_sid_def hm_simps)
qed (auto simp: id_map_remove_def hm_simps split: option.split)

lemma id_forget:
  assumes "inverse_maps m" "given_ok m given"
  shows "inverse_maps (id_map_remove sid m) \<and> given_ok (id_map_remove sid m) given"
proof
  have eq: "hm_get (sid_to_handle m) s = Some h \<longleftrightarrow> lookup_sid h m = Some s" for h s
    using assms(1) by (simp add: inverse_maps_def)
  have "(if lookup_sid h m = Some sid then None else lookup_sid h m) = Some s
      \<longleftrightarrow> (if s = sid then None else hm_get (sid_to_handle m) s) = Some h" for h s
    by (cases "s = sid"; cases "lookup_sid h m = Some sid") (simp_all add: eq)
  then show "inverse_maps (id_map_remove sid m)"
    unfolding inverse_maps_def forget_lookup [OF assms(1)] by blast
  show "given_ok (id_map_remove sid m) given"
    unfolding given_ok_def forget_lookup [OF assms(1)]
    using assms(2) [unfolded given_ok_def] by (metis option.distinct(1))
qed

lemma assign_lookup:
  assumes "hm_get (sid_to_handle m) sid = None"
  shows "fst (get_or_assign sid m) = next_id m"
    "lookup_sid h (snd (get_or_assign sid m)) = (if h = next_id m then Some sid else lookup_sid h m)"
    "hm_get (sid_to_handle (snd (get_or_assign sid m))) s = (if s = sid then Some (next_id m) else hm_get (sid_to_handle m) s)"
    "next_id (snd (get_or_assign sid m)) = next_id m + 1"
  using assms by (simp_all add: get_or_assign_def lookup_sid_def hm_simps)

lemma id_assign:
  assumes inv: "inverse_maps m" and ok: "given_ok m given" and room: "unat (next_id m) + 1 < 2 ^ 32"
  shows "inverse_maps (snd (get_or_assign sid m)) \<and> given_ok (snd (get_or_assign sid m)) (insert (fst (get_or_assign sid m), sid) given)
     \<and> unat (next_id (snd (get_or_assign sid m))) \<le> unat (next_id m) + 1"
proof (cases "hm_get (sid_to_handle m) sid")
  case (Some h)
  then have "lookup_sid h m = Some sid" using inv by (simp add: inverse_maps_def)
  then have "(h, sid) \<in> given" using given_okD(2) [OF ok] by simp
  then show ?thesis using Some inv ok by (simp add: get_or_assign_def insert_absorb)
next
  case None
  have n: "unat (next_id m + 1) = unat (next_id m) + 1" using room by (simp add: unat_word_ariths)
  have fresh: "(next_id m, s) \<notin> given" for s using given_okD(3) [OF ok] by blast
  then have unused: "lookup_sid (next_id m) m = None" using given_okD(2) [OF ok] by (cases "lookup_sid (next_id m) m") auto
  have new: "lookup_sid h m \<noteq> Some sid" for h using inv None by (simp add: inverse_maps_def)
  have eq: "hm_get (sid_to_handle m) s = Some h \<longleftrightarrow> lookup_sid h m = Some s" for h s
    using inv by (simp add: inverse_maps_def)
  have "(if h = next_id m then Some sid else lookup_sid h m) = Some s
      \<longleftrightarrow> (if s = sid then Some (next_id m) else hm_get (sid_to_handle m) s) = Some h" for h s
    using new [of h] unused by (cases "s = sid") (auto simp: eq)
  then have "inverse_maps (snd (get_or_assign sid m))"
    unfolding inverse_maps_def assign_lookup [OF None] by blast
  moreover have "given_ok (snd (get_or_assign sid m)) (insert (next_id m, sid) given)"
    unfolding given_ok_def assign_lookup [OF None] n
  proof (intro conjI allI impI ballI)
    fix x y assume xy: "x \<in> insert (next_id m, sid) given" "y \<in> insert (next_id m, sid) given" "fst x = fst y"
    then show "snd x = snd y"
      using fresh given_okD(4) [OF ok] by (cases x; cases y) auto
  qed (use given_okD(1-3) [OF ok] in \<open>auto simp: less_Suc_eq split: if_splits\<close>)
  ultimately show ?thesis by (simp add: assign_lookup [OF None] n)
qed

lemma id_run:
  "inverse_maps m \<Longrightarrow> given_ok m (set given) \<Longrightarrow> unat (next_id m) + length ops < 2 ^ 32 \<Longrightarrow>
   run id_step (m, given) ops = (m', given') \<Longrightarrow> inverse_maps m' \<and> given_ok m' (set given')"
proof (induction ops arbitrary: m given)
  case (Cons x xs)
  show ?case
  proof (cases x)
    case (Assign sid)
    then have r: "run id_step (snd (get_or_assign sid m), given @ [(fst (get_or_assign sid m), sid)]) xs = (m', given')"
      using Cons.prems(4) by (simp add: split_def Let_def)
    have "unat (next_id m) + 1 < 2 ^ 32" using Cons.prems(3) by simp
    from id_assign [OF Cons.prems(1,2) this, of sid] show ?thesis
      using Cons.prems(3) by (intro Cons.IH [OF _ _ _ r]) auto
  next
    case (Forget sid)
    then have r: "run id_step (id_map_remove sid m, given) xs = (m', given')" using Cons.prems(4) by simp
    show ?thesis
      using id_forget [OF Cons.prems(1,2), of sid] Cons.prems(3) forget_lookup(3) [OF Cons.prems(1), of sid]
      by (intro Cons.IH [OF _ _ _ r]) auto
  qed
qed simp

text \<open>
  C19. The table of handles is a bijection after any sequence of assignments and removals (fewer
  than 2^32 - 1): a handle leads to the session it was given for or, once that is closed, nowhere;
  it is never given to another session, and never zero, the handle of the list itself.
\<close>

theorem handles_unique:
  assumes "length ops < 2 ^ 32 - 1" "run id_step (id_map_new, []) ops = (m, given)"
  shows "(lookup_sid h m = Some sid \<longleftrightarrow> hm_get (sid_to_handle m) sid = Some h)
     \<and> ((h, s1) \<in> set given \<and> (h, s2) \<in> set given \<longrightarrow> s1 = s2)
     \<and> ((h, s1) \<in> set given \<longrightarrow> h \<noteq> 0 \<and> lookup_sid h m \<in> {Some s1, None})"
proof -
  have "inverse_maps id_map_new" "given_ok id_map_new (set [])"
    by (simp_all add: inverse_maps_def given_ok_def id_map_new_def lookup_sid_def hm_simps)
  from id_run [OF this _ assms(2)] have ok: "inverse_maps m" "given_ok m (set given)"
    using assms(1) by (simp_all add: id_map_new_def)
  note d = given_okD [OF ok(2)]
  have "lookup_sid h m \<in> {Some s1, None}" if "(h, s1) \<in> set given"
    using d(2) [of h] d(4) [OF that] by (cases "lookup_sid h m") auto
  moreover have "h \<noteq> 0" if "(h, s1) \<in> set given" using d(3) [OF that] by auto
  ultimately show ?thesis using ok(1) d(4) by (auto simp: inverse_maps_def)
qed

lemma handles_unique_witness:
  "lookup_sid 1 (fst (run id_step (id_map_new, []) [Assign ''a'', Forget ''a'', Assign ''b''])) = None"
proof -
  let ?r = "run id_step (id_map_new, []) [Assign ''a'', Forget ''a'', Assign ''b'']"
  have g: "snd ?r = [(1, ''a''), (2, ''b'')]" "lookup_sid 1 (fst ?r) \<noteq> Some ''a''"
    by (simp_all add: get_or_assign_def id_map_new_def id_map_remove_def hm_simps lookup_sid_def)
  have "(1, ''a'') \<in> set (snd ?r)" unfolding g by simp
  moreover have "length [Assign ''a'', Forget ''a'', Assign ''b''] < 2 ^ 32 - 1" by simp
  moreover have "?r = (fst ?r, snd ?r)" by (simp only: prod.collapse)
  ultimately have "lookup_sid 1 (fst ?r) \<in> {Some ''a'', None}" using handles_unique by blast
  then show ?thesis using g(2) by simp
qed

section \<open>A tunnel can wait for itself\<close>

text \<open>Frames whose handler waits on the tunnel's own channel; the others always finish.\<close>

definition sends_own :: "u8 \<Rightarrow> bool" where
  "sends_own t \<longleftrightarrow> t = LIST_REQUEST \<or> t = SUBSCRIBE \<or> t = REDRAW_REQUEST"

definition room :: "nat \<Rightarrow> RemoteServer \<Rightarrow> nat" where
  "room k rs = CHANNEL_SIZE - length (waiting (async_chans rs ! k))"

fun finishes :: "'a waits \<Rightarrow> bool" where
  "finishes (Done x) = True"
| "finishes (Stuck rs) = False"

lemma finishes_map [simp]: "finishes (map_waits f w) = finishes w"
  by (cases w) auto

lemma finishes_reply [simp]: "finishes (reply f rs)"
  by (simp add: reply_def)

lemma others_finish:
  "finishes (handle_unsubscribe env tid pid rs)" "finishes (handle_input f rs)" "finishes (handle_resize env f rs)"
  "finishes (handle_input_answer env f rs)" "finishes (handle_file_request env f rs)" "finishes (handle_close_terminal env f rs)"
  "finishes (handle_desktop_pair_frame env f rs)" "finishes (handle_trigger_frame env f rs)" "finishes (handle_new_terminal env f rs)"
  by (auto simp: handle_unsubscribe_def handle_input_def handle_resize_def handle_input_answer_def handle_file_request_def
      handle_close_terminal_def handle_desktop_pair_frame_def pair_answer_def handle_trigger_frame_def handle_new_terminal_def
      Let_def split: option.splits sum.splits prod.splits)

lemma process_finishes: "\<not> sends_own (frame_type f) \<Longrightarrow> finishes (process_frame env now f pid k rs)"
  unfolding process_frame_def Let_def sends_own_def by (simp add: others_finish)

lemma send_own_full:
  "k < length (async_chans rs) \<Longrightarrow> chan_open (async_chans rs ! k) \<Longrightarrow> CHANNEL_SIZE \<le> length (waiting (async_chans rs ! k)) \<Longrightarrow>
   send_own f k rs = Stuck rs"
  by (simp add: send_own_def try_async_def Let_def)

lemma send_own_room:
  "k < length (async_chans rs) \<Longrightarrow> chan_open (async_chans rs ! k) \<Longrightarrow> 0 < room k rs \<Longrightarrow>
   \<exists>rs'. send_own f k rs = Done (True, rs') \<and> room k rs' = room k rs - 1 \<and> chan_open (async_chans rs' ! k)
     \<and> length (async_chans rs') = length (async_chans rs) \<and> pending_questions rs' = pending_questions rs"
  by (auto simp: send_own_def try_async_def Let_def room_def)

lemma list_request_blocks:
  assumes "k < length (async_chans rs)" "chan_open (async_chans rs ! k)"
  shows "finishes (handle_list_request env k rs) \<longleftrightarrow> length (waiting (async_chans rs ! k)) < CHANNEL_SIZE"
proof (cases "length (waiting (async_chans rs ! k)) < CHANNEL_SIZE")
  case True
  then show ?thesis
    using assms by (simp add: handle_list_request_def Let_def split_def send_own_def try_async_def)
next
  case False
  then show ?thesis
    using assms by (simp add: handle_list_request_def Let_def split_def send_own_def try_async_def)
qed

text \<open>What one event from the phone does to the phase.\<close>

lemma end_tunnel_phase [simp]: "tn_phase (fst (end_tunnel t rs)) = Ended"
  by (simp add: end_tunnel_def)

lemma tunnel_send_phase: "tunnel_send cr ob f t = (ok, t') \<Longrightarrow> tn_phase t' = tn_phase t"
  by (auto simp: tunnel_send_def split: prod.splits)

lemma from_phone_blocks:
  assumes "tn_phase t = Serving" "decrypt cr (tn_recv t) enc = Inr plain" "deserialize plain = Inr f"
  shows "tn_phase (fst (snd (tunnel_step cr env now ob (FromPhone enc) (t, rs)))) = Blocked
     \<longleftrightarrow> \<not> finishes (process_frame env now f (tn_pairing t) (tn_chan t) rs)"
proof (cases "process_frame env now f (tn_pairing t) (tn_chan t) rs")
  case (Stuck rs1)
  then show ?thesis using assms by (simp add: tunnel_step_def)
next
  case (Done x)
  obtain resp closing es rs1 where x: "x = (resp, closing, es, rs1)" by (metis prod_cases4)
  obtain ok t1 where s: "(case resp of Some r \<Rightarrow> tunnel_send cr ob r t | None \<Rightarrow> (True, t)) = (ok, t1)" by fastforce
  then have "tn_phase t1 = Serving" using assms(1) tunnel_send_phase by (auto split: option.splits)
  then show ?thesis using assms by (auto simp: tunnel_step_def Done x s)
qed

text \<open>
  A tunnel stops for ever when its phone asks for the list while its channel for background
  frames is full: the handler waits for a place that only the same loop could free, and no later
  event changes the tunnel or takes a frame.  A list request blocks in exactly this case, and every
  frame that is not a list request, a subscription or a redraw request is always finished.
\<close>

theorem tunnel_waits_for_itself:
  assumes "tn_phase t = Serving" "tn_chan t < length (async_chans rs)" "chan_open (async_chans rs ! tn_chan t)"
    "decrypt cr (tn_recv t) enc = Inr plain" "deserialize plain = Inr f"
    "after = snd (tunnel_step cr env now ob (FromPhone enc) (t, rs))"
  shows "(frame_type f = LIST_REQUEST \<longrightarrow>
        (tn_phase (fst after) = Blocked \<longleftrightarrow> CHANNEL_SIZE \<le> length (waiting (async_chans rs ! tn_chan t))))
     \<and> (\<not> sends_own (frame_type f) \<longrightarrow> tn_phase (fst after) \<noteq> Blocked)
     \<and> (tn_phase (fst after) = Blocked \<longrightarrow> run (\<lambda>s e. snd (tunnel_step cr env now ob e s)) after es = after)"
proof (intro conjI impI)
  assume "frame_type f = LIST_REQUEST"
  then have "process_frame env now f (tn_pairing t) (tn_chan t) rs
      = map_waits (\<lambda>(r, es, rs). (r, False, es, rs)) (handle_list_request env (tn_chan t) rs)"
    by (simp add: process_frame_def)
  then show "tn_phase (fst after) = Blocked \<longleftrightarrow> CHANNEL_SIZE \<le> length (waiting (async_chans rs ! tn_chan t))"
    using from_phone_blocks [OF assms(1,4,5)] list_request_blocks [OF assms(2,3)] assms(6) by (simp add: not_less)
next
  assume "\<not> sends_own (frame_type f)"
  then show "tn_phase (fst after) \<noteq> Blocked"
    using from_phone_blocks [OF assms(1,4,5)] process_finishes assms(6) by simp
next
  assume "tn_phase (fst after) = Blocked"
  then have "snd (tunnel_step cr env now ob e after) = after" for e
    by (cases after) (simp add: tunnel_step_def)
  then show "run (\<lambda>s e. snd (tunnel_step cr env now ob e s)) after es = after"
    by (induction es) simp_all
qed

section \<open>The first answer wins\<close>

lemma try_async_answers [simp]: "answered_questions (snd (try_async f k rs)) = answered_questions rs"
  by (simp add: try_async_def Let_def)

lemma try_async_answersD: "try_async f k rs = (r, rs') \<Longrightarrow> answered_questions rs' = answered_questions rs"
  using try_async_answers [of f k rs] by simp

lemma try_tunnels_answers: "answered_questions (snd (snd (try_tunnels d f ts st))) = answered_questions (snd (snd st))"
proof (induction d f ts st rule: try_tunnels.induct)
  case (2 drops f pid k ts n dead rs)
  then show ?case
    by (auto dest!: try_async_answersD split: prod.split sum.split)
qed simp

lemma broadcast_answers [simp]: "answered_questions (snd (broadcast_tunnels d f rs)) = answered_questions rs"
  using try_tunnels_answers [of d f "active_tunnels rs" "(0, [], rs)"]
  by (simp add: broadcast_tunnels_def split_def Let_def)

lemma with_terminals_answers [simp]: "answered_questions (with_terminals env mn rs) = answered_questions rs"
proof -
  have "answered_questions (fold (apply_notice env) ns rs') = answered_questions rs'" for ns rs'
    by (induction ns arbitrary: rs') (auto simp: apply_notice_def broadcast_list_changed_def split: notice.split)
  then show ?thesis by (simp add: with_terminals_def)
qed

lemma send_own_answers: "send_own f k rs = Done (ok, rs') \<Longrightarrow> answered_questions rs' = answered_questions rs"
  by (auto simp: send_own_def split: prod.splits sum.splits async_error.splits dest!: try_async_answersD)

lemma send_own_all_answers: "send_own_all fs k rs = Done rs' \<Longrightarrow> answered_questions rs' = answered_questions rs"
proof (induction fs arbitrary: rs)
  case (Cons f fs)
  then show ?case
    by (cases "send_own f k rs") (auto dest!: send_own_answers)
qed simp

lemma flush_list_answers: "flush_list env sid qs k rs = Done (ok, rs') \<Longrightarrow> answered_questions rs' = answered_questions rs"
proof (induction qs arbitrary: rs)
  case (Cons q qs)
  then show ?case
    by (cases "send_own (question_frame env q) k rs") (auto dest!: send_own_answers split: if_splits)
qed simp

lemma pending_only: "Done (rs\<lparr>pending_questions := ps\<rparr>) = Done rs' \<Longrightarrow> answered_questions rs' = answered_questions rs"
  by auto

lemma flush_pending_none: "hm_get (pending_questions rs) sid = None \<Longrightarrow> flush_pending_questions env now sid k rs = Done rs"
  by (simp add: flush_pending_questions_def)

lemma flush_pending_some:
  assumes "hm_get (pending_questions rs) sid = Some qs"
  obtains ps where "flush_pending_questions env now sid k rs = Done (rs\<lparr>pending_questions := ps\<rparr>)"
  | ps qs' where "flush_pending_questions env now sid k rs = map_waits snd (flush_list env sid qs' k (rs\<lparr>pending_questions := ps\<rparr>))"
proof (cases "filter (\<lambda>q. \<not> is_expired now q) qs = []")
  case True
  show thesis
    by (rule that(1), unfold flush_pending_questions_def assms option.case Let_def if_P [OF True], rule refl)
next
  case False
  show thesis
    by (rule that(2), unfold flush_pending_questions_def assms option.case Let_def if_not_P [OF False], rule refl)
qed

lemma map_waits_snd_Done: "map_waits snd w = Done rs' \<Longrightarrow> \<exists>ok. w = Done (ok, rs')"
  by (cases w) auto

lemma flush_pending_answers:
  assumes "flush_pending_questions env now sid k rs = Done rs'"
  shows "answered_questions rs' = answered_questions rs"
proof (cases "hm_get (pending_questions rs) sid")
  case None
  from trans [OF sym [OF flush_pending_none [OF None]] assms] show ?thesis
    by (simp only: waits.inject)
next
  case (Some qs)
  show ?thesis
  proof (rule flush_pending_some [OF Some, where env = env and now = now and k = k])
    fix ps
    assume f: "flush_pending_questions env now sid k rs = Done (rs\<lparr>pending_questions := ps\<rparr>)"
    show ?thesis by (rule pending_only [OF trans [OF sym [OF f] assms]])
  next
    fix ps qs'
    assume f: "flush_pending_questions env now sid k rs = map_waits snd (flush_list env sid qs' k (rs\<lparr>pending_questions := ps\<rparr>))"
    from map_waits_snd_Done [OF trans [OF sym [OF f] assms]] obtain ok
      where "flush_list env sid qs' k (rs\<lparr>pending_questions := ps\<rparr>) = Done (ok, rs')" ..
    from flush_list_answers [OF this] show ?thesis by simp
  qed
qed

lemma close_session_answers: "close_session env sid rs = (r, es, rs') \<Longrightarrow> answered_questions rs' = answered_questions rs"
  by (auto simp: close_session_def split: prod.splits)

lemma reap_answers [simp]: "answered_questions (snd (reap env sids rs)) = answered_questions rs"
proof -
  have "answered_questions (snd (fold (\<lambda>sid (es, rs). let (_, es', rs') = close_session env sid rs in (es @ es', rs')) sids st))
      = answered_questions (snd st)" for st
    by (induction sids arbitrary: st) (auto split: prod.splits dest!: close_session_answers)
  from this [of "([], rs)"] show ?thesis by (simp add: reap_def)
qed

lemma remove_pending_answers [simp]: "answered_questions (remove_pending sid qid rs) = answered_questions rs"
  by (simp add: remove_pending_def Let_def split: option.split)

lemma act_on_answer_answers: "act_on_answer env req tid sid qid answer rs = (es, rs') \<Longrightarrow> answered_questions rs' = answered_questions rs"
  by (auto simp: act_on_answer_def tell_resolved_def broadcast_to_def type_answer_def split: if_splits option.splits)

lemma mark_keeps: "mark_question_answered qid a rs = (ok, rs') \<Longrightarrow> hm_get (answered_questions rs) q = Some b \<Longrightarrow>
   hm_get (answered_questions rs') q = Some b"
  by (auto simp: mark_question_answered_def hm_simps split: if_splits)

definition keeps_answers :: "RemoteServer \<Rightarrow> (Frame option \<times> effect list \<times> RemoteServer) waits \<Rightarrow> bool" where
  "keeps_answers rs w \<longleftrightarrow> (\<forall>r es rs' q b. w = Done (r, es, rs') \<longrightarrow> hm_get (answered_questions rs) q = Some b \<longrightarrow>
     hm_get (answered_questions rs') q = Some b)"

lemma keeps_reply [simp]: "answered_questions rs' = answered_questions rs \<Longrightarrow> keeps_answers rs (reply f rs')"
  by (simp add: keeps_answers_def reply_def)

lemma keeps_bind: "(\<And>x. w = Done x \<Longrightarrow> keeps_answers rs (g x)) \<Longrightarrow> keeps_answers rs (and_then w g)"
  by (cases w) (auto simp: keeps_answers_def)

lemma keeps_done: "answered_questions rs' = answered_questions rs \<Longrightarrow> keeps_answers rs (Done (r, es, rs'))"
  by (simp add: keeps_answers_def)

lemma keeps_done': "answered_questions (snd x) = answered_questions rs \<Longrightarrow> keeps_answers rs (Done (r, x))"
  by (cases x) (simp add: keeps_answers_def)

lemma keeps_list: "keeps_answers rs (handle_list_request env k rs)"
  unfolding handle_list_request_def Let_def
  by (auto intro!: keeps_bind keeps_done' split: prod.splits dest!: send_own_answers)

lemma keeps_subscribe: "keeps_answers rs (handle_subscribe env now tid pid k rs)"
  unfolding handle_subscribe_def
  by (auto intro!: keeps_bind split: option.split sum.split prod.split dest!: flush_pending_answers)

lemma keeps_redraw: "keeps_answers rs (handle_redraw_request tid k rs)"
proof -
  have "keeps_answers rs (and_then (send_own_all fs k rs) (reply (ok_frame tid)))" for fs
    by (auto intro!: keeps_bind dest!: send_own_all_answers)
  then show ?thesis by (simp add: handle_redraw_request_def Let_def del: send_own_all.simps split: option.split)
qed

lemma keeps_others:
  "keeps_answers rs (handle_unsubscribe env tid pid rs)" "keeps_answers rs (handle_input f rs)" "keeps_answers rs (handle_resize env f rs)"
  "keeps_answers rs (handle_file_request env f rs)" "keeps_answers rs (handle_close_terminal env f rs)"
  "keeps_answers rs (handle_desktop_pair_frame env f rs)" "keeps_answers rs (handle_trigger_frame env f rs)"
  "keeps_answers rs (handle_new_terminal env f rs)"
  by (auto simp: handle_unsubscribe_def handle_input_def handle_resize_def handle_file_request_def
      handle_close_terminal_def handle_desktop_pair_frame_def pair_answer_def handle_trigger_frame_def handle_new_terminal_def
      Let_def intro!: keeps_done split: option.split sum.split prod.split)

lemma act_after_mark:
  assumes "(if sp then (True, rs) else mark_question_answered qid a rs) = (ok, rs1)" "hm_get (answered_questions rs) q = Some b"
  shows "hm_get (answered_questions (snd (act_on_answer env req tid sid qid a
      (case sid of Some s \<Rightarrow> if nav then rs1 else remove_pending s qid rs1 | None \<Rightarrow> rs1)))) q = Some b"
proof -
  obtain es rs2 where act: "act_on_answer env req tid sid qid a
      (case sid of Some s \<Rightarrow> if nav then rs1 else remove_pending s qid rs1 | None \<Rightarrow> rs1) = (es, rs2)" by fastforce
  have "answered_questions rs2 = answered_questions rs1"
    using act_on_answer_answers [OF act] by (auto split: option.splits if_splits)
  moreover have "hm_get (answered_questions rs1) q = Some b"
    using assms mark_keeps by (cases sp) auto
  ultimately show ?thesis by (simp add: act)
qed

lemma keeps_answer: "keeps_answers rs (handle_input_answer env f rs)"
proof (cases "json_of_bytes env (payload f)")
  case (Some req)
  let ?qid = "str_or [] (json_str req ''question_id'')" and ?a = "str_or [] (json_str req ''answer'')"
  let ?nav = "?a = ''__nav_prev__'' \<or> ?a = ''__nav_next__''"
  let ?sp = "?nav \<or> ?a = ''__confirm__''"
  obtain ok rs1 where m: "(if ?sp then (True, rs) else mark_question_answered ?qid ?a rs) = (ok, rs1)" by fastforce
  let ?sid = "resolve_sid (terminal_id f) rs1"
  obtain es rs3 where act: "act_on_answer env req (terminal_id f) ?sid ?qid ?a
      (case ?sid of Some s \<Rightarrow> if ?nav then rs1 else remove_pending s ?qid rs1 | None \<Rightarrow> rs1) = (es, rs3)" by fastforce
  have "keeps_answers rs (Done (Some (ok_frame (terminal_id f)), es, rs3))"
    using act_after_mark [OF m, of _ _ env req "terminal_id f" ?sid ?nav] unfolding act by (simp add: keeps_answers_def)
  then show ?thesis
    unfolding handle_input_answer_def Some option.case Let_def m act split by simp
qed (simp add: handle_input_answer_def)

definition keeps_answers_frame :: "RemoteServer \<Rightarrow> (Frame option \<times> bool \<times> effect list \<times> RemoteServer) waits \<Rightarrow> bool" where
  "keeps_answers_frame rs w \<longleftrightarrow> (\<forall>r c es rs' q b. w = Done (r, c, es, rs') \<longrightarrow> hm_get (answered_questions rs) q = Some b \<longrightarrow>
     hm_get (answered_questions rs') q = Some b)"

lemma keeps_stay: "keeps_answers rs w \<Longrightarrow> keeps_answers_frame rs (map_waits (\<lambda>(r, es, rs). (r, False, es, rs)) w)"
  by (cases w) (auto simp: keeps_answers_def keeps_answers_frame_def)

lemma process_keeps: "keeps_answers_frame rs (process_frame env now f pid k rs)"
  unfolding process_frame_def Let_def
  by (simp add: keeps_stay keeps_list keeps_subscribe keeps_redraw keeps_others keeps_answer)
     (simp add: keeps_answers_frame_def)

text \<open>The question and the answer a phone's frame carries, when the answer is not a navigation key.\<close>

definition ordinary_answer :: "remote_env \<Rightarrow> Frame \<Rightarrow> (string \<times> string) option" where
  "ordinary_answer env f =
     (case json_of_bytes env (payload f) of
        None \<Rightarrow> None
      | Some req \<Rightarrow>
          (let qid = str_or [] (json_str req ''question_id''); a = str_or [] (json_str req ''answer'')
           in if qid = [] \<or> a \<in> {''__nav_prev__'', ''__nav_next__'', ''__confirm__''} then None else Some (qid, a)))"

text \<open>Frames that the tunnels of all pairings process one after the other, each at its own time.\<close>

fun process_all ::
  "(remote_env \<times> nat \<times> Frame \<times> string \<times> nat) list \<Rightarrow> RemoteServer \<Rightarrow> RemoteServer waits" where
  "process_all [] rs = Done rs"
| "process_all ((env, now, f, pid, k) # fs) rs =
     and_then (process_frame env now f pid k rs) (\<lambda>(r, closing, es, rs'). process_all fs rs')"

lemma process_all_keeps:
  "process_all fs rs = Done rs' \<Longrightarrow> hm_get (answered_questions rs) q = Some b \<Longrightarrow> hm_get (answered_questions rs') q = Some b"
proof (induction fs arbitrary: rs)
  case (Cons x fs)
  obtain env now f pid k where x: "x = (env, now, f, pid, k)" by (metis prod_cases5)
  show ?case
  proof (cases "process_frame env now f pid k rs")
    case (Done y)
    obtain r c es rs1 where y: "y = (r, c, es, rs1)" by (metis prod_cases4)
    have "hm_get (answered_questions rs1) q = Some b"
      using process_keeps [of rs env now f pid k] Cons.prems(2) unfolding keeps_answers_frame_def Done y by blast
    moreover have "process_all fs rs1 = Done rs'" using Cons.prems(1) by (simp add: x Done y)
    ultimately show ?thesis using Cons.IH by blast
  qed (use Cons.prems(1) x in simp)
qed simp

lemma ordinary_answerE:
  assumes "ordinary_answer env f = Some (q, a)"
  obtains req where "json_of_bytes env (payload f) = Some req"
    "str_or [] (json_str req ''question_id'') = q" "str_or [] (json_str req ''answer'') = a" "q \<noteq> []"
    "a \<noteq> ''__nav_prev__''" "a \<noteq> ''__nav_next__''" "a \<noteq> ''__confirm__''"
  using assms by (auto simp: ordinary_answer_def Let_def split: option.splits if_splits)

lemma answer_twice:
  assumes "ordinary_answer env f = Some (q, a)" "hm_get (answered_questions rs) q = Some b"
  shows "handle_input_answer env f rs = reply (error_frame ''already_answered'') rs"
proof -
  have "mark_question_answered q a rs = (False, rs)" using assms(2) by (simp add: mark_question_answered_def)
  then show ?thesis
    by - (rule ordinary_answerE [OF assms(1)], simp add: handle_input_answer_def)
qed

lemma answer_once:
  assumes "ordinary_answer env f = Some (q, a)" "hm_get (answered_questions rs) q = None"
  shows "\<exists>es rs'. handle_input_answer env f rs = Done (Some (ok_frame (terminal_id f)), es, rs')
     \<and> hm_get (answered_questions rs') q = Some a"
proof -
  obtain req where Some: "json_of_bytes env (payload f) = Some req"
    and qa: "str_or [] (json_str req ''question_id'') = q" "str_or [] (json_str req ''answer'') = a" "q \<noteq> []"
      "a \<noteq> ''__nav_prev__''" "a \<noteq> ''__nav_next__''" "a \<noteq> ''__confirm__''"
    by (rule ordinary_answerE [OF assms(1)])
  let ?m = "rs\<lparr>answered_questions := hm_insert q a (answered_questions rs)\<rparr>"
  have mark: "mark_question_answered q a rs = (True, ?m)" using assms(2) by (simp add: mark_question_answered_def)
  define rs2 where "rs2 = (case resolve_sid (terminal_id f) ?m of Some s \<Rightarrow> remove_pending s q ?m | None \<Rightarrow> ?m)"
  obtain es rs3 where act: "act_on_answer env req (terminal_id f) (resolve_sid (terminal_id f) ?m) q a rs2 = (es, rs3)"
    by fastforce
  have "handle_input_answer env f rs = Done (Some (ok_frame (terminal_id f)), es, rs3)"
    using qa by (simp add: handle_input_answer_def Some mark act [unfolded rs2_def] Let_def cong: option.case_cong)
  moreover have "hm_get (answered_questions rs3) q = Some a"
    using act_on_answer_answers [OF act] by (simp add: rs2_def hm_simps split: option.split)
  ultimately show ?thesis by blast
qed

text \<open>
  C20. The first answer to a question wins while it is remembered: an answer to a question nobody has
  answered is acknowledged, and whatever frames the tunnels process after it, another answer to the
  same question changes nothing and is refused.  Once the thirty seconds are over and the answer is
  forgotten, the next answer is taken as if it were the first.
\<close>

theorem first_answer_wins:
  assumes "ordinary_answer env f = Some (q, a)" "check_question_answered q rs = None"
    "ordinary_answer env' g = Some (q, b)"
  shows "\<exists>es rs1. handle_input_answer env f rs = Done (Some (ok_frame (terminal_id f)), es, rs1)
     \<and> (\<forall>fs rs2. process_all fs rs1 = Done rs2 \<longrightarrow>
          handle_input_answer env' g rs2 = reply (error_frame ''already_answered'') rs2
          \<and> (\<exists>es' rs3. handle_input_answer env' g (forget_answer q rs2) = Done (Some (ok_frame (terminal_id g)), es', rs3)
               \<and> check_question_answered q rs3 = Some b))"
proof -
  obtain es rs1 where first: "handle_input_answer env f rs = Done (Some (ok_frame (terminal_id f)), es, rs1)"
    "hm_get (answered_questions rs1) q = Some a"
    using answer_once [OF assms(1)] assms(2) unfolding check_question_answered_def by blast
  have "handle_input_answer env' g rs2 = reply (error_frame ''already_answered'') rs2" if "process_all fs rs1 = Done rs2" for fs rs2
    using answer_twice [OF assms(3) process_all_keeps [OF that first(2)]] .
  moreover have "hm_get (answered_questions (forget_answer q rs2)) q = None" for rs2
    by (simp add: forget_answer_def hm_simps)
  ultimately show ?thesis
    using first(1) answer_once [OF assms(3)] unfolding check_question_answered_def by blast
qed

definition sample_env :: remote_env where
  "sample_env =
     \<lparr>json_text = (\<lambda>j. ''{}''),
      json_of_bytes = (\<lambda>bs. Some (JObj [(''question_id'', JStr ''q1''), (''answer'', JStr (if bs = [1] then ''1'' else ''2''))])),
      json_of_str = (\<lambda>s. Inl ''bad''), pair_of_str = (\<lambda>s. Inl ''bad''), utf8_error = (\<lambda>bs. ''bad''),
      env_servers = [], session_alive = None, has_upload = False, pair_callback = None, trigger_callback = None,
      has_frame_callback = False, has_answer_callback = False, has_resize_callback = False,
      validate_shell = (\<lambda>s. None), ssh_state = (\<lambda>s. Inr ()), open_ssh_result = (\<lambda>s. Inl ''down''),
      open_local_result = (\<lambda>s. Inr ()), fresh_session = ''s1'', system_info = JObj []\<rparr>"

lemma first_answer_wins_witness:
  "\<exists>es rs1. handle_input_answer sample_env (frame_new INPUT_ANSWER 1 [1]) remote_server_new = Done (Some (ok_frame 1), es, rs1)
     \<and> handle_input_answer sample_env (frame_new INPUT_ANSWER 1 [2]) rs1 = reply (error_frame ''already_answered'') rs1"
proof -
  let ?f = "frame_new INPUT_ANSWER 1 [1]" and ?g = "frame_new INPUT_ANSWER 1 [2]"
  have "ordinary_answer sample_env ?f = Some (''q1'', ''1'')" "ordinary_answer sample_env ?g = Some (''q1'', ''2'')"
    by (simp_all add: ordinary_answer_def sample_env_def frame_new_def json_str_def str_or_def hm_get_def)
  moreover have "check_question_answered ''q1'' remote_server_new = None"
    by (simp add: check_question_answered_def remote_server_new_def hm_simps)
  ultimately obtain es rs1 where
    "handle_input_answer sample_env ?f remote_server_new = Done (Some (ok_frame (terminal_id ?f)), es, rs1)"
    "\<forall>fs rs2. process_all fs rs1 = Done rs2 \<longrightarrow> handle_input_answer sample_env ?g rs2 = reply (error_frame ''already_answered'') rs2"
    using first_answer_wins [of sample_env ?f "''q1''" "''1''" remote_server_new sample_env ?g "''2''"] by blast
  moreover from this(2) have "handle_input_answer sample_env ?g rs1 = reply (error_frame ''already_answered'') rs1"
    by (metis process_all.simps(1))
  ultimately show ?thesis by (simp add: frame_new_def)
qed

lemma tunnel_waits_for_itself_witness:
  "\<exists>t rs enc. tn_phase (fst (snd (tunnel_step toy_crypto sample_env 0 True (FromPhone enc) (t, rs)))) = Blocked"
proof -
  define rs where "rs = remote_server_new\<lparr>async_chans := [\<lparr>waiting = replicate 256 goodbye_frame, chan_open = True\<rparr>]\<rparr>"
  define t where "t = \<lparr>tn_pairing = ''p'', tn_chan = 0, tn_send = cipher_new [1, 2] DIR_DESKTOP_TO_MOBILE,
    tn_recv = cipher_new [1, 2] DIR_MOBILE_TO_DESKTOP, tn_out = [], tn_phase = Serving\<rparr>"
  define enc where "enc = replicate 12 (0 :: u8) @ [1, 1, 0, 0, 0, 0, 0, 0, 0, 0] @ [1, 2]"
  define f where "f = \<lparr>version = 1, frame_type = 1, terminal_id = 0, payload = [], compressed_flag = False\<rparr>"
  have t: "tn_phase t = Serving" "tn_chan t < length (async_chans rs)" "chan_open (async_chans rs ! tn_chan t)"
    and l: "CHANNEL_SIZE \<le> length (waiting (async_chans rs ! tn_chan t))"
    by (simp_all add: t_def rs_def CHANNEL_SIZE_def)
  have d: "decrypt toy_crypto (tn_recv t) enc = Inr [1, 1, 0, 0, 0, 0, 0, 0, 0, 0]"
    by (simp add: decrypt_def toy_crypto_def t_def enc_def cipher_new_def NONCE_LEN_def suffix_def)
  have f: "deserialize [1, 1, 0, 0, 0, 0, 0, 0, 0, 0] = Inr f" "frame_type f = LIST_REQUEST"
    by (simp_all add: deserialize_def of_be32_def f_def LIST_REQUEST_def)
  from tunnel_waits_for_itself [OF t d f(1) refl, of sample_env 0 True "[]"] f(2) l show ?thesis by blast
qed

end
