(* ===== verification/Envelope.thy ===== *)
theory Envelope
  imports RustText
begin

text \<open>
  \<open>crates/credential/src/envelope.rs\<close>: encryption with a password.  A key derived from the password
  (KEK) wraps a random key (DEK), which encrypts the data; the header holds the parameters of the
  derivation and is authenticated together with the wrapped key.  Argon2, the Unicode normalisation
  and AES-GCM are parameters; what is drawn at random is an argument of the operation that draws it.
\<close>

section \<open>Format\<close>

definition FORMAT_VERSION :: u8 where "FORMAT_VERSION = 2"
definition SALT_LEN :: nat where "SALT_LEN = 16"
definition GCM_NONCE_LEN :: nat where "GCM_NONCE_LEN = 12"
definition DEK_LEN :: nat where "DEK_LEN = 32"
definition WRAPPED_DEK_LEN :: nat where "WRAPPED_DEK_LEN = DEK_LEN + 16"
definition PARAMS_LEN :: nat where "PARAMS_LEN = 4 + 4 + 2"
definition HEADER_LEN :: nat where "HEADER_LEN = 4 + 1 + PARAMS_LEN + SALT_LEN + GCM_NONCE_LEN"
definition PREFIX_LEN :: nat where "PREFIX_LEN = HEADER_LEN + WRAPPED_DEK_LEN + GCM_NONCE_LEN"
definition MAX_PASSWORD_LEN :: nat where "MAX_PASSWORD_LEN = 1024"

lemmas envelope_consts = FORMAT_VERSION_def SALT_LEN_def GCM_NONCE_LEN_def DEK_LEN_def WRAPPED_DEK_LEN_def
  PARAMS_LEN_def HEADER_LEN_def PREFIX_LEN_def

record Argon2Params =
  m_cost :: u32
  t_cost :: u32
  p_cost :: u16

datatype EnvelopeError =
  PasswordTooLong nat nat | TooShort nat nat | InvalidMagic | UnsupportedVersion u8 | DecryptFailed | Crypto string

record envelope_env =
  nfkc :: "string \<Rightarrow> string"
  argon2_new :: "u32 \<Rightarrow> u32 \<Rightarrow> u32 \<Rightarrow> string option"
  argon2_hash :: "u32 \<Rightarrow> u32 \<Rightarrow> u32 \<Rightarrow> bytes \<Rightarrow> bytes \<Rightarrow> string + bytes"
  gcm_seal :: "bytes \<Rightarrow> bytes \<Rightarrow> bytes \<Rightarrow> bytes \<Rightarrow> string + bytes"
  gcm_open :: "bytes \<Rightarrow> bytes \<Rightarrow> bytes \<Rightarrow> bytes \<Rightarrow> bytes option"
  on_android :: bool

definition desktop :: Argon2Params where "desktop = \<lparr>m_cost = 65536, t_cost = 3, p_cost = 1\<rparr>"
definition mobile :: Argon2Params where "mobile = \<lparr>m_cost = 32768, t_cost = 3, p_cost = 1\<rparr>"

definition default_for_platform :: "envelope_env \<Rightarrow> Argon2Params" where
  "default_for_platform env = (if on_android env then mobile else desktop)"

definition params_to_bytes :: "Argon2Params \<Rightarrow> bytes" where
  "params_to_bytes p = le32 (m_cost p) @ le32 (t_cost p) @ le16 (p_cost p)"

definition params_from_bytes :: "bytes \<Rightarrow> Argon2Params" where
  "params_from_bytes d =
     \<lparr>m_cost = of_be32 (d ! 3) (d ! 2) (d ! 1) (d ! 0), t_cost = of_be32 (d ! 7) (d ! 6) (d ! 5) (d ! 4),
      p_cost = of_be16 (d ! 9) (d ! 8)\<rparr>"

definition bad_cost :: "string \<Rightarrow> nat \<Rightarrow> string \<Rightarrow> EnvelopeError" where
  "bad_cost what n bounds =
     Crypto (''invalid argon2 '' @ what @ '': '' @ show_nat n @ '' (must be '' @ bounds @ '')'')"

definition validate_params :: "Argon2Params \<Rightarrow> EnvelopeError + unit" where
  "validate_params p =
     (if m_cost p < 8 \<or> 256 * 1024 < m_cost p then Inl (bad_cost ''m_cost'' (unat (m_cost p)) ''8-262144'')
      else if t_cost p = 0 \<or> 100 < t_cost p then Inl (bad_cost ''t_cost'' (unat (t_cost p)) ''1-100'')
      else if p_cost p = 0 \<or> 16 < p_cost p then Inl (bad_cost ''p_cost'' (unat (p_cost p)) ''1-16'')
      else Inr ())"

section \<open>Keys\<close>

definition normalize_password :: "envelope_env \<Rightarrow> string \<Rightarrow> EnvelopeError + string" where
  "normalize_password env password =
     (let normalized = nfkc env password
      in if length normalized > MAX_PASSWORD_LEN then Inl (PasswordTooLong (length normalized) MAX_PASSWORD_LEN)
         else Inr normalized)"

definition derive_kek :: "envelope_env \<Rightarrow> string \<Rightarrow> bytes \<Rightarrow> Argon2Params \<Rightarrow> EnvelopeError + bytes" where
  "derive_kek env password salt p =
     try_res (normalize_password env password) (\<lambda>normalized.
       case argon2_new env (m_cost p) (t_cost p) (ucast (p_cost p)) of
         Some e \<Rightarrow> Inl (Crypto (''invalid argon2 params: '' @ e))
       | None \<Rightarrow>
           map_err (\<lambda>e. Crypto (''argon2 key derivation failed: '' @ e))
             (argon2_hash env (m_cost p) (t_cost p) (ucast (p_cost p)) (bytes_of_str normalized) salt))"

text \<open>The salt with the identifier of the machine, if there is one, in front of it.\<close>

definition kek_salt :: "bytes \<Rightarrow> bytes \<Rightarrow> bytes" where
  "kek_salt salt_extra salt =
     (if salt_extra = [] then salt else le64 (word_of_nat (length salt_extra)) @ salt_extra @ salt)"

definition header_bytes :: "bytes \<Rightarrow> u8 \<Rightarrow> Argon2Params \<Rightarrow> bytes \<Rightarrow> bytes \<Rightarrow> bytes" where
  "header_bytes magic ver p salt nonce_kek = magic @ [ver] @ params_to_bytes p @ salt @ nonce_kek"

definition data_aad :: "bytes \<Rightarrow> u8 \<Rightarrow> bytes \<Rightarrow> bytes" where
  "data_aad magic ver nonce_data = magic @ [ver] @ nonce_data"

definition seal_err :: "string \<Rightarrow> string \<Rightarrow> EnvelopeError" where
  "seal_err what e = Crypto (''aes-gcm '' @ what @ '' failed: '' @ e)"

definition open_key :: "envelope_env \<Rightarrow> bytes \<Rightarrow> bytes \<Rightarrow> bytes \<Rightarrow> bytes \<Rightarrow> EnvelopeError + bytes" where
  "open_key env k n aad c = (case gcm_open env k n aad c of None \<Rightarrow> Inl DecryptFailed | Some m \<Rightarrow> Inr m)"

section \<open>Encrypting and decrypting\<close>

text \<open>Bytes \<open>a..b\<close> of a blob.\<close>

definition sub_bytes :: "nat \<Rightarrow> nat \<Rightarrow> bytes \<Rightarrow> bytes" where
  "sub_bytes a b bs = take (b - a) (drop a bs)"

definition assemble_blob ::
  "bytes \<Rightarrow> Argon2Params \<Rightarrow> bytes \<Rightarrow> bytes \<Rightarrow> bytes \<Rightarrow> bytes \<Rightarrow> bytes \<Rightarrow> bytes" where
  "assemble_blob magic p salt nonce_kek wrapped_dek nonce_data ciphertext =
     magic @ [FORMAT_VERSION] @ params_to_bytes p @ salt @ nonce_kek @ wrapped_dek @ nonce_data @ ciphertext"

text \<open>What \<open>encrypt\<close> draws: the key of the data and the two nonces.\<close>

record key_draw =
  drawn_dek :: bytes
  drawn_nonce_kek :: bytes
  drawn_nonce_data :: bytes

definition envelope_encrypt ::
  "envelope_env \<Rightarrow> key_draw \<Rightarrow> bytes \<Rightarrow> string \<Rightarrow> bytes \<Rightarrow> bytes \<Rightarrow> Argon2Params \<Rightarrow> bytes \<Rightarrow> EnvelopeError + bytes" where
  "envelope_encrypt env r magic password salt salt_extra p plaintext =
     try_res (derive_kek env password (kek_salt salt_extra salt) p) (\<lambda>kek.
       let dek = drawn_dek r; nonce_kek = drawn_nonce_kek r; nonce_data = drawn_nonce_data r;
           header = header_bytes magic FORMAT_VERSION p salt nonce_kek
       in try_res (map_err (seal_err ''wrap DEK'') (gcm_seal env kek nonce_kek header dek)) (\<lambda>wrapped_dek.
          try_res (map_err (seal_err ''encrypt data'')
                    (gcm_seal env dek nonce_data (data_aad magic FORMAT_VERSION nonce_data) plaintext)) (\<lambda>ciphertext.
            Inr (header @ wrapped_dek @ nonce_data @ ciphertext))))"

definition envelope_decrypt :: "envelope_env \<Rightarrow> bytes \<Rightarrow> string \<Rightarrow> bytes \<Rightarrow> bytes \<Rightarrow> EnvelopeError + bytes" where
  "envelope_decrypt env magic password salt_extra blob =
     (if length blob < PREFIX_LEN then Inl (TooShort (length blob) PREFIX_LEN)
      else if take 4 blob \<noteq> magic then Inl InvalidMagic
      else if blob ! 4 \<noteq> FORMAT_VERSION then Inl (UnsupportedVersion (blob ! 4))
      else
        (let ver = blob ! 4; p = params_from_bytes (sub_bytes 5 (5 + PARAMS_LEN) blob)
         in try_res (validate_params p) (\<lambda>_.
           let salt = sub_bytes (5 + PARAMS_LEN) (5 + PARAMS_LEN + SALT_LEN) blob;
               nonce_kek = sub_bytes (5 + PARAMS_LEN + SALT_LEN) HEADER_LEN blob;
               wrapped_dek = sub_bytes HEADER_LEN (HEADER_LEN + WRAPPED_DEK_LEN) blob;
               nonce_data = sub_bytes (HEADER_LEN + WRAPPED_DEK_LEN) (HEADER_LEN + WRAPPED_DEK_LEN + GCM_NONCE_LEN) blob;
               ciphertext = drop PREFIX_LEN blob
           in try_res (derive_kek env password (kek_salt salt_extra salt) p) (\<lambda>kek.
              try_res (open_key env kek nonce_kek (header_bytes magic ver p salt nonce_kek) wrapped_dek) (\<lambda>dek.
                if length dek \<noteq> DEK_LEN then Inl DecryptFailed
                else open_key env dek nonce_data (data_aad magic ver nonce_data) ciphertext)))))"

text \<open>The data stay as they are: only their key is wrapped anew.\<close>

definition envelope_change_password ::
  "envelope_env \<Rightarrow> bytes \<Rightarrow> bytes \<Rightarrow> bytes \<Rightarrow> string \<Rightarrow> string \<Rightarrow> bytes \<Rightarrow> bytes \<Rightarrow> EnvelopeError + bytes" where
  "envelope_change_password env new_salt new_nonce_kek magic old_password new_password salt_extra blob =
     (if length blob < PREFIX_LEN then Inl (TooShort (length blob) PREFIX_LEN)
      else if take 4 blob \<noteq> magic then Inl InvalidMagic
      else if blob ! 4 \<noteq> FORMAT_VERSION then Inl (UnsupportedVersion (blob ! 4))
      else
        (let ver = blob ! 4; p = params_from_bytes (sub_bytes 5 (5 + PARAMS_LEN) blob)
         in try_res (validate_params p) (\<lambda>_.
           let salt = sub_bytes (5 + PARAMS_LEN) (5 + PARAMS_LEN + SALT_LEN) blob;
               nonce_kek = sub_bytes (5 + PARAMS_LEN + SALT_LEN) HEADER_LEN blob;
               wrapped_dek = sub_bytes HEADER_LEN (HEADER_LEN + WRAPPED_DEK_LEN) blob;
               nonce_data = sub_bytes (HEADER_LEN + WRAPPED_DEK_LEN) (HEADER_LEN + WRAPPED_DEK_LEN + GCM_NONCE_LEN) blob;
               ciphertext = drop PREFIX_LEN blob
           in try_res (derive_kek env old_password (kek_salt salt_extra salt) p) (\<lambda>old_kek.
              try_res (open_key env old_kek nonce_kek (header_bytes magic ver p salt nonce_kek) wrapped_dek) (\<lambda>dek.
                if length dek \<noteq> DEK_LEN then Inl DecryptFailed
                else try_res (derive_kek env new_password (kek_salt salt_extra new_salt) p) (\<lambda>new_kek.
                  let new_header = header_bytes magic FORMAT_VERSION p new_salt new_nonce_kek
                  in try_res (map_err (seal_err ''re-wrap DEK'') (gcm_seal env new_kek new_nonce_kek new_header dek))
                    (\<lambda>new_wrapped_dek. Inr (new_header @ new_wrapped_dek @ nonce_data @ ciphertext))))))))"

definition is_envelope_format :: "bytes \<Rightarrow> bool" where
  "is_envelope_format blob \<longleftrightarrow> 5 \<le> length blob \<and> blob ! 4 = FORMAT_VERSION"

definition read_params :: "bytes \<Rightarrow> EnvelopeError + Argon2Params" where
  "read_params blob =
     (if length blob < 5 + PARAMS_LEN then Inl (TooShort (length blob) (5 + PARAMS_LEN))
      else Inr (params_from_bytes (sub_bytes 5 (5 + PARAMS_LEN) blob)))"

record ParsedBlob =
  pb_magic :: bytes
  pb_params :: Argon2Params
  pb_salt :: bytes
  pb_nonce_kek :: bytes
  pb_wrapped_dek :: bytes
  pb_nonce_data :: bytes
  pb_ciphertext :: bytes

definition parse_blob :: "bytes \<Rightarrow> bytes \<Rightarrow> EnvelopeError + ParsedBlob" where
  "parse_blob magic blob =
     (if length blob < PREFIX_LEN then Inl (TooShort (length blob) PREFIX_LEN)
      else if take 4 blob \<noteq> magic then Inl InvalidMagic
      else if blob ! 4 \<noteq> FORMAT_VERSION then Inl (UnsupportedVersion (blob ! 4))
      else Inr \<lparr>pb_magic = take 4 blob, pb_params = params_from_bytes (sub_bytes 5 (5 + PARAMS_LEN) blob),
        pb_salt = sub_bytes (5 + PARAMS_LEN) (5 + PARAMS_LEN + SALT_LEN) blob,
        pb_nonce_kek = sub_bytes (5 + PARAMS_LEN + SALT_LEN) HEADER_LEN blob,
        pb_wrapped_dek = sub_bytes HEADER_LEN (HEADER_LEN + WRAPPED_DEK_LEN) blob,
        pb_nonce_data = sub_bytes (HEADER_LEN + WRAPPED_DEK_LEN) (HEADER_LEN + WRAPPED_DEK_LEN + GCM_NONCE_LEN) blob,
        pb_ciphertext = drop PREFIX_LEN blob\<rparr>)"

definition decrypt_data_with_dek :: "envelope_env \<Rightarrow> bytes \<Rightarrow> bytes \<Rightarrow> bytes \<Rightarrow> bytes \<Rightarrow> EnvelopeError + bytes" where
  "decrypt_data_with_dek env magic dek nonce_data ciphertext =
     open_key env dek nonce_data (data_aad magic FORMAT_VERSION nonce_data) ciphertext"

definition encrypt_data_with_dek :: "envelope_env \<Rightarrow> bytes \<Rightarrow> bytes \<Rightarrow> bytes \<Rightarrow> bytes \<Rightarrow> EnvelopeError + bytes \<times> bytes" where
  "encrypt_data_with_dek env nonce_data magic dek plaintext =
     try_res (map_err (seal_err ''encrypt data'')
               (gcm_seal env dek nonce_data (data_aad magic FORMAT_VERSION nonce_data) plaintext))
       (\<lambda>ciphertext. Inr (nonce_data, ciphertext))"

definition unwrap_dek :: "envelope_env \<Rightarrow> string \<Rightarrow> bytes \<Rightarrow> ParsedBlob \<Rightarrow> EnvelopeError + bytes" where
  "unwrap_dek env password salt_extra b =
     try_res (derive_kek env password (kek_salt salt_extra (pb_salt b)) (pb_params b)) (\<lambda>kek.
     try_res (open_key env kek (pb_nonce_kek b)
         (header_bytes (pb_magic b) FORMAT_VERSION (pb_params b) (pb_salt b) (pb_nonce_kek b)) (pb_wrapped_dek b)) (\<lambda>dek.
       if length dek \<noteq> DEK_LEN then Inl DecryptFailed else Inr dek))"

section \<open>The parts of a blob\<close>

lemma params_length [simp]: "length (params_to_bytes p) = 10"
  by (simp add: params_to_bytes_def)

lemma params_round_trip [simp]: "params_from_bytes (params_to_bytes p) = p"
  by (simp add: params_from_bytes_def params_to_bytes_def le32_def le16_def be32_def be16_def of_be32_be32 of_be16_be16)

lemma sub_bytes_at: "length xs = a \<Longrightarrow> length ys = b - a \<Longrightarrow> sub_bytes a b (xs @ ys @ zs) = ys"
  by (simp add: sub_bytes_def)

lemma assemble_header:
  "header_bytes magic FORMAT_VERSION p salt nonce_kek @ wrapped_dek @ nonce_data @ ciphertext
     = assemble_blob magic p salt nonce_kek wrapped_dek nonce_data ciphertext"
  by (simp add: header_bytes_def assemble_blob_def)

lemma parse_assemble:
  assumes "length magic = 4" "length salt = SALT_LEN" "length nonce_kek = GCM_NONCE_LEN"
    "length wrapped_dek = WRAPPED_DEK_LEN" "length nonce_data = GCM_NONCE_LEN"
  shows "parse_blob magic (assemble_blob magic p salt nonce_kek wrapped_dek nonce_data ciphertext)
    = Inr \<lparr>pb_magic = magic, pb_params = p, pb_salt = salt, pb_nonce_kek = nonce_kek, pb_wrapped_dek = wrapped_dek,
        pb_nonce_data = nonce_data, pb_ciphertext = ciphertext\<rparr>"
proof -
  let ?b = "assemble_blob magic p salt nonce_kek wrapped_dek nonce_data ciphertext"
  have l: "PREFIX_LEN \<le> length ?b" and m: "take 4 ?b = magic" "?b ! 4 = FORMAT_VERSION" and c: "drop PREFIX_LEN ?b = ciphertext"
    using assms by (simp_all add: assemble_blob_def envelope_consts nth_append)
  have "sub_bytes 5 (5 + PARAMS_LEN) ?b = params_to_bytes p"
    using assms sub_bytes_at [of "magic @ [FORMAT_VERSION]"] by (simp add: assemble_blob_def envelope_consts)
  moreover have "sub_bytes (5 + PARAMS_LEN) (5 + PARAMS_LEN + SALT_LEN) ?b = salt"
    using assms sub_bytes_at [of "magic @ [FORMAT_VERSION] @ params_to_bytes p"] by (simp add: assemble_blob_def envelope_consts)
  moreover have "sub_bytes (5 + PARAMS_LEN + SALT_LEN) HEADER_LEN ?b = nonce_kek"
    using assms sub_bytes_at [of "magic @ [FORMAT_VERSION] @ params_to_bytes p @ salt"] by (simp add: assemble_blob_def envelope_consts)
  moreover have "sub_bytes HEADER_LEN (HEADER_LEN + WRAPPED_DEK_LEN) ?b = wrapped_dek"
    using assms sub_bytes_at [of "magic @ [FORMAT_VERSION] @ params_to_bytes p @ salt @ nonce_kek"]
    by (simp add: assemble_blob_def envelope_consts)
  moreover have "sub_bytes (HEADER_LEN + WRAPPED_DEK_LEN) (HEADER_LEN + WRAPPED_DEK_LEN + GCM_NONCE_LEN) ?b = nonce_data"
    using assms sub_bytes_at [of "magic @ [FORMAT_VERSION] @ params_to_bytes p @ salt @ nonce_kek @ wrapped_dek"]
    by (simp add: assemble_blob_def envelope_consts)
  ultimately show ?thesis using l m c by (simp add: parse_blob_def)
qed

text \<open>Decrypting is parsing, checking the parameters, unwrapping the key and opening the data.\<close>

theorem decrypt_steps:
  "envelope_decrypt env magic password salt_extra blob =
     try_res (parse_blob magic blob) (\<lambda>b.
     try_res (validate_params (pb_params b)) (\<lambda>_.
     try_res (unwrap_dek env password salt_extra b) (\<lambda>dek.
       decrypt_data_with_dek env magic dek (pb_nonce_data b) (pb_ciphertext b))))"
  by (simp add: envelope_decrypt_def parse_blob_def unwrap_dek_def decrypt_data_with_dek_def Let_def try_res_assoc try_res_if
      cong: if_cong)

lemma change_password_steps:
  "envelope_change_password env new_salt new_nonce_kek magic old new salt_extra blob =
     try_res (parse_blob magic blob) (\<lambda>b.
     try_res (validate_params (pb_params b)) (\<lambda>_.
     try_res (unwrap_dek env old salt_extra b) (\<lambda>dek.
     try_res (derive_kek env new (kek_salt salt_extra new_salt) (pb_params b)) (\<lambda>kek.
     try_res (map_err (seal_err ''re-wrap DEK'')
         (gcm_seal env kek new_nonce_kek (header_bytes magic FORMAT_VERSION (pb_params b) new_salt new_nonce_kek) dek)) (\<lambda>w.
       Inr (assemble_blob magic (pb_params b) new_salt new_nonce_kek w (pb_nonce_data b) (pb_ciphertext b)))))))"
  by (simp add: envelope_change_password_def parse_blob_def unwrap_dek_def Let_def try_res_assoc try_res_if
      assemble_header cong: if_cong)

lemma drop_sub_bytes: "a \<le> b \<Longrightarrow> b \<le> length bs \<Longrightarrow> sub_bytes a b bs @ drop b bs = drop a bs"
  by (simp add: sub_bytes_def) (metis append_take_drop_id drop_drop le_add_diff_inverse2)

lemma parsed:
  assumes "parse_blob magic blob = Inr b"
  shows "length (pb_nonce_data b) = GCM_NONCE_LEN" "drop (HEADER_LEN + WRAPPED_DEK_LEN) blob = pb_nonce_data b @ pb_ciphertext b"
    "pb_magic b = magic"
proof -
  show "drop (HEADER_LEN + WRAPPED_DEK_LEN) blob = pb_nonce_data b @ pb_ciphertext b"
    using assms drop_sub_bytes [of "HEADER_LEN + WRAPPED_DEK_LEN" PREFIX_LEN blob]
    by (auto simp: parse_blob_def PREFIX_LEN_def split: if_splits)
qed (use assms in \<open>auto simp: parse_blob_def sub_bytes_def envelope_consts split: if_splits\<close>)

section \<open>Round trip and change of the password\<close>

text \<open>
  What is used of AES-GCM: opening what was sealed with the same key, nonce and associated data gives
  the message back, and the sealed text is sixteen bytes longer.
\<close>

definition gcm_ok :: "envelope_env \<Rightarrow> bool" where
  "gcm_ok env \<longleftrightarrow> (\<forall>k n a m c. gcm_seal env k n a m = Inr c \<longrightarrow>
     gcm_open env k n a c = Some m \<and> length c = length m + 16)"

lemma map_err_Inr: "map_err f x = Inr y \<longleftrightarrow> x = Inr y"
  by (cases x) auto

lemma unwrap_wrapped:
  assumes "gcm_ok env" "derive_kek env password (kek_salt salt_extra (pb_salt b)) (pb_params b) = Inr kek"
    "gcm_seal env kek (pb_nonce_kek b)
       (header_bytes (pb_magic b) FORMAT_VERSION (pb_params b) (pb_salt b) (pb_nonce_kek b)) dek = Inr (pb_wrapped_dek b)"
    "length dek = DEK_LEN"
  shows "unwrap_dek env password salt_extra b = Inr dek"
  using assms by (simp add: unwrap_dek_def open_key_def gcm_ok_def)

text \<open>
  C24. What was encrypted with a password is decrypted with it, for every message, salt and
  identifier of the machine, when the parameters are within the bounds the reader checks; the blob is
  recognised and its parameters can be read without the password.
\<close>

theorem envelope_round_trip:
  assumes "gcm_ok env" "envelope_encrypt env r magic password salt salt_extra p plaintext = Inr blob"
    "validate_params p = Inr ()" "length magic = 4" "length salt = SALT_LEN" "length (drawn_dek r) = DEK_LEN"
    "length (drawn_nonce_kek r) = GCM_NONCE_LEN" "length (drawn_nonce_data r) = GCM_NONCE_LEN"
  shows "envelope_decrypt env magic password salt_extra blob = Inr plaintext
     \<and> is_envelope_format blob \<and> read_params blob = Inr p"
proof -
  let ?nk = "drawn_nonce_kek r" and ?nd = "drawn_nonce_data r"
  obtain kek w c where kek: "derive_kek env password (kek_salt salt_extra salt) p = Inr kek"
    and w: "gcm_seal env kek ?nk (header_bytes magic FORMAT_VERSION p salt ?nk) (drawn_dek r) = Inr w"
    and c: "gcm_seal env (drawn_dek r) ?nd (data_aad magic FORMAT_VERSION ?nd) plaintext = Inr c"
    and blob: "blob = assemble_blob magic p salt ?nk w ?nd c"
    using assms(2) by (auto simp: envelope_encrypt_def Let_def try_res_Inr map_err_Inr assemble_header)
  have lw: "length w = WRAPPED_DEK_LEN"
    using w assms(1,6) by (simp add: gcm_ok_def WRAPPED_DEK_LEN_def)
  define b where "b = \<lparr>pb_magic = magic, pb_params = p, pb_salt = salt, pb_nonce_kek = ?nk, pb_wrapped_dek = w,
    pb_nonce_data = ?nd, pb_ciphertext = c\<rparr>"
  have parse: "parse_blob magic blob = Inr b"
    unfolding blob b_def by (rule parse_assemble) (use assms lw in auto)
  have "unwrap_dek env password salt_extra b = Inr (drawn_dek r)"
    by (rule unwrap_wrapped [OF assms(1)]) (use kek w assms(6) in \<open>simp_all add: b_def\<close>)
  moreover have "gcm_open env (drawn_dek r) ?nd (data_aad magic FORMAT_VERSION ?nd) c = Some plaintext"
    using c assms(1) by (simp add: gcm_ok_def)
  ultimately have "envelope_decrypt env magic password salt_extra blob = Inr plaintext"
    unfolding decrypt_steps parse using assms(3) by (simp add: b_def decrypt_data_with_dek_def open_key_def)
  then show ?thesis
    using parse by (auto simp: b_def parse_blob_def is_envelope_format_def read_params_def envelope_consts split: if_splits)
qed

text \<open>
  Changing the password never touches the data: whatever could be decrypted with the old password
  is decrypted with the new one afterwards, and everything behind the wrapped key is the same, byte
  for byte.
\<close>

theorem change_password_keeps_data:
  assumes "gcm_ok env" "envelope_decrypt env magic old salt_extra blob = Inr plaintext"
    "envelope_change_password env new_salt new_nonce_kek magic old new salt_extra blob = Inr blob'"
    "length magic = 4" "length new_salt = SALT_LEN" "length new_nonce_kek = GCM_NONCE_LEN"
  shows "envelope_decrypt env magic new salt_extra blob' = Inr plaintext
     \<and> drop (HEADER_LEN + WRAPPED_DEK_LEN) blob' = drop (HEADER_LEN + WRAPPED_DEK_LEN) blob
     \<and> length blob' = length blob"
proof -
  obtain b dek kek w where parse: "parse_blob magic blob = Inr b" and valid: "validate_params (pb_params b) = Inr ()"
    and dek: "unwrap_dek env old salt_extra b = Inr dek"
    and kek: "derive_kek env new (kek_salt salt_extra new_salt) (pb_params b) = Inr kek"
    and w: "gcm_seal env kek new_nonce_kek (header_bytes magic FORMAT_VERSION (pb_params b) new_salt new_nonce_kek) dek = Inr w"
    and blob': "blob' = assemble_blob magic (pb_params b) new_salt new_nonce_kek w (pb_nonce_data b) (pb_ciphertext b)"
    using assms(3) by (auto simp: change_password_steps try_res_Inr map_err_Inr)
  have ld: "length dek = DEK_LEN"
    using dek by (auto simp: unwrap_dek_def try_res_Inr split: if_splits)
  have lw: "length w = WRAPPED_DEK_LEN" using w assms(1) ld by (simp add: gcm_ok_def WRAPPED_DEK_LEN_def)
  define b' where "b' = b\<lparr>pb_magic := magic, pb_salt := new_salt, pb_nonce_kek := new_nonce_kek, pb_wrapped_dek := w\<rparr>"
  have "b' = \<lparr>pb_magic = magic, pb_params = pb_params b, pb_salt = new_salt, pb_nonce_kek = new_nonce_kek,
      pb_wrapped_dek = w, pb_nonce_data = pb_nonce_data b, pb_ciphertext = pb_ciphertext b\<rparr>"
    by (simp add: b'_def)
  then have parse': "parse_blob magic blob' = Inr b'"
    unfolding blob' using assms parsed(1) [OF parse] lw by (simp add: parse_assemble)
  have "unwrap_dek env new salt_extra b' = Inr dek"
    by (rule unwrap_wrapped [OF assms(1)]) (use kek w ld in \<open>simp_all add: b'_def\<close>)
  then have "envelope_decrypt env magic new salt_extra blob' = Inr plaintext"
    using assms(2) valid dek unfolding decrypt_steps parse parse' by (simp add: b'_def)
  moreover have "drop (HEADER_LEN + WRAPPED_DEK_LEN) blob' = drop (HEADER_LEN + WRAPPED_DEK_LEN) blob"
    using parsed(2) [OF parse] parsed(2) [OF parse'] by (simp add: b'_def)
  moreover from this have "length blob' = length blob"
    using parse parse' by (auto simp: parse_blob_def PREFIX_LEN_def dest!: arg_cong [where f = length] split: if_splits)
  ultimately show ?thesis by simp
qed


lemma params_from_to [simp]: "length d = 10 \<Longrightarrow> params_to_bytes (params_from_bytes d) = d"
proof -
  assume "length d = 10"
  then obtain a b c e f g h i j k where "d = [a, b, c, e, f, g, h, i, j, k]"
    by (auto simp: length_Suc_conv eval_nat_numeral)
  then show ?thesis
    by (simp add: params_to_bytes_def params_from_bytes_def le32_def le16_def be32_of_be32 be16_of_be16)
qed

text \<open>The wrapped key was opened with exactly the header as associated data, and the data with that key.\<close>

lemma header_authenticated:
  assumes "envelope_decrypt env magic password salt_extra blob = Inr plaintext"
  shows "\<exists>kek dek. gcm_open env kek (sub_bytes 31 43 blob) (take HEADER_LEN blob) (sub_bytes 43 91 blob) = Some dek
    \<and> length dek = DEK_LEN
    \<and> gcm_open env dek (sub_bytes 91 103 blob) (take 5 blob @ sub_bytes 91 103 blob) (drop 103 blob) = Some plaintext"
proof -
  obtain b dek where parse: "parse_blob magic blob = Inr b" and dek: "unwrap_dek env password salt_extra b = Inr dek"
    and pt: "decrypt_data_with_dek env magic dek (pb_nonce_data b) (pb_ciphertext b) = Inr plaintext"
    using assms by (auto simp: decrypt_steps try_res_Inr)
  have len: "103 \<le> length blob" and b: "blob ! 4 = FORMAT_VERSION" "take 4 blob = magic"
    and parts: "pb_params b = params_from_bytes (sub_bytes 5 15 blob)" "pb_salt b = sub_bytes 15 31 blob"
      "pb_nonce_kek b = sub_bytes 31 43 blob" "pb_wrapped_dek b = sub_bytes 43 91 blob"
      "pb_nonce_data b = sub_bytes 91 103 blob" "pb_ciphertext b = drop 103 blob" "pb_magic b = magic"
    using parse by (auto simp: parse_blob_def envelope_consts split: if_splits)
  have five: "magic @ [FORMAT_VERSION] = take 5 blob"
    using len b take_Suc_conv_app_nth [of 4 blob] by simp
  have split: "take n blob @ sub_bytes n m blob = take m blob" if "n \<le> m" for n m
    using that by (simp add: sub_bytes_def) (metis le_add_diff_inverse take_add)
  have "length (sub_bytes 5 15 blob) = 10" using len by (simp add: sub_bytes_def)
  then have "header_bytes magic FORMAT_VERSION (pb_params b) (pb_salt b) (pb_nonce_kek b) = take HEADER_LEN blob"
    using split [of 5 15] split [of 15 31] split [of 31 43] five
    by (simp add: header_bytes_def parts envelope_consts) (metis append.assoc append_Cons append_Nil)
  then show ?thesis
    using dek pt five
    by (auto simp: unwrap_dek_def try_res_Inr open_key_def parts decrypt_data_with_dek_def data_aad_def
        split: option.splits if_splits) (metis append.assoc append_Cons append_Nil)
qed

section \<open>Examples\<close>

definition toy_envelope :: envelope_env where
  "toy_envelope =
     \<lparr>nfkc = (\<lambda>s. s), argon2_new = (\<lambda>m t p. None),
      argon2_hash = (\<lambda>m t p pw salt. Inr (take 32 (pw @ salt @ replicate 32 0))),
      gcm_seal = (\<lambda>k n a m. Inr (m @ take 16 (k @ replicate 16 0))),
      gcm_open = (\<lambda>k n a c. if suffix (take 16 (k @ replicate 16 0)) c then Some (take (length c - 16) c) else None),
      on_android = False\<rparr>"

definition toy_draw :: key_draw where
  "toy_draw = \<lparr>drawn_dek = replicate 32 7, drawn_nonce_kek = replicate 12 1, drawn_nonce_data = replicate 12 2\<rparr>"

lemma toy_gcm_ok: "gcm_ok toy_envelope"
  by (auto simp: gcm_ok_def toy_envelope_def suffix_def)

lemma toy_encrypts: "\<exists>blob. envelope_encrypt toy_envelope toy_draw [84, 67, 82, 69] ''pw'' (replicate 16 9) [] desktop [42] = Inr blob"
  by (simp add: envelope_encrypt_def derive_kek_def normalize_password_def MAX_PASSWORD_LEN_def toy_envelope_def Let_def)

lemma desktop_valid: "validate_params desktop = Inr ()"
  by (simp add: validate_params_def desktop_def)

lemma envelope_round_trip_witness:
  "\<exists>blob. envelope_encrypt toy_envelope toy_draw [84, 67, 82, 69] ''pw'' (replicate 16 9) [] desktop [42] = Inr blob
     \<and> envelope_decrypt toy_envelope [84, 67, 82, 69] ''pw'' [] blob = Inr [42]"
proof -
  obtain blob where b: "envelope_encrypt toy_envelope toy_draw [84, 67, 82, 69] ''pw'' (replicate 16 9) [] desktop [42] = Inr blob"
    using toy_encrypts ..
  have "envelope_decrypt toy_envelope [84, 67, 82, 69] ''pw'' [] blob = Inr [42] \<and> is_envelope_format blob \<and> read_params blob = Inr desktop"
    by (rule envelope_round_trip [OF toy_gcm_ok b desktop_valid])
       (simp_all add: toy_draw_def envelope_consts)
  with b show ?thesis by blast
qed

definition toy_blob :: bytes where
  "toy_blob = assemble_blob [84, 67, 82, 69] desktop (replicate 16 9) (replicate 12 1)
     (replicate 32 7 @ take 16 (bytes_of_str ''pw'' @ replicate 16 9)) (replicate 12 2) ([42] @ replicate 16 7)"

lemma toy_decrypt: "envelope_decrypt toy_envelope [84, 67, 82, 69] ''pw'' [] toy_blob = Inr [42]"
proof -
  have "length (bytes_of_str ''pw'') = 2" by (simp add: bytes_of_str_def)
  then have "parse_blob [84, 67, 82, 69] toy_blob = Inr \<lparr>pb_magic = [84, 67, 82, 69], pb_params = desktop,
      pb_salt = replicate 16 9, pb_nonce_kek = replicate 12 1,
      pb_wrapped_dek = replicate 32 7 @ take 16 (bytes_of_str ''pw'' @ replicate 16 9), pb_nonce_data = replicate 12 2,
      pb_ciphertext = [42] @ replicate 16 7\<rparr>"
    unfolding toy_blob_def by (intro parse_assemble) (simp_all add: envelope_consts)
  then show ?thesis
    by (simp add: decrypt_steps desktop_valid unwrap_dek_def derive_kek_def normalize_password_def MAX_PASSWORD_LEN_def
        kek_salt_def open_key_def decrypt_data_with_dek_def DEK_LEN_def toy_envelope_def bytes_of_str_def suffix_def)
qed

lemma change_password_keeps_data_witness:
  "\<exists>blob'. envelope_change_password toy_envelope (replicate 16 3) (replicate 12 4) [84, 67, 82, 69] ''pw'' ''new'' [] toy_blob = Inr blob'
     \<and> envelope_decrypt toy_envelope [84, 67, 82, 69] ''new'' [] blob' = Inr [42]"
proof -
  obtain b dek where s: "parse_blob [84, 67, 82, 69] toy_blob = Inr b" "validate_params (pb_params b) = Inr ()"
    "unwrap_dek toy_envelope ''pw'' [] b = Inr dek"
    using toy_decrypt by (auto simp: decrypt_steps try_res_Inr)
  have k: "derive_kek toy_envelope ''new'' salt p = Inr (take 32 (bytes_of_str ''new'' @ salt @ replicate 32 0))" for salt p
    by (simp add: derive_kek_def normalize_password_def MAX_PASSWORD_LEN_def toy_envelope_def)
  have g: "gcm_seal toy_envelope k n a m = Inr (m @ take 16 (k @ replicate 16 0))" for k n a m
    by (simp add: toy_envelope_def)
  obtain blob' where c: "envelope_change_password toy_envelope (replicate 16 3) (replicate 12 4) [84, 67, 82, 69] ''pw'' ''new'' [] toy_blob = Inr blob'"
    unfolding change_password_steps s try_res.simps k g map_err.simps by blast
  from change_password_keeps_data [OF toy_gcm_ok toy_decrypt c] c show ?thesis by (simp add: envelope_consts)
qed

end
