(* ===== verification/CredentialContract.thy ===== *)
theory CredentialContract
  imports RustText
begin

text \<open>
  The trait \<open>CredentialStore\<close> of \<open>crates/credential/src/lib.rs\<close>: the keys under which secrets are kept,
  a store as the record of its operations, and the contract its users rely on, as a locale.  The stores
  that implement it are in \<open>Credentials\<close>.
\<close>

section \<open>Keys\<close>

definition server_prefix :: "string \<Rightarrow> string" where
  "server_prefix server_id = ''termfast::'' @ server_id @ ''::''"

definition make_key :: "string \<Rightarrow> string \<Rightarrow> string" where
  "make_key server_id credential_type = ''termfast'' @ ''::'' @ server_id @ ''::'' @ credential_type"

definition PASSWORD :: string where "PASSWORD = ''password''"
definition KEY_PASSPHRASE :: string where "KEY_PASSPHRASE = ''key_passphrase''"

lemma own_prefix: "prefix (server_prefix s) (make_key s t)"
  by (simp add: server_prefix_def make_key_def)

text \<open>Two identifiers without colons have no key in common.\<close>

lemma before_colon: "c \<notin> set a \<Longrightarrow> c \<notin> set b \<Longrightarrow> a @ c # xs = b @ c # ys \<Longrightarrow> a = b"
proof (induction a arbitrary: b)
  case Nil
  then show ?case by (cases b) auto
next
  case (Cons x a)
  then show ?case by (cases b) auto
qed

lemma other_prefix:
  assumes "CHR '':'' \<notin> set s" "CHR '':'' \<notin> set s'" "s \<noteq> s'"
  shows "\<not> prefix (server_prefix s) (make_key s' t)"
  using assms before_colon [of "CHR '':''" s' s]
  by (auto simp: server_prefix_def make_key_def prefix_def)

text \<open>With a colon inside, the keys of one server can look like those of another.\<close>

lemma prefix_of_another: "prefix (server_prefix ''a'') (make_key ''a::b'' t)"
  by (simp add: server_prefix_def make_key_def)

section \<open>Stores\<close>

record 'c CredentialStore =
  cs_save :: "string \<Rightarrow> string \<Rightarrow> 'c \<Rightarrow> (string + unit) \<times> 'c"
  cs_load :: "string \<Rightarrow> 'c \<Rightarrow> string + string"
  cs_delete :: "string \<Rightarrow> 'c \<Rightarrow> (string + unit) \<times> 'c"
  cs_delete_all :: "string \<Rightarrow> 'c \<Rightarrow> (string + unit) \<times> 'c"
  cs_has :: "string \<Rightarrow> 'c \<Rightarrow> bool"

text \<open>
  What a user relies on: \<open>shown c\<close> is the map that \<open>load\<close> and \<open>has\<close> give; an operation that succeeds
  changes that map as it says, and one that fails changes no other key than those it was about.
\<close>

locale credential_store =
  fixes ops :: "'c CredentialStore"
    and shown :: "'c \<Rightarrow> string \<Rightarrow> string option"
  assumes load_shown: "cs_load ops k c = Inr v \<longleftrightarrow> shown c k = Some v"
    and has_shown: "cs_has ops k c \<longleftrightarrow> shown c k \<noteq> None"
    and saved: "cs_save ops k v c = (Inr (), c') \<Longrightarrow> shown c' = (shown c)(k \<mapsto> v)"
    and deleted: "cs_delete ops k c = (Inr (), c') \<Longrightarrow> shown c' = (shown c)(k := None)"
    and deleted_all: "cs_delete_all ops s c = (Inr (), c') \<Longrightarrow>
      shown c' k = (if prefix (server_prefix s) k then None else shown c k)"
    and save_other: "k' \<noteq> k \<Longrightarrow> shown (snd (cs_save ops k v c)) k' = shown c k'"
    and delete_other: "k' \<noteq> k \<Longrightarrow> shown (snd (cs_delete ops k c)) k' = shown c k'"
    and delete_all_other: "\<not> prefix (server_prefix s) k \<Longrightarrow> shown (snd (cs_delete_all ops s c)) k = shown c k"
begin

text \<open>After its secrets have been deleted, a server has none.\<close>

lemma none_left: "cs_delete_all ops s c = (Inr (), c') \<Longrightarrow> shown c' (make_key s t) = None"
  by (simp add: deleted_all own_prefix)

lemma load_after_save: "cs_save ops k v c = (Inr (), c') \<Longrightarrow> cs_load ops k c' = Inr v"
  by (simp add: load_shown saved)

lemma others_kept:
  "CHR '':'' \<notin> set s \<Longrightarrow> CHR '':'' \<notin> set s' \<Longrightarrow> s \<noteq> s' \<Longrightarrow>
   shown (snd (cs_delete_all ops s c)) (make_key s' t) = shown c (make_key s' t)"
  by (simp add: delete_all_other other_prefix)

lemma missing: "shown c k = None \<Longrightarrow> \<exists>e. cs_load ops k c = Inl e"
  using load_shown [of k c] by (cases "cs_load ops k c") auto

end

end
