(* ===== verification/Credentials.thy ===== *)
theory Credentials
  imports Envelope CredentialContract
begin

text \<open>
  \<open>crates/credential/src\<close>: the encrypted credential file (\<open>encrypted.rs\<close>) in its two formats, the
  store of credentials on top of it (\<open>encrypted_adapter.rs\<close>), which keeps the decrypted map in memory,
  and the plain stores (\<open>memory.rs\<close>, \<open>file.rs\<close>).  The file system is the contents of the credential
  file, whether the old plaintext file lies beside it, and the error the next write or removal meets;
  that a failed atomic write leaves the file as it was is the subject of \<open>ConfigMigration\<close>.
\<close>

section \<open>The encrypted file\<close>

definition TCRE :: bytes where "TCRE = [84, 67, 82, 69]"
definition FORMAT_VERSION_V1 :: u8 where "FORMAT_VERSION_V1 = 1"
definition HEADER_LEN_V1 :: nat where "HEADER_LEN_V1 = 4 + 1 + SALT_LEN + GCM_NONCE_LEN + 8"

record cred_env =
  envelope :: envelope_env
  hw_id :: string
  map_to_json :: "(string, string) hm \<Rightarrow> bytes"
  map_from_json :: "bytes \<Rightarrow> string + (string, string) hm"
  is_json :: "string \<Rightarrow> bool"
  path_debug :: string

record EncryptedCredentialStore =
  cred_file :: "bytes option"
  plaintext_fallback :: bool
  sync_version :: u64
  write_error :: "string option"
  remove_error :: "string option"

definition of_le64 :: "bytes \<Rightarrow> u64" where
  "of_le64 d =
     push_bit 32 (ucast (of_be32 (d ! 7) (d ! 6) (d ! 5) (d ! 4))) OR ucast (of_be32 (d ! 3) (d ! 2) (d ! 1) (d ! 0))"

record HeaderV1 =
  v1_salt :: bytes
  v1_nonce :: bytes
  v1_sync_version :: u64

definition read_header_v1 :: "bytes \<Rightarrow> string + HeaderV1" where
  "read_header_v1 d =
     (if length d < HEADER_LEN_V1 then Inl ''file too short for v1 encrypted credential header''
      else if take 4 d \<noteq> TCRE then Inl ''bad magic: not an encrypted credential file''
      else if d ! 4 \<noteq> FORMAT_VERSION_V1 then Inl (''not a v1 credential file (version: '' @ show_nat (unat (d ! 4)) @ '')'')
      else Inr \<lparr>v1_salt = sub_bytes 5 (5 + SALT_LEN) d,
        v1_nonce = sub_bytes (5 + SALT_LEN) (5 + SALT_LEN + GCM_NONCE_LEN) d,
        v1_sync_version = of_le64 (sub_bytes (5 + SALT_LEN + GCM_NONCE_LEN) HEADER_LEN_V1 d)\<rparr>)"

definition derive_key :: "envelope_env \<Rightarrow> string \<Rightarrow> bytes \<Rightarrow> string + bytes" where
  "derive_key env password salt =
     (case argon2_new env 32768 3 1 of
        Some e \<Rightarrow> Inl (''invalid argon2 params: '' @ e)
      | None \<Rightarrow> map_err (\<lambda>e. ''argon2 key derivation failed: '' @ e)
          (argon2_hash env 32768 3 1 (bytes_of_str (nfkc env password)) salt))"

definition v1_aad :: "bytes \<Rightarrow> bytes \<Rightarrow> u64 \<Rightarrow> bytes" where
  "v1_aad salt nonce sync = TCRE @ [FORMAT_VERSION_V1] @ salt @ nonce @ le64 sync"

definition encrypt_with_key :: "envelope_env \<Rightarrow> bytes \<Rightarrow> bytes \<Rightarrow> bytes \<Rightarrow> u64 \<Rightarrow> bytes \<Rightarrow> string + bytes" where
  "encrypt_with_key env nonce key salt sync plaintext =
     map_err (\<lambda>e. ''aes-gcm encrypt failed: '' @ e) (gcm_seal env key nonce (v1_aad salt nonce sync) plaintext)"

definition decrypt_with_key :: "envelope_env \<Rightarrow> bytes \<Rightarrow> HeaderV1 \<Rightarrow> bytes \<Rightarrow> string + bytes" where
  "decrypt_with_key env key h ciphertext =
     (case gcm_open env key (v1_nonce h) (v1_aad (v1_salt h) (v1_nonce h) (v1_sync_version h)) ciphertext of
        None \<Rightarrow> Inl ''wrong master password or corrupted credential file''
      | Some m \<Rightarrow> Inr m)"

fun show_envelope_error :: "EnvelopeError \<Rightarrow> string" where
  "show_envelope_error (PasswordTooLong n m) =
     ''password too long after normalization: '' @ show_nat n @ '' bytes (max '' @ show_nat m @ '')''"
| "show_envelope_error (TooShort n m) = ''data too short: '' @ show_nat n @ '' bytes (need at least '' @ show_nat m @ '')''"
| "show_envelope_error InvalidMagic = ''invalid magic bytes''"
| "show_envelope_error (UnsupportedVersion v) = ''unsupported format version: '' @ show_nat (unat v)"
| "show_envelope_error DecryptFailed = ''decryption failed: wrong password or corrupted data''"
| "show_envelope_error (Crypto e) = ''crypto error: '' @ e"

abbreviation failing :: "string \<Rightarrow> EnvelopeError + 'a \<Rightarrow> string + 'a" where
  "failing what \<equiv> map_err (\<lambda>e. what @ '': '' @ show_envelope_error e)"

definition open_store :: "EncryptedCredentialStore \<Rightarrow> EncryptedCredentialStore" where
  "open_store st =
     (let sync = (case cred_file st of
                    None \<Rightarrow> 0
                  | Some d \<Rightarrow>
                      if length d < 5 then 0
                      else if d ! 4 = FORMAT_VERSION_V1
                      then (case read_header_v1 d of Inr h \<Rightarrow> v1_sync_version h | Inl _ \<Rightarrow> 0)
                      else 0)
      in st\<lparr>sync_version := sync\<rparr>)"

definition is_initialized :: "EncryptedCredentialStore \<Rightarrow> bool" where
  "is_initialized st \<longleftrightarrow>
     (case cred_file st of
        None \<Rightarrow> False
      | Some d \<Rightarrow>
          if length d < 5 then False
          else if take 4 d \<noteq> TCRE then False
          else if d ! 4 = FORMAT_VERSION_V1 then (case read_header_v1 d of Inr _ \<Rightarrow> True | Inl _ \<Rightarrow> False)
          else if d ! 4 = FORMAT_VERSION then (case parse_blob TCRE d of Inr _ \<Rightarrow> True | Inl _ \<Rightarrow> False)
          else False)"

definition is_legacy_plaintext :: "EncryptedCredentialStore \<Rightarrow> bool" where
  "is_legacy_plaintext st \<longleftrightarrow>
     (case cred_file st of None \<Rightarrow> False | Some d \<Rightarrow> if length d < 4 then d \<noteq> [] else take 4 d \<noteq> TCRE)"

definition is_absent :: "EncryptedCredentialStore \<Rightarrow> bool" where
  "is_absent st \<longleftrightarrow> cred_file st = None"

definition write_store :: "cred_env \<Rightarrow> bytes \<Rightarrow> EncryptedCredentialStore \<Rightarrow> (string + unit) \<times> EncryptedCredentialStore" where
  "write_store env d st =
     (case write_error st of
        Some e \<Rightarrow> (Inl (''write_atomic '' @ path_debug env), st)
      | None \<Rightarrow> (Inr (), st\<lparr>cred_file := Some d\<rparr>))"

definition initialize ::
  "cred_env \<Rightarrow> bytes \<Rightarrow> key_draw \<Rightarrow> string \<Rightarrow> bytes \<Rightarrow> EncryptedCredentialStore \<Rightarrow> (string + unit) \<times> EncryptedCredentialStore" where
  "initialize env salt r password credentials_json st =
     (if cred_file st \<noteq> None \<and> is_initialized st then (Inl ''credential store already initialized'', st)
      else case failing ''envelope encrypt failed''
             (envelope_encrypt (envelope env) r TCRE password salt (bytes_of_str (hw_id env))
                (default_for_platform (envelope env)) (le64 0 @ credentials_json)) of
        Inl e \<Rightarrow> (Inl e, st)
      | Inr blob \<Rightarrow>
          (case write_store env blob st of
             (Inl e, st1) \<Rightarrow> (Inl e, st1)
           | (Inr _, st1) \<Rightarrow> (Inr (), st1\<lparr>sync_version := 0\<rparr>)))"

text \<open>Reading the file, and the version byte that every operation dispatches on.\<close>

definition on_version ::
  "EncryptedCredentialStore \<Rightarrow> (bytes \<Rightarrow> string + 'a) \<Rightarrow> (bytes \<Rightarrow> string + 'a) \<Rightarrow> string + 'a" where
  "on_version st v1 v2 =
     (case cred_file st of
        None \<Rightarrow> Inl ''credential file not found''
      | Some d \<Rightarrow>
          if length d < 5 then Inl ''file too short''
          else if d ! 4 = FORMAT_VERSION_V1 then v1 d
          else if d ! 4 = FORMAT_VERSION then v2 d
          else Inl (''unsupported credential file version: '' @ show_nat (unat (d ! 4))))"

definition unlock_v2 :: "cred_env \<Rightarrow> string \<Rightarrow> bytes \<Rightarrow> string + bytes \<times> bytes" where
  "unlock_v2 env password d =
     try_res (failing ''parse envelope failed'' (parse_blob TCRE d)) (\<lambda>b.
     try_res (failing ''unlock failed'' (unwrap_dek (envelope env) password (bytes_of_str (hw_id env)) b)) (\<lambda>dek.
     try_res (failing ''decrypt failed''
               (decrypt_data_with_dek (envelope env) TCRE dek (pb_nonce_data b) (pb_ciphertext b))) (\<lambda>plaintext.
       Inr (dek, plaintext))))"

text \<open>The key, and the version counter when the payload reveals it.\<close>

definition unlock :: "cred_env \<Rightarrow> string \<Rightarrow> EncryptedCredentialStore \<Rightarrow> (string + bytes) \<times> EncryptedCredentialStore" where
  "unlock env password st =
     (case on_version st
         (\<lambda>d. try_res (read_header_v1 d) (\<lambda>h.
              try_res (derive_key (envelope env) password (v1_salt h)) (\<lambda>key.
              try_res (decrypt_with_key (envelope env) key h (drop HEADER_LEN_V1 d)) (\<lambda>_. Inr (key, None)))))
         (\<lambda>d. try_res (unlock_v2 env password d) (\<lambda>(dek, plaintext).
              Inr (dek, if 8 \<le> length plaintext then Some (of_le64 (take 8 plaintext)) else None))) of
        Inl e \<Rightarrow> (Inl e, st)
      | Inr (key, sync) \<Rightarrow> (Inr key, case sync of None \<Rightarrow> st | Some v \<Rightarrow> st\<lparr>sync_version := v\<rparr>))"

definition decrypt_store :: "cred_env \<Rightarrow> bytes \<Rightarrow> EncryptedCredentialStore \<Rightarrow> string + bytes" where
  "decrypt_store env key st =
     on_version st
       (\<lambda>d. try_res (read_header_v1 d) (\<lambda>h. decrypt_with_key (envelope env) key h (drop HEADER_LEN_V1 d)))
       (\<lambda>d. try_res (failing ''parse envelope failed'' (parse_blob TCRE d)) (\<lambda>b.
            try_res (failing ''decrypt failed''
               (decrypt_data_with_dek (envelope env) TCRE key (pb_nonce_data b) (pb_ciphertext b))) (\<lambda>plaintext.
              if length plaintext < 8 then Inl ''decrypted payload too short for sync_version prefix''
              else Inr (drop 8 plaintext))))"

text \<open>Writing with the key: the first format keeps its counter in the header, the second in the payload.\<close>

definition encrypt_store ::
  "cred_env \<Rightarrow> bytes \<Rightarrow> bytes \<Rightarrow> bytes \<Rightarrow> EncryptedCredentialStore \<Rightarrow> (string + unit) \<times> EncryptedCredentialStore" where
  "encrypt_store env nonce key credentials_json st =
     (case on_version st
         (\<lambda>d. try_res (read_header_v1 d) (\<lambda>h.
              let next_sync = v1_sync_version h + 1
              in try_res (encrypt_with_key (envelope env) nonce key (v1_salt h) next_sync credentials_json) (\<lambda>ct.
                 Inr (TCRE @ [FORMAT_VERSION_V1] @ v1_salt h @ nonce @ le64 next_sync @ ct, next_sync))))
         (\<lambda>d. try_res (failing ''parse envelope failed'' (parse_blob TCRE d)) (\<lambda>b.
              let next_sync = sync_version st + 1
              in try_res (failing ''encrypt data failed''
                   (encrypt_data_with_dek (envelope env) nonce TCRE key (le64 next_sync @ credentials_json))) (\<lambda>(n, ct).
                 Inr (assemble_blob TCRE (pb_params b) (pb_salt b) (pb_nonce_kek b) (pb_wrapped_dek b) n ct, next_sync)))) of
        Inl e \<Rightarrow> (Inl e, st)
      | Inr (blob, next_sync) \<Rightarrow>
          (case write_store env blob st of
             (Inl e, st1) \<Rightarrow> (Inl e, st1)
           | (Inr _, st1) \<Rightarrow> (Inr (), st1\<lparr>sync_version := next_sync\<rparr>)))"

definition migrate_store ::
  "cred_env \<Rightarrow> bytes \<Rightarrow> key_draw \<Rightarrow> string \<Rightarrow> EncryptedCredentialStore \<Rightarrow> (string + unit) \<times> EncryptedCredentialStore" where
  "migrate_store env salt r password st =
     (if \<not> is_legacy_plaintext st then (Inl ''no legacy plaintext file to migrate'', st)
      else case Option.bind (cred_file st) from_utf8 of
        None \<Rightarrow> (Inl ''failed to read legacy plaintext file'', st)
      | Some plaintext \<Rightarrow>
          if \<not> is_json env plaintext then (Inl ''legacy file is not valid JSON'', st)
          else initialize env salt r password (bytes_of_str plaintext) st)"

definition reset_store :: "EncryptedCredentialStore \<Rightarrow> (string + unit) \<times> EncryptedCredentialStore" where
  "reset_store st =
     (case (cred_file st, remove_error st) of
        (Some _, Some e) \<Rightarrow> (Inl ''failed to delete credential file'', st)
      | _ \<Rightarrow> (Inr (), st\<lparr>cred_file := None, sync_version := 0\<rparr>))"

definition store_change_password ::
  "cred_env \<Rightarrow> bytes \<Rightarrow> key_draw \<Rightarrow> string \<Rightarrow> string \<Rightarrow> EncryptedCredentialStore \<Rightarrow> (string + unit) \<times> EncryptedCredentialStore" where
  "store_change_password env new_salt r old new st =
     (case on_version st
         (\<lambda>d. try_res (read_header_v1 d) (\<lambda>h.
              try_res (derive_key (envelope env) old (v1_salt h)) (\<lambda>old_key.
              try_res (decrypt_with_key (envelope env) old_key h (drop HEADER_LEN_V1 d)) (\<lambda>plaintext.
              try_res (failing ''envelope encrypt failed''
                (envelope_encrypt (envelope env) r TCRE new new_salt (bytes_of_str (hw_id env))
                  (default_for_platform (envelope env)) (le64 (v1_sync_version h) @ plaintext))) (\<lambda>blob.
                Inr (blob, v1_sync_version h))))))
         (\<lambda>d. try_res (failing ''change_password failed''
              (envelope_change_password (envelope env) new_salt (drawn_nonce_kek r) TCRE old new
                (bytes_of_str (hw_id env)) d)) (\<lambda>blob. Inr (blob, sync_version st))) of
        Inl e \<Rightarrow> (Inl e, st)
      | Inr (blob, sync) \<Rightarrow>
          (case write_store env blob st of
             (Inl e, st1) \<Rightarrow> (Inl e, st1)
           | (Inr _, st1) \<Rightarrow> (Inr (), st1\<lparr>sync_version := sync\<rparr>)))"

definition export_to :: "EncryptedCredentialStore \<Rightarrow> string + bytes" where
  "export_to st = (case cred_file st of None \<Rightarrow> Inl ''failed to export credential file'' | Some d \<Rightarrow> Inr d)"

definition store_import ::
  "cred_env \<Rightarrow> bytes option \<Rightarrow> EncryptedCredentialStore \<Rightarrow> (string + unit) \<times> EncryptedCredentialStore" where
  "store_import env source st =
     (let checked =
        (case source of
           None \<Rightarrow> Inl ''failed to read import file''
         | Some d \<Rightarrow>
             if length d < 5 then Inl ''import file too short''
             else if take 4 d \<noteq> TCRE then Inl ''import file is not a valid encrypted credential file''
             else if d ! 4 = FORMAT_VERSION_V1
             then try_res (map_err (\<lambda>_. ''import file has invalid v1 header'') (read_header_v1 d))
                    (\<lambda>h. Inr (d, Some (v1_sync_version h)))
             else if d ! 4 = FORMAT_VERSION
             then try_res (failing ''import file has invalid v2 header'' (parse_blob TCRE d)) (\<lambda>_. Inr (d, None))
             else Inl (''unsupported import file version: '' @ show_nat (unat (d ! 4))))
      in case checked of
           Inl e \<Rightarrow> (Inl e, st)
         | Inr (d, sync) \<Rightarrow>
             (case write_store env d st of
                (Inl e, st1) \<Rightarrow> (Inl e, st1)
              | (Inr _, st1) \<Rightarrow> (Inr (), case sync of None \<Rightarrow> st1 | Some v \<Rightarrow> st1\<lparr>sync_version := v\<rparr>)))"

section \<open>The store of credentials\<close>

text \<open>
  \<open>derived_key\<close> and \<open>creds\<close> are empty when the store is locked; while no password has been set the store is
  \<open>pending\<close> and keeps the credentials in memory only.
\<close>

record EncryptedFileCredentialStore =
  vault :: EncryptedCredentialStore
  derived_key :: "bytes option"
  creds :: "(string, string) hm option"
  pending :: bool

definition remove_fallback :: "EncryptedCredentialStore \<Rightarrow> EncryptedCredentialStore" where
  "remove_fallback st = (if plaintext_fallback st \<and> remove_error st = None then st\<lparr>plaintext_fallback := False\<rparr> else st)"

definition open_adapter :: "EncryptedCredentialStore \<Rightarrow> EncryptedFileCredentialStore" where
  "open_adapter disk =
     (let st = open_store disk
      in if is_absent st then \<lparr>vault = st, derived_key = None, creds = Some [], pending = True\<rparr>
         else \<lparr>vault = remove_fallback st, derived_key = None, creds = None, pending = False\<rparr>)"

definition adapter_initialize ::
  "cred_env \<Rightarrow> bytes \<Rightarrow> key_draw \<Rightarrow> string \<Rightarrow> EncryptedFileCredentialStore \<Rightarrow> (string + unit) \<times> EncryptedFileCredentialStore" where
  "adapter_initialize env salt r password a =
     (let (pending_map, a1) = (if pending a then (creds a, a\<lparr>creds := None\<rparr>) else (None, a));
          initial_json = (case pending_map of Some m \<Rightarrow> map_to_json env m | None \<Rightarrow> bytes_of_str ''{}'')
      in case initialize env salt r password initial_json (vault a1) of
           (Inl e, st) \<Rightarrow> (Inl e, a1\<lparr>vault := st\<rparr>)
         | (Inr _, st) \<Rightarrow>
             (case unlock env password st of
                (Inl e, st1) \<Rightarrow> (Inl e, a1\<lparr>vault := st1\<rparr>)
              | (Inr k, st1) \<Rightarrow>
                  (Inr (), \<lparr>vault = remove_fallback st1, derived_key = Some k,
                     creds = Some (case pending_map of Some m \<Rightarrow> m | None \<Rightarrow> []), pending = False\<rparr>)))"

definition parse_creds :: "cred_env \<Rightarrow> bytes \<Rightarrow> string + (string, string) hm" where
  "parse_creds env plaintext =
     (if plaintext = [] then Inr []
      else map_err (\<lambda>e. ''failed to parse decrypted credentials: '' @ e) (map_from_json env plaintext))"

definition unlock_with_key :: "cred_env \<Rightarrow> bytes \<Rightarrow> EncryptedFileCredentialStore \<Rightarrow> (string + unit) \<times> EncryptedFileCredentialStore" where
  "unlock_with_key env k a =
     (case try_res (decrypt_store env k (vault a)) (parse_creds env) of
        Inl e \<Rightarrow> (Inl e, a)
      | Inr m \<Rightarrow> (Inr (), a\<lparr>derived_key := Some k, creds := Some m\<rparr>))"

definition adapter_unlock :: "cred_env \<Rightarrow> string \<Rightarrow> EncryptedFileCredentialStore \<Rightarrow> (string + unit) \<times> EncryptedFileCredentialStore" where
  "adapter_unlock env password a =
     (case unlock env password (vault a) of
        (Inl e, st) \<Rightarrow> (Inl e, a\<lparr>vault := st\<rparr>)
      | (Inr k, st) \<Rightarrow> unlock_with_key env k (a\<lparr>vault := st\<rparr>))"

definition lock :: "EncryptedFileCredentialStore \<Rightarrow> EncryptedFileCredentialStore" where
  "lock a = a\<lparr>derived_key := None, creds := None\<rparr>"

definition is_unlocked :: "EncryptedFileCredentialStore \<Rightarrow> bool" where
  "is_unlocked a \<longleftrightarrow> pending a \<or> derived_key a \<noteq> None"

definition adapter_migrate ::
  "cred_env \<Rightarrow> bytes \<Rightarrow> key_draw \<Rightarrow> string \<Rightarrow> EncryptedFileCredentialStore \<Rightarrow> (string + unit) \<times> EncryptedFileCredentialStore" where
  "adapter_migrate env salt r password a =
     (case migrate_store env salt r password (vault a) of
        (Inl e, st) \<Rightarrow> (Inl e, a\<lparr>vault := st\<rparr>)
      | (Inr _, st) \<Rightarrow> adapter_unlock env password (a\<lparr>vault := st\<rparr>))"

definition adapter_reset :: "EncryptedFileCredentialStore \<Rightarrow> (string + unit) \<times> EncryptedFileCredentialStore" where
  "adapter_reset a =
     (case reset_store (vault a) of
        (Inl e, st) \<Rightarrow> (Inl e, a\<lparr>vault := st\<rparr>)
      | (Inr _, st) \<Rightarrow> (Inr (), \<lparr>vault = remove_fallback st, derived_key = None, creds = Some [], pending = True\<rparr>))"

definition adapter_change_password ::
  "cred_env \<Rightarrow> bytes \<Rightarrow> key_draw \<Rightarrow> string \<Rightarrow> string \<Rightarrow> EncryptedFileCredentialStore \<Rightarrow> (string + bytes) \<times> EncryptedFileCredentialStore" where
  "adapter_change_password env salt r old new a =
     (case store_change_password env salt r old new (vault a) of
        (Inl e, st) \<Rightarrow> (Inl e, a\<lparr>vault := st\<rparr>)
      | (Inr _, st) \<Rightarrow>
          (case unlock env new st of
             (Inl e, st1) \<Rightarrow> (Inl e, a\<lparr>vault := st1\<rparr>)
           | (Inr k, st1) \<Rightarrow> (Inr k, a\<lparr>vault := st1, derived_key := Some k\<rparr>)))"

definition adapter_import ::
  "cred_env \<Rightarrow> bytes option \<Rightarrow> string \<Rightarrow> EncryptedFileCredentialStore \<Rightarrow> (string + unit) \<times> EncryptedFileCredentialStore" where
  "adapter_import env source password a =
     (let checked =
        (case source of
           None \<Rightarrow> Inl ''failed to read import file''
         | Some d \<Rightarrow>
             if length d < 5 \<or> take 4 d \<noteq> TCRE then Inl ''import file is not a valid encrypted credential file''
             else if d ! 4 = 1
             then try_res (map_err (\<lambda>_. ''import file has invalid v1 header'') (read_header_v1 d)) (\<lambda>h.
                  try_res (derive_key (envelope env) password (v1_salt h)) (\<lambda>k.
                  try_res (map_err (\<lambda>_. ''wrong master password or corrupted import file'')
                    (decrypt_with_key (envelope env) k h (drop HEADER_LEN_V1 d))) (\<lambda>_. Inr (d, Some (v1_sync_version h)))))
             else if d ! 4 = 2
             then try_res (map_err (\<lambda>_. ''wrong master password or corrupted import file'')
                    (envelope_decrypt (envelope env) TCRE password (bytes_of_str (hw_id env)) d)) (\<lambda>_. Inr (d, None))
             else Inl (''unsupported import file version: '' @ show_nat (unat (d ! 4))))
      in case checked of
           Inl e \<Rightarrow> (Inl e, a)
         | Inr (d, sync) \<Rightarrow>
             (case write_store env d (vault a) of
                (Inl e, st) \<Rightarrow> (Inl e, a\<lparr>vault := st\<rparr>)
              | (Inr _, st) \<Rightarrow>
                  (case adapter_unlock env password (a\<lparr>vault := (case sync of None \<Rightarrow> st | Some v \<Rightarrow> st\<lparr>sync_version := v\<rparr>)\<rparr>) of
                     (Inl e, a1) \<Rightarrow> (Inl e, a1)
                   | (Inr _, a1) \<Rightarrow> (Inr (), a1\<lparr>pending := False\<rparr>))))"

definition locked_error :: string where "locked_error = ''credential store is locked''"

definition flush :: "cred_env \<Rightarrow> bytes \<Rightarrow> EncryptedFileCredentialStore \<Rightarrow> (string + unit) \<times> EncryptedFileCredentialStore" where
  "flush env nonce a =
     (case creds a of
        None \<Rightarrow> (Inl locked_error, a)
      | Some m \<Rightarrow>
          if pending a then (Inr (), a)
          else (case derived_key a of
                  None \<Rightarrow> (Inl locked_error, a)
                | Some k \<Rightarrow>
                    (let (r, st) = encrypt_store env nonce k (map_to_json env m) (vault a) in (r, a\<lparr>vault := st\<rparr>))))"

definition save :: "cred_env \<Rightarrow> bytes \<Rightarrow> string \<Rightarrow> string \<Rightarrow> EncryptedFileCredentialStore \<Rightarrow> (string + unit) \<times> EncryptedFileCredentialStore" where
  "save env nonce k v a =
     (case creds a of
        None \<Rightarrow> (Inl locked_error, a)
      | Some m \<Rightarrow> flush env nonce (a\<lparr>creds := Some (hm_insert k v m)\<rparr>))"

definition load :: "string \<Rightarrow> EncryptedFileCredentialStore \<Rightarrow> string + string" where
  "load k a =
     (case creds a of
        None \<Rightarrow> Inl locked_error
      | Some m \<Rightarrow> (case hm_get m k of Some v \<Rightarrow> Inr v | None \<Rightarrow> Inl (''credential not found: '' @ k)))"

definition delete :: "cred_env \<Rightarrow> bytes \<Rightarrow> string \<Rightarrow> EncryptedFileCredentialStore \<Rightarrow> (string + unit) \<times> EncryptedFileCredentialStore" where
  "delete env nonce k a =
     (case creds a of
        None \<Rightarrow> (Inl locked_error, a)
      | Some m \<Rightarrow>
          (let a1 = a\<lparr>creds := Some (hm_remove k m)\<rparr>
           in if hm_get m k \<noteq> None then flush env nonce a1 else (Inr (), a1)))"

definition delete_all_for_server ::
  "cred_env \<Rightarrow> bytes \<Rightarrow> string \<Rightarrow> EncryptedFileCredentialStore \<Rightarrow> (string + unit) \<times> EncryptedFileCredentialStore" where
  "delete_all_for_server env nonce server_id a =
     (case creds a of
        None \<Rightarrow> (Inl locked_error, a)
      | Some m \<Rightarrow>
          (let m1 = filter (\<lambda>(k, v). \<not> prefix (server_prefix server_id) k) m; a1 = a\<lparr>creds := Some m1\<rparr>
           in if length m1 \<noteq> length m then flush env nonce a1 else (Inr (), a1)))"

definition has :: "string \<Rightarrow> EncryptedFileCredentialStore \<Rightarrow> bool" where
  "has k a \<longleftrightarrow> (case creds a of None \<Rightarrow> False | Some m \<Rightarrow> hm_get m k \<noteq> None)"

section \<open>The plain stores\<close>

definition mem_load :: "string \<Rightarrow> (string, string) hm \<Rightarrow> string + string" where
  "mem_load k m = (case hm_get m k of Some v \<Rightarrow> Inr v | None \<Rightarrow> Inl (''credential not found: '' @ k))"

definition mem_delete_all_for_server :: "string \<Rightarrow> (string, string) hm \<Rightarrow> (string, string) hm" where
  "mem_delete_all_for_server server_id m =
     fold hm_remove (filter (\<lambda>k. prefix (server_prefix server_id) k) (hm_keys m)) m"

definition InMemoryCredentialStore :: "(string, string) hm CredentialStore" where
  "InMemoryCredentialStore =
     \<lparr>cs_save = (\<lambda>k v m. (Inr (), hm_insert k v m)), cs_load = mem_load, cs_delete = (\<lambda>k m. (Inr (), hm_remove k m)),
      cs_delete_all = (\<lambda>s m. (Inr (), mem_delete_all_for_server s m)), cs_has = (\<lambda>k m. hm_get m k \<noteq> None)\<rparr>"

text \<open>The trait object of the encrypted store; \<open>nonce\<close> is the draw of the operation.\<close>

definition EncryptedCredentials :: "cred_env \<Rightarrow> bytes \<Rightarrow> EncryptedFileCredentialStore CredentialStore" where
  "EncryptedCredentials env nonce =
     \<lparr>cs_save = save env nonce, cs_load = load, cs_delete = delete env nonce,
      cs_delete_all = delete_all_for_server env nonce, cs_has = has\<rparr>"

record FileCredentialStore =
  fc_map :: "(string, string) hm"
  fc_file :: "string option"
  fc_write_error :: "string option"

definition file_store_new :: "(string \<Rightarrow> (string, string) hm option) \<Rightarrow> string option \<Rightarrow> string option \<Rightarrow> FileCredentialStore" where
  "file_store_new parse f err =
     \<lparr>fc_map = (case Option.bind f parse of Some m \<Rightarrow> m | None \<Rightarrow> []), fc_file = f, fc_write_error = err\<rparr>"

definition save_file :: "((string, string) hm \<Rightarrow> string) \<Rightarrow> FileCredentialStore \<Rightarrow> (string + unit) \<times> FileCredentialStore" where
  "save_file pretty s =
     (case fc_write_error s of
        Some e \<Rightarrow> (Inl e, s)
      | None \<Rightarrow> (Inr (), s\<lparr>fc_file := Some (pretty (fc_map s))\<rparr>))"

definition file_save_cred ::
  "((string, string) hm \<Rightarrow> string) \<Rightarrow> string \<Rightarrow> string \<Rightarrow> FileCredentialStore \<Rightarrow> (string + unit) \<times> FileCredentialStore" where
  "file_save_cred pretty k v s = save_file pretty (s\<lparr>fc_map := hm_insert k v (fc_map s)\<rparr>)"

definition file_delete_cred ::
  "((string, string) hm \<Rightarrow> string) \<Rightarrow> string \<Rightarrow> FileCredentialStore \<Rightarrow> (string + unit) \<times> FileCredentialStore" where
  "file_delete_cred pretty k s = save_file pretty (s\<lparr>fc_map := hm_remove k (fc_map s)\<rparr>)"

definition file_delete_all_for_server ::
  "((string, string) hm \<Rightarrow> string) \<Rightarrow> string \<Rightarrow> FileCredentialStore \<Rightarrow> (string + unit) \<times> FileCredentialStore" where
  "file_delete_all_for_server pretty server_id s =
     save_file pretty (s\<lparr>fc_map := mem_delete_all_for_server server_id (fc_map s)\<rparr>)"


section \<open>The credentials on disk\<close>

lemma of_le64_le64 [simp]: "of_le64 (le64 w) = w"
proof -
  have "of_le64 (le64 w) = push_bit 32 (ucast (ucast (drop_bit 32 w) :: u32)) OR ucast (ucast w :: u32)"
    by (simp add: of_le64_def le64_def be64_def be32_def of_be32_be32)
  also have "\<dots> = w"
  proof (rule bit_word_eqI)
    fix n :: nat assume "n < LENGTH(64)"
    then show "bit (push_bit 32 (ucast (ucast (drop_bit 32 w) :: u32)) OR ucast (ucast w :: u32) :: u64) n = bit w n"
      by (cases "n < 32") (auto simp: bit_simps)
  qed
  finally show ?thesis .
qed

lemma parsed_lengths:
  assumes "parse_blob TCRE d = Inr b"
  shows "length (pb_salt b) = SALT_LEN" "length (pb_nonce_kek b) = GCM_NONCE_LEN" "length (pb_wrapped_dek b) = WRAPPED_DEK_LEN"
    "pb_magic b = TCRE" "5 \<le> length d" "d ! 4 = FORMAT_VERSION"
  using assms by (auto simp: parse_blob_def sub_bytes_def envelope_consts split: if_splits)

lemma not_v1 [simp]: "FORMAT_VERSION \<noteq> FORMAT_VERSION_V1"
  by (simp add: FORMAT_VERSION_def FORMAT_VERSION_V1_def)

lemma on_version_v2:
  "cred_file st = Some d \<Longrightarrow> parse_blob TCRE d = Inr b \<Longrightarrow> on_version st v1 v2 = v2 d"
  using parsed_lengths(5,6) [of d b] by (simp add: on_version_def not_v1 [symmetric])

text \<open>What the laws of the parameters are.\<close>

definition cred_ok :: "cred_env \<Rightarrow> bool" where
  "cred_ok env \<longleftrightarrow> gcm_ok (envelope env) \<and>
     (\<forall>m. map_to_json env m \<noteq> [] \<and> (\<exists>m'. map_from_json env (map_to_json env m) = Inr m' \<and> hm_get m' = hm_get m))"

text \<open>The store is unlocked with the key the password unwraps, from a file of the second format.\<close>

definition opened_with :: "cred_env \<Rightarrow> string \<Rightarrow> bytes \<Rightarrow> EncryptedCredentialStore \<Rightarrow> bool" where
  "opened_with env password k st \<longleftrightarrow>
     (\<exists>d b. cred_file st = Some d \<and> parse_blob TCRE d = Inr b
        \<and> unwrap_dek (envelope env) password (bytes_of_str (hw_id env)) b = Inr k)"

lemma encrypt_store_v2:
  assumes "cred_ok env" "opened_with env password k st" "length nonce = GCM_NONCE_LEN"
    "encrypt_store env nonce k json st = (Inr (), st')"
  shows "opened_with env password k st'" "decrypt_store env k st' = Inr json" "sync_version st' = sync_version st + 1"
    "unlock env password (st'\<lparr>sync_version := n\<rparr>) = (Inr k, st'\<lparr>sync_version := sync_version st + 1\<rparr>)"
proof -
  obtain d b where d: "cred_file st = Some d" "parse_blob TCRE d = Inr b"
    and dek: "unwrap_dek (envelope env) password (bytes_of_str (hw_id env)) b = Inr k"
    using assms(2) by (auto simp: opened_with_def)
  let ?p = "le64 (sync_version st + 1) @ json"
  obtain ct where ct: "gcm_seal (envelope env) k nonce (data_aad TCRE FORMAT_VERSION nonce) ?p = Inr ct"
    and st': "st' = st\<lparr>cred_file := Some (assemble_blob TCRE (pb_params b) (pb_salt b) (pb_nonce_kek b) (pb_wrapped_dek b) nonce ct),
      sync_version := sync_version st + 1\<rparr>"
    using assms(4) d
    by (auto simp: encrypt_store_def on_version_v2 Let_def encrypt_data_with_dek_def write_store_def try_res_Inr map_err_Inr
        split: sum.splits prod.splits option.splits)
  define b' where "b' = b\<lparr>pb_nonce_data := nonce, pb_ciphertext := ct\<rparr>"
  have parse: "parse_blob TCRE (assemble_blob TCRE (pb_params b) (pb_salt b) (pb_nonce_kek b) (pb_wrapped_dek b) nonce ct) = Inr b'"
    using parsed_lengths [OF d(2)] assms(3) by (subst parse_assemble) (auto simp: b'_def TCRE_def)
  have opn: "decrypt_data_with_dek (envelope env) TCRE k nonce ct = Inr ?p"
    using ct assms(1) by (simp add: decrypt_data_with_dek_def open_key_def cred_ok_def gcm_ok_def)
  have dek': "unwrap_dek (envelope env) password (bytes_of_str (hw_id env)) b' = Inr k"
    using dek by (simp add: unwrap_dek_def b'_def)
  show "opened_with env password k st'" using parse dek' by (auto simp: opened_with_def st')
  show "decrypt_store env k st' = Inr json"
    using parse opn by (simp add: decrypt_store_def st' on_version_v2 b'_def)
  show "sync_version st' = sync_version st + 1" by (simp add: st')
  show "unlock env password (st'\<lparr>sync_version := n\<rparr>) = (Inr k, st'\<lparr>sync_version := sync_version st + 1\<rparr>)"
    using parse opn dek' by (simp add: unlock_def on_version_v2 st' unlock_v2_def b'_def)
qed

definition contents :: "EncryptedFileCredentialStore \<Rightarrow> string \<Rightarrow> string option" where
  "contents a = (case creds a of None \<Rightarrow> Map.empty | Some m \<Rightarrow> hm_get m)"

text \<open>The store is open and the file holds what is in memory.\<close>

definition synced :: "cred_env \<Rightarrow> string \<Rightarrow> EncryptedFileCredentialStore \<Rightarrow> bool" where
  "synced env password a \<longleftrightarrow> \<not> pending a \<and> (\<exists>k m json m'. derived_key a = Some k \<and> creds a = Some m
     \<and> opened_with env password k (vault a) \<and> decrypt_store env k (vault a) = Inr json
     \<and> parse_creds env json = Inr m' \<and> hm_get m' = hm_get m)"

datatype cred_op = Save string string | Delete string | DeleteServer string

fun cred_step :: "cred_env \<Rightarrow> bytes \<Rightarrow> cred_op \<Rightarrow> EncryptedFileCredentialStore \<Rightarrow> (string + unit) \<times> EncryptedFileCredentialStore" where
  "cred_step env nonce (Save k v) a = save env nonce k v a"
| "cred_step env nonce (Delete k) a = delete env nonce k a"
| "cred_step env nonce (DeleteServer s) a = delete_all_for_server env nonce s a"

text \<open>The abstract store: a map from keys to secrets.\<close>

fun cred_spec :: "cred_op \<Rightarrow> (string \<Rightarrow> string option) \<Rightarrow> string \<Rightarrow> string option" where
  "cred_spec (Save k v) f = f(k \<mapsto> v)"
| "cred_spec (Delete k) f = f(k := None)"
| "cred_spec (DeleteServer s) f = (\<lambda>k. if prefix (server_prefix s) k then None else f k)"

lemma flush_synced:
  assumes "cred_ok env" "synced env password a" "length nonce = GCM_NONCE_LEN"
    "flush env nonce (a\<lparr>creds := Some m\<rparr>) = (Inr (), a')"
  shows "synced env password a' \<and> contents a' = hm_get m"
proof -
  obtain k where k: "derived_key a = Some k" "opened_with env password k (vault a)" "\<not> pending a"
    using assms(2) by (auto simp: synced_def)
  obtain st where e: "encrypt_store env nonce k (map_to_json env m) (vault a) = (Inr (), st)" and a': "a' = a\<lparr>creds := Some m, vault := st\<rparr>"
    using assms(4) k by (auto simp: flush_def split: prod.splits)
  obtain m' where "map_from_json env (map_to_json env m) = Inr m'" "hm_get m' = hm_get m" "map_to_json env m \<noteq> []"
    using assms(1) by (auto simp: cred_ok_def)
  then show ?thesis
    using encrypt_store_v2(1,2) [OF assms(1) k(2) assms(3) e] k
    by (auto simp: synced_def contents_def a' parse_creds_def)
qed

lemma hm_get_filter: "hm_get (filter (\<lambda>(k, v). \<not> P k) m) k = (if P k then None else hm_get m k)"
  by (induction m) (auto simp: hm_get_def)

lemma step_synced:
  assumes "cred_ok env" "synced env password a" "length nonce = GCM_NONCE_LEN" "cred_step env nonce op a = (Inr (), a')"
  shows "synced env password a' \<and> contents a' = cred_spec op (contents a)"
proof -
  obtain m where m: "creds a = Some m" using assms(2) by (auto simp: synced_def)
  note flushed = flush_synced [OF assms(1-3)]
  show ?thesis
  proof (cases op)
    case (Save k v)
    then show ?thesis using assms(4) flushed [of "hm_insert k v m" a'] m
      by (simp add: save_def contents_def hm_simps)
  next
    case (Delete k)
    show ?thesis
    proof (cases "hm_get m k")
      case None
      then have "hm_get (hm_remove k m) = hm_get m" by (simp add: hm_simps fun_upd_idem)
      then show ?thesis using assms(2,4) m Delete None
        by (auto simp: delete_def Let_def synced_def contents_def fun_upd_idem)
    next
      case (Some v)
      then show ?thesis using assms(4) flushed [of "hm_remove k m" a'] m Delete
        by (simp add: delete_def Let_def contents_def hm_simps)
    qed
  next
    case (DeleteServer s)
    let ?m = "filter (\<lambda>(k, v). \<not> prefix (server_prefix s) k) m"
    have g: "hm_get ?m = (\<lambda>k. if prefix (server_prefix s) k then None else hm_get m k)"
      using hm_get_filter [of "prefix (server_prefix s)" m] by (auto simp: fun_eq_iff)
    show ?thesis
    proof (cases "length ?m = length m")
      case True
      then have "?m = m" by (metis filter_id_conv filter_True length_filter_less less_irrefl)
      then show ?thesis using assms(2,4) m DeleteServer g
        by (auto simp: delete_all_for_server_def Let_def synced_def contents_def)
    next
      case False
      then show ?thesis using assms(4) flushed [of ?m a'] m DeleteServer g
        by (simp add: delete_all_for_server_def Let_def contents_def)
    qed
  qed
qed

lemma decrypt_store_cong: "cred_file st = cred_file st' \<Longrightarrow> decrypt_store env k st = decrypt_store env k st'"
  by (simp add: decrypt_store_def on_version_def)

lemma unlock_opened:
  assumes "opened_with env password k st" "decrypt_store env k st = Inr json"
  shows "\<exists>v. unlock env password st = (Inr k, st\<lparr>sync_version := v\<rparr>)"
proof -
  obtain d b where d: "cred_file st = Some d" "parse_blob TCRE d = Inr b"
    and dek: "unwrap_dek (envelope env) password (bytes_of_str (hw_id env)) b = Inr k"
    using assms(1) by (auto simp: opened_with_def)
  from assms(2) d obtain pt where "decrypt_data_with_dek (envelope env) TCRE k (pb_nonce_data b) (pb_ciphertext b) = Inr pt"
    "8 \<le> length pt"
    by (auto simp: decrypt_store_def on_version_v2 try_res_Inr map_err_Inr split: if_splits)
  then show ?thesis using d dek by (auto simp: unlock_def on_version_v2 unlock_v2_def)
qed

lemma reopen_synced:
  assumes "synced env password a"
  shows "\<exists>a'. adapter_unlock env password (open_adapter (vault a)) = (Inr (), a') \<and> contents a' = contents a"
proof -
  obtain k m json m' where s: "creds a = Some m" "opened_with env password k (vault a)" "decrypt_store env k (vault a) = Inr json"
    "parse_creds env json = Inr m'" "hm_get m' = hm_get m"
    using assms by (auto simp: synced_def)
  define st where "st = remove_fallback (open_store (vault a))"
  have f: "cred_file st = cred_file (vault a)"
    by (simp add: st_def remove_fallback_def open_store_def Let_def)
  have o: "open_adapter (vault a) = \<lparr>vault = st, derived_key = None, creds = None, pending = False\<rparr>"
    using s(2) by (auto simp: open_adapter_def st_def is_absent_def opened_with_def open_store_def Let_def)
  have w: "opened_with env password k st" "decrypt_store env k st = Inr json"
    using s(2,3) f decrypt_store_cong [OF f] by (simp_all add: opened_with_def)
  obtain v where u: "unlock env password st = (Inr k, st\<lparr>sync_version := v\<rparr>)"
    using unlock_opened [OF w] by blast
  have "decrypt_store env k (st\<lparr>sync_version := v\<rparr>) = Inr json"
    using w(2) decrypt_store_cong [of "st\<lparr>sync_version := v\<rparr>" st] by simp
  then show ?thesis
    using s by (simp add: o adapter_unlock_def u unlock_with_key_def contents_def)
qed

text \<open>
  C25. The store implements a map.  When the file holds what is in memory, an operation that reports
  success changes the map as the abstract operation does, and leaves the file in step with it: a
  program that starts again and unlocks with the password sees the same map.
\<close>

theorem credentials_refine_map:
  assumes "cred_ok env" "synced env password a" "length nonce = GCM_NONCE_LEN" "cred_step env nonce op a = (Inr (), a')"
  shows "contents a' = cred_spec op (contents a) \<and> synced env password a'
     \<and> (\<exists>a''. adapter_unlock env password (open_adapter (vault a')) = (Inr (), a'') \<and> contents a'' = contents a')"
  using step_synced [OF assms] reopen_synced by blast


text \<open>
  The counter of versions goes back.  The payload holds the counter, but only unlocking with the
  password reads it: after a restart that unlocks with the cached key, the first save writes version
  1 whatever the file held, while after unlocking with the password it writes the next version.
\<close>

theorem sync_version_goes_back:
  assumes "cred_ok env" "opened_with env password k disk" "length nonce = GCM_NONCE_LEN"
    "unlock_with_key env k (open_adapter disk) = (Inr (), a)" "save env nonce x v a = (Inr (), a')"
  shows "sync_version (vault a') = 1
     \<and> (\<forall>b b'. adapter_unlock env password (open_adapter disk) = (Inr (), b) \<longrightarrow> save env nonce x v b = (Inr (), b') \<longrightarrow>
          sync_version (vault b') = sync_version (vault b) + 1)"
proof -
  have bump: "sync_version (vault c') = sync_version (vault c) + 1"
    if "save env nonce x v c = (Inr (), c')" "opened_with env password k (vault c)" "derived_key c = Some k" "\<not> pending c" for c c'
    using that by (auto simp: save_def flush_def split: option.splits prod.splits
        dest!: encrypt_store_v2(3) [OF assms(1) that(2) assms(3)])
  obtain d b where d: "cred_file disk = Some d" "parse_blob TCRE d = Inr b"
    using assms(2) by (auto simp: opened_with_def)
  define st where "st = remove_fallback (open_store disk)"
  have st: "cred_file st = Some d" "sync_version st = 0"
    using d parsed_lengths(5,6) [OF d(2)]
    by (simp_all add: st_def remove_fallback_def open_store_def Let_def not_v1 [symmetric])
  have o: "open_adapter disk = \<lparr>vault = st, derived_key = None, creds = None, pending = False\<rparr>"
    using d by (simp add: open_adapter_def st_def is_absent_def open_store_def Let_def)
  have w: "opened_with env password k st" using assms(2) d st by (simp add: opened_with_def)
  have "vault a = st \<and> derived_key a = Some k \<and> \<not> pending a"
    using assms(4) by (auto simp: o unlock_with_key_def split: sum.splits)
  then have "sync_version (vault a') = 1" using bump [OF assms(5)] w st(2) by simp
  moreover have "sync_version (vault c') = sync_version (vault c) + 1"
    if u: "adapter_unlock env password (open_adapter disk) = (Inr (), c)" and s: "save env nonce x v c = (Inr (), c')" for c c'
  proof -
    obtain k' st' where k': "unlock env password st = (Inr k', st')" "vault c = st'" "derived_key c = Some k'" "\<not> pending c"
      using u by (auto simp: o adapter_unlock_def unlock_with_key_def split: prod.splits sum.splits)
    moreover have "k' = k \<and> cred_file st' = Some d"
      using k'(1) w st(1) d(2)
      by (auto simp: unlock_def on_version_v2 unlock_v2_def opened_with_def try_res_Inr map_err_Inr split: sum.splits option.splits if_splits)
    ultimately show ?thesis using bump [OF s] w d(2) st(1) by (auto simp: opened_with_def)
  qed
  ultimately show ?thesis by blast
qed

text \<open>
  A first set-up that fails loses what was saved before it: the credentials kept in memory are
  taken out and not put back, the store still calls itself unlocked but refuses to load and to save,
  and a later set-up that succeeds starts from an empty map.
\<close>

theorem failed_setup_loses_credentials:
  assumes "pending a" "adapter_initialize env salt r password a = (Inl e, a')"
  shows "is_unlocked a' \<and> load x a' = Inl locked_error \<and> save env nonce x v a' = (Inl locked_error, a')
     \<and> (\<forall>salt' r' password' a''. adapter_initialize env salt' r' password' a' = (Inr (), a'') \<longrightarrow> contents a'' = Map.empty)"
proof -
  have a': "pending a' \<and> creds a' = None"
    using assms by (auto simp: adapter_initialize_def Let_def split: prod.splits sum.splits option.splits)
  then show ?thesis
    by (auto simp: is_unlocked_def load_def save_def adapter_initialize_def Let_def contents_def hm_get_def
        split: prod.splits sum.splits)
qed

text \<open>
  The check of the derivation's parameters, which keeps a crafted file from exhausting the memory,
  is made by \<open>decrypt\<close> and \<open>change_password\<close> only: unlocking derives the key with any parameters.
\<close>

theorem unlock_skips_the_check:
  assumes "parse_blob TCRE d = Inr b" "validate_params (pb_params b) = Inl e" "cred_file st = Some d"
    "unlock_v2 env password d = Inr (k, plaintext)"
  shows "fst (unlock env password st) = Inr k
     \<and> envelope_decrypt (envelope env') TCRE password' salt_extra d = Inl e
     \<and> envelope_change_password (envelope env') new_salt new_nonce TCRE password' new salt_extra d = Inl e"
  using assms by (simp add: unlock_def on_version_v2 decrypt_steps change_password_steps)

section \<open>Examples\<close>

definition toy_cred :: cred_env where
  "toy_cred =
     \<lparr>envelope = toy_envelope, hw_id = [], map_to_json = (\<lambda>m. concat (map (\<lambda>(k, v). bytes_of_str k @ [0] @ bytes_of_str v @ [0]) m) @ [1]),
      map_from_json = (\<lambda>bs. Inr []), is_json = (\<lambda>s. True), path_debug = ''creds''\<rparr>"

lemma failed_setup_loses_credentials_witness:
  "load ''k'' (snd (adapter_initialize toy_cred (replicate 16 9) toy_draw ''pw''
     \<lparr>vault = \<lparr>cred_file = None, plaintext_fallback = False, sync_version = 0, write_error = Some ''disk full'', remove_error = None\<rparr>,
      derived_key = None, creds = Some [(''k'', ''secret'')], pending = True\<rparr>)) = Inl locked_error"
proof -
  let ?a = "\<lparr>vault = \<lparr>cred_file = None, plaintext_fallback = False, sync_version = 0, write_error = Some ''disk full'', remove_error = None\<rparr>,
      derived_key = None, creds = Some [(''k'', ''secret'')], pending = True\<rparr>"
  let ?i = "adapter_initialize toy_cred (replicate 16 9) toy_draw ''pw'' ?a"
  have "\<exists>e. fst ?i = Inl e"
    by (simp add: adapter_initialize_def initialize_def write_store_def Let_def split: sum.split prod.split)
  then obtain e where "?i = (Inl e, snd ?i)" by (metis prod.collapse)
  from failed_setup_loses_credentials [OF _ this] show ?thesis by simp
qed


text \<open>An encoding of maps that can be read back: a marked byte for every character, and one after a pair.\<close>

definition mark :: "u8 \<Rightarrow> string \<Rightarrow> bytes" where
  "mark t s = concat (map (\<lambda>b. [t, b]) (bytes_of_str s))"

definition toy_to_json :: "(string, string) hm \<Rightarrow> bytes" where
  "toy_to_json m = concat (map (\<lambda>(k, v). mark 1 k @ mark 3 v @ [4]) m) @ [5]"

fun toy_parse :: "bytes \<Rightarrow> bytes \<Rightarrow> bytes \<Rightarrow> (string, string) hm" where
  "toy_parse (t # bs) k v =
     (if t = 4 then (str_of_bytes k, str_of_bytes v) # toy_parse bs [] []
      else (case bs of
              [] \<Rightarrow> []
            | b # bs' \<Rightarrow> if t = 1 then toy_parse bs' (k @ [b]) v else toy_parse bs' k (v @ [b])))"
| "toy_parse [] k v = []"

lemma toy_parse_key: "toy_parse (concat (map (\<lambda>b. [1, b]) bs) @ r) k v = toy_parse r (k @ bs) v"
  by (induction bs arbitrary: k) simp_all

lemma toy_parse_value: "toy_parse (concat (map (\<lambda>b. [3, b]) bs) @ r) k v = toy_parse r k (v @ bs)"
  by (induction bs arbitrary: v) simp_all

lemma toy_json_round_trip: "toy_parse (toy_to_json m) [] [] = m"
proof (induction m)
  case (Cons kv m)
  obtain k v where kv: "kv = (k, v)" by force
  have "toy_to_json (kv # m) = mark 1 k @ (mark 3 v @ [4] @ toy_to_json m)"
    by (simp add: toy_to_json_def kv)
  then show ?case
    using Cons by (simp add: mark_def toy_parse_key toy_parse_value kv)
qed (simp add: toy_to_json_def)

definition sample_cred :: cred_env where
  "sample_cred = toy_cred\<lparr>map_to_json := toy_to_json, map_from_json := (\<lambda>bs. Inr (toy_parse bs [] []))\<rparr>"

lemma sample_cred_ok: "cred_ok sample_cred"
  using toy_json_round_trip toy_gcm_ok
  by (simp add: cred_ok_def sample_cred_def toy_cred_def) (simp add: toy_to_json_def)

text \<open>A file with an empty map in version 7, for the password \<open>pw\<close>.\<close>

definition sample_params :: "Argon2Params \<Rightarrow> bytes" where
  "sample_params p = assemble_blob TCRE p (replicate 16 9) (replicate 12 1)
     (replicate 32 7 @ take 16 (bytes_of_str ''pw'' @ replicate 16 9)) (replicate 12 2) (le64 7 @ [5] @ replicate 16 7)"

definition sample_vault :: EncryptedCredentialStore where
  "sample_vault = \<lparr>cred_file = Some (sample_params desktop), plaintext_fallback = False, sync_version = 0, write_error = None,
     remove_error = None\<rparr>"

lemma sample_parse:
  "\<exists>b. parse_blob TCRE (sample_params p) = Inr b \<and> pb_params b = p
     \<and> unwrap_dek (envelope sample_cred) ''pw'' (bytes_of_str (hw_id sample_cred)) b = Inr (replicate 32 7)
     \<and> decrypt_data_with_dek (envelope sample_cred) TCRE (replicate 32 7) (pb_nonce_data b) (pb_ciphertext b) = Inr (le64 7 @ [5])"
proof -
  have "length (bytes_of_str ''pw'') = 2" by (simp add: bytes_of_str_def)
  then have "parse_blob TCRE (sample_params p) = Inr \<lparr>pb_magic = TCRE, pb_params = p, pb_salt = replicate 16 9,
      pb_nonce_kek = replicate 12 1, pb_wrapped_dek = replicate 32 7 @ take 16 (bytes_of_str ''pw'' @ replicate 16 9),
      pb_nonce_data = replicate 12 2, pb_ciphertext = le64 7 @ [5] @ replicate 16 7\<rparr>"
    unfolding sample_params_def by (intro parse_assemble) (simp_all add: envelope_consts TCRE_def)
  moreover have "bytes_of_str [] = []" by (simp add: bytes_of_str_def)
  ultimately show ?thesis
    by (simp add: unwrap_dek_def derive_kek_def normalize_password_def MAX_PASSWORD_LEN_def kek_salt_def open_key_def
        decrypt_data_with_dek_def DEK_LEN_def sample_cred_def toy_cred_def toy_envelope_def suffix_def bytes_of_str_def)
qed

lemma sample_opened: "opened_with sample_cred ''pw'' (replicate 32 7) sample_vault"
  using sample_parse [of desktop] by (auto simp: opened_with_def sample_vault_def)

lemma sample_unlocks:
  "unlock_with_key sample_cred (replicate 32 7) (open_adapter sample_vault)
     = (Inr (), \<lparr>vault = sample_vault, derived_key = Some (replicate 32 7), creds = Some [], pending = False\<rparr>)"
proof -
  obtain b where b: "parse_blob TCRE (sample_params desktop) = Inr b"
    "decrypt_data_with_dek (envelope sample_cred) TCRE (replicate 32 7) (pb_nonce_data b) (pb_ciphertext b) = Inr (le64 7 @ [5])"
    using sample_parse by blast
  have "open_store sample_vault = sample_vault"
    using parsed_lengths(5,6) [OF b(1)] by (simp add: open_store_def sample_vault_def Let_def not_v1 [symmetric])
  moreover have "decrypt_store sample_cred (replicate 32 7) sample_vault = Inr [5]"
    using b by (simp add: decrypt_store_def sample_vault_def on_version_v2)
  ultimately show ?thesis
    by (simp add: open_adapter_def is_absent_def remove_fallback_def unlock_with_key_def parse_creds_def sample_vault_def)
       (simp add: sample_cred_def)
qed

lemma sample_saves:
  assumes "derived_key a = Some (replicate 32 7)" "creds a = Some m" "\<not> pending a" "vault a = sample_vault"
  shows "fst (save sample_cred (replicate 12 4) ''k'' ''v'' a) = Inr ()"
proof -
  obtain b where b: "parse_blob TCRE (sample_params desktop) = Inr b" using sample_parse by blast
  have "gcm_seal (envelope sample_cred) x n aad p = Inr (p @ take 16 (x @ replicate 16 0))" for x n aad p
    by (simp add: sample_cred_def toy_cred_def toy_envelope_def)
  then show ?thesis
    using assms b by (simp add: save_def flush_def encrypt_store_def sample_vault_def on_version_v2 Let_def
        encrypt_data_with_dek_def write_store_def split_def)
qed

lemma sync_version_goes_back_witness:
  "\<exists>a a'. unlock_with_key sample_cred (replicate 32 7) (open_adapter sample_vault) = (Inr (), a)
     \<and> save sample_cred (replicate 12 4) ''k'' ''v'' a = (Inr (), a') \<and> sync_version (vault a') = 1"
proof -
  let ?a = "\<lparr>vault = sample_vault, derived_key = Some (replicate 32 7), creds = Some [], pending = False\<rparr>"
  obtain a' where s: "save sample_cred (replicate 12 4) ''k'' ''v'' ?a = (Inr (), a')"
    using sample_saves [of ?a "[]"] by (metis EncryptedFileCredentialStore.select_convs prod.collapse)
  have "length (replicate 12 (4 :: u8)) = GCM_NONCE_LEN" by (simp add: GCM_NONCE_LEN_def)
  from sync_version_goes_back [OF sample_cred_ok sample_opened this sample_unlocks s] s show ?thesis
    using sample_unlocks by blast
qed

lemma credentials_refine_map_witness:
  "\<exists>a'. cred_step sample_cred (replicate 12 4) (Save ''k'' ''v'') (snd (unlock_with_key sample_cred (replicate 32 7) (open_adapter sample_vault)))
       = (Inr (), a') \<and> contents a' ''k'' = Some ''v''"
proof -
  let ?a = "\<lparr>vault = sample_vault, derived_key = Some (replicate 32 7), creds = Some [], pending = False\<rparr>"
  obtain b where b: "parse_blob TCRE (sample_params desktop) = Inr b"
    "decrypt_data_with_dek (envelope sample_cred) TCRE (replicate 32 7) (pb_nonce_data b) (pb_ciphertext b) = Inr (le64 7 @ [5])"
    using sample_parse by blast
  have "decrypt_store sample_cred (replicate 32 7) sample_vault = Inr [5]"
    using b by (simp add: decrypt_store_def sample_vault_def on_version_v2)
  moreover have "parse_creds sample_cred [5] = Inr []"
    by (simp add: parse_creds_def sample_cred_def)
  ultimately have y: "synced sample_cred ''pw'' ?a"
    using sample_opened by (simp add: synced_def)
  obtain a' where s: "cred_step sample_cred (replicate 12 4) (Save ''k'' ''v'') ?a = (Inr (), a')"
    using sample_saves [of ?a "[]"] by (metis EncryptedFileCredentialStore.select_convs cred_step.simps(1) prod.collapse)
  have "length (replicate 12 (4 :: u8)) = GCM_NONCE_LEN" by (simp add: GCM_NONCE_LEN_def)
  from credentials_refine_map [OF sample_cred_ok y this s] show ?thesis
    unfolding sample_unlocks snd_conv using s by (simp add: fun_eq_iff)
qed

lemma unlock_skips_the_check_witness:
  "fst (unlock sample_cred ''pw'' (sample_vault\<lparr>cred_file := Some (sample_params (desktop\<lparr>m_cost := 0xFFFFFFFF\<rparr>))\<rparr>))
     = Inr (replicate 32 7)"
proof -
  let ?p = "desktop\<lparr>m_cost := 0xFFFFFFFF\<rparr>"
  obtain b where b: "parse_blob TCRE (sample_params ?p) = Inr b" "pb_params b = ?p"
    "unwrap_dek (envelope sample_cred) ''pw'' (bytes_of_str (hw_id sample_cred)) b = Inr (replicate 32 7)"
    "decrypt_data_with_dek (envelope sample_cred) TCRE (replicate 32 7) (pb_nonce_data b) (pb_ciphertext b) = Inr (le64 7 @ [5])"
    using sample_parse by blast
  have u: "unlock_v2 sample_cred ''pw'' (sample_params ?p) = Inr (replicate 32 7, le64 7 @ [5])"
    using b by (simp add: unlock_v2_def)
  have "\<exists>e. validate_params (pb_params b) = Inl e" by (simp add: b(2) validate_params_def desktop_def)
  then obtain e where v: "validate_params (pb_params b) = Inl e" ..
  let ?st = "sample_vault\<lparr>cred_file := Some (sample_params ?p)\<rparr>"
  have "cred_file ?st = Some (sample_params ?p)" by simp
  from unlock_skips_the_check [OF b(1) v this u] show ?thesis by blast
qed


section \<open>The stores meet the contract\<close>

lemma mem_delete_all_get:
  "hm_get (mem_delete_all_for_server s m) k = (if prefix (server_prefix s) k then None else hm_get m k)"
proof (cases "k \<in> set (hm_keys m)")
  case True
  then show ?thesis by (simp add: mem_delete_all_for_server_def hm.get_del_all)
next
  case False
  then have "hm_get m k = None" by (simp add: hm_get_None_iff)
  then show ?thesis by (simp add: mem_delete_all_for_server_def hm.get_del_all)
qed

interpretation memory_credentials: credential_store InMemoryCredentialStore hm_get
  by unfold_locales
    (auto simp: InMemoryCredentialStore_def mem_load_def mem_delete_all_get hm_simps split: option.splits)

lemma flush_creds: "creds (snd (flush env nonce a)) = creds a"
  by (simp add: flush_def Let_def split: option.split prod.split)

lemma flush_fst: "flush env nonce a = (r, a') \<Longrightarrow> creds a' = creds a"
  using flush_creds [of env nonce a] by simp



lemma hm_get_filter_key: "hm_get (filter (\<lambda>(k, v). P k) m) k = (if P k then hm_get m k else None)"
  by (induction m) (auto simp: hm_get_def)

interpretation encrypted_credentials: credential_store "EncryptedCredentials env nonce" contents for env nonce
proof (unfold_locales, goal_cases)
  case (5 s c c' k)
  then show ?case
    by (auto simp: EncryptedCredentials_def contents_def delete_all_for_server_def hm_get_filter_key Let_def
        dest!: flush_fst split: option.splits if_splits)
next
  case (8 s k c)
  then show ?case
    by (auto simp: EncryptedCredentials_def contents_def delete_all_for_server_def hm_get_filter_key Let_def flush_creds
        split: option.splits)
qed (auto simp: EncryptedCredentials_def contents_def load_def has_def save_def delete_def Let_def flush_creds hm_simps
      fun_eq_iff dest!: flush_fst split: option.splits if_splits)

end
