(* ===== verification/Proto.thy ===== *)
theory Proto
  imports Json IpcFrames
begin

text \<open>
  \<open>crates/daemon/src/proto.rs\<close>: the requests, responses and events between the daemon and its
  clients.  The names that serde gives to the commands on the wire are computed by its rule
  \<open>snake_case\<close> from the names of the variants.
\<close>

section \<open>Commands\<close>

datatype (plugins only:) Action =
    AddServer | RemoveServer | UpdateServer | ConnectServer | DisconnectServer | GetServerStatus
    | ListServers | ExportServers | ImportServers | ExportFull | ImportFull | CleanupAuthorizedKeys
    | ReorderServers | ToggleProxy | ToggleProxyAdvanced | GetProxyStatus | TestProxy | SetProxyAuth
    | ClearProxyAuth | SetSystemProxy | ClearSystemProxy | GetSystemProxy | AddTrigger | RemoveTrigger
    | UpdateTrigger | SyncTriggerFromTemplate | ManualFireTrigger | PauseAllTriggers | ResumeAllTriggers
    | PauseServerTriggers | ResumeServerTriggers | ListTemplates | CreateTemplate | UpdateTemplate
    | DeleteTemplate | SaveTriggerAsTemplate | ImportTemplates | ExportTemplates | SaveCredential
    | HasCredential | DeleteCredential | ConfigureKeyAuth | SwitchAuthMethod | GetConfig
    | UpdateGeneralConfig | GetLogs | ClearLogs | ExportLogs | Shutdown | GetDaemonStatus
    | DetectFirewall | AcceptHostKey | TerminalOpen | TerminalInput | TerminalClose | TerminalResize
    | TmuxListSessions | TmuxNewSession | TmuxAttachSession | TmuxKillSession | CloudSyncGetAuthUrl
    | CloudSyncExchangeCode | CloudSyncSaveToken | CloudSyncLoadToken | CloudSyncUpload
    | CloudSyncDownload | CloudSyncGetFileInfo | CloudSyncStatus | CloudSyncDeleteRemote
    | CloudSyncDisconnect | CloudSyncRefreshToken | CloudSyncAuthWithCallback | CloudSyncWaitCallback
    | ListPortForwards | AddPortForward | UpdatePortForward | DeletePortForward | StartPortForward
    | StopPortForward | GetPortForwardStatus | SaveLocalTrigger | RemoveLocalTrigger
    | ManualFireLocalTrigger | SetTriggerOverrides | GetTriggerOverrides

primrec variant_name :: "Action \<Rightarrow> string" where
  "variant_name AddServer = ''AddServer''"
| "variant_name RemoveServer = ''RemoveServer''"
| "variant_name UpdateServer = ''UpdateServer''"
| "variant_name ConnectServer = ''ConnectServer''"
| "variant_name DisconnectServer = ''DisconnectServer''"
| "variant_name GetServerStatus = ''GetServerStatus''"
| "variant_name ListServers = ''ListServers''"
| "variant_name ExportServers = ''ExportServers''"
| "variant_name ImportServers = ''ImportServers''"
| "variant_name ExportFull = ''ExportFull''"
| "variant_name ImportFull = ''ImportFull''"
| "variant_name CleanupAuthorizedKeys = ''CleanupAuthorizedKeys''"
| "variant_name ReorderServers = ''ReorderServers''"
| "variant_name ToggleProxy = ''ToggleProxy''"
| "variant_name ToggleProxyAdvanced = ''ToggleProxyAdvanced''"
| "variant_name GetProxyStatus = ''GetProxyStatus''"
| "variant_name TestProxy = ''TestProxy''"
| "variant_name SetProxyAuth = ''SetProxyAuth''"
| "variant_name ClearProxyAuth = ''ClearProxyAuth''"
| "variant_name SetSystemProxy = ''SetSystemProxy''"
| "variant_name ClearSystemProxy = ''ClearSystemProxy''"
| "variant_name GetSystemProxy = ''GetSystemProxy''"
| "variant_name AddTrigger = ''AddTrigger''"
| "variant_name RemoveTrigger = ''RemoveTrigger''"
| "variant_name UpdateTrigger = ''UpdateTrigger''"
| "variant_name SyncTriggerFromTemplate = ''SyncTriggerFromTemplate''"
| "variant_name ManualFireTrigger = ''ManualFireTrigger''"
| "variant_name PauseAllTriggers = ''PauseAllTriggers''"
| "variant_name ResumeAllTriggers = ''ResumeAllTriggers''"
| "variant_name PauseServerTriggers = ''PauseServerTriggers''"
| "variant_name ResumeServerTriggers = ''ResumeServerTriggers''"
| "variant_name ListTemplates = ''ListTemplates''"
| "variant_name CreateTemplate = ''CreateTemplate''"
| "variant_name UpdateTemplate = ''UpdateTemplate''"
| "variant_name DeleteTemplate = ''DeleteTemplate''"
| "variant_name SaveTriggerAsTemplate = ''SaveTriggerAsTemplate''"
| "variant_name ImportTemplates = ''ImportTemplates''"
| "variant_name ExportTemplates = ''ExportTemplates''"
| "variant_name SaveCredential = ''SaveCredential''"
| "variant_name HasCredential = ''HasCredential''"
| "variant_name DeleteCredential = ''DeleteCredential''"
| "variant_name ConfigureKeyAuth = ''ConfigureKeyAuth''"
| "variant_name SwitchAuthMethod = ''SwitchAuthMethod''"
| "variant_name GetConfig = ''GetConfig''"
| "variant_name UpdateGeneralConfig = ''UpdateGeneralConfig''"
| "variant_name GetLogs = ''GetLogs''"
| "variant_name ClearLogs = ''ClearLogs''"
| "variant_name ExportLogs = ''ExportLogs''"
| "variant_name Shutdown = ''Shutdown''"
| "variant_name GetDaemonStatus = ''GetDaemonStatus''"
| "variant_name DetectFirewall = ''DetectFirewall''"
| "variant_name AcceptHostKey = ''AcceptHostKey''"
| "variant_name TerminalOpen = ''TerminalOpen''"
| "variant_name TerminalInput = ''TerminalInput''"
| "variant_name TerminalClose = ''TerminalClose''"
| "variant_name TerminalResize = ''TerminalResize''"
| "variant_name TmuxListSessions = ''TmuxListSessions''"
| "variant_name TmuxNewSession = ''TmuxNewSession''"
| "variant_name TmuxAttachSession = ''TmuxAttachSession''"
| "variant_name TmuxKillSession = ''TmuxKillSession''"
| "variant_name CloudSyncGetAuthUrl = ''CloudSyncGetAuthUrl''"
| "variant_name CloudSyncExchangeCode = ''CloudSyncExchangeCode''"
| "variant_name CloudSyncSaveToken = ''CloudSyncSaveToken''"
| "variant_name CloudSyncLoadToken = ''CloudSyncLoadToken''"
| "variant_name CloudSyncUpload = ''CloudSyncUpload''"
| "variant_name CloudSyncDownload = ''CloudSyncDownload''"
| "variant_name CloudSyncGetFileInfo = ''CloudSyncGetFileInfo''"
| "variant_name CloudSyncStatus = ''CloudSyncStatus''"
| "variant_name CloudSyncDeleteRemote = ''CloudSyncDeleteRemote''"
| "variant_name CloudSyncDisconnect = ''CloudSyncDisconnect''"
| "variant_name CloudSyncRefreshToken = ''CloudSyncRefreshToken''"
| "variant_name CloudSyncAuthWithCallback = ''CloudSyncAuthWithCallback''"
| "variant_name CloudSyncWaitCallback = ''CloudSyncWaitCallback''"
| "variant_name ListPortForwards = ''ListPortForwards''"
| "variant_name AddPortForward = ''AddPortForward''"
| "variant_name UpdatePortForward = ''UpdatePortForward''"
| "variant_name DeletePortForward = ''DeletePortForward''"
| "variant_name StartPortForward = ''StartPortForward''"
| "variant_name StopPortForward = ''StopPortForward''"
| "variant_name GetPortForwardStatus = ''GetPortForwardStatus''"
| "variant_name SaveLocalTrigger = ''SaveLocalTrigger''"
| "variant_name RemoveLocalTrigger = ''RemoveLocalTrigger''"
| "variant_name ManualFireLocalTrigger = ''ManualFireLocalTrigger''"
| "variant_name SetTriggerOverrides = ''SetTriggerOverrides''"
| "variant_name GetTriggerOverrides = ''GetTriggerOverrides''"

definition all_actions :: "Action list" where
  "all_actions = [AddServer, RemoveServer, UpdateServer, ConnectServer, DisconnectServer, GetServerStatus,
     ListServers, ExportServers, ImportServers, ExportFull, ImportFull, CleanupAuthorizedKeys,
     ReorderServers, ToggleProxy, ToggleProxyAdvanced, GetProxyStatus, TestProxy,
     SetProxyAuth, ClearProxyAuth, SetSystemProxy, ClearSystemProxy, GetSystemProxy,
     AddTrigger, RemoveTrigger, UpdateTrigger, SyncTriggerFromTemplate, ManualFireTrigger,
     PauseAllTriggers, ResumeAllTriggers, PauseServerTriggers, ResumeServerTriggers,
     ListTemplates, CreateTemplate, UpdateTemplate, DeleteTemplate, SaveTriggerAsTemplate,
     ImportTemplates, ExportTemplates, SaveCredential, HasCredential, DeleteCredential,
     ConfigureKeyAuth, SwitchAuthMethod, GetConfig, UpdateGeneralConfig, GetLogs, ClearLogs,
     ExportLogs, Shutdown, GetDaemonStatus, DetectFirewall, AcceptHostKey, TerminalOpen,
     TerminalInput, TerminalClose, TerminalResize, TmuxListSessions, TmuxNewSession,
     TmuxAttachSession, TmuxKillSession, CloudSyncGetAuthUrl, CloudSyncExchangeCode,
     CloudSyncSaveToken, CloudSyncLoadToken, CloudSyncUpload, CloudSyncDownload,
     CloudSyncGetFileInfo, CloudSyncStatus, CloudSyncDeleteRemote, CloudSyncDisconnect,
     CloudSyncRefreshToken, CloudSyncAuthWithCallback, CloudSyncWaitCallback,
     ListPortForwards, AddPortForward, UpdatePortForward, DeletePortForward, StartPortForward,
     StopPortForward, GetPortForwardStatus, SaveLocalTrigger, RemoveLocalTrigger,
     ManualFireLocalTrigger, SetTriggerOverrides, GetTriggerOverrides]"

text \<open>serde's \<open>RenameRule::SnakeCase\<close>.\<close>

definition is_upper :: "char \<Rightarrow> bool" where
  "is_upper c \<longleftrightarrow> (let n = of_char c :: nat in 65 \<le> n \<and> n \<le> 90)"

definition to_lower :: "char \<Rightarrow> char" where
  "to_lower c = (if is_upper c then char_of (of_char c + 32 :: nat) else c)"

fun snake_rest :: "string \<Rightarrow> string" where
  "snake_rest [] = []"
| "snake_rest (c # cs) = (if is_upper c then CHR ''_'' # to_lower c # snake_rest cs else to_lower c # snake_rest cs)"

fun snake_case :: "string \<Rightarrow> string" where
  "snake_case [] = []"
| "snake_case (c # cs) = to_lower c # snake_rest cs"

definition action_name :: "Action \<Rightarrow> string" where
  "action_name a = snake_case (variant_name a)"

text \<open>The deserialiser finds the variant with the name.\<close>

definition parse_action :: "string \<Rightarrow> Action option" where
  "parse_action s = find (\<lambda>a. action_name a = s) all_actions"

section \<open>Messages\<close>

record Request =
  rq_id :: string
  rq_action :: Action
  rq_params :: json

datatype Response = Ok string json | Err string IpcError | Event string json

definition request_new :: "string \<Rightarrow> Action \<Rightarrow> json \<Rightarrow> Request" where
  "request_new uuid action params = \<lparr>rq_id = uuid, rq_action = action, rq_params = params\<rparr>"

definition request_new_simple :: "string \<Rightarrow> Action \<Rightarrow> Request" where
  "request_new_simple uuid action = request_new uuid action JNull"

datatype EventType =
    ServerStatusChanged | ProxyStatusChanged | TriggerFired | TriggerCommandExecuted
  | TriggerCompleted | LogEntryEvent | PortForwardStatusChanged

fun event_name :: "EventType \<Rightarrow> string" where
  "event_name ServerStatusChanged = ''server:status_changed''"
| "event_name ProxyStatusChanged = ''proxy:status_changed''"
| "event_name TriggerFired = ''trigger:fired''"
| "event_name TriggerCommandExecuted = ''trigger:command_executed''"
| "event_name TriggerCompleted = ''trigger:completed''"
| "event_name LogEntryEvent = ''log:entry''"
| "event_name PortForwardStatusChanged = ''port_forward:status_changed''"


section \<open>The names on the wire\<close>

lemma action_name_simps [simp]:
  "action_name AddServer = ''add_server''" "action_name RemoveServer = ''remove_server''"
  "action_name UpdateServer = ''update_server''" "action_name ConnectServer = ''connect_server''"
  "action_name DisconnectServer = ''disconnect_server''"
  "action_name GetServerStatus = ''get_server_status''" "action_name ListServers = ''list_servers''"
  "action_name ExportServers = ''export_servers''" "action_name ImportServers = ''import_servers''"
  "action_name ExportFull = ''export_full''" "action_name ImportFull = ''import_full''"
  "action_name CleanupAuthorizedKeys = ''cleanup_authorized_keys''"
  "action_name ReorderServers = ''reorder_servers''" "action_name ToggleProxy = ''toggle_proxy''"
  "action_name ToggleProxyAdvanced = ''toggle_proxy_advanced''"
  "action_name GetProxyStatus = ''get_proxy_status''" "action_name TestProxy = ''test_proxy''"
  "action_name SetProxyAuth = ''set_proxy_auth''" "action_name ClearProxyAuth = ''clear_proxy_auth''"
  "action_name SetSystemProxy = ''set_system_proxy''"
  "action_name ClearSystemProxy = ''clear_system_proxy''"
  "action_name GetSystemProxy = ''get_system_proxy''" "action_name AddTrigger = ''add_trigger''"
  "action_name RemoveTrigger = ''remove_trigger''" "action_name UpdateTrigger = ''update_trigger''"
  "action_name SyncTriggerFromTemplate = ''sync_trigger_from_template''"
  "action_name ManualFireTrigger = ''manual_fire_trigger''"
  "action_name PauseAllTriggers = ''pause_all_triggers''"
  "action_name ResumeAllTriggers = ''resume_all_triggers''"
  "action_name PauseServerTriggers = ''pause_server_triggers''"
  "action_name ResumeServerTriggers = ''resume_server_triggers''"
  "action_name ListTemplates = ''list_templates''" "action_name CreateTemplate = ''create_template''"
  "action_name UpdateTemplate = ''update_template''" "action_name DeleteTemplate = ''delete_template''"
  "action_name SaveTriggerAsTemplate = ''save_trigger_as_template''"
  "action_name ImportTemplates = ''import_templates''"
  "action_name ExportTemplates = ''export_templates''"
  "action_name SaveCredential = ''save_credential''" "action_name HasCredential = ''has_credential''"
  "action_name DeleteCredential = ''delete_credential''"
  "action_name ConfigureKeyAuth = ''configure_key_auth''"
  "action_name SwitchAuthMethod = ''switch_auth_method''" "action_name GetConfig = ''get_config''"
  "action_name UpdateGeneralConfig = ''update_general_config''" "action_name GetLogs = ''get_logs''"
  "action_name ClearLogs = ''clear_logs''" "action_name ExportLogs = ''export_logs''"
  "action_name Shutdown = ''shutdown''" "action_name GetDaemonStatus = ''get_daemon_status''"
  "action_name DetectFirewall = ''detect_firewall''" "action_name AcceptHostKey = ''accept_host_key''"
  "action_name TerminalOpen = ''terminal_open''" "action_name TerminalInput = ''terminal_input''"
  "action_name TerminalClose = ''terminal_close''" "action_name TerminalResize = ''terminal_resize''"
  "action_name TmuxListSessions = ''tmux_list_sessions''"
  "action_name TmuxNewSession = ''tmux_new_session''"
  "action_name TmuxAttachSession = ''tmux_attach_session''"
  "action_name TmuxKillSession = ''tmux_kill_session''"
  "action_name CloudSyncGetAuthUrl = ''cloud_sync_get_auth_url''"
  "action_name CloudSyncExchangeCode = ''cloud_sync_exchange_code''"
  "action_name CloudSyncSaveToken = ''cloud_sync_save_token''"
  "action_name CloudSyncLoadToken = ''cloud_sync_load_token''"
  "action_name CloudSyncUpload = ''cloud_sync_upload''"
  "action_name CloudSyncDownload = ''cloud_sync_download''"
  "action_name CloudSyncGetFileInfo = ''cloud_sync_get_file_info''"
  "action_name CloudSyncStatus = ''cloud_sync_status''"
  "action_name CloudSyncDeleteRemote = ''cloud_sync_delete_remote''"
  "action_name CloudSyncDisconnect = ''cloud_sync_disconnect''"
  "action_name CloudSyncRefreshToken = ''cloud_sync_refresh_token''"
  "action_name CloudSyncAuthWithCallback = ''cloud_sync_auth_with_callback''"
  "action_name CloudSyncWaitCallback = ''cloud_sync_wait_callback''"
  "action_name ListPortForwards = ''list_port_forwards''"
  "action_name AddPortForward = ''add_port_forward''"
  "action_name UpdatePortForward = ''update_port_forward''"
  "action_name DeletePortForward = ''delete_port_forward''"
  "action_name StartPortForward = ''start_port_forward''"
  "action_name StopPortForward = ''stop_port_forward''"
  "action_name GetPortForwardStatus = ''get_port_forward_status''"
  "action_name SaveLocalTrigger = ''save_local_trigger''"
  "action_name RemoveLocalTrigger = ''remove_local_trigger''"
  "action_name ManualFireLocalTrigger = ''manual_fire_local_trigger''"
  "action_name SetTriggerOverrides = ''set_trigger_overrides''"
  "action_name GetTriggerOverrides = ''get_trigger_overrides''"
  by (simp_all add: action_name_def to_lower_def is_upper_def char_of_def bit_Suc_0_iff)

text \<open>
  An action survives the wire: the name that serde gives it, its variant name in snake case, is read back
  as that action, so no two actions share a name.
\<close>

theorem parse_of_name: "parse_action (action_name a) = Some a"
  by (cases a) (simp_all add: parse_action_def all_actions_def)

end
