(* ===== verification/CloudSync.thy ===== *)
theory CloudSync
  imports Envelope Json
begin

text \<open>
  The crate \<open>cloud-sync\<close>: providers and their tokens (\<open>lib.rs\<close>, \<open>token_store.rs\<close>), the state of the last
  synchronisation (\<open>sync_state.rs\<close>), the encryption of what is uploaded (\<open>sync_crypto.rs\<close>), the mode of the
  HTTP proxy (\<open>proxy.rs\<close>), the answer of the browser (\<open>callback.rs\<close>) and the paths and answers of Baidu
  Netdisk (\<open>baidu.rs\<close>).  The HTTP traffic itself, the ciphers, SHA-256 and serde are parameters.
\<close>

section \<open>Providers and tokens\<close>

datatype CloudProvider = Dropbox | Baidu

fun provider_str :: "CloudProvider \<Rightarrow> string" where
  "provider_str Dropbox = ''dropbox''"
| "provider_str Baidu = ''baidu''"

definition parse_provider :: "string \<Rightarrow> string + CloudProvider" where
  "parse_provider s =
     (if s = ''dropbox'' then Inr Dropbox else if s = ''baidu'' then Inr Baidu
      else Inl (''unknown cloud provider: '' @ s))"

record OAuthToken =
  access_token :: string
  refresh_token :: "string option"
  expires_at :: "int option"
  token_type :: string

record RemoteFileInfo =
  rf_exists :: bool
  rf_size :: "u64 option"
  rf_hash :: "string option"
  rf_modified :: "string option"

definition no_file :: RemoteFileInfo where
  "no_file = \<lparr>rf_exists = False, rf_size = None, rf_hash = None, rf_modified = None\<rparr>"

record StoredToken =
  sto_provider :: CloudProvider
  sto_token :: OAuthToken
  sto_stored_at :: int

type_synonym TokenStoreData = "(string, StoredToken) hm"

definition SYNC_FILE_PATH :: string where
  "SYNC_FILE_PATH = ''/TermFast/config.enc''"

definition CLOUD_SYNC_SERVER :: string where
  "CLOUD_SYNC_SERVER = ''https://termfast.xisj.com/tools/cloud-sync.php''"

text \<open>The verifier of PKCE: 64 draws from an alphabet of 66 characters.\<close>

definition CHARSET :: string where
  "CHARSET = ''ABCDEFGHIJKLMNOPQRSTUVWXYZabcdefghijklmnopqrstuvwxyz0123456789-._~''"

definition generate_code_verifier :: "nat list \<Rightarrow> string" where
  "generate_code_verifier draws = map (\<lambda>i. CHARSET ! (i mod length CHARSET)) (take 64 draws)"

definition compute_code_challenge :: "(bytes \<Rightarrow> bytes) \<Rightarrow> (bytes \<Rightarrow> string) \<Rightarrow> string \<Rightarrow> string" where
  "compute_code_challenge sha256 base64url verifier = base64url (sha256 (bytes_of_str verifier))"

text \<open>The URL from which a provider's real authorisation URL is fetched.\<close>

definition auth_url ::
  "(string \<Rightarrow> string) \<Rightarrow> (string \<Rightarrow> string) \<Rightarrow> string \<Rightarrow> CloudProvider \<Rightarrow> string \<Rightarrow> string \<times> string option" where
  "auth_url url_encode challenge verifier p redirect_uri =
     (case p of
        Baidu \<Rightarrow> (CLOUD_SYNC_SERVER @ ''?action=auth_url&provider=baidu&redirect_uri='' @ url_encode redirect_uri, None)
      | Dropbox \<Rightarrow> (CLOUD_SYNC_SERVER @ ''?action=auth_url&provider=dropbox&redirect_uri='' @ url_encode redirect_uri
          @ ''&code_challenge='' @ challenge verifier, Some verifier))"

section \<open>The state of the last synchronisation\<close>

record ProviderState =
  last_hash :: "string option"
  last_device_name :: "string option"
  last_updated_at :: "string option"
  last_local_mtime :: "string option"

record SyncState =
  baidu_state :: ProviderState
  dropbox_state :: ProviderState

definition provider_new :: ProviderState where
  "provider_new = \<lparr>last_hash = None, last_device_name = None, last_updated_at = None, last_local_mtime = None\<rparr>"

definition sync_new :: SyncState where
  "sync_new = \<lparr>baidu_state = provider_new, dropbox_state = provider_new\<rparr>"

text \<open>Whatever is not Baidu counts as Dropbox.\<close>

definition sync_get :: "string \<Rightarrow> SyncState \<Rightarrow> ProviderState" where
  "sync_get provider st = (if provider = ''baidu'' then baidu_state st else dropbox_state st)"

definition sync_update :: "string \<Rightarrow> (ProviderState \<Rightarrow> ProviderState) \<Rightarrow> SyncState \<Rightarrow> SyncState" where
  "sync_update provider f st =
     (if provider = ''baidu'' then st\<lparr>baidu_state := f (baidu_state st)\<rparr> else st\<lparr>dropbox_state := f (dropbox_state st)\<rparr>)"

definition set_sync_info :: "string \<Rightarrow> string \<Rightarrow> string \<Rightarrow> string \<Rightarrow> string option \<Rightarrow> SyncState \<Rightarrow> SyncState" where
  "set_sync_info provider hash device_name updated_at local_mtime =
     sync_update provider (\<lambda>_. \<lparr>last_hash = Some hash, last_device_name = Some device_name,
       last_updated_at = Some updated_at, last_local_mtime = local_mtime\<rparr>)"

section \<open>Encryption\<close>

definition MAGIC_CONFIG :: bytes where "MAGIC_CONFIG = [84, 70, 83, 67]"
definition MAGIC_STATE :: bytes where "MAGIC_STATE = [84, 70, 83, 83]"
definition V1_HEADER_LEN :: nat where "V1_HEADER_LEN = 4 + 1 + SALT_LEN + GCM_NONCE_LEN"

record SyncPayload =
  sp_config :: json
  sp_device_name :: string
  sp_updated_at :: string

text \<open>The errors have the names of those of the envelope.\<close>

datatype SyncCryptoError =
  SyncPasswordTooLong nat nat | SyncTooShort nat nat | SyncInvalidMagic | SyncUnsupportedVersion u8
| SyncDecryptFailed | SyncCrypto string | SyncJson string

record sync_env =
  se_crypto :: envelope_env
  se_sha256 :: "bytes \<Rightarrow> bytes"
  se_to_json :: "SyncPayload \<Rightarrow> string + bytes"
  se_from_json :: "bytes \<Rightarrow> string + SyncPayload"
  se_show :: "EnvelopeError \<Rightarrow> string"

text \<open>HMAC with a fixed key, written out.\<close>

definition HASH_KEY :: bytes where
  "HASH_KEY = bytes_of_str ''TermFast::password_hash::v1''"

definition pad_with :: "u8 \<Rightarrow> bytes \<Rightarrow> bytes" where
  "pad_with b k = map (\<lambda>i. if i < min (length k) 64 then b XOR k ! i else b) [0..<64]"

definition password_hash :: "sync_env \<Rightarrow> string \<Rightarrow> bytes" where
  "password_hash env password =
     se_sha256 env (pad_with 0x5C HASH_KEY
       @ se_sha256 env (pad_with 0x36 HASH_KEY @ bytes_of_str (nfkc (se_crypto env) password)))"

definition sync_normalize :: "sync_env \<Rightarrow> string \<Rightarrow> SyncCryptoError + string" where
  "sync_normalize env password =
     (let n = nfkc (se_crypto env) password
      in if MAX_PASSWORD_LEN < length n then Inl (SyncPasswordTooLong (length n) MAX_PASSWORD_LEN) else Inr n)"

definition sync_key :: "sync_env \<Rightarrow> string \<Rightarrow> bytes \<Rightarrow> SyncCryptoError + bytes" where
  "sync_key env password salt =
     (case argon2_new (se_crypto env) 32768 3 1 of
        Some e \<Rightarrow> Inl (SyncCrypto (''invalid argon2 params: '' @ e))
      | None \<Rightarrow> map_err (\<lambda>e. SyncCrypto (''argon2 key derivation failed: '' @ e))
          (argon2_hash (se_crypto env) 32768 3 1 (bytes_of_str password) salt))"

definition encrypt_blob :: "sync_env \<Rightarrow> key_draw \<Rightarrow> bytes \<Rightarrow> bytes \<Rightarrow> string \<Rightarrow> bytes \<Rightarrow> SyncCryptoError + bytes" where
  "encrypt_blob env r salt magic password plaintext =
     map_err (\<lambda>e. case e of
         PasswordTooLong n mx \<Rightarrow> SyncPasswordTooLong n mx
       | EnvelopeError.Crypto msg \<Rightarrow> SyncCrypto msg
       | _ \<Rightarrow> SyncCrypto (''envelope encrypt failed: '' @ se_show env e))
     (envelope_encrypt (se_crypto env) r magic password salt [] (default_for_platform (se_crypto env)) plaintext)"

definition decrypt_blob_v1 :: "sync_env \<Rightarrow> bytes \<Rightarrow> string \<Rightarrow> bytes \<Rightarrow> SyncCryptoError + bytes" where
  "decrypt_blob_v1 env magic password blob =
     try_res (sync_normalize env password) (\<lambda>normalized.
     if length blob < V1_HEADER_LEN then Inl (SyncTooShort (length blob) V1_HEADER_LEN)
     else
       (let salt = sub_bytes 5 (5 + SALT_LEN) blob; nonce = sub_bytes (5 + SALT_LEN) V1_HEADER_LEN blob
        in try_res (sync_key env normalized salt) (\<lambda>key.
           case gcm_open (se_crypto env) key nonce (magic @ [1] @ salt @ nonce) (drop V1_HEADER_LEN blob) of
             None \<Rightarrow> Inl SyncDecryptFailed | Some m \<Rightarrow> Inr m)))"

definition decrypt_blob :: "sync_env \<Rightarrow> bytes \<Rightarrow> string \<Rightarrow> bytes \<Rightarrow> SyncCryptoError + bytes" where
  "decrypt_blob env magic password blob =
     (if length blob < 5 then Inl (SyncTooShort (length blob) 5)
      else if take 4 blob \<noteq> magic then Inl SyncInvalidMagic
      else if blob ! 4 = 1 then decrypt_blob_v1 env magic password blob
      else if blob ! 4 = 2 then
        map_err (\<lambda>e. case e of
            DecryptFailed \<Rightarrow> SyncDecryptFailed
          | TooShort n m \<Rightarrow> SyncTooShort n m
          | _ \<Rightarrow> SyncCrypto (''envelope decrypt failed: '' @ se_show env e))
        (envelope_decrypt (se_crypto env) magic password [] blob)
      else Inl (SyncUnsupportedVersion (blob ! 4)))"

definition encrypt_config :: "sync_env \<Rightarrow> key_draw \<Rightarrow> bytes \<Rightarrow> string \<Rightarrow> SyncPayload \<Rightarrow> SyncCryptoError + bytes" where
  "encrypt_config env r salt password p =
     try_res (map_err SyncJson (se_to_json env p)) (encrypt_blob env r salt MAGIC_CONFIG password)"

definition decrypt_config :: "sync_env \<Rightarrow> string \<Rightarrow> bytes \<Rightarrow> SyncCryptoError + SyncPayload" where
  "decrypt_config env password blob =
     try_res (decrypt_blob env MAGIC_CONFIG password blob) (\<lambda>pt. map_err SyncJson (se_from_json env pt))"

text \<open>The first \<open>n\<close> characters of a text.\<close>

fun take_chars :: "nat \<Rightarrow> string \<Rightarrow> string" where
  "take_chars n [] = []"
| "take_chars n (c # cs) =
     (if cont (word_of_nat (of_char c)) then c # take_chars n cs
      else (case n of 0 \<Rightarrow> [] | Suc m \<Rightarrow> c # take_chars m cs))"

definition device_name :: "string \<Rightarrow> string" where
  "device_name hostname = take_chars 16 hostname"

section \<open>The mode of the proxy\<close>

datatype ProxyMode = AutoProxy | NoProxy | CustomProxy string

definition from_config :: "string \<Rightarrow> string \<Rightarrow> ProxyMode" where
  "from_config mode url =
     (if mode = ''disabled'' then NoProxy else if mode = ''custom'' \<and> url \<noteq> [] then CustomProxy url else AutoProxy)"

text \<open>\<open>env\<close> gives the environment variables, \<open>system\<close> what the platform has configured.\<close>

definition detect_env_proxy :: "(string \<Rightarrow> string option) \<Rightarrow> string option" where
  "detect_env_proxy env =
     (case filter (\<lambda>v. v \<noteq> []) (List.map_filter env
        [''HTTPS_PROXY'', ''https_proxy'', ''ALL_PROXY'', ''all_proxy'', ''HTTP_PROXY'', ''http_proxy'']) of
        [] \<Rightarrow> None | v # _ \<Rightarrow> Some v)"

definition detect_system_proxy :: "(string \<Rightarrow> string option) \<Rightarrow> string option \<Rightarrow> string option" where
  "detect_system_proxy env system = (case detect_env_proxy env of Some u \<Rightarrow> Some u | None \<Rightarrow> system)"

text \<open>The proxy a client gets; \<open>usable\<close> says whether reqwest takes the URL.\<close>

definition client_proxy ::
  "(string \<Rightarrow> bool) \<Rightarrow> (string \<Rightarrow> string option) \<Rightarrow> string option \<Rightarrow> ProxyMode \<Rightarrow> string option" where
  "client_proxy usable env system mode =
     (let url = (case mode of NoProxy \<Rightarrow> None | CustomProxy u \<Rightarrow> Some u | AutoProxy \<Rightarrow> detect_system_proxy env system)
      in case url of Some u \<Rightarrow> if usable u then Some u else None | None \<Rightarrow> None)"

section \<open>The answer of the browser\<close>

record CallbackResult =
  cb_code :: string
  cb_state :: string
  cb_query :: string

text \<open>\<open>decode\<close> is percent decoding where it gives valid UTF-8; otherwise the text stays as it is.\<close>

definition callback_field :: "(string \<Rightarrow> string option) \<Rightarrow> string \<Rightarrow> string \<times> string" where
  "callback_field decode pair =
     (case splitn 2 CHR ''='' pair of
        [k, v] \<Rightarrow> (k, case decode v of Some d \<Rightarrow> d | None \<Rightarrow> v)
      | k # _ \<Rightarrow> (k, case decode [] of Some d \<Rightarrow> d | None \<Rightarrow> [])
      | [] \<Rightarrow> ([], []))"

definition parse_query :: "(string \<Rightarrow> string option) \<Rightarrow> string \<Rightarrow> string \<times> string" where
  "parse_query decode query =
     foldl (\<lambda>(code, st) pair.
         (let (k, v) = callback_field decode pair
          in if k = ''code'' then (v, st) else if k = ''state'' then (code, v) else (code, st)))
       ([], []) (split_on CHR ''&'' query)"

definition nth_or :: "string \<Rightarrow> nat \<Rightarrow> string list \<Rightarrow> string" where
  "nth_or d n xs = (if n < length xs then xs ! n else d)"

definition parse_callback :: "(string \<Rightarrow> string option) \<Rightarrow> bytes \<Rightarrow> CallbackResult" where
  "parse_callback decode bs =
     (let first_line = nth_or [] 0 (lines (from_utf8_lossy bs));
          path = nth_or [] 1 (split_whitespace first_line);
          query = nth_or [] 1 (split_on CHR ''?'' path);
          (code, st) = parse_query decode query
      in \<lparr>cb_code = code, cb_state = st, cb_query = query\<rparr>)"

definition redirect_uri :: "u16 \<Rightarrow> string" where
  "redirect_uri port = ''http://localhost:'' @ show_nat (unat port) @ ''/callback''"

section \<open>Baidu Netdisk\<close>

text \<open>The name of the sandbox, four Chinese characters in UTF-8.\<close>

definition BAIDU_APP_NAME :: string where
  "BAIDU_APP_NAME = str_of_bytes [0xE4, 0xBA, 0x91, 0xE7, 0x9B, 0x98, 0xE5, 0xA4, 0x87, 0xE4, 0xBB, 0xBD]"

definition APPS :: string where "APPS = ''/apps/''"

definition in_sandbox :: "string \<Rightarrow> string" where
  "in_sandbox path =
     (if prefix APPS path then path
      else APPS @ BAIDU_APP_NAME @ (if prefix ''/'' path then path else ''/'' @ path))"

definition baidu_path :: "string \<Rightarrow> string" where
  "baidu_path path =
     in_sandbox (if find_sub ''..'' path \<noteq> None
       then join ''/'' (filter (\<lambda>c. c \<noteq> ''..'') (split_on CHR ''/'' path)) else path)"

text \<open>The entries of a directory and the interpretation of the answer for one file.\<close>

record baidu_file =
  bf_size :: u64
  bf_md5 :: "string option"
  bf_server_mtime :: "int option"
  bf_local_mtime :: "int option"
  bf_server_filename :: "string option"
  bf_filename :: "string option"
  bf_path :: "string option"

definition first_some :: "'a option \<Rightarrow> 'a option \<Rightarrow> 'a option" where
  "first_some a b = (case a of Some x \<Rightarrow> Some x | None \<Rightarrow> b)"

definition bf_name :: "baidu_file \<Rightarrow> string option" where
  "bf_name f =
     first_some (bf_server_filename f) (first_some (bf_filename f)
       (map_option (\<lambda>p. List.last (split_on CHR ''/'' p)) (bf_path f)))"

definition show_signed :: "int \<Rightarrow> string" where
  "show_signed i = (if i < 0 then ''-'' @ show_nat (nat (- i)) else show_nat (nat i))"

datatype http_answer = Answer u16 string

definition http_error :: "string \<Rightarrow> u16 \<Rightarrow> string \<Rightarrow> string option" where
  "http_error what status body =
     (let http = ''HTTP '' @ show_nat (unat status); colon = str_of_bytes [0xEF, 0xBC, 0x9A]
      in if prefix ''<'' (trim_start body) \<or> body = [] then Some (what @ colon @ http)
         else if 200 < length body then
           (if cont (word_of_nat (of_char (body ! 200))) then None
            else Some (what @ colon @ http @ colon @ take 200 body @ ''...''))
         else Some (what @ colon @ http @ colon @ body))"

definition baidu_entry :: "baidu_file list \<Rightarrow> string \<Rightarrow> RemoteFileInfo" where
  "baidu_entry fs name =
     (case find (\<lambda>f. bf_name f = Some name) fs of
        None \<Rightarrow> no_file
      | Some f \<Rightarrow> \<lparr>rf_exists = True, rf_size = Some (bf_size f), rf_hash = bf_md5 f,
          rf_modified = map_option show_signed (first_some (bf_server_mtime f) (bf_local_mtime f))\<rparr>)"

text \<open>
  \<open>list_dir\<close> answers the request for a directory; \<open>parse\<close> reads the body into an error number and
  entries.  The outer option is a panic, when a long error text is cut inside a character.
\<close>

definition QUERY_FAILED :: string where
  "QUERY_FAILED = str_of_bytes [0xE6, 0x9F, 0xA5, 0xE8, 0xAF, 0xA2, 0xE6, 0x96, 0x87, 0xE4, 0xBB, 0xB6, 0xE4, 0xBF, 0xA1, 0xE6, 0x81, 0xAF, 0xE5, 0xA4, 0xB1, 0xE8, 0xB4, 0xA5]"

definition baidu_file_info ::
  "(string \<Rightarrow> string + http_answer) \<Rightarrow> (string \<Rightarrow> string + int \<times> baidu_file list) \<Rightarrow> string \<Rightarrow> (string + RemoteFileInfo) option" where
  "baidu_file_info list_dir parse path =
     (let full = baidu_path path
      in case rfind_char CHR ''/'' full of
           None \<Rightarrow> Some (Inr no_file)
         | Some i \<Rightarrow>
             (let dir = take i full; name = drop (Suc i) full
              in if dir = [] \<or> name = [] then Some (Inr no_file)
                 else case list_dir dir of
                        Inl e \<Rightarrow> Some (Inl e)
                      | Inr (Answer status body) \<Rightarrow>
                          if status = 404 then Some (Inr no_file)
                          else if status < 200 \<or> 300 \<le> status
                          then map_option Inl (http_error QUERY_FAILED status body)
                          else (case parse body of
                                  Inl e \<Rightarrow> Some (Inl (''file_info JSON parse: '' @ e))
                                | Inr (errno, fs) \<Rightarrow> Some (Inr (if errno \<noteq> 0 then no_file else baidu_entry fs name)))))"

section \<open>Correctness\<close>

lemma sync_get_set [simp]:
  "sync_get p (set_sync_info p h d u m st) =
     \<lparr>last_hash = Some h, last_device_name = Some d, last_updated_at = Some u, last_local_mtime = m\<rparr>"
  by (simp add: sync_get_def set_sync_info_def sync_update_def)

lemma sync_get_other: "(p = ''baidu'') \<noteq> (q = ''baidu'') \<Longrightarrow> sync_get q (set_sync_info p h d u m st) = sync_get q st"
  by (auto simp: sync_get_def set_sync_info_def sync_update_def)

text \<open>
  What is uploaded under a password is read back under it, on any device: the key depends on the
  password and the bytes of the file alone, not on the machine.
\<close>

theorem sync_round_trip:
  assumes "gcm_ok (se_crypto env)" "encrypt_config env r salt password p = Inr blob"
    "length salt = SALT_LEN" "length (drawn_dek r) = DEK_LEN" "length (drawn_nonce_kek r) = GCM_NONCE_LEN"
    "length (drawn_nonce_data r) = GCM_NONCE_LEN"
    "\<And>bs. se_to_json env p = Inr bs \<Longrightarrow> se_from_json env bs = Inr p"
  shows "decrypt_config env password blob = Inr p"
proof -
  obtain pt where pt: "se_to_json env p = Inr pt" and e: "encrypt_blob env r salt MAGIC_CONFIG password pt = Inr blob"
    using assms(2) by (auto simp: encrypt_config_def try_res_Inr map_err_Inr)
  have e': "envelope_encrypt (se_crypto env) r MAGIC_CONFIG password salt [] (default_for_platform (se_crypto env)) pt = Inr blob"
    using e by (simp add: encrypt_blob_def map_err_Inr)
  have v: "validate_params (default_for_platform (se_crypto env)) = Inr ()"
    by (simp add: default_for_platform_def desktop_def mobile_def validate_params_def)
  have d: "envelope_decrypt (se_crypto env) MAGIC_CONFIG password [] blob = Inr pt"
    using envelope_round_trip [OF assms(1) e' v _ assms(3-6)] by (simp add: MAGIC_CONFIG_def)
  have h: "length blob \<ge> 5" "take 4 blob = MAGIC_CONFIG" "blob ! 4 = 2"
    using d by (auto simp: envelope_decrypt_def envelope_consts split: if_splits)
  show ?thesis
    using h d assms(7) [OF pt] by (simp add: decrypt_config_def decrypt_blob_def)
qed

lemma split_on_infix: "w \<in> set (split_on c s) \<Longrightarrow> \<exists>a b. s = a @ w @ b"
proof (induction s arbitrary: w)
  case (Cons x xs)
  obtain v vs where v: "split_on c xs = v # vs" by (cases "split_on c xs") auto
  have "\<exists>a b. xs = a @ u @ b" if "u \<in> set (v # vs)" for u using Cons.IH [of u] that v by simp
  moreover have "\<exists>b. xs = v @ b"
  proof -
    have "prefix (hd (split_on c ys)) ys" for ys by (induction ys) (auto split: list.splits)
    from this [of xs] show ?thesis by (auto simp: v prefix_def)
  qed
  ultimately show ?case using Cons.prems v
    by (auto split: if_splits) (metis append_Cons append_Nil)+
qed simp

lemma find_sub_complete: "find_sub p (a @ p @ b) \<noteq> None"
proof (induction a)
  case Nil
  show ?case
  proof (cases "p @ b")
    case (Cons c cs)
    then have "prefix p (c # cs)" by (metis prefixI)
    then show ?thesis by (simp add: Cons)
  qed simp
qed simp

lemma component_found: "''..'' \<in> set (split_on CHR ''/'' s) \<Longrightarrow> find_sub ''..'' s \<noteq> None"
  by (metis find_sub_complete split_on_infix)

lemma sandbox_components:
  assumes "''..'' \<notin> set (split_on CHR ''/'' s)"
  shows "''..'' \<notin> set (split_on CHR ''/'' (in_sandbox s))"
proof -
  have n: "CHR ''/'' \<notin> set BAIDU_APP_NAME" "BAIDU_APP_NAME \<noteq> ''..''" by code_simp+
  have "split_on CHR ''/'' (APPS @ BAIDU_APP_NAME @ ''/'' @ t) = [[], ''apps'', BAIDU_APP_NAME] @ split_on CHR ''/'' t" for t
    using split_on_append [of "CHR ''/''" BAIDU_APP_NAME t] n(1) by (simp add: APPS_def)
  then show ?thesis using assms n(2)
    by (cases s) (auto simp: in_sandbox_def split: if_splits)
qed

text \<open>
  No path that reaches Baidu leaves the application folder: it starts with \<open>/apps/\<close> and has no
  component \<open>..\<close>, whatever the user's path is.
\<close>

theorem baidu_path_confined:
  "prefix ''/apps/'' (baidu_path path) \<and> ''..'' \<notin> set (split_on CHR ''/'' (baidu_path path))"
proof -
  have "''..'' \<notin> set (split_on CHR ''/'' (if find_sub ''..'' path \<noteq> None
      then join ''/'' (filter (\<lambda>c. c \<noteq> ''..'') (split_on CHR ''/'' path)) else path))" (is "_ \<notin> set (split_on _ ?p)")
  proof (cases "find_sub ''..'' path = None")
    case True
    then show ?thesis using component_found [of path] by auto
  next
    case False
    let ?ws = "filter (\<lambda>c. c \<noteq> ''..'') (split_on CHR ''/'' path)"
    have "?ws \<noteq> [] \<Longrightarrow> split_on CHR ''/'' (join ''/'' ?ws) = ?ws"
      by (rule split_on_join) (auto dest: set_split_on)
    then show ?thesis using False by (cases "?ws = []") auto
  qed
  then have "''..'' \<notin> set (split_on CHR ''/'' (in_sandbox ?p))" by (rule sandbox_components)
  moreover have "prefix APPS (in_sandbox s)" for s by (simp add: in_sandbox_def)
  ultimately show ?thesis by (simp add: baidu_path_def APPS_def)
qed

definition toy_sync :: sync_env where
  "toy_sync =
     \<lparr>se_crypto = toy_envelope, se_sha256 = (\<lambda>bs. replicate 32 0), se_to_json = (\<lambda>p. Inr [1]),
      se_from_json = (\<lambda>bs. Inr \<lparr>sp_config = JObj [], sp_device_name = ''mac'', sp_updated_at = ''2026-01-01T00:00:00Z''\<rparr>),
      se_show = (\<lambda>e. [])\<rparr>"

definition toy_payload :: SyncPayload where
  "toy_payload = \<lparr>sp_config = JObj [], sp_device_name = ''mac'', sp_updated_at = ''2026-01-01T00:00:00Z''\<rparr>"

lemma toy_uploads: "\<exists>blob. encrypt_config toy_sync toy_draw (replicate 16 9) ''pw'' toy_payload = Inr blob"
  by (simp add: encrypt_config_def encrypt_blob_def toy_sync_def envelope_encrypt_def derive_kek_def normalize_password_def
      MAX_PASSWORD_LEN_def toy_envelope_def Let_def)

lemma sync_round_trip_witness:
  "\<exists>blob. encrypt_config toy_sync toy_draw (replicate 16 9) ''pw'' toy_payload = Inr blob
     \<and> decrypt_config toy_sync ''pw'' blob = Inr toy_payload"
proof -
  obtain blob where b: "encrypt_config toy_sync toy_draw (replicate 16 9) ''pw'' toy_payload = Inr blob"
    using toy_uploads ..
  have "decrypt_config toy_sync ''pw'' blob = Inr toy_payload"
    by (rule sync_round_trip [OF _ b]) (simp_all add: toy_gcm_ok toy_sync_def toy_payload_def toy_draw_def envelope_consts)
  with b show ?thesis by blast
qed

text \<open>
  Any error number of Baidu, that of an expired token too, is taken for a missing file: an upload then
  sees no conflict, and a download finds nothing.
\<close>

lemma baidu_error_means_absent:
  assumes "rfind_char CHR ''/'' (baidu_path path) = Some i" "take i (baidu_path path) \<noteq> []" "drop (Suc i) (baidu_path path) \<noteq> []"
    and "list_dir (take i (baidu_path path)) = Inr (Answer 200 body)" "parse body = Inr (errno, fs)" "errno \<noteq> 0"
  shows "baidu_file_info list_dir parse path = Some (Inr no_file)"
  using assms by (simp add: baidu_file_info_def Let_def)

text \<open>A long error text whose byte 200 is inside a character makes the client panic.\<close>

lemma long_error_panics:
  "http_error what 500 (replicate 199 CHR ''x'' @ map char_of [0xE4 :: nat, 0xBA, 0x91]) = None"
proof -
  let ?s = "replicate 199 CHR ''x'' @ map char_of [0xE4 :: nat, 0xBA, 0x91]"
  have "hd ?s = CHR ''x''" by (subst hd_append2) simp_all
  then have "trim_start ?s = ?s" by (intro trim_start_graphic) (simp add: graphic_def)
  moreover have "\<not> prefix ''<'' ?s" by (simp add: eval_nat_numeral)
  ultimately show ?thesis by (simp add: http_error_def Let_def nth_append cont_def)
qed

end
