(* ===== verification/FullExport.thy ===== *)
theory FullExport
  imports Envelope ConfigModel
begin

text \<open>
  \<open>crates/core/src/migration.rs\<close>: the encrypted export of everything (configuration, secrets, key
  files) under a master password, its import, and the lock-out after wrong passwords.  The counter and
  the end of the lock-out are global in the program and an explicit state here; instants are
  nanoseconds.  Argon2, AES-GCM and serde are parameters.
\<close>

section \<open>The format\<close>

definition BLOB_MAGIC :: bytes where "BLOB_MAGIC = [86, 80, 71, 49]"
definition MAX_ATTEMPTS :: u32 where "MAX_ATTEMPTS = 3"
definition LOCKOUT_DURATION :: nat where "LOCKOUT_DURATION = 300 * 10 ^ 9"
definition MIN_PASSWORD_LEN :: nat where "MIN_PASSWORD_LEN = 12"

record FullExportData =
  ex_config :: Config
  ex_passwords :: "(string, string) hm"
  ex_key_passphrases :: "(string, string) hm"
  ex_key_files :: "(string, string) hm"

text \<open>\<open>has_alphabetic\<close>: whether some character of a text is a letter, by the tables of Unicode.\<close>

record export_env =
  ee_crypto :: envelope_env
  ee_to_json :: "FullExportData \<Rightarrow> string + bytes"
  ee_from_json :: "bytes \<Rightarrow> string + FullExportData"
  has_alphabetic :: "string \<Rightarrow> bool"

definition char_count :: "string \<Rightarrow> nat" where
  "char_count s = length (filter (\<lambda>b. \<not> cont b) (bytes_of_str s))"

definition validate_master_password :: "export_env \<Rightarrow> string \<Rightarrow> Error + unit" where
  "validate_master_password env password =
     (if char_count password < MIN_PASSWORD_LEN then
        Inl (ipc_err InvalidParams (''password must be at least '' @ show_nat MIN_PASSWORD_LEN @ '' characters''))
      else if \<not> has_alphabetic env password \<or> \<not> list_ex is_digit password then
        Inl (ipc_err InvalidParams ''password must contain both letters and numbers'')
      else Inr ())"

definition export_key :: "export_env \<Rightarrow> string \<Rightarrow> bytes \<Rightarrow> Error + bytes" where
  "export_key env password salt =
     (case argon2_new (ee_crypto env) (32 * 1024) 3 1 of
        Some e \<Rightarrow> Inl (Error.Crypto (''argon2 params error: '' @ e))
      | None \<Rightarrow> map_err (\<lambda>e. Error.Crypto (''argon2 derive error: '' @ e))
          (argon2_hash (ee_crypto env) (32 * 1024) 3 1 (bytes_of_str password) salt))"

text \<open>\<open>salt\<close> and \<open>nonce\<close> are drawn at random.\<close>

definition export_full :: "export_env \<Rightarrow> bytes \<Rightarrow> bytes \<Rightarrow> string \<Rightarrow> FullExportData \<Rightarrow> Error + bytes" where
  "export_full env salt nonce password d =
     try_res (validate_master_password env password) (\<lambda>_.
     try_res (export_key env password salt) (\<lambda>k.
     try_res (map_err Serde (ee_to_json env d)) (\<lambda>plaintext.
     try_res (map_err (\<lambda>e. Error.Crypto (''aes encrypt error: '' @ e))
       (gcm_seal (ee_crypto env) k nonce BLOB_MAGIC plaintext)) (\<lambda>c.
     Inr (BLOB_MAGIC @ salt @ nonce @ c)))))"

section \<open>Import and the lock-out\<close>

record lockout =
  import_attempts :: u32
  lockout_until :: "nat option"

definition lockout_new :: lockout where
  "lockout_new = \<lparr>import_attempts = 0, lockout_until = None\<rparr>"

definition is_locked_out :: "nat \<Rightarrow> lockout \<Rightarrow> bool" where
  "is_locked_out t l = (case lockout_until l of Some until \<Rightarrow> t < until | None \<Rightarrow> False)"

definition reset_attempts :: "lockout \<Rightarrow> lockout" where
  "reset_attempts l = l\<lparr>import_attempts := 0, lockout_until := None\<rparr>"

definition wrong_password :: "nat \<Rightarrow> lockout \<Rightarrow> lockout" where
  "wrong_password t l =
     (let attempts = import_attempts l + 1
      in if MAX_ATTEMPTS \<le> attempts then l\<lparr>import_attempts := 0, lockout_until := Some (t + LOCKOUT_DURATION)\<rparr>
         else l\<lparr>import_attempts := attempts\<rparr>)"

definition decryption_failed :: "string \<Rightarrow> Error" where
  "decryption_failed msg = ipc_err DecryptionFailed msg"

definition locked_message :: "nat \<Rightarrow> lockout \<Rightarrow> string" where
  "locked_message t l =
     ''too many wrong attempts, locked out for ''
     @ show_nat ((case lockout_until l of Some until \<Rightarrow> until - t | None \<Rightarrow> 0) div 10 ^ 9) @ '' more seconds''"

definition wrong_message :: string where "wrong_message = ''wrong master password or corrupted file''"

text \<open>Taking a blob apart and decrypting it: \<open>None\<close> when the authentication fails.\<close>

definition open_blob :: "export_env \<Rightarrow> string \<Rightarrow> bytes \<Rightarrow> Error + bytes option" where
  "open_blob env password blob =
     (if length blob < 4 + SALT_LEN + GCM_NONCE_LEN then Inl (decryption_failed ''blob too short'')
      else if take 4 blob \<noteq> BLOB_MAGIC then Inl (decryption_failed ''invalid magic bytes'')
      else
        (let salt = sub_bytes 4 (4 + SALT_LEN) blob;
             nonce = sub_bytes (4 + SALT_LEN) (4 + SALT_LEN + GCM_NONCE_LEN) blob;
             c = drop (4 + SALT_LEN + GCM_NONCE_LEN) blob
         in try_res (export_key env password salt) (\<lambda>k.
            Inr (gcm_open (ee_crypto env) k nonce (take 4 blob) c))))"

definition import_full ::
  "export_env \<Rightarrow> nat \<Rightarrow> string \<Rightarrow> bytes \<Rightarrow> lockout \<Rightarrow> (Error + FullExportData) \<times> lockout" where
  "import_full env t password blob l =
     (if is_locked_out t l then (Inl (decryption_failed (locked_message t l)), l)
      else (case open_blob env password blob of
              Inl e \<Rightarrow> (Inl e, l)
            | Inr None \<Rightarrow> (Inl (decryption_failed wrong_message), wrong_password t l)
            | Inr (Some plaintext) \<Rightarrow> (map_err Serde (ee_from_json env plaintext), reset_attempts l)))"

section \<open>Correctness\<close>

text \<open>
  C27. What was exported with a master password is imported with it, whatever the number of wrong
  attempts before, as long as the import is not locked out; and the counter starts anew.
\<close>

theorem export_import_round_trip:
  assumes "gcm_ok (ee_crypto env)" "length salt = SALT_LEN" "length nonce = GCM_NONCE_LEN"
    "export_full env salt nonce password d = Inr blob"
    "\<And>bs. ee_to_json env d = Inr bs \<Longrightarrow> ee_from_json env bs = Inr d"
    "\<not> is_locked_out t l"
  shows "import_full env t password blob l = (Inr d, reset_attempts l)"
proof -
  obtain k pt c where e: "export_key env password salt = Inr k" "ee_to_json env d = Inr pt"
      "gcm_seal (ee_crypto env) k nonce BLOB_MAGIC pt = Inr c" "blob = BLOB_MAGIC @ salt @ nonce @ c"
    using assms(4) by (auto simp: export_full_def try_res_Inr map_err_Inr)
  have o: "gcm_open (ee_crypto env) k nonce BLOB_MAGIC c = Some pt"
    using assms(1) e(3) by (auto simp: gcm_ok_def)
  have m: "length BLOB_MAGIC = 4" by (simp add: BLOB_MAGIC_def)
  have s: "sub_bytes 4 (4 + SALT_LEN) blob = salt" "sub_bytes (4 + SALT_LEN) (4 + SALT_LEN + GCM_NONCE_LEN) blob = nonce"
    "drop (4 + SALT_LEN + GCM_NONCE_LEN) blob = c" "take 4 blob = BLOB_MAGIC"
    "\<not> length blob < 4 + SALT_LEN + GCM_NONCE_LEN"
    using m assms(2,3) by (auto simp: e(4) sub_bytes_def)
  show ?thesis
    using assms(5,6) by (simp add: import_full_def open_blob_def s e(1,2) o Let_def)
qed

lemma map_err_Inl: "map_err f x = Inl y \<Longrightarrow> \<exists>e. x = Inl e \<and> y = f e"
  by (cases x) auto

text \<open>The attempts of someone who guesses: each with its time, its password and its blob.\<close>

fun attempts ::
  "export_env \<Rightarrow> (nat \<times> string \<times> bytes) list \<Rightarrow> lockout \<Rightarrow> (Error + FullExportData) list \<times> lockout" where
  "attempts env [] l = ([], l)"
| "attempts env ((t, p, b) # as) l =
     (let (r, l1) = import_full env t p b l; (rs, l2) = attempts env as l1 in (r # rs, l2))"

definition is_wrong :: "Error + 'a \<Rightarrow> bool" where
  "is_wrong r \<longleftrightarrow> (case r of Inl e \<Rightarrow> e = decryption_failed wrong_message | Inr _ \<Rightarrow> False)"

definition decrypts :: "export_env \<Rightarrow> nat \<times> string \<times> bytes \<Rightarrow> bool" where
  "decrypts env a = (case a of (t, p, b) \<Rightarrow> (\<exists>pt. open_blob env p b = Inr (Some pt)))"

lemma not_wrong_locked: "\<not> is_wrong (Inl (decryption_failed (locked_message t l)))"
  by (simp add: is_wrong_def decryption_failed_def ipc_err_def locked_message_def wrong_message_def)

lemma open_blob_error: "open_blob env p b = Inl e \<Longrightarrow> e \<noteq> decryption_failed wrong_message"
  by (auto simp: open_blob_def decryption_failed_def ipc_err_def wrong_message_def Let_def try_res_Inl export_key_def
      split: if_splits option.splits dest!: map_err_Inl)

lemma wrong_result:
  "\<not> decrypts env (t, p, b) \<Longrightarrow> import_full env t p b l = (r, l') \<Longrightarrow>
   (is_wrong r \<longrightarrow> \<not> is_locked_out t l \<and> l' = wrong_password t l) \<and> (\<not> is_wrong r \<longrightarrow> l' = l)"
  using not_wrong_locked [of t l] open_blob_error [of env p b]
  by (auto simp: import_full_def decrypts_def is_wrong_def split: sum.splits option.splits if_splits)

lemma locked_run:
  assumes "lockout_until l = Some u" "\<And>a. a \<in> set as \<Longrightarrow> fst a < u"
  shows "filter is_wrong (fst (attempts env as l)) = []"
  using assms(2)
proof (induction as)
  case (Cons a as)
  obtain t p b where a: "a = (t, p, b)" by (cases a)
  have "is_locked_out t l" using assms(1) Cons.prems [of a] by (simp add: is_locked_out_def a)
  then have "import_full env t p b l = (Inl (decryption_failed (locked_message t l)), l)"
    by (simp add: import_full_def)
  then show ?case using Cons by (simp add: a split_def not_wrong_locked Let_def)
qed simp

text \<open>
  C28. Whoever has no right password gets at most three wrong guesses answered in five minutes: of a run
  of imports of which none decrypts and which lie in a window of the length of the lock-out, at most
  three are told that the password is wrong; the others are refused before the decryption.
\<close>

theorem guesses_are_bounded:
  assumes "\<And>a. a \<in> set as \<Longrightarrow> t0 \<le> fst a \<and> fst a < t0 + LOCKOUT_DURATION"
    and "\<And>a. a \<in> set as \<Longrightarrow> \<not> decrypts env a"
    and "import_attempts l < MAX_ATTEMPTS"
  shows "length (filter is_wrong (fst (attempts env as l))) \<le> 3 - unat (import_attempts l)"
  using assms
proof (induction as arbitrary: l)
  case (Cons a as)
  obtain t p b where a: "a = (t, p, b)" by (cases a)
  obtain r l1 where i: "import_full env t p b l = (r, l1)" by fastforce
  have lt: "unat (import_attempts l) < 3"
    using Cons.prems(3) by (simp add: MAX_ATTEMPTS_def word_less_nat_alt)
  then have suc: "unat (import_attempts l + 1) = unat (import_attempts l) + 1"
    by (simp add: unat_plus_if_size word_size)
  note IH = Cons.IH [OF Cons.prems(1,2)]
  show ?case
  proof (cases "is_wrong r")
    case False
    then have "l1 = l" using wrong_result [of env t p b l r l1] Cons.prems(2) [of a] i by (simp add: a)
    then show ?thesis using False IH [of l] Cons.prems(3) by (simp add: a i split_def Let_def)
  next
    case True
    then have l1: "l1 = wrong_password t l" using wrong_result [of env t p b l r l1] Cons.prems(2) [of a] i by (simp add: a)
    show ?thesis
    proof (cases "MAX_ATTEMPTS \<le> import_attempts l + 1")
      case True
      then have "lockout_until l1 = Some (t + LOCKOUT_DURATION)" by (simp add: l1 wrong_password_def Let_def)
      moreover have "fst x < t + LOCKOUT_DURATION" if "x \<in> set as" for x
        using Cons.prems(1) [of a] Cons.prems(1) [of x] that by (auto simp: a)
      ultimately have "filter is_wrong (fst (attempts env as l1)) = []" by (rule locked_run)
      then show ?thesis using \<open>is_wrong r\<close> lt by (simp add: a i split_def Let_def)
    next
      case False
      then have n: "import_attempts l1 = import_attempts l + 1" by (simp add: l1 wrong_password_def Let_def)
      moreover have "import_attempts l1 < MAX_ATTEMPTS" using False by (simp add: n not_le)
      ultimately show ?thesis using IH [of l1] \<open>is_wrong r\<close> suc lt by (simp add: a i split_def Let_def)
    qed
  qed
qed simp

text \<open>
  Whoever has a blob of his own gets around it: an import of that blob in between sets the counter back,
  because the counter belongs to the program and not to a blob.
\<close>

theorem lockout_is_bypassed:
  assumes "decrypts env (t, p, b)"
    and "open_blob env q v = Inr None"
  shows "attempts env (concat (replicate n [(t, q, v), (t, q, v), (t, p, b)])) lockout_new =
    (concat (replicate n [Inl (decryption_failed wrong_message), Inl (decryption_failed wrong_message),
       fst (import_full env t p b lockout_new)]), lockout_new)"
proof -
  obtain pt where o: "open_blob env p b = Inr (Some pt)" using assms(1) by (auto simp: decrypts_def)
  show ?thesis
    by (induction n)
      (simp_all add: import_full_def is_locked_out_def lockout_new_def assms(2) o wrong_password_def MAX_ATTEMPTS_def
        reset_attempts_def word_le_nat_alt)
qed

section \<open>Examples\<close>

definition sample_export :: FullExportData where
  "sample_export =
     \<lparr>ex_config = config_default [], ex_passwords = [(''a'', ''secret'')], ex_key_passphrases = [], ex_key_files = []\<rparr>"

definition toy_export :: export_env where
  "toy_export =
     \<lparr>ee_crypto = toy_envelope, ee_to_json = (\<lambda>d. Inr [1]), ee_from_json = (\<lambda>bs. Inr sample_export),
      has_alphabetic = (\<lambda>s. True)\<rparr>"

lemma toy_export_ok:
  "\<exists>blob. export_full toy_export (replicate 16 9) (replicate 12 1) ''longenough12'' sample_export = Inr blob"
  by (simp add: export_full_def validate_master_password_def char_count_def MIN_PASSWORD_LEN_def bytes_of_str_def cont_def
      toy_export_def toy_envelope_def export_key_def is_digit_def)

lemma export_import_round_trip_witness:
  "\<exists>blob. export_full toy_export (replicate 16 9) (replicate 12 1) ''longenough12'' sample_export = Inr blob
     \<and> fst (import_full toy_export 0 ''longenough12'' blob lockout_new) = Inr sample_export"
proof -
  obtain blob where b: "export_full toy_export (replicate 16 9) (replicate 12 1) ''longenough12'' sample_export = Inr blob"
    using toy_export_ok ..
  have "import_full toy_export 0 ''longenough12'' blob lockout_new = (Inr sample_export, reset_attempts lockout_new)"
    by (rule export_import_round_trip [OF _ _ _ b])
      (simp_all add: toy_gcm_ok toy_export_def envelope_consts is_locked_out_def lockout_new_def)
  then show ?thesis using b by auto
qed

definition wrong_blob :: bytes where "wrong_blob = BLOB_MAGIC @ replicate 28 0"

lemma wrong_blob_none: "open_blob toy_export p wrong_blob = Inr None"
  by (cases p) (simp_all add: bytes_of_str_def open_blob_def wrong_blob_def BLOB_MAGIC_def envelope_consts Let_def toy_export_def export_key_def
      toy_envelope_def sub_bytes_def)

lemma guesses_are_bounded_witness:
  "length (filter is_wrong (fst (attempts toy_export (replicate 7 (5, ''guess'', wrong_blob)) lockout_new))) \<le> 3"
  using guesses_are_bounded [of "replicate 7 (5, ''guess'', wrong_blob)" 0 toy_export lockout_new]
  by (simp add: decrypts_def wrong_blob_none lockout_new_def MAX_ATTEMPTS_def LOCKOUT_DURATION_def)

end
