(* ===== verification/Tmux.thy ===== *)
theory Tmux
  imports Triggers
begin

text \<open>
  \<open>crates/core/src/ssh/tmux.rs\<close>: the sessions of tmux on a server that TermFast marked as its own, the
  commands that make, attach, resize and end them, and the reading of tmux's answers.  \<open>ssh\<close> runs a
  command on the server with a timeout, on a world; the clock and the random bytes are arguments.
\<close>

type_synonym 'w remote = "string \<Rightarrow> u64 \<Rightarrow> 'w \<Rightarrow> (Error + ExecResult) \<times> 'w"

section \<open>Sessions and modes\<close>

record TmuxSession =
  tx_name :: string
  tx_description :: string
  tx_created :: u64
  tx_server :: string
  tx_size :: "u16 \<times> u16"
  tx_windows :: u32
  tx_attached_count :: u32
  tx_last_activity :: u64

datatype TmuxMode = Auto | Ask | AlwaysNew | Disabled

fun mode_str :: "TmuxMode \<Rightarrow> string" where
  "mode_str Auto = ''auto''"
| "mode_str Ask = ''ask''"
| "mode_str AlwaysNew = ''always_new''"
| "mode_str Disabled = ''disabled''"

definition parse_mode :: "string \<Rightarrow> TmuxMode" where
  "parse_mode s =
     (if s = ''auto'' then Auto else if s = ''always_new'' then AlwaysNew
      else if s = ''disabled'' then Disabled else Ask)"

definition detect_tmux :: "'w remote \<Rightarrow> 'w \<Rightarrow> bool \<times> 'w" where
  "detect_tmux ssh w =
     (case ssh ''command -v tmux'' 3 w of
        (Inr r, w1) \<Rightarrow> (is_success r \<and> trim (ex_stdout r) \<noteq> [], w1)
      | (Inl _, w1) \<Rightarrow> (False, w1))"

section \<open>Listing\<close>

definition number_or :: "nat \<Rightarrow> nat \<Rightarrow> string \<Rightarrow> 'a::len word" where
  "number_or d mx s = (case parse_uint mx s of Some n \<Rightarrow> word_of_nat n | None \<Rightarrow> word_of_nat d)"

definition parse_size :: "string \<Rightarrow> u16 \<times> u16" where
  "parse_size s =
     (let t = trim s
      in case find_char CHR ''x'' t of
           Some i \<Rightarrow> (number_or 80 65535 (take i t), number_or 24 65535 (drop (i + 1) t))
         | None \<Rightarrow> (80, 24))"

definition parse_session_line :: "string \<Rightarrow> TmuxSession option" where
  "parse_session_line line =
     (let fs = split_on CHR ''|'' line
      in if length fs < 10 then None
         else if fs ! 1 \<noteq> ''true'' then None
         else Some \<lparr>tx_name = fs ! 0, tx_description = fs ! 2,
           tx_created = (case parse_uint (2 ^ 64 - 1) (fs ! 3) of
               Some n \<Rightarrow> word_of_nat n | None \<Rightarrow> number_or 0 (2 ^ 64 - 1) (fs ! 6)),
           tx_server = fs ! 4, tx_size = parse_size (fs ! 5),
           tx_windows = number_or 0 (2 ^ 32 - 1) (fs ! 7), tx_attached_count = number_or 0 (2 ^ 32 - 1) (fs ! 8),
           tx_last_activity = number_or 0 (2 ^ 64 - 1) (fs ! 9)\<rparr>)"

definition LIST_FORMAT :: string where
  "LIST_FORMAT = ''#{session_name}|#{@termfast}|#{@termfast_description}|#{@termfast_created}|#{@termfast_server}|''
     @ ''#{@termfast_size}|#{session_created}|#{session_windows}|#{session_attached}|#{session_activity}''"

definition list_command :: string where
  "list_command = ''tmux list-sessions -F '' @ [quote_char] @ LIST_FORMAT @ [quote_char] @ '' 2>/dev/null''"

text \<open>A stable sort, the latest activity first.\<close>

definition list_termfast_sessions :: "'w remote \<Rightarrow> 'w \<Rightarrow> (Error + TmuxSession list) \<times> 'w" where
  "list_termfast_sessions ssh w =
     (case ssh list_command 5 w of
        (Inl e, w1) \<Rightarrow> (Inl e, w1)
      | (Inr r, w1) \<Rightarrow>
          (if \<not> is_success r then (Inr [], w1)
           else (Inr (sort_key (\<lambda>s. - uint (tx_last_activity s)) (List.map_filter parse_session_line (lines (ex_stdout r)))), w1)))"

section \<open>Commands\<close>

definition EXIT :: string where "EXIT = ''EXIT:''"

definition with_exit :: "string \<Rightarrow> string" where
  "with_exit cmd = cmd @ '' 2>/dev/null; echo '' @ [CHR 0x22] @ EXIT @ ''$?'' @ [CHR 0x22]"

text \<open>The exit code printed behind the output; what follows the mark if it is a number.\<close>

definition printed_code :: "string \<Rightarrow> nat option option" where
  "printed_code out = map_option (\<lambda>p. parse_uint (2 ^ 32 - 1) (trim (drop (p + 5) out))) (rfind_sub EXIT out)"

definition session_exists :: "'w remote \<Rightarrow> string \<Rightarrow> 'w \<Rightarrow> (Error + bool) \<times> 'w" where
  "session_exists ssh name w =
     (case ssh (with_exit (''tmux has-session -t '' @ shell_escape name)) 3 w of
        (Inl e, w1) \<Rightarrow> (Inl e, w1)
      | (Inr r, w1) \<Rightarrow>
          (Inr (case printed_code (ex_stdout r) of Some (Some code) \<Rightarrow> code = 0 | _ \<Rightarrow> ex_exit_code r = 0), w1))"

definition hex2 :: "u8 \<Rightarrow> string" where
  "hex2 b = (let d = \<lambda>k::nat. if k < 10 then char_of (48 + k) else char_of (87 + k)
             in [d (unat b div 16), d (unat b mod 16)])"

definition candidate_name :: "nat \<Rightarrow> bytes \<Rightarrow> string" where
  "candidate_name t rand = ''termfast_'' @ show_nat t @ ''_'' @ concat (map hex2 rand)"

text \<open>Three draws of four bytes at most.\<close>

fun try_names :: "'w remote \<Rightarrow> nat \<Rightarrow> bytes list \<Rightarrow> 'w \<Rightarrow> (Error + string) \<times> 'w" where
  "try_names ssh t [] w = (Inl (Other ''tmux session name collision after 3 attempts''), w)"
| "try_names ssh t (rand # rs) w =
     (case session_exists ssh (candidate_name t rand) w of
        (Inl e, w1) \<Rightarrow> (Inl e, w1)
      | (Inr True, w1) \<Rightarrow> try_names ssh t rs w1
      | (Inr False, w1) \<Rightarrow> (Inr (candidate_name t rand), w1))"

definition generate_unique_session_name :: "'w remote \<Rightarrow> nat \<Rightarrow> bytes list \<Rightarrow> 'w \<Rightarrow> (Error + string) \<times> 'w" where
  "generate_unique_session_name ssh t draws = try_names ssh t (take 3 draws)"

definition set_option :: "string \<Rightarrow> string \<Rightarrow> string" where
  "set_option name rest = ''tmux set-option -t '' @ name @ '' '' @ rest"

definition build_attach_command :: "string \<Rightarrow> string" where
  "build_attach_command session_name =
     (let name = shell_escape session_name; quiet = '' 2>/dev/null; ''
      in set_option name ''window-size manual'' @ quiet @ set_option name ''allow-passthrough on'' @ quiet
         @ set_option name ''mouse on'' @ quiet @ ''tmux set-option -g set-clipboard on'' @ quiet
         @ ''tmux bind-key -T copy-mode-vi MouseDragEnd1Pane send-keys -X copy-selection-no-clear'' @ quiet
         @ ''tmux bind-key -T copy-mode MouseDragEnd1Pane send-keys -X copy-selection-no-clear'' @ quiet
         @ ''tmux attach -t '' @ name @ [CHR 0x0A])"

definition size_text :: "u16 \<Rightarrow> u16 \<Rightarrow> string" where
  "size_text cols rows = show_nat (unat cols) @ ''x'' @ show_nat (unat rows)"

definition build_new_session_exec_command :: "string \<Rightarrow> string \<Rightarrow> string \<Rightarrow> u16 \<Rightarrow> u16 \<Rightarrow> string" where
  "build_new_session_exec_command session_name description server_name cols rows =
     (let name = shell_escape session_name; also_do = '' && ''
      in ''tmux new -s '' @ name @ '' -d'' @ also_do @ set_option name ''@termfast true'' @ also_do
         @ set_option name (''@termfast_description '' @ shell_escape description) @ also_do
         @ set_option name (''@termfast_created '' @ [CHR 0x22] @ ''$(date +%s)'' @ [CHR 0x22]) @ also_do
         @ set_option name (''@termfast_server '' @ shell_escape server_name) @ also_do
         @ set_option name (''@termfast_size '' @ size_text cols rows) @ also_do
         @ set_option name ''window-size manual'' @ also_do @ set_option name ''mouse on'' @ also_do
         @ set_option name ''allow-passthrough on'' @ '' 2>/dev/null'')"

definition build_update_size_command :: "string \<Rightarrow> u16 \<Rightarrow> u16 \<Rightarrow> string" where
  "build_update_size_command session_name cols rows =
     (let name = shell_escape session_name
      in ''tmux resize-window -t '' @ name @ '' -x '' @ show_nat (unat cols) @ '' -y '' @ show_nat (unat rows) @ '' 2>/dev/null; ''
         @ set_option name (''@termfast_size '' @ [CHR 0x22] @ size_text cols rows @ [CHR 0x22]))"

definition build_kill_session_command :: "string \<Rightarrow> string" where
  "build_kill_session_command session_name = ''tmux kill-session -t '' @ shell_escape session_name"

section \<open>Correctness\<close>

lemma parse_mode_str [simp]: "parse_mode (mode_str m) = m"
  by (cases m) (simp_all add: parse_mode_def)

text \<open>The line tmux prints for a session; \<open>created\<close> is tmux's own time of creation.\<close>

definition session_line :: "nat \<Rightarrow> TmuxSession \<Rightarrow> string" where
  "session_line created s =
     join ''|'' [tx_name s, ''true'', tx_description s, show_nat (unat (tx_created s)), tx_server s,
       size_text (fst (tx_size s)) (snd (tx_size s)), show_nat created, show_nat (unat (tx_windows s)),
       show_nat (unat (tx_attached_count s)), show_nat (unat (tx_last_activity s))]"


definition no_bar :: "string \<Rightarrow> bool" where
  "no_bar s \<longleftrightarrow> CHR ''|'' \<notin> set s"

lemma no_bar_nat: "no_bar (show_nat n)"
  unfolding no_bar_def by (rule show_nat_not) (simp add: is_digit_def)

lemma parse_size_text: "parse_size (size_text c r) = (c, r)"
proof -
  have c: "unat c < 65536" for c :: u16
    using unsigned_less [of c] by simp
  have x: "CHR ''x'' \<notin> set (show_nat n)" for n by (rule show_nat_not) (simp add: is_digit_def)
  have "graphic (hd (size_text c r))" "graphic (last (size_text c r))" "size_text c r \<noteq> []"
    using show_nat_digits [of "unat c"] show_nat_digits [of "unat r"]
    by (auto simp: size_text_def list_all_iff is_digit_graphic)
  then have "trim (size_text c r) = size_text c r" by (simp add: trim_graphic)
  moreover have "find_char CHR ''x'' (size_text c r) = Some (length (show_nat (unat c)))"
    using x by (simp add: size_text_def find_char_append)
  ultimately show ?thesis
    using c [of c] c [of r] by (simp add: parse_size_def size_text_def number_or_def Let_def)
qed

lemma number_or_show: "number_or d (2 ^ LENGTH('a) - 1) (show_nat (unat w)) = (w :: 'a::len word)"
proof -
  have "unat w < 2 ^ LENGTH('a)" by (rule unsigned_less)
  then have "unat w \<le> 2 ^ LENGTH('a) - 1" by linarith
  then show ?thesis by (simp add: number_or_def)
qed

text \<open>
  What tmux prints for a session is read back, if no text in it has the separator: the name, the
  description and the server, the time, the size and the counts.
\<close>

theorem session_line_round_trip:
  assumes "no_bar (tx_name s)" "no_bar (tx_description s)" "no_bar (tx_server s)"
  shows "parse_session_line (session_line created s) = Some s"
proof -
  have t: "no_bar ''true''" "no_bar (size_text c r)" for c r
    using no_bar_nat by (auto simp: no_bar_def size_text_def)
  have "split_on CHR ''|'' (session_line created s) =
    [tx_name s, ''true'', tx_description s, show_nat (unat (tx_created s)), tx_server s,
       size_text (fst (tx_size s)) (snd (tx_size s)), show_nat created, show_nat (unat (tx_windows s)),
       show_nat (unat (tx_attached_count s)), show_nat (unat (tx_last_activity s))]"
    unfolding session_line_def
    by (rule split_on_join) (use assms t no_bar_nat in \<open>auto simp: no_bar_def\<close>)
  moreover have "parse_uint 18446744073709551615 (show_nat (unat w)) = Some (unat w)" for w :: u64
  proof -
    have "unat w < 2 ^ LENGTH(64)" by (rule unsigned_less)
    then show ?thesis by simp
  qed
  ultimately show ?thesis
    using number_or_show [of 0 "tx_windows s"] number_or_show [of 0 "tx_attached_count s"]
      number_or_show [of 0 "tx_last_activity s"]
    by (simp add: parse_session_line_def Let_def parse_size_text)
qed

definition sample_session :: TmuxSession where
  "sample_session = \<lparr>tx_name = ''termfast_1'', tx_description = ''build'', tx_created = 1700000000, tx_server = ''web'',
     tx_size = (120, 40), tx_windows = 3, tx_attached_count = 1, tx_last_activity = 1700001000\<rparr>"

lemma session_line_round_trip_witness:
  "parse_session_line (session_line 1700000000 sample_session) = Some sample_session"
  by (rule session_line_round_trip) (simp_all add: sample_session_def no_bar_def)

text \<open>
  A description with the separator, which \<open>build_new_session_exec_command\<close> lets through, moves the
  fields: the session is found with a wrong description, server and size.
\<close>

theorem bar_moves_fields:
  "map_option (\<lambda>s. (tx_description s, tx_server s, tx_size s))
     (parse_session_line (session_line 1700000000 (sample_session\<lparr>tx_description := ''a|b''\<rparr>)))
   = Some (''a'', ''1700000000'', (80, 24))"
proof -
  have n: "show_nat 1700000000 = ''1700000000''" "show_nat 1700001000 = ''1700001000''" "show_nat 120 = ''120''"
    "show_nat 40 = ''40''" "show_nat 3 = ''3''" "show_nat 1 = ''1''"
    by (simp_all add: show_nat.simps digit_char_def char_of_def bit_Suc_0_iff)
  show ?thesis
    by (simp add: session_line_def sample_session_def n size_text_def parse_session_line_def Let_def parse_size_def trim_graphic graphic_def)
qed

end
