(* ===== verification/Daemon.thy ===== *)
theory Daemon
  imports Proto CredentialContract Servers Terminals LogBuffer ConfigStore CloudSync FullExport
begin

text \<open>
  The state of the daemon (\<open>crates/daemon/src/server.rs\<close>, \<open>DaemonState\<close>) and what its request
  handlers share (\<open>handler.rs\<close>): parameters, errors, events, the log and the callbacks a connection
  gets.  A handler is a program on the state that returns a document or an error; requests run one
  after another.  The tasks the callbacks spawn run at once.
\<close>

section \<open>State\<close>

datatype AuthMethod = KeyAuth string "string option" | PasswordAuth string

record ClientHandle =
  cl_id :: u64
  cl_inbox :: "Response list"

record CloudSyncPendingAuth =
  pa_provider :: string
  pa_code_verifier :: string
  pa_redirect_uri :: string
  pa_state :: string

record FileUploadConfig =
  fu_provider :: string
  fu_token :: OAuthToken
  fu_master_password :: string

text \<open>
  What the database of the runtime keeps for the cloud: the tokens, the state of each provider and the hash
  of the password, where a row is missing when it is not there or cannot be read; and the old plain file of
  the tokens, if it is there.  \<open>callback_waiting\<close> says that the receiver of a browser's answer is kept.
\<close>

record CloudDb =
  db_tokens :: "TokenStoreData option"
  legacy_tokens :: "TokenStoreData option option"
  db_baidu :: "ProviderState option"
  db_dropbox :: "ProviderState option"
  db_sync_hash :: "string option"
  callback_waiting :: bool

text \<open>
  \<open>gui\<close> is what the event forwarder has been given, if there is one; \<open>notices\<close> what the terminals
  told the window and the remote server; \<open>local_timers\<close> the timer tasks of the local triggers, each
  with the trigger it was started for; \<open>wired\<close> the servers whose present instance has been given its callbacks.
\<close>

record ('w, 'st, 'c) DaemonState =
  server_manager :: "AuthMethod ServerManager"
  log_buffer :: LogBuffer
  config_manager :: "'st ConfigManager"
  credentials :: 'c
  clients :: "ClientHandle list"
  shutdown_notified :: bool
  gui :: "(string \<times> json) list option"
  terminal_manager :: TerminalManager
  notices :: "notice list"
  cloud_sync_pending :: "CloudSyncPendingAuth option"
  cloud_db :: CloudDb
  import_lock :: lockout
  file_upload_config :: "FileUploadConfig option"
  local_trigger_engine :: TriggerEngine
  local_timers :: "TriggerInstance list"
  wired :: "string list"
  world :: 'w

text \<open>The system proxy (\<open>core/src/platform.rs\<close>).\<close>

record SystemProxyConfig =
  spc_server_id :: string
  spc_socks5_port :: u16
  spc_http_port :: u16

record SetProxyResult =
  needs_privilege :: bool
  spr_success :: bool
  spr_message :: string

definition noop_proxy_result :: SetProxyResult where
  "noop_proxy_result = \<lparr>needs_privilege = False, spr_success = False, spr_message = ''no platform adapter available''\<rparr>"

text \<open>
  The surroundings: the SSH client of each server, the adapter of the system proxy, the configuration storage, the credential store,
  the clock in nanoseconds, the delay to a scheduled time and the validity of a cron expression, serde's conversions of the configuration types, the texts of errors,
  a new terminal on a server or on this machine, with the output that came at once, fresh identifiers, random bytes, base 64, the version of the package,
  \<open>DefaultHasher\<close> over commands (\<open>hash_hex\<close>) and over the time and the thread (\<open>clock_hash\<close>), as sixteen
  hexadecimal digits.
\<close>

record ('w, 'st, 'c) daemon_env =
  d_ssh :: "string \<Rightarrow> (AuthMethod, 'w) ssh_env"
  d_accept_key :: "string \<Rightarrow> string \<Rightarrow> 'w \<Rightarrow> 'w"
  set_proxy :: "SystemProxyConfig \<Rightarrow> 'w \<Rightarrow> (string + SetProxyResult) \<times> 'w"
  clear_proxy :: "'w \<Rightarrow> (string + SetProxyResult) \<times> 'w"
  d_banner :: "string \<Rightarrow> 'w \<Rightarrow> string option"
  d_local :: "'w runner"
  d_storage :: "'st ConfigStorage"
  d_creds :: "'c CredentialStore"
  d_now :: "'w \<Rightarrow> nat"
  d_time :: "nat \<Rightarrow> json"
  server_of :: "json \<Rightarrow> string + ServerConfig"
  servers_of :: "json \<Rightarrow> string + ServerConfig list"
  trigger_of :: "json \<Rightarrow> string + TriggerInstance"
  template_of :: "json \<Rightarrow> string + TriggerTemplate"
  templates_of :: "json \<Rightarrow> string + TriggerTemplate list"
  trigger_type_of :: "string \<Rightarrow> TriggerType option"
  config_json :: "Config \<Rightarrow> string + json"
  servers_json :: "ServerConfig list \<Rightarrow> string + json"
  templates_json :: "TriggerTemplate list \<Rightarrow> string + json"
  triggers_json :: "TriggerInstance list \<Rightarrow> json"
  d_delay :: "string \<Rightarrow> nat option"
  d_cron_ok :: "string \<Rightarrow> bool"
  d_rfc3339 :: "nat \<Rightarrow> string"
  hash_hex :: "string list \<Rightarrow> string"
  clock_hash :: "'w \<Rightarrow> string"
  name_chars :: "string \<Rightarrow> string"
  logs_json :: "LogEntry list \<Rightarrow> string + json"
  d_open_pty :: "string \<Rightarrow> u32 \<Rightarrow> u32 \<Rightarrow> 'w \<Rightarrow> (string + bytes) \<times> 'w"
  d_open_local_pty :: "string option \<Rightarrow> u32 \<Rightarrow> u32 \<Rightarrow> 'w \<Rightarrow> (string + unit) \<times> 'w"
  d_package :: string
  d_fresh_id :: "'w \<Rightarrow> string"
  d_random :: "'w \<Rightarrow> bytes list"
  b64_encode :: "bytes \<Rightarrow> string"
  b64_decode :: "string \<Rightarrow> string + bytes"
  forward_type_of :: "json \<Rightarrow> string + PortForwardType"
  d_show_error :: "Error \<Rightarrow> string"
  d_show_io :: "io_error \<Rightarrow> string"

section \<open>Handlers\<close>

datatype stop = Fails IpcError | Panics

type_synonym ('s, 'a) handler = "('s, stop, 'a) io"

definition reject :: "ErrorCode \<Rightarrow> string \<Rightarrow> ('s, 'a) handler" where
  "reject code msg = io_err (Fails (IpcError code msg))"

definition require :: "ErrorCode \<Rightarrow> string \<Rightarrow> 'a option \<Rightarrow> ('s, 'a) handler" where
  "require code msg v = (case v of Some x \<Rightarrow> io_ret x | None \<Rightarrow> reject code msg)"

definition str_param :: "json \<Rightarrow> string \<Rightarrow> ('s, string) handler" where
  "str_param ps k = require InvalidParams (''missing '' @ k) (json_str ps k)"

definition query :: "('s \<Rightarrow> 'a) \<Rightarrow> ('s, 'a) handler" where
  "query f s = (Inr (f s), s)"

definition change :: "('s \<Rightarrow> 's) \<Rightarrow> ('s, unit) handler" where
  "change f s = (Inr (), f s)"

definition lift_result :: "('e \<Rightarrow> stop) \<Rightarrow> 'e + 'a \<Rightarrow> ('s, 'a) handler" where
  "lift_result f r s = (map_err f r, s)"

text \<open>\<open>From<termfast_core::Error>\<close> of the handlers, which differs from that of the core.\<close>

fun from_core :: "(io_error \<Rightarrow> string) \<Rightarrow> Error \<Rightarrow> IpcError" where
  "from_core show_io (Ipc ipc) = IpcError (err_code ipc) (err_detail ipc)"
| "from_core show_io (Config msg) = IpcError Internal msg"
| "from_core show_io (Ssh msg) = IpcError SshConnectFailed msg"
| "from_core show_io (Io e) = IpcError Internal (show_io e)"
| "from_core show_io (Error.Crypto msg) = IpcError Internal msg"
| "from_core show_io (Serde e) = IpcError Internal e"
| "from_core show_io (Sqlite e) = IpcError Internal e"
| "from_core show_io (Other msg) = IpcError Internal msg"

definition core_error :: "('w, 'st, 'c) daemon_env \<Rightarrow> Error \<Rightarrow> stop" where
  "core_error env e = Fails (from_core (d_show_io env) e)"

definition internal :: "('w, 'st, 'c) daemon_env \<Rightarrow> Error \<Rightarrow> stop" where
  "internal env e = Fails (IpcError Internal (d_show_error env e))"

section \<open>Events and the log\<close>

definition forward_event_sync :: "string \<Rightarrow> json \<Rightarrow> ('w, 'st, 'c) DaemonState \<Rightarrow> ('w, 'st, 'c) DaemonState" where
  "forward_event_sync event data s = s\<lparr>gui := map_option (\<lambda>es. es @ [(event, data)]) (gui s)\<rparr>"

definition broadcast :: "string \<Rightarrow> json \<Rightarrow> ('w, 'st, 'c) DaemonState \<Rightarrow> ('w, 'st, 'c) DaemonState" where
  "broadcast event data s =
     (forward_event_sync event data s)
       \<lparr>clients := map (\<lambda>c. c\<lparr>cl_inbox := cl_inbox c @ [Event event data]\<rparr>) (clients s)\<rparr>"

fun level_str :: "LogLevel \<Rightarrow> string" where
  "level_str Trace = ''trace''"
| "level_str Debug = ''debug''"
| "level_str Info = ''info''"
| "level_str Warn = ''warn''"
| "level_str ErrorLevel = ''error''"

fun kind_str :: "LogKind \<Rightarrow> string" where
  "kind_str Connection = ''Connection''"
| "kind_str Proxy = ''Proxy''"
| "kind_str Trigger = ''Trigger''"
| "kind_str ErrorKind = ''Error''"
| "kind_str System = ''System''"

definition log_event ::
  "('w, 'st, 'c) daemon_env \<Rightarrow> nat \<Rightarrow> string option \<Rightarrow> LogLevel \<Rightarrow> LogKind \<Rightarrow> string \<Rightarrow> json" where
  "log_event env t server_id level kind message =
     JObj [(''server_id'', jopt JStr server_id), (''level'', JStr (level_str level)),
       (''kind'', JStr (kind_str kind)), (''message'', JStr message), (''timestamp'', d_time env t)]"

definition log_and_broadcast ::
  "('w, 'st, 'c) daemon_env \<Rightarrow> string option \<Rightarrow> LogLevel \<Rightarrow> LogKind \<Rightarrow> string \<Rightarrow>
   ('w, 'st, 'c) DaemonState \<Rightarrow> ('w, 'st, 'c) DaemonState" where
  "log_and_broadcast env server_id level kind message s =
     (let t = d_now env (world s); entry = log_entry t server_id level kind message
      in broadcast ''log:entry'' (log_event env t server_id level kind message)
           (s\<lparr>log_buffer := log_add entry (log_buffer s)\<rparr>))"

definition cli_focus ::
  "json \<Rightarrow> string \<Rightarrow> string option \<Rightarrow> ('w, 'st, 'c) DaemonState \<Rightarrow> ('w, 'st, 'c) DaemonState" where
  "cli_focus params server_id tab s =
     (if json_bool params ''_cli'' = Some True
      then broadcast ''cli:focus''
        (JObj ((''server_id'', JStr server_id) # (case tab of Some t \<Rightarrow> [(''tab'', JStr t)] | None \<Rightarrow> []))) s
      else s)"

section \<open>Access to the parts\<close>

definition current_config :: "('w, 'st, 'c) DaemonState \<Rightarrow> Config" where
  "current_config s = config (config_manager s)"

text \<open>\<open>ConfigManager::modify\<close>, with the lock held, and its variant for deletions.\<close>

definition modify_config ::
  "('w, 'st, 'c) daemon_env \<Rightarrow> (Config \<Rightarrow> 'r \<times> Config) \<Rightarrow> (('w, 'st, 'c) DaemonState, 'r) handler" where
  "modify_config env f s =
     (let (r, m) = modify (d_storage env) f (config_manager s)
      in (map_err (internal env) r, s\<lparr>config_manager := m\<rparr>))"

definition modify_config_unchecked ::
  "('w, 'st, 'c) daemon_env \<Rightarrow> (Config \<Rightarrow> 'r \<times> Config) \<Rightarrow> (('w, 'st, 'c) DaemonState, 'r) handler" where
  "modify_config_unchecked env f s =
     (let (r, m) = modify_unchecked (d_storage env) f (config_manager s)
      in (map_err (internal env) r, s\<lparr>config_manager := m\<rparr>))"

text \<open>\<open>let _ = mgr.modify(..)\<close>.\<close>

definition modify_ignored ::
  "('w, 'st, 'c) daemon_env \<Rightarrow> (Config \<Rightarrow> Config) \<Rightarrow> ('w, 'st, 'c) DaemonState \<Rightarrow> ('w, 'st, 'c) DaemonState" where
  "modify_ignored env f s = snd (modify_config env (\<lambda>c. ((), f c)) s)"

definition the_server :: "('w, 'st, 'c) daemon_env \<Rightarrow> string \<Rightarrow> (('w, 'st, 'c) DaemonState, AuthMethod ServerInstance) handler" where
  "the_server env sid s = lift_result (core_error env) (get_server sid (server_manager s)) s"

definition list_servers :: "('w, 'st, 'c) DaemonState \<Rightarrow> AuthMethod ServerInstance list" where
  "list_servers s = map snd (servers (server_manager s))"

text \<open>The instances are shared: an operation on one changes it in the table.\<close>

definition put_server ::
  "string \<Rightarrow> AuthMethod ServerInstance \<Rightarrow> ('w, 'st, 'c) DaemonState \<Rightarrow> ('w, 'st, 'c) DaemonState" where
  "put_server sid si s =
     s\<lparr>server_manager := (server_manager s)\<lparr>servers := hm_insert sid si (servers (server_manager s))\<rparr>\<rparr>"

definition on_server ::
  "string \<Rightarrow> (AuthMethod ServerInstance \<Rightarrow> AuthMethod ServerInstance) \<Rightarrow>
   ('w, 'st, 'c) DaemonState \<Rightarrow> ('w, 'st, 'c) DaemonState" where
  "on_server sid f s =
     (case hm_get (servers (server_manager s)) sid of None \<Rightarrow> s | Some si \<Rightarrow> put_server sid (f si) s)"

definition on_all_servers ::
  "(AuthMethod ServerInstance \<Rightarrow> AuthMethod ServerInstance) \<Rightarrow> ('w, 'st, 'c) DaemonState \<Rightarrow> ('w, 'st, 'c) DaemonState" where
  "on_all_servers f s =
     s\<lparr>server_manager := (server_manager s)\<lparr>servers := map (\<lambda>(i, si). (i, f si)) (servers (server_manager s))\<rparr>\<rparr>"

definition save_credential ::
  "('w, 'st, 'c) daemon_env \<Rightarrow> string \<Rightarrow> string \<Rightarrow> string \<Rightarrow> string \<Rightarrow> (('w, 'st, 'c) DaemonState, unit) handler" where
  "save_credential env what sid kind v s =
     (case cs_save (d_creds env) (make_key sid kind) v (credentials s) of (r, c) \<Rightarrow>
        (map_err (\<lambda>e. Fails (IpcError Internal (what @ '' save error: '' @ e))) r, s\<lparr>credentials := c\<rparr>))"

definition delete_credential ::
  "('w, 'st, 'c) daemon_env \<Rightarrow> string \<Rightarrow> string \<Rightarrow> string \<Rightarrow> (('w, 'st, 'c) DaemonState, unit) handler" where
  "delete_credential env what sid kind s =
     (case cs_delete (d_creds env) (make_key sid kind) (credentials s) of (r, c) \<Rightarrow>
        (map_err (\<lambda>e. Fails (IpcError Internal (what @ '' delete error: '' @ e))) r, s\<lparr>credentials := c\<rparr>))"

text \<open>\<open>iter_mut().find(..)\<close>: the first element with the property is changed.\<close>

fun upd_first :: "('a \<Rightarrow> bool) \<Rightarrow> ('a \<Rightarrow> 'a) \<Rightarrow> 'a list \<Rightarrow> 'a list" where
  "upd_first P f [] = []"
| "upd_first P f (x # xs) = (if P x then f x # xs else x # upd_first P f xs)"

definition on_server_config :: "string \<Rightarrow> (ServerConfig \<Rightarrow> ServerConfig) \<Rightarrow> Config \<Rightarrow> Config" where
  "on_server_config sid f c = c\<lparr>cfg_servers := upd_first (\<lambda>s. srv_id s = sid) f (cfg_servers c)\<rparr>"

definition on_trigger :: "string \<Rightarrow> (TriggerInstance \<Rightarrow> TriggerInstance) \<Rightarrow> ServerConfig \<Rightarrow> ServerConfig" where
  "on_trigger tid f srv = srv\<lparr>srv_triggers := upd_first (\<lambda>t. trg_id t = tid) f (srv_triggers srv)\<rparr>"

definition on_template :: "string \<Rightarrow> (TriggerTemplate \<Rightarrow> TriggerTemplate) \<Rightarrow> Config \<Rightarrow> Config" where
  "on_template tid f c =
     c\<lparr>cfg_trigger_templates := upd_first (\<lambda>t. tmpl_id t = tid) f (cfg_trigger_templates c)\<rparr>"

section \<open>The callbacks of a connection\<close>

fun status_str :: "ServerStatus \<Rightarrow> string" where
  "status_str Disconnected = ''disconnected''"
| "status_str Connecting = ''connecting''"
| "status_str Connected = ''connected''"
| "status_str Reconnecting = ''reconnecting''"
| "status_str AuthRefused = ''auth_failed''"
| "status_str Faulty = ''error''"
| "status_str Offline = ''offline''"

text \<open>The names of \<open>{:?}\<close>.\<close>

fun status_debug :: "ServerStatus \<Rightarrow> string" where
  "status_debug Disconnected = ''Disconnected''"
| "status_debug Connecting = ''Connecting''"
| "status_debug Connected = ''Connected''"
| "status_debug Reconnecting = ''Reconnecting''"
| "status_debug AuthRefused = ''AuthFailed''"
| "status_debug Faulty = ''Error''"
| "status_debug Offline = ''Offline''"

fun trigger_kind :: "TriggerType \<Rightarrow> string" where
  "trigger_kind OnConnect = ''OnConnect''"
| "trigger_kind OnReconnect = ''OnReconnect''"
| "trigger_kind OnIpChange = ''OnIpChange''"
| "trigger_kind OnProcessDead = ''OnProcessDead''"
| "trigger_kind OnPortClosed = ''OnPortClosed''"
| "trigger_kind OnTerminalOpen = ''OnTerminalOpen''"
| "trigger_kind BeforeTerminalClose = ''BeforeTerminalClose''"
| "trigger_kind OnNetworkDisconnect = ''OnNetworkDisconnect''"
| "trigger_kind OnNetworkConnect = ''OnNetworkConnect''"
| "trigger_kind OnLanIpChange = ''OnLanIpChange''"
| "trigger_kind OnPublicIpChange = ''OnPublicIpChange''"
| "trigger_kind OnInterval = ''OnInterval''"
| "trigger_kind OnSchedule = ''OnSchedule''"
| "trigger_kind ManualFire = ''ManualFire''"

definition fraction :: "nat \<Rightarrow> nat \<Rightarrow> string" where
  "fraction a b = ''('' @ show_nat a @ ''/'' @ show_nat b @ '')''"

definition quoted :: "string \<Rightarrow> string" where
  "quoted s = [CHR 0x27] @ s @ [CHR 0x27]"

definition command_json :: "CommandResult \<Rightarrow> json" where
  "command_json c =
     JObj [(''command'', JStr (cr_command c)), (''exit_code'', jword (cr_exit_code c)),
       (''stdout'', JStr (cr_stdout c)), (''stderr'', JStr (cr_stderr c))]"

text \<open>
  The result of a trigger goes to the log and to the window, not to the other clients.  The server
  events and the local ones differ in the identifier and in the name given to the kind.
\<close>

definition report_result ::
  "('w, 'st, 'c) daemon_env \<Rightarrow> string \<Rightarrow> string \<Rightarrow> TriggerExecutionResult \<Rightarrow>
   ('w, 'st, 'c) DaemonState \<Rightarrow> ('w, 'st, 'c) DaemonState" where
  "report_result env sid kind r s =
     (let t = d_now env (world s);
          level = (if ter_success r then Info else ErrorLevel);
          msg = ''['' @ kind @ ''] Trigger '' @ quoted (ter_trigger_name r) @ '' ''
            @ (if ter_success r then ''succeeded'' else ''failed'') @ '' ''
            @ fraction (ter_executed_commands r) (ter_total_commands r);
          s1 = s\<lparr>log_buffer := log_add (log_entry t (Some sid) level Trigger msg) (log_buffer s)\<rparr>
      in forward_event_sync ''trigger:completed''
           (JObj [(''server_id'', JStr sid), (''trigger_id'', JStr (ter_trigger_id r)),
              (''trigger_name'', JStr (ter_trigger_name r)), (''success'', JBool (ter_success r)),
              (''executed_commands'', jnat (ter_executed_commands r)),
              (''total_commands'', jnat (ter_total_commands r)),
              (''results'', JArr (map command_json (ter_results r)))])
         (forward_event_sync ''log:entry'' (log_event env t (Some sid) level Trigger msg) s1))"

definition trigger_result_callback ::
  "('w, 'st, 'c) daemon_env \<Rightarrow> string \<Rightarrow> TriggerEvent \<times> TriggerExecutionResult list \<Rightarrow>
   ('w, 'st, 'c) DaemonState \<Rightarrow> ('w, 'st, 'c) DaemonState" where
  "trigger_result_callback env sid er s =
     fold (report_result env sid (trigger_kind (ev_trigger_type (fst er)))) (snd er) s"

definition local_kind :: "TriggerType \<Rightarrow> string" where
  "local_kind t =
     (if t \<in> {OnTerminalOpen, BeforeTerminalClose, OnNetworkDisconnect, OnNetworkConnect, OnLanIpChange, OnPublicIpChange}
      then trigger_kind t else ''LocalEvent'')"

definition broadcast_local_trigger_results ::
  "('w, 'st, 'c) daemon_env \<Rightarrow> TriggerEvent \<Rightarrow> TriggerExecutionResult list \<Rightarrow>
   ('w, 'st, 'c) DaemonState \<Rightarrow> ('w, 'st, 'c) DaemonState" where
  "broadcast_local_trigger_results env event results s =
     fold (report_result env LOCAL (local_kind (ev_trigger_type event))) results s"

text \<open>The callback of the status keeps the client address of the time it was set.\<close>

definition status_change_callback ::
  "string \<Rightarrow> string option \<Rightarrow> ServerStatus \<Rightarrow> ('w, 'st, 'c) DaemonState \<Rightarrow> ('w, 'st, 'c) DaemonState" where
  "status_change_callback sid ip status =
     forward_event_sync ''server:status_changed''
       (JObj [(''server_id'', JStr sid), (''status'', JStr (status_str status)), (''client_ip'', jopt JStr ip)])"

definition trigger_persist_callback ::
  "('w, 'st, 'c) daemon_env \<Rightarrow> string \<Rightarrow> TriggerInstance \<Rightarrow> ('w, 'st, 'c) DaemonState \<Rightarrow> ('w, 'st, 'c) DaemonState" where
  "trigger_persist_callback env sid t =
     modify_ignored env (on_server_config sid (on_trigger (trg_id t) (\<lambda>u. u\<lparr>trg_enabled := False\<rparr>)))"

definition hostkey_mismatch_callback ::
  "string \<Rightarrow> string \<Rightarrow> string \<Rightarrow> string \<Rightarrow> ('w, 'st, 'c) DaemonState \<Rightarrow> ('w, 'st, 'c) DaemonState" where
  "hostkey_mismatch_callback sid name expected actual =
     forward_event_sync ''ssh:hostkey_mismatch''
       (JObj [(''server_id'', JStr sid), (''server_name'', JStr name), (''expected'', JStr expected), (''actual'', JStr actual)])"

end
