(* ===== verification/ServerHandlers.thy ===== *)
theory ServerHandlers
  imports Daemon
begin

text \<open>
  The requests about servers (\<open>crates/daemon/src/handler.rs\<close>, its first sections): listing, adding,
  removing and reordering, connecting and disconnecting, host keys, the way to authenticate, and
  the change of a server's configuration.
\<close>

section \<open>Listing\<close>

text \<open>\<open>active_clients\<close>, \<open>bytes_in\<close> and \<open>bytes_out\<close> of an instance.\<close>

definition proxy_counter :: "(ChannelManager \<Rightarrow> 'n::len word) \<Rightarrow> AuthMethod ServerInstance \<Rightarrow> 'n word" where
  "proxy_counter counter si =
     (if \<not> proxy_running si then 0 else (case channel_manager si of Some m \<Rightarrow> counter m | None \<Rightarrow> 0))"

definition server_summary :: "('w, 'st, 'c) daemon_env \<Rightarrow> 'w \<Rightarrow> AuthMethod ServerInstance \<Rightarrow> json" where
  "server_summary env w si =
     (let cfg = si_config si; ssh = srv_ssh cfg; px = srv_proxy cfg; rc = srv_reconnect cfg
      in JObj
        [(''id'', JStr (srv_id cfg)), (''name'', JStr (srv_name cfg)),
         (''ssh'', JObj [(''host'', JStr (ssh_host ssh)), (''port'', jword (ssh_port ssh)), (''user'', JStr (ssh_user ssh)),
            (''auth_method'', JStr (ssh_auth_method ssh)), (''key_path'', JStr (ssh_key_path ssh)),
            (''key_auto_generated'', JBool (ssh_key_auto_generated ssh)),
            (''connection_mode'', JStr (ssh_connection_mode ssh)),
            (''skip_hostkey_verify'', JBool (ssh_skip_hostkey_verify ssh))]),
         (''proxy'', JObj [(''enabled'', JBool (px_enabled px)), (''socks5_port'', jword (px_socks5_port px)),
            (''http_port'', jword (px_http_port px)), (''mixed_port'', jword (px_mixed_port px)),
            (''max_channels'', jnat (px_max_channels px)), (''channel_idle_timeout'', jword (px_channel_idle_timeout px))]),
         (''reconnect'', JObj [(''auto_reconnect'', JBool (rc_auto_reconnect rc)),
            (''heartbeat_interval'', jword (rc_heartbeat_interval rc)), (''max_attempts'', jword (rc_max_attempts rc)),
            (''reconnect_timeout_secs'', jword (rc_reconnect_timeout_secs rc)),
            (''initial_backoff_secs'', jword (rc_initial_backoff_secs rc)),
            (''max_backoff_secs'', jword (rc_max_backoff_secs rc))]),
         (''ip_check'', JObj [(''enabled'', JBool (ipc_enabled (srv_ip_check cfg))),
            (''interval_secs'', jword (ipc_interval_secs (srv_ip_check cfg)))]),
         (''last_known_ip'', jopt JStr (srv_last_known_ip cfg)), (''triggers'', triggers_json env (triggers si)),
         (''suppress_firewall_badge'', JBool (srv_suppress_firewall_badge cfg)),
         (''current_status'', JStr (status_str (shown_status (d_ssh env (srv_id cfg)) si w))),
         (''current_ip'', jopt JStr (current_ip si)), (''client_ip'', jopt JStr (client_ip si)),
         (''connected_since'', JNull), (''reconnect_count'', jnat 0), (''max_attempts'', jword (rc_max_attempts rc)),
         (''proxy_running'', JBool (proxy_running si)), (''active_channels'', jword (proxy_counter active_clients si)),
         (''bytes_in'', jword (proxy_counter bytes_in si)), (''bytes_out'', jword (proxy_counter bytes_out si)),
         (''auth_banner'', jopt JStr (d_banner env (srv_id cfg) w)), (''rz_available'', JBool (rz_available si))])"

text \<open>The place of an identifier in a list; an identifier that is missing sorts behind all others.\<close>

fun position :: "string \<Rightarrow> string list \<Rightarrow> nat" where
  "position x [] = 0"
| "position x (y # ys) = (if x = y then 0 else Suc (position x ys))"

definition handle_list_servers :: "('w, 'st, 'c) daemon_env \<Rightarrow> (('w, 'st, 'c) DaemonState, json) handler" where
  "handle_list_servers env =
     query (\<lambda>s. let order = map srv_id (cfg_servers (current_config s));
                    sorted = sort_key (\<lambda>si. position (srv_id (si_config si)) order) (list_servers s)
                in JObj [(''servers'', JArr (map (server_summary env (world s)) sorted))])"

definition handle_get_server_status ::
  "('w, 'st, 'c) daemon_env \<Rightarrow> json \<Rightarrow> (('w, 'st, 'c) DaemonState, json) handler" where
  "handle_get_server_status env params =
     io_bind (str_param params ''server_id'') (\<lambda>sid.
     io_bind (the_server env sid) (\<lambda>si.
     query (\<lambda>s. JObj [(''server_id'', JStr sid), (''status'', JStr (status_debug (shown_status (d_ssh env sid) si (world s)))),
       (''ip'', jopt JStr (current_ip si)), (''rz_available'', JBool (rz_available si))])))"

section \<open>Adding, removing and reordering\<close>

definition check_free :: "bool \<Rightarrow> string \<Rightarrow> u16 \<Rightarrow> (('w, 'st, 'c) DaemonState, unit) handler" where
  "check_free in_use what port =
     (if in_use then reject ProxyPortInUse (what @ '' port '' @ show_nat (unat port) @ '' is in use'') else io_ret ())"

definition check_ports ::
  "u16 option \<Rightarrow> u16 option \<Rightarrow> u16 option \<Rightarrow> string option \<Rightarrow> (('w, 'st, 'c) DaemonState, unit) handler" where
  "check_ports socks5 http mixed excl =
     io_bind (query server_manager) (\<lambda>m.
     io_bind (case socks5 of Some p \<Rightarrow> check_free (live_socks5_port_in_use p excl m) ''SOCKS5'' p | None \<Rightarrow> io_ret ()) (\<lambda>_.
     io_bind (case http of Some p \<Rightarrow> check_free (live_http_port_in_use p excl m) ''HTTP'' p | None \<Rightarrow> io_ret ()) (\<lambda>_.
     case mixed of Some p \<Rightarrow> check_free (0 < p \<and> live_mixed_port_in_use p excl m) ''Mixed'' p | None \<Rightarrow> io_ret ())))"

definition with_manager ::
  "(AuthMethod ServerManager \<Rightarrow> ('e + 'a) \<times> AuthMethod ServerManager) \<Rightarrow> (('w, 'st, 'c) DaemonState, 'e, 'a) io" where
  "with_manager f s = (let (r, m) = f (server_manager s) in (r, s\<lparr>server_manager := m\<rparr>))"

definition handle_add_server ::
  "('w, 'st, 'c) daemon_env \<Rightarrow> json \<Rightarrow> (('w, 'st, 'c) DaemonState, json) handler" where
  "handle_add_server env params =
     io_bind (lift_result (\<lambda>e. Fails (IpcError InvalidParams (''invalid server config: '' @ e))) (server_of env params)) (\<lambda>cfg.
     let px = srv_proxy cfg in
     io_bind (check_ports (Some (px_socks5_port px)) (Some (px_http_port px)) (Some (px_mixed_port px)) None) (\<lambda>_.
     io_bind (modify_config env (\<lambda>c. ((), c\<lparr>cfg_servers := cfg_servers c @ [cfg]\<rparr>))) (\<lambda>_.
     io_bind (io_map_err (core_error env) (with_manager (add_server cfg))) (\<lambda>id.
     io_bind (change (broadcast ''server:added'' (JObj [(''server_id'', JStr id)]))) (\<lambda>_.
     io_bind (change (cli_focus params id (Some ''connection''))) (\<lambda>_.
     io_ret (JObj [(''server_id'', JStr id)])))))))"

definition drop_secrets :: "('w, 'st, 'c) daemon_env \<Rightarrow> string \<Rightarrow> ('w, 'st, 'c) DaemonState \<Rightarrow> ('w, 'st, 'c) DaemonState" where
  "drop_secrets env sid s = s\<lparr>credentials := snd (cs_delete_all (d_creds env) sid (credentials s))\<rparr>"

text \<open>
  \<open>server.disconnect()\<close> on the shared instance; \<open>remove_server\<close> of the manager disconnects once more.
\<close>

definition disconnect_server ::
  "('w, 'st, 'c) daemon_env \<Rightarrow> string \<Rightarrow> (('w, 'st, 'c) DaemonState, Error, unit) io" where
  "disconnect_server env sid s =
     (case hm_get (servers (server_manager s)) sid of
        None \<Rightarrow> (Inr (), s)
      | Some si \<Rightarrow> (case disconnect (d_ssh env sid) si (world s) of
          (r, si', w) \<Rightarrow> (r, put_server sid si' (s\<lparr>world := w\<rparr>))))"

definition remove_from_manager :: "('w, 'st, 'c) daemon_env \<Rightarrow> string \<Rightarrow> ('w, 'st, 'c) DaemonState \<Rightarrow> ('w, 'st, 'c) DaemonState" where
  "remove_from_manager env sid s =
     (let (m, w) = remove_server (d_ssh env sid) sid (server_manager s) (world s)
      in s\<lparr>server_manager := m, world := w, wired := removeAll sid (wired s)\<rparr>)"

definition handle_remove_server ::
  "('w, 'st, 'c) daemon_env \<Rightarrow> json \<Rightarrow> (('w, 'st, 'c) DaemonState, json) handler" where
  "handle_remove_server env params =
     io_bind (str_param params ''server_id'') (\<lambda>sid.
     io_bind (modify_config_unchecked env
       (\<lambda>c. ((), c\<lparr>cfg_servers := filter (\<lambda>s. srv_id s \<noteq> sid) (cfg_servers c)\<rparr>))) (\<lambda>_.
     io_bind (change (\<lambda>s. snd (disconnect_server env sid s))) (\<lambda>_.
     io_bind (change (remove_from_manager env sid)) (\<lambda>_.
     io_bind (change (drop_secrets env sid)) (\<lambda>_.
     io_bind (change (broadcast ''server:removed'' (JObj [(''server_id'', JStr sid)]))) (\<lambda>_.
     io_bind (change (log_and_broadcast env None Info System ''Server removed and credentials cleaned up'')) (\<lambda>_.
     io_ret (JObj [(''server_id'', JStr sid)]))))))))"

definition reorder :: "string list \<Rightarrow> Config \<Rightarrow> Config" where
  "reorder ids c =
     c\<lparr>cfg_servers := List.map_filter (\<lambda>id. find (\<lambda>s. srv_id s = id) (cfg_servers c)) ids
        @ filter (\<lambda>s. srv_id s \<notin> set ids) (cfg_servers c)\<rparr>"

definition handle_reorder_servers ::
  "('w, 'st, 'c) daemon_env \<Rightarrow> json \<Rightarrow> (('w, 'st, 'c) DaemonState, json) handler" where
  "handle_reorder_servers env params =
     io_bind (require InvalidParams ''missing server_ids array'' (json_array params ''server_ids'')) (\<lambda>xs.
     let ids = strings_of xs in
     io_bind (modify_config env (\<lambda>c. ((), reorder ids c))) (\<lambda>_.
     io_bind (change (broadcast ''server:reordered'' (JObj [(''server_ids'', JArr (map JStr ids))]))) (\<lambda>_.
     io_ret (JObj [(''reordered'', JBool True)]))))"


section \<open>Connecting\<close>

definition build_auth_method ::
  "('w, 'st, 'c) daemon_env \<Rightarrow> string \<Rightarrow> string \<Rightarrow> string \<Rightarrow> 'c \<Rightarrow> IpcError + AuthMethod" where
  "build_auth_method env sid auth_type key_path c =
     (if auth_type = ''password'' then
        (case cs_load (d_creds env) (make_key sid PASSWORD) c of
           Inl e \<Rightarrow> Inl (IpcError CredentialNotFound (''password not found: '' @ e))
         | Inr password \<Rightarrow> Inr (PasswordAuth password))
      else if auth_type = ''key'' then
        Inr (KeyAuth key_path
          (case cs_load (d_creds env) (make_key sid KEY_PASSPHRASE) c of Inl _ \<Rightarrow> None | Inr p \<Rightarrow> Some p))
      else Inl (IpcError AuthFailed (''unsupported auth method: '' @ auth_type)))"

definition connected_count :: "('w, 'st, 'c) daemon_env \<Rightarrow> ('w, 'st, 'c) DaemonState \<Rightarrow> nat" where
  "connected_count env s =
     length (filter (\<lambda>(i, si). shown_status (d_ssh env i) si (world s) = Connected) (servers (server_manager s)))"

definition sync_triggers :: "string \<Rightarrow> ('w, 'st, 'c) DaemonState \<Rightarrow> ('w, 'st, 'c) DaemonState" where
  "sync_triggers sid s =
     (case find_server (current_config s) sid of
        Some srv \<Rightarrow> on_server sid (\<lambda>si. si\<lparr>triggers := srv_triggers srv\<rparr>) s
      | None \<Rightarrow> s)"

text \<open>
  What happened while connecting reaches the callbacks, if the instance has them: the results of the
  triggers that fired.
\<close>

definition run_callbacks ::
  "('w, 'st, 'c) daemon_env \<Rightarrow> string \<Rightarrow> AuthMethod ServerInstance \<Rightarrow> AuthMethod ServerInstance \<Rightarrow>
   ('w, 'st, 'c) DaemonState \<Rightarrow> ('w, 'st, 'c) DaemonState" where
  "run_callbacks env sid old new s =
     (if sid \<in> set (wired s)
      then fold (trigger_result_callback env sid) (drop (length (result_broadcasts old)) (result_broadcasts new)) s else s)"

text \<open>The fingerprint of a first connection is written to the configuration; errors are ignored.\<close>

definition remember_host_key ::
  "('w, 'st, 'c) daemon_env \<Rightarrow> string \<Rightarrow> AuthMethod ServerInstance \<Rightarrow> ('w, 'st, 'c) DaemonState \<Rightarrow> ('w, 'st, 'c) DaemonState" where
  "remember_host_key env sid si s =
     (case host_key_fingerprint si of
        None \<Rightarrow> s
      | Some fp \<Rightarrow> modify_ignored env (on_server_config sid (\<lambda>srv.
          if ssh_host_key_fingerprint (srv_ssh srv) = None
          then srv\<lparr>srv_ssh := (srv_ssh srv)\<lparr>ssh_host_key_fingerprint := Some fp\<rparr>\<rparr> else srv)) s)"

definition status_event :: "string \<Rightarrow> string \<Rightarrow> (string \<times> json) list \<Rightarrow> ('w, 'st, 'c) DaemonState \<Rightarrow> ('w, 'st, 'c) DaemonState" where
  "status_event sid status extra =
     broadcast ''server:status_changed'' (JObj ([(''server_id'', JStr sid), (''status'', JStr status)] @ extra))"

definition proxy_event :: "string \<Rightarrow> bool \<Rightarrow> ('w, 'st, 'c) DaemonState \<Rightarrow> ('w, 'st, 'c) DaemonState" where
  "proxy_event sid enabled =
     broadcast ''proxy:status_changed'' (JObj [(''server_id'', JStr sid), (''proxy_enabled'', JBool enabled)])"

definition banner_event ::
  "('w, 'st, 'c) daemon_env \<Rightarrow> string \<Rightarrow> ('w, 'st, 'c) DaemonState \<Rightarrow> ('w, 'st, 'c) DaemonState" where
  "banner_event env sid s =
     (case d_banner env sid (world s) of
        Some b \<Rightarrow> if b = [] then s else broadcast ''ssh:banner'' (JObj [(''server_id'', JStr sid), (''banner'', JStr b)]) s
      | None \<Rightarrow> s)"

definition after_connect ::
  "('w, 'st, 'c) daemon_env \<Rightarrow> string \<Rightarrow> (('w, 'st, 'c) DaemonState, json) handler" where
  "after_connect env sid =
     io_bind (change (on_server sid start_connection_monitor)) (\<lambda>_.
     io_bind (the_server env sid) (\<lambda>si.
     io_bind (change (remember_host_key env sid si)) (\<lambda>_.
     io_bind (change (log_and_broadcast env (Some sid) Info Connection ''Connected successfully'')) (\<lambda>_.
     io_bind (change (status_event sid ''connected'' [(''client_ip'', jopt JStr (client_ip si))])) (\<lambda>_.
     io_bind (change (\<lambda>s. if proxy_running si then proxy_event sid True s else s)) (\<lambda>_.
     io_bind (change (banner_event env sid)) (\<lambda>_.
     io_ret (JObj [(''server_id'', JStr sid), (''status'', JStr ''connected''),
       (''client_ip'', jopt JStr (client_ip si)), (''rz_available'', JBool (rz_available si))]))))))))"

definition connect_failed ::
  "('w, 'st, 'c) daemon_env \<Rightarrow> string \<Rightarrow> Error \<Rightarrow> (('w, 'st, 'c) DaemonState, json) handler" where
  "connect_failed env sid e =
     (let err = from_core (d_show_io env) e; detail = err_detail err;
          status = (if err_code err = AuthFailed then ''auth_failed'' else ''error'')
      in io_bind (change (log_and_broadcast env (Some sid) ErrorLevel Connection (''Connection failed: '' @ detail))) (\<lambda>_.
         io_bind (change (status_event sid status [(''error'', JStr detail)])) (\<lambda>_.
         io_err (Fails err))))"

text \<open>The caller has looked the server up, so the table has it.\<close>

definition connect_with ::
  "('w, 'st, 'c) daemon_env \<Rightarrow> string \<Rightarrow> AuthMethod \<Rightarrow> (('w, 'st, 'c) DaemonState, json) handler" where
  "connect_with env sid auth s =
     (case hm_get (servers (server_manager s)) sid of
        None \<Rightarrow> (Inl Panics, s)
      | Some si \<Rightarrow>
          (case connect (d_ssh env sid) auth si (world s) of (r, si', w) \<Rightarrow>
             (let s1 = run_callbacks env sid si si' (put_server sid si' (s\<lparr>world := w\<rparr>))
              in case r of
                   None \<Rightarrow> (Inl Panics, s1)
                 | Some (Inr _) \<Rightarrow> after_connect env sid s1
                 | Some (Inl e) \<Rightarrow> connect_failed env sid e s1)))"

text \<open>The method and the key path are those of the instance, not those of the configuration.\<close>

definition handle_connect_server ::
  "('w, 'st, 'c) daemon_env \<Rightarrow> json \<Rightarrow> (('w, 'st, 'c) DaemonState, json) handler" where
  "handle_connect_server env params =
     io_bind (str_param params ''server_id'') (\<lambda>sid.
     io_bind (change (cli_focus params sid (Some ''connection''))) (\<lambda>_.
     io_bind (the_server env sid) (\<lambda>si.
     io_bind (query (connected_count env)) (\<lambda>n.
     if 3 \<le> n then reject Internal ''max 3 concurrent SSH connections reached''
     else
     io_bind (change (\<lambda>s. s\<lparr>wired := List.insert sid (wired s)\<rparr>)) (\<lambda>_.
     io_bind (change (sync_triggers sid)) (\<lambda>_.
     io_bind (query credentials) (\<lambda>c.
     io_bind (lift_result Fails (build_auth_method env sid (ssh_auth_method (srv_ssh (si_config si)))
        (ssh_key_path (srv_ssh (si_config si))) c)) (\<lambda>auth.
     connect_with env sid auth))))))))"

definition handle_accept_host_key ::
  "('w, 'st, 'c) daemon_env \<Rightarrow> json \<Rightarrow> (('w, 'st, 'c) DaemonState, json) handler" where
  "handle_accept_host_key env params =
     io_bind (str_param params ''server_id'') (\<lambda>sid.
     io_bind (str_param params ''fingerprint'') (\<lambda>fp.
     io_bind (io_map_err (\<lambda>e. Fails (IpcError ServerNotFound (d_show_error env e)))
       (\<lambda>s. (get_server sid (server_manager s), s))) (\<lambda>_.
     io_bind (change (\<lambda>s. on_server sid (\<lambda>si. si\<lparr>host_key_fingerprint := Some fp\<rparr>)
       (s\<lparr>world := d_accept_key env sid fp (world s)\<rparr>))) (\<lambda>_.
     io_bind (modify_config env (\<lambda>c. ((), on_server_config sid (\<lambda>srv.
       srv\<lparr>srv_ssh := (srv_ssh srv)\<lparr>ssh_host_key_fingerprint := Some fp\<rparr>\<rparr>) c))) (\<lambda>_.
     io_ret (JObj [(''server_id'', JStr sid), (''host_key_fingerprint'', JStr fp)]))))))"

definition close_terminals :: "string \<Rightarrow> ('w, 'st, 'c) DaemonState \<Rightarrow> ('w, 'st, 'c) DaemonState" where
  "close_terminals sid s =
     (let (m, ns) = close_all_for_server sid (terminal_manager s)
      in s\<lparr>terminal_manager := m, notices := notices s @ ns\<rparr>)"

text \<open>A slot is released that connecting never took.\<close>

definition handle_disconnect_server ::
  "('w, 'st, 'c) daemon_env \<Rightarrow> json \<Rightarrow> (('w, 'st, 'c) DaemonState, json) handler" where
  "handle_disconnect_server env params =
     io_bind (str_param params ''server_id'') (\<lambda>sid.
     io_bind (change (cli_focus params sid (Some ''connection''))) (\<lambda>_.
     io_bind (the_server env sid) (\<lambda>_.
     io_bind (io_map_err (core_error env) (disconnect_server env sid)) (\<lambda>_.
     io_bind (change (close_terminals sid)) (\<lambda>_.
     io_bind (change (\<lambda>s. s\<lparr>server_manager := release_connection (server_manager s)\<rparr>)) (\<lambda>_.
     io_bind (change (log_and_broadcast env (Some sid) Info Connection ''Disconnected'')) (\<lambda>_.
     io_bind (change (status_event sid ''disconnected'' [])) (\<lambda>_.
     io_ret (JObj [(''server_id'', JStr sid), (''status'', JStr ''disconnected'')])))))))))"


section \<open>Changing a server\<close>

definition port_param :: "json \<Rightarrow> string \<Rightarrow> u16 option" where
  "port_param params k = map_option ucast (json_u64 params k)"

definition update_ssh :: "(string, json) hm \<Rightarrow> SshConfig \<Rightarrow> SshConfig" where
  "update_ssh m =
     put_opt (\<lambda>v c. c\<lparr>ssh_key_path := v\<rparr>) (json_str (JObj m) ''key_path'')
     \<circ> put_opt (\<lambda>v c. c\<lparr>ssh_auth_method := v\<rparr>) (json_str (JObj m) ''auth_method'')
     \<circ> put_opt (\<lambda>v c. c\<lparr>ssh_user := v\<rparr>) (json_str (JObj m) ''user'')
     \<circ> put_opt (\<lambda>v c. c\<lparr>ssh_port := v\<rparr>) (port_param (JObj m) ''port'')
     \<circ> put_opt (\<lambda>v c. c\<lparr>ssh_host := v\<rparr>) (json_str (JObj m) ''host'')"

definition clamp_timeout :: "u64 \<Rightarrow> u64" where
  "clamp_timeout v = (if v = 0 then 0 else if v < 3 then 3 else if 259200 < v then 259200 else v)"

definition update_server_config :: "json \<Rightarrow> ServerConfig \<Rightarrow> ServerConfig" where
  "update_server_config ps =
     put_opt (\<lambda>v s. s\<lparr>srv_reconnect := (srv_reconnect s)\<lparr>rc_reconnect_timeout_secs := clamp_timeout v\<rparr>\<rparr>)
       (json_u64 ps ''reconnect_timeout_secs'')
     \<circ> put_opt (\<lambda>v s. s\<lparr>srv_reconnect := (srv_reconnect s)\<lparr>rc_auto_reconnect := v\<rparr>\<rparr>) (json_bool ps ''auto_reconnect'')
     \<circ> put_opt (\<lambda>m s. s\<lparr>srv_ssh := update_ssh m (srv_ssh s)\<rparr>) (json_object ps ''ssh'')
     \<circ> put_opt (\<lambda>v s. s\<lparr>srv_proxy := (srv_proxy s)\<lparr>px_mixed_port := v\<rparr>\<rparr>) (port_param ps ''mixed_port'')
     \<circ> put_opt (\<lambda>v s. s\<lparr>srv_proxy := (srv_proxy s)\<lparr>px_http_port := v\<rparr>\<rparr>) (port_param ps ''http_port'')
     \<circ> put_opt (\<lambda>v s. s\<lparr>srv_proxy := (srv_proxy s)\<lparr>px_socks5_port := v\<rparr>\<rparr>) (port_param ps ''socks5_port'')
     \<circ> put_opt (\<lambda>v s. s\<lparr>srv_name := v\<rparr>) (json_str ps ''name'')"

definition reload_server ::
  "('w, 'st, 'c) daemon_env \<Rightarrow> string \<Rightarrow> ServerConfig \<Rightarrow> ('w, 'st, 'c) DaemonState \<Rightarrow> ('w, 'st, 'c) DaemonState" where
  "reload_server env sid cfg s =
     (let (m, w) = reload_server_config (d_ssh env sid) sid cfg (server_manager s) (world s)
      in s\<lparr>server_manager := m, world := w, wired := removeAll sid (wired s)\<rparr>)"

definition handle_update_server ::
  "('w, 'st, 'c) daemon_env \<Rightarrow> json \<Rightarrow> (('w, 'st, 'c) DaemonState, json) handler" where
  "handle_update_server env params =
     io_bind (str_param params ''server_id'') (\<lambda>sid.
     io_bind (check_ports (port_param params ''socks5_port'') (port_param params ''http_port'')
       (port_param params ''mixed_port'') (Some sid)) (\<lambda>_.
     io_bind (modify_config env (\<lambda>c.
       let c' = on_server_config sid (update_server_config params) c in (find_server c' sid, c'))) (\<lambda>updated.
     io_bind (change (case updated of Some cfg \<Rightarrow> reload_server env sid cfg | None \<Rightarrow> id)) (\<lambda>_.
     io_ret (JObj [(''server_id'', JStr sid)])))))"

section \<open>The way to authenticate\<close>

text \<open>The instance keeps its old configuration: neither request reloads it.\<close>

definition handle_configure_key_auth ::
  "('w, 'st, 'c) daemon_env \<Rightarrow> json \<Rightarrow> (('w, 'st, 'c) DaemonState, json) handler" where
  "handle_configure_key_auth env params =
     io_bind (str_param params ''server_id'') (\<lambda>sid.
     let key_path = str_or [] (json_str params ''key_path'') in
     io_bind (case json_str params ''passphrase'' of
         Some pass \<Rightarrow> if pass = [] then io_ret () else save_credential env ''passphrase'' sid KEY_PASSPHRASE pass
       | None \<Rightarrow> io_ret ()) (\<lambda>_.
     io_bind (modify_config env (\<lambda>c. ((), on_server_config sid (\<lambda>srv.
       srv\<lparr>srv_ssh := (srv_ssh srv)\<lparr>ssh_auth_method := ''key'', ssh_key_path := key_path\<rparr>\<rparr>) c))) (\<lambda>_.
     io_ret (JObj [(''server_id'', JStr sid), (''configured'', JBool True)]))))"

definition forget_secret ::
  "('w, 'st, 'c) daemon_env \<Rightarrow> string \<Rightarrow> string \<Rightarrow> string \<Rightarrow> ('w, 'st, 'c) DaemonState \<Rightarrow> ('w, 'st, 'c) DaemonState" where
  "forget_secret env sid kind message s =
     log_and_broadcast env (Some sid) Info System message
       (s\<lparr>credentials := snd (cs_delete (d_creds env) (make_key sid kind) (credentials s))\<rparr>)"

definition handle_switch_auth_method ::
  "('w, 'st, 'c) daemon_env \<Rightarrow> json \<Rightarrow> (('w, 'st, 'c) DaemonState, json) handler" where
  "handle_switch_auth_method env params =
     io_bind (str_param params ''server_id'') (\<lambda>sid.
     io_bind (str_param params ''auth_method'') (\<lambda>auth.
     io_bind (query (\<lambda>s. case find_server (current_config s) sid of
        Some srv \<Rightarrow> ssh_auth_method (srv_ssh srv) | None \<Rightarrow> [])) (\<lambda>old.
     io_bind (modify_config env (\<lambda>c. ((), on_server_config sid (\<lambda>srv.
       srv\<lparr>srv_ssh := (srv_ssh srv)\<lparr>ssh_auth_method := auth\<rparr>\<rparr>) c))) (\<lambda>_.
     io_bind (change (
       if old = ''password'' \<and> auth = ''key'' then
         forget_secret env sid PASSWORD ''Switched to key auth, removed password from keychain''
       else if old = ''key'' \<and> auth = ''password'' then
         forget_secret env sid KEY_PASSPHRASE ''Switched to password auth, removed key passphrase from keychain''
       else id)) (\<lambda>_.
     io_ret (JObj [(''server_id'', JStr sid), (''auth_method'', JStr auth)]))))))"

section \<open>Export and import\<close>

definition handle_export_servers :: "('w, 'st, 'c) daemon_env \<Rightarrow> (('w, 'st, 'c) DaemonState, json) handler" where
  "handle_export_servers env =
     io_bind (query (\<lambda>s. servers_json env (cfg_servers (current_config s)))) (\<lambda>r.
     io_bind (lift_result (\<lambda>e. Fails (IpcError Internal (''export error: '' @ e))) r) (\<lambda>j.
     io_ret (JObj [(''servers'', j)])))"

fun import_new :: "ServerConfig list \<Rightarrow> nat \<times> Config \<Rightarrow> nat \<times> Config" where
  "import_new [] nc = nc"
| "import_new (srv # srvs) (n, c) =
     import_new srvs (if find_server c (srv_id srv) = None
       then (n + 1, c\<lparr>cfg_servers := cfg_servers c @ [srv]\<rparr>) else (n, c))"

definition handle_import_servers ::
  "('w, 'st, 'c) daemon_env \<Rightarrow> json \<Rightarrow> (('w, 'st, 'c) DaemonState, json) handler" where
  "handle_import_servers env params =
     io_bind (lift_result (\<lambda>e. Fails (IpcError InvalidParams (''invalid servers: '' @ e)))
       (servers_of env (json_index params ''servers''))) (\<lambda>srvs.
     io_bind (modify_config env (\<lambda>c. import_new srvs (0, c))) (\<lambda>imported.
     io_ret (JObj [(''imported'', jnat imported)])))"

text \<open>
  \<open>Path::file_name\<close>: the last component that is not a dot, unless it is two dots.  What of it may
  stand in a pattern of sed is decided by Unicode's tables, a parameter.
\<close>

definition file_name :: "string \<Rightarrow> string option" where
  "file_name path =
     (case rev (filter (\<lambda>p. p \<noteq> [] \<and> p \<noteq> ''.'') (split_on CHR ''/'' path)) of
        [] \<Rightarrow> None | p # _ \<Rightarrow> if p = ''..'' then None else Some p)"

definition cleanup_command :: "(string \<Rightarrow> string) \<Rightarrow> string \<Rightarrow> string" where
  "cleanup_command sanitize path =
     (let safe = sanitize (str_or ''termfast'' (file_name path)); name = (if safe = [] then ''termfast'' else safe)
      in ''sed -i '' @ quoted (''/# termfast: '' @ name @ ''/{N;d}'') @ '' ~/.ssh/authorized_keys 2>/dev/null || true'')"

definition handle_cleanup_authorized_keys ::
  "('w, 'st, 'c) daemon_env \<Rightarrow> json \<Rightarrow> (('w, 'st, 'c) DaemonState, json) handler" where
  "handle_cleanup_authorized_keys env params =
     io_bind (str_param params ''server_id'') (\<lambda>sid.
     io_bind (the_server env sid) (\<lambda>si.
     io_bind (query (\<lambda>s. env_handle (d_ssh env sid) (world s))) (\<lambda>handle.
     if \<not> handle then reject Internal ''no SSH connection''
     else
     io_bind (change (\<lambda>s. let key_path = ssh_key_path (srv_ssh (si_config si))
       in if key_path = [] then s
          else s\<lparr>world := snd (env_exec (d_ssh env sid) (cleanup_command (name_chars env) key_path) 10 (world s))\<rparr>)) (\<lambda>_.
     io_bind (change (drop_secrets env sid)) (\<lambda>_.
     io_ret (JObj [(''server_id'', JStr sid), (''cleaned'', JBool True)]))))))"

end
