(* ===== verification/SettingsHandlers.thy ===== *)
theory SettingsHandlers
  imports ServerHandlers
begin

text \<open>
  The requests about the configuration, the log, the proxies, the system proxy and the credentials
  (\<open>crates/daemon/src/handler.rs\<close>).  The test of a proxy is in \<open>ProxyTest\<close>.
\<close>

section \<open>Configuration and log\<close>

definition handle_get_config :: "('w, 'st, 'c) daemon_env \<Rightarrow> (('w, 'st, 'c) DaemonState, json) handler" where
  "handle_get_config env =
     io_bind (query (\<lambda>s. config_json env (current_config s))) (\<lambda>r.
     lift_result (\<lambda>e. Fails (IpcError Internal (''config serialization error: '' @ e))) r)"

definition handle_get_daemon_status :: "('w, 'st, 'c) daemon_env \<Rightarrow> (('w, 'st, 'c) DaemonState, json) handler" where
  "handle_get_daemon_status env =
     query (\<lambda>s. JObj [(''running'', JBool True), (''server_count'', jnat (length (list_server_ids (server_manager s)))),
       (''log_count'', jnat (log_len (log_buffer s))), (''version'', JStr (d_package env))])"

definition handle_get_logs ::
  "('w, 'st, 'c) daemon_env \<Rightarrow> json \<Rightarrow> (('w, 'st, 'c) DaemonState, json) handler" where
  "handle_get_logs env params =
     (let limit = (case json_u64 params ''limit'' of Some n \<Rightarrow> unat n | None \<Rightarrow> 1000)
      in io_bind (query (\<lambda>s. logs_json env (get_entries_tail (json_str params ''server_id'') None None limit (log_buffer s)))) (\<lambda>r.
         io_bind (lift_result (\<lambda>e. Fails (IpcError Internal (''log serialization error: '' @ e))) r) (\<lambda>j.
         io_ret (JObj [(''logs'', j)]))))"

definition handle_clear_logs :: "(('w, 'st, 'c) DaemonState, json) handler" where
  "handle_clear_logs =
     io_bind (change (\<lambda>s. s\<lparr>log_buffer := log_clear (log_buffer s)\<rparr>)) (\<lambda>_. io_ret (JObj [(''cleared'', JBool True)]))"

definition handle_export_logs ::
  "('w, 'st, 'c) daemon_env \<Rightarrow> json \<Rightarrow> (('w, 'st, 'c) DaemonState, json) handler" where
  "handle_export_logs env params =
     io_bind (query (\<lambda>s. get_entries (json_str params ''server_id'') None None (log_buffer s))) (\<lambda>es.
     io_bind (lift_result (\<lambda>e. Fails (IpcError Internal (''log export error: '' @ e))) (logs_json env es)) (\<lambda>j.
     io_ret (JObj [(''logs'', j), (''count'', jnat (length es))])))"

text \<open>The \<open>filter_map\<close> over the variables: entries without a name or a value are left out.\<close>

definition custom_variable_of :: "json \<Rightarrow> CustomVariable option" where
  "custom_variable_of v =
     Option.bind (json_str v ''name'') (\<lambda>n. map_option (\<lambda>x. \<lparr>cv_name = n, cv_value = x\<rparr>) (json_str v ''value''))"

definition update_general :: "json \<Rightarrow> GeneralConfig \<Rightarrow> GeneralConfig" where
  "update_general ps =
     put_opt (\<lambda>v g. g\<lparr>gen_dev_idle_threshold_secs := ucast v\<rparr>) (json_u64 ps ''dev_idle_threshold_secs'')
     \<circ> put_opt (\<lambda>v g. g\<lparr>gen_dev_devtools := v\<rparr>) (json_bool ps ''dev_devtools'')
     \<circ> put_opt (\<lambda>v g. g\<lparr>gen_dev_terminal_log := v\<rparr>) (json_bool ps ''dev_terminal_log'')
     \<circ> put_opt (\<lambda>v g. g\<lparr>gen_http_proxy_url := v\<rparr>) (json_str ps ''http_proxy_url'')
     \<circ> put_opt (\<lambda>v g. g\<lparr>gen_http_proxy_mode := v\<rparr>) (json_str ps ''http_proxy_mode'')
     \<circ> put_opt (\<lambda>vs g. g\<lparr>gen_custom_variables := List.map_filter custom_variable_of vs\<rparr>) (json_array ps ''custom_variables'')
     \<circ> put_opt (\<lambda>v g. g\<lparr>gen_log_max_size_mb := ucast v\<rparr>) (json_u64 ps ''log_max_size_mb'')
     \<circ> put_opt (\<lambda>v g. g\<lparr>gen_log_max_days := ucast v\<rparr>) (json_u64 ps ''log_max_days'')
     \<circ> put_opt (\<lambda>v g. g\<lparr>gen_log_to_file := v\<rparr>) (json_bool ps ''log_to_file'')
     \<circ> put_opt (\<lambda>v g. g\<lparr>gen_log_level := v\<rparr>) (json_str ps ''log_level'')
     \<circ> put_opt (\<lambda>v g. g\<lparr>gen_minimize_to_tray := v\<rparr>) (json_bool ps ''minimize_to_tray'')
     \<circ> put_opt (\<lambda>v g. g\<lparr>gen_auto_start := v\<rparr>) (json_bool ps ''auto_start'')
     \<circ> put_opt (\<lambda>v g. g\<lparr>gen_language := v\<rparr>) (json_str ps ''language'')
     \<circ> put_opt (\<lambda>v g. g\<lparr>gen_theme := v\<rparr>) (json_str ps ''theme'')"

text \<open>The custom variables go to every server's engine; the engine of the local triggers is left out.\<close>

definition push_variables :: "('w, 'st, 'c) DaemonState \<Rightarrow> ('w, 'st, 'c) DaemonState" where
  "push_variables s =
     (let vs = gen_custom_variables (cfg_general (current_config s))
      in on_all_servers (\<lambda>si. si\<lparr>trigger_engine := set_custom_variables vs (trigger_engine si)\<rparr>) s)"

definition handle_update_general_config ::
  "('w, 'st, 'c) daemon_env \<Rightarrow> json \<Rightarrow> (('w, 'st, 'c) DaemonState, json) handler" where
  "handle_update_general_config env params =
     io_bind (modify_config env (\<lambda>c. ((), c\<lparr>cfg_general := update_general params (cfg_general c)\<rparr>))) (\<lambda>_.
     io_bind (change push_variables) (\<lambda>_.
     io_ret (JObj [(''updated'', JBool True)])))"

definition handle_shutdown :: "(('w, 'st, 'c) DaemonState, json) handler" where
  "handle_shutdown =
     io_bind (change (\<lambda>s. s\<lparr>shutdown_notified := True\<rparr>)) (\<lambda>_. io_ret (JObj [(''shutting_down'', JBool True)]))"

section \<open>Proxies\<close>

definition handle_toggle_proxy ::
  "('w, 'st, 'c) daemon_env \<Rightarrow> json \<Rightarrow> (('w, 'st, 'c) DaemonState, json) handler" where
  "handle_toggle_proxy env params =
     io_bind (str_param params ''server_id'') (\<lambda>sid.
     io_bind (require InvalidParams ''missing enabled'' (json_bool params ''enabled'')) (\<lambda>enabled.
     let answer = (\<lambda>b. JObj [(''server_id'', JStr sid), (''proxy_enabled'', JBool b)]) in
     io_bind (change (cli_focus params sid (Some ''proxy''))) (\<lambda>_.
     io_bind (the_server env sid) (\<lambda>si.
     if enabled \<and> proxy_running si then
       io_bind (change (proxy_event sid True)) (\<lambda>_. io_ret (answer True))
     else if enabled \<and> \<not> opener_handle si then
       reject Internal ''SSH connection is not active, please connect first''
     else
       io_bind (change (if enabled
           then (\<lambda>s. log_and_broadcast env (Some sid) Info Proxy
             (''Proxy started (SOCKS5:'' @ show_nat (unat (px_socks5_port (srv_proxy (si_config si))))
              @ '', HTTP:'' @ show_nat (unat (px_http_port (srv_proxy (si_config si)))) @ '')'')
             (on_server sid start_proxy s))
           else (\<lambda>s. log_and_broadcast env (Some sid) Info Proxy ''Proxy stopped'' (on_server sid stop_proxy s)))) (\<lambda>_.
       io_bind (change (proxy_event sid enabled)) (\<lambda>_. io_ret (answer enabled)))))))"

definition handle_get_proxy_status ::
  "('w, 'st, 'c) daemon_env \<Rightarrow> json \<Rightarrow> (('w, 'st, 'c) DaemonState, json) handler" where
  "handle_get_proxy_status env params =
     io_bind (str_param params ''server_id'') (\<lambda>sid.
     io_bind (the_server env sid) (\<lambda>si.
     io_ret (JObj [(''server_id'', JStr sid), (''proxy_enabled'', JBool (proxy_running si)),
       (''socks5_port'', jword (px_socks5_port (srv_proxy (si_config si)))),
       (''http_port'', jword (px_http_port (srv_proxy (si_config si))))])))"

definition advanced_enabled :: "bool option \<Rightarrow> bool option \<Rightarrow> ServerConfig \<Rightarrow> ServerConfig" where
  "advanced_enabled socks5 http srv =
     (let on = (if socks5 = Some True \<or> http = Some True then True else px_enabled (srv_proxy srv));
          b = (if socks5 = Some False \<and> http = Some False then False else on)
      in srv\<lparr>srv_proxy := (srv_proxy srv)\<lparr>px_enabled := b\<rparr>\<rparr>)"

definition handle_toggle_proxy_advanced ::
  "('w, 'st, 'c) daemon_env \<Rightarrow> json \<Rightarrow> (('w, 'st, 'c) DaemonState, json) handler" where
  "handle_toggle_proxy_advanced env params =
     io_bind (str_param params ''server_id'') (\<lambda>sid.
     let socks5 = json_bool params ''socks5_enabled''; http = json_bool params ''http_enabled'';
         should_run = (socks5 = Some True \<or> http = Some True) in
     io_bind (the_server env sid) (\<lambda>_.
     io_bind (modify_config env (\<lambda>c. ((), on_server_config sid (advanced_enabled socks5 http) c))) (\<lambda>_.
     io_bind (change (on_server sid (if should_run then start_proxy else stop_proxy))) (\<lambda>_.
     io_bind (change (proxy_event sid should_run)) (\<lambda>_.
     io_ret (JObj [(''server_id'', JStr sid), (''socks5_enabled'', JBool (socks5 = Some True)),
       (''http_enabled'', JBool (http = Some True))]))))))"

section \<open>The system proxy\<close>

definition system_proxy_config :: "string \<Rightarrow> ServerConfig \<Rightarrow> SystemProxyConfig" where
  "system_proxy_config sid cfg =
     (let p = srv_proxy cfg; mixed = px_mixed_port p
      in \<lparr>spc_server_id = sid, spc_socks5_port = (if 0 < mixed then mixed else px_socks5_port p),
          spc_http_port = (if 0 < mixed then mixed else px_http_port p)\<rparr>)"

definition set_system_proxy_id :: "string option \<Rightarrow> Config \<Rightarrow> Config" where
  "set_system_proxy_id sid c = c\<lparr>cfg_general := (cfg_general c)\<lparr>gen_system_proxy_server_id := sid\<rparr>\<rparr>"

definition on_world :: "('w \<Rightarrow> ('e + 'a) \<times> 'w) \<Rightarrow> (('w, 'st, 'c) DaemonState, 'e, 'a) io" where
  "on_world f s = (let (r, w) = f (world s) in (r, s\<lparr>world := w\<rparr>))"

definition handle_set_system_proxy ::
  "('w, 'st, 'c) daemon_env \<Rightarrow> json \<Rightarrow> (('w, 'st, 'c) DaemonState, json) handler" where
  "handle_set_system_proxy env params =
     io_bind (str_param params ''server_id'') (\<lambda>sid.
     io_bind (change (cli_focus params sid (Some ''proxy''))) (\<lambda>_.
     io_bind (the_server env sid) (\<lambda>si.
     let pc = system_proxy_config sid (si_config si) in
     io_bind (io_map_err (\<lambda>e. Fails (IpcError Internal (''set system proxy error: '' @ e))) (on_world (set_proxy env pc))) (\<lambda>r.
     if \<not> spr_success r then reject NeedsPrivilege (spr_message r)
     else
     io_bind (modify_config env (\<lambda>c. ((), set_system_proxy_id (Some sid) c))) (\<lambda>_.
     io_bind (change (broadcast ''system_proxy:changed'' (JObj [(''server_id'', JStr sid), (''success'', JBool True)]))) (\<lambda>_.
     io_bind (change (log_and_broadcast env (Some sid) Info Proxy
       (''System proxy set to SOCKS5:'' @ show_nat (unat (spc_socks5_port pc)) @ '', HTTP:'' @ show_nat (unat (spc_http_port pc))))) (\<lambda>_.
     io_ret (JObj [(''system_proxy_server_id'', JStr sid), (''success'', JBool (spr_success r)),
       (''needs_privilege'', JBool (needs_privilege r)), (''message'', JStr (spr_message r))]))))))))"

text \<open>The result of the adapter is passed on but not looked at.\<close>

definition handle_clear_system_proxy :: "('w, 'st, 'c) daemon_env \<Rightarrow> (('w, 'st, 'c) DaemonState, json) handler" where
  "handle_clear_system_proxy env =
     io_bind (io_map_err (\<lambda>e. Fails (IpcError Internal (''clear system proxy error: '' @ e))) (on_world (clear_proxy env))) (\<lambda>r.
     io_bind (modify_config env (\<lambda>c. ((), set_system_proxy_id None c))) (\<lambda>_.
     io_bind (change (broadcast ''system_proxy:changed'' (JObj [(''cleared'', JBool True)]))) (\<lambda>_.
     io_bind (change (log_and_broadcast env None Info Proxy ''System proxy cleared'')) (\<lambda>_.
     io_ret (JObj [(''cleared'', JBool True), (''success'', JBool (spr_success r)), (''message'', JStr (spr_message r))])))))"

definition handle_get_system_proxy :: "(('w, 'st, 'c) DaemonState, json) handler" where
  "handle_get_system_proxy =
     query (\<lambda>s. JObj [(''system_proxy_server_id'', jopt JStr (gen_system_proxy_server_id (cfg_general (current_config s))))])"

section \<open>Credentials\<close>

definition handle_save_credential ::
  "('w, 'st, 'c) daemon_env \<Rightarrow> json \<Rightarrow> (('w, 'st, 'c) DaemonState, json) handler" where
  "handle_save_credential env params =
     io_bind (str_param params ''server_id'') (\<lambda>sid.
     io_bind (str_param params ''credential_type'') (\<lambda>kind.
     io_bind (str_param params ''value'') (\<lambda>v.
     io_bind (save_credential env ''credential'' sid kind v) (\<lambda>_. io_ret (JObj [(''saved'', JBool True)])))))"

definition handle_has_credential ::
  "('w, 'st, 'c) daemon_env \<Rightarrow> json \<Rightarrow> (('w, 'st, 'c) DaemonState, json) handler" where
  "handle_has_credential env params =
     io_bind (str_param params ''server_id'') (\<lambda>sid.
     io_bind (str_param params ''credential_type'') (\<lambda>kind.
     query (\<lambda>s. JObj [(''exists'', JBool (cs_has (d_creds env) (make_key sid kind) (credentials s)))])))"

definition handle_delete_credential ::
  "('w, 'st, 'c) daemon_env \<Rightarrow> json \<Rightarrow> (('w, 'st, 'c) DaemonState, json) handler" where
  "handle_delete_credential env params =
     io_bind (str_param params ''server_id'') (\<lambda>sid.
     io_bind (str_param params ''credential_type'') (\<lambda>kind.
     io_bind (delete_credential env ''credential'' sid kind) (\<lambda>_. io_ret (JObj [(''deleted'', JBool True)]))))"

definition PROXY_AUTH :: string where "PROXY_AUTH = ''proxy_auth''"

definition handle_set_proxy_auth ::
  "('w, 'st, 'c) daemon_env \<Rightarrow> json \<Rightarrow> (('w, 'st, 'c) DaemonState, json) handler" where
  "handle_set_proxy_auth env params =
     io_bind (str_param params ''server_id'') (\<lambda>sid.
     io_bind (str_param params ''username'') (\<lambda>user.
     io_bind (str_param params ''password'') (\<lambda>password.
     io_bind (save_credential env ''proxy auth'' sid PROXY_AUTH (user @ '':'' @ password)) (\<lambda>_.
     io_ret (JObj [(''server_id'', JStr sid), (''set'', JBool True)])))))"

definition handle_clear_proxy_auth ::
  "('w, 'st, 'c) daemon_env \<Rightarrow> json \<Rightarrow> (('w, 'st, 'c) DaemonState, json) handler" where
  "handle_clear_proxy_auth env params =
     io_bind (str_param params ''server_id'') (\<lambda>sid.
     io_bind (delete_credential env ''proxy auth'' sid PROXY_AUTH) (\<lambda>_.
     io_ret (JObj [(''server_id'', JStr sid), (''cleared'', JBool True)])))"

end
