(* ===== verification/TriggerHandlers.thy ===== *)
theory TriggerHandlers
  imports SettingsHandlers
begin

text \<open>
  The requests about triggers and their templates (\<open>crates/daemon/src/handler.rs\<close>), and the timers of
  the local triggers (\<open>server.rs\<close>).
\<close>

section \<open>Pausing and resuming\<close>

definition on_engine ::
  "(TriggerEngine \<Rightarrow> TriggerEngine) \<Rightarrow> AuthMethod ServerInstance \<Rightarrow> AuthMethod ServerInstance" where
  "on_engine f si = si\<lparr>trigger_engine := f (trigger_engine si)\<rparr>"

definition handle_pause_all_triggers :: "(('w, 'st, 'c) DaemonState, json) handler" where
  "handle_pause_all_triggers =
     io_bind (change (on_all_servers (on_engine pause_all))) (\<lambda>_. io_ret (JObj [(''paused'', JBool True)]))"

definition pending_json :: "('w, 'st, 'c) daemon_env \<Rightarrow> PendingEvent \<Rightarrow> json" where
  "pending_json env p =
     JObj [(''server_id'', JStr (pe_server_id p)), (''server_name'', JStr (pe_server_name p)),
       (''trigger_type'', JStr (trigger_kind (pe_trigger_type p))), (''new_ip'', jopt JStr (pe_new_ip p)),
       (''old_ip'', jopt JStr (pe_old_ip p)), (''timestamp'', JStr (d_rfc3339 env (pe_timestamp p)))]"

definition handle_resume_all_triggers :: "('w, 'st, 'c) daemon_env \<Rightarrow> (('w, 'st, 'c) DaemonState, json) handler" where
  "handle_resume_all_triggers env =
     io_bind (query (\<lambda>s. map (pending_json env) (concat (map (\<lambda>si. fst (resume_all (trigger_engine si))) (list_servers s))))) (\<lambda>ps.
     io_bind (change (on_all_servers (on_engine (snd \<circ> resume_all)))) (\<lambda>_.
     io_bind (change (broadcast ''triggers:resumed'' (JObj [(''pending_events'', jnat (length ps))]))) (\<lambda>_.
     io_ret (JObj [(''resumed'', JBool True), (''pending_events'', JArr ps)]))))"

definition handle_pause_server_triggers ::
  "('w, 'st, 'c) daemon_env \<Rightarrow> json \<Rightarrow> (('w, 'st, 'c) DaemonState, json) handler" where
  "handle_pause_server_triggers env params =
     io_bind (str_param params ''server_id'') (\<lambda>sid.
     io_bind (the_server env sid) (\<lambda>_.
     io_bind (change (on_server sid (on_engine (pause_server sid)))) (\<lambda>_.
     io_ret (JObj [(''server_id'', JStr sid), (''paused'', JBool True)]))))"

definition handle_resume_server_triggers ::
  "('w, 'st, 'c) daemon_env \<Rightarrow> json \<Rightarrow> (('w, 'st, 'c) DaemonState, json) handler" where
  "handle_resume_server_triggers env params =
     io_bind (str_param params ''server_id'') (\<lambda>sid.
     io_bind (the_server env sid) (\<lambda>_.
     io_bind (change (on_server sid (on_engine (resume_server sid)))) (\<lambda>_.
     io_ret (JObj [(''server_id'', JStr sid), (''paused'', JBool False)]))))"

section \<open>Firing by hand\<close>

text \<open>The name and the number of commands are those of the configuration at hand.\<close>

definition trigger_name_of :: "TriggerInstance list \<Rightarrow> string \<Rightarrow> string" where
  "trigger_name_of ts tid = (case find (\<lambda>t. trg_id t = tid) ts of Some t \<Rightarrow> trg_name t | None \<Rightarrow> tid)"

definition total_commands_of :: "TriggerInstance list \<Rightarrow> string \<Rightarrow> nat" where
  "total_commands_of ts tid = (case find (\<lambda>t. trg_id t = tid) ts of Some t \<Rightarrow> length (trg_commands t) | None \<Rightarrow> 0)"

definition fired_event :: "string \<Rightarrow> string \<Rightarrow> TriggerInstance list \<Rightarrow> ('w, 'st, 'c) DaemonState \<Rightarrow> ('w, 'st, 'c) DaemonState" where
  "fired_event sid tid ts =
     broadcast ''trigger:fired''
       (JObj [(''server_id'', JStr sid), (''trigger_id'', JStr tid), (''trigger_name'', JStr (trigger_name_of ts tid)),
          (''total_commands'', jnat (total_commands_of ts tid))])"

definition completed_event :: "string \<Rightarrow> string \<Rightarrow> TriggerExecutionResult \<Rightarrow> ('w, 'st, 'c) DaemonState \<Rightarrow> ('w, 'st, 'c) DaemonState" where
  "completed_event sid tid r =
     broadcast ''trigger:completed''
       (JObj [(''server_id'', JStr sid), (''trigger_id'', JStr tid), (''success'', JBool (ter_success r)),
          (''executed_commands'', jnat (ter_executed_commands r)), (''total_commands'', jnat (ter_total_commands r))])"

definition log_command ::
  "('w, 'st, 'c) daemon_env \<Rightarrow> string \<Rightarrow> CommandResult \<Rightarrow> ('w, 'st, 'c) DaemonState \<Rightarrow> ('w, 'st, 'c) DaemonState" where
  "log_command env sid c s =
     (let s1 = log_and_broadcast env (Some sid) Info Trigger (''$ '' @ cr_command c) s;
          s2 = (if cr_stdout c = [] then s1 else log_and_broadcast env (Some sid) Info Trigger (trim (cr_stdout c)) s1)
      in if cr_stderr c = [] then s2 else log_and_broadcast env (Some sid) Warn Trigger (trim (cr_stderr c)) s2)"

definition fired_message :: "string \<Rightarrow> string \<Rightarrow> TriggerExecutionResult \<Rightarrow> string" where
  "fired_message what name r =
     what @ quoted name @ (if ter_success r then '' executed successfully '' else '' execution failed '')
     @ fraction (ter_executed_commands r) (ter_total_commands r)"

definition result_command_json :: "CommandResult \<Rightarrow> json" where
  "result_command_json c =
     JObj [(''command'', JStr (cr_command c)), (''exit_code'', jword (cr_exit_code c)), (''stdout'', JStr (cr_stdout c)),
       (''stderr'', JStr (cr_stderr c)), (''success'', JBool (cr_success c))]"

definition report_manual ::
  "('w, 'st, 'c) daemon_env \<Rightarrow> string \<Rightarrow> string \<Rightarrow> string \<Rightarrow> string \<Rightarrow> TriggerExecutionResult \<Rightarrow>
   (('w, 'st, 'c) DaemonState, json) handler" where
  "report_manual env what sid tid name r =
     io_bind (change (completed_event sid tid r)) (\<lambda>_.
     io_bind (change (log_and_broadcast env (Some sid) (if ter_success r then Info else ErrorLevel) Trigger (fired_message what name r))) (\<lambda>_.
     io_bind (change (fold (log_command env sid) (ter_results r))) (\<lambda>_.
     io_ret (JObj [(''server_id'', JStr sid), (''trigger_id'', JStr tid), (''success'', JBool (ter_success r)),
       (''executed_commands'', jnat (ter_executed_commands r)), (''total_commands'', jnat (ter_total_commands r)),
       (''results'', JArr (map result_command_json (ter_results r)))]))))"

text \<open>\<open>ServerInstance::manual_fire_trigger\<close>: the instance's current triggers are searched.\<close>

definition manual_fire_trigger ::
  "('w, 'st, 'c) daemon_env \<Rightarrow> string \<Rightarrow> string \<Rightarrow> (('w, 'st, 'c) DaemonState, TriggerExecutionResult) handler" where
  "manual_fire_trigger env sid tid s =
     (case hm_get (servers (server_manager s)) sid of
        None \<Rightarrow> (Inl Panics, s)
      | Some si \<Rightarrow>
          (case manual_fire (env_runner (d_ssh env sid)) (srv_id (si_config si)) (srv_name (si_config si)) tid
             (triggers si) (trigger_engine si) (world s) of (r, e, w) \<Rightarrow>
             (let s1 = put_server sid (si\<lparr>trigger_engine := e\<rparr>) (s\<lparr>world := w\<rparr>)
              in case r of None \<Rightarrow> (Inl Panics, s1) | Some x \<Rightarrow> (map_err (core_error env) x, s1))))"

definition handle_manual_fire_trigger ::
  "('w, 'st, 'c) daemon_env \<Rightarrow> json \<Rightarrow> (('w, 'st, 'c) DaemonState, json) handler" where
  "handle_manual_fire_trigger env params =
     io_bind (str_param params ''server_id'') (\<lambda>sid.
     io_bind (str_param params ''trigger_id'') (\<lambda>tid.
     io_bind (change (cli_focus params sid (Some ''triggers''))) (\<lambda>_.
     io_bind (the_server env sid) (\<lambda>si.
     let ts = srv_triggers (si_config si) in
     io_bind (change (fired_event sid tid ts)) (\<lambda>_.
     io_bind (manual_fire_trigger env sid tid) (\<lambda>r.
     report_manual env ''Trigger '' sid tid (trigger_name_of ts tid) r))))))"

definition fire_local ::
  "('w, 'st, 'c) daemon_env \<Rightarrow> string \<Rightarrow> TriggerInstance list \<Rightarrow> (('w, 'st, 'c) DaemonState, TriggerExecutionResult) handler" where
  "fire_local env tid ts s =
     (case manual_fire (d_local env) LOCAL ''My Computer'' tid ts (local_trigger_engine s) (world s) of (r, e, w) \<Rightarrow>
        (let s1 = s\<lparr>local_trigger_engine := e, world := w\<rparr>
         in case r of None \<Rightarrow> (Inl Panics, s1) | Some x \<Rightarrow> (map_err (internal env) x, s1)))"

definition handle_manual_fire_local_trigger ::
  "('w, 'st, 'c) daemon_env \<Rightarrow> json \<Rightarrow> (('w, 'st, 'c) DaemonState, json) handler" where
  "handle_manual_fire_local_trigger env params =
     io_bind (str_param params ''trigger_id'') (\<lambda>tid.
     io_bind (query (\<lambda>s. cfg_local_triggers (current_config s))) (\<lambda>ts.
     io_bind (change (fired_event LOCAL tid ts)) (\<lambda>_.
     io_bind (fire_local env tid ts) (\<lambda>r.
     report_manual env ''Local trigger '' LOCAL tid (trigger_name_of ts tid) r))))"


section \<open>Local triggers and their timers\<close>

definition inject_commands :: "string \<Rightarrow> string list \<Rightarrow> ('w, 'st, 'c) DaemonState \<Rightarrow> ('w, 'st, 'c) DaemonState" where
  "inject_commands sid texts s =
     s\<lparr>terminal_manager := fold (\<lambda>c m. snd (input_with_ack sid (bytes_of_str c @ [13]) m)) texts (terminal_manager s)\<rparr>"

definition wants_timer :: "TriggerInstance \<Rightarrow> bool" where
  "wants_timer t \<longleftrightarrow>
     (if \<not> trg_enabled t then False
      else if trg_trigger_type t = OnInterval then 0 < trg_interval_secs t
      else if trg_trigger_type t = OnSchedule then
        trg_schedule_mode t = ''cron'' \<and> trg_cron_expr t \<noteq> [] \<or> trg_schedule_mode t = ''once'' \<and> trg_scheduled_at t \<noteq> []
      else False)"

definition timer_starts :: "('w, 'st, 'c) daemon_env \<Rightarrow> TriggerInstance \<Rightarrow> bool" where
  "timer_starts env t \<longleftrightarrow>
     (if trg_trigger_type t = OnInterval then True
      else if trg_schedule_mode t = ''once'' then (case d_delay env (trg_scheduled_at t) of Some d \<Rightarrow> 0 < d | None \<Rightarrow> False)
      else d_cron_ok env (trg_cron_expr t))"

definition start_local_interval_timers ::
  "('w, 'st, 'c) daemon_env \<Rightarrow> ('w, 'st, 'c) DaemonState \<Rightarrow> ('w, 'st, 'c) DaemonState" where
  "start_local_interval_timers env s =
     s\<lparr>local_timers := filter (timer_starts env) (filter wants_timer (cfg_local_triggers (current_config s)))\<rparr>"

text \<open>
  What a timer does when it goes off.  The task keeps the flags of the time it was started; the trigger
  it injects is looked up anew, and the event it fires in the background names a type, not a trigger.
  A panic ends the task.
\<close>

definition local_timer_event :: "TriggerType \<Rightarrow> string option \<Rightarrow> TriggerEvent" where
  "local_timer_event t sid = (manual_event LOCAL ''My Computer'')\<lparr>ev_trigger_type := t, ev_session_id := sid\<rparr>"

definition fire_local_event ::
  "('w, 'st, 'c) daemon_env \<Rightarrow> TriggerInstance list \<Rightarrow> TriggerEvent \<Rightarrow> ('w, 'st, 'c) DaemonState \<Rightarrow>
   TriggerExecutionResult list option \<times> ('w, 'st, 'c) DaemonState" where
  "fire_local_event env ts event s =
     (case fire_event (d_local env) ts (cfg_trigger_templates (current_config s)) event (local_trigger_engine s) (world s) of
        (rs, e, w) \<Rightarrow> (rs, s\<lparr>local_trigger_engine := e, world := w\<rparr>))"

definition run_local_timer ::
  "('w, 'st, 'c) daemon_env \<Rightarrow> TriggerInstance \<Rightarrow> ('w, 'st, 'c) DaemonState \<Rightarrow> bool \<times> ('w, 'st, 'c) DaemonState" where
  "run_local_timer env t s =
     (let ts = cfg_local_triggers (current_config s);
          event = local_timer_event (trg_trigger_type t) None;
          background = (case fire_local_event env ts event s of (rs, s1) \<Rightarrow> (rs \<noteq> None, s1))
      in if \<not> trg_bind_new_terminals t then (True, s)
         else if \<not> trg_exec_in_terminal t then background
         else (case find_session_by_server LOCAL (terminal_manager s) of
             None \<Rightarrow> background
           | Some sid \<Rightarrow>
               (case find (\<lambda>u. trg_id u = trg_id t) ts of
                  None \<Rightarrow> (True, s)
                | Some u \<Rightarrow>
                    (case render_commands (local_trigger_engine s) event u of
                       None \<Rightarrow> (False, s)
                     | Some texts \<Rightarrow> (True, inject_commands sid texts s)))))"

definition local_timer_tick ::
  "('w, 'st, 'c) daemon_env \<Rightarrow> TriggerInstance \<Rightarrow> ('w, 'st, 'c) DaemonState \<Rightarrow> bool \<times> ('w, 'st, 'c) DaemonState" where
  "local_timer_tick env t s =
     (let (ok, s1) = run_local_timer env t s
      in if ok \<and> trg_trigger_type t = OnSchedule \<and> trg_schedule_mode t = ''once''
         then (ok, modify_ignored env (\<lambda>c. c\<lparr>cfg_local_triggers :=
                 upd_first (\<lambda>u. trg_id u = trg_id t) (\<lambda>u. u\<lparr>trg_enabled := False\<rparr>) (cfg_local_triggers c)\<rparr>) s1)
         else (ok, s1))"

definition save_local :: "TriggerInstance \<Rightarrow> Config \<Rightarrow> Config" where
  "save_local t c =
     (let ts = cfg_local_triggers c
      in c\<lparr>cfg_local_triggers :=
           (if list_ex (\<lambda>u. trg_id u = trg_id t) ts then upd_first (\<lambda>u. trg_id u = trg_id t) (\<lambda>_. t) ts else ts @ [t])\<rparr>)"

definition handle_save_local_trigger ::
  "('w, 'st, 'c) daemon_env \<Rightarrow> json \<Rightarrow> (('w, 'st, 'c) DaemonState, json) handler" where
  "handle_save_local_trigger env params =
     io_bind (lift_result (\<lambda>e. Fails (IpcError InvalidParams e)) (trigger_of env (json_index params ''trigger''))) (\<lambda>t.
     io_bind (modify_config env (\<lambda>c. ((), save_local t c))) (\<lambda>_.
     io_bind (change (start_local_interval_timers env)) (\<lambda>_. io_ret (JObj []))))"

definition handle_remove_local_trigger ::
  "('w, 'st, 'c) daemon_env \<Rightarrow> json \<Rightarrow> (('w, 'st, 'c) DaemonState, json) handler" where
  "handle_remove_local_trigger env params =
     io_bind (str_param params ''trigger_id'') (\<lambda>tid.
     io_bind (modify_config env (\<lambda>c. ((), c\<lparr>cfg_local_triggers := filter (\<lambda>t. trg_id t \<noteq> tid) (cfg_local_triggers c)\<rparr>))) (\<lambda>_.
     io_bind (change (start_local_interval_timers env)) (\<lambda>_. io_ret (JObj []))))"

section \<open>Triggers of a server\<close>

text \<open>The hash that is stored with the commands of a template.\<close>

definition with_template :: "('w, 'st, 'c) daemon_env \<Rightarrow> TriggerTemplate \<Rightarrow> TriggerInstance \<Rightarrow> TriggerInstance" where
  "with_template env tmpl t =
     t\<lparr>trg_commands := tmpl_commands tmpl, trg_template_hash_at_addition := hash_hex env (tmpl_commands tmpl)\<rparr>"

definition instantiate_template :: "('w, 'st, 'c) daemon_env \<Rightarrow> Config \<Rightarrow> TriggerInstance \<Rightarrow> TriggerInstance" where
  "instantiate_template env c t =
     (if trg_template_id t = [] then t
      else (case find_template c (trg_template_id t) of Some tmpl \<Rightarrow> with_template env tmpl t | None \<Rightarrow> t))"

text \<open>The instance gets the triggers of the configuration, and its timers start anew.\<close>

definition refresh_triggers :: "('w, 'st, 'c) daemon_env \<Rightarrow> string \<Rightarrow> ('w, 'st, 'c) DaemonState \<Rightarrow> ('w, 'st, 'c) DaemonState" where
  "refresh_triggers env sid s = on_server sid (start_interval_timers (d_ssh env sid)) (sync_triggers sid s)"

definition handle_add_trigger ::
  "('w, 'st, 'c) daemon_env \<Rightarrow> json \<Rightarrow> (('w, 'st, 'c) DaemonState, json) handler" where
  "handle_add_trigger env params =
     io_bind (str_param params ''server_id'') (\<lambda>sid.
     io_bind (lift_result (\<lambda>e. Fails (IpcError InvalidParams (''invalid trigger: '' @ e))) (trigger_of env (json_index params ''trigger''))) (\<lambda>t.
     io_bind (modify_config env (\<lambda>c. ((), on_server_config sid (\<lambda>srv.
       srv\<lparr>srv_triggers := srv_triggers srv @ [instantiate_template env c t]\<rparr>) c))) (\<lambda>_.
     io_bind (the_server env sid) (\<lambda>_.
     io_bind (change (\<lambda>s. on_server sid (\<lambda>si. si\<lparr>trigger_templates := cfg_trigger_templates (current_config s)\<rparr>) s)) (\<lambda>_.
     io_bind (change (refresh_triggers env sid)) (\<lambda>_.
     io_bind (change (broadcast ''trigger:added'' (JObj [(''server_id'', JStr sid), (''trigger_id'', JStr (trg_id t))]))) (\<lambda>_.
     io_ret (JObj [(''server_id'', JStr sid), (''trigger_id'', JStr (trg_id t))]))))))))"

definition handle_remove_trigger ::
  "('w, 'st, 'c) daemon_env \<Rightarrow> json \<Rightarrow> (('w, 'st, 'c) DaemonState, json) handler" where
  "handle_remove_trigger env params =
     io_bind (str_param params ''server_id'') (\<lambda>sid.
     io_bind (str_param params ''trigger_id'') (\<lambda>tid.
     io_bind (modify_config env (\<lambda>c. ((), on_server_config sid (\<lambda>srv.
       srv\<lparr>srv_triggers := filter (\<lambda>t. trg_id t \<noteq> tid) (srv_triggers srv)\<rparr>) c))) (\<lambda>_.
     io_bind (change (refresh_triggers env sid)) (\<lambda>_.
     io_bind (change (broadcast ''trigger:removed'' (JObj [(''server_id'', JStr sid), (''trigger_id'', JStr tid)]))) (\<lambda>_.
     io_ret (JObj [(''server_id'', JStr sid), (''trigger_id'', JStr tid), (''removed'', JBool True)]))))))"

definition update_trigger :: "('w, 'st, 'c) daemon_env \<Rightarrow> json \<Rightarrow> TriggerInstance \<Rightarrow> TriggerInstance" where
  "update_trigger env ps =
     put_opt (\<lambda>v t. t\<lparr>trg_scheduled_at := v\<rparr>) (json_str ps ''scheduled_at'')
     \<circ> put_opt (\<lambda>v t. t\<lparr>trg_cron_expr := v\<rparr>) (json_str ps ''cron_expr'')
     \<circ> put_opt (\<lambda>v t. t\<lparr>trg_schedule_mode := v\<rparr>) (json_str ps ''schedule_mode'')
     \<circ> put_opt (\<lambda>v t. t\<lparr>trg_interval_secs := v\<rparr>) (json_u64 ps ''interval_secs'')
     \<circ> put_opt (\<lambda>v t. t\<lparr>trg_bind_new_terminals := v\<rparr>) (json_bool ps ''bind_new_terminals'')
     \<circ> put_opt (\<lambda>v t. t\<lparr>trg_exec_in_terminal := v\<rparr>) (json_bool ps ''exec_in_terminal'')
     \<circ> put_opt (\<lambda>m t. t\<lparr>trg_parameters := fold (\<lambda>(k, v). hm_insert k (str_or [] (as_str v))) m []\<rparr>) (json_object ps ''parameters'')
     \<circ> put_opt (\<lambda>xs t. t\<lparr>trg_commands := strings_of xs\<rparr>) (json_array ps ''commands'')
     \<circ> put_opt (\<lambda>v t. t\<lparr>trg_notify_on_failure := v\<rparr>) (json_bool ps ''notify_on_failure'')
     \<circ> put_opt (\<lambda>v t. t\<lparr>trg_notify_on_success := v\<rparr>) (json_bool ps ''notify_on_success'')
     \<circ> put_opt (\<lambda>v t. t\<lparr>trg_continue_on_error := v\<rparr>) (json_bool ps ''continue_on_error'')
     \<circ> put_opt (\<lambda>v t. t\<lparr>trg_cooldown_secs := v\<rparr>) (json_u64 ps ''cooldown_secs'')
     \<circ> put_opt (\<lambda>v t. t\<lparr>trg_timeout_secs := v\<rparr>) (json_u64 ps ''timeout_secs'')
     \<circ> put_opt (\<lambda>v t. t\<lparr>trg_enabled := v\<rparr>) (json_bool ps ''enabled'')
     \<circ> put_opt (\<lambda>v t. t\<lparr>trg_trigger_type := v\<rparr>) (Option.bind (json_str ps ''trigger_type'') (trigger_type_of env))
     \<circ> put_opt (\<lambda>v t. t\<lparr>trg_name := v\<rparr>) (json_str ps ''name'')"

definition handle_update_trigger ::
  "('w, 'st, 'c) daemon_env \<Rightarrow> json \<Rightarrow> (('w, 'st, 'c) DaemonState, json) handler" where
  "handle_update_trigger env params =
     io_bind (str_param params ''server_id'') (\<lambda>sid.
     io_bind (str_param params ''trigger_id'') (\<lambda>tid.
     io_bind (modify_config env (\<lambda>c. ((), on_server_config sid (on_trigger tid (update_trigger env params)) c))) (\<lambda>_.
     io_bind (change (refresh_triggers env sid)) (\<lambda>_.
     io_bind (change (broadcast ''trigger:updated'' (JObj [(''server_id'', JStr sid), (''trigger_id'', JStr tid)]))) (\<lambda>_.
     io_ret (JObj [(''server_id'', JStr sid), (''trigger_id'', JStr tid), (''updated'', JBool True)]))))))"

text \<open>The instance is not told: it keeps the old commands until the next connection.\<close>

definition sync_trigger :: "('w, 'st, 'c) daemon_env \<Rightarrow> string \<Rightarrow> string \<Rightarrow> Config \<Rightarrow> Config" where
  "sync_trigger env sid tid c =
     (case Option.bind (find_server c sid) (\<lambda>srv. find (\<lambda>t. trg_id t = tid) (srv_triggers srv)) of
        None \<Rightarrow> c
      | Some t \<Rightarrow>
          (case find_template c (trg_template_id t) of
             None \<Rightarrow> c
           | Some tmpl \<Rightarrow> on_server_config sid (on_trigger tid (with_template env tmpl)) c))"

definition handle_sync_trigger_from_template ::
  "('w, 'st, 'c) daemon_env \<Rightarrow> json \<Rightarrow> (('w, 'st, 'c) DaemonState, json) handler" where
  "handle_sync_trigger_from_template env params =
     io_bind (str_param params ''server_id'') (\<lambda>sid.
     io_bind (str_param params ''trigger_id'') (\<lambda>tid.
     io_bind (modify_config env (\<lambda>c. ((), sync_trigger env sid tid c))) (\<lambda>_.
     io_ret (JObj [(''server_id'', JStr sid), (''trigger_id'', JStr tid), (''synced'', JBool True)]))))"


section \<open>Templates\<close>

definition templates_answer ::
  "('w, 'st, 'c) daemon_env \<Rightarrow> string \<Rightarrow> (('w, 'st, 'c) DaemonState, json) handler" where
  "templates_answer env what =
     io_bind (query (\<lambda>s. templates_json env (cfg_trigger_templates (current_config s)))) (\<lambda>r.
     io_bind (lift_result (\<lambda>e. Fails (IpcError Internal (what @ '' error: '' @ e))) r) (\<lambda>j.
     io_ret (JObj [(''templates'', j)])))"

definition handle_list_templates :: "('w, 'st, 'c) daemon_env \<Rightarrow> (('w, 'st, 'c) DaemonState, json) handler" where
  "handle_list_templates env = templates_answer env ''template serialization''"

definition handle_export_templates :: "('w, 'st, 'c) daemon_env \<Rightarrow> (('w, 'st, 'c) DaemonState, json) handler" where
  "handle_export_templates env = templates_answer env ''export''"

definition handle_create_template ::
  "('w, 'st, 'c) daemon_env \<Rightarrow> json \<Rightarrow> (('w, 'st, 'c) DaemonState, json) handler" where
  "handle_create_template env params =
     io_bind (lift_result (\<lambda>e. Fails (IpcError InvalidParams (''invalid template: '' @ e))) (template_of env (json_index params ''template''))) (\<lambda>t.
     io_bind (modify_config env (\<lambda>c. ((), c\<lparr>cfg_trigger_templates := cfg_trigger_templates c @ [t]\<rparr>))) (\<lambda>_.
     io_ret (JObj [(''template_id'', JStr (tmpl_id t)), (''created'', JBool True)])))"

definition update_template :: "json \<Rightarrow> TriggerTemplate \<Rightarrow> TriggerTemplate" where
  "update_template ps =
     put_opt (\<lambda>v t. t\<lparr>tmpl_timeout_secs := v\<rparr>) (json_u64 ps ''timeout_secs'')
     \<circ> put_opt (\<lambda>v t. t\<lparr>tmpl_check_interval := v\<rparr>) (json_u64 ps ''check_interval'')
     \<circ> put_opt (\<lambda>v t. t\<lparr>tmpl_check_target := v\<rparr>) (json_str ps ''check_target'')
     \<circ> put_opt (\<lambda>xs t. t\<lparr>tmpl_commands := strings_of xs\<rparr>) (json_array ps ''commands'')
     \<circ> put_opt (\<lambda>v t. t\<lparr>tmpl_description := v\<rparr>) (json_str ps ''description'')
     \<circ> put_opt (\<lambda>v t. t\<lparr>tmpl_name := v\<rparr>) (json_str ps ''name'')"

text \<open>Built-in templates can be changed here, though not deleted.\<close>

definition handle_update_template ::
  "('w, 'st, 'c) daemon_env \<Rightarrow> json \<Rightarrow> (('w, 'st, 'c) DaemonState, json) handler" where
  "handle_update_template env params =
     io_bind (str_param params ''template_id'') (\<lambda>tid.
     io_bind (modify_config env (\<lambda>c. ((), on_template tid (update_template params) c))) (\<lambda>_.
     io_ret (JObj [(''template_id'', JStr tid), (''updated'', JBool True)])))"

definition remove_template :: "string \<Rightarrow> Config \<Rightarrow> Config" where
  "remove_template tid c =
     c\<lparr>cfg_trigger_templates := filter (\<lambda>t. tmpl_id t \<noteq> tid \<or> tmpl_built_in t) (cfg_trigger_templates c)\<rparr>"

definition handle_delete_template ::
  "('w, 'st, 'c) daemon_env \<Rightarrow> json \<Rightarrow> (('w, 'st, 'c) DaemonState, json) handler" where
  "handle_delete_template env params =
     io_bind (str_param params ''template_id'') (\<lambda>tid.
     io_bind (modify_config env (\<lambda>c. ((), remove_template tid c))) (\<lambda>_.
     io_ret (JObj [(''template_id'', JStr tid), (''deleted'', JBool True)])))"

definition get_trigger_type_from_template :: "Config \<Rightarrow> string \<Rightarrow> TriggerType" where
  "get_trigger_type_from_template c tid =
     (case find_template c tid of Some t \<Rightarrow> tmpl_trigger_type t | None \<Rightarrow> ManualFire)"

definition template_from :: "Config \<Rightarrow> string \<Rightarrow> string \<Rightarrow> TriggerInstance \<Rightarrow> TriggerTemplate" where
  "template_from c new_id name t =
     \<lparr>tmpl_id = new_id, tmpl_name = name, tmpl_trigger_type = get_trigger_type_from_template c (trg_template_id t),
      tmpl_description = [], tmpl_built_in = False, tmpl_template_version = 1, tmpl_parameters_schema = [],
      tmpl_commands = trg_commands t, tmpl_check_target = [], tmpl_check_interval = 60,
      tmpl_timeout_secs = trg_timeout_secs t\<rparr>"

definition uuid_v4_simple :: "('w, 'st, 'c) daemon_env \<Rightarrow> 'w \<Rightarrow> string" where
  "uuid_v4_simple env w = clock_hash env w"

definition save_as_template :: "string \<Rightarrow> string \<Rightarrow> string \<Rightarrow> string \<Rightarrow> Config \<Rightarrow> string \<times> Config" where
  "save_as_template sid tid name new_id c =
     (case Option.bind (find_server c sid) (\<lambda>srv. find (\<lambda>t. trg_id t = tid) (srv_triggers srv)) of
        None \<Rightarrow> ([], c)
      | Some t \<Rightarrow> (new_id, c\<lparr>cfg_trigger_templates := cfg_trigger_templates c @ [template_from c new_id name t]\<rparr>))"

definition handle_save_trigger_as_template ::
  "('w, 'st, 'c) daemon_env \<Rightarrow> json \<Rightarrow> (('w, 'st, 'c) DaemonState, json) handler" where
  "handle_save_trigger_as_template env params =
     io_bind (str_param params ''server_id'') (\<lambda>sid.
     io_bind (str_param params ''trigger_id'') (\<lambda>tid.
     io_bind (str_param params ''template_name'') (\<lambda>name.
     io_bind (query (\<lambda>s. ''tmpl_'' @ uuid_v4_simple env (world s))) (\<lambda>new_id.
     io_bind (modify_config env (save_as_template sid tid name new_id)) (\<lambda>tmpl.
     io_ret (JObj [(''template_id'', JStr tmpl), (''saved'', JBool True)]))))))"

fun import_templates :: "TriggerTemplate list \<Rightarrow> nat \<times> Config \<Rightarrow> nat \<times> Config" where
  "import_templates [] nc = nc"
| "import_templates (t # ts) (n, c) =
     import_templates ts (if find_template c (tmpl_id t) = None
       then (n + 1, c\<lparr>cfg_trigger_templates := cfg_trigger_templates c @ [t]\<rparr>) else (n, c))"

definition handle_import_templates ::
  "('w, 'st, 'c) daemon_env \<Rightarrow> json \<Rightarrow> (('w, 'st, 'c) DaemonState, json) handler" where
  "handle_import_templates env params =
     io_bind (lift_result (\<lambda>e. Fails (IpcError InvalidParams (''invalid templates: '' @ e)))
       (templates_of env (json_index params ''templates''))) (\<lambda>ts.
     io_bind (modify_config env (\<lambda>c. import_templates ts (0, c))) (\<lambda>imported.
     io_ret (JObj [(''imported'', jnat imported)])))"

end
