(* ===== verification/TerminalHandlers.thy ===== *)
theory TerminalHandlers
  imports TriggerHandlers Tmux
begin

text \<open>
  The requests about terminals and the tmux sessions they attach to (\<open>crates/daemon/src/handler.rs\<close>).
\<close>

section \<open>Terminals\<close>

definition on_terminals ::
  "(TerminalManager \<Rightarrow> ('e + 'a) \<times> TerminalManager) \<Rightarrow> (('w, 'st, 'c) DaemonState, 'e, 'a) io" where
  "on_terminals f s = (let (r, m) = f (terminal_manager s) in (r, s\<lparr>terminal_manager := m\<rparr>))"

definition set_terminals :: "(TerminalManager \<Rightarrow> TerminalManager) \<Rightarrow> ('w, 'st, 'c) DaemonState \<Rightarrow> ('w, 'st, 'c) DaemonState" where
  "set_terminals f s = s\<lparr>terminal_manager := f (terminal_manager s)\<rparr>"

definition notify :: "notice list \<Rightarrow> ('w, 'st, 'c) DaemonState \<Rightarrow> ('w, 'st, 'c) DaemonState" where
  "notify ns s = s\<lparr>notices := notices s @ ns\<rparr>"

definition u32_param :: "json \<Rightarrow> string \<Rightarrow> u32 \<Rightarrow> u32" where
  "u32_param ps k d = (case json_u64 ps k of Some v \<Rightarrow> ucast v | None \<Rightarrow> d)"

definition bools_of :: "(string, json) hm \<Rightarrow> (string, bool) hm" where
  "bools_of m = List.map_filter (\<lambda>(k, v). map_option (Pair k) (as_bool v)) m"

definition terminal_error :: "string \<Rightarrow> stop" where
  "terminal_error e = Fails (IpcError Internal e)"

text \<open>Looking up a server that has a connection; the message differs between the handlers.\<close>

definition connected_server ::
  "('w, 'st, 'c) daemon_env \<Rightarrow> string \<Rightarrow> string \<Rightarrow> (('w, 'st, 'c) DaemonState, AuthMethod ServerInstance) handler" where
  "connected_server env message sid =
     io_bind (io_map_err (\<lambda>e. Fails (IpcError ServerNotFound (d_show_error env e)))
       (\<lambda>s. (get_server sid (server_manager s), s))) (\<lambda>si.
     io_bind (query world) (\<lambda>w.
     if \<not> env_connected (d_ssh env sid) w then reject SshDisconnected message
     else if \<not> env_handle (d_ssh env sid) w then reject SshDisconnected ''SSH handle not available''
     else io_ret si))"

definition open_terminal ::
  "('w, 'st, 'c) daemon_env \<Rightarrow> string \<Rightarrow> u32 \<Rightarrow> u32 \<Rightarrow> (('w, 'st, 'c) DaemonState, string \<times> bytes) handler" where
  "open_terminal env server_id cols rows =
     io_bind (query (\<lambda>s. d_fresh_id env (world s))) (\<lambda>sid.
     io_bind (\<lambda>s. case d_open_pty env server_id cols rows (world s) of (r, w) \<Rightarrow> (Inr r, s\<lparr>world := w\<rparr>)) (\<lambda>pty.
     io_map_err terminal_error (on_terminals (open_ssh sid pty server_id cols rows))))"

definition open_local_terminal ::
  "('w, 'st, 'c) daemon_env \<Rightarrow> string option \<Rightarrow> u32 \<Rightarrow> u32 \<Rightarrow> (string, bool) hm option \<Rightarrow>
   (('w, 'st, 'c) DaemonState, string \<times> bytes) handler" where
  "open_local_terminal env shell cols rows overrides =
     io_bind (query (\<lambda>s. d_fresh_id env (world s))) (\<lambda>sid.
     io_bind (\<lambda>s. case d_open_local_pty env shell cols rows (world s) of (r, w) \<Rightarrow> (Inr r, s\<lparr>world := w\<rparr>)) (\<lambda>pty.
     io_map_err terminal_error (on_terminals (open_local sid pty cols rows overrides))))"

definition name_session :: "string option \<Rightarrow> string \<Rightarrow> ('w, 'st, 'c) DaemonState \<Rightarrow> ('w, 'st, 'c) DaemonState" where
  "name_session name sid =
     notify [ListChanged] \<circ> set_terminals (case name of Some n \<Rightarrow> set_session_name sid n | None \<Rightarrow> id)"

definition opened_json ::
  "('w, 'st, 'c) daemon_env \<Rightarrow> string \<times> bytes \<Rightarrow> (string \<times> json) list \<Rightarrow> json" where
  "opened_json env x extra =
     JObj ([(''session_id'', JStr (fst x)), (''initial_output'', JStr (b64_encode env (snd x)))] @ extra)"

text \<open>
  The commands of triggers are typed into a terminal; that one is gone does not stop the others.  A
  template that cannot be rendered panics, after the triggers before it have been typed.
\<close>

fun inject_triggers ::
  "TriggerEngine \<Rightarrow> TriggerEvent \<Rightarrow> string \<Rightarrow> TriggerInstance list \<Rightarrow> (('w, 'st, 'c) DaemonState, unit) handler" where
  "inject_triggers engine event sid [] = io_ret ()"
| "inject_triggers engine event sid (t # ts) =
     (case render_commands engine event t of
        None \<Rightarrow> io_err Panics
      | Some texts \<Rightarrow> io_bind (change (inject_commands sid texts)) (\<lambda>_. inject_triggers engine event sid ts))"

definition in_terminal_on_connect :: "TriggerInstance \<Rightarrow> bool" where
  "in_terminal_on_connect t \<longleftrightarrow>
     trg_enabled t \<and> trg_exec_in_terminal t \<and> trg_trigger_type t \<in> {OnConnect, OnReconnect}"

definition terminal_event :: "string \<Rightarrow> string \<Rightarrow> TriggerType \<Rightarrow> string \<Rightarrow> TriggerEvent" where
  "terminal_event server_id name t sid =
     (manual_event server_id name)\<lparr>ev_trigger_type := t, ev_session_id := Some sid\<rparr>"

definition NOT_CONNECTED :: string where
  "NOT_CONNECTED = ''server is not connected '' @ [CHR 0xE2, CHR 0x80, CHR 0x94] @ '' connect first''"

definition handle_terminal_open ::
  "('w, 'st, 'c) daemon_env \<Rightarrow> json \<Rightarrow> (('w, 'st, 'c) DaemonState, json) handler" where
  "handle_terminal_open env params =
     io_bind (str_param params ''server_id'') (\<lambda>server_id.
     let backend = str_or ''ssh'' (json_str params ''backend'');
         cols = u32_param params ''cols'' 80; rows = u32_param params ''rows'' 24;
         shell = json_str params ''shell''; name = json_str params ''name'';
         overrides = map_option bools_of (json_object params ''trigger_overrides'')
     in
     if backend = ''local'' then
       io_bind (open_local_terminal env shell cols rows overrides) (\<lambda>x.
       io_bind (change (name_session name (fst x))) (\<lambda>_.
       io_ret (opened_json env x [])))
     else
       io_bind (connected_server env NOT_CONNECTED server_id) (\<lambda>si.
       io_bind (open_terminal env server_id cols rows) (\<lambda>x.
       io_bind (change (name_session name (fst x))) (\<lambda>_.
       io_bind (change (set_terminals (case overrides of Some ov \<Rightarrow> set_trigger_overrides (fst x) ov | None \<Rightarrow> id))) (\<lambda>_.
       io_bind (the_server env server_id) (\<lambda>si.
       io_bind (inject_triggers (trigger_engine si)
          (terminal_event server_id (srv_name (si_config si)) OnConnect (fst x)) (fst x)
          (filter in_terminal_on_connect (triggers si))) (\<lambda>_.
       io_ret (opened_json env x []))))))))"

text \<open>Input is a text in base 64, or an array of numbers, each cut to a byte; what is no number is zero.\<close>

definition input_data :: "('w, 'st, 'c) daemon_env \<Rightarrow> json \<Rightarrow> (('w, 'st, 'c) DaemonState, bytes) handler" where
  "input_data env params =
     (case json_get params ''data'' of
        Some (JStr t) \<Rightarrow> lift_result (\<lambda>e. Fails (IpcError InvalidParams (''invalid base64 data: '' @ e))) (b64_decode env t)
      | Some (JArr xs) \<Rightarrow> io_ret (map (\<lambda>v. case as_u64 v of Some n \<Rightarrow> ucast n | None \<Rightarrow> 0) xs)
      | _ \<Rightarrow> reject InvalidParams ''missing data'')"

definition ok_json :: json where
  "ok_json = JObj [(''ok'', JBool True)]"

definition handle_terminal_input ::
  "('w, 'st, 'c) daemon_env \<Rightarrow> json \<Rightarrow> (('w, 'st, 'c) DaemonState, json) handler" where
  "handle_terminal_input env params =
     io_bind (str_param params ''session_id'') (\<lambda>sid.
     io_bind (input_data env params) (\<lambda>bs.
     io_bind (io_map_err terminal_error (on_terminals (input_with_ack sid bs))) (\<lambda>_.
     io_ret ok_json)))"

definition handle_terminal_resize ::
  "json \<Rightarrow> (('w, 'st, 'c) DaemonState, json) handler" where
  "handle_terminal_resize params =
     io_bind (str_param params ''session_id'') (\<lambda>sid.
     io_bind (require InvalidParams ''missing cols'' (json_u64 params ''cols'')) (\<lambda>cols.
     io_bind (require InvalidParams ''missing rows'' (json_u64 params ''rows'')) (\<lambda>rows.
     io_bind (change (\<lambda>s. case resize_and_notify sid (ucast cols) (ucast rows) (terminal_manager s) of
        (m, ns) \<Rightarrow> notify ns (s\<lparr>terminal_manager := m\<rparr>))) (\<lambda>_.
     io_ret ok_json))))"

section \<open>Closing a terminal\<close>

text \<open>
  The triggers before a close: those typed into the terminal, those run in the background and those left out.
\<close>

definition override_of :: "string \<Rightarrow> TriggerInstance \<Rightarrow> TerminalManager \<Rightarrow> bool option" where
  "override_of sid t m = get_trigger_override sid (trg_id t) m"

definition in_terminal :: "string \<Rightarrow> TerminalManager \<Rightarrow> TriggerInstance \<Rightarrow> bool" where
  "in_terminal sid m t \<longleftrightarrow>
     (case override_of sid t m of Some b \<Rightarrow> b | None \<Rightarrow> trg_exec_in_terminal t)"

definition typed_at_close :: "string \<Rightarrow> TerminalManager \<Rightarrow> TriggerInstance list \<Rightarrow> TriggerInstance list" where
  "typed_at_close sid m =
     filter (\<lambda>t. in_terminal sid m t \<and> (override_of sid t m \<noteq> None \<or> trg_bind_new_terminals t))"

definition background_at_close :: "string \<Rightarrow> TerminalManager \<Rightarrow> TriggerInstance list \<Rightarrow> TriggerInstance list" where
  "background_at_close sid m = filter (\<lambda>t. \<not> in_terminal sid m t)"

definition typed_result :: "TriggerInstance \<Rightarrow> TriggerExecutionResult" where
  "typed_result t = execution_result t True [] (length (trg_commands t))"

definition fire_background ::
  "('w, 'st, 'c) daemon_env \<Rightarrow> TriggerInstance list \<Rightarrow> TriggerEvent \<Rightarrow> (('w, 'st, 'c) DaemonState, unit) handler" where
  "fire_background env ts event s =
     (if ts = [] then io_ret () s
      else case fire_local_event env ts event s of
             (None, s1) \<Rightarrow> (Inl Panics, s1)
           | (Some rs, s1) \<Rightarrow> (Inr (), broadcast_local_trigger_results env event rs s1))"

definition before_close ::
  "('w, 'st, 'c) daemon_env \<Rightarrow> string \<Rightarrow> (('w, 'st, 'c) DaemonState, unit) handler" where
  "before_close env sid =
     io_bind (change (set_terminals (mark_closed sid))) (\<lambda>_.
     io_bind (query (\<lambda>s. filter (\<lambda>t. trg_trigger_type t = BeforeTerminalClose \<and> trg_enabled t)
       (cfg_local_triggers (current_config s)))) (\<lambda>ts.
     io_bind (query terminal_manager) (\<lambda>m.
     io_bind (query local_trigger_engine) (\<lambda>engine.
     let event = terminal_event LOCAL ''My Computer'' BeforeTerminalClose sid; typed = typed_at_close sid m ts
     in
     io_bind (inject_triggers engine event sid typed) (\<lambda>_.
     io_bind (fire_background env (background_at_close sid m ts) event) (\<lambda>_.
     change (broadcast_local_trigger_results env event (map typed_result typed))))))))"

definition close_terminal :: "string \<Rightarrow> (('w, 'st, 'c) DaemonState, string, unit) io" where
  "close_terminal sid s =
     (case close sid (terminal_manager s) of (r, m, ns) \<Rightarrow> (r, notify ns (s\<lparr>terminal_manager := m\<rparr>)))"

definition handle_terminal_close ::
  "('w, 'st, 'c) daemon_env \<Rightarrow> json \<Rightarrow> (('w, 'st, 'c) DaemonState, json) handler" where
  "handle_terminal_close env params =
     io_bind (str_param params ''session_id'') (\<lambda>sid.
     io_bind (query (\<lambda>s. is_local_session sid (terminal_manager s))) (\<lambda>here.
     io_bind (if here then before_close env sid else io_ret ()) (\<lambda>_.
     io_bind (io_map_err terminal_error (close_terminal sid)) (\<lambda>_.
     io_ret ok_json))))"

section \<open>tmux\<close>

abbreviation ssh_of :: "('w, 'st, 'c) daemon_env \<Rightarrow> string \<Rightarrow> 'w remote" where
  "ssh_of env sid \<equiv> env_exec (d_ssh env sid)"

definition tmux_json :: "TmuxSession \<Rightarrow> json" where
  "tmux_json t =
     JObj [(''name'', JStr (tx_name t)), (''description'', JStr (tx_description t)), (''created'', jword (tx_created t)),
       (''server'', JStr (tx_server t)), (''size'', JArr [jword (fst (tx_size t)), jword (snd (tx_size t))]),
       (''windows'', jword (tx_windows t)), (''attached_count'', jword (tx_attached_count t)),
       (''last_activity'', jword (tx_last_activity t))]"

definition tmux_answer :: "json list \<Rightarrow> bool \<Rightarrow> json" where
  "tmux_answer xs installed = JObj [(''sessions'', JArr xs), (''tmux_installed'', JBool installed)]"

definition handle_tmux_list_sessions ::
  "('w, 'st, 'c) daemon_env \<Rightarrow> json \<Rightarrow> (('w, 'st, 'c) DaemonState, json) handler" where
  "handle_tmux_list_sessions env params =
     io_bind (str_param params ''server_id'') (\<lambda>sid.
     io_bind (query (\<lambda>s. case find_server (current_config s) sid of Some srv \<Rightarrow> srv_tmux_mode srv | None \<Rightarrow> ''ask'')) (\<lambda>mode.
     if mode = ''disabled'' then io_ret (tmux_answer [] False)
     else
     io_bind (connected_server env ''server not connected'' sid) (\<lambda>_.
     io_bind (\<lambda>s. case detect_tmux (ssh_of env sid) (world s) of (b, w) \<Rightarrow> (Inr b, s\<lparr>world := w\<rparr>)) (\<lambda>installed.
     if \<not> installed then io_ret (tmux_answer [] False)
     else
     io_bind (io_map_err (internal env) (on_world (list_termfast_sessions (ssh_of env sid)))) (\<lambda>xs.
     io_ret (tmux_answer (map tmux_json xs) True))))))"

text \<open>Opening a terminal that attaches to a session; that the command cannot be typed is ignored.\<close>

definition attach_terminal ::
  "('w, 'st, 'c) daemon_env \<Rightarrow> string \<Rightarrow> string \<Rightarrow> u32 \<Rightarrow> u32 \<Rightarrow> (('w, 'st, 'c) DaemonState, json) handler" where
  "attach_terminal env server_id name cols rows =
     io_bind (open_terminal env server_id cols rows) (\<lambda>x.
     io_bind (change (set_terminals (set_tmux_session_info (fst x) (Some name) False))) (\<lambda>_.
     io_bind (change (set_terminals (\<lambda>m. snd (input_with_ack (fst x) (bytes_of_str (build_attach_command name)) m)))) (\<lambda>_.
     io_ret (opened_json env x [(''tmux_session_name'', JStr name)]))))"

text \<open>Any error while a name is looked for leaves a plain terminal.\<close>

definition handle_tmux_new_session ::
  "('w, 'st, 'c) daemon_env \<Rightarrow> json \<Rightarrow> (('w, 'st, 'c) DaemonState, json) handler" where
  "handle_tmux_new_session env params =
     io_bind (str_param params ''server_id'') (\<lambda>sid.
     let description = str_or [] (json_str params ''description'');
         cols = u32_param params ''cols'' 80; rows = u32_param params ''rows'' 24
     in
     io_bind (connected_server env ''server not connected'' sid) (\<lambda>_.
     io_bind (\<lambda>s. case generate_unique_session_name (ssh_of env sid) (d_now env (world s) div 10 ^ 9) (d_random env (world s)) (world s) of
        (r, w) \<Rightarrow> (Inr r, s\<lparr>world := w\<rparr>)) (\<lambda>r.
     case r of
       Inl _ \<Rightarrow>
         io_bind (open_terminal env sid cols rows) (\<lambda>x.
         io_ret (opened_json env x [(''tmux_session_name'', JNull)]))
     | Inr name \<Rightarrow>
         io_bind (query (\<lambda>s. case find_server (current_config s) sid of Some srv \<Rightarrow> srv_name srv | None \<Rightarrow> sid)) (\<lambda>server_name.
         io_bind (io_map_err (internal env) (on_world (ssh_of env sid
            (build_new_session_exec_command name description server_name (ucast cols) (ucast rows)) 10))) (\<lambda>created.
         if \<not> is_success created then reject Internal (''failed to create tmux session: '' @ ex_stderr created)
         else attach_terminal env sid name cols rows)))))"

definition handle_tmux_attach_session ::
  "('w, 'st, 'c) daemon_env \<Rightarrow> json \<Rightarrow> (('w, 'st, 'c) DaemonState, json) handler" where
  "handle_tmux_attach_session env params =
     io_bind (str_param params ''server_id'') (\<lambda>sid.
     io_bind (str_param params ''tmux_session_name'') (\<lambda>name.
     let cols = u32_param params ''cols'' 80; rows = u32_param params ''rows'' 24
     in
     io_bind (connected_server env ''server not connected'' sid) (\<lambda>_.
     io_bind (io_map_err (internal env) (on_world (session_exists (ssh_of env sid) name))) (\<lambda>exists.
     if \<not> exists then reject Internal (''tmux session '' @ quoted name @ '' does not exist'')
     else attach_terminal env sid name cols rows))))"

definition handle_tmux_kill_session ::
  "('w, 'st, 'c) daemon_env \<Rightarrow> json \<Rightarrow> (('w, 'st, 'c) DaemonState, json) handler" where
  "handle_tmux_kill_session env params =
     io_bind (str_param params ''server_id'') (\<lambda>sid.
     io_bind (str_param params ''tmux_session_name'') (\<lambda>name.
     io_bind (connected_server env ''server not connected'' sid) (\<lambda>_.
     io_bind (io_map_err (internal env) (on_world (ssh_of env sid (with_exit (build_kill_session_command name)) 5))) (\<lambda>r.
     let killed = (case printed_code (ex_stdout r) of
         Some (Some code) \<Rightarrow> code = 0 | Some None \<Rightarrow> False | None \<Rightarrow> ex_exit_code r = 0)
     in io_ret (JObj [(''success'', JBool killed)])))))"

section \<open>Overrides\<close>

definition handle_set_trigger_overrides :: "json \<Rightarrow> (('w, 'st, 'c) DaemonState, json) handler" where
  "handle_set_trigger_overrides params =
     io_bind (str_param params ''session_id'') (\<lambda>sid.
     io_bind (require InvalidParams ''missing overrides'' (json_object params ''overrides'')) (\<lambda>ov.
     io_bind (change (set_terminals (set_trigger_overrides sid (bools_of ov)))) (\<lambda>_.
     io_ret ok_json)))"

definition handle_get_trigger_overrides :: "json \<Rightarrow> (('w, 'st, 'c) DaemonState, json) handler" where
  "handle_get_trigger_overrides params =
     io_bind (str_param params ''session_id'') (\<lambda>sid.
     query (\<lambda>s. JObj [(''overrides'', JObj (map (\<lambda>(k, b). (k, JBool b)) (get_all_trigger_overrides sid (terminal_manager s))))]))"

end
