(* ===== verification/ForwardHandlers.thy ===== *)
theory ForwardHandlers
  imports ServerHandlers
begin

text \<open>
  The requests about port forwards (\<open>crates/daemon/src/handler.rs\<close>, its last section).
\<close>

section \<open>Rules in the configuration\<close>

fun forward_type_json :: "PortForwardType \<Rightarrow> json" where
  "forward_type_json LocalForward = JStr ''local''"
| "forward_type_json RemoteForward = JStr ''remote''"

definition forwards_of :: "string \<Rightarrow> ('w, 'st, 'c) DaemonState \<Rightarrow> PortForwardRule list" where
  "forwards_of sid s = (case find_server (current_config s) sid of Some srv \<Rightarrow> srv_port_forwards srv | None \<Rightarrow> [])"

definition rule_json :: "PortForwardStatus option \<Rightarrow> PortForwardRule \<Rightarrow> json" where
  "rule_json st rule =
     JObj [(''id'', JStr (pf_id rule)), (''name'', JStr (pf_name rule)), (''type'', forward_type_json (pf_forward_type rule)),
       (''local_host'', JStr (pf_local_host rule)), (''local_port'', jword (pf_local_port rule)),
       (''remote_host'', JStr (pf_remote_host rule)), (''remote_port'', jword (pf_remote_port rule)),
       (''enabled'', JBool (pf_enabled rule)), (''auto_start'', JBool (pf_auto_start rule)),
       (''running'', JBool (case st of Some x \<Rightarrow> pfs_running x | None \<Rightarrow> False)),
       (''error'', jopt JStr (Option.bind st pfs_error)),
       (''active_connections'', jword (case st of Some x \<Rightarrow> pfs_active_connections x | None \<Rightarrow> 0)),
       (''bytes_in'', jword (case st of Some x \<Rightarrow> pfs_bytes_in x | None \<Rightarrow> 0)),
       (''bytes_out'', jword (case st of Some x \<Rightarrow> pfs_bytes_out x | None \<Rightarrow> 0))]"

definition handle_list_port_forwards ::
  "('w, 'st, 'c) daemon_env \<Rightarrow> json \<Rightarrow> (('w, 'st, 'c) DaemonState, json) handler" where
  "handle_list_port_forwards env params =
     io_bind (str_param params ''server_id'') (\<lambda>sid.
     io_bind (the_server env sid) (\<lambda>si.
     let status = fold (\<lambda>st. hm_insert (pfs_rule_id st) st) (get_all_statuses (port_forward_manager si)) []
     in query (\<lambda>s. JObj [(''rules'', JArr (map (\<lambda>r. rule_json (hm_get status (pf_id r)) r) (forwards_of sid s)))])))"

definition rule_port :: "json \<Rightarrow> string \<Rightarrow> (('w, 'st, 'c) DaemonState, u16) handler" where
  "rule_port rule k =
     io_bind (require InvalidParams (''missing rule.'' @ k) (json_u64 rule k)) (\<lambda>p.
     if 65535 < p then reject InvalidParams (k @ '' must be <= 65535'') else io_ret (ucast p))"

text \<open>The rule in a request; the identifier is not the request's.\<close>

definition parse_rule ::
  "('w, 'st, 'c) daemon_env \<Rightarrow> string \<Rightarrow> json \<Rightarrow> (('w, 'st, 'c) DaemonState, PortForwardRule) handler" where
  "parse_rule env rule_id rule =
     io_bind (require InvalidParams ''missing rule.name'' (json_str rule ''name'')) (\<lambda>name.
     io_bind (lift_result (\<lambda>e. Fails (IpcError InvalidParams (''invalid rule.type: '' @ e)))
       (forward_type_of env (json_index rule ''type''))) (\<lambda>t.
     io_bind (rule_port rule ''local_port'') (\<lambda>local_port.
     io_bind (rule_port rule ''remote_port'') (\<lambda>remote_port.
     io_ret \<lparr>pf_id = rule_id, pf_name = name, pf_forward_type = t,
       pf_local_host = str_or ''127.0.0.1'' (json_str rule ''local_host''), pf_local_port = local_port,
       pf_remote_host = str_or ''127.0.0.1'' (json_str rule ''remote_host''), pf_remote_port = remote_port,
       pf_enabled = (case json_bool rule ''enabled'' of Some b \<Rightarrow> b | None \<Rightarrow> True),
       pf_auto_start = (case json_bool rule ''auto_start'' of Some b \<Rightarrow> b | None \<Rightarrow> False)\<rparr>))))"

definition forward_event :: "string \<Rightarrow> string \<Rightarrow> string \<Rightarrow> (string \<times> json) list \<Rightarrow> ('w, 'st, 'c) DaemonState \<Rightarrow> ('w, 'st, 'c) DaemonState" where
  "forward_event what sid rule_id extra =
     broadcast (''port_forward:'' @ what) (JObj ([(''server_id'', JStr sid), (''rule_id'', JStr rule_id)] @ extra))"

text \<open>The answer names a rule even if the configuration has no such server and nothing was stored.\<close>

definition handle_add_port_forward ::
  "('w, 'st, 'c) daemon_env \<Rightarrow> json \<Rightarrow> (('w, 'st, 'c) DaemonState, json) handler" where
  "handle_add_port_forward env params =
     io_bind (str_param params ''server_id'') (\<lambda>sid.
     io_bind (the_server env sid) (\<lambda>_.
     io_bind (query (\<lambda>s. ''pf_'' @ d_fresh_id env (world s))) (\<lambda>rule_id.
     io_bind (parse_rule env rule_id (json_index params ''rule'')) (\<lambda>rule.
     io_bind (modify_config env (\<lambda>c. ((), on_server_config sid (\<lambda>srv.
       srv\<lparr>srv_port_forwards := srv_port_forwards srv @ [rule]\<rparr>) c))) (\<lambda>_.
     io_bind (change (forward_event ''added'' sid rule_id [])) (\<lambda>_.
     io_ret (JObj [(''rule_id'', JStr rule_id)])))))))"

definition on_forwards ::
  "(PortForwardManager \<Rightarrow> PortForwardManager) \<Rightarrow> AuthMethod ServerInstance \<Rightarrow> AuthMethod ServerInstance" where
  "on_forwards f si = si\<lparr>port_forward_manager := f (port_forward_manager si)\<rparr>"

definition rule_running :: "string \<Rightarrow> PortForwardManager \<Rightarrow> bool" where
  "rule_running rule_id m = (case get_status rule_id m of Some st \<Rightarrow> pfs_running st | None \<Rightarrow> False)"

definition has_rule :: "string \<Rightarrow> string \<Rightarrow> Config \<Rightarrow> bool" where
  "has_rule sid rule_id c \<longleftrightarrow>
     (case find_server c sid of Some srv \<Rightarrow> list_ex (\<lambda>r. pf_id r = rule_id) (srv_port_forwards srv) | None \<Rightarrow> False)"

definition rule_not_found :: "string \<Rightarrow> (('w, 'st, 'c) DaemonState, 'a) handler" where
  "rule_not_found rule_id = reject Internal (''port forward rule '' @ rule_id @ '' not found'')"

text \<open>A running forward is stopped, and stays so.\<close>

definition handle_update_port_forward ::
  "('w, 'st, 'c) daemon_env \<Rightarrow> json \<Rightarrow> (('w, 'st, 'c) DaemonState, json) handler" where
  "handle_update_port_forward env params =
     io_bind (str_param params ''server_id'') (\<lambda>sid.
     io_bind (str_param params ''rule_id'') (\<lambda>rule_id.
     io_bind (parse_rule env rule_id (json_index params ''rule'')) (\<lambda>rule.
     io_bind (the_server env sid) (\<lambda>si.
     let was_running = rule_running rule_id (port_forward_manager si) in
     io_bind (change (if was_running then on_server sid (on_forwards (stop_rule rule_id)) else id)) (\<lambda>_.
     io_bind (modify_config env (\<lambda>c. (has_rule sid rule_id c, on_server_config sid (\<lambda>srv.
       srv\<lparr>srv_port_forwards := upd_first (\<lambda>r. pf_id r = rule_id) (\<lambda>_. rule) (srv_port_forwards srv)\<rparr>) c))) (\<lambda>found.
     if \<not> found then rule_not_found rule_id
     else
     io_bind (change (forward_event ''updated'' sid rule_id [(''was_running'', JBool was_running)])) (\<lambda>_.
     io_ret (JObj [(''ok'', JBool True), (''was_running'', JBool was_running)]))))))))"

definition handle_delete_port_forward ::
  "('w, 'st, 'c) daemon_env \<Rightarrow> json \<Rightarrow> (('w, 'st, 'c) DaemonState, json) handler" where
  "handle_delete_port_forward env params =
     io_bind (str_param params ''server_id'') (\<lambda>sid.
     io_bind (str_param params ''rule_id'') (\<lambda>rule_id.
     io_bind (the_server env sid) (\<lambda>_.
     io_bind (change (on_server sid (on_forwards (stop_rule rule_id)))) (\<lambda>_.
     io_bind (modify_config env (\<lambda>c. (has_rule sid rule_id c, on_server_config sid (\<lambda>srv.
       srv\<lparr>srv_port_forwards := filter (\<lambda>r. pf_id r \<noteq> rule_id) (srv_port_forwards srv)\<rparr>) c))) (\<lambda>found.
     if \<not> found then rule_not_found rule_id
     else
     io_bind (change (forward_event ''deleted'' sid rule_id [])) (\<lambda>_.
     io_ret (JObj [(''ok'', JBool True)])))))))"

section \<open>Running forwards\<close>

text \<open>
  Connecting for a forward: the credentials are those of the configuration, and the limit of three
  connections is not asked.
\<close>

definition config_auth ::
  "('w, 'st, 'c) daemon_env \<Rightarrow> string \<Rightarrow> (('w, 'st, 'c) DaemonState, AuthMethod) handler" where
  "config_auth env sid =
     io_bind (query (\<lambda>s. find_server (current_config s) sid)) (\<lambda>found.
     io_bind (require ServerNotFound (''server '' @ sid @ '' not found in config'') found) (\<lambda>srv.
     io_bind (query credentials) (\<lambda>c.
     lift_result Fails (build_auth_method env sid (ssh_auth_method (srv_ssh srv)) (ssh_key_path (srv_ssh srv)) c))))"

definition plain_connect ::
  "('w, 'st, 'c) daemon_env \<Rightarrow> string \<Rightarrow> AuthMethod \<Rightarrow> (('w, 'st, 'c) DaemonState, unit) handler" where
  "plain_connect env sid auth s =
     (case hm_get (servers (server_manager s)) sid of
        None \<Rightarrow> (Inl Panics, s)
      | Some si \<Rightarrow>
          (case connect (d_ssh env sid) auth si (world s) of (r, si', w) \<Rightarrow>
             (let s1 = run_callbacks env sid si si' (put_server sid si' (s\<lparr>world := w\<rparr>))
              in (case r of None \<Rightarrow> Inl Panics | Some x \<Rightarrow> map_err (core_error env) x, s1))))"

definition connect_for_forward ::
  "('w, 'st, 'c) daemon_env \<Rightarrow> string \<Rightarrow> (('w, 'st, 'c) DaemonState, unit) handler" where
  "connect_for_forward env sid =
     io_bind (config_auth env sid) (\<lambda>auth.
     io_bind (plain_connect env sid auth) (\<lambda>_.
     io_bind (change (on_server sid start_connection_monitor)) (\<lambda>_.
     io_bind (the_server env sid) (\<lambda>si.
     change (status_event sid ''connected'' [(''client_ip'', jopt JStr (client_ip si))])))))"

definition start_on ::
  "('w, 'st, 'c) daemon_env \<Rightarrow> string \<Rightarrow> PortForwardRule \<Rightarrow> (('w, 'st, 'c) DaemonState, Error, unit) io" where
  "start_on env sid rule s =
     (case hm_get (servers (server_manager s)) sid of
        None \<Rightarrow> (Inr (), s)
      | Some si \<Rightarrow>
          (case start_rule (env_bind (d_ssh env sid)) (env_forward (d_ssh env sid) rule) rule (port_forward_manager si) of
             (r, m) \<Rightarrow> (r, put_server sid (si\<lparr>port_forward_manager := m\<rparr>) s)))"

definition refused_by_policy :: "string \<Rightarrow> bool" where
  "refused_by_policy e \<longleftrightarrow>
     find_sub ''AdministrativelyProhibited'' e \<noteq> None \<or> find_sub ''rejected by the other party'' e \<noteq> None"

definition start_with_retry ::
  "('w, 'st, 'c) daemon_env \<Rightarrow> string \<Rightarrow> PortForwardRule \<Rightarrow> (('w, 'st, 'c) DaemonState, unit) handler" where
  "start_with_retry env sid rule s =
     (case start_on env sid rule s of
        (Inr _, s1) \<Rightarrow> (Inr (), s1)
      | (Inl e, s1) \<Rightarrow>
          if refused_by_policy (d_show_error env e) then
            io_bind (change (\<lambda>s. snd (disconnect_server env sid s))) (\<lambda>_.
            io_bind (connect_for_forward env sid) (\<lambda>_.
            io_map_err (core_error env) (start_on env sid rule))) s1
          else (Inl (core_error env e), s1))"

definition forward_status :: "PortForwardStatus option \<Rightarrow> (string \<times> json) list" where
  "forward_status st =
     [(''running'', JBool (case st of Some x \<Rightarrow> pfs_running x | None \<Rightarrow> True)),
      (''active_connections'', jword (case st of Some x \<Rightarrow> pfs_active_connections x | None \<Rightarrow> 0)),
      (''bytes_in'', jword (case st of Some x \<Rightarrow> pfs_bytes_in x | None \<Rightarrow> 0)),
      (''bytes_out'', jword (case st of Some x \<Rightarrow> pfs_bytes_out x | None \<Rightarrow> 0))]"

definition handle_start_port_forward ::
  "('w, 'st, 'c) daemon_env \<Rightarrow> json \<Rightarrow> (('w, 'st, 'c) DaemonState, json) handler" where
  "handle_start_port_forward env params =
     io_bind (str_param params ''server_id'') (\<lambda>sid.
     io_bind (str_param params ''rule_id'') (\<lambda>rule_id.
     io_bind (the_server env sid) (\<lambda>si.
     io_bind (query (\<lambda>s. find (\<lambda>r. pf_id r = rule_id) (forwards_of sid s))) (\<lambda>found.
     io_bind (case found of Some rule \<Rightarrow> io_ret rule | None \<Rightarrow> rule_not_found rule_id) (\<lambda>rule.
     io_bind (query (\<lambda>s. pf_forward_type rule \<noteq> LocalForward
       \<and> shown_status (d_ssh env sid) si (world s) \<noteq> Connected)) (\<lambda>dial.
     io_bind (if dial then connect_for_forward env sid else io_ret ()) (\<lambda>_.
     io_bind (start_with_retry env sid rule) (\<lambda>_.
     io_bind (the_server env sid) (\<lambda>si.
     io_bind (change (forward_event ''status_changed'' sid rule_id
       (forward_status (get_status rule_id (port_forward_manager si))))) (\<lambda>_.
     io_ret (JObj [(''ok'', JBool True)])))))))))))"

text \<open>The last forward closes the connection, unless a terminal or the proxy uses it.\<close>

definition idle_server :: "string \<Rightarrow> ('w, 'st, 'c) DaemonState \<Rightarrow> bool" where
  "idle_server sid s \<longleftrightarrow>
     \<not> has_sessions_for_server sid (terminal_manager s)
     \<and> (case hm_get (servers (server_manager s)) sid of
          Some si \<Rightarrow> \<not> forwards_running (port_forward_manager si) \<and> \<not> proxy_running si
        | None \<Rightarrow> True)"

definition release_idle ::
  "('w, 'st, 'c) daemon_env \<Rightarrow> string \<Rightarrow> ('w, 'st, 'c) DaemonState \<Rightarrow> ('w, 'st, 'c) DaemonState" where
  "release_idle env sid s =
     (if idle_server sid s
      then status_event sid ''disconnected'' [] (snd (disconnect_server env sid s)) else s)"

definition stopped_status :: "(string \<times> json) list" where
  "stopped_status = [(''running'', JBool False), (''active_connections'', jnat 0), (''bytes_in'', jnat 0), (''bytes_out'', jnat 0)]"

definition handle_stop_port_forward ::
  "('w, 'st, 'c) daemon_env \<Rightarrow> json \<Rightarrow> (('w, 'st, 'c) DaemonState, json) handler" where
  "handle_stop_port_forward env params =
     io_bind (str_param params ''server_id'') (\<lambda>sid.
     io_bind (str_param params ''rule_id'') (\<lambda>rule_id.
     io_bind (the_server env sid) (\<lambda>_.
     io_bind (change (on_server sid (on_forwards (stop_rule rule_id)))) (\<lambda>_.
     io_bind (change (forward_event ''status_changed'' sid rule_id stopped_status)) (\<lambda>_.
     io_bind (change (release_idle env sid)) (\<lambda>_.
     io_ret (JObj [(''ok'', JBool True)])))))))"

definition handle_get_port_forward_status ::
  "('w, 'st, 'c) daemon_env \<Rightarrow> json \<Rightarrow> (('w, 'st, 'c) DaemonState, json) handler" where
  "handle_get_port_forward_status env params =
     io_bind (str_param params ''server_id'') (\<lambda>sid.
     io_bind (str_param params ''rule_id'') (\<lambda>rule_id.
     io_bind (the_server env sid) (\<lambda>si.
     io_ret (case get_status rule_id (port_forward_manager si) of
         Some st \<Rightarrow> JObj [(''rule_id'', JStr (pfs_rule_id st)), (''running'', JBool (pfs_running st)),
           (''error'', jopt JStr (pfs_error st)), (''active_connections'', jword (pfs_active_connections st)),
           (''bytes_in'', jword (pfs_bytes_in st)), (''bytes_out'', jword (pfs_bytes_out st))]
       | None \<Rightarrow> JObj [(''rule_id'', JStr rule_id), (''running'', JBool False), (''error'', JNull),
           (''active_connections'', jnat 0), (''bytes_in'', jnat 0), (''bytes_out'', jnat 0)]))))"

end
