(* ===== verification/ProxyTest.thy ===== *)
theory ProxyTest
  imports Socks5
begin

text \<open>
  The test of a server's proxy (\<open>test_proxy_via_socks5\<close> in \<open>crates/daemon/src/handler.rs\<close>): a small
  client that connects to a URL through the SOCKS5 proxy and reports the address that the page shows.
  A peer whose segments run out has closed the connection, or is \<open>silent\<close>: then reads time out.
  Writing does not time out.
\<close>

section \<open>The address of the page\<close>

text \<open>What is behind the last colon is the port, if it is a number; otherwise the scheme decides.\<close>

definition is_https :: "string \<Rightarrow> bool" where
  "is_https url \<longleftrightarrow> prefix ''https://'' url"

definition rest_of_url :: "string \<Rightarrow> string" where
  "rest_of_url url =
     (case strip_prefix ''https://'' url of Some r \<Rightarrow> r
      | None \<Rightarrow> (case strip_prefix ''http://'' url of Some r \<Rightarrow> r | None \<Rightarrow> url))"

definition host_port :: "string \<Rightarrow> string" where
  "host_port url = takeWhile (\<lambda>c. c \<noteq> CHR ''/'') (rest_of_url url)"

definition url_path :: "string \<Rightarrow> string" where
  "url_path url = drop 1 (dropWhile (\<lambda>c. c \<noteq> CHR ''/'') (rest_of_url url))"

definition default_port :: "string \<Rightarrow> u16" where
  "default_port url = (if is_https url then 443 else 80)"

definition target :: "string \<Rightarrow> string \<times> u16" where
  "target url =
     (let hp = host_port url
      in case rfind_char CHR '':'' hp of
           Some i \<Rightarrow> (take i hp, case parse_uint 65535 (drop (Suc i) hp) of
               Some p \<Rightarrow> word_of_nat p | None \<Rightarrow> default_port url)
         | None \<Rightarrow> (hp, default_port url))"

section \<open>The conversation\<close>

record test_env =
  silent :: bool
  show_io :: "io_error \<Rightarrow> string"
  json_of :: "string \<Rightarrow> (string option + string) option"
  ip_in :: "string \<Rightarrow> string option"

text \<open>
  \<open>json_of\<close> is what serde_json makes of a text: nothing, a document that is a string (\<open>Inr\<close>), or any
  other with the string it has as \<open>origin\<close>.  \<open>ip_in\<close> is the regular expression for an address.
\<close>

type_synonym 'a test = "(sock, string, 'a) io"

definition fetch :: "test_env \<Rightarrow> string \<Rightarrow> nat \<Rightarrow> bytes test" where
  "fetch env what n =
     io_map_err (\<lambda>e. if silent env then what @ '' timed out'' else what @ '': '' @ show_io env e) (read_exact n)"

definition put :: "test_env \<Rightarrow> string \<Rightarrow> bytes \<Rightarrow> unit test" where
  "put env what bs = io_map_err (\<lambda>e. what @ '' failed: '' @ show_io env e) (write_all bs)"

definition fetch_page :: "test_env \<Rightarrow> bytes test" where
  "fetch_page env s =
     (if silent env then (Inl ''http response read timed out'', s) else (Inr (avail (rx s)), s\<lparr>rx := []\<rparr>))"

definition connect_request :: "string \<Rightarrow> u16 \<Rightarrow> bytes" where
  "connect_request host port =
     [0x05, 0x01, 0x00, 0x03] @ [word_of_nat (length host)] @ bytes_of_str host @ be16 port"

definition address_length :: "test_env \<Rightarrow> u8 \<Rightarrow> nat test" where
  "address_length env atyp =
     (if atyp = 0x01 then io_ret 4
      else if atyp = 0x03 then io_bind (fetch env ''socks5 addr len read'' 1) (\<lambda>b. io_ret (unat (b ! 0)))
      else if atyp = 0x04 then io_ret 16
      else io_err (''socks5 unknown ATYP: '' @ show_nat (unat atyp)))"

definition dial_tunnel :: "test_env \<Rightarrow> string \<Rightarrow> u16 \<Rightarrow> unit test" where
  "dial_tunnel env host port =
     io_bind (put env ''socks5 greeting'' [0x05, 0x01, 0x00]) (\<lambda>_.
     io_bind (fetch env ''socks5 greeting response'' 2) (\<lambda>b.
     if b ! 0 \<noteq> 0x05 \<or> b ! 1 \<noteq> 0x00 then io_err ''socks5 auth negotiation failed''
     else
     io_bind (put env ''socks5 connect request'' (connect_request host port)) (\<lambda>_.
     io_bind (fetch env ''socks5 connect response'' 4) (\<lambda>h.
     if h ! 1 \<noteq> 0x00 then io_err (''socks5 connect failed: status '' @ show_nat (unat (h ! 1)))
     else
     io_bind (address_length env (h ! 3)) (\<lambda>n.
     io_bind (fetch env ''socks5 addr read'' (n + 2)) (\<lambda>_. io_ret ()))))))"

section \<open>The page\<close>

definition CRLF :: string where
  "CRLF = [CHR 0x0D, CHR 0x0A]"

definition http_request :: "string \<Rightarrow> bytes" where
  "http_request url =
     bytes_of_str (''GET /'' @ url_path url @ '' HTTP/1.1'' @ CRLF @ ''Host: '' @ host_port url @ CRLF
       @ ''Connection: close'' @ CRLF @ ''User-Agent: termfast/1.0'' @ CRLF @ CRLF)"

text \<open>\<open>split(..).nth(1)\<close>, or all of it: a page with an empty line in it is cut there.\<close>

definition body_of :: "string \<Rightarrow> string" where
  "body_of page =
     (case find_sub (CRLF @ CRLF) page of
        None \<Rightarrow> page
      | Some i \<Rightarrow>
          (let r = drop (i + 4) page
           in case find_sub (CRLF @ CRLF) r of None \<Rightarrow> r | Some j \<Rightarrow> take j r))"

definition is_alnum :: "char \<Rightarrow> bool" where
  "is_alnum c \<longleftrightarrow> (let n = of_char c :: nat in 97 \<le> n \<and> n \<le> 122 \<or> 65 \<le> n \<and> n \<le> 90) \<or> is_digit c"

definition plain_address :: "string \<Rightarrow> bool" where
  "plain_address t \<longleftrightarrow> length t \<le> 45 \<and>
     list_all (\<lambda>c. is_alnum c \<or> c = CHR ''.'' \<or> c = CHR '':'') t"

definition shown_address :: "test_env \<Rightarrow> string \<Rightarrow> string" where
  "shown_address env page =
     (let body = body_of page; t = trim body;
          guess = (if plain_address t then t
                   else case ip_in env body of
                          Some ip \<Rightarrow> ip
                        | None \<Rightarrow> ''connected ('' @ show_nat (length page) @ '' bytes)'')
      in case json_of env t of
           Some (Inr s) \<Rightarrow> s
         | Some (Inl (Some ip)) \<Rightarrow> ip
         | _ \<Rightarrow> guess)"

definition test_proxy_via_socks5 :: "test_env \<Rightarrow> string \<Rightarrow> string test" where
  "test_proxy_via_socks5 env url =
     (let (host, port) = target url
      in io_bind (dial_tunnel env host port) (\<lambda>_.
         if is_https url then io_ret (host @ '' (HTTPS tunnel OK)'')
         else
         io_bind (put env ''http request'' (http_request url)) (\<lambda>_.
         io_bind (fetch_page env) (\<lambda>bs.
         io_ret (shown_address env (from_utf8_lossy bs))))))"

section \<open>Correctness\<close>






text \<open>
  The length of a longer host is written modulo 256: the proxy takes the first bytes for the whole name
  and two of the others for the port.
\<close>

lemma long_host_is_cut:
  "length host = 300 \<Longrightarrow> connect_request host port = [5, 1, 0, 3, 44] @ bytes_of_str host @ be16 port"
  by (simp add: connect_request_def)

end
