(* ===== verification/SyncChecks.thy ===== *)
theory SyncChecks
  imports CloudSync
begin

text \<open>
  The decisions of the cloud synchronisation (\<open>crates/daemon/src/handler.rs\<close>): whether an upload would
  overwrite what another device wrote, whether a download has something new, would overwrite local
  changes or is a rollback; and the answers that say so.  The texts shown to the user are UTF-8.
\<close>

section \<open>Texts\<close>

definition MSG_PASSWORD_MISMATCH :: string where
  "MSG_PASSWORD_MISMATCH = str_of_bytes
    [0xE8, 0xBE, 0x93, 0xE5, 0x85, 0xA5, 0xE7, 0x9A, 0x84, 0xE5, 0xAF, 0x86, 0xE7, 0xA0, 0x81, 0xE4, 0xB8, 0x8E,
     0xE4, 0xB8, 0x8A, 0xE6, 0xAC, 0xA1, 0xE4, 0xBA, 0x91, 0xE5, 0x90, 0x8C, 0xE6, 0xAD, 0xA5, 0xE4, 0xBD, 0xBF,
     0xE7, 0x94, 0xA8, 0xE7, 0x9A, 0x84, 0xE5, 0xAF, 0x86, 0xE7, 0xA0, 0x81, 0xE4, 0xB8, 0x8D, 0xE4, 0xB8, 0x80,
     0xE8, 0x87, 0xB4, 0xE3, 0x80, 0x82, 0x0A, 0xE7, 0xBB, 0xA7, 0xE7, 0xBB, 0xAD, 0xE4, 0xB8, 0x8A, 0xE4, 0xBC,
     0xA0, 0xE5, 0xB0, 0x86, 0xE7, 0x94, 0xA8, 0xE6, 0x96, 0xB0, 0xE5, 0xAF, 0x86, 0xE7, 0xA0, 0x81, 0xE5, 0x8A,
     0xA0, 0xE5, 0xAF, 0x86, 0xE4, 0xBA, 0x91, 0xE7, 0xAB, 0xAF, 0xE6, 0x95, 0xB0, 0xE6, 0x8D, 0xAE, 0xEF, 0xBC,
     0x8C, 0xE5, 0x85, 0xB6, 0xE4, 0xBB, 0x96, 0xE8, 0xAE, 0xBE, 0xE5, 0xA4, 0x87, 0xE9, 0x9C, 0x80, 0xE8, 0xA6,
     0x81, 0xE4, 0xBD, 0xBF, 0xE7, 0x94, 0xA8, 0xE6, 0x96, 0xB0, 0xE5, 0xAF, 0x86, 0xE7, 0xA0, 0x81, 0xE6, 0x89,
     0x8D, 0xE8, 0x83, 0xBD, 0xE4, 0xB8, 0x8B, 0xE8, 0xBD, 0xBD, 0xE3, 0x80, 0x82, 0x0A, 0xE6, 0x98, 0xAF, 0xE5,
     0x90, 0xA6, 0xE6, 0x9B, 0xB4, 0xE6, 0x8D, 0xA2, 0xE4, 0xBA, 0x91, 0xE7, 0xAB, 0xAF, 0xE5, 0xAF, 0x86, 0xE7,
     0xA0, 0x81, 0xEF, 0xBC, 0x9F]"

definition MSG_CLOUD_CHANGED :: string where
  "MSG_CLOUD_CHANGED = str_of_bytes
    [0xE7, 0xBD, 0x91, 0xE7, 0x9B, 0x98, 0xE6, 0x96, 0x87, 0xE4, 0xBB, 0xB6, 0xE8, 0xA2, 0xAB, 0xE5, 0x85, 0xB6,
     0xE4, 0xBB, 0x96, 0xE5, 0xAE, 0xA2, 0xE6, 0x88, 0xB7, 0xE7, 0xAB, 0xAF, 0xE6, 0x94, 0xB9, 0xE8, 0xBF, 0x87,
     0xEF, 0xBC, 0x8C, 0xE5, 0xBC, 0xBA, 0xE8, 0xA1, 0x8C, 0xE8, 0xA6, 0x86, 0xE7, 0x9B, 0x96, 0xE4, 0xBC, 0x9A,
     0xE4, 0xB8, 0xA2, 0xE5, 0xA4, 0xB1, 0xE5, 0xAF, 0xB9, 0xE6, 0x96, 0xB9, 0xE6, 0x94, 0xB9, 0xE5, 0x8A, 0xA8,
     0xE3, 0x80, 0x82]"

definition MSG_NO_CACHE :: string where
  "MSG_NO_CACHE = str_of_bytes
    [0xE7, 0xBD, 0x91, 0xE7, 0x9B, 0x98, 0xE5, 0xB7, 0xB2, 0xE6, 0x9C, 0x89, 0xE6, 0x95, 0xB0, 0xE6, 0x8D, 0xAE,
     0xE6, 0x96, 0x87, 0xE4, 0xBB, 0xB6, 0xEF, 0xBC, 0x8C, 0xE6, 0x98, 0xAF, 0xE5, 0x90, 0xA6, 0xE5, 0xBC, 0xBA,
     0xE8, 0xA1, 0x8C, 0xE8, 0xA6, 0x86, 0xE7, 0x9B, 0x96, 0xE4, 0xBA, 0x91, 0xE7, 0xAB, 0xAF, 0xEF, 0xBC, 0x9F]"

definition MSG_ROLLBACK :: string where
  "MSG_ROLLBACK = str_of_bytes
    [0xE4, 0xBA, 0x91, 0xE7, 0xAB, 0xAF, 0xE6, 0x96, 0x87, 0xE4, 0xBB, 0xB6, 0xE6, 0x97, 0xB6, 0xE9, 0x97, 0xB4,
     0xE6, 0x88, 0xB3, 0xE6, 0xAF, 0x94, 0xE4, 0xB8, 0x8A, 0xE6, 0xAC, 0xA1, 0xE5, 0x90, 0x8C, 0xE6, 0xAD, 0xA5,
     0xE6, 0x9B, 0xB4, 0xE6, 0x97, 0xA7, 0xEF, 0xBC, 0x8C, 0xE5, 0x8F, 0xAF, 0xE8, 0x83, 0xBD, 0xE6, 0x98, 0xAF,
     0xE5, 0x9B, 0x9E, 0xE6, 0xBB, 0x9A, 0xE6, 0x94, 0xBB, 0xE5, 0x87, 0xBB]"

definition MSG_NO_REMOTE :: string where
  "MSG_NO_REMOTE = str_of_bytes
    [0xE4, 0xBA, 0x91, 0xE7, 0xAB, 0xAF, 0xE6, 0xB2, 0xA1, 0xE6, 0x9C, 0x89, 0xE5, 0x90, 0x8C, 0xE6, 0xAD, 0xA5,
     0xE6, 0x95, 0xB0, 0xE6, 0x8D, 0xAE]"

definition MSG_NO_UPDATE :: string where
  "MSG_NO_UPDATE = str_of_bytes
    [0xE4, 0xBA, 0x91, 0xE7, 0xAB, 0xAF, 0xE6, 0x97, 0xA0, 0xE6, 0x9B, 0xB4, 0xE6, 0x96, 0xB0]"

definition MSG_DECRYPT :: string where
  "MSG_DECRYPT = str_of_bytes
    [0xE8, 0xA7, 0xA3, 0xE5, 0xAF, 0x86, 0xE5, 0xA4, 0xB1, 0xE8, 0xB4, 0xA5, 0xE3, 0x80, 0x82, 0xE5, 0x8F, 0xAF,
     0xE8, 0x83, 0xBD, 0xE5, 0x8E, 0x9F, 0xE5, 0x9B, 0xA0, 0xEF, 0xBC, 0x9A, 0x0A, 0x31, 0x2E, 0x20, 0xE8, 0xBE,
     0x93, 0xE5, 0x85, 0xA5, 0xE7, 0x9A, 0x84, 0xE5, 0xAF, 0x86, 0xE7, 0xA0, 0x81, 0xE4, 0xB8, 0x8E, 0xE4, 0xBA,
     0x91, 0xE7, 0xAB, 0xAF, 0xE6, 0x95, 0xB0, 0xE6, 0x8D, 0xAE, 0xE5, 0x8A, 0xA0, 0xE5, 0xAF, 0x86, 0xE6, 0x97,
     0xB6, 0xE4, 0xBD, 0xBF, 0xE7, 0x94, 0xA8, 0xE7, 0x9A, 0x84, 0xE4, 0xB8, 0xBB, 0xE5, 0xAF, 0x86, 0xE7, 0xA0,
     0x81, 0xE4, 0xB8, 0x8D, 0xE4, 0xB8, 0x80, 0xE8, 0x87, 0xB4, 0x0A, 0x32, 0x2E, 0x20, 0xE4, 0xBA, 0x91, 0xE7,
     0xAB, 0xAF, 0xE6, 0x95, 0xB0, 0xE6, 0x8D, 0xAE, 0xE5, 0xB7, 0xB2, 0xE6, 0x8D, 0x9F, 0xE5, 0x9D, 0x8F, 0x0A,
     0x0A, 0xE8, 0xAF, 0xB7, 0xE7, 0xA1, 0xAE, 0xE8, 0xAE, 0xA4, 0xE5, 0xAF, 0x86, 0xE7, 0xA0, 0x81, 0xE6, 0x98,
     0xAF, 0xE5, 0x90, 0xA6, 0xE6, 0xAD, 0xA3, 0xE7, 0xA1, 0xAE, 0xEF, 0xBC, 0x8C, 0xE6, 0x88, 0x96, 0xE5, 0x89,
     0x8D, 0xE5, 0xBE, 0x80, 0xE3, 0x80, 0x8C, 0xE5, 0x87, 0xAD, 0xE6, 0x8D, 0xAE, 0xE5, 0xAE, 0x89, 0xE5, 0x85,
     0xA8, 0xE3, 0x80, 0x8D, 0xE4, 0xBF, 0xAE, 0xE6, 0x94, 0xB9, 0xE6, 0x9C, 0xAC, 0xE5, 0x9C, 0xB0, 0xE4, 0xB8,
     0xBB, 0xE5, 0xAF, 0x86, 0xE7, 0xA0, 0x81, 0xE5, 0x90, 0x8E, 0xE9, 0x87, 0x8D, 0xE8, 0xAF, 0x95, 0xE3, 0x80,
     0x82]"

definition MSG_LOCAL_NEWER :: string where
  "MSG_LOCAL_NEWER = str_of_bytes
    [0xE6, 0x9C, 0xAC, 0xE5, 0x9C, 0xB0, 0xE6, 0x95, 0xB0, 0xE6, 0x8D, 0xAE, 0xE6, 0xAF, 0x94, 0xE4, 0xBA, 0x91,
     0xE7, 0xAB, 0xAF, 0xE6, 0x96, 0xB0, 0xEF, 0xBC, 0x8C, 0xE4, 0xB8, 0x8B, 0xE8, 0xBD, 0xBD, 0xE5, 0xB0, 0x86,
     0xE8, 0xA6, 0x86, 0xE7, 0x9B, 0x96, 0xE6, 0x9C, 0xAC, 0xE5, 0x9C, 0xB0, 0xE6, 0x94, 0xB9, 0xE5, 0x8A, 0xA8]"


section \<open>Answers\<close>

definition not_done :: "string \<Rightarrow> string \<Rightarrow> (string \<times> json) list \<Rightarrow> json" where
  "not_done reason message extra =
     JObj ([(''ok'', JBool False), (''reason'', JStr reason), (''message'', JStr message)] @ extra)"

definition times_json :: "string option \<Rightarrow> string option \<Rightarrow> (string \<times> json) list" where
  "times_json cloud here = [(''cloud_updated_at'', jopt JStr cloud), (''local_updated_at'', jopt JStr here)]"

definition password_mismatch :: json where
  "password_mismatch = not_done ''password_mismatch'' MSG_PASSWORD_MISMATCH []"

definition build_no_remote_data_response :: json where
  "build_no_remote_data_response = not_done ''no_remote_data'' MSG_NO_REMOTE []"

definition build_no_update_response :: "string option \<Rightarrow> string option \<Rightarrow> json" where
  "build_no_update_response cloud here = not_done ''no_update'' MSG_NO_UPDATE (times_json cloud here)"

definition build_decrypt_failed_response :: json where
  "build_decrypt_failed_response = not_done ''decrypt_failed'' MSG_DECRYPT []"

definition build_local_newer_response :: "string option \<Rightarrow> string option \<Rightarrow> json" where
  "build_local_newer_response cloud here = not_done ''local_newer'' MSG_LOCAL_NEWER (times_json cloud here)"

definition conflict_json :: "string \<Rightarrow> string \<Rightarrow> json" where
  "conflict_json reason message =
     JObj [(''conflict'', JBool True), (''reason'', JStr reason), (''message'', JStr message)]"

section \<open>Decisions\<close>

definition check_upload_conflict :: "RemoteFileInfo \<Rightarrow> string option \<Rightarrow> json option" where
  "check_upload_conflict remote local_hash =
     (if \<not> rf_exists remote then None
      else case (rf_hash remote, local_hash) of
             (Some rh, Some lh) \<Rightarrow> if rh = lh then None else Some (conflict_json ''cloud_changed'' MSG_CLOUD_CHANGED)
           | (Some _, None) \<Rightarrow> Some (conflict_json ''cloud_exists_no_cache'' MSG_NO_CACHE)
           | (None, _) \<Rightarrow> None)"

definition check_upload_with_force :: "bool \<Rightarrow> RemoteFileInfo \<Rightarrow> string option \<Rightarrow> json option" where
  "check_upload_with_force force remote local_hash =
     (if force then None else check_upload_conflict remote local_hash)"

text \<open>The order of Rust's \<open>str\<close>: by bytes.\<close>

fun str_less :: "string \<Rightarrow> string \<Rightarrow> bool" where
  "str_less [] [] = False"
| "str_less [] (y # ys) = True"
| "str_less (x # xs) [] = False"
| "str_less (x # xs) (y # ys) =
     (let m = of_char x :: nat; n = of_char y in m < n \<or> m = n \<and> str_less xs ys)"

definition rollback_json :: "SyncPayload \<Rightarrow> string \<Rightarrow> json" where
  "rollback_json p before =
     not_done ''rollback_detected'' MSG_ROLLBACK
       [(''cloud_updated_at'', JStr (sp_updated_at p)), (''last_updated_at'', JStr before),
        (''device_name'', JStr (sp_device_name p)), (''config'', sp_config p)]"

definition check_rollback :: "SyncPayload \<Rightarrow> string option \<Rightarrow> json option" where
  "check_rollback p before =
     (case before of
        None \<Rightarrow> None
      | Some t \<Rightarrow> if str_less (sp_updated_at p) t then Some (rollback_json p t) else None)"

definition check_rollback_with_force :: "bool \<Rightarrow> SyncPayload \<Rightarrow> string option \<Rightarrow> json option" where
  "check_rollback_with_force force p before = (if force then None else check_rollback p before)"

definition cloud_unchanged :: "RemoteFileInfo \<Rightarrow> string option \<Rightarrow> bool" where
  "cloud_unchanged remote local_hash \<longleftrightarrow>
     (case (rf_hash remote, local_hash) of (Some rh, Some lh) \<Rightarrow> rh = lh | _ \<Rightarrow> False)"

definition is_no_update :: "RemoteFileInfo \<Rightarrow> string option \<Rightarrow> string option \<Rightarrow> string option \<Rightarrow> bool" where
  "is_no_update remote local_hash before cur \<longleftrightarrow>
     cloud_unchanged remote local_hash \<and> (case (before, cur) of (Some a, Some b) \<Rightarrow> a = b | _ \<Rightarrow> False)"

definition is_local_newer :: "RemoteFileInfo \<Rightarrow> string option \<Rightarrow> string option \<Rightarrow> string option \<Rightarrow> bool" where
  "is_local_newer remote local_hash before cur \<longleftrightarrow>
     cloud_unchanged remote local_hash \<and> (case (before, cur) of (Some a, Some b) \<Rightarrow> a \<noteq> b | _ \<Rightarrow> False)"

section \<open>The hash of the password in the database\<close>

definition hex_digit :: "nat \<Rightarrow> char" where
  "hex_digit k = (if k < 10 then char_of (48 + k) else char_of (87 + k))"

definition hash_to_hex :: "bytes \<Rightarrow> string" where
  "hash_to_hex bs = concat (map (\<lambda>b. [hex_digit (unat b div 16), hex_digit (unat b mod 16)]) bs)"

definition hex_digit_of :: "char \<Rightarrow> nat option" where
  "hex_digit_of c =
     (let n = of_char c :: nat
      in if 48 \<le> n \<and> n \<le> 57 then Some (n - 48)
         else if 97 \<le> n \<and> n \<le> 102 then Some (n - 87)
         else if 65 \<le> n \<and> n \<le> 70 then Some (n - 55) else None)"

text \<open>\<open>from_str_radix\<close> takes a plus sign before the digits.\<close>

definition hex_byte :: "char \<Rightarrow> char \<Rightarrow> u8 option" where
  "hex_byte a b =
     (if a = CHR ''+'' then map_option word_of_nat (hex_digit_of b)
      else case (hex_digit_of a, hex_digit_of b) of
             (Some x, Some y) \<Rightarrow> Some (word_of_nat (16 * x + y)) | _ \<Rightarrow> None)"

fun hex_bytes :: "string \<Rightarrow> bytes option" where
  "hex_bytes (a # b # s) =
     (case hex_byte a b of None \<Rightarrow> None | Some x \<Rightarrow> map_option ((#) x) (hex_bytes s))"
| "hex_bytes _ = Some []"

definition hex_to_hash :: "string \<Rightarrow> bytes option" where
  "hex_to_hash s = (if length s \<noteq> 64 then None else hex_bytes s)"

section \<open>Correctness\<close>

lemma hex_digit_round [simp]: "k < 16 \<Longrightarrow> hex_digit_of (hex_digit k) = Some k"
  by (simp add: hex_digit_of_def hex_digit_def Let_def)

lemma hex_digit_not_plus: "k < 16 \<Longrightarrow> hex_digit k \<noteq> CHR ''+''"
  using hex_digit_round [of k] by (auto simp: hex_digit_of_def)

lemma hex_bytes_hash: "hex_bytes (hash_to_hex bs) = Some bs"
proof (induction bs)
  case (Cons b bs)
  have u: "unat b div 16 < 16" "unat b mod 16 < 16" using unat_u8_less [of b] by auto
  have "hex_byte (hex_digit (unat b div 16)) (hex_digit (unat b mod 16)) = Some b"
    using hex_digit_not_plus [OF u(1)] u by (simp add: hex_byte_def)
  then show ?case using Cons by (simp add: hash_to_hex_def)
qed (simp add: hash_to_hex_def)

text \<open>The stored hash of a password is read back.\<close>

lemma hash_round_trip: "length h = 32 \<Longrightarrow> hex_to_hash (hash_to_hex h) = Some h"
proof -
  have "length (hash_to_hex bs) = 2 * length bs" for bs by (induction bs) (simp_all add: hash_to_hex_def)
  then show "length h = 32 \<Longrightarrow> hex_to_hash (hash_to_hex h) = Some h" by (simp add: hex_to_hash_def hex_bytes_hash)
qed

text \<open>
  An upload that is not forced overwrites a file in the cloud only if its hash is the one of the last
  synchronisation, or the provider gives no hash; and a download that is not forced says that there is
  nothing new or that the local side is newer exactly when the cloud is unchanged and the local version is
  known, the first when it is unchanged too and the second when it is not.
\<close>

lemma sync_decisions:
  "(check_upload_with_force False remote local_hash = None \<longleftrightarrow>
      \<not> rf_exists remote \<or> rf_hash remote = None \<or> (\<exists>h. rf_hash remote = Some h \<and> local_hash = Some h))
   \<and> \<not> (is_no_update remote local_hash before cur \<and> is_local_newer remote local_hash before cur)
   \<and> (is_no_update remote local_hash before cur \<or> is_local_newer remote local_hash before cur \<longleftrightarrow>
        (\<exists>h. rf_hash remote = Some h \<and> local_hash = Some h) \<and> before \<noteq> None \<and> cur \<noteq> None)
   \<and> (is_no_update remote local_hash before cur \<longrightarrow> before = cur)"
  by (auto simp: check_upload_with_force_def check_upload_conflict_def is_no_update_def is_local_newer_def
      cloud_unchanged_def split: option.splits if_splits)

lemma str_less_irrefl: "\<not> str_less a a"
  by (induction a) (auto simp: Let_def)

lemma str_less_trans: "str_less a b \<Longrightarrow> str_less b c \<Longrightarrow> str_less a c"
proof (induction a b arbitrary: c rule: str_less.induct)
  case (4 x xs y ys)
  then show ?case by (cases c) (auto simp: Let_def)
qed (auto split: list.splits elim: str_less.elims)

end
