(* ===== verification/CloudHandlers.thy ===== *)
theory CloudHandlers
  imports ForwardHandlers SettingsHandlers SyncChecks
begin

text \<open>
  The requests of the full export and import and of the cloud synchronisation
  (\<open>crates/daemon/src/handler.rs\<close>).  What they need of the surroundings beyond the rest of the daemon is in
  \<open>cloud_env\<close>: the clients of the providers, the database, key files, and the listener for the browser.
\<close>

section \<open>The surroundings\<close>

text \<open>A client of a provider: what it answers, in order, as a program on the world.\<close>

record 'w cloud_client =
  cl_auth_url :: "string \<Rightarrow> string \<times> string option"
  cl_fetch_auth_url :: "string \<Rightarrow> 'w \<Rightarrow> (string + string \<times> string option \<times> string) \<times> 'w"
  cl_exchange_code :: "string \<Rightarrow> string \<Rightarrow> string \<Rightarrow> string \<Rightarrow> 'w \<Rightarrow> (string + OAuthToken) \<times> 'w"
  cl_refresh_token :: "OAuthToken \<Rightarrow> 'w \<Rightarrow> (string + OAuthToken) \<times> 'w"
  cl_upload :: "OAuthToken \<Rightarrow> string \<Rightarrow> bytes \<Rightarrow> 'w \<Rightarrow> (string + unit) \<times> 'w"
  cl_download :: "OAuthToken \<Rightarrow> string \<Rightarrow> 'w \<Rightarrow> (string + bytes) \<times> 'w"
  cl_file_info :: "OAuthToken \<Rightarrow> string \<Rightarrow> 'w \<Rightarrow> (string + RemoteFileInfo) \<times> 'w"
  cl_delete :: "OAuthToken \<Rightarrow> string \<Rightarrow> 'w \<Rightarrow> (string + unit) \<times> 'w"

datatype waited = Got CallbackResult | SenderGone | TimedOut

text \<open>
  \<open>db_error\<close> is the error with which a write to a row fails; \<open>local_version\<close> the version that the configuration
  storage counts up; \<open>canonicalize\<close> resolves a path, given by its components, to that of a file or folder;
  \<open>reencrypt\<close> a private key that could be read without a passphrase, written again with one.
\<close>

record ('w, 'st) cloud_env =
  cloud_client :: "CloudProvider \<Rightarrow> ProxyMode \<Rightarrow> 'w cloud_client"
  c_sync :: sync_env
  c_export :: export_env
  export_json :: "FullExportData \<Rightarrow> string + json"
  export_of :: "json \<Rightarrow> string + FullExportData"
  c_draw :: "'w \<Rightarrow> key_draw"
  c_salt :: "'w \<Rightarrow> bytes"
  c_nonce :: "'w \<Rightarrow> bytes"
  db_error :: "string \<Rightarrow> 'w \<Rightarrow> string option"
  local_version :: "'st \<Rightarrow> string option"
  read_key_file :: "string \<Rightarrow> 'w \<Rightarrow> string option"
  canonicalize :: "string list \<Rightarrow> 'w \<Rightarrow> string list option"
  write_key_file :: "string list \<Rightarrow> string \<Rightarrow> 'w \<Rightarrow> 'w"
  reencrypt :: "string \<Rightarrow> string \<Rightarrow> string option"
  home_dir :: "string list"
  temp_dir :: "string list"
  c_hostname :: string
  listen :: "u16 \<Rightarrow> 'w \<Rightarrow> (string + unit) \<times> 'w"
  wait_callback :: "'w \<Rightarrow> waited \<times> 'w"
  show_sync_error :: "SyncCryptoError \<Rightarrow> string"

type_synonym ('w, 'st, 'c, 'a) request = "(('w, 'st, 'c) DaemonState, 'a) handler"

definition internal_error :: "string \<Rightarrow> string \<Rightarrow> stop" where
  "internal_error what e = Fails (IpcError Internal (what @ '': '' @ e))"

definition db_write :: "('w, 'st) cloud_env \<Rightarrow> string \<Rightarrow> string \<Rightarrow> (CloudDb \<Rightarrow> CloudDb) \<Rightarrow> ('w, 'st, 'c, unit) request" where
  "db_write cl what row f s =
     (case db_error cl row (world s) of
        Some e \<Rightarrow> (Inl (internal_error what e), s)
      | None \<Rightarrow> (Inr (), s\<lparr>cloud_db := f (cloud_db s)\<rparr>))"

section \<open>Everything in one file\<close>

text \<open>Only the secret of the method a server uses is exported.\<close>

definition insert_ok :: "string \<Rightarrow> 'e + string \<Rightarrow> (string, string) hm \<Rightarrow> (string, string) hm" where
  "insert_ok k r m = (case r of Inr v \<Rightarrow> hm_insert k v m | Inl _ \<Rightarrow> m)"

definition collect_secrets ::
  "('w, 'st, 'c) daemon_env \<Rightarrow> ('w, 'st) cloud_env \<Rightarrow> 'c \<Rightarrow> 'w \<Rightarrow> ServerConfig \<Rightarrow> FullExportData \<Rightarrow> FullExportData" where
  "collect_secrets env cl c w srv d =
     (let sid = srv_id srv; ssh = srv_ssh srv
      in if ssh_auth_method ssh = ''password'' then
           d\<lparr>ex_passwords := insert_ok sid (cs_load (d_creds env) (make_key sid PASSWORD) c) (ex_passwords d)\<rparr>
         else if ssh_auth_method ssh = ''key'' then
           d\<lparr>ex_key_passphrases := insert_ok sid (cs_load (d_creds env) (make_key sid KEY_PASSPHRASE) c) (ex_key_passphrases d),
             ex_key_files := (if ssh_key_path ssh = [] then ex_key_files d
               else case read_key_file cl (ssh_key_path ssh) w of
                      Some t \<Rightarrow> hm_insert sid t (ex_key_files d) | None \<Rightarrow> ex_key_files d)\<rparr>
         else d)"

definition export_full_data ::
  "('w, 'st, 'c) daemon_env \<Rightarrow> ('w, 'st) cloud_env \<Rightarrow> ('w, 'st, 'c) DaemonState \<Rightarrow> FullExportData" where
  "export_full_data env cl s =
     fold (collect_secrets env cl (credentials s) (world s)) (cfg_servers (current_config s))
       \<lparr>ex_config = current_config s, ex_passwords = [], ex_key_passphrases = [], ex_key_files = []\<rparr>"

definition handle_export_full ::
  "('w, 'st, 'c) daemon_env \<Rightarrow> ('w, 'st) cloud_env \<Rightarrow> json \<Rightarrow> ('w, 'st, 'c, json) request" where
  "handle_export_full env cl params =
     io_bind (str_param params ''master_password'') (\<lambda>password.
     io_bind (query (export_full_data env cl)) (\<lambda>d.
     io_bind (query world) (\<lambda>w.
     io_bind (lift_result (\<lambda>e. internal_error ''export encrypt error'' (d_show_error env e))
       (export_full (c_export cl) (c_salt cl w) (c_nonce cl w) password d)) (\<lambda>blob.
     io_ret (JObj [(''blob'', JStr (b64_encode env blob)), (''size'', jnat (length blob))])))))"

section \<open>Key files\<close>

definition path_parts :: "string \<Rightarrow> string list" where
  "path_parts p =
     (let ps = split_on CHR ''/'' p
      in if prefix ''/'' p then ''/'' # filter (\<lambda>c. c \<noteq> [] \<and> c \<noteq> ''.'') ps
         else take 1 (filter (\<lambda>c. c \<noteq> []) ps) @ filter (\<lambda>c. c \<noteq> ''.'') (drop 1 (filter (\<lambda>c. c \<noteq> []) ps)))"

definition parent_parts :: "string list \<Rightarrow> string list option" where
  "parent_parts ps = (if ps = [] \<or> ps = [''/''] then None else Some (butlast ps))"

text \<open>Where a key would be written: the file that is there, or a new file in a folder that is there.\<close>

definition key_target :: "('w, 'st) cloud_env \<Rightarrow> string \<Rightarrow> 'w \<Rightarrow> string list option" where
  "key_target cl path w =
     (case canonicalize cl (path_parts path) w of
        Some p \<Rightarrow> Some p
      | None \<Rightarrow>
          (case Option.bind (parent_parts (path_parts path)) (\<lambda>d. canonicalize cl d w) of
             None \<Rightarrow> None
           | Some d \<Rightarrow> Some (d @ (case file_name path of Some n \<Rightarrow> [n] | None \<Rightarrow> []))))"

definition safe_target :: "('w, 'st) cloud_env \<Rightarrow> string list \<Rightarrow> bool" where
  "safe_target cl p \<longleftrightarrow> prefix (home_dir cl @ [''.ssh'']) p \<or> prefix (temp_dir cl @ [''termfast'']) p"

definition encrypt_key_if_needed :: "('w, 'st) cloud_env \<Rightarrow> string \<Rightarrow> string option \<Rightarrow> string" where
  "encrypt_key_if_needed cl text passphrase =
     (if find_sub ''ENCRYPTED'' text \<noteq> None then text
      else case passphrase of
             None \<Rightarrow> text
           | Some p \<Rightarrow> if p = [] then text else (case reencrypt cl text p of Some t \<Rightarrow> t | None \<Rightarrow> text))"

definition restore_key :: "('w, 'st) cloud_env \<Rightarrow> FullExportData \<Rightarrow> string \<times> string \<Rightarrow> 'w \<Rightarrow> 'w" where
  "restore_key cl d kv w =
     (let (sid, text) = kv;
          path = (case find (\<lambda>srv. srv_id srv = sid) (cfg_servers (ex_config d)) of
                    Some srv \<Rightarrow> ssh_key_path (srv_ssh srv) | None \<Rightarrow> [])
      in if path = [] then w
         else case key_target cl path w of
                None \<Rightarrow> w
              | Some p \<Rightarrow>
                  if safe_target cl p
                  then write_key_file cl p (encrypt_key_if_needed cl text (hm_get (ex_key_passphrases d) sid)) w else w)"

definition restore_keys :: "('w, 'st) cloud_env \<Rightarrow> FullExportData \<Rightarrow> 'w \<Rightarrow> 'w" where
  "restore_keys cl d w = fold (restore_key cl d) (ex_key_files d) w"

section \<open>Applying an export\<close>

text \<open>Credentials that cannot be saved are logged and left out.\<close>

definition restore_secrets ::
  "('w, 'st, 'c) daemon_env \<Rightarrow> string \<Rightarrow> (string, string) hm \<Rightarrow> 'c \<Rightarrow> 'c" where
  "restore_secrets env kind m c =
     fold (\<lambda>(sid, v) c. snd (cs_save (d_creds env) (make_key sid kind) v c)) m c"

text \<open>\<open>sync_from_config\<close> with the SSH client of each server; a replaced instance has no callbacks.\<close>

definition sync_servers ::
  "('w, 'st, 'c) daemon_env \<Rightarrow> ServerConfig list \<Rightarrow> ('w, 'st, 'c) DaemonState \<Rightarrow> ('w, 'st, 'c) DaemonState" where
  "sync_servers env configs s =
     (let old = server_manager s;
          gone = filter (\<lambda>i. i \<notin> srv_id ` set configs) (hm_keys (servers old));
          mw = fold (\<lambda>i (m, w). remove_server (d_ssh env i) i m w) gone (old, world s);
          (m, w) = fold (\<lambda>cfg. sync_one (d_ssh env (srv_id cfg)) cfg) configs mw
      in s\<lparr>server_manager := m, world := w,
           wired := filter (\<lambda>i. hm_get (servers m) i \<noteq> None \<and> hm_get (servers m) i = hm_get (servers old) i) (wired s)\<rparr>)"

definition apply_full_export ::
  "('w, 'st, 'c) daemon_env \<Rightarrow> ('w, 'st) cloud_env \<Rightarrow> FullExportData \<Rightarrow> ('w, 'st, 'c, unit) request" where
  "apply_full_export env cl d =
     io_bind (modify_config env (\<lambda>_. ((), ex_config d))) (\<lambda>_.
     io_bind (change (\<lambda>s. s\<lparr>world := restore_keys cl d (world s)\<rparr>)) (\<lambda>_.
     io_bind (change (\<lambda>s. s\<lparr>credentials := restore_secrets env KEY_PASSPHRASE (ex_key_passphrases d)
        (restore_secrets env PASSWORD (ex_passwords d) (credentials s))\<rparr>)) (\<lambda>_.
     io_bind (change (sync_servers env (cfg_servers (ex_config d)))) (\<lambda>_.
     change (broadcast ''config:changed'' (JObj []))))))"

definition handle_import_full ::
  "('w, 'st, 'c) daemon_env \<Rightarrow> ('w, 'st) cloud_env \<Rightarrow> json \<Rightarrow> ('w, 'st, 'c, json) request" where
  "handle_import_full env cl params =
     io_bind (str_param params ''master_password'') (\<lambda>password.
     io_bind (str_param params ''blob'') (\<lambda>b64.
     io_bind (lift_result (\<lambda>e. Fails (IpcError InvalidParams (''invalid base64: '' @ e))) (b64_decode env b64)) (\<lambda>blob.
     io_bind (\<lambda>s. case import_full (c_export cl) (d_now env (world s)) password blob (import_lock s) of
        (r, l) \<Rightarrow> (map_err (\<lambda>e. Fails (IpcError DecryptionFailed (''decrypt error: '' @ d_show_error env e))) r,
           s\<lparr>import_lock := l\<rparr>)) (\<lambda>d.
     io_bind (change (\<lambda>s. s\<lparr>import_lock := reset_attempts (import_lock s)\<rparr>)) (\<lambda>_.
     io_bind (apply_full_export env cl d) (\<lambda>_.
     io_ret (JObj [(''imported'', JBool True)])))))))"

section \<open>Tokens\<close>

text \<open>
  The tokens in the database; otherwise those of the old plain file, which is copied to the database and
  deleted, even if the copy fails.
\<close>

definition load_cloud_tokens ::
  "('w, 'st) cloud_env \<Rightarrow> ('w, 'st, 'c) DaemonState \<Rightarrow> TokenStoreData \<times> ('w, 'st, 'c) DaemonState" where
  "load_cloud_tokens cl s =
     (case db_tokens (cloud_db s) of
        Some ts \<Rightarrow> (ts, s)
      | None \<Rightarrow>
          (case legacy_tokens (cloud_db s) of
             None \<Rightarrow> ([], s)
           | Some f \<Rightarrow>
               (let ts = (case f of Some ts \<Rightarrow> ts | None \<Rightarrow> []);
                    db = (if db_error cl ''_all'' (world s) = None then (cloud_db s)\<lparr>db_tokens := Some ts\<rparr> else cloud_db s)
                in (ts, s\<lparr>cloud_db := db\<lparr>legacy_tokens := None\<rparr>\<rparr>))))"

definition get_tokens :: "('w, 'st) cloud_env \<Rightarrow> ('w, 'st, 'c, TokenStoreData) request" where
  "get_tokens cl s = (let (ts, s1) = load_cloud_tokens cl s in (Inr ts, s1))"

definition save_cloud_tokens :: "('w, 'st) cloud_env \<Rightarrow> TokenStoreData \<Rightarrow> ('w, 'st, 'c, unit) request" where
  "save_cloud_tokens cl ts = db_write cl ''save token to DB'' ''_all'' (\<lambda>d. d\<lparr>db_tokens := Some ts\<rparr>)"

definition stored_token ::
  "('w, 'st) cloud_env \<Rightarrow> string \<Rightarrow> ('w, 'st, 'c, StoredToken) request" where
  "stored_token cl provider =
     io_bind (get_tokens cl) (\<lambda>ts. require CredentialNotFound ''not authenticated to cloud'' (hm_get ts provider))"

definition build_provider ::
  "('w, 'st) cloud_env \<Rightarrow> string \<Rightarrow> ('w, 'st, 'c, 'w cloud_client) request" where
  "build_provider cl provider =
     io_bind (query (\<lambda>s. cfg_general (current_config s))) (\<lambda>g.
     let mode = from_config (gen_http_proxy_mode g) (gen_http_proxy_url g) in
     if provider = ''dropbox'' then io_ret (cloud_client cl Dropbox mode)
     else if provider = ''baidu'' then io_ret (cloud_client cl Baidu mode)
     else reject InvalidParams (''unknown provider: '' @ provider))"

definition unix_secs :: "('w, 'st, 'c) daemon_env \<Rightarrow> 'w \<Rightarrow> int" where
  "unix_secs env w = int (d_now env w div 10 ^ 9)"

definition store_token ::
  "('w, 'st, 'c) daemon_env \<Rightarrow> ('w, 'st) cloud_env \<Rightarrow> string \<Rightarrow> CloudProvider \<Rightarrow> OAuthToken \<Rightarrow> TokenStoreData \<Rightarrow> ('w, 'st, 'c, unit) request" where
  "store_token env cl provider p token ts =
     io_bind (query (\<lambda>s. unix_secs env (world s))) (\<lambda>t.
     save_cloud_tokens cl (hm_insert provider \<lparr>sto_provider = p, sto_token = token, sto_stored_at = t\<rparr> ts))"

definition CALLBACK_URI :: string where
  "CALLBACK_URI = ''http://localhost:17380/callback''"

definition handle_cloud_sync_auth_url :: "('w, 'st) cloud_env \<Rightarrow> json \<Rightarrow> ('w, 'st, 'c, json) request" where
  "handle_cloud_sync_auth_url cl params =
     io_bind (str_param params ''provider'') (\<lambda>provider.
     io_bind (build_provider cl provider) (\<lambda>p.
     let (url, verifier) = cl_auth_url p (str_or CALLBACK_URI (json_str params ''redirect_uri''))
     in io_ret (JObj [(''auth_url'', JStr url), (''code_verifier'', jopt JStr verifier), (''provider'', JStr provider)])))"

definition token_json :: "OAuthToken \<Rightarrow> (string \<times> json) list" where
  "token_json t =
     [(''access_token'', JStr (access_token t)), (''refresh_token'', jopt JStr (refresh_token t)),
      (''expires_at'', jopt jint (expires_at t)), (''token_type'', JStr (token_type t))]"

definition exchange ::
  "'w cloud_client \<Rightarrow> string \<Rightarrow> string \<Rightarrow> string \<Rightarrow> string \<Rightarrow> ('w, 'st, 'c, OAuthToken) request" where
  "exchange p code verifier uri st = io_map_err (internal_error ''OAuth exchange'') (on_world (cl_exchange_code p code verifier uri st))"

definition handle_cloud_sync_exchange_code :: "('w, 'st) cloud_env \<Rightarrow> json \<Rightarrow> ('w, 'st, 'c, json) request" where
  "handle_cloud_sync_exchange_code cl params =
     io_bind (str_param params ''provider'') (\<lambda>provider.
     io_bind (str_param params ''code'') (\<lambda>code.
     io_bind (build_provider cl provider) (\<lambda>p.
     io_bind (exchange p code (str_or [] (json_str params ''code_verifier''))
        (str_or CALLBACK_URI (json_str params ''redirect_uri'')) (str_or [] (json_str params ''state''))) (\<lambda>token.
     io_ret (JObj (token_json token))))))"

definition handle_cloud_sync_save_token ::
  "('w, 'st, 'c) daemon_env \<Rightarrow> ('w, 'st) cloud_env \<Rightarrow> json \<Rightarrow> ('w, 'st, 'c, json) request" where
  "handle_cloud_sync_save_token env cl params =
     io_bind (str_param params ''provider'') (\<lambda>provider.
     io_bind (str_param params ''access_token'') (\<lambda>token.
     io_bind (lift_result (\<lambda>e. Fails (IpcError InvalidParams e)) (parse_provider provider)) (\<lambda>p.
     io_bind (get_tokens cl) (\<lambda>ts.
     io_bind (store_token env cl provider p \<lparr>access_token = token, refresh_token = json_str params ''refresh_token'',
        expires_at = json_i64 params ''expires_at'', token_type = str_or ''bearer'' (json_str params ''token_type'')\<rparr> ts) (\<lambda>_.
     io_ret (JObj [(''ok'', JBool True)]))))))"

definition handle_cloud_sync_load_token :: "('w, 'st) cloud_env \<Rightarrow> json \<Rightarrow> ('w, 'st, 'c, json) request" where
  "handle_cloud_sync_load_token cl params =
     io_bind (str_param params ''provider'') (\<lambda>provider.
     io_bind (get_tokens cl) (\<lambda>ts.
     let stored = hm_get ts provider
     in io_ret (JObj [(''authenticated'', JBool (stored \<noteq> None)),
          (''access_token'', jopt (\<lambda>x. JStr (access_token (sto_token x))) stored),
          (''expires_at'', jopt jint (Option.bind stored (\<lambda>x. expires_at (sto_token x))))])))"

definition handle_cloud_sync_disconnect :: "('w, 'st) cloud_env \<Rightarrow> json \<Rightarrow> ('w, 'st, 'c, json) request" where
  "handle_cloud_sync_disconnect cl params =
     io_bind (str_param params ''provider'') (\<lambda>provider.
     io_bind (get_tokens cl) (\<lambda>ts.
     io_bind (save_cloud_tokens cl (hm_remove provider ts)) (\<lambda>_.
     io_ret (JObj [(''ok'', JBool True)]))))"

definition handle_cloud_sync_refresh_token ::
  "('w, 'st, 'c) daemon_env \<Rightarrow> ('w, 'st) cloud_env \<Rightarrow> json \<Rightarrow> ('w, 'st, 'c, json) request" where
  "handle_cloud_sync_refresh_token env cl params =
     io_bind (str_param params ''provider'') (\<lambda>provider.
     io_bind (get_tokens cl) (\<lambda>ts.
     io_bind (require CredentialNotFound ''not authenticated to cloud'' (hm_get ts provider)) (\<lambda>stored.
     io_bind (build_provider cl provider) (\<lambda>p.
     io_bind (io_map_err (internal_error ''refresh'') (on_world (cl_refresh_token p (sto_token stored)))) (\<lambda>token.
     io_bind (store_token env cl provider (sto_provider stored) token ts) (\<lambda>_.
     io_ret (JObj [(''ok'', JBool True), (''access_token'', JStr (access_token token)), (''expires_at'', jopt jint (expires_at token))])))))))"

section \<open>Upload and download\<close>

definition load_sync_state_db :: "('w, 'st, 'c) DaemonState \<Rightarrow> SyncState" where
  "load_sync_state_db s =
     \<lparr>baidu_state = (case db_baidu (cloud_db s) of Some p \<Rightarrow> p | None \<Rightarrow> provider_new),
      dropbox_state = (case db_dropbox (cloud_db s) of Some p \<Rightarrow> p | None \<Rightarrow> provider_new)\<rparr>"

definition save_sync_state_db :: "('w, 'st) cloud_env \<Rightarrow> SyncState \<Rightarrow> ('w, 'st, 'c, unit) request" where
  "save_sync_state_db cl st =
     io_bind (db_write cl ''save baidu state'' ''baidu'' (\<lambda>d. d\<lparr>db_baidu := Some (baidu_state st)\<rparr>)) (\<lambda>_.
     db_write cl ''save dropbox state'' ''dropbox'' (\<lambda>d. d\<lparr>db_dropbox := Some (dropbox_state st)\<rparr>))"

definition load_sync_hash_db :: "('w, 'st, 'c) DaemonState \<Rightarrow> bytes option" where
  "load_sync_hash_db s = Option.bind (db_sync_hash (cloud_db s)) hex_to_hash"

definition save_sync_hash_db :: "('w, 'st) cloud_env \<Rightarrow> bytes \<Rightarrow> ('w, 'st, 'c, unit) request" where
  "save_sync_hash_db cl h = db_write cl ''save sync hash'' ''sync_hash'' (\<lambda>d. d\<lparr>db_sync_hash := Some (hash_to_hex h)\<rparr>)"

definition local_config_version :: "('w, 'st) cloud_env \<Rightarrow> ('w, 'st, 'c) DaemonState \<Rightarrow> string option" where
  "local_config_version cl s = local_version cl (storage (config_manager s))"

definition sync_path_from_params :: "json \<Rightarrow> string" where
  "sync_path_from_params params =
     (case json_str params ''sync_path'' of Some p \<Rightarrow> if p = [] then SYNC_FILE_PATH else p | None \<Rightarrow> SYNC_FILE_PATH)"

definition remote_info ::
  "'w cloud_client \<Rightarrow> StoredToken \<Rightarrow> string \<Rightarrow> string \<Rightarrow> ('w, 'st, 'c, RemoteFileInfo) request" where
  "remote_info p stored path what = io_map_err (internal_error what) (on_world (cl_file_info p (sto_token stored) path))"

text \<open>What both directions write down at the end.\<close>

definition remember_sync ::
  "('w, 'st) cloud_env \<Rightarrow> string \<Rightarrow> string option \<Rightarrow> string \<Rightarrow> string \<Rightarrow> bytes \<Rightarrow> ('w, 'st, 'c, unit) request" where
  "remember_sync cl provider hash device updated_at pw_hash =
     io_bind (query (\<lambda>s. set_sync_info provider (str_or [] hash) device updated_at (local_config_version cl s)
        (load_sync_state_db s))) (\<lambda>st.
     io_bind (save_sync_state_db cl st) (\<lambda>_.
     save_sync_hash_db cl pw_hash))"

definition keep_upload_config ::
  "string \<Rightarrow> StoredToken \<Rightarrow> string \<Rightarrow> ('w, 'st, 'c) DaemonState \<Rightarrow> ('w, 'st, 'c) DaemonState" where
  "keep_upload_config provider stored password s =
     s\<lparr>file_upload_config := Some \<lparr>fu_provider = provider, fu_token = sto_token stored, fu_master_password = password\<rparr>\<rparr>"

definition send_up ::
  "('w, 'st, 'c) daemon_env \<Rightarrow> ('w, 'st) cloud_env \<Rightarrow> 'w cloud_client \<Rightarrow> string \<Rightarrow> StoredToken \<Rightarrow> string \<Rightarrow> string \<Rightarrow>
   ('w, 'st, 'c, json) request" where
  "send_up env cl p provider stored path password =
     io_bind (query (export_full_data env cl)) (\<lambda>d.
     io_bind (query (\<lambda>s. d_rfc3339 env (d_now env (world s)))) (\<lambda>updated_at.
     let device = device_name (c_hostname cl) in
     io_bind (lift_result (internal_error ''serialize config'') (export_json cl d)) (\<lambda>j.
     io_bind (query world) (\<lambda>w.
     io_bind (lift_result (\<lambda>e. internal_error ''encrypt'' (show_sync_error cl e))
        (encrypt_config (c_sync cl) (c_draw cl w) (c_salt cl w) password
           \<lparr>sp_config = j, sp_device_name = device, sp_updated_at = updated_at\<rparr>)) (\<lambda>blob.
     io_bind (io_map_err (internal_error ''upload'') (on_world (cl_upload p (sto_token stored) path blob))) (\<lambda>_.
     io_bind (change (keep_upload_config provider stored password)) (\<lambda>_.
     io_bind (remote_info p stored path ''file_info after upload'') (\<lambda>info.
     io_bind (remember_sync cl provider (rf_hash info) device updated_at (password_hash (c_sync cl) password)) (\<lambda>_.
     io_ret (JObj [(''ok'', JBool True), (''size'', jnat (length blob))]))))))))))"

definition handle_cloud_sync_upload ::
  "('w, 'st, 'c) daemon_env \<Rightarrow> ('w, 'st) cloud_env \<Rightarrow> json \<Rightarrow> ('w, 'st, 'c, json) request" where
  "handle_cloud_sync_upload env cl params =
     io_bind (str_param params ''provider'') (\<lambda>provider.
     io_bind (str_param params ''master_password'') (\<lambda>password.
     let force = (json_bool params ''force'' = Some True) in
     io_bind (query load_sync_hash_db) (\<lambda>h.
     if \<not> force \<and> h \<noteq> None \<and> h \<noteq> Some (password_hash (c_sync cl) password) then io_ret password_mismatch
     else
     io_bind (stored_token cl provider) (\<lambda>stored.
     io_bind (build_provider cl provider) (\<lambda>p.
     let path = sync_path_from_params params in
     io_bind (remote_info p stored path ''file_info'') (\<lambda>info.
     io_bind (query load_sync_state_db) (\<lambda>st.
     case check_upload_with_force force info (last_hash (sync_get provider st)) of
       Some conflict \<Rightarrow> io_ret conflict
     | None \<Rightarrow> send_up env cl p provider stored path password)))))))"

text \<open>Commands are not taken from the cloud.\<close>

definition strip_triggers :: "FullExportData \<Rightarrow> FullExportData" where
  "strip_triggers d =
     d\<lparr>ex_config := (ex_config d)\<lparr>cfg_local_triggers := [],
          cfg_servers := map (\<lambda>srv. srv\<lparr>srv_triggers := []\<rparr>) (cfg_servers (ex_config d))\<rparr>\<rparr>"

definition take_down ::
  "('w, 'st, 'c) daemon_env \<Rightarrow> ('w, 'st) cloud_env \<Rightarrow> string \<Rightarrow> StoredToken \<Rightarrow> string \<Rightarrow> RemoteFileInfo \<Rightarrow> SyncPayload \<Rightarrow> nat \<Rightarrow>
   ('w, 'st, 'c, json) request" where
  "take_down env cl provider stored password info received nbytes =
     io_bind (lift_result (internal_error ''parse config'') (export_of cl (sp_config received))) (\<lambda>d.
     io_bind (apply_full_export env cl (strip_triggers d)) (\<lambda>_.
     io_bind (change (keep_upload_config provider stored password)) (\<lambda>_.
     io_bind (remember_sync cl provider (rf_hash info) (sp_device_name received) (sp_updated_at received)
        (password_hash (c_sync cl) password)) (\<lambda>_.
     io_ret (JObj [(''ok'', JBool True), (''device_name'', JStr (sp_device_name received)),
        (''updated_at'', JStr (sp_updated_at received)), (''size'', jnat nbytes)])))))"

definition handle_cloud_sync_download ::
  "('w, 'st, 'c) daemon_env \<Rightarrow> ('w, 'st) cloud_env \<Rightarrow> json \<Rightarrow> ('w, 'st, 'c, json) request" where
  "handle_cloud_sync_download env cl params =
     io_bind (str_param params ''provider'') (\<lambda>provider.
     io_bind (str_param params ''master_password'') (\<lambda>password.
     let force = (json_bool params ''force_download'' = Some True) in
     io_bind (stored_token cl provider) (\<lambda>stored.
     io_bind (build_provider cl provider) (\<lambda>p.
     let path = sync_path_from_params params in
     io_bind (remote_info p stored path ''file_info'') (\<lambda>info.
     if \<not> rf_exists info then io_ret build_no_remote_data_response
     else
     io_bind (query (\<lambda>s. (sync_get provider (load_sync_state_db s), local_config_version cl s))) (\<lambda>(st, cur).
     if \<not> force \<and> is_no_update info (last_hash st) (last_local_mtime st) cur
     then io_ret (build_no_update_response (rf_modified info) cur)
     else if \<not> force \<and> is_local_newer info (last_hash st) (last_local_mtime st) cur
     then io_ret (build_local_newer_response (rf_modified info) cur)
     else
     io_bind (io_map_err (internal_error ''download'') (on_world (cl_download p (sto_token stored) path))) (\<lambda>blob.
     case decrypt_config (c_sync cl) password blob of
       Inl _ \<Rightarrow> io_ret build_decrypt_failed_response
     | Inr received \<Rightarrow>
         (case check_rollback_with_force force received (last_updated_at st) of
            Some rollback \<Rightarrow> io_ret rollback
          | None \<Rightarrow> take_down env cl provider stored password info received (length blob)))))))))"

section \<open>Status and removal\<close>

definition handle_cloud_sync_file_info :: "('w, 'st) cloud_env \<Rightarrow> json \<Rightarrow> ('w, 'st, 'c, json) request" where
  "handle_cloud_sync_file_info cl params =
     io_bind (str_param params ''provider'') (\<lambda>provider.
     io_bind (stored_token cl provider) (\<lambda>stored.
     io_bind (build_provider cl provider) (\<lambda>p.
     io_bind (remote_info p stored (sync_path_from_params params) ''file_info'') (\<lambda>info.
     io_ret (JObj [(''exists'', JBool (rf_exists info)), (''size'', jopt jword (rf_size info)),
       (''modified'', jopt JStr (rf_modified info))])))))"

definition handle_cloud_sync_status :: "json \<Rightarrow> ('w, 'st, 'c, json) request" where
  "handle_cloud_sync_status params =
     io_bind (str_param params ''provider'') (\<lambda>provider.
     io_bind (str_param params ''master_password'') (\<lambda>_.
     io_bind (query (\<lambda>s. sync_get provider (load_sync_state_db s))) (\<lambda>st.
     io_ret (JObj [(''device_name'', jopt JStr (last_device_name st)), (''updated_at'', jopt JStr (last_updated_at st))]))))"

definition handle_cloud_sync_delete_remote :: "('w, 'st) cloud_env \<Rightarrow> json \<Rightarrow> ('w, 'st, 'c, json) request" where
  "handle_cloud_sync_delete_remote cl params =
     io_bind (str_param params ''provider'') (\<lambda>provider.
     io_bind (stored_token cl provider) (\<lambda>stored.
     io_bind (build_provider cl provider) (\<lambda>p.
     io_bind (io_map_err (internal_error ''delete'')
        (on_world (cl_delete p (sto_token stored) (sync_path_from_params params)))) (\<lambda>_.
     io_ret (JObj [(''ok'', JBool True)])))))"

section \<open>Authorisation through the browser\<close>

text \<open>The ports from the one asked for; the sum wraps as in a release build, and the range may be empty.\<close>

definition callback_ports :: "u16 \<Rightarrow> u16 list" where
  "callback_ports port = map word_of_nat [unat port ..< Suc (unat (min (port + 5) 19839))]"

fun try_listen ::
  "('w, 'st) cloud_env \<Rightarrow> u16 list \<Rightarrow> string \<Rightarrow> 'w \<Rightarrow> (string + u16) \<times> 'w" where
  "try_listen cl [] err w = (Inl err, w)"
| "try_listen cl (p # ps) err w =
     (case listen cl p w of
        (Inr _, w1) \<Rightarrow> (Inr p, w1)
      | (Inl e, w1) \<Rightarrow> try_listen cl ps (''port '' @ show_nat (unat p) @ '': '' @ e) w1)"

definition handle_cloud_sync_auth_with_callback :: "('w, 'st) cloud_env \<Rightarrow> json \<Rightarrow> ('w, 'st, 'c, json) request" where
  "handle_cloud_sync_auth_with_callback cl params =
     io_bind (str_param params ''provider'') (\<lambda>provider.
     let port = (case port_param params ''port'' of Some p \<Rightarrow> p | None \<Rightarrow> 19834) in
     io_bind (io_map_err (internal_error ''all callback ports 19834-19839 occupied'')
        (on_world (try_listen cl (callback_ports port) []))) (\<lambda>bound.
     let uri = redirect_uri bound in
     io_bind (build_provider cl provider) (\<lambda>p.
     io_bind (io_map_err (internal_error ''fetch auth url'') (on_world (cl_fetch_auth_url p uri))) (\<lambda>(url, verifier, st).
     io_bind (change (\<lambda>s. s\<lparr>cloud_db := (cloud_db s)\<lparr>callback_waiting := True\<rparr>,
        cloud_sync_pending := Some \<lparr>pa_provider = provider, pa_code_verifier = str_or [] verifier, pa_redirect_uri = uri,
          pa_state = st\<rparr>\<rparr>)) (\<lambda>_.
     io_ret (JObj [(''auth_url'', JStr url), (''redirect_uri'', JStr uri)]))))))"

definition take_pending :: "('w, 'st, 'c, CloudSyncPendingAuth) request" where
  "take_pending =
     io_bind (query (\<lambda>s. callback_waiting (cloud_db s))) (\<lambda>b.
     if \<not> b then reject InvalidParams ''no pending callback''
     else
     io_bind (change (\<lambda>s. s\<lparr>cloud_db := (cloud_db s)\<lparr>callback_waiting := False\<rparr>\<rparr>)) (\<lambda>_.
     io_bind (query cloud_sync_pending) (\<lambda>p.
     io_bind (require InvalidParams ''no pending auth'' p) (\<lambda>pending.
     io_bind (change (\<lambda>s. s\<lparr>cloud_sync_pending := None\<rparr>)) (\<lambda>_. io_ret pending)))))"

definition await_answer :: "('w, 'st) cloud_env \<Rightarrow> ('w, 'st, 'c, CallbackResult) request" where
  "await_answer cl =
     io_bind (\<lambda>s. case wait_callback cl (world s) of (r, w) \<Rightarrow> (Inr r, s\<lparr>world := w\<rparr>)) (\<lambda>r.
     case r of
       Got x \<Rightarrow> io_ret x
     | SenderGone \<Rightarrow> reject Internal ''callback channel closed''
     | TimedOut \<Rightarrow> reject Internal ''callback timed out (5 min)'')"

definition handle_cloud_sync_wait_callback ::
  "('w, 'st, 'c) daemon_env \<Rightarrow> ('w, 'st) cloud_env \<Rightarrow> ('w, 'st, 'c, json) request" where
  "handle_cloud_sync_wait_callback env cl =
     io_bind take_pending (\<lambda>pending.
     io_bind (await_answer cl) (\<lambda>answer.
     if cb_code answer = [] then reject Internal ''no code in callback''
     else if pa_state pending \<noteq> [] \<and> cb_state answer \<noteq> pa_state pending
     then reject Internal ''OAuth state mismatch (CSRF?)''
     else
     io_bind (build_provider cl (pa_provider pending)) (\<lambda>p.
     io_bind (exchange p (cb_code answer) (pa_code_verifier pending) (pa_redirect_uri pending) (cb_state answer)) (\<lambda>token.
     io_bind (lift_result (\<lambda>e. Fails (IpcError InvalidParams e)) (parse_provider (pa_provider pending))) (\<lambda>pt.
     io_bind (get_tokens cl) (\<lambda>ts.
     io_bind (store_token env cl (pa_provider pending) pt token ts) (\<lambda>_.
     io_ret (JObj ((''ok'', JBool True) # token_json token)))))))))"

end
