(* ===== verification/Dispatch.thy ===== *)
theory Dispatch
  imports TerminalHandlers CloudHandlers ProxyTest
begin

text \<open>
  The two requests that probe a server, and \<open>handle_request\<close> of \<open>crates/daemon/src/handler.rs\<close>, which takes
  every request to its handler and turns the result into a response.
\<close>

section \<open>Probing\<close>

text \<open>
  \<open>dial\<close> connects to the proxy's port, with what the proxy will answer; without an error it has timed out.
  \<open>millis\<close> is the time the whole test takes.
\<close>

record 'w probe_env =
  dial :: "u16 \<Rightarrow> 'w \<Rightarrow> (io_error option + sock) \<times> 'w"
  p_test :: test_env
  millis :: "'w \<Rightarrow> nat"

definition dial_error :: "test_env \<Rightarrow> io_error option \<Rightarrow> string" where
  "dial_error env e =
     (case e of None \<Rightarrow> ''connect to SOCKS5 timed out'' | Some x \<Rightarrow> ''connect to SOCKS5 failed: '' @ show_io env x)"

definition run_test :: "'w probe_env \<Rightarrow> u16 \<Rightarrow> string \<Rightarrow> 'w \<Rightarrow> (string + string) \<times> 'w" where
  "run_test pe port url w =
     (case dial pe port w of
        (Inl e, w1) \<Rightarrow> (Inl (dial_error (p_test pe) e), w1)
      | (Inr peer, w1) \<Rightarrow> (fst (test_proxy_via_socks5 (p_test pe) url peer), w1))"

definition limited_test :: "'w probe_env \<Rightarrow> u16 \<Rightarrow> string \<Rightarrow> 'w \<Rightarrow> (string + string) \<times> 'w" where
  "limited_test pe port url w =
     (case run_test pe port url w of (r, w1) \<Rightarrow>
        (if 15000 \<le> millis pe w1 then Inl ''test proxy timed out (15s)'' else r, w1))"

definition handle_test_proxy ::
  "('w, 'st, 'c) daemon_env \<Rightarrow> 'w probe_env \<Rightarrow> json \<Rightarrow> ('w, 'st, 'c, json) request" where
  "handle_test_proxy env pe params =
     io_bind (str_param params ''server_id'') (\<lambda>sid.
     io_bind (change (cli_focus params sid (Some ''proxy''))) (\<lambda>_.
     io_bind (the_server env sid) (\<lambda>si.
     if \<not> proxy_running si then reject Internal ''proxy is not running for this server''
     else
     let port = px_socks5_port (srv_proxy (si_config si));
         url = str_or ''https://api.ipify.org'' (json_str params ''url'')
     in
     io_bind (\<lambda>s. case limited_test pe port url (world s) of (r, w) \<Rightarrow> (Inr r, s\<lparr>world := w\<rparr>)) (\<lambda>r.
     io_bind (query (\<lambda>s. millis pe (world s))) (\<lambda>ms.
     case r of
       Inr ip \<Rightarrow>
         io_bind (change (log_and_broadcast env (Some sid) Info Proxy
           (''Proxy test success: exit_ip='' @ ip @ '' latency='' @ show_nat ms @ ''ms''))) (\<lambda>_.
         io_ret (JObj [(''server_id'', JStr sid), (''success'', JBool True), (''exit_ip'', JStr ip), (''latency_ms'', jnat ms)]))
     | Inl e \<Rightarrow>
         io_bind (change (log_and_broadcast env (Some sid) ErrorLevel Proxy (''Proxy test failed: '' @ e))) (\<lambda>_.
         io_ret (JObj [(''server_id'', JStr sid), (''success'', JBool False), (''exit_ip'', JNull), (''latency_ms'', jnat ms),
           (''error'', JStr e)])))))))"

text \<open>A firewall that ufw calls inactive is found to be active, since the word contains the other.\<close>

definition ufw_active :: "string \<Rightarrow> bool" where
  "ufw_active out \<longleftrightarrow> find_sub ''active'' out \<noteq> None"

definition listening_ports :: "string \<Rightarrow> u16 list" where
  "listening_ports out = List.map_filter (\<lambda>l. map_option word_of_nat (parse_uint 65535 (trim l))) (lines out)"

definition UFW_COMMAND :: string where
  "UFW_COMMAND = ''which ufw 2>/dev/null && ufw status 2>/dev/null | head -1''"

definition PORTS_COMMAND :: string where
  "PORTS_COMMAND = ''ss -tlnp 2>/dev/null | grep LISTEN | awk '' @ quoted ''{print $4}'' @ '' | sed '' @ quoted ''s/.*://''
     @ '' | sort -un''"

definition exec_on ::
  "('w, 'st, 'c) daemon_env \<Rightarrow> string \<Rightarrow> string \<Rightarrow> ('w, 'st, 'c, ExecResult) request" where
  "exec_on env sid cmd = io_map_err (core_error env) (on_world (env_exec (d_ssh env sid) cmd 10))"

definition handle_detect_firewall ::
  "('w, 'st, 'c) daemon_env \<Rightarrow> json \<Rightarrow> ('w, 'st, 'c, json) request" where
  "handle_detect_firewall env params =
     io_bind (str_param params ''server_id'') (\<lambda>sid.
     io_bind (the_server env sid) (\<lambda>_.
     io_bind (query (\<lambda>s. env_handle (d_ssh env sid) (world s))) (\<lambda>handle.
     if \<not> handle then reject Internal (''no SSH connection '' @ [CHR 0xE2, CHR 0x80, CHR 0x94] @ '' connect first'')
     else
     io_bind (exec_on env sid ''systemctl is-active firewalld 2>/dev/null'') (\<lambda>r.
     let firewalld = (trim (ex_stdout r) = ''active'') in
     io_bind (exec_on env sid UFW_COMMAND) (\<lambda>r.
     let ufw = ufw_active (ex_stdout r);
         kind = (if firewalld then ''firewalld'' else if ufw then ''ufw'' else ''none'')
     in
     io_bind (exec_on env sid PORTS_COMMAND) (\<lambda>r.
     let ports = listening_ports (ex_stdout r) in
     io_bind (if firewalld
         then (\<lambda>s. case env_exec (d_ssh env sid) ''firewall-cmd --list-ports 2>/dev/null'' 10 (world s) of
                 (x, w) \<Rightarrow> (Inr (case x of Inr y \<Rightarrow> split_whitespace (ex_stdout y) | Inl _ \<Rightarrow> []), s\<lparr>world := w\<rparr>))
         else io_ret []) (\<lambda>opened_ports.
     io_ret (JObj [(''server_id'', JStr sid), (''firewall_type'', JStr kind),
       (''listening_ports'', JArr (map jword ports)), (''firewalld_open_ports'', JArr (map JStr opened_ports))]))))))))"

section \<open>The dispatch\<close>

primrec handler_of ::
  "('w, 'st, 'c) daemon_env \<Rightarrow> ('w, 'st) cloud_env \<Rightarrow> 'w probe_env \<Rightarrow> json \<Rightarrow> Action \<Rightarrow> ('w, 'st, 'c, json) request" where
  "handler_of env cl pe params AddServer = handle_add_server env params"
| "handler_of env cl pe params RemoveServer = handle_remove_server env params"
| "handler_of env cl pe params UpdateServer = handle_update_server env params"
| "handler_of env cl pe params ConnectServer = handle_connect_server env params"
| "handler_of env cl pe params DisconnectServer = handle_disconnect_server env params"
| "handler_of env cl pe params GetServerStatus = handle_get_server_status env params"
| "handler_of env cl pe params ListServers = handle_list_servers env"
| "handler_of env cl pe params ExportServers = handle_export_servers env"
| "handler_of env cl pe params ImportServers = handle_import_servers env params"
| "handler_of env cl pe params ExportFull = handle_export_full env cl params"
| "handler_of env cl pe params ImportFull = handle_import_full env cl params"
| "handler_of env cl pe params CleanupAuthorizedKeys = handle_cleanup_authorized_keys env params"
| "handler_of env cl pe params ReorderServers = handle_reorder_servers env params"
| "handler_of env cl pe params ToggleProxy = handle_toggle_proxy env params"
| "handler_of env cl pe params ToggleProxyAdvanced = handle_toggle_proxy_advanced env params"
| "handler_of env cl pe params GetProxyStatus = handle_get_proxy_status env params"
| "handler_of env cl pe params TestProxy = handle_test_proxy env pe params"
| "handler_of env cl pe params SetProxyAuth = handle_set_proxy_auth env params"
| "handler_of env cl pe params ClearProxyAuth = handle_clear_proxy_auth env params"
| "handler_of env cl pe params SetSystemProxy = handle_set_system_proxy env params"
| "handler_of env cl pe params ClearSystemProxy = handle_clear_system_proxy env"
| "handler_of env cl pe params GetSystemProxy = handle_get_system_proxy"
| "handler_of env cl pe params AddTrigger = handle_add_trigger env params"
| "handler_of env cl pe params RemoveTrigger = handle_remove_trigger env params"
| "handler_of env cl pe params UpdateTrigger = handle_update_trigger env params"
| "handler_of env cl pe params SyncTriggerFromTemplate = handle_sync_trigger_from_template env params"
| "handler_of env cl pe params ManualFireTrigger = handle_manual_fire_trigger env params"
| "handler_of env cl pe params PauseAllTriggers = handle_pause_all_triggers"
| "handler_of env cl pe params ResumeAllTriggers = handle_resume_all_triggers env"
| "handler_of env cl pe params PauseServerTriggers = handle_pause_server_triggers env params"
| "handler_of env cl pe params ResumeServerTriggers = handle_resume_server_triggers env params"
| "handler_of env cl pe params ListTemplates = handle_list_templates env"
| "handler_of env cl pe params CreateTemplate = handle_create_template env params"
| "handler_of env cl pe params UpdateTemplate = handle_update_template env params"
| "handler_of env cl pe params DeleteTemplate = handle_delete_template env params"
| "handler_of env cl pe params SaveTriggerAsTemplate = handle_save_trigger_as_template env params"
| "handler_of env cl pe params ImportTemplates = handle_import_templates env params"
| "handler_of env cl pe params ExportTemplates = handle_export_templates env"
| "handler_of env cl pe params SaveCredential = handle_save_credential env params"
| "handler_of env cl pe params HasCredential = handle_has_credential env params"
| "handler_of env cl pe params DeleteCredential = handle_delete_credential env params"
| "handler_of env cl pe params ConfigureKeyAuth = handle_configure_key_auth env params"
| "handler_of env cl pe params SwitchAuthMethod = handle_switch_auth_method env params"
| "handler_of env cl pe params GetConfig = handle_get_config env"
| "handler_of env cl pe params UpdateGeneralConfig = handle_update_general_config env params"
| "handler_of env cl pe params GetLogs = handle_get_logs env params"
| "handler_of env cl pe params ClearLogs = handle_clear_logs"
| "handler_of env cl pe params ExportLogs = handle_export_logs env params"
| "handler_of env cl pe params Shutdown = handle_shutdown"
| "handler_of env cl pe params GetDaemonStatus = handle_get_daemon_status env"
| "handler_of env cl pe params DetectFirewall = handle_detect_firewall env params"
| "handler_of env cl pe params AcceptHostKey = handle_accept_host_key env params"
| "handler_of env cl pe params TerminalOpen = handle_terminal_open env params"
| "handler_of env cl pe params TerminalInput = handle_terminal_input env params"
| "handler_of env cl pe params TerminalClose = handle_terminal_close env params"
| "handler_of env cl pe params TerminalResize = handle_terminal_resize params"
| "handler_of env cl pe params TmuxListSessions = handle_tmux_list_sessions env params"
| "handler_of env cl pe params TmuxNewSession = handle_tmux_new_session env params"
| "handler_of env cl pe params TmuxAttachSession = handle_tmux_attach_session env params"
| "handler_of env cl pe params TmuxKillSession = handle_tmux_kill_session env params"
| "handler_of env cl pe params CloudSyncGetAuthUrl = handle_cloud_sync_auth_url cl params"
| "handler_of env cl pe params CloudSyncExchangeCode = handle_cloud_sync_exchange_code cl params"
| "handler_of env cl pe params CloudSyncSaveToken = handle_cloud_sync_save_token env cl params"
| "handler_of env cl pe params CloudSyncLoadToken = handle_cloud_sync_load_token cl params"
| "handler_of env cl pe params CloudSyncUpload = handle_cloud_sync_upload env cl params"
| "handler_of env cl pe params CloudSyncDownload = handle_cloud_sync_download env cl params"
| "handler_of env cl pe params CloudSyncGetFileInfo = handle_cloud_sync_file_info cl params"
| "handler_of env cl pe params CloudSyncStatus = handle_cloud_sync_status params"
| "handler_of env cl pe params CloudSyncDeleteRemote = handle_cloud_sync_delete_remote cl params"
| "handler_of env cl pe params CloudSyncDisconnect = handle_cloud_sync_disconnect cl params"
| "handler_of env cl pe params CloudSyncRefreshToken = handle_cloud_sync_refresh_token env cl params"
| "handler_of env cl pe params CloudSyncAuthWithCallback = handle_cloud_sync_auth_with_callback cl params"
| "handler_of env cl pe params CloudSyncWaitCallback = handle_cloud_sync_wait_callback env cl"
| "handler_of env cl pe params ListPortForwards = handle_list_port_forwards env params"
| "handler_of env cl pe params AddPortForward = handle_add_port_forward env params"
| "handler_of env cl pe params UpdatePortForward = handle_update_port_forward env params"
| "handler_of env cl pe params DeletePortForward = handle_delete_port_forward env params"
| "handler_of env cl pe params StartPortForward = handle_start_port_forward env params"
| "handler_of env cl pe params StopPortForward = handle_stop_port_forward env params"
| "handler_of env cl pe params GetPortForwardStatus = handle_get_port_forward_status env params"
| "handler_of env cl pe params SaveLocalTrigger = handle_save_local_trigger env params"
| "handler_of env cl pe params RemoveLocalTrigger = handle_remove_local_trigger env params"
| "handler_of env cl pe params ManualFireLocalTrigger = handle_manual_fire_local_trigger env params"
| "handler_of env cl pe params SetTriggerOverrides = handle_set_trigger_overrides params"
| "handler_of env cl pe params GetTriggerOverrides = handle_get_trigger_overrides params"

text \<open>A panic ends the task of the request without a response.\<close>

definition answer_request ::
  "('w, 'st, 'c) daemon_env \<Rightarrow> ('w, 'st) cloud_env \<Rightarrow> 'w probe_env \<Rightarrow> Request \<Rightarrow> ('w, 'st, 'c) DaemonState \<Rightarrow>
   Response option \<times> ('w, 'st, 'c) DaemonState" where
  "answer_request env cl pe req s =
     (case handler_of env cl pe (rq_params req) (rq_action req) s of
        (Inr data, s1) \<Rightarrow> (Some (Ok (rq_id req) data), s1)
      | (Inl (Fails e), s1) \<Rightarrow> (Some (Err (rq_id req) e), s1)
      | (Inl Panics, s1) \<Rightarrow> (None, s1))"

end
