(* ===== verification/HandlerSamples.thy ===== *)
theory HandlerSamples
  imports Dispatch Credentials
begin

text \<open>
  Surroundings for the examples of the handlers: a server that can be reached, a configuration storage that
  counts its versions, the credential store in memory, and a cloud with one file.  The world is a number.
\<close>

definition toy_ssh :: "(AuthMethod, nat) ssh_env" where
  "toy_ssh =
     \<lparr>env_connect = (\<lambda>auth w. (Inr (), w)), env_handle = (\<lambda>w. True), env_connected = (\<lambda>w. True),
      env_disconnect = (\<lambda>w. (Inr (), w)), env_recorded_key = (\<lambda>w. None), env_exec = (\<lambda>c t w. (Inl (Other ''no channel''), w)),
      env_sleep = (\<lambda>n w. w), env_runner = echo_runner, env_bind = (\<lambda>h p. Inr ()), env_forward = (\<lambda>r. Inr 0),
      env_stored_ip = (\<lambda>i w. None), env_store_ip = (\<lambda>i ip w. w), env_valid_ip = (\<lambda>s. True),
      env_delay = (\<lambda>s. None), env_cron_ok = (\<lambda>s. True)\<rparr>"

definition counting_storage :: "nat ConfigStorage" where
  "counting_storage = \<lparr>st_load = (\<lambda>n. (None, n)), st_save = (\<lambda>c n. (Inr (), n + 1)), st_exists = (\<lambda>n. True)\<rparr>"

definition toy_daemon_on :: "'st ConfigStorage \<Rightarrow> (nat, 'st, (string, string) hm) daemon_env" where
  "toy_daemon_on b =
     \<lparr>d_ssh = (\<lambda>_. toy_ssh), d_accept_key = (\<lambda>i fp w. w), set_proxy = (\<lambda>c w. (Inr noop_proxy_result, w)),
      clear_proxy = (\<lambda>w. (Inr noop_proxy_result, w)), d_banner = (\<lambda>i w. None), d_local = echo_runner,
      d_storage = b, d_creds = InMemoryCredentialStore, d_now = (\<lambda>w. w * 10 ^ 9), d_time = jnat,
      server_of = (\<lambda>j. Inr (sample_server\<lparr>srv_id := str_or [] (json_str j ''id'')\<rparr>)), servers_of = (\<lambda>j. Inl ''not a list''),
      trigger_of = (\<lambda>j. Inl ''not a trigger''), template_of = (\<lambda>j. Inl ''not a template''),
      templates_of = (\<lambda>j. Inl ''not a list''), trigger_type_of = (\<lambda>s. None), config_json = (\<lambda>c. Inr (JObj [])),
      servers_json = (\<lambda>c. Inr (JArr [])), templates_json = (\<lambda>c. Inr (JArr [])), triggers_json = (\<lambda>c. JArr []),
      d_delay = (\<lambda>s. None), d_cron_ok = (\<lambda>s. True), d_rfc3339 = show_nat, hash_hex = (\<lambda>cs. ''0123456789abcdef''),
      clock_hash = (\<lambda>w. ''0123456789abcdef''), name_chars = (\<lambda>s. s), logs_json = (\<lambda>ls. Inr (JArr [])),
      d_open_pty = (\<lambda>i c r w. (Inr [], w)), d_open_local_pty = (\<lambda>sh c r w. (Inr (), w)), d_package = ''1.0.0'',
      d_fresh_id = show_nat, d_random = (\<lambda>w. []), b64_encode = str_of_bytes, b64_decode = (\<lambda>s. Inr (bytes_of_str s)),
      forward_type_of = (\<lambda>j. Inr LocalForward), d_show_error = (\<lambda>e. ''error''), d_show_io = (\<lambda>e. ''io'')\<rparr>"

abbreviation toy_daemon :: "(nat, nat, (string, string) hm) daemon_env" where
  "toy_daemon \<equiv> toy_daemon_on counting_storage"

definition toy_client :: "nat cloud_client" where
  "toy_client =
     \<lparr>cl_auth_url = (\<lambda>u. (u, None)), cl_fetch_auth_url = (\<lambda>u w. (Inr (u, None, ''s''), w)),
      cl_exchange_code = (\<lambda>c v u st w. (Inl ''refused'', w)), cl_refresh_token = (\<lambda>t w. (Inr t, w)),
      cl_upload = (\<lambda>t p bs w. (Inr (), w)), cl_download = (\<lambda>t p w. (Inr [], w)),
      cl_file_info = (\<lambda>t p w. (Inr no_file, w)), cl_delete = (\<lambda>t p w. (Inr (), w))\<rparr>"

definition toy_cloud :: "(nat, nat) cloud_env" where
  "toy_cloud =
     \<lparr>cloud_client = (\<lambda>p m. toy_client), c_sync = toy_sync, c_export = toy_export, export_json = (\<lambda>d. Inr (JObj [])),
      export_of = (\<lambda>j. Inr sample_export), c_draw = (\<lambda>w. toy_draw), c_salt = (\<lambda>w. replicate 16 9),
      c_nonce = (\<lambda>w. replicate 12 1), db_error = (\<lambda>r w. None), local_version = (\<lambda>n. Some (show_nat n)),
      read_key_file = (\<lambda>p w. None), canonicalize = (\<lambda>p w. Some p), write_key_file = (\<lambda>p t w. w),
      reencrypt = (\<lambda>t p. None), home_dir = [''/'', ''home''], temp_dir = [''/'', ''tmp''], c_hostname = ''mac'',
      listen = (\<lambda>p w. (Inr (), w)), wait_callback = (\<lambda>w. (TimedOut, w)), show_sync_error = (\<lambda>e. ''error'')\<rparr>"

definition toy_probe :: "nat probe_env" where
  "toy_probe =
     \<lparr>dial = (\<lambda>p w. (Inl None, w)),
      p_test = \<lparr>silent = False, show_io = (\<lambda>_. []), json_of = (\<lambda>_. None), ip_in = (\<lambda>_. None)\<rparr>, millis = (\<lambda>w. w)\<rparr>"

text \<open>A state with given servers in the configuration and in the table.\<close>

definition toy_state_on ::
  "'st ConfigManager \<Rightarrow> ServerConfig list \<Rightarrow> (nat, 'st, (string, string) hm) DaemonState" where
  "toy_state_on m cfgs =
     \<lparr>server_manager = fold (\<lambda>c m. snd (add_server c m)) cfgs servers_new,
      log_buffer = log_new 100,
      config_manager = m,
      credentials = [], clients = [], shutdown_notified = False, gui = None, terminal_manager = terminals_new,
      notices = [], cloud_sync_pending = None,
      cloud_db = \<lparr>db_tokens = None, legacy_tokens = None, db_baidu = None, db_dropbox = None, db_sync_hash = None,
        callback_waiting = False\<rparr>,
      import_lock = lockout_new, file_upload_config = None, local_trigger_engine = engine_new, local_timers = [],
      wired = [], world = 0\<rparr>"

abbreviation toy_state :: "ServerConfig list \<Rightarrow> (nat, nat, (string, string) hm) DaemonState" where
  "toy_state cfgs \<equiv>
     toy_state_on (with_storage_and_corrupt ((config_default [])\<lparr>cfg_servers := cfgs\<rparr>) 0 False) cfgs"

end
