(* ===== verification/Responses.thy ===== *)
theory Responses
  imports HandlerSamples
begin

text \<open>
  What the requests have in common: every response to a request bears its identifier, and a successful
  one carries a JSON object.  \<open>yields\<close> states a property of what a program returns when it succeeds, with
  a rule for each way to build a handler.
\<close>

section \<open>Rules\<close>

definition yields :: "('a \<Rightarrow> bool) \<Rightarrow> ('s, 'e, 'a) io \<Rightarrow> bool" where
  "yields P m \<longleftrightarrow> (\<forall>s x s'. m s = (Inr x, s') \<longrightarrow> P x)"

lemma yields_ret: "P x \<Longrightarrow> yields P (io_ret x)"
  by (simp add: yields_def io_ret_def)

lemma yields_err: "yields P (io_err e)"
  by (simp add: yields_def io_err_def)

lemma yields_reject: "yields P (reject c msg)"
  by (simp add: reject_def yields_err)

lemma yields_not_found: "yields P (rule_not_found i)"
  by (simp add: rule_not_found_def yields_reject)

lemma yields_query: "(\<And>s. P (f s)) \<Longrightarrow> yields P (query f)"
  by (auto simp: yields_def query_def)

lemma yields_bind: "(\<And>x. yields P (k x)) \<Longrightarrow> yields P (io_bind m k)"
  by (auto simp: yields_def io_bind_def split: prod.splits sum.splits)

lemma yields_if: "(b \<Longrightarrow> yields P m) \<Longrightarrow> (\<not> b \<Longrightarrow> yields P n) \<Longrightarrow> yields P (if b then m else n)"
  by simp

lemma yields_option:
  "yields P n \<Longrightarrow> (\<And>x. yields P (m x)) \<Longrightarrow> yields P (case v of None \<Rightarrow> n | Some x \<Rightarrow> m x)"
  by (cases v) simp_all

lemma yields_sum:
  "(\<And>x. yields P (m x)) \<Longrightarrow> (\<And>x. yields P (n x)) \<Longrightarrow> yields P (case v of Inl x \<Rightarrow> m x | Inr x \<Rightarrow> n x)"
  by (cases v) simp_all

lemma yields_let: "yields P (f a) \<Longrightarrow> yields P (let x = a in f x)"
  by simp

lemma yields_prod: "(\<And>x y. yields P (f x y)) \<Longrightarrow> yields P (case v of (x, y) \<Rightarrow> f x y)"
  by (cases v) simp

lemmas yields_rules = yields_ret yields_err yields_reject yields_not_found yields_query yields_bind yields_if
  yields_option yields_sum yields_let yields_prod

section \<open>Shared parts\<close>

lemma object_ends [simp]: "is_object ok_json" "is_object (opened_json env x e)" "is_object (tmux_answer xs b)"
  "is_object (not_done r m e)" "is_object (conflict_json r m)"
  by (simp_all add: ok_json_def opened_json_def tmux_answer_def not_done_def conflict_json_def)

lemma object_answers [simp]: "is_object password_mismatch" "is_object build_no_remote_data_response"
  "is_object (build_no_update_response a b)" "is_object build_decrypt_failed_response"
  "is_object (build_local_newer_response a b)" "is_object (rollback_json p t)"
  by (simp_all add: password_mismatch_def build_no_remote_data_response_def build_no_update_response_def
      build_decrypt_failed_response_def build_local_newer_response_def rollback_json_def)

lemma object_upload: "check_upload_with_force f i h = Some j \<Longrightarrow> is_object j"
  by (auto simp: check_upload_with_force_def check_upload_conflict_def split: if_splits option.splits)

lemma object_rollback: "check_rollback_with_force f p t = Some j \<Longrightarrow> is_object j"
  by (auto simp: check_rollback_with_force_def check_rollback_def split: if_splits option.splits)


lemma yields_lift: "(\<And>x. r = Inr x \<Longrightarrow> P x) \<Longrightarrow> yields P (lift_result f r)"
  by (cases r) (simp_all add: yields_def lift_result_def)

text \<open>The handlers and the parts they share, for unfolding.\<close>

lemmas request_defs =
  after_connect_def connect_failed_def report_manual_def templates_answer_def attach_terminal_def
  take_down_def handle_list_servers_def handle_get_server_status_def handle_add_server_def
  handle_remove_server_def handle_reorder_servers_def handle_accept_host_key_def handle_disconnect_server_def
  handle_update_server_def handle_configure_key_auth_def handle_switch_auth_method_def
  handle_export_servers_def handle_import_servers_def handle_cleanup_authorized_keys_def
  handle_get_daemon_status_def handle_get_logs_def handle_clear_logs_def handle_export_logs_def
  handle_update_general_config_def handle_shutdown_def handle_toggle_proxy_def handle_get_proxy_status_def
  handle_toggle_proxy_advanced_def handle_set_system_proxy_def handle_clear_system_proxy_def
  handle_get_system_proxy_def handle_save_credential_def handle_has_credential_def
  handle_delete_credential_def handle_set_proxy_auth_def handle_clear_proxy_auth_def
  handle_pause_all_triggers_def handle_resume_all_triggers_def handle_pause_server_triggers_def
  handle_resume_server_triggers_def handle_manual_fire_trigger_def handle_manual_fire_local_trigger_def
  handle_save_local_trigger_def handle_remove_local_trigger_def handle_add_trigger_def
  handle_remove_trigger_def handle_update_trigger_def handle_sync_trigger_from_template_def
  handle_list_templates_def handle_export_templates_def handle_create_template_def handle_update_template_def
  handle_delete_template_def handle_save_trigger_as_template_def handle_import_templates_def
  handle_terminal_open_def handle_terminal_input_def handle_terminal_resize_def handle_terminal_close_def
  handle_tmux_list_sessions_def handle_tmux_new_session_def handle_tmux_attach_session_def
  handle_tmux_kill_session_def handle_set_trigger_overrides_def handle_get_trigger_overrides_def
  handle_list_port_forwards_def handle_add_port_forward_def handle_update_port_forward_def
  handle_delete_port_forward_def handle_start_port_forward_def handle_stop_port_forward_def
  handle_get_port_forward_status_def handle_export_full_def handle_import_full_def
  handle_cloud_sync_auth_url_def handle_cloud_sync_exchange_code_def handle_cloud_sync_save_token_def
  handle_cloud_sync_load_token_def handle_cloud_sync_disconnect_def handle_cloud_sync_refresh_token_def
  handle_cloud_sync_file_info_def handle_cloud_sync_status_def handle_cloud_sync_delete_remote_def
  handle_cloud_sync_auth_with_callback_def handle_cloud_sync_wait_callback_def handle_test_proxy_def
  handle_detect_firewall_def

lemma object_connect: "yields is_object (connect_with env sid auth)"
proof -
  have a: "yields is_object (after_connect env sid)" "\<And>e. yields is_object (connect_failed env sid e)"
    unfolding after_connect_def connect_failed_def by (intro yields_rules; simp)+
  show ?thesis using a
    by (auto simp: yields_def connect_with_def Let_def split: option.splits prod.splits sum.splits)
qed

lemma object_connect_server: "yields is_object (handle_connect_server env params)"
  unfolding handle_connect_server_def by (intro yields_rules object_connect)

lemma object_config:
  assumes "\<And>c j. config_json env c = Inr j \<Longrightarrow> is_object j"
  shows "yields is_object (handle_get_config env)"
  using assms by (auto simp: handle_get_config_def yields_def io_bind_def query_def lift_result_def map_err_Inr split: sum.splits prod.splits)

lemma object_sync: "yields is_object (handle_cloud_sync_upload env cl params)" "yields is_object (handle_cloud_sync_download env cl params)"
proof -
  have t: "yields is_object (send_up env cl p i x path pw)" "yields is_object (take_down env cl i x pw info d n)" for p i x path pw info d n
    unfolding send_up_def take_down_def by (intro yields_rules; simp)+
  have u: "yields is_object (case check_upload_with_force f i h of Some c \<Rightarrow> io_ret c | None \<Rightarrow> send_up env cl p n x path pw)"
    for f i h p n x path pw
    by (cases "check_upload_with_force f i h") (auto intro: t yields_ret dest: object_upload)
  have d: "yields is_object (case check_rollback_with_force f r b of Some c \<Rightarrow> io_ret c | None \<Rightarrow> take_down env cl i x pw info e n)"
    for f r b i x pw info e n
    by (cases "check_rollback_with_force f r b") (auto intro: t yields_ret dest: object_rollback)
  show "yields is_object (handle_cloud_sync_upload env cl params)"
    unfolding handle_cloud_sync_upload_def by (intro yields_rules u; simp)
  show "yields is_object (handle_cloud_sync_download env cl params)"
    unfolding handle_cloud_sync_download_def by (intro yields_rules d; simp)
qed

lemma object_handler:
  assumes "\<And>c j. config_json env c = Inr j \<Longrightarrow> is_object j"
  shows "yields is_object (handler_of env cl pe params a)"
proof -
  have c: "yields is_object (handle_get_config env)"
    by (rule object_config) (rule assms)
  show ?thesis
    by (cases a; simp only: handler_of.simps object_connect_server object_sync c;
        (unfold request_defs, intro yields_rules; simp split: option.split)?)
qed

section \<open>The form of the responses\<close>

text \<open>
  C29. Every request is answered under its own identifier, with an error or with a JSON object, or not at all
  when its task panics; no handler answers with an event.
\<close>

theorem responses_well_formed:
  assumes "\<And>c j. config_json env c = Inr j \<Longrightarrow> is_object j"
  shows "case fst (answer_request env cl pe req s) of
      Some (Ok i data) \<Rightarrow> i = rq_id req \<and> is_object data
    | Some (Err i e) \<Rightarrow> i = rq_id req
    | Some (Event name data) \<Rightarrow> False
    | None \<Rightarrow> True"
  using object_handler [of env cl pe "rq_params req" "rq_action req"] assms
  by (auto simp: answer_request_def yields_def split: prod.split sum.split stop.split)


lemma responses_well_formed_witness:
  "case fst (answer_request toy_daemon toy_cloud toy_probe (request_new_simple ''1'' GetConfig) (toy_state [])) of
      Some (Ok i data) \<Rightarrow> i = ''1'' \<and> is_object data
    | Some (Err i e) \<Rightarrow> i = ''1''
    | Some (Event name data) \<Rightarrow> False
    | None \<Rightarrow> True"
proof -
  have obj: "config_json toy_daemon c = Inr j \<Longrightarrow> is_object j" for c j
    by (auto simp: toy_daemon_on_def)
  have i: "rq_id (request_new_simple ''1'' GetConfig) = ''1''"
    by (simp add: request_new_simple_def request_new_def)
  show ?thesis
    using responses_well_formed [where env = toy_daemon and cl = toy_cloud and pe = toy_probe
        and req = "request_new_simple ''1'' GetConfig" and s = "toy_state []"] obj
    unfolding i by blast
qed

end
