(* ===== verification/DaemonServer.thy ===== *)
theory DaemonServer
  imports HandlerSamples IpcFrames
begin

text \<open>
  The tasks of the daemon (\<open>crates/daemon/src/server.rs\<close>, \<open>DaemonServer\<close>): what it does at its start, the
  consumers of network and terminal events, the socket and its clients, and the shutdown.  A task handles
  one event or one request at a time, in one step; the turns of a client's loop are an explicit schedule,
  and what the other tasks do while the shutdown sleeps is a parameter.
\<close>

section \<open>Start\<close>

definition sync_variables :: "('w, 'st, 'c) DaemonState \<Rightarrow> ('w, 'st, 'c) DaemonState" where
  "sync_variables s =
     (let vs = gen_custom_variables (cfg_general (current_config s));
          s1 = on_all_servers (on_engine (set_custom_variables vs)) s
      in s1\<lparr>local_trigger_engine := set_custom_variables vs (local_trigger_engine s1)\<rparr>)"

definition start_tasks ::
  "('w, 'st, 'c) daemon_env \<Rightarrow> ('w, 'st, 'c) DaemonState \<Rightarrow> ('w, 'st, 'c) DaemonState" where
  "start_tasks env s = set_terminals subscribe_local_events (start_local_interval_timers env (sync_variables s))"

section \<open>Events of the network\<close>

definition net_trigger_event :: "LocalNetworkEvent \<Rightarrow> TriggerEvent" where
  "net_trigger_event e =
     (let event = (manual_event LOCAL ''My Computer'')\<lparr>ev_trigger_type := event_trigger_type e\<rparr>
      in case e of
           PublicIpChange new old \<Rightarrow> event\<lparr>ev_new_ip := Some new, ev_old_ip := old\<rparr>
         | LanIpChange new old \<Rightarrow> event\<lparr>ev_new_ips := Some new, ev_old_ips := Some old\<rparr>
         | _ \<Rightarrow> event)"

definition local_triggers_for :: "TriggerType \<Rightarrow> ('w, 'st, 'c) DaemonState \<Rightarrow> TriggerInstance list" where
  "local_triggers_for t s =
     filter (\<lambda>u. trg_trigger_type u = t \<and> trg_enabled u) (cfg_local_triggers (current_config s))"

text \<open>Without a local terminal the triggers meant for it run in the background, apart from the others.\<close>

definition consume_net_event ::
  "('w, 'st, 'c) daemon_env \<Rightarrow> LocalNetworkEvent \<Rightarrow> (('w, 'st, 'c) DaemonState, unit) handler" where
  "consume_net_event env e =
     io_bind (query (local_triggers_for (event_trigger_type e))) (\<lambda>ts.
     io_bind (query terminal_manager) (\<lambda>m.
     io_bind (query local_trigger_engine) (\<lambda>engine.
     let event = net_trigger_event e;
         target = find_session_by_server LOCAL m;
         sid = str_or [] target;
         typed = filter (in_terminal sid m) ts
     in
     io_bind (case target of
         Some sid \<Rightarrow> inject_triggers engine event sid typed
       | None \<Rightarrow> fire_background env typed event) (\<lambda>_.
     fire_background env (background_at_close sid m ts) event))))"

section \<open>Events of the local terminals\<close>

fun lifecycle_session :: "TerminalLifecycleEvent \<Rightarrow> string" where
  "lifecycle_session (Opened sid) = sid"
| "lifecycle_session (Closed sid) = sid"

fun lifecycle_type :: "TerminalLifecycleEvent \<Rightarrow> TriggerType" where
  "lifecycle_type (Opened _) = OnTerminalOpen"
| "lifecycle_type (Closed _) = BeforeTerminalClose"

definition consume_terminal_event ::
  "('w, 'st, 'c) daemon_env \<Rightarrow> TerminalLifecycleEvent \<Rightarrow> (('w, 'st, 'c) DaemonState, unit) handler" where
  "consume_terminal_event env e =
     io_bind (query (local_triggers_for (lifecycle_type e))) (\<lambda>ts.
     io_bind (query terminal_manager) (\<lambda>m.
     io_bind (query local_trigger_engine) (\<lambda>engine.
     let sid = lifecycle_session e; event = terminal_event LOCAL ''My Computer'' (lifecycle_type e) sid
     in
     io_bind (inject_triggers engine event sid (typed_at_close sid m ts)) (\<lambda>_.
     fire_background env (background_at_close sid m ts) event))))"

text \<open>The task takes the first event of the queue.\<close>

definition terminal_task_step ::
  "('w, 'st, 'c) daemon_env \<Rightarrow> ('w, 'st, 'c) DaemonState \<Rightarrow> ((stop + unit) \<times> ('w, 'st, 'c) DaemonState) option" where
  "terminal_task_step env s =
     (case local_events (terminal_manager s) of
        Some (e # es) \<Rightarrow>
          Some (consume_terminal_event env e (set_terminals (\<lambda>m. m\<lparr>local_events := Some es\<rparr>) s))
      | _ \<Rightarrow> None)"

section \<open>Clients\<close>

text \<open>The listener's counter, and a client that has connected.\<close>

definition accept_client ::
  "u64 \<times> ('w, 'st, 'c) DaemonState \<Rightarrow> u64 \<times> ('w, 'st, 'c) DaemonState" where
  "accept_client ns =
     (case ns of (n, s) \<Rightarrow> (n + 1, s\<lparr>clients := clients s @ [\<lparr>cl_id = n + 1, cl_inbox = []\<rparr>]\<rparr>))"

definition remove_client :: "u64 \<Rightarrow> ('w, 'st, 'c) DaemonState \<Rightarrow> ('w, 'st, 'c) DaemonState" where
  "remove_client cid s = s\<lparr>clients := filter (\<lambda>c. cl_id c \<noteq> cid) (clients s)\<rparr>"

text \<open>
  The loop of a client takes what is ready: a request, or an event from its queue.  \<open>select!\<close> drops the
  branch that lost: a \<open>read_frame\<close> that has taken \<open>n\<close> bytes of an unfinished frame is dropped with
  them (\<open>Outgoing n\<close>).  serde's reading of a request and its writing of a response, empty when it
  fails, are parameters.  A panic in a handler ends the task, and the client stays in the list.
\<close>

datatype turn = Incoming | Outgoing nat

record codec =
  request_of :: "bytes \<Rightarrow> Request option"
  response_bytes :: "Response \<Rightarrow> bytes"

datatype loop_end = Goes | Ends | Dies

definition send_response ::
  "codec \<Rightarrow> Response \<Rightarrow> ('w, 'st, 'c) DaemonState \<Rightarrow> sock \<Rightarrow> loop_end \<times> ('w, 'st, 'c) DaemonState \<times> sock" where
  "send_response js r s sx =
     (case write_frame (response_bytes js r) sx of (Inl e, sx1) \<Rightarrow> (Ends, s, sx1) | (Inr _, sx1) \<Rightarrow> (Goes, s, sx1))"

fun pop_event :: "u64 \<Rightarrow> ClientHandle list \<Rightarrow> (Response \<times> ClientHandle list) option" where
  "pop_event cid [] = None"
| "pop_event cid (c # cs) =
     (if cl_id c = cid
      then (case cl_inbox c of [] \<Rightarrow> None | r # rs \<Rightarrow> Some (r, c\<lparr>cl_inbox := rs\<rparr> # cs))
      else map_option (apsnd (Cons c)) (pop_event cid cs))"

definition client_incoming ::
  "('w, 'st, 'c) daemon_env \<Rightarrow> ('w, 'st) cloud_env \<Rightarrow> 'w probe_env \<Rightarrow> codec \<Rightarrow>
   ('w, 'st, 'c) DaemonState \<Rightarrow> sock \<Rightarrow> loop_end \<times> ('w, 'st, 'c) DaemonState \<times> sock" where
  "client_incoming env cl pe js s sx =
     (case read_frame sx of
        (Inl e, sx1) \<Rightarrow> (Ends, s, sx1)
      | (Inr d, sx1) \<Rightarrow>
          if d = [] then (Ends, s, sx1)
          else (case request_of js d of
                  None \<Rightarrow> (Goes, s, sx1)
                | Some req \<Rightarrow>
                    (case answer_request env cl pe req s of
                       (None, s1) \<Rightarrow> (Dies, s1, sx1)
                     | (Some r, s1) \<Rightarrow> send_response js r s1 sx1)))"

definition client_outgoing ::
  "codec \<Rightarrow> u64 \<Rightarrow> nat \<Rightarrow> ('w, 'st, 'c) DaemonState \<Rightarrow> sock \<Rightarrow> loop_end \<times> ('w, 'st, 'c) DaemonState \<times> sock" where
  "client_outgoing js cid n s sx =
     (case pop_event cid (clients s) of
        None \<Rightarrow> (Goes, s, sx)
      | Some (r, cs) \<Rightarrow> send_response js r (s\<lparr>clients := cs\<rparr>) (sx\<lparr>rx := snd (take_exact n (rx sx))\<rparr>))"

primrec client_turn ::
  "('w, 'st, 'c) daemon_env \<Rightarrow> ('w, 'st) cloud_env \<Rightarrow> 'w probe_env \<Rightarrow> codec \<Rightarrow> u64 \<Rightarrow> turn \<Rightarrow>
   ('w, 'st, 'c) DaemonState \<Rightarrow> sock \<Rightarrow> loop_end \<times> ('w, 'st, 'c) DaemonState \<times> sock" where
  "client_turn env cl pe js cid Incoming s sx = client_incoming env cl pe js s sx"
| "client_turn env cl pe js cid (Outgoing n) s sx = client_outgoing js cid n s sx"

fun handle_unix_client ::
  "('w, 'st, 'c) daemon_env \<Rightarrow> ('w, 'st) cloud_env \<Rightarrow> 'w probe_env \<Rightarrow> codec \<Rightarrow> u64 \<Rightarrow> turn list \<Rightarrow>
   ('w, 'st, 'c) DaemonState \<Rightarrow> sock \<Rightarrow> loop_end \<times> ('w, 'st, 'c) DaemonState \<times> sock" where
  "handle_unix_client env cl pe js cid [] s sx = (Goes, s, sx)"
| "handle_unix_client env cl pe js cid (t # ts) s sx =
     (case client_turn env cl pe js cid t s sx of
        (Goes, s1, sx1) \<Rightarrow> handle_unix_client env cl pe js cid ts s1 sx1
      | (Ends, s1, sx1) \<Rightarrow> (Ends, remove_client cid s1, sx1)
      | (Dies, s1, sx1) \<Rightarrow> (Dies, s1, sx1))"

section \<open>Shutdown\<close>

text \<open>
  Waiting for a condition with a deadline: \<open>pause\<close> is what a sleep of so many milliseconds does to the
  state, with all that the other tasks do meanwhile.
\<close>

partial_function (option) wait_until ::
  "('s \<Rightarrow> bool) \<Rightarrow> ('s \<Rightarrow> nat) \<Rightarrow> nat \<Rightarrow> (nat \<Rightarrow> 's \<Rightarrow> 's) \<Rightarrow> nat \<Rightarrow> 's \<Rightarrow> 's option" where
  "wait_until ready time deadline pause ms s =
     (if ready s then Some s else if deadline \<le> time s then Some s
      else wait_until ready time deadline pause ms (pause ms s))"

definition clock :: "('w, 'st, 'c) daemon_env \<Rightarrow> ('w, 'st, 'c) DaemonState \<Rightarrow> nat" where
  "clock env s = d_now env (world s)"

definition each_server ::
  "(AuthMethod ServerInstance \<Rightarrow> AuthMethod ServerInstance) \<Rightarrow> string list \<Rightarrow>
   ('w, 'st, 'c) DaemonState \<Rightarrow> ('w, 'st, 'c) DaemonState" where
  "each_server f ids = fold (\<lambda>sid. on_server sid f) ids"

definition trigger_shutdown :: "('w, 'st, 'c) DaemonState \<Rightarrow> ('w, 'st, 'c) DaemonState" where
  "trigger_shutdown s = s\<lparr>shutdown_notified := True\<rparr>"

definition any_running :: "string list \<Rightarrow> ('w, 'st, 'c) DaemonState \<Rightarrow> bool" where
  "any_running ids s =
     list_ex (\<lambda>sid. case hm_get (servers (server_manager s)) sid of
        Some si \<Rightarrow> has_running (trigger_engine si) | None \<Rightarrow> False) ids"

definition total_active :: "string list \<Rightarrow> ('w, 'st, 'c) DaemonState \<Rightarrow> u32" where
  "total_active ids s =
     fold (\<lambda>sid n. n + (case hm_get (servers (server_manager s)) sid of Some si \<Rightarrow> server_channels si | None \<Rightarrow> 0)) ids 0"

text \<open>Disconnecting what is connected; the result says whether there was any.\<close>

definition drop_connection ::
  "('w, 'st, 'c) daemon_env \<Rightarrow> string \<Rightarrow> bool \<times> ('w, 'st, 'c) DaemonState \<Rightarrow> bool \<times> ('w, 'st, 'c) DaemonState" where
  "drop_connection env sid bs =
     (case bs of (b, s) \<Rightarrow>
       (case hm_get (servers (server_manager s)) sid of
          None \<Rightarrow> (b, s)
        | Some si \<Rightarrow>
            if \<not> env_connected (d_ssh env sid) (world s) then (b, s)
            else (case disconnect (d_ssh env sid) si (world s) of
                    (r, si1, w) \<Rightarrow> (True, put_server sid si1 (s\<lparr>world := w\<rparr>)))))"

definition close_local_terminals :: "('w, 'st, 'c) DaemonState \<Rightarrow> ('w, 'st, 'c) DaemonState" where
  "close_local_terminals s =
     (case close_all_local (terminal_manager s) of (m, ns) \<Rightarrow>
        notify ns (s\<lparr>terminal_manager := clear_closed_sessions m, local_timers := []\<rparr>))"

text \<open>The configuration is not saved when it has no servers and the stored one has some.\<close>

definition refuses_save :: "'st ConfigStorage \<Rightarrow> 'st ConfigManager \<Rightarrow> bool option \<times> 'st ConfigManager" where
  "refuses_save b m =
     (if cfg_servers (config m) = [] \<and> \<not> corrupt_load m \<and> st_exists b (storage m)
      then (case st_load b (storage m) of
              (None, st) \<Rightarrow> (None, m\<lparr>storage := st\<rparr>)
            | (Some (Inr disk), st) \<Rightarrow> (Some (cfg_servers disk \<noteq> []), m\<lparr>storage := st\<rparr>)
            | (Some (Inl e), st) \<Rightarrow> (Some False, m\<lparr>storage := st\<rparr>))
      else (Some False, m))"

definition save_at_exit :: "'st ConfigStorage \<Rightarrow> 'st ConfigManager \<Rightarrow> 'st ConfigManager option" where
  "save_at_exit b m =
     (case refuses_save b m of
        (None, m1) \<Rightarrow> None
      | (Some True, m1) \<Rightarrow> Some m1
      | (Some False, m1) \<Rightarrow> (case save_config b m1 of (None, m2) \<Rightarrow> None | (Some r, m2) \<Rightarrow> Some m2))"

definition persist ::
  "('w, 'st, 'c) daemon_env \<Rightarrow> ('w, 'st, 'c) DaemonState \<Rightarrow> ('w, 'st, 'c) DaemonState option" where
  "persist env s =
     map_option (\<lambda>m. s\<lparr>config_manager := m\<rparr>) (save_at_exit (d_storage env) (config_manager s))"

text \<open>
  The steps one to seven; \<open>None\<close> is a wait that does not end or a storage that panics.
\<close>

definition stop_accepting :: "string list \<Rightarrow> ('w, 'st, 'c) DaemonState \<Rightarrow> ('w, 'st, 'c) DaemonState" where
  "stop_accepting ids s =
     each_server (on_engine pause_all) ids (broadcast ''daemon:shutdown'' (JObj []) (trigger_shutdown s))"

definition drain_triggers ::
  "('w, 'st, 'c) daemon_env \<Rightarrow> (nat \<Rightarrow> ('w, 'st, 'c) DaemonState \<Rightarrow> ('w, 'st, 'c) DaemonState) \<Rightarrow> string list \<Rightarrow>
   ('w, 'st, 'c) DaemonState \<Rightarrow> ('w, 'st, 'c) DaemonState option" where
  "drain_triggers env pause ids s =
     wait_until (Not \<circ> any_running ids) (clock env) (clock env s + 15 * 10 ^ 9) pause 200 s"

definition drain_channels ::
  "('w, 'st, 'c) daemon_env \<Rightarrow> (nat \<Rightarrow> ('w, 'st, 'c) DaemonState \<Rightarrow> ('w, 'st, 'c) DaemonState) \<Rightarrow> string list \<Rightarrow>
   ('w, 'st, 'c) DaemonState \<Rightarrow> ('w, 'st, 'c) DaemonState option" where
  "drain_channels env pause ids s =
     wait_until (\<lambda>s. total_active ids s = 0) (clock env) (clock env s + 10 * 10 ^ 9) pause 100 s"

definition drop_connections ::
  "('w, 'st, 'c) daemon_env \<Rightarrow> (nat \<Rightarrow> ('w, 'st, 'c) DaemonState \<Rightarrow> ('w, 'st, 'c) DaemonState) \<Rightarrow> string list \<Rightarrow>
   ('w, 'st, 'c) DaemonState \<Rightarrow> ('w, 'st, 'c) DaemonState" where
  "drop_connections env pause ids s =
     (case fold (drop_connection env) ids (False, s) of (any, s1) \<Rightarrow> if any then pause 3000 s1 else s1)"

definition shutdown ::
  "('w, 'st, 'c) daemon_env \<Rightarrow> (nat \<Rightarrow> ('w, 'st, 'c) DaemonState \<Rightarrow> ('w, 'st, 'c) DaemonState) \<Rightarrow>
   ('w, 'st, 'c) DaemonState \<Rightarrow> ('w, 'st, 'c) DaemonState option" where
  "shutdown env pause s =
     (let ids = list_server_ids (server_manager s) in
      Option.bind (drain_triggers env pause ids (stop_accepting ids s)) (\<lambda>s1.
      Option.bind (drain_channels env pause ids (each_server stop_proxy ids s1)) (\<lambda>s2.
      persist env (close_local_terminals (drop_connections env pause ids s2)))))"

section \<open>Waiting\<close>


lemma wait_until_keeps:
  assumes "wait_until ready time deadline pause ms s = Some s'" "\<And>s. P s \<Longrightarrow> P (pause ms s)" "P s"
  shows "P s'"
proof -
  have "(\<forall>s. P s \<longrightarrow> P (pause ms s)) \<longrightarrow> P s \<longrightarrow> P s'"
    by (rule wait_until.raw_induct [OF _ assms(1)]) (auto split: if_splits)
  then show ?thesis using assms(2,3) by blast
qed

lemma wait_until_ready: "ready s \<Longrightarrow> wait_until ready time deadline pause ms s = Some s"
  by (simp add: wait_until.simps)

section \<open>The steps of the shutdown\<close>

lemma on_server_get:
  "hm_get (servers (server_manager (on_server sid f s))) i =
     (if i = sid then map_option f (hm_get (servers (server_manager s)) sid)
      else hm_get (servers (server_manager s)) i)"
  by (simp add: on_server_def put_server_def hm_simps split: option.split)

lemma on_server_keeps [simp]:
  "config_manager (on_server sid f s) = config_manager s" "world (on_server sid f s) = world s"
  by (simp_all add: on_server_def put_server_def split: option.split)

lemma each_server_keeps [simp]:
  "config_manager (each_server f ids s) = config_manager s" "world (each_server f ids s) = world s"
  by (induction ids arbitrary: s) (simp_all add: each_server_def)

lemma each_server_get:
  assumes "\<And>si. f (f si) = f si"
  shows "hm_get (servers (server_manager (each_server f ids s))) i =
     (if i \<in> set ids then map_option f else id) (hm_get (servers (server_manager s)) i)"
proof (induction ids arbitrary: s)
  case (Cons sid ids)
  then show ?case
    using assms by (simp add: each_server_def on_server_get option.map_comp comp_def)
qed (simp add: each_server_def)

lemma stop_proxy_stopped [simp]: "\<not> proxy_running (stop_proxy si)" "server_channels (stop_proxy si) = 0"
  by (simp_all add: stop_proxy_def server_channels_def)

lemma stop_proxy_again: "stop_proxy (stop_proxy si) = stop_proxy si"
  by (simp add: stop_proxy_def [of "stop_proxy si"])

lemma total_active_none:
  assumes "\<And>sid si. sid \<in> set ids \<Longrightarrow> hm_get (servers (server_manager s)) sid = Some si \<Longrightarrow> server_channels si = 0"
  shows "total_active ids s = 0"
proof -
  have "total_active ids s = fold (\<lambda>_ n. n) ids 0"
    unfolding total_active_def using assms by (intro fold_cong) (auto split: option.split)
  also have "fold (\<lambda>_ n. n) ids 0 = (0 :: u32)"
    by (induction ids) simp_all
  finally show ?thesis .
qed

text \<open>Stopping the proxies ends their channels, so there is nothing left to drain.\<close>

lemma drain_channels_at_once:
  "drain_channels env pause ids (each_server stop_proxy ids s) = Some (each_server stop_proxy ids s)"
  unfolding drain_channels_def
  by (intro wait_until_ready total_active_none) (auto simp: each_server_get stop_proxy_again)

lemma broadcast_keeps [simp]:
  "config_manager (broadcast e d s) = config_manager s" "world (broadcast e d s) = world s"
  by (simp_all add: broadcast_def forward_event_sync_def)

lemma stop_accepting_keeps [simp]: "config_manager (stop_accepting ids s) = config_manager s"
  by (simp add: stop_accepting_def trigger_shutdown_def)

lemma drop_connection_keeps [simp]: "config_manager (snd (drop_connection env sid bs)) = config_manager (snd bs)"
  by (auto simp: drop_connection_def put_server_def split: prod.split option.split)

lemma drop_connection_fold [simp]:
  "config_manager (snd (fold (drop_connection env) ids bs)) = config_manager (snd bs)"
  by (induction ids arbitrary: bs) simp_all

lemma close_local_keeps [simp]: "config_manager (close_local_terminals s) = config_manager s"
  by (simp add: close_local_terminals_def notify_def split: prod.split)

lemma shutdown_eq:
  "shutdown env pause s =
     (let ids = list_server_ids (server_manager s) in
      Option.bind (drain_triggers env pause ids (stop_accepting ids s)) (\<lambda>s1.
      persist env (close_local_terminals (drop_connections env pause ids (each_server stop_proxy ids s1)))))"
  by (simp add: shutdown_def drain_channels_at_once)

context config_storage
begin

lemma exit_keeps_servers:
  assumes "usable (storage m)" "good (config m)" "st_exists b (storage m)"
    and "on_disk b m = Some (Inr c)" "cfg_servers c \<noteq> []" and saved: "save_at_exit b m = Some m'"
  shows "\<exists>c'. on_disk b m' = Some (Inr c') \<and> cfg_servers c' \<noteq> []"
proof (cases "cfg_servers (config m) = [] \<and> \<not> corrupt_load m")
  case True
  then have "m' = m\<lparr>storage := snd (st_load b (storage m))\<rparr>"
    using assms(3-5) saved by (auto simp: save_at_exit_def refuses_save_def on_disk_def split: prod.splits)
  then show ?thesis
    using assms(4,5) load_again [of "storage m"] by (simp add: on_disk_def)
next
  case False
  then have "refuses_save b m = (Some False, m)"
    by (auto simp: refuses_save_def)
  with saved have "m' = snd (save_config b m)"
    by (auto simp: save_at_exit_def split: prod.splits option.splits)
  then show ?thesis
    using save_keeps_servers [OF assms(1-5)] by simp
qed

end


section \<open>The shutdown as a whole\<close>

text \<open>What the shutdown leaves once the triggers have been waited for.\<close>

definition cut_off ::
  "('w, 'st, 'c) daemon_env \<Rightarrow> (nat \<Rightarrow> ('w, 'st, 'c) DaemonState \<Rightarrow> ('w, 'st, 'c) DaemonState) \<Rightarrow> string list \<Rightarrow>
   ('w, 'st, 'c) DaemonState \<Rightarrow> ('w, 'st, 'c) DaemonState" where
  "cut_off env pause ids s = close_local_terminals (drop_connections env pause ids (each_server stop_proxy ids s))"








lemma FileConfigStorage_exists: "st_exists (FileConfigStorage js) = file_exists"
  by (simp add: FileConfigStorage_def)

text \<open>The stored configuration has servers, in a state in which it can be read and written.\<close>

definition servers_stored :: "serde \<Rightarrow> ('w, config_dir, 'c) DaemonState \<Rightarrow> bool" where
  "servers_stored js s \<longleftrightarrow>
     can_read (storage (config_manager s)) \<and> reads_back js (config (config_manager s))
     \<and> file_exists (storage (config_manager s))
     \<and> (\<exists>c. on_disk (FileConfigStorage js) (config_manager s) = Some (Inr c) \<and> cfg_servers c \<noteq> [])"

text \<open>
  C32. The shutdown does not lose the servers: if the stored configuration has some, and the other tasks
  keep it so while the shutdown waits, then the configuration stored at the end has some, even if the one in
  memory has none or writing it fails.
\<close>

theorem shutdown_keeps_servers:
  assumes "d_storage env = FileConfigStorage js" "servers_stored js s"
    and "\<And>ms s. servers_stored js s \<Longrightarrow> servers_stored js (pause ms s)"
    and shutdown: "shutdown env pause s = Some s'"
  shows "\<exists>c. on_disk (FileConfigStorage js) (config_manager s') = Some (Inr c) \<and> cfg_servers c \<noteq> []"
proof -
  let ?ids = "list_server_ids (server_manager s)"
  have same: "servers_stored js s1 \<longleftrightarrow> servers_stored js s2" if "config_manager s1 = config_manager s2"
    for s1 s2 :: "('a, config_dir, 'b) DaemonState"
    using that by (simp add: servers_stored_def)
  obtain s1 where s1: "drain_triggers env pause ?ids (stop_accepting ?ids s) = Some s1"
    and s': "persist env (cut_off env pause ?ids s1) = Some s'"
    using shutdown by (auto simp: shutdown_eq Let_def cut_off_def bind_eq_Some_conv)
  have "servers_stored js s1"
    using s1 unfolding drain_triggers_def
  proof (rule wait_until_keeps)
    show "servers_stored js (stop_accepting ?ids s)"
      by (subst same [of _ s]) (simp_all add: assms(2))
  qed (rule assms(3))
  then have "servers_stored js (snd (fold (drop_connection env) ?ids (False, each_server stop_proxy ?ids s1)))"
    by (subst same [of _ s1]) simp_all
  then have "servers_stored js (drop_connections env pause ?ids (each_server stop_proxy ?ids s1))"
    using assms(3) by (auto simp: drop_connections_def split: prod.split)
  then have "servers_stored js (cut_off env pause ?ids s1)"
    unfolding cut_off_def by (subst same [OF close_local_keeps])
  moreover obtain m where "save_at_exit (FileConfigStorage js) (config_manager (cut_off env pause ?ids s1)) = Some m"
    "config_manager s' = m"
    using s' by (auto simp: persist_def assms(1))
  ultimately show ?thesis
    unfolding servers_stored_def FileConfigStorage_exists [where js = js, symmetric]
    using disk.exit_keeps_servers by blast
qed

theorem shutdown_keeps_servers_witness:
  "\<exists>c. on_disk (FileConfigStorage sample_serde) (config_manager (the (shutdown (toy_daemon_on (FileConfigStorage sample_serde))
     (\<lambda>ms s. s) (toy_state_on (sample_manager\<lparr>config := config_default []\<rparr>) [])))) = Some (Inr c) \<and> cfg_servers c \<noteq> []"
proof -
  let ?env = "toy_daemon_on (FileConfigStorage sample_serde)"
  let ?m = "sample_manager\<lparr>config := config_default []\<rparr>"
  let ?s = "toy_state_on ?m [] :: (nat, config_dir, (string, string) hm) DaemonState"
  have stored: "servers_stored sample_serde ?s"
    using sample_on_disk by (simp add: servers_stored_def toy_state_on_def on_disk_def sample_differs sample_storage two_reads_back)
  have "list_server_ids (server_manager ?s) = []"
    by (simp add: toy_state_on_def list_server_ids_def servers_new_def hm_keys_def)
  moreover have "drain_triggers ?env (\<lambda>ms s. s) [] s = Some s" for s
    unfolding drain_triggers_def by (rule wait_until_ready) (simp add: any_running_def)
  moreover have "drop_connections ?env (\<lambda>ms s. s) [] s = s" for s
    by (simp add: drop_connections_def)
  moreover have "config_manager ?s = ?m"
    by (simp add: toy_state_on_def)
  moreover have files: "d_storage ?env = FileConfigStorage sample_serde"
    by (simp add: toy_daemon_on_def)
  moreover have "cfg_servers (config_default []) = []"
    by (simp add: config_default_def)
  then have "\<exists>m. save_at_exit (FileConfigStorage sample_serde) ?m = Some m"
    using sample_on_disk sample_storage
    by (auto simp: save_at_exit_def refuses_save_def FileConfigStorage_exists on_disk_def sample_differs
        split: prod.splits)
  ultimately have "\<exists>s'. shutdown ?env (\<lambda>ms s. s) ?s = Some s'"
    by (auto simp: shutdown_eq Let_def each_server_def persist_def)
  then obtain s' where s': "shutdown ?env (\<lambda>ms s. s) ?s = Some s'" by blast
  show ?thesis
    using shutdown_keeps_servers [OF files stored _ s'] by (simp add: s')
qed

section \<open>Serving a client\<close>




definition toy_codec :: codec where
  "toy_codec =
     \<lparr>request_of = (\<lambda>d. if d = [7] then Some (request_new_simple ''a'' PauseAllTriggers)
        else if d = [8] then Some (request_new_simple ''b'' RemoveServer) else None),
      response_bytes = (\<lambda>r. case r of Ok i _ \<Rightarrow> 1 # bytes_of_str i | Err i _ \<Rightarrow> 2 # bytes_of_str i | Event _ _ \<Rightarrow> [])\<rparr>"

lemma toy_codec_simps [simp]:
  "request_of toy_codec [7] = Some (request_new_simple ''a'' PauseAllTriggers)"
  "request_of toy_codec [8] = Some (request_new_simple ''b'' RemoveServer)"
  "response_bytes toy_codec (Ok i j) = 1 # bytes_of_str i" "response_bytes toy_codec (Err i e) = 2 # bytes_of_str i"
  by (simp_all add: toy_codec_def)


section \<open>Events in the middle of a request\<close>

text \<open>
  An event that arrives when the length of a request has been read, but not yet its body, throws the length
  away: the first four bytes of the document are taken for the next length, which is far too large for any
  document that begins with a brace, and the client is cut off.
\<close>

lemma event_breaks_request:
  assumes stream: "avail (rx sx) = frame_bytes (0x7B # d) @ rest" and d: "3 \<le> length d"
    and event: "pop_event cid (clients s) = Some (r, cs)" "frame_valid (response_bytes js r)" "2 \<le> writes_left sx"
  shows "fst (handle_unix_client env cl pe js cid [Outgoing 4, Incoming] s sx) = Ends"
proof -
  obtain a b c e where d': "d = a # b # c # e"
    using d by (auto simp: numeral_3_eq_3 Suc_le_length_iff)
  have "4 \<le> length (avail (rx sx))"
    by (simp add: stream frame_bytes_def)
  from take_exact_Some [OF this] obtain r1 where r1: "snd (take_exact 4 (rx sx)) = r1"
    "avail r1 = drop 4 (avail (rx sx))" by auto
  then have left: "avail r1 = [0x7B, a, b, c] @ (e @ rest)"
    by (simp add: stream frame_bytes_def d')
  define sx1 where "sx1 = snd (write_frame (response_bytes js r) (sx\<lparr>rx := r1\<rparr>))"
  have out: "client_turn env cl pe js cid (Outgoing 4) s sx = (Goes, s\<lparr>clients := cs\<rparr>, sx1)"
    using event r1(1) by (simp add: client_outgoing_def send_response_def write_frame_tx sx1_def)
  have rx1: "avail (rx sx1) = [0x7B, a, b, c] @ (e @ rest)"
    using event(2,3) left by (simp add: sx1_def write_frame_tx)
  then have "4 \<le> length (avail (rx sx1))" by simp
  then obtain r2 where r2: "read_exact 4 sx1 = (Inr [0x7B, a, b, c], sx1\<lparr>rx := r2\<rparr>)"
    by (rule read_exact_ok) (use rx1 in simp)
  have "be32 (of_be32 0x7B a b c) = [0x7B, a, b, c]"
    by (rule be32_of_be32)
  then have "unat (of_be32 0x7B a b c) div 2 ^ 24 mod 2 ^ 8 = 0x7B"
    by (simp add: be32_def unat_drop_bit_eq drop_bit_eq_div unsigned_ucast_eq take_bit_eq_mod word_unat_eq_iff unat_div)
  then have big: "MAX_FRAME_SIZE < len_of_header [0x7B, a, b, c]"
    by (cases "unat (of_be32 0x7B a b c) < 2 ^ 24") (simp_all add: len_of_header_def MAX_FRAME_SIZE_def)
  have "fst (read_frame sx1) = Inl (FrameTooLarge (len_of_header [0x7B, a, b, c]))"
    using big r2 by (simp add: read_frame_def io_simps)
  then show ?thesis
    using out by (auto simp: client_incoming_def split: prod.splits sum.splits)
qed

section \<open>Client identifiers\<close>

definition clients_distinct :: "u64 \<times> ('w, 'st, 'c) DaemonState \<Rightarrow> bool" where
  "clients_distinct ns \<longleftrightarrow>
     distinct (map cl_id (clients (snd ns))) \<and> (\<forall>c \<in> set (clients (snd ns)). cl_id c \<le> fst ns)"

lemma clients_distinct_accept:
  assumes "clients_distinct ns" "fst ns \<noteq> - 1"
  shows "clients_distinct (accept_client ns)"
proof -
  have "1 + fst ns \<noteq> 0"
    using assms(2) by (simp add: eq_neg_iff_add_eq_0 add.commute)
  from unatSuc [OF this] have "fst ns < fst ns + 1"
    by (simp add: word_less_nat_alt add.commute)
  then show ?thesis
    using assms(1) by (fastforce simp: clients_distinct_def accept_client_def split: prod.splits)
qed

lemma clients_distinct_remove:
  "clients_distinct (n, s) \<Longrightarrow> clients_distinct (n, remove_client cid s)"
  by (auto simp: clients_distinct_def remove_client_def distinct_map inj_on_def)

text \<open>A loop that ends leaves its client off the list, and no other.\<close>

lemma ended_client_is_removed:
  "handle_unix_client env cl pe js cid ts s sx = (Ends, s', sx') \<Longrightarrow> cid \<notin> cl_id ` set (clients s')"
  by (induction ts arbitrary: s sx) (auto simp: remove_client_def split: prod.splits loop_end.splits)

section \<open>Triggers that are not run\<close>

text \<open>A local trigger meant for the terminal is left alone when new terminals are not bound to it.\<close>

lemma opted_out_triggers_rest:
  assumes "\<forall>t \<in> set (local_triggers_for (lifecycle_type e) s).
    trg_exec_in_terminal t \<and> \<not> trg_bind_new_terminals t
    \<and> override_of (lifecycle_session e) t (terminal_manager s) = None"
  shows "consume_terminal_event env e s = (Inr (), s)"
proof -
  have "typed_at_close (lifecycle_session e) (terminal_manager s) (local_triggers_for (lifecycle_type e) s) = []"
    "background_at_close (lifecycle_session e) (terminal_manager s) (local_triggers_for (lifecycle_type e) s) = []"
    using assms by (auto simp: typed_at_close_def background_at_close_def in_terminal_def filter_empty_conv)
  then show ?thesis
    by (simp add: consume_terminal_event_def io_simps query_def Let_def fire_background_def)
qed

end
