(* ===== verification/RequestInvariant.thy ===== *)
theory RequestInvariant
  imports Responses
begin

text \<open>
  An invariant of the table of servers that every request keeps: an instance is stored under the identifier
  of its own configuration, and each of its tasks is held by a handle that disconnecting aborts.  \<open>keeps\<close>
  states that a program keeps a property of the state, with a rule for each way to build a handler.
\<close>

section \<open>The invariant\<close>

definition instance_ok :: "string \<Rightarrow> 'auth ServerInstance \<Rightarrow> bool" where
  "instance_ok i si \<longleftrightarrow> srv_id (si_config si) = i \<and> tracked si"

definition servers_ok :: "'auth ServerManager \<Rightarrow> bool" where
  "servers_ok m \<longleftrightarrow> hm_wf (servers m) \<and> (\<forall>i si. hm_get (servers m) i = Some si \<longrightarrow> instance_ok i si)"

definition daemon_ok :: "('w, 'st, 'c) DaemonState \<Rightarrow> bool" where
  "daemon_ok s \<longleftrightarrow> servers_ok (server_manager s)"

section \<open>Instances\<close>

lemma spawn_all_config: "spawn_all ks si = (ids, si') \<Longrightarrow> si_config si' = si_config si"
  by (erule spawn_allE) simp

lemma tasks_config [simp]:
  "si_config (start_proxy si) = si_config si" "si_config (stop_proxy si) = si_config si"
  "si_config (start_health_checks si) = si_config si" "si_config (start_interval_timers env1 si) = si_config si"
  "si_config (start_ip_detection env1 si w) = si_config si" "si_config (start_connection_monitor si) = si_config si"
  "si_config (stop_connection_monitor si) = si_config si" "si_config (abort_checks si) = si_config si"
  "si_config (abort_tasks ids si) = si_config si" "si_config (with_handle env1 si w) = si_config si"
  "si_config (start_forwards env1 si) = si_config si"
  by (auto simp: task_ops abort_checks_def with_handle_def start_forwards_def Let_def
      split: prod.splits option.splits dest!: spawn_all_config)

lemma check_rz_config: "check_rz env si w = (si', w') \<Longrightarrow> si_config si' = si_config si"
  by (auto simp: check_rz_def split: prod.splits sum.splits if_splits)

lemma fire_config: "fire_connection_triggers t env si w = (ok, si', w') \<Longrightarrow> si_config si' = si_config si"
  by (auto simp: fire_connection_triggers_def Let_def split: prod.splits option.splits dest!: check_rz_config)

lemma connect_config: "connect env auth si w = (r, si', w') \<Longrightarrow> si_config si' = si_config si"
  by (auto simp: connect_def come_online_def learn_client_ip_def Let_def
      split: prod.splits sum.splits if_splits option.splits dest!: fire_config)

lemma disconnect_config: "disconnect env si w = (r, si', w') \<Longrightarrow> si_config si' = si_config si"
  by (auto simp: disconnect_def Let_def split: sum.splits prod.splits)

lemma instance_new_ok: "srv_id cfg = i \<Longrightarrow> instance_ok i (instance_new cfg)"
  by (simp add: instance_ok_def instance_new_def tracked_def)

lemma instance_connect: "connect env auth si w = (r, si', w') \<Longrightarrow> instance_ok i si \<Longrightarrow> instance_ok i si'"
  by (auto simp: instance_ok_def connect_config intro: tracked_connect)

lemma instance_disconnect: "disconnect env si w = (r, si', w') \<Longrightarrow> instance_ok i si \<Longrightarrow> instance_ok i si'"
  by (auto simp: instance_ok_def disconnect_config intro: tracked_disconnect)

lemma instance_upd [simp]:
  "instance_ok i (si\<lparr>trigger_engine := e\<rparr>) = instance_ok i si"
  "instance_ok i (si\<lparr>triggers := ts\<rparr>) = instance_ok i si"
  "instance_ok i (si\<lparr>host_key_fingerprint := h\<rparr>) = instance_ok i si"
  "instance_ok i (si\<lparr>port_forward_manager := p\<rparr>) = instance_ok i si"
  "instance_ok i (si\<lparr>trigger_templates := tt\<rparr>) = instance_ok i si"
  by (simp_all add: instance_ok_def tracked_def held_def)

lemma instance_engine [simp]: "instance_ok i (on_engine f si) = instance_ok i si"
  by (simp add: on_engine_def)

lemma instance_forwards [simp]: "instance_ok i (on_forwards f si) = instance_ok i si"
  by (simp add: on_forwards_def)

lemma instance_tasks:
  "instance_ok i si \<Longrightarrow> instance_ok i (start_proxy si)" "instance_ok i si \<Longrightarrow> instance_ok i (stop_proxy si)"
  "instance_ok i si \<Longrightarrow> instance_ok i (start_connection_monitor si)"
  "instance_ok i si \<Longrightarrow> instance_ok i (start_interval_timers env si)"
  by (auto simp: instance_ok_def intro: tracked_intros)

section \<open>The table\<close>

lemma servers_ok_insert:
  "servers_ok m \<Longrightarrow> instance_ok i si \<Longrightarrow> servers_ok (m\<lparr>servers := hm_insert i si (servers m)\<rparr>)"
  by (auto simp: servers_ok_def hm_simps)

lemma servers_ok_remove: "servers_ok m \<Longrightarrow> servers_ok (m\<lparr>servers := hm_remove i (servers m)\<rparr>)"
  by (auto simp: servers_ok_def hm_simps split: if_splits)

lemma servers_ok_get: "servers_ok m \<Longrightarrow> hm_get (servers m) i = Some si \<Longrightarrow> instance_ok i si"
  by (simp add: servers_ok_def)

lemma servers_ok_all:
  "servers_ok m \<Longrightarrow> (\<And>i si. instance_ok i si \<Longrightarrow> instance_ok i (f si)) \<Longrightarrow>
   servers_ok (m\<lparr>servers := map (\<lambda>(i, si). (i, f si)) (servers m)\<rparr>)"
  by (auto simp: servers_ok_def hm_wf_def hm_get_def comp_def split_def map_of_map dest: map_of_SomeD)

lemma servers_ok_remove_server: "servers_ok m \<Longrightarrow> servers_ok (fst (remove_server env i m w))"
  by (auto simp: remove_server_def servers_ok_remove split: option.split)

lemma servers_ok_sync_one: "servers_ok (fst mw) \<Longrightarrow> servers_ok (fst (sync_one env cfg mw))"
  by (auto simp: sync_one_def intro: servers_ok_insert instance_new_ok split: option.split)

lemma servers_ok_reload:
  "servers_ok m \<Longrightarrow> srv_id cfg = i \<Longrightarrow> servers_ok (fst (reload_server_config env i cfg m w))"
  by (auto simp: reload_server_config_def intro: servers_ok_insert instance_new_ok)

lemma servers_ok_add: "servers_ok m \<Longrightarrow> servers_ok (snd (add_server cfg m))"
  by (auto simp: add_server_def intro: servers_ok_insert instance_new_ok)

section \<open>Programs that keep the invariant\<close>

definition keeps :: "('s \<Rightarrow> bool) \<Rightarrow> ('s, 'e, 'a) io \<Rightarrow> bool" where
  "keeps P m \<longleftrightarrow> (\<forall>s. P s \<longrightarrow> P (snd (m s)))"

lemma keeps_ret: "keeps P (io_ret x)"
  by (simp add: keeps_def io_ret_def)

lemma keeps_err: "keeps P (io_err e)"
  by (simp add: keeps_def io_err_def)

lemma keeps_query: "keeps P (query f)"
  by (simp add: keeps_def query_def)

lemma keeps_lift: "keeps P (lift_result f r)"
  by (simp add: keeps_def lift_result_def)

lemma keeps_change: "(\<And>s. P s \<Longrightarrow> P (f s)) \<Longrightarrow> keeps P (change f)"
  by (simp add: keeps_def change_def)

lemma keeps_seq_yields:
  assumes "keeps P m" "yields Q m" "\<And>x. Q x \<Longrightarrow> keeps P (k x)"
  shows "keeps P (io_bind m k)"
  unfolding keeps_def
proof (intro allI impI)
  fix s assume s: "P s"
  obtain r s1 where m: "m s = (r, s1)" by fastforce
  then have s1: "P s1"
    using assms(1) s by (metis keeps_def snd_conv)
  show "P (snd (io_bind m k s))"
  proof (cases r)
    case (Inr x)
    then have "keeps P (k x)"
      using assms(2,3) m by (auto simp: yields_def)
    with s1 Inr m show ?thesis by (simp add: io_bind_def keeps_def)
  qed (simp add: m s1 io_bind_def)
qed

lemma keeps_seq: "keeps P m \<Longrightarrow> (\<And>x. keeps P (k x)) \<Longrightarrow> keeps P (io_bind m k)"
  by (rule keeps_seq_yields [where Q = "\<lambda>_. True"]) (simp_all add: yields_def)

lemma keeps_map_err: "keeps P m \<Longrightarrow> keeps P (io_map_err f m)"
  by (simp add: keeps_def io_map_err_def split_def)

lemma keeps_if: "keeps P m \<Longrightarrow> keeps P n \<Longrightarrow> keeps P (if b then m else n)"
  by simp

lemma keeps_option: "keeps P n \<Longrightarrow> (\<And>x. keeps P (m x)) \<Longrightarrow> keeps P (case v of None \<Rightarrow> n | Some x \<Rightarrow> m x)"
  by (cases v) simp_all

lemma keeps_sum:
  "(\<And>x. keeps P (m x)) \<Longrightarrow> (\<And>x. keeps P (n x)) \<Longrightarrow> keeps P (case v of Inl x \<Rightarrow> m x | Inr x \<Rightarrow> n x)"
  by (cases v) simp_all

lemma keeps_let: "keeps P (f a) \<Longrightarrow> keeps P (let x = a in f x)"
  by simp

lemma keeps_prod: "(\<And>x y. keeps P (f x y)) \<Longrightarrow> keeps P (case v of (x, y) \<Rightarrow> f x y)"
  by (cases v) simp

lemma keeps_step: "keeps P m \<Longrightarrow> m s = (r, s') \<Longrightarrow> P s \<Longrightarrow> P s'"
  by (metis keeps_def snd_conv)

text \<open>What does not touch the table.\<close>

lemma daemon_ok_cong: "server_manager s' = server_manager s \<Longrightarrow> daemon_ok s' = daemon_ok s"
  by (simp add: daemon_ok_def)

lemma keeps_frame: "(\<And>s. server_manager (snd (m s)) = server_manager s) \<Longrightarrow> keeps daemon_ok m"
  by (simp add: keeps_def daemon_ok_def)

lemma manager_forward [simp]: "server_manager (forward_event_sync e d s) = server_manager s"
  by (simp add: forward_event_sync_def)

lemma manager_broadcast [simp]: "server_manager (broadcast e d s) = server_manager s"
  by (simp add: broadcast_def)

lemma manager_log [simp]: "server_manager (log_and_broadcast env i l k m s) = server_manager s"
  by (simp add: log_and_broadcast_def Let_def)

lemma manager_log_command [simp]: "server_manager (log_command env i c s) = server_manager s"
  by (simp add: log_command_def Let_def)

lemma manager_report [simp]: "server_manager (report_result env i k r s) = server_manager s"
  by (simp add: report_result_def Let_def)

lemma manager_fold: "(\<And>x s. server_manager (f x s) = server_manager s) \<Longrightarrow> server_manager (fold f xs s) = server_manager s"
  by (induction xs arbitrary: s) simp_all

lemma manager_events [simp]:
  "server_manager (cli_focus ps i t s) = server_manager s" "server_manager (fired_event i tid ts s) = server_manager s"
  "server_manager (completed_event i tid r s) = server_manager s" "server_manager (status_event i st ex s) = server_manager s"
  "server_manager (proxy_event i b s) = server_manager s" "server_manager (banner_event env i s) = server_manager s"
  "server_manager (forward_event w i rid ex s) = server_manager s" "server_manager (notify ns s) = server_manager s"
  "server_manager (forget_secret env i k m s) = server_manager s" "server_manager (drop_secrets env i s) = server_manager s"
  "server_manager (close_terminals i s) = server_manager s" "server_manager (set_terminals g s) = server_manager s"
  "server_manager (name_session n i s) = server_manager s" "server_manager (inject_commands i ts' s) = server_manager s"
  "server_manager (start_local_interval_timers env s) = server_manager s"
  "server_manager (keep_upload_config p st' pw s) = server_manager s"
  "server_manager (trigger_result_callback env i er s) = server_manager s"
  "server_manager (broadcast_local_trigger_results env ev rs s) = server_manager s"
  "server_manager (fold (log_command env i) cs s) = server_manager s"
  by (auto simp: cli_focus_def fired_event_def completed_event_def status_event_def proxy_event_def banner_event_def
      forward_event_def notify_def forget_secret_def drop_secrets_def close_terminals_def set_terminals_def
      name_session_def inject_commands_def start_local_interval_timers_def keep_upload_config_def
      trigger_result_callback_def broadcast_local_trigger_results_def Let_def manager_fold
      split: option.split prod.split)

lemma manager_modify [simp]:
  "server_manager (snd (modify_config env f s)) = server_manager s"
  "server_manager (snd (modify_config_unchecked env f s)) = server_manager s"
  "server_manager (modify_ignored env g s) = server_manager s"
  by (simp_all add: modify_config_def modify_config_unchecked_def modify_ignored_def split: prod.split)

lemma manager_connect [simp]:
  "server_manager (run_callbacks env i old new s) = server_manager s" "server_manager (remember_host_key env i si s) = server_manager s"
  by (auto simp: run_callbacks_def remember_host_key_def manager_fold split: option.split)

lemma manager_tokens [simp]: "server_manager (snd (load_cloud_tokens cl s)) = server_manager s"
  by (simp add: load_cloud_tokens_def Let_def split: option.split)

section \<open>Changes of the table\<close>

lemma ok_put: "daemon_ok s \<Longrightarrow> instance_ok i si \<Longrightarrow> daemon_ok (put_server i si s)"
  by (simp add: daemon_ok_def put_server_def servers_ok_insert)

lemma ok_get: "daemon_ok s \<Longrightarrow> hm_get (servers (server_manager s)) i = Some si \<Longrightarrow> instance_ok i si"
  by (simp add: daemon_ok_def servers_ok_get)

lemma ok_on_server:
  "daemon_ok s \<Longrightarrow> (\<And>si. instance_ok i si \<Longrightarrow> instance_ok i (f si)) \<Longrightarrow> daemon_ok (on_server i f s)"
  by (auto simp: on_server_def intro: ok_put ok_get split: option.split)

lemma ok_on_all:
  "daemon_ok s \<Longrightarrow> (\<And>i si. instance_ok i si \<Longrightarrow> instance_ok i (f si)) \<Longrightarrow> daemon_ok (on_all_servers f s)"
  by (simp add: daemon_ok_def on_all_servers_def servers_ok_all)

lemma ok_disconnect: "daemon_ok s \<Longrightarrow> daemon_ok (snd (disconnect_server env i s))"
  by (auto simp: disconnect_server_def daemon_ok_def put_server_def
      intro!: servers_ok_insert dest: servers_ok_get instance_disconnect split: option.split prod.split)

lemma ok_remove: "daemon_ok s \<Longrightarrow> daemon_ok (remove_from_manager env i s)"
  using servers_ok_remove_server [of "server_manager s" "d_ssh env i" i "world s"]
  by (auto simp: remove_from_manager_def daemon_ok_def split: prod.split)

lemma ok_reload: "daemon_ok s \<Longrightarrow> srv_id cfg = i \<Longrightarrow> daemon_ok (reload_server env i cfg s)"
  using servers_ok_reload [of "server_manager s" cfg i "d_ssh env i" "world s"]
  by (auto simp: reload_server_def daemon_ok_def split: prod.split)

lemma ok_sync_triggers: "daemon_ok s \<Longrightarrow> daemon_ok (sync_triggers i s)"
  by (auto simp: sync_triggers_def intro: ok_on_server split: option.split)

lemma ok_refresh: "daemon_ok s \<Longrightarrow> daemon_ok (refresh_triggers env i s)"
  by (auto simp: refresh_triggers_def intro: ok_on_server ok_sync_triggers instance_tasks)

lemma table_fold: "servers_ok (fst mw) \<Longrightarrow> (\<And>x mw. servers_ok (fst mw) \<Longrightarrow> servers_ok (fst (f x mw))) \<Longrightarrow> servers_ok (fst (fold f xs mw))"
  by (induction xs arbitrary: mw) auto

lemma ok_sync_servers: "daemon_ok s \<Longrightarrow> daemon_ok (sync_servers env cfgs s)"
  using table_fold [OF table_fold [of "(server_manager s, world s)" "\<lambda>i (m, w). remove_server (d_ssh env i) i m w"],
      of "\<lambda>cfg. sync_one (d_ssh env (srv_id cfg)) cfg"]
  by (auto simp: sync_servers_def daemon_ok_def Let_def split_def intro!: table_fold servers_ok_sync_one servers_ok_remove_server)

lemma ok_push: "daemon_ok s \<Longrightarrow> daemon_ok (push_variables s)"
  by (simp add: push_variables_def ok_on_all Let_def)

lemma ok_release: "daemon_ok s \<Longrightarrow> daemon_ok (release_idle env i s)"
  by (simp add: release_idle_def daemon_ok_cong [OF manager_events(4)] ok_disconnect)

section \<open>Parts of the handlers\<close>

lemma keeps_parts:
  "keeps P (reject c msg)" "keeps P (require c msg v)" "keeps P (str_param ps k)" "keeps P (rule_not_found i)"
  "keeps P (the_server env i)"
  by (simp_all add: reject_def require_def str_param_def rule_not_found_def the_server_def keeps_err keeps_ret
      keeps_lift [unfolded keeps_def] keeps_def lift_result_def io_err_def io_ret_def split: option.split)

lemma keeps_frames:
  "keeps daemon_ok (modify_config env f)" "keeps daemon_ok (modify_config_unchecked env f)"
  "keeps daemon_ok (save_credential env w i k v)" "keeps daemon_ok (delete_credential env w i k)"
  "keeps daemon_ok (on_terminals g)" "keeps daemon_ok (on_world h)" "keeps daemon_ok (db_write cl w r d)"
  "keeps daemon_ok (get_tokens cl)" "keeps daemon_ok (close_terminal i)"
  by (auto intro!: keeps_frame simp: save_credential_def delete_credential_def on_terminals_def on_world_def db_write_def
      get_tokens_def close_terminal_def Let_def split_def split: option.split)

lemma keeps_get_server: "keeps daemon_ok (\<lambda>s. (get_server i (server_manager s), s))"
  by (simp add: keeps_def)

lemmas keeps_rules = keeps_ret keeps_err keeps_query keeps_lift keeps_change keeps_map_err keeps_if keeps_option
  keeps_sum keeps_let keeps_prod keeps_parts keeps_frames keeps_get_server keeps_seq

lemma ok_simps [simp]:
  "daemon_ok (broadcast e d s) = daemon_ok s" "daemon_ok (log_and_broadcast env oi l k m s) = daemon_ok s"
  "daemon_ok (cli_focus ps i t s) = daemon_ok s" "daemon_ok (fired_event i tid ts s) = daemon_ok s"
  "daemon_ok (completed_event i tid r s) = daemon_ok s" "daemon_ok (status_event i st ex s) = daemon_ok s"
  "daemon_ok (proxy_event i b s) = daemon_ok s" "daemon_ok (banner_event env i s) = daemon_ok s"
  "daemon_ok (forward_event w i rid ex s) = daemon_ok s" "daemon_ok (notify ns s) = daemon_ok s"
  "daemon_ok (forget_secret env i kd m s) = daemon_ok s" "daemon_ok (drop_secrets env i s) = daemon_ok s"
  "daemon_ok (close_terminals i s) = daemon_ok s" "daemon_ok (set_terminals g s) = daemon_ok s"
  "daemon_ok (name_session n i s) = daemon_ok s" "daemon_ok (inject_commands i ts' s) = daemon_ok s"
  "daemon_ok (start_local_interval_timers env s) = daemon_ok s" "daemon_ok (keep_upload_config p st' pw s) = daemon_ok s"
  "daemon_ok (broadcast_local_trigger_results env ev rs s) = daemon_ok s"
  "daemon_ok (fold (log_command env i) cs s) = daemon_ok s" "daemon_ok (remember_host_key env i si s) = daemon_ok s"
  "daemon_ok (run_callbacks env i old new s) = daemon_ok s"
  by (simp_all add: daemon_ok_def)

lemma ok_fields [simp]:
  "daemon_ok (s\<lparr>world := w\<rparr>) = daemon_ok s" "daemon_ok (s\<lparr>config_manager := m\<rparr>) = daemon_ok s"
  "daemon_ok (s\<lparr>log_buffer := b\<rparr>) = daemon_ok s" "daemon_ok (s\<lparr>credentials := c\<rparr>) = daemon_ok s"
  "daemon_ok (s\<lparr>shutdown_notified := x\<rparr>) = daemon_ok s" "daemon_ok (s\<lparr>wired := ws\<rparr>) = daemon_ok s"
  "daemon_ok (s\<lparr>import_lock := l\<rparr>) = daemon_ok s" "daemon_ok (s\<lparr>cloud_db := db\<rparr>) = daemon_ok s"
  "daemon_ok (s\<lparr>cloud_sync_pending := p\<rparr>) = daemon_ok s" "daemon_ok (s\<lparr>local_trigger_engine := e\<rparr>) = daemon_ok s"
  "daemon_ok (s\<lparr>terminal_manager := tm\<rparr>) = daemon_ok s"
  by (simp_all add: daemon_ok_def)

lemma ok_released: "daemon_ok s \<Longrightarrow> daemon_ok (s\<lparr>server_manager := release_connection (server_manager s)\<rparr>)"
  by (simp add: daemon_ok_def release_connection_def servers_ok_def)

lemmas ok_intros = ok_on_server ok_on_all ok_disconnect ok_remove ok_reload ok_sync_triggers ok_refresh ok_sync_servers
  ok_push ok_release ok_released instance_tasks

lemma keeps_check_ports: "keeps daemon_ok (check_ports a b c e)"
  unfolding check_ports_def check_free_def by (intro keeps_rules)

lemma keeps_add: "keeps daemon_ok (with_manager (add_server cfg))"
  by (simp add: keeps_def with_manager_def daemon_ok_def split_def Let_def servers_ok_add)

lemma keeps_connect_with: "keeps daemon_ok (connect_with env i auth)"
proof -
  have a: "keeps daemon_ok (after_connect env i)" "\<And>e. keeps daemon_ok (connect_failed env i e)"
    unfolding after_connect_def connect_failed_def
    by (intro keeps_rules; auto intro: ok_intros)+
  show ?thesis
    unfolding keeps_def
  proof (intro allI impI)
    fix s :: "('a, 'b, 'c) DaemonState" assume s: "daemon_ok s"
    show "daemon_ok (snd (connect_with env i auth s))"
    proof (cases "hm_get (servers (server_manager s)) i")
      case (Some si)
      obtain r si' w where c: "connect (d_ssh env i) auth si (world s) = (r, si', w)" by (metis prod_cases3)
      let ?s = "run_callbacks env i si si' (put_server i si' (s\<lparr>world := w\<rparr>))"
      have "daemon_ok ?s"
        using s Some c by (auto intro!: ok_put dest: ok_get instance_connect)
      then show ?thesis
        using Some c a by (auto simp: connect_with_def keeps_def Let_def split: option.split sum.split)
    qed (simp add: connect_with_def s)
  qed
qed

lemma keeps_disconnect: "keeps daemon_ok (disconnect_server env i)"
  by (simp add: keeps_def ok_disconnect)

lemma keeps_manual_fire: "keeps daemon_ok (manual_fire_trigger env i tid)"
  unfolding keeps_def manual_fire_trigger_def
  by (auto simp: Let_def intro!: ok_put dest: ok_get split: option.split prod.split)

lemma keeps_fire_local: "keeps daemon_ok (fire_local env tid ts)"
  by (rule keeps_frame) (simp add: fire_local_def Let_def split: option.split prod.split)

lemma keeps_terminal_parts:
  "keeps daemon_ok (connected_server env msg i)" "keeps daemon_ok (open_terminal env i c r)"
  "keeps daemon_ok (open_local_terminal env sh c r ov)" "keeps daemon_ok (input_data env ps)"
  unfolding connected_server_def open_terminal_def open_local_terminal_def input_data_def
  by (intro keeps_rules keeps_frame; simp split: prod.split; fail)+
     (auto intro: keeps_rules split: option.split json.split)

lemma keeps_inject: "keeps daemon_ok (inject_triggers e ev i ts)"
  by (induction ts) (auto intro!: keeps_rules split: option.split)

lemma keeps_background: "keeps daemon_ok (fire_background env ts ev)"
  by (rule keeps_frame) (simp add: fire_background_def fire_local_event_def io_ret_def split: prod.split option.split)

lemma keeps_before_close: "keeps daemon_ok (before_close env i)"
  unfolding before_close_def by (intro keeps_rules keeps_inject keeps_background; simp)

lemma keeps_exec_on: "keeps daemon_ok (exec_on env i c)"
  unfolding exec_on_def by (intro keeps_rules)

lemma keeps_cloud_parts:
  "keeps daemon_ok (build_provider cl p)" "keeps daemon_ok (exchange pr c v u st)" "keeps daemon_ok (store_token env cl p q t ts)"
  "keeps daemon_ok (stored_token cl p)" "keeps daemon_ok (remote_info pr sto path w)" "keeps daemon_ok (save_cloud_tokens cl ts)"
  "keeps daemon_ok take_pending" "keeps daemon_ok (save_sync_state_db cl ss)" "keeps daemon_ok (save_sync_hash_db cl h)"
  unfolding build_provider_def exchange_def store_token_def stored_token_def remote_info_def save_cloud_tokens_def
    take_pending_def save_sync_state_db_def save_sync_hash_db_def
  by (intro keeps_rules; simp add: Let_def)+

lemma keeps_await: "keeps daemon_ok (await_answer cl)"
  unfolding await_answer_def
  by (intro keeps_seq keeps_frame) (auto simp: reject_def io_simps split: prod.split waited.split)

lemma keeps_apply: "keeps daemon_ok (apply_full_export env cl d)"
  unfolding apply_full_export_def by (intro keeps_rules; auto intro: ok_intros)

lemma keeps_remember: "keeps daemon_ok (remember_sync cl p h d u pw)"
  unfolding remember_sync_def by (intro keeps_rules keeps_cloud_parts)

lemma keeps_rule_port: "keeps daemon_ok (rule_port r k)"
  unfolding rule_port_def by (intro keeps_rules)

lemma keeps_parse_rule: "keeps daemon_ok (parse_rule env i r)"
  unfolding parse_rule_def by (intro keeps_rules keeps_rule_port)

lemma keeps_plain_connect: "keeps daemon_ok (plain_connect env i auth)"
  unfolding keeps_def plain_connect_def
  by (auto simp: Let_def intro!: ok_put dest: ok_get instance_connect split: option.split prod.split)

lemma keeps_connect_for_forward: "keeps daemon_ok (connect_for_forward env i)"
  unfolding connect_for_forward_def config_auth_def
  by (intro keeps_rules keeps_plain_connect; auto intro: ok_intros)

lemma keeps_start_on: "keeps daemon_ok (start_on env i rule)"
  unfolding keeps_def start_on_def
  by (auto intro!: ok_put dest: ok_get split: option.split prod.split)

lemma keeps_start_with_retry: "keeps daemon_ok (start_with_retry env i rule)"
proof -
  have again: "keeps daemon_ok (io_bind (change (\<lambda>s. snd (disconnect_server env i s))) (\<lambda>_.
      io_bind (connect_for_forward env i) (\<lambda>_. io_map_err (core_error env) (start_on env i rule))))"
    by (intro keeps_rules keeps_connect_for_forward keeps_start_on; auto intro: ok_intros)
  show ?thesis
    using keeps_start_on [of env i rule] again
    by (fastforce simp: keeps_def start_with_retry_def split: prod.split sum.split)
qed

section \<open>The handlers\<close>

lemma keeps_update_server: "keeps daemon_ok (handle_update_server env params)"
proof -
  have found: "yields (\<lambda>u. \<forall>cfg. u = Some cfg \<longrightarrow> srv_id cfg = i)
      (modify_config env (\<lambda>c. let c' = on_server_config i f c in (find_server c' i, c')))" for i f
    by (auto simp: yields_def modify_config_def modify_def save_now_def Let_def find_server_def find_Some_iff map_err_Inr
        split: if_splits prod.splits sum.splits)
  show ?thesis
    unfolding handle_update_server_def
    by (intro keeps_seq [OF keeps_parts(3)] keeps_seq [OF keeps_check_ports] keeps_seq_yields [OF keeps_frames(1) found]
        keeps_seq keeps_change keeps_ret)
      (auto intro: ok_reload split: option.split)
qed

lemma keeps_connect_server: "keeps daemon_ok (handle_connect_server env params)"
  unfolding handle_connect_server_def
  by (intro keeps_rules keeps_connect_with; auto intro: ok_intros)

lemma keeps_get_config: "keeps daemon_ok (handle_get_config env)"
  unfolding handle_get_config_def by (intro keeps_rules)

lemma keeps_sync: "keeps daemon_ok (handle_cloud_sync_upload env cl params)" "keeps daemon_ok (handle_cloud_sync_download env cl params)"
  unfolding handle_cloud_sync_upload_def handle_cloud_sync_download_def send_up_def take_down_def
  by (intro keeps_rules keeps_cloud_parts keeps_remember keeps_apply; simp)+

lemma ok_resize:
  "daemon_ok (case resize_and_notify i c r m of (tm, ns) \<Rightarrow> notify ns (s\<lparr>terminal_manager := tm\<rparr>)) = daemon_ok s"
  by (simp split: prod.split)

lemmas keeps_all = keeps_rules keeps_check_ports keeps_add keeps_connect_with keeps_disconnect keeps_manual_fire
  keeps_fire_local keeps_terminal_parts keeps_inject keeps_before_close keeps_exec_on keeps_cloud_parts keeps_await
  keeps_apply keeps_parse_rule keeps_connect_for_forward keeps_start_with_retry

lemma keeps_handler: "keeps daemon_ok (handler_of env cl pe params a)"
  by (cases a; simp only: handler_of.simps keeps_update_server keeps_connect_server keeps_get_config keeps_sync;
      (unfold request_defs, intro keeps_all;
        ((auto simp: Let_def ok_resize intro: ok_intros; fail) | (rule keeps_frame, simp split: prod.split; fail)))?)

end
