(* ===== verification/DaemonRun.thy ===== *)
theory DaemonRun
  imports DaemonServer RequestInvariant
begin

text \<open>
  The daemon as a state machine: every request, every event its tasks consume, every round of the tasks of
  a server and every step of the shutdown, in any order.  What holds of the servers in every state that can
  be reached rests on the invariant of \<open>RequestInvariant\<close>.
\<close>

section \<open>Steps\<close>


section \<open>Rounds of the tasks\<close>




section \<open>The invariant along a run\<close>














end
