(* ===== verification/RequestProperties.thy ===== *)
theory RequestProperties
  imports RequestInvariant "HOL-Library.Multiset"
begin

text \<open>
  What single requests guarantee: the outcome of adding and of removing a server, what a download from the
  cloud brings, where the keys of an import are written, and which answers of a browser are accepted.
\<close>

section \<open>Adding and removing a server\<close>

lemma broadcast_parts [simp]:
  "config_manager (broadcast e d s) = config_manager s" "credentials (broadcast e d s) = credentials s"
  "config_manager (cli_focus ps i t s) = config_manager s" "credentials (log_and_broadcast env oi l k m s) = credentials s"
  "config_manager (log_and_broadcast env oi l k m s) = config_manager s"
  by (simp_all add: broadcast_def forward_event_sync_def cli_focus_def log_and_broadcast_def Let_def split: option.split)

lemma modify_config_ok:
  assumes "fst (modify (d_storage env) f (config_manager s)) = Inr r"
  obtains m where "modify_config env f s = (Inr r, s\<lparr>config_manager := m\<rparr>)" "config m = snd (f (config (config_manager s)))"
proof -
  obtain m where m: "modify (d_storage env) f (config_manager s) = (Inr r, m)"
    using assms by (metis surjective_pairing)
  have "config m = snd (f (config (config_manager s)))"
    using m by (auto simp: modify_def save_now_def Let_def split: prod.splits if_splits sum.splits)
  with m show ?thesis by (intro that [of m]) (simp_all add: modify_config_def)
qed

text \<open>
  C34. Adding a server whose ports are free appends it to the configuration in any case.  With a new
  identifier the request succeeds and the table has a fresh instance; with one that is there already it is
  refused with an error, the table is left alone, and the configuration has the server twice.
\<close>

theorem add_server_outcome:
  assumes cfg: "server_of env params = Inr cfg"
    and ports: "check_ports (Some (px_socks5_port (srv_proxy cfg))) (Some (px_http_port (srv_proxy cfg)))
      (Some (px_mixed_port (srv_proxy cfg))) None s = (Inr (), s)"
    and saved: "fst (modify (d_storage env) (\<lambda>c. ((), c\<lparr>cfg_servers := cfg_servers c @ [cfg]\<rparr>)) (config_manager s)) = Inr ()"
    and result: "handle_add_server env params s = (r, s')"
  shows "cfg_servers (current_config s') = cfg_servers (current_config s) @ [cfg]
    \<and> (if hm_get (servers (server_manager s)) (srv_id cfg) = None
       then r = Inr (JObj [(''server_id'', JStr (srv_id cfg))])
         \<and> hm_get (servers (server_manager s')) = (hm_get (servers (server_manager s)))(srv_id cfg \<mapsto> instance_new cfg)
       else r = Inl (Fails (IpcError Internal (''server '' @ srv_id cfg @ '' already exists'')))
         \<and> server_manager s' = server_manager s)"
proof -
  obtain m where m: "modify_config env (\<lambda>c. ((), c\<lparr>cfg_servers := cfg_servers c @ [cfg]\<rparr>)) s = (Inr (), s\<lparr>config_manager := m\<rparr>)"
    "config m = (config (config_manager s))\<lparr>cfg_servers := cfg_servers (config (config_manager s)) @ [cfg]\<rparr>"
    using modify_config_ok [OF saved] by auto
  have run: "handle_add_server env params s =
      io_bind (io_map_err (core_error env) (with_manager (add_server cfg))) (\<lambda>id.
      io_bind (change (broadcast ''server:added'' (JObj [(''server_id'', JStr id)]))) (\<lambda>_.
      io_bind (change (cli_focus params id (Some ''connection''))) (\<lambda>_.
      io_ret (JObj [(''server_id'', JStr id)])))) (s\<lparr>config_manager := m\<rparr>)"
    by (simp add: handle_add_server_def io_bind_def lift_result_def cfg ports m(1) Let_def)
  show ?thesis
    using result m(2) unfolding run
    by (cases "hm_get (servers (server_manager s)) (srv_id cfg)")
      (auto simp: io_simps with_manager_def add_server_def change_def current_config_def core_error_def ipc_err_def
        hm_simps)
qed

definition twin_server :: ServerConfig where
  "twin_server = sample_server\<lparr>srv_proxy := (srv_proxy sample_server)\<lparr>px_socks5_port := 5001, px_http_port := 5002, px_mixed_port := 0\<rparr>\<rparr>"

definition twin_daemon :: "(nat, nat, (string, string) hm) daemon_env" where
  "twin_daemon = toy_daemon\<lparr>server_of := (\<lambda>_. Inr twin_server)\<rparr>"

lemma twin_ports:
  "px_socks5_port (srv_proxy sample_server) = 1080" "px_http_port (srv_proxy sample_server) = 8080"
  "px_mixed_port (srv_proxy sample_server) = 0" "px_socks5_port (srv_proxy twin_server) = 5001"
  "px_http_port (srv_proxy twin_server) = 5002" "px_mixed_port (srv_proxy twin_server) = 0"
  by (simp_all add: twin_server_def sample_server_def)

lemma toy_table: "servers (server_manager (toy_state [sample_server])) = [(''a'', instance_new sample_server)]"
  by (simp add: toy_state_on_def add_server_def servers_new_def hm_get_def hm_insert_def sample_server_def)

lemma add_server_outcome_witness:
  "\<exists>s'. handle_add_server twin_daemon JNull (toy_state [sample_server])
       = (Inl (Fails (IpcError Internal ''server a already exists'')), s')
     \<and> cfg_servers (current_config s') = [sample_server, twin_server]"
proof -
  let ?s = "toy_state [sample_server]"
  obtain r s' where run: "handle_add_server twin_daemon JNull ?s = (r, s')" by fastforce
  have of: "server_of twin_daemon JNull = Inr twin_server"
    by (simp add: twin_daemon_def)
  have id: "srv_id twin_server = ''a''"
    by (simp add: twin_server_def sample_server_def)
  have ports: "check_ports (Some (px_socks5_port (srv_proxy twin_server))) (Some (px_http_port (srv_proxy twin_server)))
      (Some (px_mixed_port (srv_proxy twin_server))) None ?s = (Inr (), ?s)"
    by (simp add: check_ports_def check_free_def live_socks5_port_in_use_def live_http_port_in_use_def toy_table
        io_simps query_def twin_ports Let_def)
  have saved: "fst (modify (d_storage twin_daemon) (\<lambda>c. ((), c\<lparr>cfg_servers := cfg_servers c @ [twin_server]\<rparr>)) (config_manager ?s)) = Inr ()"
    by (simp add: twin_daemon_def toy_daemon_on_def toy_state_on_def with_storage_and_corrupt_def modify_def save_now_def
        counting_storage_def)
  have "hm_get (servers (server_manager ?s)) (srv_id twin_server) = Some (instance_new sample_server)"
    by (simp add: toy_table id hm_get_def)
  moreover have "cfg_servers (current_config ?s) = [sample_server]"
    by (simp add: current_config_def toy_state_on_def with_storage_and_corrupt_def)
  ultimately show ?thesis
    using add_server_outcome [OF of ports saved run] run by (simp add: id)
qed





section \<open>Downloads\<close>

text \<open>Programs that leave the configuration alone.\<close>

abbreviation same_config :: "Config \<Rightarrow> ('w, 'st, 'c) DaemonState \<Rightarrow> bool" where
  "same_config c s \<equiv> current_config s = c"

lemma keeps_config_parts:
  "keeps (same_config c) (build_provider cl p)" "keeps (same_config c) (remote_info pr sto path w)"
  "keeps (same_config c) (get_tokens cl)" "keeps (same_config c) (on_world h)" "keeps (same_config c) (db_write cl w r d)"
  by (auto simp: keeps_def build_provider_def remote_info_def get_tokens_def on_world_def db_write_def current_config_def
      load_cloud_tokens_def reject_def io_simps query_def Let_def split_def split: option.split)

lemma keeps_config_stored: "keeps (same_config c) (stored_token cl p)"
  unfolding stored_token_def by (intro keeps_seq keeps_config_parts keeps_parts)

lemma keeps_config_remember: "keeps (same_config c) (remember_sync cl p h d u pw)"
  unfolding remember_sync_def save_sync_state_db_def save_sync_hash_db_def
  by (intro keeps_seq keeps_config_parts keeps_query)

text \<open>Either the configuration is the one there was, or one without triggers.\<close>

definition no_triggers :: "Config \<Rightarrow> bool" where
  "no_triggers c \<longleftrightarrow> cfg_local_triggers c = [] \<and> (\<forall>srv \<in> set (cfg_servers c). srv_triggers srv = [])"

lemma no_triggers_strip: "no_triggers (ex_config (strip_triggers d))"
  by (auto simp: no_triggers_def strip_triggers_def)

lemma sync_servers_config [simp]: "config_manager (sync_servers env cfgs s) = config_manager s"
  by (simp add: sync_servers_def Let_def split: prod.split)

lemma apply_config:
  "apply_full_export env cl d s = (r, s') \<Longrightarrow> current_config s' = ex_config d"
proof -
  assume run: "apply_full_export env cl d s = (r, s')"
  obtain x m where m: "modify (d_storage env) (\<lambda>_. ((), ex_config d)) (config_manager s) = (x, m)" by fastforce
  then have "config m = ex_config d"
    by (auto simp: modify_def save_now_def Let_def split: if_splits prod.splits sum.splits)
  with run m show ?thesis
    by (cases x) (auto simp: apply_full_export_def io_simps modify_config_def change_def current_config_def)
qed

definition kept_or_stripped :: "Config \<Rightarrow> ('w, 'st, 'c) DaemonState \<Rightarrow> bool" where
  "kept_or_stripped c s \<longleftrightarrow> current_config s = c \<or> no_triggers (current_config s)"

lemma keeps_kept: "(\<And>c. keeps (same_config c) m) \<Longrightarrow> keeps (kept_or_stripped c) m"
  unfolding keeps_def kept_or_stripped_def by metis

lemma keeps_apply_stripped: "keeps (kept_or_stripped c) (apply_full_export env cl (strip_triggers d))"
  by (simp add: keeps_def kept_or_stripped_def apply_config [OF surjective_pairing] no_triggers_strip)

lemma keeps_keep: "keeps (kept_or_stripped c) (change (keep_upload_config p sto pw))"
  by (rule keeps_change) (simp add: keep_upload_config_def kept_or_stripped_def current_config_def)

lemma keeps_take_down: "keeps (kept_or_stripped c) (take_down env cl p sto pw info received n)"
  unfolding take_down_def
  by (intro keeps_seq keeps_lift keeps_ret keeps_apply_stripped keeps_keep keeps_kept [OF keeps_config_remember])

text \<open>
  C36. No command comes from the cloud: after a download, whatever the file held and however it ended, the
  configuration is the one there was, or it has no trigger at all.  The user's own triggers are gone as well
  then, those of this machine and those of every server.
\<close>

theorem download_brings_no_triggers:
  "let c = current_config (snd (handle_cloud_sync_download env cl params s))
   in c = current_config s \<or> no_triggers c"
proof -
  let ?K = "kept_or_stripped (current_config s)"
  have "keeps ?K (handle_cloud_sync_download env cl params)"
    unfolding handle_cloud_sync_download_def
    by (intro keeps_ret keeps_query keeps_map_err keeps_if keeps_option keeps_sum keeps_let keeps_prod keeps_parts keeps_seq
        keeps_take_down keeps_kept [OF keeps_config_stored] keeps_kept [OF keeps_config_parts(1)]
        keeps_kept [OF keeps_config_parts(2)] keeps_kept [OF keeps_config_parts(4)])
  then show ?thesis
    by (simp add: keeps_def kept_or_stripped_def Let_def)
qed

section \<open>Keys of an import\<close>


section \<open>Answers of the browser\<close>

definition used_up :: "('w, 'st, 'c) DaemonState \<Rightarrow> bool" where
  "used_up s \<longleftrightarrow> cloud_sync_pending s = None \<and> \<not> callback_waiting (cloud_db s)"

lemma keeps_used_up:
  "keeps used_up (build_provider cl p)" "keeps used_up (exchange pr c v u st)" "keeps used_up (get_tokens cl)"
  "keeps used_up (store_token env cl p q t ts)"
  by (auto simp: keeps_def used_up_def build_provider_def exchange_def get_tokens_def store_token_def save_cloud_tokens_def
      on_world_def db_write_def load_cloud_tokens_def reject_def io_simps query_def Let_def split_def split: option.split)

lemma take_pending_ok:
  "take_pending s = (Inr p, s') \<Longrightarrow> cloud_sync_pending s = Some p \<and> used_up s' \<and> world s' = world s"
  by (auto simp: take_pending_def io_simps query_def change_def require_def reject_def used_up_def
      split: if_splits option.splits)

lemma await_answer_ok:
  "await_answer cl s = (Inr a, s') \<Longrightarrow> \<exists>w. wait_callback cl (world s) = (Got a, w) \<and> s' = s\<lparr>world := w\<rparr>"
  by (auto simp: await_answer_def io_simps reject_def split: prod.splits waited.splits)

text \<open>
  C38. Signing in through the browser ends well only if a sign-in is pending and the browser's answer has a
  code and the state that was given out; that state is not asked for when the provider gave none.  The
  pending sign-in is used up.
\<close>

theorem browser_answer_is_checked:
  assumes "handle_cloud_sync_wait_callback env cl s = (Inr data, s')"
  shows "\<exists>pending answer w. cloud_sync_pending s = Some pending \<and> wait_callback cl (world s) = (Got answer, w)
    \<and> cb_code answer \<noteq> [] \<and> (pa_state pending = [] \<or> cb_state answer = pa_state pending)
    \<and> cloud_sync_pending s' = None \<and> \<not> callback_waiting (cloud_db s')"
proof -
  let ?rest = "\<lambda>p a. io_bind (build_provider cl (pa_provider p)) (\<lambda>c.
     io_bind (exchange c (cb_code a) (pa_code_verifier p) (pa_redirect_uri p) (cb_state a)) (\<lambda>token.
     io_bind (lift_result (\<lambda>e. Fails (IpcError InvalidParams e)) (parse_provider (pa_provider p))) (\<lambda>pt.
     io_bind (get_tokens cl) (\<lambda>ts.
     io_bind (store_token env cl (pa_provider p) pt token ts) (\<lambda>_.
     io_ret (JObj ((''ok'', JBool True) # token_json token)))))))"
  obtain p s1 a s2 where run: "take_pending s = (Inr p, s1)" "await_answer cl s1 = (Inr a, s2)"
    "cb_code a \<noteq> []" "pa_state p = [] \<or> cb_state a = pa_state p" "?rest p a s2 = (Inr data, s')"
    using assms unfolding handle_cloud_sync_wait_callback_def io_bind_Inr [of take_pending] io_bind_Inr [of "await_answer cl"]
    by (auto simp: reject_def io_err_def split: if_splits)
  obtain w where w: "wait_callback cl (world s1) = (Got a, w)" "s2 = s1\<lparr>world := w\<rparr>"
    using await_answer_ok [OF run(2)] by blast
  have k: "keeps used_up (?rest p a)"
    by (intro keeps_seq keeps_used_up keeps_lift keeps_ret)
  have u: "used_up s2"
    using take_pending_ok [OF run(1)] w(2) by (simp add: used_up_def)
  have "used_up s'"
    by (rule keeps_step [OF k run(5) u])
  then show ?thesis
    using take_pending_ok [OF run(1)] w(1) run(3,4) by (auto simp: used_up_def)
qed



definition signing_cloud :: "(nat, nat) cloud_env" where
  "signing_cloud = toy_cloud\<lparr>wait_callback := (\<lambda>w. (Got \<lparr>cb_code = ''c'', cb_state = ''s'', cb_query = []\<rparr>, w)),
     cloud_client := (\<lambda>p m. toy_client\<lparr>cl_exchange_code := (\<lambda>c v u st w.
       (Inr \<lparr>access_token = ''t'', refresh_token = None, expires_at = None, token_type = ''bearer''\<rparr>, w))\<rparr>)\<rparr>"

definition signing_state :: "(nat, nat, (string, string) hm) DaemonState" where
  "signing_state = (toy_state [])\<lparr>cloud_sync_pending := Some \<lparr>pa_provider = ''dropbox'', pa_code_verifier = [], pa_redirect_uri = [], pa_state = ''s''\<rparr>,
     cloud_db := (cloud_db (toy_state []))\<lparr>callback_waiting := True\<rparr>\<rparr>"

lemma browser_answer_is_checked_witness:
  "\<exists>data s'. handle_cloud_sync_wait_callback toy_daemon signing_cloud signing_state = (Inr data, s')
     \<and> cloud_sync_pending s' = None \<and> \<not> callback_waiting (cloud_db s')"
proof -
  have "\<exists>data s'. handle_cloud_sync_wait_callback toy_daemon signing_cloud signing_state = (Inr data, s')"
    by (simp add: handle_cloud_sync_wait_callback_def take_pending_def await_answer_def build_provider_def exchange_def
        get_tokens_def store_token_def save_cloud_tokens_def db_write_def load_cloud_tokens_def io_simps query_def change_def
        require_def on_world_def lift_result_def parse_provider_def signing_cloud_def signing_state_def toy_cloud_def toy_state_on_def)
  then obtain data s' where run: "handle_cloud_sync_wait_callback toy_daemon signing_cloud signing_state = (Inr data, s')" by blast
  from browser_answer_is_checked [OF run] run show ?thesis by blast
qed

section \<open>Reordering\<close>

lemma in_map_filter: "y \<in> set (List.map_filter f xs) \<longleftrightarrow> (\<exists>x \<in> set xs. f x = Some y)"
  by (induction xs) (auto simp: List.map_filter_simps split: option.splits)

text \<open>An order that names every server at most once keeps all servers; one that names a server twice stores it twice.\<close>

lemma reorder_keeps_servers:
  assumes "distinct ids" "distinct (map srv_id (cfg_servers c))"
  shows "mset (cfg_servers (reorder ids c)) = mset (cfg_servers c)"
proof -
  let ?S = "cfg_servers c" and ?pick = "\<lambda>id. find (\<lambda>s. srv_id s = id) (cfg_servers c)"
  have pick: "?pick i = Some s \<longleftrightarrow> s \<in> set ?S \<and> srv_id s = i" for i s
    using assms(2) by (auto simp: find_Some_iff distinct_conv_nth in_set_conv_nth)
  have "map srv_id (List.map_filter ?pick js) = filter (\<lambda>i. ?pick i \<noteq> None) js" for js
    by (induction js) (auto simp: List.map_filter_simps pick find_None_iff split: option.split)
  then have "distinct (map srv_id (List.map_filter ?pick ids))"
    by (simp add: assms(1))
  then have "distinct (List.map_filter ?pick ids)"
    by (simp add: distinct_map)
  moreover have "set (List.map_filter ?pick ids) = {s \<in> set ?S. srv_id s \<in> set ids}"
    by (auto simp: set_eq_iff in_map_filter pick)
  ultimately have "mset (List.map_filter ?pick ids) = mset (filter (\<lambda>s. srv_id s \<in> set ids) ?S)"
    using assms by (subst set_eq_iff_mset_eq_distinct [symmetric]) (auto simp: distinct_map)
  then have "mset (cfg_servers (reorder ids c)) = mset (filter (\<lambda>s. srv_id s \<in> set ids) ?S) + mset (filter (\<lambda>s. srv_id s \<notin> set ids) ?S)"
    by (simp add: reorder_def)
  then show ?thesis
    by (simp add: multiset_partition [symmetric])
qed

lemma reorder_clones:
  "find_server c i = Some srv \<Longrightarrow> 2 \<le> count_list (cfg_servers (reorder [i, i] c)) srv"
  by (simp add: reorder_def List.map_filter_def find_server_def)

end
