(* ===== verification/TunnelClient.thy ===== *)
theory TunnelClient
  imports RemoteServer
begin

text \<open>
  The desktop's end of the relay (crates/daemon/src/tunnel_client.rs): the control messages of the
  relay, the request that opens the web socket, and the loop of one pairing, which connects,
  registers, waits for the peer, pipes messages between the relay and the tunnel of the remote
  server, and starts again.  The web socket is a parameter: an event carries what it delivers or
  the outcome of an operation on it.  A write is one outcome per step (\<open>wr\<close>).
\<close>

section \<open>Control messages and addresses\<close>

datatype ControlMessage =
  PeerConnected | PeerDisconnected | PeerTimeout | ControlError string | UnknownControl string

definition extract_host :: "string \<Rightarrow> string" where
  "extract_host url =
     (let stripped = (case strip_prefix ''wss://'' url of
                        Some s \<Rightarrow> s
                      | None \<Rightarrow> (case strip_prefix ''ws://'' url of Some s \<Rightarrow> s | None \<Rightarrow> url))
      in hd (split_on CHR ''/'' stripped))"

definition parse_control_message :: "remote_env \<Rightarrow> string \<Rightarrow> ControlMessage" where
  "parse_control_message env s =
     (case json_of_str env s of
        Inl _ \<Rightarrow> UnknownControl s
      | Inr v \<Rightarrow>
          (let t = str_or [] (json_str v ''type'')
           in if t = ''peer_connected'' then PeerConnected
              else if t = ''peer_disconnected'' then PeerDisconnected
              else if t = ''peer_timeout'' then PeerTimeout
              else if t = ''error'' then ControlError (str_or [] (json_str v ''message''))
              else UnknownControl t))"

section \<open>Whether and when to try again\<close>

text \<open>Seconds.  Both loops that talk to the relay stop for the same errors and double the same pause.\<close>

definition MAX_BACKOFF :: nat where "MAX_BACKOFF = 30"

definition gives_up :: "string \<Rightarrow> bool" where
  "gives_up e \<longleftrightarrow> find_sub ''HTTP 401'' e \<noteq> None \<or> find_sub ''unauthorized'' e \<noteq> None \<or> prefix ''FATAL:'' e"

definition next_backoff :: "nat \<Rightarrow> nat" where
  "next_backoff b = min (b * 2) MAX_BACKOFF"

text \<open>The pause before the next attempt and the backoff after it; a clean end is followed by no pause.\<close>

definition tunnel_verdict :: "string + unit \<Rightarrow> nat \<Rightarrow> (nat \<times> nat) option" where
  "tunnel_verdict r b =
     (case r of
        Inr _ \<Rightarrow> Some (0, 1)
      | Inl e \<Rightarrow> if gives_up e then None else Some (b, next_backoff b))"

section \<open>Connecting\<close>

record TunnelConfig =
  tcf_relay_url :: string
  tcf_jwt :: string
  tcf_pairing_id :: string
  tcf_pairing_key :: bytes

definition connect_headers :: "string \<Rightarrow> TunnelConfig \<Rightarrow> (string \<times> string) list" where
  "connect_headers key c =
     [(''Authorization'', ''Bearer '' @ tcf_jwt c), (''Host'', extract_host (tcf_relay_url c)),
      (''Connection'', ''Upgrade''), (''Upgrade'', ''websocket''), (''Sec-WebSocket-Version'', ''13''),
      (''Sec-WebSocket-Key'', key), (''X-Pairing-Id'', tcf_pairing_id c)]"

text \<open>\<open>build\<close> is the outcome of building the request, \<open>conn\<close> an error text or the status of the response.\<close>

definition connect_ws :: "string + unit \<Rightarrow> string + nat \<Rightarrow> string + unit" where
  "connect_ws build conn =
     (case build of
        Inl e \<Rightarrow> Inl (''build request: '' @ e)
      | Inr _ \<Rightarrow>
          (case conn of
             Inl msg \<Rightarrow>
               Inl (if find_sub ''401'' msg \<noteq> None \<or> find_sub ''Unauthorized'' msg \<noteq> None
                    then ''HTTP 401 unauthorized: '' @ msg else ''ws connect: '' @ msg)
           | Inr status \<Rightarrow> if status = 401 then Inl ''HTTP 401 unauthorized'' else Inr ()))"

definition register_text :: "remote_env \<Rightarrow> TunnelConfig \<Rightarrow> string" where
  "register_text env c =
     json_text env (JObj [(''type'', JStr ''register''), (''pairing_id'', JStr (tcf_pairing_id c)), (''role'', JStr ''desktop'')])"

section \<open>One tunnel\<close>

datatype ws_item = WsText string | WsBinary bytes | WsClose | WsOther

datatype ws_event = WsItem ws_item | WsError string | WsEnd

datatype relay_phase = Dialing | PeerWait | Piping | Closing | Pausing nat | GivenUp

record TunnelClient =
  tc_phase :: relay_phase
  tc_backoff :: nat

definition tunnel_client_new :: TunnelClient where
  "tunnel_client_new = \<lparr>tc_phase = Dialing, tc_backoff = 1\<rparr>"

text \<open>
  \<open>StartServer\<close> spawns the task of the remote server, \<open>ToServer\<close> is a message for it, and
  \<open>EndOfInput\<close> the moment its channel has no sender any more.
\<close>

datatype relay_effect = ToRelay ws_item | StartServer | ToServer bytes | EndOfInput

datatype relay_event =
    Dialed "string + unit" "string + nat"
  | FromRelay ws_event
  | FromServer "bytes option"
  | GraceOver
  | PauseOver

definition run_returned :: "string + unit \<Rightarrow> TunnelClient \<Rightarrow> TunnelClient" where
  "run_returned r tc =
     (case tunnel_verdict r (tc_backoff tc) of
        None \<Rightarrow> tc\<lparr>tc_phase := GivenUp\<rparr>
      | Some (p, b) \<Rightarrow> \<lparr>tc_phase = (if p = 0 then Dialing else Pausing p), tc_backoff = b\<rparr>)"

definition step_dialing ::
  "remote_env \<Rightarrow> TunnelConfig \<Rightarrow> string + unit \<Rightarrow> relay_event \<Rightarrow> TunnelClient \<Rightarrow> relay_effect list \<times> TunnelClient" where
  "step_dialing env c wr e tc =
     (case e of
        Dialed build conn \<Rightarrow>
          (case connect_ws build conn of
             Inl err \<Rightarrow> ([], run_returned (Inl err) tc)
           | Inr _ \<Rightarrow>
               (case wr of
                  Inl err \<Rightarrow> ([], run_returned (Inl (''send register: '' @ err)) tc)
                | Inr _ \<Rightarrow> ([ToRelay (WsText (register_text env c))], tc\<lparr>tc_phase := PeerWait\<rparr>)))
      | _ \<Rightarrow> ([], tc))"

definition PEER_TIMEOUT :: string where
  "PEER_TIMEOUT = ''peer timeout '' @ [CHR 0xE2, CHR 0x80, CHR 0x94] @ '' mobile did not connect''"

definition step_peer_wait ::
  "remote_env \<Rightarrow> relay_event \<Rightarrow> TunnelClient \<Rightarrow> relay_effect list \<times> TunnelClient" where
  "step_peer_wait env e tc =
     (case e of
        FromRelay (WsItem (WsText s)) \<Rightarrow>
          (case parse_control_message env s of
             PeerConnected \<Rightarrow> ([StartServer], tc\<lparr>tc_phase := Piping\<rparr>)
           | PeerTimeout \<Rightarrow> ([], run_returned (Inl PEER_TIMEOUT) tc)
           | ControlError msg \<Rightarrow> ([], run_returned (Inl (''FATAL: register rejected: '' @ msg)) tc)
           | _ \<Rightarrow> ([], tc))
      | FromRelay (WsError err) \<Rightarrow> ([], run_returned (Inl (''ws read during wait: '' @ err)) tc)
      | FromRelay WsEnd \<Rightarrow> ([], run_returned (Inl ''ws closed during peer wait'') tc)
      | _ \<Rightarrow> ([], tc))"

text \<open>After the pipe a close frame is sent, whether it arrives or not.\<close>

definition close_pipe :: "string + unit \<Rightarrow> TunnelClient \<Rightarrow> relay_effect list \<times> TunnelClient" where
  "close_pipe wr tc = (if isl wr then [] else [ToRelay WsClose], tc\<lparr>tc_phase := Closing\<rparr>)"

definition step_piping ::
  "remote_env \<Rightarrow> string + unit \<Rightarrow> bool \<Rightarrow> relay_event \<Rightarrow> TunnelClient \<Rightarrow> relay_effect list \<times> TunnelClient" where
  "step_piping env wr server_gone e tc =
     (case e of
        FromRelay (WsItem (WsText s)) \<Rightarrow>
          (if parse_control_message env s = PeerDisconnected \<or> parse_control_message env s = PeerTimeout
           then close_pipe wr tc else ([], tc))
      | FromRelay (WsItem (WsBinary d)) \<Rightarrow> if server_gone then close_pipe wr tc else ([ToServer d], tc)
      | FromRelay (WsItem WsOther) \<Rightarrow> ([], tc)
      | FromRelay _ \<Rightarrow> close_pipe wr tc
      | FromServer (Some d) \<Rightarrow> if isl wr then close_pipe wr tc else ([ToRelay (WsBinary d)], tc)
      | FromServer None \<Rightarrow> close_pipe wr tc
      | _ \<Rightarrow> ([], tc))"

text \<open>
  The end waits for the server's task or three seconds; the sender of the task's channel lives until
  then, so it is only now that the task can see the end of its input.
\<close>

definition tunnel_client_step ::
  "remote_env \<Rightarrow> TunnelConfig \<Rightarrow> string + unit \<Rightarrow> bool \<Rightarrow> relay_event \<Rightarrow> TunnelClient \<Rightarrow> relay_effect list \<times> TunnelClient" where
  "tunnel_client_step env c wr server_gone e tc =
     (case tc_phase tc of
        Dialing \<Rightarrow> step_dialing env c wr e tc
      | PeerWait \<Rightarrow> step_peer_wait env e tc
      | Piping \<Rightarrow> step_piping env wr server_gone e tc
      | Closing \<Rightarrow> if e = GraceOver then ([EndOfInput], run_returned (Inr ()) tc) else ([], tc)
      | Pausing p \<Rightarrow> if e = PauseOver then ([], tc\<lparr>tc_phase := Dialing\<rparr>) else ([], tc)
      | GivenUp \<Rightarrow> ([], tc))"

section \<open>Facts\<close>

lemma extract_host_of:
  "CHR ''/'' \<notin> set h \<Longrightarrow> extract_host (''wss://'' @ h @ ''/'' @ p) = h \<and> extract_host (''ws://'' @ h @ ''/'' @ p) = h"
  by (simp add: extract_host_def strip_prefix_def split_on_append)

text \<open>The errors for which the relay's answer ends the tunnel for good.\<close>

lemma refused_token_gives_up:
  "find_sub ''401'' msg \<noteq> None \<Longrightarrow> \<exists>e. connect_ws (Inr ()) (Inl msg) = Inl e \<and> gives_up e"
proof -
  assume *: "find_sub ''401'' msg \<noteq> None"
  have "gives_up (''HTTP 401 unauthorized: '' @ msg)" by (simp add: gives_up_def)
  then show ?thesis using * by (auto simp: connect_ws_def)
qed

definition backoff_ok :: "nat \<Rightarrow> bool" where
  "backoff_ok b \<longleftrightarrow> 1 \<le> b \<and> b \<le> MAX_BACKOFF"

lemma next_backoff_ok: "backoff_ok b \<Longrightarrow> backoff_ok (next_backoff b)"
  by (auto simp: backoff_ok_def next_backoff_def MAX_BACKOFF_def)

lemma next_backoff_power: "(next_backoff ^^ n) 1 = min (2 ^ n) MAX_BACKOFF"
  by (induction n) (auto simp: next_backoff_def MAX_BACKOFF_def)

definition pause_ok :: "TunnelClient \<Rightarrow> bool" where
  "pause_ok tc \<longleftrightarrow> backoff_ok (tc_backoff tc) \<and>
     (case tc_phase tc of Pausing p \<Rightarrow> backoff_ok p | _ \<Rightarrow> True)"

lemma run_returned_ok: "backoff_ok (tc_backoff tc) \<Longrightarrow> pause_ok (run_returned r tc)"
  by (auto simp: run_returned_def tunnel_verdict_def pause_ok_def next_backoff_ok split: sum.split)
    (auto simp: backoff_ok_def MAX_BACKOFF_def)

lemma tunnel_step_pause_ok: "pause_ok tc \<Longrightarrow> pause_ok (snd (tunnel_client_step env c wr g e tc))"
proof -
  assume ok: "pause_ok tc"
  then have b: "backoff_ok (tc_backoff tc)" by (simp add: pause_ok_def)
  show ?thesis
    using ok b
    by (simp add: tunnel_client_step_def step_dialing_def step_peer_wait_def step_piping_def close_pipe_def run_returned_ok
        split: relay_phase.split relay_event.split sum.split ws_event.split ws_item.split ControlMessage.split option.split)
      (simp add: pause_ok_def)
qed

text \<open>Runs of a tunnel: every step with the outcome of its write and whether the server's task is gone.\<close>

fun relay_run ::
  "remote_env \<Rightarrow> TunnelConfig \<Rightarrow> ((string + unit) \<times> bool \<times> relay_event) list \<Rightarrow> TunnelClient \<Rightarrow> relay_effect list \<times> TunnelClient" where
  "relay_run env c [] tc = ([], tc)"
| "relay_run env c ((wr, g, e) # xs) tc =
     (let (es, tc1) = tunnel_client_step env c wr g e tc; (es', tc2) = relay_run env c xs tc1 in (es @ es', tc2))"

interpretation relay: machine "\<lambda>tc (wr, g, e). snd (tunnel_client_step env c wr g e tc)" tunnel_client_new pause_ok
  by unfold_locales (auto simp: tunnel_step_pause_ok, simp add: pause_ok_def tunnel_client_new_def backoff_ok_def MAX_BACKOFF_def)

lemma relay_run_state: "snd (relay_run env c xs tc) = run (\<lambda>tc (wr, g, e). snd (tunnel_client_step env c wr g e tc)) tc xs"
  by (induction xs arbitrary: tc) (auto simp: split_def Let_def)

lemma relay_run_pauses: "pause_ok (snd (relay_run env c xs tunnel_client_new))"
  unfolding relay_run_state by (rule relay.inv_run)

text \<open>What the pipe is given and what it passes on.\<close>

fun pipe_event :: "relay_event \<Rightarrow> bool" where
  "pipe_event (FromRelay w) \<longleftrightarrow> True"
| "pipe_event (FromServer d) \<longleftrightarrow> True"
| "pipe_event _ \<longleftrightarrow> False"

fun came_in :: "relay_event \<Rightarrow> bytes list" where
  "came_in (FromRelay (WsItem (WsBinary d))) = [d]"
| "came_in _ = []"

fun came_out :: "relay_event \<Rightarrow> bytes list" where
  "came_out (FromServer (Some d)) = [d]"
| "came_out _ = []"

fun passed_in :: "relay_effect \<Rightarrow> bytes list" where
  "passed_in (ToServer d) = [d]"
| "passed_in _ = []"

fun passed_out :: "relay_effect \<Rightarrow> bytes list" where
  "passed_out (ToRelay (WsBinary d)) = [d]"
| "passed_out _ = []"

lemma pipe_closed:
  assumes "tc_phase tc = Closing" "\<forall>(wr, g, e) \<in> set xs. pipe_event e"
  shows "relay_run env c xs tc = ([], tc)"
  using assms(2)
proof (induction xs)
  case (Cons x xs)
  obtain wr g e where x: "x = (wr, g, e)" by (cases x)
  have "e \<noteq> GraceOver" using Cons.prems by (auto simp: x)
  then have "tunnel_client_step env c wr g e tc = ([], tc)" by (simp add: tunnel_client_step_def assms(1))
  then show ?case using Cons by (simp add: x)
qed simp

lemma pipe_step:
  assumes "tc_phase tc = Piping" "pipe_event e"
  obtains (stays) es where "tunnel_client_step env c wr g e tc = (es, tc)"
      "concat (map passed_in es) = came_in e" "concat (map passed_out es) = came_out e"
  | (ends) es where "tunnel_client_step env c wr g e tc = (es, tc\<lparr>tc_phase := Closing\<rparr>)"
      "concat (map passed_in es) = []" "concat (map passed_out es) = []"
proof -
  have step: "tunnel_client_step env c wr g e tc = step_piping env wr g e tc"
    using assms(1) by (simp add: tunnel_client_step_def)
  have "(\<exists>es. step_piping env wr g e tc = (es, tc) \<and> concat (map passed_in es) = came_in e
          \<and> concat (map passed_out es) = came_out e)
      \<or> (\<exists>es. step_piping env wr g e tc = (es, tc\<lparr>tc_phase := Closing\<rparr>) \<and> concat (map passed_in es) = []
          \<and> concat (map passed_out es) = [])"
    using assms(2)
    by (cases e rule: came_in.cases; cases e rule: came_out.cases)
      (auto simp: step_piping_def close_pipe_def split: ws_event.split ws_item.split)
  then show thesis using that unfolding step by blast
qed

lemma pipe_transparent:
  assumes "tc_phase tc = Piping" "\<forall>(wr, g, e) \<in> set xs. pipe_event e" "relay_run env c xs tc = (es, tc')"
  shows "prefix (concat (map passed_in es)) (concat (map (\<lambda>(wr, g, e). came_in e) xs))
    \<and> prefix (concat (map passed_out es)) (concat (map (\<lambda>(wr, g, e). came_out e) xs))
    \<and> (tc_phase tc' = Piping \<longrightarrow> concat (map passed_in es) = concat (map (\<lambda>(wr, g, e). came_in e) xs)
         \<and> concat (map passed_out es) = concat (map (\<lambda>(wr, g, e). came_out e) xs))"
  using assms(2,3)
proof (induction xs arbitrary: es)
  case (Cons x xs)
  obtain wr g e where x: "x = (wr, g, e)" by (cases x)
  have pe: "pipe_event e" using Cons.prems(1) by (simp add: x)
  show ?case
  proof (rule pipe_step [OF assms(1) pe, of env c wr g])
    fix es1 assume s: "tunnel_client_step env c wr g e tc = (es1, tc)"
      and p: "concat (map passed_in es1) = came_in e" "concat (map passed_out es1) = came_out e"
    obtain es2 where r: "relay_run env c xs tc = (es2, tc')" and es: "es = es1 @ es2"
      using Cons.prems(2) by (auto simp: x s split: prod.splits)
    show ?thesis using Cons.IH [OF _ r] Cons.prems(1) p by (auto simp: x es)
  next
    fix es1 assume s: "tunnel_client_step env c wr g e tc = (es1, tc\<lparr>tc_phase := Closing\<rparr>)"
      and p: "concat (map passed_in es1) = []" "concat (map passed_out es1) = []"
    have "relay_run env c xs (tc\<lparr>tc_phase := Closing\<rparr>) = ([], tc\<lparr>tc_phase := Closing\<rparr>)"
      using Cons.prems(1) by (intro pipe_closed) (auto simp: x)
    then have "es = es1" "tc_phase tc' = Closing" using Cons.prems(2) by (auto simp: x s)
    then show ?thesis using p by (simp del: concat_eq_Nil_conv)
  qed
qed (use assms(1) in simp)


end
