(* ===== verification/RemoteClient.thy ===== *)
theory RemoteClient
  imports TunnelClient
begin

text \<open>
  The desktop as the client of another desktop (crates/daemon/src/remote_client.rs): the frames it
  asks with, the requests of the other side it answers on its own terminals, the life of one
  connection, the loop around it, and the manager with one task for each pairing.  The web socket,
  the callback for triggers and JSON text are parameters, as for the tunnel and the remote server.
  A pairing's requests wait in a bounded channel; a sender that finds it full waits with the lock of
  the table of channels in its hand (\<open>rc_blocked\<close>).
\<close>

section \<open>Requests\<close>

datatype OutboundFrame =
    OutList
  | OutSubscribe u32
  | OutUnsubscribe u32
  | OutInput u32 bytes
  | OutResize u32 u16 u16
  | OutGoodbye
  | OutInfoRequest
  | OutNewTerminal "string option" "string option" "string option"
  | OutCloseTerminal u32
  | OutTriggerListRequest
  | OutTriggerExec string
  | OutTriggerAdd string
  | OutTriggerUpdate string
  | OutTriggerRemove string

definition new_terminal_text :: "remote_env \<Rightarrow> string option \<Rightarrow> string option \<Rightarrow> string option \<Rightarrow> string" where
  "new_terminal_text env shell name server_id =
     json_text env (JObj [(''shell'', jopt JStr shell), (''name'', jopt JStr name), (''server_id'', jopt JStr server_id)])"

definition trigger_id_text :: "remote_env \<Rightarrow> string \<Rightarrow> string" where
  "trigger_id_text env i = json_text env (JObj [(''trigger_id'', JStr i)])"

definition trigger_text :: "remote_env \<Rightarrow> string \<Rightarrow> string" where
  "trigger_text env s =
     json_text env (JObj [(''trigger'', case json_of_str env s of Inr v \<Rightarrow> v | Inl _ \<Rightarrow> JNull)])"

fun outbound_frame :: "remote_env \<Rightarrow> OutboundFrame \<Rightarrow> Frame" where
  "outbound_frame env OutList = list_request_frame"
| "outbound_frame env (OutSubscribe tid) = subscribe_frame tid"
| "outbound_frame env (OutUnsubscribe tid) = unsubscribe_frame tid"
| "outbound_frame env (OutInput tid data) = input_frame tid data"
| "outbound_frame env (OutResize tid cols rows) = resize_frame tid cols rows"
| "outbound_frame env OutGoodbye = goodbye_frame"
| "outbound_frame env OutInfoRequest = info_request_frame"
| "outbound_frame env (OutNewTerminal shell name server_id) = new_terminal_frame (new_terminal_text env) shell name server_id"
| "outbound_frame env (OutCloseTerminal tid) = close_terminal_frame tid"
| "outbound_frame env OutTriggerListRequest = trigger_list_request_frame"
| "outbound_frame env (OutTriggerExec i) = trigger_exec_frame (trigger_id_text env i)"
| "outbound_frame env (OutTriggerAdd s) = trigger_add_frame (trigger_text env s)"
| "outbound_frame env (OutTriggerUpdate s) = trigger_update_frame (trigger_text env s)"
| "outbound_frame env (OutTriggerRemove i) = trigger_remove_frame (trigger_id_text env i)"

section \<open>State\<close>

record RemoteClientConfig =
  cc_relay_url :: string
  cc_pairing_jwt :: string
  cc_pairing_id :: string
  cc_pairing_key :: bytes

text \<open>
  Where a pairing's task is: up to the exchange of HELLO (which keeps the random value), in the
  bridge with its two ciphers, resting before the next attempt, behind the loop (its receiver is
  gone, its sender not yet taken from the table), at its end, or aborted.
\<close>

datatype client_phase =
    Connecting
  | AwaitingPeer
  | AwaitingHello bytes
  | Bridging FrameCipher FrameCipher
  | Resting nat
  | Leaving
  | Finished
  | Aborted

record ClientTask =
  ct_config :: RemoteClientConfig
  ct_phase :: client_phase
  ct_backoff :: nat
  ct_queue :: "OutboundFrame list"
  ct_async :: "Frame list"

text \<open>Tasks are numbered; \<open>rc_blocked\<close> is a request that waits for room in the channel of a task.\<close>

record RemoteClientManager =
  rc_clients :: "(string, nat) hm"
  rc_senders :: "(string, nat) hm"
  rc_connected :: "string list"
  rc_terminals :: TerminalManager
  rc_id_map :: IdMap
  rc_trigger_callback :: "(TriggerRequest \<Rightarrow> TriggerResponse) option"
  rc_tasks :: "ClientTask list"
  rc_blocked :: "(nat \<times> OutboundFrame) option"

definition remote_clients_new :: "TerminalManager \<Rightarrow> RemoteClientManager" where
  "remote_clients_new tm =
     \<lparr>rc_clients = [], rc_senders = [], rc_connected = [], rc_terminals = tm, rc_id_map = id_map_new,
      rc_trigger_callback = None, rc_tasks = [], rc_blocked = None\<rparr>"

definition set_client_trigger_callback ::
  "(TriggerRequest \<Rightarrow> TriggerResponse) \<Rightarrow> RemoteClientManager \<Rightarrow> RemoteClientManager" where
  "set_client_trigger_callback cb m = m\<lparr>rc_trigger_callback := Some cb\<rparr>"


section \<open>Requests of the other side\<close>

definition is_server_initiated_frame :: "u8 \<Rightarrow> bool" where
  "is_server_initiated_frame t \<longleftrightarrow>
     t \<in> {INFO_REQUEST, LIST_REQUEST, NEW_TERMINAL, CLOSE_TERMINAL, SUBSCRIBE, UNSUBSCRIBE, INPUT, RESIZE,
          TRIGGER_LIST_REQUEST, TRIGGER_EXEC, TRIGGER_ADD, TRIGGER_UPDATE, TRIGGER_REMOVE}"

text \<open>A handler returns the answer, what the terminals tell others, and the state.\<close>

type_synonym answered = "Frame option \<times> notice list \<times> RemoteClientManager"

definition client_sid :: "u32 \<Rightarrow> RemoteClientManager \<Rightarrow> string option" where
  "client_sid tid m = lookup_sid tid (rc_id_map m)"

definition client_row :: "u32 \<Rightarrow> SessionInfo \<Rightarrow> json" where
  "client_row h nfo =
     JObj [(''id'', jint (uint h)), (''name'', JStr (inf_name nfo)), (''status'', JStr (inf_status nfo)),
       (''preview'', JStr (inf_preview nfo)), (''server_id'', JStr (inf_server_id nfo)),
       (''server_name'', JStr (if inf_server_id nfo = LOCAL then DESKTOP_NAME else inf_server_name nfo)),
       (''terminal_type'', JStr (inf_terminal_type nfo)), (''tmux_session_name'', jopt JStr (inf_tmux_session_name nfo))]"

fun client_rows :: "SessionInfo list \<Rightarrow> IdMap \<Rightarrow> json list \<times> IdMap" where
  "client_rows [] im = ([], im)"
| "client_rows (nfo # infs) im =
     (let (h, im1) = get_or_assign (inf_session_id nfo) im; (js, im2) = client_rows infs im1
      in (client_row h nfo # js, im2))"

definition client_list :: "remote_env \<Rightarrow> RemoteClientManager \<Rightarrow> answered" where
  "client_list env m =
     (let (js, im) = client_rows (list_session_infos (rc_terminals m)) (rc_id_map m)
      in (Some (list_response_frame 0 (json_text env (JArr js))), [], m\<lparr>rc_id_map := im\<rparr>))"

definition client_new_terminal :: "remote_env \<Rightarrow> Frame \<Rightarrow> RemoteClientManager \<Rightarrow> answered" where
  "client_new_terminal env f m =
     (case from_utf8 (payload f) of
        None \<Rightarrow> (Some (error_frame ''invalid_payload''), [], m)
      | Some p \<Rightarrow>
          (case json_of_str env p of
             Inl _ \<Rightarrow> (Some (error_frame ''invalid_json''), [], m)
           | Inr req \<Rightarrow>
               (let shell = Option.bind (json_str req ''shell'') (validate_shell env); sid = fresh_session env
                in case open_local sid (open_local_result env shell) 80 24 None (rc_terminals m) of
                     (Inl e, tm) \<Rightarrow> (Some (error_frame (''open_failed: '' @ e)), [], m\<lparr>rc_terminals := tm\<rparr>)
                   | (Inr _, tm) \<Rightarrow>
                       (let tm1 = (case json_str req ''name'' of Some n \<Rightarrow> set_session_name sid n tm | None \<Rightarrow> tm);
                            (h, im) = get_or_assign sid (rc_id_map m)
                        in (Some (ok_with_payload_frame 0 (json_text env (JObj [(''terminal_id'', jint (uint h)),
                              (''session_id'', JStr sid)]))),
                            [ListChanged, GuiOpened sid None], m\<lparr>rc_terminals := tm1, rc_id_map := im\<rparr>)))))"

definition client_close_terminal :: "u32 \<Rightarrow> RemoteClientManager \<Rightarrow> answered" where
  "client_close_terminal tid m =
     (case client_sid tid m of
        None \<Rightarrow> (Some (error_with_terminal_frame tid ''terminal_not_found''), [], m)
      | Some sid \<Rightarrow>
          (case close_remote sid (rc_terminals m) of
             (Inl _, tm, ns) \<Rightarrow> (Some (error_with_terminal_frame tid ''close_failed''), ns, m\<lparr>rc_terminals := tm\<rparr>)
           | (Inr _, tm, ns) \<Rightarrow>
               (Some (ok_frame tid), ns, m\<lparr>rc_terminals := tm, rc_id_map := id_map_remove sid (rc_id_map m)\<rparr>)))"

definition client_subscribe :: "string \<Rightarrow> u32 \<Rightarrow> RemoteClientManager \<Rightarrow> answered" where
  "client_subscribe pid tid m =
     (case client_sid tid m of
        None \<Rightarrow> (Some (error_frame ''invalid_terminal_id''), [], m)
      | Some sid \<Rightarrow>
          (case subscribe_remote sid \<lparr>pairing_id = pid, sub_terminal_id = tid, queue = [], queue_size = SUBSCRIBER_CHANNEL,
                   receiver_gone = False, lagging = False\<rparr> (rc_terminals m) of
             (Inl _, _) \<Rightarrow> (Some (error_frame ''terminal_not_found''), [], m)
           | (Inr _, tm) \<Rightarrow> (Some (ok_frame tid), [], m\<lparr>rc_terminals := tm\<rparr>)))"

definition client_unsubscribe :: "string \<Rightarrow> u32 \<Rightarrow> RemoteClientManager \<Rightarrow> answered" where
  "client_unsubscribe pid tid m =
     (case client_sid tid m of
        None \<Rightarrow> (Some (ok_frame tid), [], m)
      | Some sid \<Rightarrow>
          (let (tm, ns) = unsubscribe_remote sid pid (rc_terminals m) in (Some (ok_frame tid), ns, m\<lparr>rc_terminals := tm\<rparr>)))"

text \<open>Input and a new size get no answer, and their errors are only logged.\<close>

definition client_input :: "Frame \<Rightarrow> RemoteClientManager \<Rightarrow> answered" where
  "client_input f m =
     (case client_sid (terminal_id f) m of
        None \<Rightarrow> (None, [], m)
      | Some sid \<Rightarrow> (None, [], m\<lparr>rc_terminals := snd (input_with_ack sid (payload f) (rc_terminals m))\<rparr>))"

definition client_resize :: "Frame \<Rightarrow> RemoteClientManager \<Rightarrow> answered" where
  "client_resize f m =
     (case (client_sid (terminal_id f) m, parse_resize f) of
        (Some sid, Some (cols, rows)) \<Rightarrow>
          (None, [], m\<lparr>rc_terminals := snd (resize_terminal sid (ucast cols) (ucast rows) (rc_terminals m))\<rparr>)
      | _ \<Rightarrow> (None, [], m))"

text \<open>The payload is parsed for the identifier and, for an addition and a change, once more for the trigger.\<close>

definition client_trigger_id :: "remote_env \<Rightarrow> Frame \<Rightarrow> string + string" where
  "client_trigger_id env f =
     (if frame_type f = TRIGGER_LIST_REQUEST then Inr []
      else (case from_utf8 (payload f) of
              None \<Rightarrow> Inl (''utf8: '' @ utf8_error env (payload f))
            | Some p \<Rightarrow>
                (case json_of_str env p of
                   Inl e \<Rightarrow> Inl (''parse: '' @ e)
                 | Inr req \<Rightarrow> Inr (str_or [] (json_str req ''trigger_id'')))))"

definition client_trigger_obj :: "remote_env \<Rightarrow> Frame \<Rightarrow> json option option" where
  "client_trigger_obj env f =
     (if frame_type f = TRIGGER_ADD \<or> frame_type f = TRIGGER_UPDATE
      then (case from_utf8 (payload f) of
              None \<Rightarrow> None
            | Some p \<Rightarrow> (case json_of_str env p of Inl _ \<Rightarrow> None | Inr req \<Rightarrow> Some (json_get req ''trigger'')))
      else Some None)"

definition handle_trigger_frame_client ::
  "remote_env \<Rightarrow> Frame \<Rightarrow> (TriggerRequest \<Rightarrow> TriggerResponse) option \<Rightarrow> Frame option" where
  "handle_trigger_frame_client env f callback =
     (case trigger_action (frame_type f) of
        None \<Rightarrow> Some (error_frame ''unknown_trigger_frame'')
      | Some action \<Rightarrow>
          (case client_trigger_id env f of
             Inl e \<Rightarrow> Some (error_frame e)
           | Inr trigger_id \<Rightarrow>
               (case client_trigger_obj env f of
                  None \<Rightarrow> None
                | Some obj \<Rightarrow>
                    (case callback of
                       None \<Rightarrow> Some (error_frame ''trigger_not_configured'')
                     | Some cb \<Rightarrow>
                         (let r = cb \<lparr>tr_action = action, tr_trigger_id = trigger_id, tr_trigger = obj\<rparr>
                          in if \<not> tr_success r then
                               Some (error_frame (case tr_data r of JStr s \<Rightarrow> s | _ \<Rightarrow> ''trigger_error''))
                             else if action = ''list'' then Some (trigger_list_response_frame (json_text env (tr_data r)))
                             else if action = ''exec'' then Some (trigger_exec_result_frame (json_text env (tr_data r)))
                             else Some (ok_frame 0))))))"

definition handle_server_initiated_frame :: "remote_env \<Rightarrow> string \<Rightarrow> Frame \<Rightarrow> RemoteClientManager \<Rightarrow> answered" where
  "handle_server_initiated_frame env pid f m =
     (let t = frame_type f; tid = terminal_id f
      in if t = INFO_REQUEST then (Some (info_response_frame (json_text env (system_info env))), [], m)
         else if t = LIST_REQUEST then client_list env m
         else if t = NEW_TERMINAL then client_new_terminal env f m
         else if t = CLOSE_TERMINAL then client_close_terminal tid m
         else if t = SUBSCRIBE then client_subscribe pid tid m
         else if t = UNSUBSCRIBE then client_unsubscribe pid tid m
         else if t = INPUT then client_input f m
         else if t = RESIZE then client_resize f m
         else if t \<in> {TRIGGER_LIST_REQUEST, TRIGGER_EXEC, TRIGGER_ADD, TRIGGER_UPDATE, TRIGGER_REMOVE}
           then (handle_trigger_frame_client env f (rc_trigger_callback m), [], m)
         else (None, [], m))"

section \<open>The tasks\<close>

definition upd_task :: "nat \<Rightarrow> (ClientTask \<Rightarrow> ClientTask) \<Rightarrow> RemoteClientManager \<Rightarrow> RemoteClientManager" where
  "upd_task k g m = m\<lparr>rc_tasks := (rc_tasks m)[k := g (rc_tasks m ! k)]\<rparr>"

abbreviation set_phase :: "nat \<Rightarrow> client_phase \<Rightarrow> RemoteClientManager \<Rightarrow> RemoteClientManager" where
  "set_phase k p \<equiv> upd_task k (\<lambda>t. t\<lparr>ct_phase := p\<rparr>)"

definition task_pairing :: "nat \<Rightarrow> RemoteClientManager \<Rightarrow> string" where
  "task_pairing k m = cc_pairing_id (ct_config (rc_tasks m ! k))"

text \<open>The receiver of a task's channel goes: what waits in it is lost, and who waited for room gets an error.\<close>

definition drop_receiver :: "nat \<Rightarrow> RemoteClientManager \<Rightarrow> RemoteClientManager" where
  "drop_receiver k m =
     (let m1 = upd_task k (\<lambda>t. t\<lparr>ct_queue := []\<rparr>) m
      in case rc_blocked m of Some (j, _) \<Rightarrow> if j = k then m1\<lparr>rc_blocked := None\<rparr> else m1 | None \<Rightarrow> m1)"

definition takes_frames :: "ClientTask \<Rightarrow> bool" where
  "takes_frames t \<longleftrightarrow> ct_phase t \<noteq> Leaving \<and> ct_phase t \<noteq> Finished \<and> ct_phase t \<noteq> Aborted"

text \<open>The loop around a connection: a clean end is followed by a rest of one second.\<close>

definition client_verdict :: "string + unit \<Rightarrow> nat \<Rightarrow> (nat \<times> nat) option" where
  "client_verdict r b =
     (case r of
        Inr _ \<Rightarrow> Some (1, 1)
      | Inl e \<Rightarrow> if gives_up e then None else Some (b, next_backoff b))"

definition disconnected :: "string \<Rightarrow> RemoteClientManager \<Rightarrow> RemoteClientManager" where
  "disconnected pid m = m\<lparr>rc_connected := removeAll pid (rc_connected m)\<rparr>"

definition client_returned :: "string + unit \<Rightarrow> nat \<Rightarrow> RemoteClientManager \<Rightarrow> RemoteClientManager" where
  "client_returned r k m =
     (let pid = task_pairing k m
      in case client_verdict r (ct_backoff (rc_tasks m ! k)) of
           None \<Rightarrow> drop_receiver k (set_phase k Leaving (disconnected pid m))
         | Some (p, b) \<Rightarrow>
             upd_task k (\<lambda>t. t\<lparr>ct_phase := Resting p, ct_backoff := b\<rparr>) (if isl r then m else disconnected pid m))"

section \<open>One connection\<close>

datatype client_effect =
    Wire ws_item
  | FrameCb string u8 u32 bytes
  | StateCb string bool
  | Told notice

datatype client_event =
    SocketOpened "string + unit" "string + unit"
  | Arrived ws_event
  | PeerDeadline
  | TakeOutbound
  | TakeAsync
  | RestOver
  | Leave

definition connect_text :: "remote_env \<Rightarrow> string \<Rightarrow> string" where
  "connect_text env pid = json_text env (JObj [(''type'', JStr ''connect''), (''pairing_id'', JStr pid)])"

text \<open>The request is built, the socket opened and the first message sent; nothing maps a refused token.\<close>

definition client_connect ::
  "remote_env \<Rightarrow> string + unit \<Rightarrow> string + unit \<Rightarrow> string + unit \<Rightarrow> nat \<Rightarrow> RemoteClientManager \<Rightarrow>
   client_effect list \<times> RemoteClientManager" where
  "client_connect env build conn wr k m =
     (case build of
        Inl e \<Rightarrow> ([], client_returned (Inl (''build request: '' @ e)) k m)
      | Inr _ \<Rightarrow>
          (case conn of
             Inl e \<Rightarrow> ([], client_returned (Inl (''ws connect: '' @ e)) k m)
           | Inr _ \<Rightarrow>
               (case wr of
                  Inl e \<Rightarrow> ([], client_returned (Inl (''send connect: '' @ e)) k m)
                | Inr _ \<Rightarrow> ([Wire (WsText (connect_text env (task_pairing k m)))], set_phase k AwaitingPeer m))))"

definition client_sends_hello ::
  "crypto \<Rightarrow> string + unit \<Rightarrow> bytes \<Rightarrow> nat \<Rightarrow> RemoteClientManager \<Rightarrow> client_effect list \<times> RemoteClientManager" where
  "client_sends_hello cr wr random k m =
     (case client_hello cr (cc_pairing_key (ct_config (rc_tasks m ! k))) random of
        Inl e \<Rightarrow> ([], client_returned (Inl e) k m)
      | Inr enc \<Rightarrow>
          (case wr of
             Inl e \<Rightarrow> ([], client_returned (Inl (''send HELLO: '' @ e)) k m)
           | Inr _ \<Rightarrow> ([Wire (WsBinary enc)], set_phase k (AwaitingHello random) m)))"

definition client_waits_peer ::
  "crypto \<Rightarrow> remote_env \<Rightarrow> string + unit \<Rightarrow> bytes \<Rightarrow> nat \<Rightarrow> client_event \<Rightarrow> RemoteClientManager \<Rightarrow>
   client_effect list \<times> RemoteClientManager" where
  "client_waits_peer cr env wr random k e m =
     (case e of
        PeerDeadline \<Rightarrow> ([], client_returned (Inl ''peer_connected timeout (60s)'') k m)
      | Arrived (WsItem (WsText s)) \<Rightarrow>
          (case parse_control_message env s of
             PeerConnected \<Rightarrow> client_sends_hello cr wr random k m
           | PeerTimeout \<Rightarrow> ([], client_returned (Inl ''peer timeout'') k m)
           | ControlError msg \<Rightarrow> ([], client_returned (Inl (''FATAL: connect rejected: '' @ msg)) k m)
           | _ \<Rightarrow> ([], m))
      | Arrived (WsError err) \<Rightarrow> ([], client_returned (Inl (''ws wait: '' @ err)) k m)
      | Arrived WsEnd \<Rightarrow> ([], client_returned (Inl ''ws closed during wait'') k m)
      | _ \<Rightarrow> ([], m))"

text \<open>The answer to HELLO is waited for without a deadline.\<close>

definition client_waits_hello ::
  "crypto \<Rightarrow> remote_env \<Rightarrow> bytes \<Rightarrow> nat \<Rightarrow> client_event \<Rightarrow> RemoteClientManager \<Rightarrow> client_effect list \<times> RemoteClientManager" where
  "client_waits_hello cr env random k e m =
     (case e of
        Arrived (WsItem (WsBinary data)) \<Rightarrow>
          (case client_finish cr (cc_pairing_key (ct_config (rc_tasks m ! k))) random data of
             Inl err \<Rightarrow> ([], client_returned (Inl err) k m)
           | Inr (snd_c, rcv_c) \<Rightarrow>
               ([StateCb (task_pairing k m) True],
                upd_task k (\<lambda>t. t\<lparr>ct_phase := Bridging snd_c rcv_c, ct_async := []\<rparr>)
                  (m\<lparr>rc_connected := List.insert (task_pairing k m) (rc_connected m)\<rparr>)))
      | Arrived (WsItem (WsText s)) \<Rightarrow>
          (if parse_control_message env s = PeerDisconnected
           then ([], client_returned (Inl ''peer disconnected during HELLO'') k m) else ([], m))
      | Arrived (WsError err) \<Rightarrow> ([], client_returned (Inl (''ws read HELLO: '' @ err)) k m)
      | Arrived WsEnd \<Rightarrow> ([], client_returned (Inl ''ws closed during HELLO'') k m)
      | _ \<Rightarrow> ([], m))"

text \<open>The end of the bridge: the subscribers of the pairing go, the window is told, and the end counts as clean.\<close>

definition end_bridge :: "nat \<Rightarrow> RemoteClientManager \<Rightarrow> client_effect list \<times> RemoteClientManager" where
  "end_bridge k m =
     (let pid = task_pairing k m
      in ([StateCb pid False],
          client_returned (Inr ()) k (upd_task k (\<lambda>t. t\<lparr>ct_async := []\<rparr>)
            (m\<lparr>rc_terminals := remove_remote_subscribers pid (rc_terminals m)\<rparr>))))"

text \<open>Encrypting and writing one frame; the bridge ends when either fails.\<close>

definition bridge_send ::
  "crypto \<Rightarrow> string + unit \<Rightarrow> Frame \<Rightarrow> FrameCipher \<Rightarrow> FrameCipher \<Rightarrow> nat \<Rightarrow> RemoteClientManager \<Rightarrow>
   bool \<times> client_effect list \<times> RemoteClientManager" where
  "bridge_send cr wr f snd_c rcv_c k m =
     (case encrypt cr (serialize f) snd_c of
        (Inl _, c) \<Rightarrow> (False, end_bridge k (set_phase k (Bridging c rcv_c) m))
      | (Inr out, c) \<Rightarrow>
          (let m1 = set_phase k (Bridging c rcv_c) m
           in if isl wr then (False, end_bridge k m1) else (True, [Wire (WsBinary out)], m1)))"

definition bridge_frame ::
  "crypto \<Rightarrow> remote_env \<Rightarrow> string + unit \<Rightarrow> Frame \<Rightarrow> FrameCipher \<Rightarrow> FrameCipher \<Rightarrow> nat \<Rightarrow> RemoteClientManager \<Rightarrow>
   client_effect list \<times> RemoteClientManager" where
  "bridge_frame cr env wr f snd_c rcv_c k m =
     (let pid = task_pairing k m;
          (answer, ns, m1) = handle_server_initiated_frame env pid f m;
          (ok, es, m2) = (case answer of Some r \<Rightarrow> bridge_send cr wr r snd_c rcv_c k m1 | None \<Rightarrow> (True, [], m1))
      in (map Told ns @ es @
          (if ok \<and> \<not> is_server_initiated_frame (frame_type f)
           then [FrameCb pid (frame_type f) (terminal_id f) (payload f)] else []), m2))"

text \<open>A request is taken from the channel; the one that waited for room moves in.\<close>

definition take_request :: "nat \<Rightarrow> OutboundFrame list \<Rightarrow> RemoteClientManager \<Rightarrow> RemoteClientManager" where
  "take_request k q m =
     (case rc_blocked m of
        Some (j, g) \<Rightarrow>
          if j = k then upd_task k (\<lambda>t. t\<lparr>ct_queue := q @ [g]\<rparr>) (m\<lparr>rc_blocked := None\<rparr>)
          else upd_task k (\<lambda>t. t\<lparr>ct_queue := q\<rparr>) m
      | None \<Rightarrow> upd_task k (\<lambda>t. t\<lparr>ct_queue := q\<rparr>) m)"

definition client_bridges ::
  "crypto \<Rightarrow> remote_env \<Rightarrow> string + unit \<Rightarrow> FrameCipher \<Rightarrow> FrameCipher \<Rightarrow> nat \<Rightarrow> client_event \<Rightarrow> RemoteClientManager \<Rightarrow>
   client_effect list \<times> RemoteClientManager" where
  "client_bridges cr env wr snd_c rcv_c k e m =
     (case e of
        Arrived (WsItem (WsText s)) \<Rightarrow>
          (if parse_control_message env s = PeerDisconnected \<or> parse_control_message env s = PeerTimeout
           then end_bridge k m else ([], m))
      | Arrived (WsItem (WsBinary data)) \<Rightarrow>
          (case decrypt cr rcv_c data of
             Inl _ \<Rightarrow> end_bridge k m
           | Inr plain \<Rightarrow>
               (case deserialize plain of Inl _ \<Rightarrow> end_bridge k m | Inr f \<Rightarrow> bridge_frame cr env wr f snd_c rcv_c k m))
      | Arrived (WsItem WsOther) \<Rightarrow> ([], m)
      | Arrived _ \<Rightarrow> end_bridge k m
      | TakeOutbound \<Rightarrow>
          (case ct_queue (rc_tasks m ! k) of
             o' # q \<Rightarrow> snd (bridge_send cr wr (outbound_frame env o') snd_c rcv_c k (take_request k q m))
           | [] \<Rightarrow> if hm_get (rc_senders m) (task_pairing k m) = Some k then ([], m) else end_bridge k m)
      | TakeAsync \<Rightarrow>
          (case ct_async (rc_tasks m ! k) of
             [] \<Rightarrow> ([], m)
           | f # fs \<Rightarrow> snd (bridge_send cr wr f snd_c rcv_c k (upd_task k (\<lambda>t. t\<lparr>ct_async := fs\<rparr>) m)))
      | _ \<Rightarrow> ([], m))"

text \<open>A step of a task: \<open>wr\<close> is the outcome of a write and \<open>random\<close> what the generator returns in this step.\<close>

definition client_step ::
  "crypto \<Rightarrow> remote_env \<Rightarrow> string + unit \<Rightarrow> bytes \<Rightarrow> nat \<Rightarrow> client_event \<Rightarrow> RemoteClientManager \<Rightarrow>
   client_effect list \<times> RemoteClientManager" where
  "client_step cr env wr random k e m =
     (if length (rc_tasks m) \<le> k then ([], m)
      else (case ct_phase (rc_tasks m ! k) of
        Connecting \<Rightarrow> (case e of SocketOpened build conn \<Rightarrow> client_connect env build conn wr k m | _ \<Rightarrow> ([], m))
      | AwaitingPeer \<Rightarrow> client_waits_peer cr env wr random k e m
      | AwaitingHello r \<Rightarrow> client_waits_hello cr env r k e m
      | Bridging snd_c rcv_c \<Rightarrow> client_bridges cr env wr snd_c rcv_c k e m
      | Resting p \<Rightarrow> if e = RestOver then ([], set_phase k Connecting m) else ([], m)
      | Leaving \<Rightarrow>
          if e = Leave \<and> rc_blocked m = None
          then ([], set_phase k Finished (m\<lparr>rc_senders := hm_remove (task_pairing k m) (rc_senders m)\<rparr>)) else ([], m)
      | Finished \<Rightarrow> ([], m)
      | Aborted \<Rightarrow> ([], m)))"

text \<open>The task behind a subscription carries its frames to the channel of the connection, and ends with it.\<close>

definition client_forward_frame :: "nat \<Rightarrow> string \<Rightarrow> nat \<Rightarrow> RemoteClientManager \<Rightarrow> RemoteClientManager" where
  "client_forward_frame k sid i m =
     (case hm_get (sessions (rc_terminals m)) sid of
        None \<Rightarrow> m
      | Some s \<Rightarrow>
          if length (remote_subscribers s) \<le> i \<or> pairing_id (remote_subscribers s ! i) \<noteq> task_pairing k m then m
          else (let sub = remote_subscribers s ! i; t = rc_tasks m ! k;
                    put = (\<lambda>sub. m\<lparr>rc_terminals := upd_session sid
                       (\<lambda>s. s\<lparr>remote_subscribers := (remote_subscribers s)[i := sub]\<rparr>) (rc_terminals m)\<rparr>)
                in case queue sub of
                     [] \<Rightarrow> m
                   | f # q \<Rightarrow>
                       (case ct_phase t of
                          Bridging _ _ \<Rightarrow>
                            if length (ct_async t) < CHANNEL_SIZE
                            then upd_task k (\<lambda>t. t\<lparr>ct_async := ct_async t @ [f]\<rparr>) (put (sub\<lparr>queue := q\<rparr>)) else m
                        | _ \<Rightarrow> put (sub\<lparr>queue := q, receiver_gone := True\<rparr>))))"

section \<open>The manager\<close>

text \<open>
  An abort takes effect at once, except on a task that has just left its loop (\<open>late\<close>): that one
  still takes its sender from the table.
\<close>

definition abort_client :: "bool \<Rightarrow> string \<Rightarrow> RemoteClientManager \<Rightarrow> RemoteClientManager" where
  "abort_client late pid m =
     (case hm_get (rc_clients m) pid of
        None \<Rightarrow> m
      | Some k \<Rightarrow>
          (let m1 = m\<lparr>rc_clients := hm_remove pid (rc_clients m)\<rparr>
           in if ct_phase (rc_tasks m ! k) = Finished \<or> ct_phase (rc_tasks m ! k) = Leaving \<and> late then m1
              else drop_receiver k (set_phase k Aborted m1)))"

definition forget_client :: "string \<Rightarrow> RemoteClientManager \<Rightarrow> RemoteClientManager" where
  "forget_client pid m = disconnected pid (m\<lparr>rc_senders := hm_remove pid (rc_senders m)\<rparr>)"

text \<open>The flag says that the operation came to its end; otherwise it waits for the lock of the channels.\<close>

definition stop_client :: "bool \<Rightarrow> string \<Rightarrow> RemoteClientManager \<Rightarrow> bool \<times> RemoteClientManager" where
  "stop_client late pid m =
     (let m1 = abort_client late pid m
      in if rc_blocked m1 = None then (True, forget_client pid m1) else (False, m1))"

definition start_client :: "bool \<Rightarrow> RemoteClientConfig \<Rightarrow> RemoteClientManager \<Rightarrow> bool \<times> RemoteClientManager" where
  "start_client late cfg m =
     (let pid = cc_pairing_id cfg; (ended, m1) = stop_client late pid m; k = length (rc_tasks m1)
      in if \<not> ended then (False, m1)
         else (True, m1\<lparr>rc_senders := hm_insert pid k (rc_senders m1),
                rc_tasks := rc_tasks m1 @ [\<lparr>ct_config = cfg, ct_phase = Connecting, ct_backoff = 1, ct_queue = [], ct_async = []\<rparr>],
                rc_clients := hm_insert pid k (rc_clients m1)\<rparr>))"

datatype send_result = SendOk | SendError string | WaitsForRoom | WaitsForLock

definition client_send :: "string \<Rightarrow> OutboundFrame \<Rightarrow> RemoteClientManager \<Rightarrow> send_result \<times> RemoteClientManager" where
  "client_send pid f m =
     (if rc_blocked m \<noteq> None then (WaitsForLock, m)
      else (case hm_get (rc_senders m) pid of
              None \<Rightarrow> (SendError (''no remote client for pairing_id='' @ pid), m)
            | Some k \<Rightarrow>
                if \<not> takes_frames (rc_tasks m ! k) then (SendError ''send: channel closed'', m)
                else if length (ct_queue (rc_tasks m ! k)) < CHANNEL_SIZE
                  then (SendOk, upd_task k (\<lambda>t. t\<lparr>ct_queue := ct_queue t @ [f]\<rparr>) m)
                else (WaitsForRoom, m\<lparr>rc_blocked := Some (k, f)\<rparr>)))"

text \<open>At shutdown every task is aborted and the channels are cleared; the set of connected pairings stays.\<close>

definition stop_all_clients :: "RemoteClientManager \<Rightarrow> bool \<times> RemoteClientManager" where
  "stop_all_clients m =
     (let m1 = fold (\<lambda>pid. abort_client False pid) (hm_keys (rc_clients m)) m
      in if rc_blocked m1 = None then (True, m1\<lparr>rc_senders := []\<rparr>) else (False, m1))"


section \<open>A task touches only its own pairing\<close>

definition touches :: "nat \<Rightarrow> RemoteClientManager \<Rightarrow> RemoteClientManager \<Rightarrow> bool" where
  "touches k m m' \<longleftrightarrow>
     rc_clients m' = rc_clients m \<and> length (rc_tasks m') = length (rc_tasks m) \<and>
     (\<forall>j. j \<noteq> k \<longrightarrow> rc_tasks m' ! j = rc_tasks m ! j) \<and>
     ct_config (rc_tasks m' ! k) = ct_config (rc_tasks m ! k) \<and>
     (\<forall>p. p \<noteq> task_pairing k m \<longrightarrow> (p \<in> set (rc_connected m') \<longleftrightarrow> p \<in> set (rc_connected m)) \<and>
        hm_get (rc_senders m') p = hm_get (rc_senders m) p) \<and>
     (hm_get (rc_senders m) (task_pairing k m) = None \<longrightarrow> hm_get (rc_senders m') (task_pairing k m) = None) \<and>
     (rc_blocked m = None \<longrightarrow> rc_blocked m' = None) \<and>
     (\<forall>j g. rc_blocked m = Some (j, g) \<longrightarrow> j \<noteq> k \<longrightarrow> rc_blocked m' = Some (j, g))"

lemma touches_refl [intro, simp]: "touches k m m"
  by (simp add: touches_def)

lemma touches_pairing: "touches k m m' \<Longrightarrow> task_pairing j m' = task_pairing j m"
  unfolding touches_def task_pairing_def by metis

lemma touches_trans: "touches k m m1 \<Longrightarrow> touches k m1 m2 \<Longrightarrow> touches k m m2"
  using touches_pairing [of k m m1 k] unfolding touches_def by auto

lemma touches_one: "(\<And>t. ct_config (g t) = ct_config t) \<Longrightarrow> touches k m (upd_task k g m)"
  by (cases "k < length (rc_tasks m)") (auto simp: touches_def upd_task_def task_pairing_def not_less list_update_beyond)

lemma touches_upd: "(\<And>t. ct_config (g t) = ct_config t) \<Longrightarrow> touches k m m1 \<Longrightarrow> touches k m (upd_task k g m1)"
  by (blast intro: touches_trans touches_one)

lemma touches_terminals: "touches k m m1 \<Longrightarrow> touches k m (m1\<lparr>rc_terminals := tm\<rparr>)"
  by (erule touches_trans) (auto simp: touches_def)

lemma touches_id_map: "touches k m m1 \<Longrightarrow> touches k m (m1\<lparr>rc_id_map := im\<rparr>)"
  by (erule touches_trans) (auto simp: touches_def)

lemma touches_disconnected: "touches k m m1 \<Longrightarrow> touches k m (disconnected (task_pairing k m) m1)"
  using touches_pairing [of k m m1 k] by (auto simp: touches_def disconnected_def)

lemma touches_drop: "touches k m m1 \<Longrightarrow> touches k m (drop_receiver k m1)"
proof (erule touches_trans)
  have "touches k m1 (upd_task k (\<lambda>t. t\<lparr>ct_queue := []\<rparr>) m1)" by (rule touches_upd) simp_all
  then show "touches k m1 (drop_receiver k m1)"
    by (auto simp: drop_receiver_def Let_def touches_def task_pairing_def upd_task_def split: option.split)
qed

lemmas touches_intros = touches_upd touches_terminals touches_id_map touches_disconnected touches_drop

lemma touches_returned: "touches k m m1 \<Longrightarrow> touches k m (client_returned r k m1)"
  using touches_pairing [of k m m1 k]
  by (auto simp: client_returned_def Let_def split: option.split prod.split intro!: touches_intros)

lemma touches_end_bridge: "touches k m m1 \<Longrightarrow> touches k m (snd (end_bridge k m1))"
  by (auto simp: end_bridge_def Let_def intro!: touches_returned touches_intros)

lemma touches_bridge_send: "touches k m m1 \<Longrightarrow> touches k m (snd (snd (bridge_send cr wr f a b k m1)))"
  by (auto simp: bridge_send_def Let_def split: prod.split sum.split intro!: touches_end_bridge touches_intros)

text \<open>The handlers change the terminals and the handles and nothing else.\<close>

definition same_clients :: "RemoteClientManager \<Rightarrow> RemoteClientManager \<Rightarrow> bool" where
  "same_clients m m' \<longleftrightarrow> m' = m\<lparr>rc_terminals := rc_terminals m', rc_id_map := rc_id_map m'\<rparr>"

lemma handlers_same:
  "same_clients m (snd (snd (client_list env m)))" "same_clients m (snd (snd (client_new_terminal env f m)))"
  "same_clients m (snd (snd (client_close_terminal tid m)))" "same_clients m (snd (snd (client_subscribe pid tid m)))"
  "same_clients m (snd (snd (client_unsubscribe pid tid m)))" "same_clients m (snd (snd (client_input f m)))"
  "same_clients m (snd (snd (client_resize f m)))"
  by (simp_all add: same_clients_def client_list_def client_new_terminal_def client_close_terminal_def client_subscribe_def
      client_unsubscribe_def client_input_def client_resize_def Let_def split: prod.split option.split sum.split)

lemma handler_same: "same_clients m (snd (snd (handle_server_initiated_frame env pid f m)))"
proof -
  have "same_clients m m" by (simp add: same_clients_def)
  then show ?thesis unfolding handle_server_initiated_frame_def Let_def by (simp add: handlers_same)
qed

lemma handler_touches:
  assumes "touches k m m1"
  shows "touches k m (snd (snd (handle_server_initiated_frame env pid f m1)))"
proof -
  have "touches k m (m1\<lparr>rc_terminals := tm, rc_id_map := im\<rparr>)" for tm im
    by (rule touches_id_map [OF touches_terminals [OF assms]])
  then show ?thesis using handler_same [of m1 env pid f] unfolding same_clients_def by metis
qed

lemma touches_bridge_frame:
  assumes "touches k m m1"
  shows "touches k m (snd (bridge_frame cr env wr f a b k m1))"
proof -
  obtain answer ns m2 where h: "handle_server_initiated_frame env (task_pairing k m1) f m1 = (answer, ns, m2)"
    by (metis prod_cases3)
  have "touches k m m2" using handler_touches [OF assms, of env "task_pairing k m1" f] by (simp add: h)
  moreover from this have "touches k m (snd (snd (bridge_send cr wr r a b k m2)))" for r by (rule touches_bridge_send)
  ultimately show ?thesis
    by (cases answer) (simp_all add: bridge_frame_def h split: prod.split, metis snd_conv)
qed

lemma touches_take: "touches k m (take_request k q m)"
proof -
  have "touches k m (upd_task k (\<lambda>t. t\<lparr>ct_queue := q'\<rparr>) m)" for q' by (rule touches_upd) simp_all
  then show ?thesis
    by (auto simp: take_request_def touches_def task_pairing_def upd_task_def split: option.split)
qed

lemma touches_connect:
  "touches k m (snd (client_connect env build conn wr k m))"
  by (auto simp: client_connect_def split: sum.split intro!: touches_returned touches_intros)

lemma touches_waits_peer: "touches k m (snd (client_waits_peer cr env wr random k e m))"
  by (auto simp: client_waits_peer_def client_sends_hello_def
      split: client_event.split ws_event.split ws_item.split ControlMessage.split sum.split
      intro!: touches_returned touches_intros)

lemma touches_waits_hello: "touches k m (snd (client_waits_hello cr env random k e m))"
  by (auto simp: client_waits_hello_def split: client_event.split ws_event.split ws_item.split sum.split
      intro!: touches_returned touches_upd) (simp add: touches_def)

lemma touches_bridges: "touches k m (snd (client_bridges cr env wr a b k e m))"
  by (auto simp: client_bridges_def split: client_event.split ws_event.split ws_item.split sum.split list.split
      intro!: touches_end_bridge touches_bridge_frame touches_bridge_send touches_take touches_upd)

lemma client_step_touches: "touches k m (snd (client_step cr env wr random k e m))"
  by (auto simp: client_step_def touches_connect touches_waits_peer touches_waits_hello touches_bridges
      split: client_phase.split client_event.split intro!: touches_intros)
    (auto simp: touches_def hm_simps)


section \<open>Runs of the manager\<close>

text \<open>
  Operations of the desktop and steps of the tasks in any order.  A step's effects are marked with
  the pairing of its task.
\<close>

datatype client_op =
    Step "string + unit" bytes nat client_event
  | Forward nat string nat
  | Start bool RemoteClientConfig
  | Stop bool string
  | StopAll
  | SendRequest string OutboundFrame

fun client_op_step ::
  "crypto \<Rightarrow> remote_env \<Rightarrow> RemoteClientManager \<Rightarrow> client_op \<Rightarrow> (string \<times> client_effect) list \<times> RemoteClientManager" where
  "client_op_step cr env m (Step wr random k e) =
     (let (es, m') = client_step cr env wr random k e m in (map (Pair (task_pairing k m)) es, m'))"
| "client_op_step cr env m (Forward k sid i) = ([], client_forward_frame k sid i m)"
| "client_op_step cr env m (Start late cfg) = ([], snd (start_client late cfg m))"
| "client_op_step cr env m (Stop late pid) = ([], snd (stop_client late pid m))"
| "client_op_step cr env m StopAll = ([], snd (stop_all_clients m))"
| "client_op_step cr env m (SendRequest pid f) = ([], snd (client_send pid f m))"

fun client_run ::
  "crypto \<Rightarrow> remote_env \<Rightarrow> client_op list \<Rightarrow> RemoteClientManager \<Rightarrow> (string \<times> client_effect) list \<times> RemoteClientManager" where
  "client_run cr env [] m = ([], m)"
| "client_run cr env (x # xs) m =
     (let (es, m1) = client_op_step cr env m x; (es', m2) = client_run cr env xs m1 in (es @ es', m2))"










text \<open>What an abort does: the pairing's task takes nothing more, and nobody else's task changes.\<close>

lemma drop_receiver_tasks:
  "rc_tasks (drop_receiver k m) = rc_tasks (upd_task k (\<lambda>t. t\<lparr>ct_queue := []\<rparr>) m)"
  "rc_clients (drop_receiver k m) = rc_clients m" "rc_senders (drop_receiver k m) = rc_senders m"
  "rc_connected (drop_receiver k m) = rc_connected m"
  by (auto simp: drop_receiver_def Let_def upd_task_def split: option.split)

lemma abort_cases:
  assumes "abort_client late pid m = m'" "hm_get (rc_clients m) pid = Some k"
  shows "rc_clients m' = hm_remove pid (rc_clients m)" "length (rc_tasks m') = length (rc_tasks m)"
    "j \<noteq> k \<Longrightarrow> rc_tasks m' ! j = rc_tasks m ! j" "k < length (rc_tasks m) \<Longrightarrow> \<not> takes_frames (rc_tasks m' ! k)"
    "task_pairing j m' = task_pairing j m" "rc_senders m' = rc_senders m" "rc_connected m' = rc_connected m"
  using assms(1)
  by (auto simp: abort_client_def assms(2) Let_def drop_receiver_tasks upd_task_def takes_frames_def task_pairing_def
      nth_list_update list_update_beyond not_less split: if_splits)
    (cases "k < length (rc_tasks m)"; auto simp: nth_list_update list_update_beyond not_less)+
















lemma abort_others: "rc_senders (abort_client late p m) = rc_senders m" "rc_connected (abort_client late p m) = rc_connected m"
  using abort_cases(6,7) [OF refl, where m = m and pid = p and late = late]
  by (cases "hm_get (rc_clients m) p"; simp add: abort_client_def)+










definition sample_client :: RemoteClientConfig where
  "sample_client = \<lparr>cc_relay_url = ''wss://relay/tunnel'', cc_pairing_jwt = ''token'', cc_pairing_id = ''p1'', cc_pairing_key = [1, 2]\<rparr>"


section \<open>A full channel holds the lock\<close>

text \<open>Operations and steps that do not free the channel of task \<open>k\<close>.\<close>

fun leaves_task :: "nat \<Rightarrow> client_op \<Rightarrow> bool" where
  "leaves_task k (Step wr random j e) \<longleftrightarrow> j \<noteq> k"
| "leaves_task k (Forward j sid i) \<longleftrightarrow> True"
| "leaves_task k (SendRequest pid f) \<longleftrightarrow> True"
| "leaves_task k _ \<longleftrightarrow> False"

lemma blocked_op:
  assumes "rc_blocked m = Some (k, g)" "leaves_task k x"
  shows "rc_blocked (snd (client_op_step cr env m x)) = Some (k, g)"
proof (cases x)
  case (Step wr random j e)
  then show ?thesis using assms client_step_touches [of j m cr env wr random e] by (simp add: split_def Let_def touches_def)
next
  case (Forward j sid i)
  then show ?thesis using assms(1)
    by (simp add: client_forward_frame_def upd_task_def Let_def split: option.split list.split client_phase.split)
qed (use assms in \<open>auto simp: client_send_def\<close>)

lemma blocked_run:
  "rc_blocked m = Some (k, g) \<Longrightarrow> \<forall>x \<in> set xs. leaves_task k x \<Longrightarrow> rc_blocked (snd (client_run cr env xs m)) = Some (k, g)"
  by (induction xs arbitrary: m) (simp_all add: blocked_op split_def Let_def)

lemma abort_other_blocked:
  assumes "rc_blocked m = Some (k, g)" "hm_get (rc_clients m) pid \<noteq> Some k"
  shows "rc_blocked (abort_client late pid m) = Some (k, g)"
  using assms by (auto simp: abort_client_def drop_receiver_def upd_task_def Let_def split: option.split)

text \<open>
  One peer that takes nothing stops the requests to all others.  When the channel of a pairing is
  full (its task is connecting, waits for the peer, or rests), one more request for it keeps the
  lock of the channels: from then on, whatever the other tasks do and whatever is asked for, a
  request for any pairing waits, and no other pairing can be stopped or started.
\<close>

theorem full_channel_blocks_everyone:
  assumes "rc_blocked m = None" "hm_get (rc_senders m) pid = Some k" "takes_frames (rc_tasks m ! k)"
    and "length (ct_queue (rc_tasks m ! k)) = CHANNEL_SIZE"
    and "client_send pid f m = (r, m1)" "\<forall>x \<in> set xs. leaves_task k x" "client_run cr env xs m1 = (es, m2)"
  shows "r = WaitsForRoom \<and> client_send p' f' m2 = (WaitsForLock, m2)
    \<and> (hm_get (rc_clients m2) p' \<noteq> Some k \<longrightarrow> \<not> fst (stop_client late p' m2))
    \<and> (hm_get (rc_clients m2) (cc_pairing_id cfg) \<noteq> Some k \<longrightarrow> \<not> fst (start_client late cfg m2))"
proof -
  have "r = WaitsForRoom \<and> rc_blocked m1 = Some (k, f)"
    using assms(1-5) by (auto simp: client_send_def)
  moreover from this have "rc_blocked m2 = Some (k, f)"
    using blocked_run [of m1 k f xs cr env] assms(6,7) by simp
  ultimately show ?thesis
    using abort_other_blocked [of m2 k f]
    by (simp add: client_send_def stop_client_def start_client_def Let_def)
qed

lemma full_channel_blocks_everyone_witness:
  "\<exists>m. takes_frames (rc_tasks m ! 0) \<and> fst (client_send ''p1'' OutList m) = WaitsForRoom
     \<and> fst (client_send ''p2'' OutList (snd (client_send ''p1'' OutList m))) = WaitsForLock
     \<and> \<not> fst (stop_client False ''p2'' (snd (client_send ''p1'' OutList m)))"
proof -
  let ?t = "\<lparr>ct_config = sample_client, ct_phase = AwaitingPeer, ct_backoff = 1, ct_queue = replicate 256 OutList, ct_async = []\<rparr>"
  let ?m = "(remote_clients_new terminals_new)\<lparr>rc_clients := [(''p1'', 0)], rc_senders := [(''p1'', 0)], rc_tasks := [?t]\<rparr>"
  have m: "rc_blocked ?m = None" "hm_get (rc_senders ?m) ''p1'' = Some 0" "takes_frames (rc_tasks ?m ! 0)"
    "length (ct_queue (rc_tasks ?m ! 0)) = CHANNEL_SIZE"
    by (simp_all add: remote_clients_new_def takes_frames_def hm_get_def CHANNEL_SIZE_def)
  obtain r m1 where s: "client_send ''p1'' OutList ?m = (r, m1)" by fastforce
  from s m have "rc_clients m1 = [(''p1'', 0)]" by (auto simp: client_send_def)
  then have "hm_get (rc_clients m1) ''p2'' \<noteq> Some 0" by (simp add: hm_get_def)
  moreover have "client_run toy_crypto sample_env [] m1 = ([], m1)" by simp
  ultimately show ?thesis
    using full_channel_blocks_everyone [OF m s _ \<open>client_run toy_crypto sample_env [] m1 = ([], m1)\<close>, of "''p2''" OutList False] s m(3)
    by (metis empty_iff empty_set fst_conv snd_conv)
qed

section \<open>Both sides handle triggers alike\<close>

text \<open>
  C23. The client's handler of trigger frames agrees with the server's: for every frame, payload and
  callback it answers what the handler of the remote server answers with the same callback, although
  it parses the payload twice, and it always answers.
\<close>

theorem triggers_alike_on_both_sides:
  "\<exists>r. handle_trigger_frame_client env f callback = Some r
     \<and> handle_trigger_frame (env\<lparr>trigger_callback := callback\<rparr>) f rs = reply r rs"
proof (cases "trigger_action (frame_type f)")
  case None
  then show ?thesis by (simp add: handle_trigger_frame_client_def handle_trigger_frame_def)
next
  case (Some action)
  have kinds: "action = ''list'' \<longleftrightarrow> frame_type f = TRIGGER_LIST_REQUEST"
    "action = ''add'' \<or> action = ''update'' \<longleftrightarrow> frame_type f = TRIGGER_ADD \<or> frame_type f = TRIGGER_UPDATE"
    using Some by (auto simp: trigger_action_def frame_types split: if_splits)
  have none: "client_trigger_id env f = Inr i \<Longrightarrow> client_trigger_obj env f \<noteq> None" for i
    using kinds by (auto simp: client_trigger_id_def client_trigger_obj_def trigger_action_def frame_types
        split: if_splits option.splits sum.splits)
  define env' where "env' = env\<lparr>trigger_callback := callback\<rparr>"
  have env': "trigger_callback env' = callback" "json_text env' = json_text env" by (simp_all add: env'_def)
  have request: "trigger_request env' action f =
      (case client_trigger_id env f of
         Inl e \<Rightarrow> Inl e
       | Inr i \<Rightarrow> Inr \<lparr>tr_action = action, tr_trigger_id = i, tr_trigger = the (client_trigger_obj env f)\<rparr>)"
    unfolding trigger_request_def client_trigger_id_def client_trigger_obj_def kinds env'_def
    by (simp add: frame_types split: option.split sum.split)
  have "\<exists>r. handle_trigger_frame_client env f callback = Some r \<and> handle_trigger_frame env' f rs = reply r rs"
  proof (cases "client_trigger_id env f")
    case (Inl e)
    then show ?thesis
      by (simp add: handle_trigger_frame_client_def handle_trigger_frame_def Some request env')
  next
    case (Inr i)
    then obtain obj where obj: "client_trigger_obj env f = Some obj" using none by blast
    show ?thesis
      by (cases callback)
        (simp_all add: handle_trigger_frame_client_def handle_trigger_frame_def Some request env' Inr obj Let_def)
  qed
  then show ?thesis by (simp only: env'_def)
qed

section \<open>A request and its answer\<close>

text \<open>No answer of the server looks like a request of its own.\<close>

definition proper_answer :: "(Frame option \<times> 'b \<times> RemoteServer) waits \<Rightarrow> bool" where
  "proper_answer h \<longleftrightarrow> (\<forall>r es rs. h = Done (Some r, es, rs) \<longrightarrow> \<not> is_server_initiated_frame (frame_type r))"

lemma proper_simps [simp]:
  "proper_answer (Done (None, x))" "proper_answer (Stuck rs)"
  "proper_answer (Done (Some r, x)) \<longleftrightarrow> \<not> is_server_initiated_frame (frame_type r)"
  "proper_answer (reply r rs) \<longleftrightarrow> \<not> is_server_initiated_frame (frame_type r)"
  by (cases x; auto simp: proper_answer_def reply_def)+

lemma proper_and_then: "(\<And>x. proper_answer (g x)) \<Longrightarrow> proper_answer (and_then w g)"
  by (cases w) simp_all

lemma answer_types [simp]:
  "\<not> is_server_initiated_frame (frame_type (error_frame e))" "\<not> is_server_initiated_frame (frame_type (ok_frame tid))"
  "\<not> is_server_initiated_frame (frame_type (ok_with_payload_frame tid j))"
  "\<not> is_server_initiated_frame (frame_type (error_with_terminal_frame tid e))"
  "\<not> is_server_initiated_frame (frame_type (info_response_frame j))"
  "\<not> is_server_initiated_frame (frame_type (trigger_list_response_frame j))"
  "\<not> is_server_initiated_frame (frame_type (trigger_exec_result_frame j))"
  "\<not> is_server_initiated_frame (frame_type (desktop_pair_response_frame j))"
  "\<not> is_server_initiated_frame (frame_type goodbye_frame)"
  by (simp_all add: is_server_initiated_frame_def frame_types error_frame_def ok_frame_def ok_with_payload_frame_def
      error_with_terminal_frame_def info_response_frame_def trigger_list_response_frame_def trigger_exec_result_frame_def
      desktop_pair_response_frame_def goodbye_frame_def frame_new_def)

lemma proper_handlers:
  "proper_answer (handle_list_request env k rs)" "proper_answer (handle_subscribe env now tid pid k rs)"
  "proper_answer (handle_unsubscribe env tid pid rs)" "proper_answer (handle_input f rs)"
  "proper_answer (handle_resize env f rs)"
  "proper_answer (handle_redraw_request tid k rs)" "proper_answer (handle_file_request env f rs)"
  "proper_answer (handle_close_terminal env f rs)"
  by (auto simp: handle_list_request_def handle_subscribe_def handle_unsubscribe_def handle_input_def handle_resize_def
      handle_redraw_request_def handle_file_request_def handle_close_terminal_def Let_def
      intro!: proper_and_then split: option.split prod.split sum.split)

lemma proper_pair: "proper_answer (handle_desktop_pair_frame env f rs)"
  by (auto simp: handle_desktop_pair_frame_def pair_answer_def Let_def split: option.split sum.split)

lemma proper_answering: "proper_answer (handle_input_answer env f rs)"
  by (simp add: handle_input_answer_def Let_def split_def split: option.split)

lemma proper_new_terminal: "proper_answer (handle_new_terminal env f rs)"
  by (simp add: handle_new_terminal_def Let_def split_def split: option.split sum.split)

lemma proper_trigger: "proper_answer (handle_trigger_frame env f rs)"
  by (simp add: handle_trigger_frame_def Let_def split: option.split sum.split)

lemma answers_no_request:
  assumes "process_frame env now f pid k rs = Done (Some r, closing, es, rs')"
  shows "\<not> is_server_initiated_frame (frame_type r)"
proof -
  have stay: "\<not> is_server_initiated_frame (frame_type r)"
    if "map_waits (\<lambda>(r, es, rs). (r, False, es, rs)) h = Done (Some r, closing, es, rs')" "proper_answer h" for h
    using that by (cases h) (auto simp: proper_answer_def)
  show ?thesis
    using assms unfolding process_frame_def Let_def
    by (auto split: if_splits dest!: stay intro: proper_handlers proper_pair proper_answering proper_new_terminal proper_trigger)
qed

lemma frame_travels:
  assumes "aead_ok cr" "encrypt cr (serialize f) c = (Inr enc, c')" "length (payload f) < 2 ^ 31" "cipher_key d = cipher_key c"
  shows "decrypt cr d enc = Inr (serialize f)" "deserialize (serialize f) = Inr f"
  using open_encrypted [OF assms(1,2,4)] deserialize_serialize0 [OF assms(3)] by simp_all

lemma encrypt_key: "encrypt cr p c = (r, c') \<Longrightarrow> cipher_key c' = cipher_key c"
  by (cases r) (auto simp: encrypt_Inr dest: encrypt_Inl)

text \<open>
  What a desktop asks for is handled by the other desktop, and the answer reaches its window.  Two
  ends that share a session (their keys agree): the first request in the client's channel leaves
  as one encrypted message; the server's tunnel processes exactly the frame of that request, with
  whatever effects its handler has, and sends its answer back; the client passes the type, the terminal
  and the payload of that answer to its window and does nothing else.
\<close>

theorem request_and_answer:
  assumes "aead_ok cr" "k < length (rc_tasks m)" "ct_phase (rc_tasks m ! k) = Bridging snd_c rcv_c"
    "ct_queue (rc_tasks m ! k) = o' # q"
    and request: "encrypt cr (serialize (outbound_frame env o')) snd_c = (Inr enc, snd_c')"
      "length (payload (outbound_frame env o')) < 2 ^ 31"
    and session: "tn_phase t = Serving" "cipher_key (tn_recv t) = cipher_key snd_c" "cipher_key rcv_c = cipher_key (tn_send t)"
    and handled: "process_frame env' now (outbound_frame env o') (tn_pairing t) (tn_chan t) rs = Done (Some r, closing, es, rs')"
    and answer: "encrypt cr (serialize r) (tn_send t) = (Inr enc', c')" "length (payload r) < 2 ^ 31"
  shows "\<exists>m1 t1 rs1. client_step cr env (Inr ()) rnd k TakeOutbound m = ([Wire (WsBinary enc)], m1)
    \<and> tunnel_step cr env' now True (FromPhone enc) (t, rs) = (es, t1, rs1) \<and> tn_out t1 = tn_out t @ [enc']
    \<and> (\<not> closing \<longrightarrow> rs1 = rs' \<and> tn_phase t1 = Serving)
    \<and> client_step cr env (Inr ()) rnd' k (Arrived (WsItem (WsBinary enc'))) m1
        = ([FrameCb (task_pairing k m) (frame_type r) (terminal_id r) (payload r)], m1)"
proof -
  define m1 where "m1 = set_phase k (Bridging snd_c' rcv_c) (take_request k q m)"
  have ask: "client_step cr env (Inr ()) rnd k TakeOutbound m = ([Wire (WsBinary enc)], m1)"
    using assms(2-5) by (simp add: client_step_def client_bridges_def bridge_send_def m1_def)
  note t = touches_take [of k m q]
  have len: "k < length (rc_tasks (take_request k q m))" using t assms(2) by (simp add: touches_def)
  have m1: "k < length (rc_tasks m1)" "ct_phase (rc_tasks m1 ! k) = Bridging snd_c' rcv_c" "task_pairing k m1 = task_pairing k m"
    using len touches_pairing [OF t, of k] by (simp_all add: m1_def upd_task_def task_pairing_def)
  note in1 = frame_travels [OF assms(1) request session(2)]
  define t1 where "t1 = t\<lparr>tn_send := c', tn_out := tn_out t @ [enc']\<rparr>"
  have sent: "tunnel_send cr True r t = (True, t1)"
    using answer(1) by (simp add: tunnel_send_def send_frame_def t1_def)
  have serve: "tunnel_step cr env' now True (FromPhone enc) (t, rs) = (es, if closing then end_tunnel t1 rs' else (t1, rs'))"
    using session(1) in1 handled sent by (simp add: tunnel_step_def)
  have "\<not> is_server_initiated_frame (frame_type r)" by (rule answers_no_request [OF handled])
  then have none: "handle_server_initiated_frame env pid r m1 = (None, [], m1)" for pid
    by (simp add: handle_server_initiated_frame_def is_server_initiated_frame_def Let_def)
  have "client_step cr env (Inr ()) rnd' k (Arrived (WsItem (WsBinary enc'))) m1
      = ([FrameCb (task_pairing k m) (frame_type r) (terminal_id r) (payload r)], m1)"
    using m1 none \<open>\<not> is_server_initiated_frame (frame_type r)\<close>
      frame_travels [OF assms(1) answer session(3)]
    by (simp add: client_step_def client_bridges_def bridge_frame_def)
  moreover have "tn_out t1 = tn_out t @ [enc']" "tn_phase t1 = Serving" using session(1) by (simp_all add: t1_def)
  ultimately show ?thesis
    using ask serve by (cases closing) (auto simp: end_tunnel_def)
qed

lemma toy_session_encrypts: "cipher_counter c \<noteq> - 1 \<Longrightarrow> \<exists>enc c'. encrypt toy_crypto p c = (Inr enc, c')"
  by (simp add: encrypt_Inr toy_crypto_def)

lemma request_and_answer_witness:
  "\<exists>m m1 enc enc' t t1 rs1. client_step toy_crypto sample_env (Inr ()) [] 0 TakeOutbound m = ([Wire (WsBinary enc)], m1)
     \<and> tunnel_step toy_crypto sample_env 0 True (FromPhone enc) (t, remote_server_new) = ([], t1, rs1) \<and> tn_out t1 = [enc']
     \<and> client_step toy_crypto sample_env (Inr ()) [] 0 (Arrived (WsItem (WsBinary enc'))) m1 = ([FrameCb ''p1'' FRAME_OK 7 []], m1)"
proof -
  define up where "up = cipher_new [1, 2] DIR_MOBILE_TO_DESKTOP"
  define down where "down = cipher_new [1, 2] DIR_DESKTOP_TO_MOBILE"
  define m where "m = (remote_clients_new terminals_new)\<lparr>rc_clients := [(''p1'', 0)], rc_senders := [(''p1'', 0)],
    rc_tasks := [\<lparr>ct_config = sample_client, ct_phase = Bridging up down, ct_backoff = 1, ct_queue = [OutUnsubscribe 7], ct_async = []\<rparr>]\<rparr>"
  define t where "t = \<lparr>tn_pairing = ''p1'', tn_chan = 0, tn_send = down, tn_recv = up, tn_out = [], tn_phase = Serving\<rparr>"
  have m: "0 < length (rc_tasks m)" "ct_phase (rc_tasks m ! 0) = Bridging up down" "ct_queue (rc_tasks m ! 0) = OutUnsubscribe 7 # []"
    by (simp_all add: m_def)
  have fresh: "cipher_counter up \<noteq> - 1" "cipher_counter down \<noteq> - 1" by (simp_all add: up_def down_def cipher_new_def)
  obtain enc up' where enc: "encrypt toy_crypto (serialize (outbound_frame sample_env (OutUnsubscribe 7))) up = (Inr enc, up')"
    using toy_session_encrypts [OF fresh(1)] by blast
  obtain enc' down' where enc': "encrypt toy_crypto (serialize (ok_frame 7)) down = (Inr enc', down')"
    using toy_session_encrypts [OF fresh(2)] by blast
  have h: "process_frame sample_env 0 (outbound_frame sample_env (OutUnsubscribe 7)) (tn_pairing t) (tn_chan t) remote_server_new
      = Done (Some (ok_frame 7), False, [], remote_server_new)"
    by (simp add: process_frame_def unsubscribe_frame_def frame_new_def frame_types handle_unsubscribe_def resolve_sid_def
        remote_server_new_def id_map_new_def lookup_sid_def hm_get_def reply_def)
  have t: "tn_phase t = Serving" "cipher_key (tn_recv t) = cipher_key up" "cipher_key down = cipher_key (tn_send t)"
    by (simp_all add: t_def)
  have l: "length (payload (outbound_frame sample_env (OutUnsubscribe 7))) < 2 ^ 31" "length (payload (ok_frame 7)) < 2 ^ 31"
    by (simp_all add: unsubscribe_frame_def ok_frame_def frame_new_def)
  have enc2: "encrypt toy_crypto (serialize (ok_frame 7)) (tn_send t) = (Inr enc', down')" using enc' by (simp add: t_def)
  have "task_pairing 0 m = ''p1''" "frame_type (ok_frame 7) = FRAME_OK" "terminal_id (ok_frame 7) = 7" "payload (ok_frame 7) = []"
    "tn_out t = []"
    by (simp_all add: m_def task_pairing_def sample_client_def ok_frame_def frame_new_def t_def)
  with request_and_answer [OF toy_aead_ok m enc l(1) t h enc2 l(2), of "[]" "[]"] show ?thesis by fastforce
qed


section \<open>What the loop and the manager leave undone\<close>

text \<open>
  A refused token: the web socket library reports the status as the text below.  The tunnel turns it
  into an error that ends its loop, the client does not and tries again for ever.
\<close>

lemma refused_token_retried:
  "client_verdict (Inl (''ws connect: '' @ ''HTTP error: 401 Unauthorized'')) b = Some (b, next_backoff b)"
  "connect_ws (Inr ()) (Inl ''HTTP error: 401 Unauthorized'') = Inl e \<Longrightarrow> tunnel_verdict (Inl e) b = None"
  by (auto simp: client_verdict_def tunnel_verdict_def connect_ws_def gives_up_def)

text \<open>The end of all clients leaves the set of connected pairings, and a stop leaves the subscribers.\<close>

lemma stop_all_connected: "rc_connected (snd (stop_all_clients m)) = rc_connected m"
proof -
  have "rc_connected (fold (\<lambda>pid. abort_client False pid) ps m) = rc_connected m" for ps
    by (induction ps arbitrary: m) (auto simp: abort_others)
  then show ?thesis by (simp add: stop_all_clients_def Let_def)
qed

lemma stop_leaves_subscribers: "rc_terminals (snd (stop_client late pid m)) = rc_terminals m"
  by (auto simp: stop_client_def abort_client_def forget_client_def disconnected_def drop_receiver_def upd_task_def Let_def
      split: option.split)

text \<open>A task that is leaving takes the sender of the client that was started in its place.\<close>

lemma leaver_takes_successor:
  assumes "hm_get (rc_clients m) pid = Some k" "ct_phase (rc_tasks m ! k) = Leaving" "k < length (rc_tasks m)"
    "task_pairing k m = pid" "cc_pairing_id cfg = pid" "rc_blocked m = None"
    "start_client True cfg m = (started, m1)" "client_step cr env wr random k Leave m1 = (es, m2)"
  shows "started \<and> takes_frames (rc_tasks m2 ! length (rc_tasks m)) \<and> hm_get (rc_senders m2) pid = None"
proof -
  have "abort_client True pid m = m\<lparr>rc_clients := hm_remove pid (rc_clients m)\<rparr>"
    by (simp add: abort_client_def assms(1,2))
  then have m1: "started" "rc_tasks m1 = rc_tasks m @ [\<lparr>ct_config = cfg, ct_phase = Connecting, ct_backoff = 1, ct_queue = [], ct_async = []\<rparr>]"
      "rc_blocked m1 = None"
    using assms(5,6,7) by (auto simp: start_client_def stop_client_def forget_client_def disconnected_def Let_def)
  then have "task_pairing k m1 = pid" using assms(3,4) by (simp add: task_pairing_def nth_append)
  then show ?thesis
    using assms(2,3,8) m1
    by (auto simp: client_step_def upd_task_def takes_frames_def nth_append hm_simps)
qed

text \<open>A bridge that ends is followed by a rest of one second, an attempt that fails by at most thirty.\<close>

lemma client_rests: "backoff_ok b \<Longrightarrow> client_verdict r b = Some (p, b') \<Longrightarrow> backoff_ok p \<and> backoff_ok b'"
  by (auto simp: client_verdict_def next_backoff_ok split: sum.splits if_splits) (auto simp: backoff_ok_def MAX_BACKOFF_def)


end
