(* ===== verification/MobileClient.thy ===== *)
theory MobileClient
  imports RemoteServer
begin

text \<open>
  The phone's end of a tunnel (crates/android-ffi/src/remote_terminal.rs, as built for Android): the
  registry of sessions, the HELLO exchange, the requests and what is made of the frames of the
  desktop.  The web socket is in the application; here a function gets or returns one message.  An
  operation that fails returns its error and the registry it leaves; the events that go to the
  application are values (their bytes are printed in base64 by a library).
\<close>

section \<open>State\<close>

datatype mobile_phase = WaitingHello | Ready

record RemoteTunnelSession =
  ms_pairing_key :: bytes
  ms_phase :: mobile_phase
  ms_client_random :: bytes
  ms_send_cipher :: "FrameCipher option"
  ms_recv_cipher :: "FrameCipher option"

type_synonym phone = "(string, RemoteTunnelSession) hm"

datatype mobile_event =
    TunnelReady string
  | TerminalList string string
  | TerminalNotify string string
  | TerminalOutput string u32 bytes
  | TerminalHistory string u32 u32 bool bytes
  | TerminalResize string u32 u16 u16
  | TerminalError string string
  | TerminalOk string u32 string
  | TriggerList string string
  | TriggerExecResult string string

definition no_session :: "string \<Rightarrow> string" where
  "no_session pid = ''no tunnel session for pairing_id='' @ pid"

section \<open>Opening\<close>

definition init_tunnel :: "crypto \<Rightarrow> bytes \<Rightarrow> string \<Rightarrow> bytes \<Rightarrow> phone \<Rightarrow> (string + bytes) \<times> phone" where
  "init_tunnel cr client_random pid key ph =
     (case fst (encrypt cr (serialize (hello_frame CLIENT_CAPABILITIES client_random)) (from_pairing_key key DIR_MOBILE_TO_DESKTOP)) of
        Inl e \<Rightarrow> (Inl e, ph)
      | Inr enc \<Rightarrow>
          (Inr enc, hm_insert pid \<lparr>ms_pairing_key = key, ms_phase = WaitingHello, ms_client_random = client_random,
             ms_send_cipher = None, ms_recv_cipher = None\<rparr> ph))"

text \<open>The events of a frame of the desktop; a type that is not in the table is only logged.\<close>

definition dispatch_frame_event :: "string \<Rightarrow> u8 \<Rightarrow> u32 \<Rightarrow> bytes \<Rightarrow> mobile_event list" where
  "dispatch_frame_event pid t tid p =
     (if t = LIST_RESPONSE then [TerminalList pid (from_utf8_lossy p)]
      else if t = NOTIFY then [TerminalNotify pid (from_utf8_lossy p)]
      else if t = OUTPUT then [TerminalOutput pid tid p]
      else if t = HISTORY then
        (case p of b0 # b1 # b2 # b3 # l # data \<Rightarrow> [TerminalHistory pid tid (of_be32 b0 b1 b2 b3) (l \<noteq> 0) data] | _ \<Rightarrow> [])
      else if t = RESIZE then
        (case p of c0 # c1 # r0 # r1 # _ \<Rightarrow> [TerminalResize pid tid (of_be16 c0 c1) (of_be16 r0 r1)] | _ \<Rightarrow> [])
      else if t = ERROR then [TerminalError pid (from_utf8_lossy p)]
      else if t = FRAME_OK then (if p = [] then [] else [TerminalOk pid tid (from_utf8_lossy p)])
      else if t = TRIGGER_LIST_RESPONSE then [TriggerList pid (from_utf8_lossy p)]
      else if t = TRIGGER_EXEC_RESULT then [TriggerExecResult pid (from_utf8_lossy p)]
      else [])"

definition mobile_hello :: "crypto \<Rightarrow> string \<Rightarrow> RemoteTunnelSession \<Rightarrow> bytes \<Rightarrow> phone \<Rightarrow> (string + mobile_event list) \<times> phone" where
  "mobile_hello cr pid s data ph =
     (case decrypt cr (from_pairing_key (ms_pairing_key s) DIR_DESKTOP_TO_MOBILE) data of
        Inl e \<Rightarrow> (Inl e, ph)
      | Inr plain \<Rightarrow>
          (case deserialize plain of
             Inl e \<Rightarrow> (Inl e, ph)
           | Inr f \<Rightarrow>
               if frame_type f \<noteq> HELLO then (Inl (''expected HELLO response, got frame_type=0x'' @ upper_hex2 (frame_type f)), ph)
               else (case parse_hello f of
                       None \<Rightarrow> (Inl ''invalid HELLO payload'', ph)
                     | Some (_, server_random) \<Rightarrow>
                         (Inr [TunnelReady pid],
                          hm_insert pid (s\<lparr>
                            ms_send_cipher := Some (from_session_key cr (ms_pairing_key s) (ms_client_random s) server_random DIR_MOBILE_TO_DESKTOP),
                            ms_recv_cipher := Some (from_session_key cr (ms_pairing_key s) (ms_client_random s) server_random DIR_DESKTOP_TO_MOBILE),
                            ms_phase := Ready\<rparr>) ph))))"

definition process_binary :: "crypto \<Rightarrow> string \<Rightarrow> bytes \<Rightarrow> phone \<Rightarrow> (string + mobile_event list) \<times> phone" where
  "process_binary cr pid data ph =
     (case hm_get ph pid of
        None \<Rightarrow> (Inl (no_session pid), ph)
      | Some s \<Rightarrow>
          (case ms_phase s of
             WaitingHello \<Rightarrow> mobile_hello cr pid s data ph
           | Ready \<Rightarrow>
               (case ms_recv_cipher s of
                  None \<Rightarrow> (Inl ''recv_cipher not initialized'', ph)
                | Some c \<Rightarrow>
                    (case decrypt cr c data of
                       Inl e \<Rightarrow> (Inl e, ph)
                     | Inr plain \<Rightarrow>
                         (case deserialize plain of
                            Inl e \<Rightarrow> (Inl e, ph)
                          | Inr f \<Rightarrow> (Inr (dispatch_frame_event pid (frame_type f) (terminal_id f) (payload f)), ph))))))"

section \<open>Requests\<close>

definition encrypt_outgoing :: "crypto \<Rightarrow> string \<Rightarrow> Frame \<Rightarrow> phone \<Rightarrow> (string + bytes) \<times> phone" where
  "encrypt_outgoing cr pid f ph =
     (case hm_get ph pid of
        None \<Rightarrow> (Inl (no_session pid), ph)
      | Some s \<Rightarrow>
          if ms_phase s \<noteq> Ready then (Inl ''tunnel not ready (HELLO exchange not complete)'', ph)
          else (case ms_send_cipher s of
                  None \<Rightarrow> (Inl ''send_cipher not initialized'', ph)
                | Some c \<Rightarrow>
                    (let (r, c') = encrypt cr (serialize f) c in (r, hm_insert pid (s\<lparr>ms_send_cipher := Some c'\<rparr>) ph))))"

text \<open>The answer to an agent's question as the phone gives it.\<close>

record phone_answer =
  pa_question_id :: string
  pa_answer :: string
  pa_option_index :: int
  pa_cli :: string
  pa_options :: "string list"
  pa_is_multi_select :: bool
  pa_is_multi_question :: bool
  pa_active_tab_index :: int
  pa_total_tabs :: int

definition phone_answer_json :: "phone_answer \<Rightarrow> json" where
  "phone_answer_json a =
     JObj [(''question_id'', JStr (pa_question_id a)), (''answer'', JStr (pa_answer a)), (''source'', JStr ''phone''),
       (''option_index'', jint (pa_option_index a)), (''cli'', JStr (pa_cli a)), (''options'', JArr (map JStr (pa_options a))),
       (''is_multi_select'', JBool (pa_is_multi_select a)), (''is_multi_question'', JBool (pa_is_multi_question a)),
       (''active_tab_index'', jint (pa_active_tab_index a)), (''total_tabs'', jint (pa_total_tabs a))]"

definition input_answer_from_phone :: "remote_env \<Rightarrow> u32 \<Rightarrow> phone_answer \<Rightarrow> Frame" where
  "input_answer_from_phone env tid a = frame_new INPUT_ANSWER tid (bytes_of_str (json_text env (phone_answer_json a)))"

definition phone_new_terminal_text :: "remote_env \<Rightarrow> string option \<Rightarrow> string option \<Rightarrow> string option \<Rightarrow> string" where
  "phone_new_terminal_text env shell name server_id =
     json_text env (JObj [(''shell'', jopt JStr shell), (''name'', jopt JStr name), (''server_id'', jopt JStr server_id)])"

definition send_list_request :: "crypto \<Rightarrow> string \<Rightarrow> phone \<Rightarrow> (string + bytes) \<times> phone" where
  "send_list_request cr pid = encrypt_outgoing cr pid list_request_frame"

definition send_subscribe :: "crypto \<Rightarrow> string \<Rightarrow> u32 \<Rightarrow> phone \<Rightarrow> (string + bytes) \<times> phone" where
  "send_subscribe cr pid tid = encrypt_outgoing cr pid (subscribe_frame tid)"

definition send_unsubscribe :: "crypto \<Rightarrow> string \<Rightarrow> u32 \<Rightarrow> phone \<Rightarrow> (string + bytes) \<times> phone" where
  "send_unsubscribe cr pid tid = encrypt_outgoing cr pid (unsubscribe_frame tid)"

definition send_input :: "crypto \<Rightarrow> string \<Rightarrow> u32 \<Rightarrow> bytes \<Rightarrow> phone \<Rightarrow> (string + bytes) \<times> phone" where
  "send_input cr pid tid data = encrypt_outgoing cr pid (input_frame tid data)"

definition send_input_answer :: "crypto \<Rightarrow> remote_env \<Rightarrow> string \<Rightarrow> u32 \<Rightarrow> phone_answer \<Rightarrow> phone \<Rightarrow> (string + bytes) \<times> phone" where
  "send_input_answer cr env pid tid a = encrypt_outgoing cr pid (input_answer_from_phone env tid a)"

definition send_resize :: "crypto \<Rightarrow> string \<Rightarrow> u32 \<Rightarrow> u16 \<Rightarrow> u16 \<Rightarrow> phone \<Rightarrow> (string + bytes) \<times> phone" where
  "send_resize cr pid tid cols rows = encrypt_outgoing cr pid (resize_frame tid cols rows)"

definition send_new_terminal ::
  "crypto \<Rightarrow> remote_env \<Rightarrow> string \<Rightarrow> string option \<Rightarrow> string option \<Rightarrow> string option \<Rightarrow> phone \<Rightarrow> (string + bytes) \<times> phone" where
  "send_new_terminal cr env pid shell name server_id =
     encrypt_outgoing cr pid (new_terminal_frame (phone_new_terminal_text env) shell name server_id)"

definition send_desktop_pair :: "crypto \<Rightarrow> string \<Rightarrow> string \<Rightarrow> phone \<Rightarrow> (string + bytes) \<times> phone" where
  "send_desktop_pair cr pid j = encrypt_outgoing cr pid (desktop_pair_frame j)"

definition send_close_terminal :: "crypto \<Rightarrow> string \<Rightarrow> u32 \<Rightarrow> phone \<Rightarrow> (string + bytes) \<times> phone" where
  "send_close_terminal cr pid tid = encrypt_outgoing cr pid (close_terminal_frame tid)"

definition send_trigger_list_request :: "crypto \<Rightarrow> string \<Rightarrow> phone \<Rightarrow> (string + bytes) \<times> phone" where
  "send_trigger_list_request cr pid = encrypt_outgoing cr pid trigger_list_request_frame"

definition send_trigger_exec :: "crypto \<Rightarrow> string \<Rightarrow> string \<Rightarrow> phone \<Rightarrow> (string + bytes) \<times> phone" where
  "send_trigger_exec cr pid j = encrypt_outgoing cr pid (trigger_exec_frame j)"

definition send_trigger_add :: "crypto \<Rightarrow> string \<Rightarrow> string \<Rightarrow> phone \<Rightarrow> (string + bytes) \<times> phone" where
  "send_trigger_add cr pid j = encrypt_outgoing cr pid (trigger_add_frame j)"

definition send_trigger_update :: "crypto \<Rightarrow> string \<Rightarrow> string \<Rightarrow> phone \<Rightarrow> (string + bytes) \<times> phone" where
  "send_trigger_update cr pid j = encrypt_outgoing cr pid (trigger_update_frame j)"

definition send_trigger_remove :: "crypto \<Rightarrow> string \<Rightarrow> string \<Rightarrow> phone \<Rightarrow> (string + bytes) \<times> phone" where
  "send_trigger_remove cr pid j = encrypt_outgoing cr pid (trigger_remove_frame j)"

text \<open>A session that fails to encrypt its GOODBYE stays registered.\<close>

definition close_tunnel :: "crypto \<Rightarrow> string \<Rightarrow> phone \<Rightarrow> (string + bytes) \<times> phone" where
  "close_tunnel cr pid ph =
     (case hm_get ph pid of
        None \<Rightarrow> (Inl (no_session pid), ph)
      | Some s \<Rightarrow>
          if ms_phase s = Ready
          then (case ms_send_cipher s of
                  None \<Rightarrow> (Inl ''send_cipher not initialized'', ph)
                | Some c \<Rightarrow>
                    (case encrypt cr (serialize goodbye_frame) c of
                       (Inl e, c') \<Rightarrow> (Inl e, hm_insert pid (s\<lparr>ms_send_cipher := Some c'\<rparr>) ph)
                     | (Inr enc, _) \<Rightarrow> (Inr enc, hm_remove pid ph)))
          else (Inr [], hm_remove pid ph))"

definition is_ready :: "string \<Rightarrow> phone \<Rightarrow> bool" where
  "is_ready pid ph = (case hm_get ph pid of Some s \<Rightarrow> ms_phase s = Ready | None \<Rightarrow> False)"

section \<open>The registry\<close>

definition session_ok :: "RemoteTunnelSession \<Rightarrow> bool" where
  "session_ok s \<longleftrightarrow> (ms_phase s = Ready \<longleftrightarrow> ms_send_cipher s \<noteq> None) \<and> (ms_send_cipher s = None \<longleftrightarrow> ms_recv_cipher s = None)"

definition phone_ok :: "phone \<Rightarrow> bool" where
  "phone_ok ph \<longleftrightarrow> (\<forall>pid s. hm_get ph pid = Some s \<longrightarrow> session_ok s)"

datatype phone_op =
    Init bytes string bytes
  | Process string bytes
  | Outgoing string Frame
  | CloseTunnel string

fun phone_step :: "crypto \<Rightarrow> phone \<Rightarrow> phone_op \<Rightarrow> phone" where
  "phone_step cr ph (Init rnd pid key) = snd (init_tunnel cr rnd pid key ph)"
| "phone_step cr ph (Process pid data) = snd (process_binary cr pid data ph)"
| "phone_step cr ph (Outgoing pid f) = snd (encrypt_outgoing cr pid f ph)"
| "phone_step cr ph (CloseTunnel pid) = snd (close_tunnel cr pid ph)"

lemma phone_ok_insert: "phone_ok ph \<Longrightarrow> session_ok s \<Longrightarrow> phone_ok (hm_insert pid s ph)"
  by (simp add: phone_ok_def hm_simps)

lemma phone_ok_remove: "phone_ok ph \<Longrightarrow> phone_ok (hm_remove pid ph)"
  by (simp add: phone_ok_def hm_simps)

lemma phone_step_ok: "phone_ok ph \<Longrightarrow> phone_ok (phone_step cr ph x)"
proof (cases x)
  case (Init rnd pid key)
  then show "phone_ok ph \<Longrightarrow> ?thesis" by (auto simp: init_tunnel_def session_ok_def split: sum.split intro: phone_ok_insert)
next
  case (Process pid data)
  then show "phone_ok ph \<Longrightarrow> ?thesis"
    by (auto simp: process_binary_def mobile_hello_def session_ok_def
        split: option.split sum.split mobile_phase.split intro: phone_ok_insert)
next
  case (Outgoing pid f)
  then show "phone_ok ph \<Longrightarrow> ?thesis"
    by (auto simp: encrypt_outgoing_def Let_def split_def split: option.split intro!: phone_ok_insert)
      (auto simp: phone_ok_def session_ok_def, metis not_None_eq)
next
  case (CloseTunnel pid)
  then show "phone_ok ph \<Longrightarrow> ?thesis"
    by (auto simp: close_tunnel_def Let_def split: option.split sum.split prod.split intro!: phone_ok_insert phone_ok_remove)
      (auto simp: phone_ok_def session_ok_def, metis not_None_eq)
qed

interpretation phones: machine "phone_step cr" "[]" phone_ok
  by unfold_locales (auto simp: phone_step_ok, simp add: phone_ok_def hm_simps)

text \<open>So a ready session always has its ciphers: the two errors about missing ones never come.\<close>

lemma ready_has_ciphers:
  assumes "hm_get (run (phone_step cr) [] xs) pid = Some s" "ms_phase s = Ready"
  obtains c d where "ms_send_cipher s = Some c" "ms_recv_cipher s = Some d"
  using phones.inv_run [of cr xs] assms unfolding phone_ok_def session_ok_def by blast

section \<open>From HELLO to the answer\<close>

lemma init_tunnel_hello:
  "init_tunnel cr rnd pid key ph = (Inr hello, ph1) \<Longrightarrow> client_hello cr key rnd = Inr hello"
  by (auto simp: init_tunnel_def client_hello_def split: sum.splits)

lemma phone_hello:
  assumes "aead_ok cr" "length srnd = 32" "hm_get ph pid = Some s" "ms_phase s = WaitingHello"
    "encrypt cr (serialize (hello_frame caps srnd)) (from_pairing_key (ms_pairing_key s) DIR_DESKTOP_TO_MOBILE) = (Inr data, c')"
  shows "process_binary cr pid data ph =
    (Inr [TunnelReady pid], hm_insert pid (s\<lparr>
       ms_send_cipher := Some (from_session_key cr (ms_pairing_key s) (ms_client_random s) srnd DIR_MOBILE_TO_DESKTOP),
       ms_recv_cipher := Some (from_session_key cr (ms_pairing_key s) (ms_client_random s) srnd DIR_DESKTOP_TO_MOBILE),
       ms_phase := Ready\<rparr>) ph)"
  using open_encrypted [OF assms(1,5), of "from_pairing_key (ms_pairing_key s) DIR_DESKTOP_TO_MOBILE"] assms(2-4)
  by (simp add: process_binary_def mobile_hello_def hello_round_trip parse_hello_frame)


text \<open>
  A phone and a tunnel that share a session key and can each still encrypt \<open>n\<close> messages.  Sealing is
  relied on to succeed, as it does for every message this protocol can carry.
\<close>

definition aead_total :: "crypto \<Rightarrow> bool" where
  "aead_total cr \<longleftrightarrow> (\<forall>k n p. aead_seal cr k n p \<noteq> None)"

definition can_send :: "nat \<Rightarrow> FrameCipher \<Rightarrow> bool" where
  "can_send n c \<longleftrightarrow> unat (cipher_counter c) + n < 2 ^ 64"

definition linked :: "nat \<Rightarrow> string \<Rightarrow> phone \<Rightarrow> Tunnel \<Rightarrow> bool" where
  "linked n pid ph t \<longleftrightarrow> tn_phase t = Serving \<and> tn_pairing t = pid \<and> can_send n (tn_send t)
     \<and> (\<exists>s c d. hm_get ph pid = Some s \<and> ms_phase s = Ready \<and> ms_send_cipher s = Some c \<and> ms_recv_cipher s = Some d
          \<and> can_send n c \<and> cipher_key c = cipher_key (tn_recv t) \<and> cipher_key d = cipher_key (tn_send t))"

lemma encrypts:
  assumes "aead_total cr" "can_send (Suc n) c"
  obtains enc c' where "encrypt cr p c = (Inr enc, c')" "can_send n c'" "cipher_key c' = cipher_key c"
proof -
  obtain ct where ct: "aead_seal cr (cipher_key c) (encode_nonce (cipher_dir c) (cipher_counter c)) p = Some ct"
    using assms(1) unfolding aead_total_def by blast
  have less: "unat (cipher_counter c) + 1 < 2 ^ 64" using assms(2) by (simp add: can_send_def)
  have ne: "cipher_counter c \<noteq> - 1"
  proof
    assume "cipher_counter c = - 1"
    then have "unat (cipher_counter c) = 2 ^ 64 - 1" by (simp add: unsigned_minus_1_eq_mask mask_eq_exp_minus_1)
    then show False using less by simp
  qed
  have "unat (cipher_counter c + 1) = unat (cipher_counter c) + 1"
    using less by (simp add: unat_word_ariths)
  then have "can_send n (c\<lparr>cipher_counter := cipher_counter c + 1\<rparr>)" using assms(2) by (simp add: can_send_def)
  then show thesis using that ct ne by (auto simp: encrypt_Inr)
qed

text \<open>What the phone makes of the messages it is sent, one after the other.\<close>

fun read_all :: "crypto \<Rightarrow> string \<Rightarrow> bytes list \<Rightarrow> phone \<Rightarrow> (mobile_event list \<times> phone) option" where
  "read_all cr pid [] ph = Some ([], ph)"
| "read_all cr pid (m # ms) ph =
     (case process_binary cr pid m ph of
        (Inl _, _) \<Rightarrow> None
      | (Inr evs, ph1) \<Rightarrow> map_option (\<lambda>(evs', ph2). (evs @ evs', ph2)) (read_all cr pid ms ph1))"

text \<open>
  The conversation over the tunnel: the phone encrypts a frame, the tunnel takes it, the phone reads
  what the tunnel has sent.  And the same without a tunnel: the handlers called one after the other.
\<close>

fun dialogue ::
  "crypto \<Rightarrow> remote_env \<Rightarrow> nat \<Rightarrow> string \<Rightarrow> Frame list \<Rightarrow> phone \<times> Tunnel \<times> RemoteServer \<Rightarrow>
   (mobile_event list \<times> effect list \<times> RemoteServer) option" where
  "dialogue cr env now pid [] (ph, t, rs) = Some ([], [], rs)"
| "dialogue cr env now pid (f # fs) (ph, t, rs) =
     (case encrypt_outgoing cr pid f ph of
        (Inl _, _) \<Rightarrow> None
      | (Inr enc, ph1) \<Rightarrow>
          (case tunnel_step cr env now True (FromPhone enc) (t, rs) of
             (es, t1, rs1) \<Rightarrow>
               (case read_all cr pid (drop (length (tn_out t)) (tn_out t1)) ph1 of
                  None \<Rightarrow> None
                | Some (evs, ph2) \<Rightarrow>
                    map_option (\<lambda>(evs', es', rs'). (evs @ evs', es @ es', rs')) (dialogue cr env now pid fs (ph2, t1, rs1)))))"

definition answer_events :: "string \<Rightarrow> Frame option \<Rightarrow> mobile_event list" where
  "answer_events pid r =
     (case r of Some r \<Rightarrow> dispatch_frame_event pid (frame_type r) (terminal_id r) (payload r) | None \<Rightarrow> [])"

fun direct ::
  "remote_env \<Rightarrow> nat \<Rightarrow> string \<Rightarrow> nat \<Rightarrow> Frame list \<Rightarrow> RemoteServer \<Rightarrow> (mobile_event list \<times> effect list \<times> RemoteServer) option" where
  "direct env now pid k [] rs = Some ([], [], rs)"
| "direct env now pid k (f # fs) rs =
     (case process_frame env now f pid k rs of
        Stuck _ \<Rightarrow> None
      | Done (r, closing, es, rs1) \<Rightarrow>
          if closing \<or> (\<exists>x. r = Some x \<and> 2 ^ 31 \<le> length (payload x)) then None
          else map_option (\<lambda>(evs', es', rs'). (answer_events pid r @ evs', es @ es', rs')) (direct env now pid k fs rs1))"

lemma linked_turn:
  assumes "aead_ok cr" "aead_total cr" "linked (Suc n) pid ph t" "length (payload f) < 2 ^ 31"
    "process_frame env now f pid (tn_chan t) rs = Done (r, False, es, rs1)" "\<And>x. r = Some x \<Longrightarrow> length (payload x) < 2 ^ 31"
  shows "\<exists>enc ph1 t1. encrypt_outgoing cr pid f ph = (Inr enc, ph1)
    \<and> tunnel_step cr env now True (FromPhone enc) (t, rs) = (es, t1, rs1)
    \<and> read_all cr pid (drop (length (tn_out t)) (tn_out t1)) ph1 = Some (answer_events pid r, ph1)
    \<and> linked n pid ph1 t1 \<and> tn_chan t1 = tn_chan t"
proof -
  obtain s c d where s: "hm_get ph pid = Some s" "ms_phase s = Ready" "ms_send_cipher s = Some c" "ms_recv_cipher s = Some d"
    "can_send (Suc n) c" "cipher_key c = cipher_key (tn_recv t)" "cipher_key d = cipher_key (tn_send t)"
    and t: "tn_phase t = Serving" "tn_pairing t = pid" "can_send (Suc n) (tn_send t)"
    using assms(3) by (auto simp: linked_def)
  obtain enc c1 where c1: "encrypt cr (serialize f) c = (Inr enc, c1)" "can_send n c1" "cipher_key c1 = cipher_key c"
    using encrypts [OF assms(2) s(5)] .
  define ph1 where "ph1 = hm_insert pid (s\<lparr>ms_send_cipher := Some c1\<rparr>) ph"
  have out: "encrypt_outgoing cr pid f ph = (Inr enc, ph1)" using s c1 by (simp add: encrypt_outgoing_def ph1_def)
  have got: "decrypt cr (tn_recv t) enc = Inr (serialize f)" by (rule open_encrypted [OF assms(1) c1(1)]) (simp add: s(6))
  show ?thesis
  proof (cases r)
    case None
    have "tunnel_step cr env now True (FromPhone enc) (t, rs) = (es, t, rs1)"
      using t got deserialize_serialize0 [OF assms(4)] assms(5) by (simp add: tunnel_step_def None)
    moreover have "linked n pid ph1 t" using s t c1 by (auto simp: linked_def ph1_def hm_simps can_send_def)
    ultimately show ?thesis using out by (simp add: answer_events_def None)
  next
    case (Some x)
    obtain enc' c2 where c2: "encrypt cr (serialize x) (tn_send t) = (Inr enc', c2)" "can_send n c2" "cipher_key c2 = cipher_key (tn_send t)"
      using encrypts [OF assms(2) t(3)] .
    define t1 where "t1 = t\<lparr>tn_send := c2, tn_out := tn_out t @ [enc']\<rparr>"
    have "tunnel_step cr env now True (FromPhone enc) (t, rs) = (es, t1, rs1)"
      using t got deserialize_serialize0 [OF assms(4)] assms(5) c2
      by (simp add: tunnel_step_def tunnel_send_def send_frame_def Some t1_def)
    moreover have "decrypt cr d enc' = Inr (serialize x)" by (rule open_encrypted [OF assms(1) c2(1)]) (simp add: s(7))
    then have "process_binary cr pid enc' ph1 = (Inr (answer_events pid r), ph1)"
      using s deserialize_serialize0 [OF assms(6) [OF Some]] by (simp add: process_binary_def ph1_def hm_simps answer_events_def Some)
    then have "read_all cr pid (drop (length (tn_out t)) (tn_out t1)) ph1 = Some (answer_events pid r, ph1)" by (simp add: t1_def)
    moreover have "linked n pid ph1 t1" "tn_chan t1 = tn_chan t"
      using s t c1 c2 by (auto simp: linked_def ph1_def t1_def hm_simps)
    ultimately show ?thesis using out by blast
  qed
qed

lemma dialogue_direct:
  assumes "aead_ok cr" "aead_total cr" "linked (length fs) pid ph t" "\<forall>f \<in> set fs. length (payload f) < 2 ^ 31"
    "direct env now pid (tn_chan t) fs rs = Some result"
  shows "dialogue cr env now pid fs (ph, t, rs) = Some result"
  using assms(3-5)
proof (induction fs arbitrary: ph t rs result)
  case (Cons f fs)
  obtain r es rs1 where p: "process_frame env now f pid (tn_chan t) rs = Done (r, False, es, rs1)"
    and small: "\<And>x. r = Some x \<Longrightarrow> length (payload x) < 2 ^ 31"
    using Cons.prems(3) by (auto split: waits.splits if_splits) (metis not_le)
  obtain rest where rest: "direct env now pid (tn_chan t) fs rs1 = Some rest"
    and result: "result = (case rest of (evs', es', rs') \<Rightarrow> (answer_events pid r @ evs', es @ es', rs'))"
    using Cons.prems(3) by (auto simp: p split: if_splits)
  have small_f: "length (payload f) < 2 ^ 31" using Cons.prems(2) by simp
  have link: "linked (Suc (length fs)) pid ph t" using Cons.prems(1) by simp
  obtain enc ph1 t1 where turn: "encrypt_outgoing cr pid f ph = (Inr enc, ph1)"
    "tunnel_step cr env now True (FromPhone enc) (t, rs) = (es, t1, rs1)"
    "read_all cr pid (drop (length (tn_out t)) (tn_out t1)) ph1 = Some (answer_events pid r, ph1)"
    "linked (length fs) pid ph1 t1" "tn_chan t1 = tn_chan t"
    using linked_turn [OF assms(1,2) link small_f p small] by blast
  have "dialogue cr env now pid fs (ph1, t1, rs1) = Some rest"
    using Cons.IH [OF turn(4)] Cons.prems(2) rest turn(5) by simp
  then show ?case by (simp add: turn(1-3) result)
qed simp

lemma start_tunnel_linked:
  assumes "aead_ok cr" "length crnd = 32" "length srnd = 32" "get_pairing_key pid rs = Some key" "n < 2 ^ 64"
    and init: "init_tunnel cr crnd pid key ph = (Inr hello, ph1)"
    and start: "start_tunnel cr env now pid (Received hello) True srnd rs = (Some t, sent, rs1)" "tn_phase t = Serving"
  shows "\<exists>reply ph2. sent = [reply] \<and> process_binary cr pid reply ph1 = (Inr [TunnelReady pid], ph2) \<and> linked n pid ph2 t"
proof -
  note hello = init_tunnel_hello [OF init]
  define s where "s = \<lparr>ms_pairing_key = key, ms_phase = WaitingHello, ms_client_random = crnd, ms_send_cipher = None, ms_recv_cipher = None\<rparr>"
  have ph1: "hm_get ph1 pid = Some s"
    using init by (auto simp: init_tunnel_def s_def hm_simps split: sum.splits)
  have h: "handle_hello cr key (Received hello) True srnd = (Some (tn_send t, tn_recv t), sent)" and tp: "tn_pairing t = pid"
    using start assms(4) by (auto simp: start_tunnel_def open_tunnel_def Let_def split: prod.splits option.splits waits.splits)
  obtain reply c' where reply: "encrypt cr (serialize (hello_frame (CLIENT_CAPABILITIES AND SERVER_CAPS_4A) srnd))
      (from_pairing_key key DIR_DESKTOP_TO_MOBILE) = (Inr reply, c')" "sent = [reply]"
    and t: "tn_send t = from_session_key cr key crnd srnd DIR_DESKTOP_TO_MOBILE" "tn_recv t = from_session_key cr key crnd srnd DIR_MOBILE_TO_DESKTOP"
    using h unfolding handle_hello_client [OF assms(1,2) hello]
    by (auto simp: send_frame_def split: prod.splits sum.splits)
  have "encrypt cr (serialize (hello_frame (CLIENT_CAPABILITIES AND SERVER_CAPS_4A) srnd))
      (from_pairing_key (ms_pairing_key s) DIR_DESKTOP_TO_MOBILE) = (Inr reply, c')"
    using reply by (simp add: s_def)
  from phone_hello [OF assms(1,3) ph1 _ this] reply(2) t tp start(2) assms(5) show ?thesis
    by (simp add: linked_def hm_simps can_send_def from_session_key_def cipher_new_def s_def)
qed

text \<open>
  C21. The tunnel is transparent to a phone.  Starting from nothing but the pairing key on both sides:
  the phone's HELLO makes the server open a tunnel and answer with one message, with which the phone is
  ready; and from then on, for every sequence of frames whose handling ends without closing the tunnel,
  the conversation over the encrypted tunnel gives the phone exactly the events of the answers that
  direct calls of the handlers would give, causes the same effects on the desktop, and leaves the
  server in the same state.
\<close>

theorem phone_talks_to_server:
  assumes "aead_ok cr" "aead_total cr" "length crnd = 32" "length srnd = 32" "get_pairing_key pid rs = Some key"
    and "init_tunnel cr crnd pid key ph = (Inr hello, ph1)"
    and "start_tunnel cr env now pid (Received hello) True srnd rs = (Some t, sent, rs1)" "tn_phase t = Serving"
    and "length fs < 2 ^ 64" "\<forall>f \<in> set fs. length (payload f) < 2 ^ 31"
    and "direct env now' pid (tn_chan t) fs rs1 = Some result"
  shows "\<exists>reply ph2. sent = [reply] \<and> process_binary cr pid reply ph1 = (Inr [TunnelReady pid], ph2)
    \<and> is_ready pid ph2 \<and> dialogue cr env now' pid fs (ph2, t, rs1) = Some result"
proof -
  obtain reply ph2 where *: "sent = [reply]" "process_binary cr pid reply ph1 = (Inr [TunnelReady pid], ph2)"
    "linked (length fs) pid ph2 t"
    using start_tunnel_linked [OF assms(1,3-5,9,6-8)] by blast
  moreover have "is_ready pid ph2" using *(3) by (auto simp: linked_def is_ready_def)
  ultimately show ?thesis using dialogue_direct [OF assms(1,2) *(3) assms(10,11)] by blast
qed

lemma toy_aead_total: "aead_total toy_crypto"
  by (simp add: aead_total_def toy_crypto_def)

lemma phone_talks_to_server_witness:
  "\<exists>hello ph1 t reply ph2 rs1.
     init_tunnel toy_crypto (replicate 32 1) ''p'' [7, 8] [] = (Inr hello, ph1)
     \<and> start_tunnel toy_crypto sample_env 0 ''p'' (Received hello) True (replicate 32 2) (add_pairing ''p'' [7, 8] remote_server_new)
         = (Some t, [reply], rs1)
     \<and> process_binary toy_crypto ''p'' reply ph1 = (Inr [TunnelReady ''p''], ph2) \<and> is_ready ''p'' ph2
     \<and> dialogue toy_crypto sample_env 1 ''p'' [subscribe_frame 7] (ph2, t, rs1)
         = Some ([TerminalError ''p'' (from_utf8_lossy (bytes_of_str ''invalid_terminal_id''))], [], rs1)"
proof -
  let ?rs = "add_pairing ''p'' [7, 8] remote_server_new"
  obtain hello where hello: "client_hello toy_crypto [7, 8] (replicate 32 1) = Inr hello" using toy_client_hello ..
  then obtain ph1 where init: "init_tunnel toy_crypto (replicate 32 1) ''p'' [7, 8] [] = (Inr hello, ph1)"
    by (simp add: init_tunnel_def client_hello_def)
  obtain c d sent where h: "handle_hello toy_crypto [7, 8] (Received hello) True (replicate 32 2) = (Some (c, d), sent)"
    using toy_handle_hello [OF hello] by blast
  have key: "get_pairing_key ''p'' ?rs = Some [7, 8]" by (simp add: get_pairing_key_def add_pairing_def hm_simps)
  define t where "t = fst (open_tunnel ''p'' (c, d) ?rs)"
  define rs1 where "rs1 = snd (open_tunnel ''p'' (c, d) ?rs)"
  have o': "open_tunnel ''p'' (c, d) ?rs = (t, rs1)" by (simp add: t_def rs1_def)
  have "pending_questions rs1 = []" "id_map rs1 = id_map_new"
    by (simp_all add: rs1_def open_tunnel_def add_pairing_def remote_server_new_def Let_def)
  then have start: "start_tunnel toy_crypto sample_env 0 ''p'' (Received hello) True (replicate 32 2) ?rs = (Some t, sent, rs1)"
    by (simp add: start_tunnel_def key h o' flush_all_pending_for_pairing_def)
  have serving: "tn_phase t = Serving" by (simp add: t_def open_tunnel_def Let_def)
  let ?e = "TerminalError ''p'' (from_utf8_lossy (bytes_of_str ''invalid_terminal_id''))"
  have "process_frame sample_env 1 (subscribe_frame 7) ''p'' (tn_chan t) rs1 = Done (Some (error_frame ''invalid_terminal_id''), False, [], rs1)"
    using \<open>id_map rs1 = id_map_new\<close>
    by (simp add: process_frame_def subscribe_frame_def frame_new_def frame_types handle_subscribe_def resolve_sid_def
        id_map_new_def lookup_sid_def hm_get_def reply_def)
  moreover have "answer_events ''p'' (Some (error_frame ''invalid_terminal_id'')) = [?e]"
    by (simp add: answer_events_def dispatch_frame_event_def error_frame_def frame_new_def frame_types)
  moreover have "\<not> 2 ^ 31 \<le> length (payload (error_frame ''invalid_terminal_id''))" by (simp add: error_frame_def frame_new_def)
  ultimately have d: "direct sample_env 1 ''p'' (tn_chan t) [subscribe_frame 7] rs1 = Some ([?e], [], rs1)" by simp
  have small: "\<forall>f \<in> set [subscribe_frame 7]. length (payload f) < 2 ^ 31" by (simp add: subscribe_frame_def frame_new_def)
  have l: "length (replicate 32 (1 :: u8)) = 32" "length (replicate 32 (2 :: u8)) = 32" "length [subscribe_frame 7] < 2 ^ 64" by simp_all
  from phone_talks_to_server [OF toy_aead_ok toy_aead_total l(1,2) key init start serving l(3) small d] init start
  show ?thesis by blast
qed

section \<open>What the phone shows\<close>

text \<open>A snapshot of a terminal arrives piece by piece, and the pieces are the whole snapshot.\<close>

fun event_data :: "mobile_event \<Rightarrow> bytes" where
  "event_data (TerminalHistory pid tid n l d) = d"
| "event_data (TerminalOutput pid tid d) = d"
| "event_data _ = []"

definition frame_events :: "string \<Rightarrow> Frame list \<Rightarrow> mobile_event list" where
  "frame_events pid fs = concat (map (\<lambda>f. dispatch_frame_event pid (frame_type f) (terminal_id f) (payload f)) fs)"

lemma history_event:
  "dispatch_frame_event pid (frame_type (history_frame tid n l d)) tid (payload (history_frame tid n l d)) = [TerminalHistory pid tid n l d]"
  by (simp add: dispatch_frame_event_def history_frame_def frame_new_def frame_types be32_def wire_simps)

lemma snapshot_shown: "concat (map event_data (frame_events pid (history_frames tid bs))) = bs"
proof -
  have "concat (map event_data (frame_events pid (number_history tid i cs))) = concat cs" for i cs
  proof (induction tid i cs rule: number_history.induct)
    case (2 tid i c cs)
    have "terminal_id (history_frame tid (word_of_nat i) (cs = []) c) = tid" by (simp add: history_frame_def frame_new_def)
    then show ?case using 2 by (simp add: frame_events_def history_event)
  qed (simp add: frame_events_def)
  then show ?thesis by (simp add: history_frames_def concat_chunks MAX_HISTORY_DATA_def)
qed

lemma output_shown: "frame_events pid [output_frame tid d] = [TerminalOutput pid tid d]"
  by (simp add: frame_events_def dispatch_frame_event_def output_frame_def frame_new_def frame_types)

text \<open>The answer to a pairing, the report on the desktop and a resolved question are not shown at all.\<close>

lemma answers_not_shown:
  "frame_events pid [desktop_pair_response_frame j, info_response_frame j', question_resolved_frame h tid q a] = []"
  by (simp add: frame_events_def dispatch_frame_event_def desktop_pair_response_frame_def info_response_frame_def
      question_resolved_frame_def frame_new_def frame_types)


end
