(* ===== verification/LockFile.thy ===== *)
theory LockFile
  imports RustText
begin

text \<open>
  The lock file by which a daemon is found (crates/daemon/src/lock.rs, on Unix).  The files are a map
  from paths to texts; JSON, the data directory and the signal 0 that asks for a process are
  parameters (\<open>lock_env\<close>).  A process checks the lock and writes it in two steps.
\<close>

record DaemonLock =
  lk_pid :: u32
  lk_socket_path :: string
  lk_version :: string
  lk_started_at :: string

text \<open>
  \<open>signal_reaches i\<close> is the success of \<open>kill(i, 0)\<close>.  \<open>unwritable\<close> is the error of writing the file, if
  the system refuses it.
\<close>

record lock_env =
  lock_text :: "DaemonLock \<Rightarrow> string"
  lock_of_text :: "string \<Rightarrow> DaemonLock option"
  data_dir :: "string option"
  signal_reaches :: "int \<Rightarrow> bool"
  unwritable :: "string option"

type_synonym lock_files = "(string, string) hm"

definition NO_DATA_DIR :: string where "NO_DATA_DIR = ''cannot determine data directory''"

definition lock_default_path :: "lock_env \<Rightarrow> string + string" where
  "lock_default_path env =
     (case data_dir env of None \<Rightarrow> Inl NO_DATA_DIR | Some d \<Rightarrow> Inr (d @ ''/daemon.lock''))"

definition default_socket_path :: "lock_env \<Rightarrow> string + string" where
  "default_socket_path env =
     (case data_dir env of None \<Rightarrow> Inl NO_DATA_DIR | Some d \<Rightarrow> Inr (d @ ''/daemon.sock''))"

definition lock_write :: "lock_env \<Rightarrow> DaemonLock \<Rightarrow> string \<Rightarrow> lock_files \<Rightarrow> (string + unit) \<times> lock_files" where
  "lock_write env l path fs =
     (case unwritable env of
        Some e \<Rightarrow> (Inl e, fs)
      | None \<Rightarrow> (Inr (), hm_insert path (lock_text env l @ [CHR 0x0A]) fs))"

text \<open>A missing file and a text that is no lock are the same to every caller.\<close>

definition lock_read :: "lock_env \<Rightarrow> string \<Rightarrow> lock_files \<Rightarrow> DaemonLock option" where
  "lock_read env path fs = Option.bind (hm_get fs path) (lock_of_text env)"

definition lock_remove :: "string \<Rightarrow> lock_files \<Rightarrow> lock_files" where
  "lock_remove path fs = hm_remove path fs"

text \<open>The number of the process is cast to a signed integer.\<close>

definition is_pid_alive :: "lock_env \<Rightarrow> u32 \<Rightarrow> bool" where
  "is_pid_alive env pid = signal_reaches env (sint pid)"

definition is_daemon_running :: "lock_env \<Rightarrow> string \<Rightarrow> lock_files \<Rightarrow> bool" where
  "is_daemon_running env path fs =
     (case lock_read env path fs of Some l \<Rightarrow> is_pid_alive env (lk_pid l) | None \<Rightarrow> False)"

definition lock_check :: "lock_env \<Rightarrow> lock_files \<Rightarrow> string + string" where
  "lock_check env fs =
     (case lock_default_path env of
        Inl e \<Rightarrow> Inl e
      | Inr path \<Rightarrow>
          if is_daemon_running env path fs then Inl (''daemon is already running (lock file: '' @ path @ '')'') else Inr path)"

text \<open>\<open>me\<close> is the lock with the number of this process, its version and the time.\<close>

definition lock_acquire :: "lock_env \<Rightarrow> DaemonLock \<Rightarrow> string \<Rightarrow> lock_files \<Rightarrow> (string + DaemonLock) \<times> lock_files" where
  "lock_acquire env me socket fs =
     (case lock_check env fs of
        Inl e \<Rightarrow> (Inl e, fs)
      | Inr path \<Rightarrow>
          (let l = me\<lparr>lk_socket_path := socket\<rparr>
           in case lock_write env l path fs of (Inl e, fs') \<Rightarrow> (Inl e, fs') | (Inr _, fs') \<Rightarrow> (Inr l, fs')))"

definition find_daemon_socket :: "lock_env \<Rightarrow> lock_files \<Rightarrow> (string + string option) \<times> lock_files" where
  "find_daemon_socket env fs =
     (case lock_default_path env of
        Inl e \<Rightarrow> (Inl e, fs)
      | Inr path \<Rightarrow>
          if hm_get fs path = None then (Inr None, fs)
          else (case lock_read env path fs of
                  None \<Rightarrow> (Inr None, lock_remove path fs)
                | Some l \<Rightarrow>
                    if is_pid_alive env (lk_pid l) then (Inr (Some (lk_socket_path l)), fs)
                    else (Inr None, lock_remove path fs)))"

section \<open>One daemon after another\<close>

text \<open>What is relied on of JSON: the text of a lock, with the newline behind it, is read back.\<close>

definition lock_json_ok :: "lock_env \<Rightarrow> bool" where
  "lock_json_ok env \<longleftrightarrow> (\<forall>l. lock_of_text env (lock_text env l @ [CHR 0x0A]) = Some l)"

lemma acquired_is_found:
  assumes "lock_json_ok env" "lock_acquire env me socket fs = (Inr l, fs')"
  shows "if is_pid_alive env (lk_pid me)
    then find_daemon_socket env fs' = (Inr (Some socket), fs') \<and> (\<exists>e. lock_acquire env other socket' fs' = (Inl e, fs'))
    else fst (find_daemon_socket env fs') = Inr None
      \<and> (unwritable env = None \<longrightarrow> fst (lock_acquire env other socket' fs') = Inr (other\<lparr>lk_socket_path := socket'\<rparr>))"
proof -
  obtain d where d: "data_dir env = Some d"
    using assms(2) by (auto simp: lock_acquire_def lock_check_def lock_default_path_def split: option.splits)
  then have p: "lock_default_path env = Inr (d @ ''/daemon.lock'')" by (simp add: lock_default_path_def)
  have fs': "unwritable env = None" "hm_get fs' (d @ ''/daemon.lock'') = Some (lock_text env (me\<lparr>lk_socket_path := socket\<rparr>) @ [CHR 0x0A])"
    using assms(2) by (auto simp: lock_acquire_def lock_check_def p lock_write_def Let_def hm_simps split: if_splits option.splits)
  then have r: "lock_read env (d @ ''/daemon.lock'') fs' = Some (me\<lparr>lk_socket_path := socket\<rparr>)"
    using assms(1) by (simp add: lock_read_def lock_json_ok_def)
  show ?thesis
    by (simp add: find_daemon_socket_def lock_acquire_def lock_check_def p is_daemon_running_def r fs' lock_write_def Let_def)
qed

text \<open>Two processes that check before either writes both come to hold the lock.\<close>

lemma lock_not_exclusive:
  assumes "lock_check env fs = Inr path" "unwritable env = None"
  shows "\<exists>fs1 fs2. lock_write env one path fs = (Inr (), fs1) \<and> lock_write env two path fs1 = (Inr (), fs2)
    \<and> (lock_json_ok env \<longrightarrow> lock_read env path fs2 = Some two)"
  using assms(2) by (simp add: lock_write_def lock_read_def lock_json_ok_def hm_simps)

text \<open>
  A lock with the number 0 asks for the group of the asking process itself, which is always there: such
  a file counts as a running daemon for ever.
\<close>

lemma pid_zero_runs:
  "signal_reaches env 0 \<Longrightarrow> lock_default_path env = Inr path \<Longrightarrow> lock_read env path fs = Some l \<Longrightarrow> lk_pid l = 0
     \<Longrightarrow> \<exists>e. lock_acquire env me socket fs = (Inl e, fs)"
  by (simp add: lock_acquire_def lock_check_def is_daemon_running_def is_pid_alive_def)

end
