(* ===== verification/LocalShell.thy ===== *)
theory LocalShell
  imports Template Json
begin

text \<open>
  The shell of a local terminal (crates/core/src/local/shell.rs, on Unix): the default one, the list
  that is offered, and the check of a shell that another device asks for.  The environment, the
  search of the path and the file system are parameters (\<open>shell_env\<close>).
\<close>

record shell_env =
  shell_var :: "string option"
  which_ok :: "string \<Rightarrow> bool"
  path_exists :: "string \<Rightarrow> bool"
  file_mode :: "string \<Rightarrow> u32 option"

definition detect_default_shell :: "shell_env \<Rightarrow> string" where
  "detect_default_shell env =
     (case shell_var env of
        Some s \<Rightarrow> s
      | None \<Rightarrow> if which_ok env ''zsh'' then ''/bin/zsh'' else ''/bin/bash'')"

definition list_available_shells :: "shell_env \<Rightarrow> string list" where
  "list_available_shells env =
     (if which_ok env ''zsh'' then [''zsh''] else []) @ (if which_ok env ''bash'' then [''bash''] else [])"

definition KNOWN_SHELLS :: "string list" where
  "KNOWN_SHELLS =
     [''zsh'', ''bash'', ''sh'', ''fish'', ''dash'', ''ksh'', ''tcsh'', ''csh'', ''pwsh'', ''powershell'', ''cmd.exe'']"

text \<open>The last component of a path, as the standard library takes it.\<close>

definition shell_file_name :: "string \<Rightarrow> string option" where
  "shell_file_name path =
     (let cs = filter (\<lambda>c. c \<noteq> [] \<and> c \<noteq> ''.'') (split_on CHR ''/'' path)
      in if cs = [] \<or> last cs = ''..'' then None else Some (last cs))"

definition shell_known :: "string \<Rightarrow> bool" where
  "shell_known shell \<longleftrightarrow>
     list_ex (\<lambda>s. map lower_char (str_or shell (shell_file_name shell)) = map lower_char s) KNOWN_SHELLS"

definition check_shell :: "shell_env \<Rightarrow> string \<Rightarrow> string option" where
  "check_shell env shell =
     (if shell = [] then None
      else if \<not> shell_known shell then None
      else if CHR ''/'' \<notin> set shell \<and> CHR 0x5C \<notin> set shell
        then (if which_ok env shell then Some shell else None)
      else if \<not> path_exists env shell then None
      else (case file_mode env shell of
              Some mode \<Rightarrow> if mode AND 0x49 = 0 then None else Some shell
            | None \<Rightarrow> Some shell))"

section \<open>What another device can have run\<close>

lemma check_shell_Some:
  assumes "check_shell env shell = Some p"
  shows "p = shell" "shell_known shell" "which_ok env shell \<or> path_exists env shell"
    "\<And>mode. CHR ''/'' \<in> set shell \<Longrightarrow> file_mode env shell = Some mode \<Longrightarrow> mode AND 0x49 \<noteq> 0"
  using assms by (auto simp: check_shell_def split: if_splits option.splits)

text \<open>The name is all that is checked: any executable file of that name passes, relative paths too.\<close>

lemma planted_shell_passes:
  "path_exists env ''tmp/x/bash'' \<Longrightarrow> file_mode env ''tmp/x/bash'' = Some 0x1ED \<Longrightarrow> check_shell env ''tmp/x/bash'' = Some ''tmp/x/bash''"
  by (simp add: check_shell_def shell_known_def shell_file_name_def KNOWN_SHELLS_def str_or_def)

end
