(* ===== verification/SshClient.thy ===== *)
theory SshClient
  imports ServerHandlers
begin

text \<open>
  The SSH client of a server (crates/core/src/ssh/client.rs) and its authentication (ssh/auth.rs):
  dialing with a look at the first bytes, the check of the host key, connecting, reconnecting, keys.
  The SSH library is a parameter (\<open>ssh_lib\<close>): its key exchange is given the code's handler and may
  call it.  What the operating system answers while a connection is dialed is a record (\<open>ssh_dial\<close>).
\<close>

section \<open>Reading ahead\<close>

text \<open>The stream handed to the library: the bytes read already, then the socket.\<close>

record PrefixedStream =
  ps_prefix :: bytes
  ps_prefix_pos :: nat
  ps_inner :: sock

definition poll_read :: "nat \<Rightarrow> (PrefixedStream, io_error, bytes) io" where
  "poll_read cap p =
     (if ps_prefix_pos p < length (ps_prefix p)
      then (let remaining = drop (ps_prefix_pos p) (ps_prefix p); n = min (length remaining) cap
            in (Inr (take n remaining), p\<lparr>ps_prefix_pos := ps_prefix_pos p + n\<rparr>))
      else (case read_some cap (ps_inner p) of (r, s) \<Rightarrow> (r, p\<lparr>ps_inner := s\<rparr>)))"

definition poll_write :: "bytes \<Rightarrow> (PrefixedStream, io_error, unit) io" where
  "poll_write bs p = (case write_all bs (ps_inner p) of (r, s) \<Rightarrow> (r, p\<lparr>ps_inner := s\<rparr>))"

text \<open>Lines a server sends before its identification, at most three that are not blank.\<close>

definition pre_banner :: "bytes \<Rightarrow> string" where
  "pre_banner bs =
     join '' | '' (take 3 (filter (\<lambda>l. trim l \<noteq> [])
       (takeWhile (\<lambda>l. \<not> prefix ''SSH-'' l) (RustText.lines (from_utf8_lossy bs)))))"

section \<open>Dialing\<close>

datatype connect_start = Completed | InProgress | NotStarted io_error

text \<open>
  What the system answers to one attempt, in the order of the calls: the addresses, the socket and its
  mode, the hook that protects it, the start of the connection with its registration, whether it became writable within ten seconds,
  its pending error, and the socket itself.  \<open>dl_silent\<close>: nothing arrives within five seconds.
  \<open>dl_too_late\<close>: all of it takes more than ten.
\<close>

record 'addr ssh_dial =
  dl_addresses :: "io_error + 'addr list"
  dl_socket :: "'addr \<Rightarrow> io_error + unit"
  dl_protect :: "io_error + unit"
  dl_start :: "'addr \<Rightarrow> connect_start"
  dl_writable :: "(io_error + unit) option"
  dl_pending :: "io_error + io_error option"
  dl_peer :: "'addr \<Rightarrow> sock"
  dl_silent :: bool
  dl_too_late :: bool

text \<open>The end of \<open>connect_socket\<close>: waiting for the connection that was started.\<close>

definition await_socket :: "'addr ssh_dial \<Rightarrow> 'addr \<Rightarrow> io_error + sock" where
  "await_socket d a =
     (case dl_writable d of
        None \<Rightarrow> Inl (OtherIo ''connect timed out'')
      | Some (Inl e) \<Rightarrow> Inl e
      | Some (Inr _) \<Rightarrow>
          (case dl_pending d of
             Inl e \<Rightarrow> Inl e
           | Inr (Some e) \<Rightarrow> Inl e
           | Inr None \<Rightarrow> Inr (dl_peer d a)))"

definition connect_socket :: "'addr ssh_dial \<Rightarrow> string \<Rightarrow> bool \<Rightarrow> io_error + sock" where
  "connect_socket d addr protector =
     try_res (dl_addresses d) (\<lambda>addrs.
     case addrs of
       [] \<Rightarrow> Inl (OtherIo (''no address found for '' @ addr))
     | a # _ \<Rightarrow>
         try_res (dl_socket d a) (\<lambda>_.
         try_res (if protector then dl_protect d else Inr ()) (\<lambda>_.
         case dl_start d a of NotStarted e \<Rightarrow> Inl e | _ \<Rightarrow> await_socket d a)))"

definition connect_and_peek :: "'addr ssh_dial \<Rightarrow> string \<Rightarrow> bool \<Rightarrow> io_error + string \<times> PrefixedStream" where
  "connect_and_peek d addr protector =
     try_res (connect_socket d addr protector) (\<lambda>stream.
     case (if dl_silent d then (Inr [], stream) else read_some 2048 stream) of
       (Inl e, _) \<Rightarrow> Inl e
     | (Inr bs, stream') \<Rightarrow>
         if bs = [] then Inr ([], \<lparr>ps_prefix = [], ps_prefix_pos = 0, ps_inner = stream'\<rparr>)
         else Inr (pre_banner bs, \<lparr>ps_prefix = bs, ps_prefix_pos = 0, ps_inner = stream'\<rparr>))"

section \<open>The handler of the library's callbacks\<close>

text \<open>
  The callback on a mismatch acts on the world.  A fingerprint is the text \<open>SHA256:\<close> with the hash
  the library computes.
\<close>

type_synonym 'w mismatch_callback = "string \<Rightarrow> string \<Rightarrow> 'w \<Rightarrow> 'w"

record 'w SshHandler =
  sh_known_host_key :: "string option"
  sh_skip_verify :: bool
  sh_recorded :: "string option"
  sh_mismatch :: "'w mismatch_callback option"

definition fingerprint :: "string \<Rightarrow> string" where
  "fingerprint key_hash = ''SHA256:'' @ key_hash"

text \<open>\<open>dbg\<close>: a debug build, the only one in which the check can be skipped.\<close>

definition check_server_key :: "bool \<Rightarrow> string \<Rightarrow> 'w SshHandler \<Rightarrow> 'w \<Rightarrow> bool \<times> 'w SshHandler \<times> 'w" where
  "check_server_key dbg key_hash h w =
     (let fp = fingerprint key_hash
      in if dbg \<and> sh_skip_verify h then (True, h, w)
         else case sh_known_host_key h of
           Some k \<Rightarrow>
             if fp = k then (True, h, w)
             else (False, h\<lparr>sh_recorded := Some fp\<rparr>,
                   case sh_mismatch h of Some cb \<Rightarrow> cb k fp w | None \<Rightarrow> w)
         | None \<Rightarrow> (True, h\<lparr>sh_recorded := Some fp\<rparr>, w))"

text \<open>A channel the server opens for a forwarded port, whose number is cast to 16 bits.\<close>

definition server_channel_open_forwarded_tcpip ::
  "string \<Rightarrow> u32 \<Rightarrow> nat \<Rightarrow> PortForwardManager \<Rightarrow> PortForwardManager" where
  "server_channel_open_forwarded_tcpip addr port ch pf = snd (dispatch (addr, ucast port) ch pf)"

section \<open>The library\<close>

datatype russh_error = UnknownKey | RusshError string

text \<open>
  \<open>kex\<close> runs the key exchange over a stream with a check of the host key and a handler; \<open>pass_auth\<close> and
  \<open>key_auth\<close> give the verdict of the server and the banners it sent.  Files of keys, the home
  directory and the lock of the state (\<open>state_free\<close>) are what the code asks of the system.
\<close>

record ('h, 'k, 'a, 'w) ssh_lib =
  kex :: "PrefixedStream \<Rightarrow> (string \<Rightarrow> 'w SshHandler \<Rightarrow> 'w \<Rightarrow> bool \<times> 'w SshHandler \<times> 'w) \<Rightarrow>
            'w SshHandler \<Rightarrow> 'w \<Rightarrow> (russh_error + 'h) \<times> 'w SshHandler \<times> 'w"
  pass_auth :: "'h \<Rightarrow> string \<Rightarrow> string \<Rightarrow> 'w \<Rightarrow> (string + bool) \<times> string list \<times> 'w"
  key_auth :: "'h \<Rightarrow> string \<Rightarrow> 'k \<Rightarrow> 'w \<Rightarrow> (string + bool) \<times> string list \<times> 'w"
  handle_closed :: "'h \<Rightarrow> 'w \<Rightarrow> bool"
  say_goodbye :: "'h \<Rightarrow> 'w \<Rightarrow> 'w"
  lib_open_direct :: "'h \<Rightarrow> string \<Rightarrow> u32 \<Rightarrow> 'w \<Rightarrow> (string + nat) \<times> 'w"
  lib_exec :: "'h \<Rightarrow> string \<Rightarrow> u64 \<Rightarrow> 'w \<Rightarrow> (Error + ExecResult) \<times> 'w"
  dial_next :: "string \<Rightarrow> 'w \<Rightarrow> 'a ssh_dial \<times> 'w"
  ssh_sleep :: "u64 \<Rightarrow> 'w \<Rightarrow> 'w"
  state_free :: "'w \<Rightarrow> bool"
  user_home :: "string option"
  key_exists :: "string \<Rightarrow> 'w \<Rightarrow> bool"
  load_secret_key :: "string \<Rightarrow> string option \<Rightarrow> 'w \<Rightarrow> string + 'k"
  show_russh :: "russh_error \<Rightarrow> string"
  show_dial :: "io_error \<Rightarrow> string"

section \<open>Authentication\<close>

definition expand_tilde :: "string option \<Rightarrow> string \<Rightarrow> string" where
  "expand_tilde home path =
     (if prefix ''~/'' path then (case home of Some d \<Rightarrow> d @ drop 1 path | None \<Rightarrow> path) else path)"

definition check_key_exists :: "('h, 'k, 'a, 'w) ssh_lib \<Rightarrow> string \<Rightarrow> 'w \<Rightarrow> bool" where
  "check_key_exists lib path w = key_exists lib (expand_tilde (user_home lib) path) w"

definition load_keypair :: "('h, 'k, 'a, 'w) ssh_lib \<Rightarrow> string \<Rightarrow> string option \<Rightarrow> 'w \<Rightarrow> Error + 'k" where
  "load_keypair lib key_path passphrase w =
     (let path = expand_tilde (user_home lib) key_path
      in if \<not> key_exists lib path w
         then Inl (ipc_err CredentialNotFound (''key file not found: '' @ key_path))
         else map_err (\<lambda>e. ipc_err AuthFailed (''failed to load key from '' @ key_path @ '': '' @ e))
                (load_secret_key lib path passphrase w))"

definition ssh_authenticate ::
  "('h, 'k, 'a, 'w) ssh_lib \<Rightarrow> 'h \<Rightarrow> string \<Rightarrow> AuthMethod \<Rightarrow> 'w \<Rightarrow> (Error + bool) \<times> string list \<times> 'w" where
  "ssh_authenticate lib link user auth w =
     (case auth of
        PasswordAuth password \<Rightarrow>
          (case pass_auth lib link user password w of (r, banners, w') \<Rightarrow>
             (map_err (\<lambda>e. ipc_err AuthFailed (''password auth error: '' @ e)) r, banners, w'))
      | KeyAuth key_path passphrase \<Rightarrow>
          (case load_keypair lib key_path passphrase w of
             Inl e \<Rightarrow> (Inl e, [], w)
           | Inr key \<Rightarrow>
               (case key_auth lib link user key w of (r, banners, w') \<Rightarrow>
                  (map_err (\<lambda>e. ipc_err AuthFailed (''key auth error: '' @ e)) r, banners, w'))))"

section \<open>The client\<close>

datatype ssh_state = SshConnecting | SshConnected | SshReconnecting u32 u32 | SshAuthFailed | SshIdle

record 'w SshClientConfig =
  cc_host :: string
  cc_port :: u16
  cc_user :: string
  cc_heartbeat_interval :: u64
  cc_max_attempts :: u32
  cc_initial_backoff_secs :: u64
  cc_max_backoff_secs :: u64
  cc_skip_hostkey_verify :: bool
  cc_known_host_key :: "string option"
  cc_mismatch_callback :: "'w mismatch_callback option"
  cc_socket_protector :: bool

record ('h, 'w) SshClientHandle =
  sc_config :: "'w SshClientConfig"
  sc_handle :: "'h option"
  sc_state :: ssh_state
  sc_auth_banner :: "string option"
  sc_recorded_key :: "string option"

definition ssh_config_default :: "'w SshClientConfig" where
  "ssh_config_default =
     \<lparr>cc_host = [], cc_port = 22, cc_user = ''root'', cc_heartbeat_interval = 15, cc_max_attempts = 10,
      cc_initial_backoff_secs = 1, cc_max_backoff_secs = 30, cc_skip_hostkey_verify = False,
      cc_known_host_key = None, cc_mismatch_callback = None, cc_socket_protector = False\<rparr>"

text \<open>The configuration a server instance makes its client with.\<close>

definition ssh_config_of :: "ServerConfig \<Rightarrow> 'w SshClientConfig" where
  "ssh_config_of cfg =
     \<lparr>cc_host = ssh_host (srv_ssh cfg), cc_port = ssh_port (srv_ssh cfg), cc_user = ssh_user (srv_ssh cfg),
      cc_heartbeat_interval = rc_heartbeat_interval (srv_reconnect cfg),
      cc_max_attempts = rc_max_attempts (srv_reconnect cfg),
      cc_initial_backoff_secs = rc_initial_backoff_secs (srv_reconnect cfg),
      cc_max_backoff_secs = rc_max_backoff_secs (srv_reconnect cfg),
      cc_skip_hostkey_verify = ssh_skip_hostkey_verify (srv_ssh cfg),
      cc_known_host_key = ssh_host_key_fingerprint (srv_ssh cfg), cc_mismatch_callback = None,
      cc_socket_protector = False\<rparr>"

definition ssh_client_new :: "'w SshClientConfig \<Rightarrow> ('h, 'w) SshClientHandle" where
  "ssh_client_new cfg =
     \<lparr>sc_config = cfg, sc_handle = None, sc_state = SshIdle, sc_auth_banner = None, sc_recorded_key = None\<rparr>"

definition set_mismatch_callback ::
  "'w mismatch_callback \<Rightarrow> ('h, 'w) SshClientHandle \<Rightarrow> ('h, 'w) SshClientHandle" where
  "set_mismatch_callback cb c = c\<lparr>sc_config := (sc_config c)\<lparr>cc_mismatch_callback := Some cb\<rparr>\<rparr>"

definition set_socket_protector :: "bool \<Rightarrow> ('h, 'w) SshClientHandle \<Rightarrow> ('h, 'w) SshClientHandle" where
  "set_socket_protector b c = c\<lparr>sc_config := (sc_config c)\<lparr>cc_socket_protector := b\<rparr>\<rparr>"

text \<open>On the error paths the state is set only if its lock is free.\<close>

definition set_state_sync ::
  "('h, 'k, 'a, 'w) ssh_lib \<Rightarrow> ssh_state \<Rightarrow> ('h, 'w) SshClientHandle \<Rightarrow> 'w \<Rightarrow> ('h, 'w) SshClientHandle" where
  "set_state_sync lib st c w = (if state_free lib w then c\<lparr>sc_state := st\<rparr> else c)"

definition mismatch_detail :: "string option \<Rightarrow> string option \<Rightarrow> string" where
  "mismatch_detail known actual =
     (case (known, actual) of
        (Some k, Some a) \<Rightarrow> ''expected: '' @ k @ '', got: '' @ a
      | (Some k, None) \<Rightarrow> ''expected: '' @ k @ '', got: <unknown>''
      | _ \<Rightarrow> ''host key verification failed'')"

definition connect_error :: "('h, 'k, 'a, 'w) ssh_lib \<Rightarrow> string \<Rightarrow> string \<Rightarrow> russh_error \<Rightarrow> Error" where
  "connect_error lib addr banner e =
     (let base = ''SSH connect to '' @ addr @ '' failed: '' @ show_russh lib e
      in ipc_err SshConnectFailed (if banner = [] then base else base @ '' (server message: '' @ banner @ '')''))"

text \<open>
  The last phase of \<open>connect\<close>, with an established connection: authentication, whose banners end up in
  the client, the latest one last, and then the connection and the recorded key are kept.
\<close>

definition finish_connect ::
  "('h, 'k, 'a, 'w) ssh_lib \<Rightarrow> AuthMethod \<Rightarrow> 'h \<Rightarrow> string option \<Rightarrow> ('h, 'w) SshClientHandle \<Rightarrow> 'w \<Rightarrow>
   (Error + unit) \<times> ('h, 'w) SshClientHandle \<times> 'w" where
  "finish_connect lib auth link recorded c w =
     (case ssh_authenticate lib link (cc_user (sc_config c)) auth w of
        (r, banners, w') \<Rightarrow>
          (let c' = fold (\<lambda>b c. c\<lparr>sc_auth_banner := Some b\<rparr>) banners c
           in case r of
                Inl e \<Rightarrow> (Inl e, set_state_sync lib SshAuthFailed c' w', w')
              | Inr False \<Rightarrow>
                  (Inl (ipc_err AuthFailed ''authentication rejected by server''), c'\<lparr>sc_state := SshAuthFailed\<rparr>, w')
              | Inr True \<Rightarrow>
                  (Inr (), c'\<lparr>sc_handle := Some link,
                     sc_recorded_key := (case recorded of Some k \<Rightarrow> Some k | None \<Rightarrow> sc_recorded_key c'),
                     sc_state := SshConnected\<rparr>, w')))"

definition ssh_connect ::
  "('h, 'k, 'a, 'w) ssh_lib \<Rightarrow> bool \<Rightarrow> AuthMethod \<Rightarrow> ('h, 'w) SshClientHandle \<Rightarrow> 'w \<Rightarrow>
   (Error + unit) \<times> ('h, 'w) SshClientHandle \<times> 'w" where
  "ssh_connect lib dbg auth c0 w0 =
     (let c = c0\<lparr>sc_state := SshConnecting, sc_auth_banner := None, sc_recorded_key := None\<rparr>;
          cfg = sc_config c;
          handler = \<lparr>sh_known_host_key = cc_known_host_key cfg, sh_skip_verify = cc_skip_hostkey_verify cfg,
                     sh_recorded = None, sh_mismatch = cc_mismatch_callback cfg\<rparr>;
          addr = cc_host cfg @ '':'' @ show_nat (unat (cc_port cfg));
          (d, w) = dial_next lib addr w0
      in if dl_too_late d
         then (Inl (ipc_err SshConnectFailed (''SSH connect to '' @ addr @ '' timed out'')),
               set_state_sync lib SshIdle c w, w)
         else case connect_and_peek d addr (cc_socket_protector cfg) of
           Inl e \<Rightarrow>
             (Inl (ipc_err SshConnectFailed (''SSH connect to '' @ addr @ '' failed: '' @ show_dial lib e)),
              set_state_sync lib SshIdle c w, w)
         | Inr (banner, stream) \<Rightarrow>
             (case kex lib stream (check_server_key dbg) handler w of
                (Inl e, handler', w1) \<Rightarrow>
                  (Inl (if e = UnknownKey
                        then ipc_err HostKeyMismatch (mismatch_detail (cc_known_host_key cfg) (sh_recorded handler'))
                        else connect_error lib addr banner e),
                   set_state_sync lib SshIdle c w1, w1)
              | (Inr link, handler', w1) \<Rightarrow> finish_connect lib auth link (sh_recorded handler') c w1))"

definition get_recorded_host_key :: "('h, 'w) SshClientHandle \<Rightarrow> string option" where
  "get_recorded_host_key c = sc_recorded_key c"

definition get_mismatched_host_key :: "('h, 'w) SshClientHandle \<Rightarrow> string option" where
  "get_mismatched_host_key c = sc_recorded_key c"

definition accept_host_key :: "string \<Rightarrow> ('h, 'w) SshClientHandle \<Rightarrow> ('h, 'w) SshClientHandle" where
  "accept_host_key fp c =
     c\<lparr>sc_config := (sc_config c)\<lparr>cc_known_host_key := Some fp\<rparr>, sc_recorded_key := None\<rparr>"

text \<open>
  Attempts are counted from one and never exceed the greater of one and the limit, so their number
  does not wrap.  The pause is doubled as in a release build, which wraps, and then limited.
\<close>

function ssh_reconnect ::
  "('h, 'k, 'a, 'w) ssh_lib \<Rightarrow> bool \<Rightarrow> AuthMethod \<Rightarrow> u32 \<Rightarrow> u64 \<Rightarrow> nat \<Rightarrow> u64 \<Rightarrow> ('h, 'w) SshClientHandle \<Rightarrow> 'w \<Rightarrow>
   (Error + unit) \<times> ('h, 'w) SshClientHandle \<times> 'w" where
  "ssh_reconnect lib dbg auth max_attempts max_backoff attempt0 backoff c w =
     (let attempt = attempt0 + 1;
          (c1, w1) = (if 1 < attempt
                      then (c\<lparr>sc_state := SshReconnecting (word_of_nat (attempt - 1)) max_attempts\<rparr>, ssh_sleep lib backoff w)
                      else (c, w))
      in case ssh_connect lib dbg auth c1 w1 of
           (Inr _, c2, w2) \<Rightarrow> (Inr (), c2, w2)
         | (Inl e, c2, w2) \<Rightarrow>
             if (case e of Ipc ipc \<Rightarrow> err_code ipc = AuthFailed | _ \<Rightarrow> False) then (Inl e, c2, w2)
             else if unat max_attempts \<le> attempt then (Inl e, c2\<lparr>sc_state := SshIdle\<rparr>, w2)
             else ssh_reconnect lib dbg auth max_attempts max_backoff attempt (min (backoff * 2) max_backoff) c2 w2)"
  by pat_completeness auto
termination
  by (relation "measure (\<lambda>(lib, dbg, auth, max_attempts, max_backoff, attempt, backoff, c, w). unat max_attempts - attempt)") auto

declare ssh_reconnect.simps [simp del]

definition ssh_connect_with_reconnect ::
  "('h, 'k, 'a, 'w) ssh_lib \<Rightarrow> bool \<Rightarrow> AuthMethod \<Rightarrow> ('h, 'w) SshClientHandle \<Rightarrow> 'w \<Rightarrow>
   (Error + unit) \<times> ('h, 'w) SshClientHandle \<times> 'w" where
  "ssh_connect_with_reconnect lib dbg auth c w =
     ssh_reconnect lib dbg auth (cc_max_attempts (sc_config c)) (cc_max_backoff_secs (sc_config c)) 0
       (cc_initial_backoff_secs (sc_config c)) c w"

definition ssh_disconnect ::
  "('h, 'k, 'a, 'w) ssh_lib \<Rightarrow> ('h, 'w) SshClientHandle \<Rightarrow> 'w \<Rightarrow> (Error + unit) \<times> ('h, 'w) SshClientHandle \<times> 'w" where
  "ssh_disconnect lib c w =
     (Inr (), c\<lparr>sc_handle := None, sc_state := SshIdle\<rparr>,
      case sc_handle c of Some link \<Rightarrow> say_goodbye lib link w | None \<Rightarrow> w)"

definition ssh_is_connected :: "('h, 'k, 'a, 'w) ssh_lib \<Rightarrow> ('h, 'w) SshClientHandle \<Rightarrow> 'w \<Rightarrow> bool" where
  "ssh_is_connected lib c w = (case sc_handle c of Some link \<Rightarrow> \<not> handle_closed lib link w | None \<Rightarrow> False)"

definition NOT_ESTABLISHED :: Error where
  "NOT_ESTABLISHED = ipc_err SshDisconnected ''SSH connection is not established''"

definition ssh_exec ::
  "('h, 'k, 'a, 'w) ssh_lib \<Rightarrow> string \<Rightarrow> u64 \<Rightarrow> ('h, 'w) SshClientHandle \<Rightarrow> 'w \<Rightarrow> (Error + ExecResult) \<times> 'w" where
  "ssh_exec lib command timeout c w =
     (case sc_handle c of None \<Rightarrow> (Inl NOT_ESTABLISHED, w) | Some link \<Rightarrow> lib_exec lib link command timeout w)"

definition open_direct_tcpip ::
  "('h, 'k, 'a, 'w) ssh_lib \<Rightarrow> string \<Rightarrow> u32 \<Rightarrow> ('h, 'w) SshClientHandle \<Rightarrow> 'w \<Rightarrow> (Error + nat) \<times> 'w" where
  "open_direct_tcpip lib host port c w =
     (case sc_handle c of
        None \<Rightarrow> (Inl NOT_ESTABLISHED, w)
      | Some link \<Rightarrow>
          (case lib_open_direct lib link host port w of
             (r, w') \<Rightarrow> (map_err (\<lambda>e. Ssh (''failed to open direct-tcpip channel: '' @ e)) r, w')))"

section \<open>Keys\<close>

text \<open>What generating a key asks of the library and of the system.\<close>

record ('key, 'w) keygen =
  kg_mkdir :: "string \<Rightarrow> 'w \<Rightarrow> io_error option"
  kg_random :: "'w \<Rightarrow> string + 'key"
  kg_fill :: "'w \<Rightarrow> string + bytes"
  kg_base64 :: "bytes \<Rightarrow> string"
  kg_encrypt :: "'key \<Rightarrow> string \<Rightarrow> string + 'key"
  kg_private_text :: "'key \<Rightarrow> string + string"
  kg_public_text :: "'key \<Rightarrow> string + string"
  kg_write :: "string \<Rightarrow> string \<Rightarrow> bool \<Rightarrow> 'w \<Rightarrow> (io_error + unit) \<times> 'w"

definition ascii_alphanumeric :: "char \<Rightarrow> bool" where
  "ascii_alphanumeric c \<longleftrightarrow> is_digit c
     \<or> (65 \<le> (of_char c :: nat) \<and> (of_char c :: nat) \<le> 90) \<or> (97 \<le> (of_char c :: nat) \<and> (of_char c :: nat) \<le> 122)"

definition id_char :: "char \<Rightarrow> bool" where
  "id_char c \<longleftrightarrow> ascii_alphanumeric c \<or> c = CHR ''-'' \<or> c = CHR ''_''"

definition key_file :: "string \<Rightarrow> string \<Rightarrow> string" where
  "key_file dir sid = dir @ ''/termfast_'' @ sid @ ''_key''"

definition pub_key_file :: "string \<Rightarrow> string \<Rightarrow> string" where
  "pub_key_file dir sid = dir @ ''/termfast_'' @ sid @ ''_key.pub''"

definition generate_keypair_bytes :: "('key, 'w) keygen \<Rightarrow> 'w \<Rightarrow> Error + 'key \<times> string" where
  "generate_keypair_bytes kg w =
     try_res (map_err (\<lambda>e. Error.Crypto (''key generation failed: '' @ e)) (kg_random kg w)) (\<lambda>key.
     try_res (map_err (\<lambda>e. Error.Crypto (''rng error: '' @ e)) (kg_fill kg w)) (\<lambda>bs.
     Inr (key, kg_base64 kg bs)))"

text \<open>The key, the passphrase and the text of the private key encrypted with it.\<close>

definition encrypted_key :: "('key, 'w) keygen \<Rightarrow> 'w \<Rightarrow> Error + 'key \<times> string \<times> string" where
  "encrypted_key kg w =
     try_res (generate_keypair_bytes kg w) (\<lambda>(key, passphrase).
     try_res (map_err (\<lambda>e. Error.Crypto (''key encryption failed: '' @ e)) (kg_encrypt kg key passphrase)) (\<lambda>locked.
     try_res (map_err (\<lambda>e. Error.Crypto (''key encode failed: '' @ e)) (kg_private_text kg locked)) (\<lambda>priv.
     Inr (key, passphrase, priv))))"

text \<open>The private key is written encrypted and readable by its owner only (\<open>True\<close>), then the public key.\<close>

definition write_keys ::
  "('key, 'w) keygen \<Rightarrow> string \<Rightarrow> string \<Rightarrow> 'key \<times> string \<times> string \<Rightarrow> 'w \<Rightarrow>
   (Error + string \<times> string \<times> string) \<times> 'w" where
  "write_keys kg dir sid made w =
     (case made of (key, passphrase, priv) \<Rightarrow>
        (case kg_write kg (key_file dir sid) priv True w of
           (Inl e, w1) \<Rightarrow> (Inl (Io e), w1)
         | (Inr _, w1) \<Rightarrow>
             (case map_err (\<lambda>e. Error.Crypto (''pubkey encode failed: '' @ e)) (kg_public_text kg key) of
                Inl e \<Rightarrow> (Inl e, w1)
              | Inr pub \<Rightarrow>
                  (let line = pub @ '' termfast@'' @ sid
                   in case kg_write kg (pub_key_file dir sid) line False w1 of
                        (Inl e, w2) \<Rightarrow> (Inl (Io e), w2)
                      | (Inr _, w2) \<Rightarrow> (Inr (key_file dir sid, line, passphrase), w2)))))"

definition generate_keypair_at ::
  "('key, 'w) keygen \<Rightarrow> string \<Rightarrow> string \<Rightarrow> 'w \<Rightarrow> (Error + string \<times> string \<times> string) \<times> 'w" where
  "generate_keypair_at kg dir sid w =
     (if sid = [] \<or> \<not> list_all id_char sid
      then (Inl (ipc_err InvalidParams ''invalid server_id: only alphanumeric, hyphen, underscore allowed''), w)
      else case kg_mkdir kg dir w of
        Some e \<Rightarrow> (Inl (Io e), w)
      | None \<Rightarrow> (case encrypted_key kg w of Inl e \<Rightarrow> (Inl e, w) | Inr made \<Rightarrow> write_keys kg dir sid made w))"

definition generate_keypair ::
  "('key, 'w) keygen \<Rightarrow> string option \<Rightarrow> string \<Rightarrow> 'w \<Rightarrow> (Error + string \<times> string \<times> string) \<times> 'w" where
  "generate_keypair kg home sid w =
     (case home of
        None \<Rightarrow> (Inl (Config ''cannot determine home directory''), w)
      | Some d \<Rightarrow> generate_keypair_at kg (d @ ''/.ssh'') sid w)"

text \<open>
  Which characters of the name stay is decided by Unicode's tables; the filter is the same as that of
  the command which removes the key (\<open>cleanup_command\<close>).
\<close>

definition push_command :: "(string \<Rightarrow> string) \<Rightarrow> string \<Rightarrow> string \<Rightarrow> string" where
  "push_command sanitize key key_name =
     (let safe = sanitize key_name; name = (if safe = [] then ''termfast'' else safe)
      in ''mkdir -p ~/.ssh && echo '' @ quoted (''# termfast: '' @ name) @ '' >> ~/.ssh/authorized_keys && echo '' @
         shell_escape key @ '' >> ~/.ssh/authorized_keys && chmod 600 ~/.ssh/authorized_keys'')"

definition push_public_key ::
  "(string \<Rightarrow> string) \<Rightarrow> (string \<Rightarrow> u64 \<Rightarrow> 'w \<Rightarrow> (Error + ExecResult) \<times> 'w) \<Rightarrow> string \<Rightarrow> string \<Rightarrow> 'w \<Rightarrow>
   (Error + unit) \<times> 'w" where
  "push_public_key sanitize do_exec key key_name w =
     (if length (RustText.lines key) \<noteq> 1
      then (Inl (ipc_err InvalidParams ''public key must be a single line''), w)
      else case do_exec (push_command sanitize key key_name) 30 w of
        (Inl e, w') \<Rightarrow> (Inl e, w')
      | (Inr r, w') \<Rightarrow>
          (if ex_exit_code r \<noteq> 0
           then Inl (ipc_err Internal (''failed to push public key: exit code '' @ show_nat (unat (ex_exit_code r))))
           else Inr (), w'))"

section \<open>Reading ahead loses nothing\<close>

definition stream_rest :: "PrefixedStream \<Rightarrow> bytes" where
  "stream_rest p = drop (ps_prefix_pos p) (ps_prefix p) @ avail (rx (ps_inner p))"

lemma read_some_avail:
  assumes "0 < cap"
  obtains bs s where "read_some cap so = (Inr bs, s)" "avail (rx so) = bs @ avail (rx s)"
    "bs = [] \<Longrightarrow> avail (rx so) = []"
proof (cases "rx so")
  case Nil
  then show ?thesis using that [of "[]" so] by (simp add: read_some_def)
next
  case (Cons s ss)
  show ?thesis
  proof (cases "length s \<le> cap \<and> s \<noteq> []")
    case True
    then show ?thesis using that [of s "so\<lparr>rx := ss\<rparr>"] Cons by (simp add: read_some_def avail_Cons)
  next
    case False
    have "avail (s # ss) = take cap s @ avail (drop cap s # ss)"
      using False by (cases "s = []") (simp_all add: avail_Cons)
    then show ?thesis
      using that [of "take cap s" "so\<lparr>rx := drop cap s # ss\<rparr>"] Cons False assms
      by (auto simp: read_some_def avail_Cons)
  qed
qed

lemma poll_read_rest:
  assumes "0 < cap"
  obtains bs p' where "poll_read cap p = (Inr bs, p')" "stream_rest p = bs @ stream_rest p'"
    "bs = [] \<Longrightarrow> stream_rest p = []"
proof (cases "ps_prefix_pos p < length (ps_prefix p)")
  case True
  let ?rest = "drop (ps_prefix_pos p) (ps_prefix p)" let ?n = "min (length ?rest) cap"
  have "drop (ps_prefix_pos p + ?n) (ps_prefix p) = drop ?n ?rest" by (simp add: add.commute)
  then show ?thesis
    using that [of "take ?n ?rest" "p\<lparr>ps_prefix_pos := ps_prefix_pos p + ?n\<rparr>"] True assms
    by (simp add: poll_read_def Let_def stream_rest_def del: drop_drop flip: append_assoc)
next
  case False
  obtain bs so where r: "read_some cap (ps_inner p) = (Inr bs, so)" "avail (rx (ps_inner p)) = bs @ avail (rx so)"
    "bs = [] \<Longrightarrow> avail (rx (ps_inner p)) = []"
    using read_some_avail [OF assms, of "ps_inner p"] by metis
  show ?thesis
    by (rule that [of bs "p\<lparr>ps_inner := so\<rparr>"]) (use False r in \<open>simp_all add: poll_read_def stream_rest_def\<close>)
qed

lemma socket_of_first:
  assumes "connect_socket d addr protector = Inr s"
  obtains a as where "dl_addresses d = Inr (a # as)" "s = dl_peer d a"
proof -
  have await: "await_socket d a = Inr s \<Longrightarrow> s = dl_peer d a" for a
    by (auto simp: await_socket_def split: option.splits sum.splits)
  obtain addrs where addrs: "dl_addresses d = Inr addrs"
    using assms by (auto simp: connect_socket_def try_res_Inr)
  then obtain a as where "addrs = a # as"
    using assms by (cases addrs) (auto simp: connect_socket_def)
  with assms addrs have "await_socket d a = Inr s"
    by (auto simp: connect_socket_def try_res_Inr split: connect_start.splits)
  with addrs \<open>addrs = a # as\<close> show ?thesis using await that by blast
qed

lemma peek_keeps:
  assumes "connect_and_peek d addr protector = Inr (b, p)"
  obtains a as where "dl_addresses d = Inr (a # as)" "stream_rest p = avail (rx (dl_peer d a))"
proof -
  obtain s where s: "connect_socket d addr protector = Inr s" "stream_rest p = avail (rx s)"
  proof -
    obtain s where s: "connect_socket d addr protector = Inr s"
      using assms by (auto simp: connect_and_peek_def try_res_Inr)
    obtain bs s' where r: "read_some 2048 s = (Inr bs, s')" "avail (rx s) = bs @ avail (rx s')"
      by (rule read_some_avail [of 2048 s]) simp_all
    from assms s r that show ?thesis
      by (auto simp: connect_and_peek_def stream_rest_def split: if_splits)
  qed
  then show ?thesis using socket_of_first that by metis
qed

text \<open>The bytes of a sequence of reads with the given room.\<close>

fun read_in_turn :: "nat list \<Rightarrow> PrefixedStream \<Rightarrow> bytes \<times> PrefixedStream" where
  "read_in_turn [] p = ([], p)"
| "read_in_turn (cap # caps) p =
     (case poll_read cap p of
        (Inl _, p') \<Rightarrow> ([], p')
      | (Inr bs, p') \<Rightarrow> (let (bs', p2) = read_in_turn caps p' in (bs @ bs', p2)))"

lemma read_in_turn_rest:
  assumes "0 \<notin> set caps"
  shows "fst (read_in_turn caps p) @ stream_rest (snd (read_in_turn caps p)) = stream_rest p"
    and "length caps \<le> length (fst (read_in_turn caps p)) \<or> stream_rest (snd (read_in_turn caps p)) = []"
  using assms
proof (induction caps arbitrary: p)
  case (Cons cap caps)
  {
    case 1
    then have "0 < cap" by simp
    from poll_read_rest [OF this, of p] obtain bs p' where r: "poll_read cap p = (Inr bs, p')"
      "stream_rest p = bs @ stream_rest p'" by metis
    with Cons.IH(1) [of p'] 1 show ?case by (simp add: split_def Let_def)
  next
    case 2
    then have "0 < cap" by simp
    from poll_read_rest [OF this, of p] obtain bs p' where r: "poll_read cap p = (Inr bs, p')"
      "stream_rest p = bs @ stream_rest p'" "bs = [] \<Longrightarrow> stream_rest p = []" by metis
    have ih: "length caps \<le> length (fst (read_in_turn caps p')) \<or> stream_rest (snd (read_in_turn caps p')) = []"
      "fst (read_in_turn caps p') @ stream_rest (snd (read_in_turn caps p')) = stream_rest p'"
      using Cons.IH [of p'] 2 by auto
    show ?case
    proof (cases "bs = []")
      case True
      with r have "stream_rest p' = []" by simp
      with ih(2) r show ?thesis by (simp add: split_def Let_def)
    next
      case False
      then have "1 \<le> length bs" by (cases bs) simp_all
      with ih(1) r show ?thesis by (auto simp: split_def Let_def)
    qed
  }
qed simp_all

text \<open>
  Whatever was looked at in advance, the library reads what the server sent: no more, nothing else,
  and with enough reads all of it.
\<close>

theorem library_reads_what_the_server_sent:
  assumes "connect_and_peek d addr protector = Inr (banner, p)" "0 \<notin> set caps"
  obtains a as where "dl_addresses d = Inr (a # as)" "prefix (fst (read_in_turn caps p)) (avail (rx (dl_peer d a)))"
    "length (avail (rx (dl_peer d a))) < length caps \<Longrightarrow> fst (read_in_turn caps p) = avail (rx (dl_peer d a))"
proof -
  obtain a as where a: "dl_addresses d = Inr (a # as)" "stream_rest p = avail (rx (dl_peer d a))"
    using peek_keeps [OF assms(1)] .
  let ?r = "read_in_turn caps p"
  have whole: "avail (rx (dl_peer d a)) = fst ?r @ stream_rest (snd ?r)"
    using read_in_turn_rest(1) [OF assms(2), of p] a(2) by simp
  then have "prefix (fst ?r) (avail (rx (dl_peer d a)))" by simp
  moreover have "fst ?r = avail (rx (dl_peer d a))" if "length (avail (rx (dl_peer d a))) < length caps"
    using whole read_in_turn_rest(2) [OF assms(2), of p] that by auto
  ultimately show ?thesis using a(1) that by blast
qed

section \<open>A known key stays the only one\<close>

text \<open>
  What the code relies on: the library gives a connection only after it asked the handler for the key
  of the peer (\<open>peer\<close>, its hash) and was answered yes, and a refusal is the error \<open>UnknownKey\<close>.
\<close>

definition asks_handler :: "('h \<Rightarrow> string) \<Rightarrow> ('h, 'k, 'a, 'w) ssh_lib \<Rightarrow> bool" where
  "asks_handler peer lib \<longleftrightarrow>
     (\<forall>st check h w. case kex lib st check h w of
        (Inr link, h', _) \<Rightarrow> \<exists>w1 w2. check (peer link) h w1 = (True, h', w2)
      | (Inl UnknownKey, h', _) \<Rightarrow> \<exists>key w1 w2. check key h w1 = (False, h', w2)
      | (Inl (RusshError _), _, _) \<Rightarrow> True)"

lemma asks_handlerD:
  assumes "asks_handler peer lib"
  shows "kex lib st check h w = (Inr link, h', w') \<Longrightarrow> \<exists>w1 w2. check (peer link) h w1 = (True, h', w2)"
    and "kex lib st check h w = (Inl UnknownKey, h', w') \<Longrightarrow> \<exists>key w1 w2. check key h w1 = (False, h', w2)"
  using assms [unfolded asks_handler_def, THEN spec, of st, THEN spec, of check, THEN spec, of h, THEN spec, of w] by auto

text \<open>In a release build, and whatever the setting to skip the check.\<close>

lemma check_accepts_known:
  assumes "check_server_key False key h w = (True, h', w')" "sh_known_host_key h = Some k"
  shows "fingerprint key = k" "h' = h"
  using assms by (auto simp: check_server_key_def Let_def split: if_splits)

lemma banners_kept [simp]:
  "sc_config (fold (\<lambda>b c. c\<lparr>sc_auth_banner := Some b\<rparr>) bs c) = sc_config c"
  "sc_handle (fold (\<lambda>b c. c\<lparr>sc_auth_banner := Some b\<rparr>) bs c) = sc_handle c"
  "sc_recorded_key (fold (\<lambda>b c. c\<lparr>sc_auth_banner := Some b\<rparr>) bs c) = sc_recorded_key c"
  by (induction bs arbitrary: c) simp_all

lemma set_state_sync_kept [simp]:
  "sc_config (set_state_sync lib st c w) = sc_config c" "sc_handle (set_state_sync lib st c w) = sc_handle c"
  "sc_recorded_key (set_state_sync lib st c w) = sc_recorded_key c"
  by (simp_all add: set_state_sync_def)

lemma finish_connect_result:
  assumes "finish_connect lib auth link recorded c w = (r, c', w')"
  shows "sc_config c' = sc_config c"
    and "r = Inr () \<Longrightarrow> sc_handle c' = Some link \<and> sc_state c' = SshConnected"
    and "r = Inl e \<Longrightarrow> sc_handle c' = sc_handle c \<and> sc_recorded_key c' = sc_recorded_key c"
proof -
  obtain a bs w1 where a: "ssh_authenticate lib link (cc_user (sc_config c)) auth w = (a, bs, w1)"
    by (cases "ssh_authenticate lib link (cc_user (sc_config c)) auth w") auto
  note d = assms [unfolded finish_connect_def a Let_def prod.case]
  show "sc_config c' = sc_config c"
    using d by (cases a) (auto split: bool.splits)
  show "r = Inr () \<Longrightarrow> sc_handle c' = Some link \<and> sc_state c' = SshConnected"
    using d by (cases a) (auto split: bool.splits)
  show "r = Inl e \<Longrightarrow> sc_handle c' = sc_handle c \<and> sc_recorded_key c' = sc_recorded_key c"
    using d by (cases a) (auto split: bool.splits)
qed

text \<open>The handler of an attempt.\<close>

abbreviation fresh_handler :: "('h, 'w) SshClientHandle \<Rightarrow> 'w SshHandler" where
  "fresh_handler c \<equiv>
     \<lparr>sh_known_host_key = cc_known_host_key (sc_config c), sh_skip_verify = cc_skip_hostkey_verify (sc_config c),
      sh_recorded = None, sh_mismatch = cc_mismatch_callback (sc_config c)\<rparr>"

text \<open>An attempt that comes to authentication, or its error and the state it leaves.\<close>

lemma ssh_connect_cases:
  obtains (fails) e st' where "ssh_connect lib dbg auth c w = (Inl e,
        c\<lparr>sc_state := st', sc_auth_banner := None, sc_recorded_key := None\<rparr>, snd (snd (ssh_connect lib dbg auth c w)))"
  | (meets) link h' st w1 w2 where
      "kex lib st (check_server_key dbg) (fresh_handler c) w1 = (Inr link, h', w2)"
      "ssh_connect lib dbg auth c w = finish_connect lib auth link (sh_recorded h')
         (c\<lparr>sc_state := SshConnecting, sc_auth_banner := None, sc_recorded_key := None\<rparr>) w2"
proof -
  have idle: "\<exists>st'. set_state_sync lib SshIdle (c\<lparr>sc_state := SshConnecting, sc_auth_banner := None, sc_recorded_key := None\<rparr>) w'
      = c\<lparr>sc_state := st', sc_auth_banner := None, sc_recorded_key := None\<rparr>" for w'
    by (cases "state_free lib w'") (auto simp: set_state_sync_def intro: exI [of _ SshIdle])
  let ?addr = "cc_host (sc_config c) @ '':'' @ show_nat (unat (cc_port (sc_config c)))"
  obtain d w1 where d: "dial_next lib ?addr w = (d, w1)" by (cases "dial_next lib ?addr w") auto
  show thesis
  proof (cases "dl_too_late d")
    case True
    then show ?thesis using fails d idle [of w1] by (auto simp: ssh_connect_def Let_def)
  next
    case late: False
    show ?thesis
    proof (cases "connect_and_peek d ?addr (cc_socket_protector (sc_config c))")
      case (Inl e)
      then show ?thesis using fails d late idle [of w1] by (auto simp: ssh_connect_def Let_def)
    next
      case (Inr bs)
      obtain banner st where bs: "bs = (banner, st)" by (cases bs)
      obtain r h' w2 where k: "kex lib st (check_server_key dbg) (fresh_handler c) w1 = (r, h', w2)"
        by (cases "kex lib st (check_server_key dbg) (fresh_handler c) w1") auto
      show ?thesis
      proof (cases r)
        case (Inl e)
        then show ?thesis using fails d late \<open>connect_and_peek _ _ _ = _\<close> bs k idle [of w2]
          by (auto simp: ssh_connect_def Let_def)
      next
        case (Inr link)
        then show ?thesis using meets [OF k [unfolded Inr]] d late \<open>connect_and_peek _ _ _ = _\<close> bs k
          by (simp add: ssh_connect_def Let_def)
      qed
    qed
  qed
qed

lemma ssh_connect_result:
  assumes "ssh_connect lib dbg auth c w = (r, c', w')"
  shows "sc_config c' = sc_config c"
    and "r = Inl e \<Longrightarrow> sc_handle c' = sc_handle c \<and> sc_recorded_key c' = None"
    and "r = Inr () \<Longrightarrow> sc_state c' = SshConnected \<and> (\<exists>link st h' w1 w2. sc_handle c' = Some link
       \<and> kex lib st (check_server_key dbg) (fresh_handler c) w1 = (Inr link, h', w2))"
proof -
  let ?P = "sc_config c' = sc_config c \<and> (\<forall>e. r = Inl e \<longrightarrow> sc_handle c' = sc_handle c \<and> sc_recorded_key c' = None)
    \<and> (r = Inr () \<longrightarrow> sc_state c' = SshConnected \<and> (\<exists>link st h' w1 w2. sc_handle c' = Some link
       \<and> kex lib st (check_server_key dbg) (fresh_handler c) w1 = (Inr link, h', w2)))"
  have ?P
  proof (cases rule: ssh_connect_cases [where lib = lib and dbg = dbg and auth = auth and c = c and w = w])
    case (fails e st')
    then show ?thesis using assms by auto
  next
    case (meets link h' st w1 w2)
    note f = meets(2) [unfolded assms, symmetric]
    show ?thesis
      using finish_connect_result [OF f] meets(1) by auto
  qed
  then show "sc_config c' = sc_config c" "r = Inl e \<Longrightarrow> sc_handle c' = sc_handle c \<and> sc_recorded_key c' = None"
    "r = Inr () \<Longrightarrow> sc_state c' = SshConnected \<and> (\<exists>link st h' w1 w2. sc_handle c' = Some link
       \<and> kex lib st (check_server_key dbg) (fresh_handler c) w1 = (Inr link, h', w2))"
    by blast+
qed

text \<open>What every attempt and every change of the state keep, the whole reconnection keeps.\<close>

lemma ssh_reconnect_keeps:
  assumes connects: "\<And>c w r c' w'. Q c \<Longrightarrow> ssh_connect lib dbg auth c w = (r, c', w') \<Longrightarrow> Q c'"
    and states: "\<And>c st. Q c \<Longrightarrow> Q (c\<lparr>sc_state := st\<rparr>)"
    and "ssh_reconnect lib dbg auth mx mb n b c w = (r, c', w')" and "Q c"
  shows "Q c'"
  using assms(3,4)
proof (induction "unat mx - n" arbitrary: n b c w rule: less_induct)
  case less
  define c1 where "c1 = (if 1 < n + 1 then c\<lparr>sc_state := SshReconnecting (word_of_nat n) mx\<rparr> else c)"
  define w1 where "w1 = (if 1 < n + 1 then ssh_sleep lib b w else w)"
  obtain r2 c2 w2 where s: "ssh_connect lib dbg auth c1 w1 = (r2, c2, w2)"
    by (cases "ssh_connect lib dbg auth c1 w1") auto
  have "Q c1" using less.prems(2) states by (simp add: c1_def)
  then have q2: "Q c2" using connects s by blast
  have "(if 1 < n + 1 then (c\<lparr>sc_state := SshReconnecting (word_of_nat (n + 1 - 1)) mx\<rparr>, ssh_sleep lib b w) else (c, w)) = (c1, w1)"
    by (simp add: c1_def w1_def)
  note step = less.prems(1) [unfolded ssh_reconnect.simps [of lib dbg auth mx mb n] Let_def this s prod.case]
  show ?case
  proof (cases r2)
    case (Inr u)
    then show ?thesis using step q2 by simp
  next
    case (Inl e)
    then show ?thesis
      using step q2 states [OF q2, of SshIdle] less.hyps [of "n + 1" _ c2 w2] by (auto split: if_splits)
  qed
qed

text \<open>The operations of a client other than the acceptance of a key, in any order and in any world.\<close>

inductive ssh_client_run :: "('h, 'k, 'a, 'w) ssh_lib \<Rightarrow> bool \<Rightarrow> ('h, 'w) SshClientHandle \<Rightarrow> ('h, 'w) SshClientHandle \<Rightarrow> bool"
  for lib dbg c0 where
  begins: "ssh_client_run lib dbg c0 c0"
| connects: "ssh_client_run lib dbg c0 c \<Longrightarrow> ssh_connect lib dbg auth c w = (r, c', w') \<Longrightarrow> ssh_client_run lib dbg c0 c'"
| reconnects: "ssh_client_run lib dbg c0 c \<Longrightarrow> ssh_connect_with_reconnect lib dbg auth c w = (r, c', w')
    \<Longrightarrow> ssh_client_run lib dbg c0 c'"
| disconnects: "ssh_client_run lib dbg c0 c \<Longrightarrow> ssh_disconnect lib c w = (r, c', w') \<Longrightarrow> ssh_client_run lib dbg c0 c'"
| callback: "ssh_client_run lib dbg c0 c \<Longrightarrow> ssh_client_run lib dbg c0 (set_mismatch_callback cb c)"
| protector: "ssh_client_run lib dbg c0 c \<Longrightarrow> ssh_client_run lib dbg c0 (set_socket_protector p c)"

definition key_pinned :: "('h \<Rightarrow> string) \<Rightarrow> string \<Rightarrow> ('h, 'w) SshClientHandle \<Rightarrow> bool" where
  "key_pinned peer k c \<longleftrightarrow> cc_known_host_key (sc_config c) = Some k
     \<and> (\<forall>link. sc_handle c = Some link \<longrightarrow> fingerprint (peer link) = k)"

lemma connect_keeps_pin:
  assumes "asks_handler peer lib" "key_pinned peer k c" "ssh_connect lib False auth c w = (r, c', w')"
  shows "key_pinned peer k c'"
proof (cases r)
  case (Inl e)
  then show ?thesis
    using ssh_connect_result(1) [OF assms(3)] ssh_connect_result(2) [OF assms(3), of e] assms(2) by (simp add: key_pinned_def)
next
  case (Inr u)
  then obtain link st h' w1 w2 where l: "sc_handle c' = Some link"
    "kex lib st (check_server_key False) (fresh_handler c) w1 = (Inr link, h', w2)"
    using ssh_connect_result(3) [OF assms(3)] by auto
  from asks_handlerD(1) [OF assms(1) l(2)] obtain w3 w4 where
    "check_server_key False (peer link) (fresh_handler c) w3 = (True, h', w4)" by blast
  then have "fingerprint (peer link) = k"
    using check_accepts_known(1) assms(2) by (fastforce simp: key_pinned_def)
  then show ?thesis using l(1) ssh_connect_result(1) [OF assms(3)] assms(2) by (simp add: key_pinned_def)
qed

lemma reconnect_keeps_pin:
  assumes "asks_handler peer lib" "key_pinned peer k c" "ssh_connect_with_reconnect lib False auth c w = (r, c', w')"
  shows "key_pinned peer k c'"
proof (rule ssh_reconnect_keeps [where Q = "key_pinned peer k", OF _ _ assms(3) [unfolded ssh_connect_with_reconnect_def] assms(2)])
  show "key_pinned peer k c1 \<Longrightarrow> ssh_connect lib False auth c1 w1 = (r1, c2, w2) \<Longrightarrow> key_pinned peer k c2" for c1 w1 r1 c2 w2
    by (rule connect_keeps_pin [OF assms(1)])
  show "key_pinned peer k c1 \<Longrightarrow> key_pinned peer k (c1\<lparr>sc_state := st\<rparr>)" for c1 st
    by (simp add: key_pinned_def)
qed

lemma run_keeps_pin:
  assumes "ssh_client_run lib False c0 c" "asks_handler peer lib" "key_pinned peer k c0"
  shows "key_pinned peer k c"
  using assms(1)
proof induction
  case begins
  then show ?case using assms(3) by simp
next
  case (connects c auth w r c' w')
  then show ?case using connect_keeps_pin [OF assms(2)] by blast
next
  case (reconnects c auth w r c' w')
  then show ?case using reconnect_keeps_pin [OF assms(2)] by blast
next
  case (disconnects c w r c' w')
  then show ?case by (auto simp: key_pinned_def ssh_disconnect_def)
next
  case (callback c cb)
  then show ?case by (simp add: key_pinned_def set_mismatch_callback_def)
next
  case (protector c p)
  then show ?case by (simp add: key_pinned_def set_socket_protector_def)
qed

text \<open>
  C39. Once the key of a server is known, in a release build every connection the client holds was made
  with a server that proved exactly this key, whatever is asked of the client in whatever order and
  whatever the network does, until a new key is accepted.
\<close>

theorem known_key_stays_pinned:
  assumes "asks_handler peer lib" "cc_known_host_key cfg = Some k"
    and "ssh_client_run lib False (ssh_client_new cfg) c" "sc_handle c = Some link"
  shows "fingerprint (peer link) = k"
  using run_keeps_pin [OF assms(3,1), of k] assms(2,4) by (auto simp: key_pinned_def ssh_client_new_def)

text \<open>An example: the world is the hash of the key the server has; a connection is the key of its peer.\<close>

definition toy_kex ::
  "PrefixedStream \<Rightarrow> (string \<Rightarrow> string SshHandler \<Rightarrow> string \<Rightarrow> bool \<times> string SshHandler \<times> string) \<Rightarrow>
   string SshHandler \<Rightarrow> string \<Rightarrow> (russh_error + string) \<times> string SshHandler \<times> string" where
  "toy_kex st check h w =
     (case check w h w of (True, h', w') \<Rightarrow> (Inr w, h', w') | (False, h', w') \<Rightarrow> (Inl UnknownKey, h', w'))"

definition toy_ssh_lib :: "(string, string, unit, string) ssh_lib" where
  "toy_ssh_lib =
     \<lparr>kex = toy_kex, pass_auth = (\<lambda>l u p w. (Inr (p = ''pw''), [''hello''], w)), key_auth = (\<lambda>l u k w. (Inr True, [], w)),
      handle_closed = (\<lambda>l w. False), say_goodbye = (\<lambda>l w. w), lib_open_direct = (\<lambda>l h p w. (Inr 0, w)),
      lib_exec = (\<lambda>l c t w. (Inl (Other ''none''), w)),
      dial_next = (\<lambda>a w. (\<lparr>dl_addresses = Inr [()], dl_socket = (\<lambda>_. Inr ()), dl_protect = Inr (),
        dl_start = (\<lambda>_. InProgress), dl_writable = Some (Inr ()), dl_pending = Inr None,
        dl_peer = (\<lambda>_. \<lparr>rx = [], tx = [], writes_left = 9\<rparr>), dl_silent = False, dl_too_late = False\<rparr>, w)),
      ssh_sleep = (\<lambda>b w. w), state_free = (\<lambda>w. True), user_home = Some ''/root'', key_exists = (\<lambda>p w. True),
      load_secret_key = (\<lambda>p q w. Inr p), show_russh = (\<lambda>e. ''refused''), show_dial = (\<lambda>e. ''io'')\<rparr>"

lemma toy_asks: "asks_handler (\<lambda>l. l) toy_ssh_lib"
  by (auto simp: asks_handler_def toy_ssh_lib_def toy_kex_def split: prod.splits bool.splits)

definition pinned_config :: "string SshClientConfig" where
  "pinned_config = ssh_config_default\<lparr>cc_known_host_key := Some ''SHA256:a'', cc_skip_hostkey_verify := True\<rparr>"

lemma toy_connect:
  assumes "cc_mismatch_callback (sc_config c) = None"
  shows "ssh_connect toy_ssh_lib False (PasswordAuth ''pw'') c w =
     (if \<exists>k. cc_known_host_key (sc_config c) = Some k \<and> fingerprint w \<noteq> k
      then (Inl (ipc_err HostKeyMismatch (mismatch_detail (cc_known_host_key (sc_config c)) (Some (fingerprint w)))),
            c\<lparr>sc_state := SshIdle, sc_auth_banner := None, sc_recorded_key := None\<rparr>, w)
      else (Inr (), c\<lparr>sc_handle := Some w, sc_state := SshConnected, sc_auth_banner := Some ''hello'',
              sc_recorded_key := (if cc_known_host_key (sc_config c) = None then Some (fingerprint w) else None)\<rparr>, w))"
  using assms
  by (cases "cc_known_host_key (sc_config c)")
    (simp_all add: ssh_connect_def Let_def toy_ssh_lib_def toy_kex_def connect_and_peek_def connect_socket_def await_socket_def
      read_some_def check_server_key_def finish_connect_def ssh_authenticate_def set_state_sync_def)

theorem known_key_stays_pinned_witness:
  "\<exists>c. ssh_client_run toy_ssh_lib False (ssh_client_new pinned_config) c \<and> sc_handle c = Some ''a''
     \<and> fingerprint ''a'' = ''SHA256:a''"
proof -
  let ?c = "(ssh_client_new pinned_config)\<lparr>sc_handle := Some ''a'', sc_state := SshConnected,
    sc_auth_banner := Some ''hello'', sc_recorded_key := None\<rparr>"
  have "ssh_connect toy_ssh_lib False (PasswordAuth ''pw'') (ssh_client_new pinned_config) ''a'' = (Inr (), ?c, ''a'')"
    by (subst toy_connect) (simp_all add: ssh_client_new_def pinned_config_def ssh_config_default_def fingerprint_def)
  then have run: "ssh_client_run toy_ssh_lib False (ssh_client_new pinned_config) ?c"
    by (rule ssh_client_run.connects [OF ssh_client_run.begins])
  have "fingerprint ''a'' = ''SHA256:a''"
    by (rule known_key_stays_pinned [OF toy_asks _ run]) (simp_all add: pinned_config_def)
  with run show ?thesis by (intro exI [of _ ?c]) simp
qed

section \<open>Secrets are shown only to the known server\<close>

abbreviation with_auth ::
  "('h \<Rightarrow> string \<Rightarrow> string \<Rightarrow> 'w \<Rightarrow> (string + bool) \<times> string list \<times> 'w) \<Rightarrow>
   ('h \<Rightarrow> string \<Rightarrow> 'k \<Rightarrow> 'w \<Rightarrow> (string + bool) \<times> string list \<times> 'w) \<Rightarrow>
   ('h, 'k, 'a, 'w) ssh_lib \<Rightarrow> ('h, 'k, 'a, 'w) ssh_lib" where
  "with_auth pa ka lib \<equiv> lib\<lparr>pass_auth := pa, key_auth := ka\<rparr>"

lemma load_keypair_with_auth: "load_keypair (with_auth pa ka lib) = load_keypair lib"
  by (simp add: load_keypair_def fun_eq_iff cong: if_cong)

lemma ssh_authenticate_with_auth:
  assumes "pa link = pass_auth lib link" "ka link = key_auth lib link"
  shows "ssh_authenticate (with_auth pa ka lib) link user auth w = ssh_authenticate lib link user auth w"
proof (cases auth)
  case (KeyAuth path phrase)
  then show ?thesis
    using assms by (cases "load_keypair lib path phrase w") (simp_all add: ssh_authenticate_def load_keypair_with_auth)
qed (simp add: ssh_authenticate_def assms)

lemma set_state_with_auth: "set_state_sync (with_auth pa ka lib) = set_state_sync lib"
  by (simp add: set_state_sync_def fun_eq_iff)

lemma finish_connect_with_auth:
  assumes "pa link = pass_auth lib link" "ka link = key_auth lib link"
  shows "finish_connect (with_auth pa ka lib) auth link recorded c w = finish_connect lib auth link recorded c w"
  unfolding finish_connect_def set_state_with_auth
  by (subst ssh_authenticate_with_auth) (simp_all add: assms)

lemma ssh_connect_with_auth:
  assumes "asks_handler peer lib" "cc_known_host_key (sc_config c) = Some k"
    and same: "\<And>link. fingerprint (peer link) = k \<Longrightarrow> pa link = pass_auth lib link \<and> ka link = key_auth lib link"
  shows "ssh_connect (with_auth pa ka lib) False auth c w = ssh_connect lib False auth c w"
proof -
  let ?addr = "cc_host (sc_config c) @ '':'' @ show_nat (unat (cc_port (sc_config c)))"
  obtain d w1 where d: "dial_next lib ?addr w = (d, w1)" by (cases "dial_next lib ?addr w") auto
  show ?thesis
  proof (cases "connect_and_peek d ?addr (cc_socket_protector (sc_config c))")
    case (Inl e)
    then show ?thesis using d by (simp add: ssh_connect_def Let_def set_state_with_auth)
  next
    case (Inr bs)
    obtain banner st where bs: "bs = (banner, st)" by (cases bs)
    obtain r h' w2 where k: "kex lib st (check_server_key False) (fresh_handler c) w1 = (r, h', w2)"
      by (cases "kex lib st (check_server_key False) (fresh_handler c) w1") auto
    show ?thesis
    proof (cases r)
      case e: (Inl e)
      then show ?thesis
        using d Inr bs k by (simp add: ssh_connect_def Let_def set_state_with_auth connect_error_def)
    next
      case link: (Inr link)
      obtain w3 w4 where "check_server_key False (peer link) (fresh_handler c) w3 = (True, h', w4)"
        using asks_handlerD(1) [OF assms(1) k [unfolded link]] by blast
      then have "fingerprint (peer link) = k" using check_accepts_known(1) assms(2) by fastforce
      then have "pa link = pass_auth lib link" "ka link = key_auth lib link" using same by blast+
      then show ?thesis
        using d Inr bs k link by (simp add: ssh_connect_def Let_def set_state_with_auth finish_connect_with_auth)
    qed
  qed
qed

lemma ssh_reconnect_with_auth:
  assumes "asks_handler peer lib" "cc_known_host_key (sc_config c) = Some k"
    and same: "\<And>link. fingerprint (peer link) = k \<Longrightarrow> pa link = pass_auth lib link \<and> ka link = key_auth lib link"
  shows "ssh_reconnect (with_auth pa ka lib) False auth mx mb n b c w = ssh_reconnect lib False auth mx mb n b c w"
  using assms(2)
proof (induction "unat mx - n" arbitrary: n b c w rule: less_induct)
  case less
  define c1 where "c1 = (if 1 < n + 1 then c\<lparr>sc_state := SshReconnecting (word_of_nat n) mx\<rparr> else c)"
  define w1 where "w1 = (if 1 < n + 1 then ssh_sleep lib b w else w)"
  obtain r2 c2 w2 where s: "ssh_connect lib False auth c1 w1 = (r2, c2, w2)"
    by (cases "ssh_connect lib False auth c1 w1") auto
  have known: "cc_known_host_key (sc_config c1) = Some k" using less.prems by (simp add: c1_def)
  then have s': "ssh_connect (with_auth pa ka lib) False auth c1 w1 = (r2, c2, w2)"
    using s ssh_connect_with_auth [OF assms(1) _ same] by simp
  have known2: "cc_known_host_key (sc_config c2) = Some k"
    using ssh_connect_result(1) [OF s] known by simp
  have start: "(if 1 < n + 1 then (c\<lparr>sc_state := SshReconnecting (word_of_nat (n + 1 - 1)) mx\<rparr>, ssh_sleep lib b w) else (c, w)) = (c1, w1)"
    by (simp add: c1_def w1_def)
  have start': "(if 1 < n + 1 then (c\<lparr>sc_state := SshReconnecting (word_of_nat (n + 1 - 1)) mx\<rparr>,
      ssh_sleep (with_auth pa ka lib) b w) else (c, w)) = (c1, w1)"
    by (simp add: c1_def w1_def)
  show ?case
    unfolding ssh_reconnect.simps [of _ False auth mx mb n] Let_def start start' s s' prod.case
    using less.hyps [of "n + 1" c2] known2 by (cases r2) auto
qed

text \<open>
  C40. With a known key, in a release build, only the server that has this key can learn anything of the
  password or of the private key: however the other servers answer to an authentication, the outcome of
  connecting, with all its attempts, is the same, since none of them is asked.
\<close>

theorem secrets_only_to_the_known_server:
  assumes "asks_handler peer lib" "cc_known_host_key (sc_config c) = Some k"
    and "\<And>link. fingerprint (peer link) = k \<Longrightarrow> pa link = pass_auth lib link \<and> ka link = key_auth lib link"
  shows "ssh_connect_with_reconnect (lib\<lparr>pass_auth := pa, key_auth := ka\<rparr>) False auth c w
       = ssh_connect_with_reconnect lib False auth c w"
  unfolding ssh_connect_with_reconnect_def by (rule ssh_reconnect_with_auth [OF assms])

text \<open>An impostor that would take any password: the client reports the other key instead of a rejection.\<close>

theorem secrets_only_to_the_known_server_witness:
  "ssh_connect_with_reconnect (toy_ssh_lib\<lparr>pass_auth :=
       \<lambda>l. if l = ''a'' then pass_auth toy_ssh_lib l else (\<lambda>u p w. (Inr True, [p], w)), key_auth := key_auth toy_ssh_lib\<rparr>)
     False (PasswordAuth ''pw'') (ssh_client_new pinned_config) ''b''
   = ssh_connect_with_reconnect toy_ssh_lib False (PasswordAuth ''pw'') (ssh_client_new pinned_config) ''b''"
  by (rule secrets_only_to_the_known_server [OF toy_asks, of _ "''SHA256:a''"])
    (auto simp: ssh_client_new_def pinned_config_def fingerprint_def)

section \<open>What the check does not give\<close>

text \<open>
  The client of a server that was never connected to: the key of the first connection goes to the
  configuration, but the client goes on without one, and accepts any key at every connection until a
  new client is made.
\<close>

lemma run_keeps_no_key:
  assumes "ssh_client_run lib dbg c0 c" "cc_known_host_key (sc_config c0) = None"
  shows "cc_known_host_key (sc_config c) = None"
  using assms(1)
proof induction
  case begins
  then show ?case using assms(2) by simp
next
  case (connects c auth w r c' w')
  then show ?case using ssh_connect_result(1) by metis
next
  case (reconnects c auth w r c' w')
  show ?case
    by (rule ssh_reconnect_keeps [where Q = "\<lambda>c. cc_known_host_key (sc_config c) = None",
        OF _ _ reconnects(2) [unfolded ssh_connect_with_reconnect_def]])
      (use reconnects.IH in \<open>auto dest: ssh_connect_result(1)\<close>)
next
  case (disconnects c w r c' w')
  then show ?case by (auto simp: ssh_disconnect_def)
next
  case (callback c cb)
  then show ?case by (simp add: set_mismatch_callback_def)
next
  case (protector c p)
  then show ?case by (simp add: set_socket_protector_def)
qed

theorem first_key_not_pinned:
  assumes "ssh_client_run lib dbg (ssh_client_new cfg) c" "cc_known_host_key cfg = None"
  shows "fst (check_server_key dbg key (fresh_handler c) w)"
  using run_keeps_no_key [OF assms(1)] assms(2) by (simp add: check_server_key_def Let_def ssh_client_new_def)

lemma first_key_not_pinned_example:
  "\<exists>c c' w. ssh_client_run toy_ssh_lib False (ssh_client_new ssh_config_default) c
     \<and> get_recorded_host_key c = Some ''SHA256:a''
     \<and> ssh_connect toy_ssh_lib False (PasswordAuth ''pw'') c ''b'' = (Inr (), c', w) \<and> sc_handle c' = Some ''b''"
proof -
  define c :: "(string, string) SshClientHandle" where "c = (ssh_client_new ssh_config_default)\<lparr>sc_handle := Some ''a'', sc_state := SshConnected,
    sc_auth_banner := Some ''hello'', sc_recorded_key := Some (fingerprint ''a'')\<rparr>"
  have "ssh_connect toy_ssh_lib False (PasswordAuth ''pw'') (ssh_client_new ssh_config_default) ''a'' = (Inr (), c, ''a'')"
    by (subst toy_connect) (simp_all add: c_def ssh_client_new_def ssh_config_default_def)
  then have "ssh_client_run toy_ssh_lib False (ssh_client_new ssh_config_default) c"
    by (rule ssh_client_run.connects [OF ssh_client_run.begins])
  moreover have "get_recorded_host_key c = Some ''SHA256:a''"
    by (simp add: get_recorded_host_key_def c_def fingerprint_def)
  moreover have "\<exists>c' w. ssh_connect toy_ssh_lib False (PasswordAuth ''pw'') c ''b'' = (Inr (), c', w) \<and> sc_handle c' = Some ''b''"
    by (subst toy_connect) (simp_all add: c_def ssh_client_new_def ssh_config_default_def)
  ultimately show ?thesis by blast
qed

text \<open>The key a failed connection met cannot be asked for: it is stored only when a connection succeeds.\<close>

lemma mismatched_key_lost:
  assumes "ssh_connect lib dbg auth c w = (Inl e, c', w')"
  shows "get_mismatched_host_key c' = None"
  using ssh_connect_result(2) [OF assms refl] by (simp add: get_mismatched_host_key_def)

text \<open>A failed attempt leaves the connection that was there before, and with it a connected client.\<close>

lemma failed_attempt_keeps_connection:
  assumes "ssh_connect lib dbg auth c w = (Inl e, c', w')"
  shows "ssh_is_connected lib c' w'' = ssh_is_connected lib c w''"
  using ssh_connect_result(2) [OF assms refl] by (simp add: ssh_is_connected_def)

text \<open>After the loop the client is connected, refused, or idle; the pause before an attempt is bounded.\<close>

lemma ssh_reconnect_outcome:
  assumes "ssh_reconnect lib dbg auth mx mb n b c w = (r, c', w')"
  shows "(r = Inr () \<and> sc_state c' = SshConnected \<and> sc_handle c' \<noteq> None)
    \<or> (\<exists>d. r = Inl (Ipc (IpcError AuthFailed d))) \<or> (\<exists>e. r = Inl e \<and> sc_state c' = SshIdle)"
  using assms
proof (induction "unat mx - n" arbitrary: n b c w rule: less_induct)
  case less
  define c1 where "c1 = (if 1 < n + 1 then c\<lparr>sc_state := SshReconnecting (word_of_nat n) mx\<rparr> else c)"
  define w1 where "w1 = (if 1 < n + 1 then ssh_sleep lib b w else w)"
  obtain r2 c2 w2 where s: "ssh_connect lib dbg auth c1 w1 = (r2, c2, w2)"
    by (cases "ssh_connect lib dbg auth c1 w1") auto
  have "(if 1 < n + 1 then (c\<lparr>sc_state := SshReconnecting (word_of_nat (n + 1 - 1)) mx\<rparr>, ssh_sleep lib b w) else (c, w)) = (c1, w1)"
    by (simp add: c1_def w1_def)
  note step = less.prems [unfolded ssh_reconnect.simps [of lib dbg auth mx mb n] Let_def this s prod.case]
  show ?case
  proof (cases r2)
    case (Inr u)
    then show ?thesis using step ssh_connect_result(3) [OF s] by auto
  next
    case (Inl e)
    show ?thesis
    proof (cases "case e of Ipc ipc \<Rightarrow> err_code ipc = AuthFailed | _ \<Rightarrow> False")
      case True
      then have "\<exists>d. e = Ipc (IpcError AuthFailed d)"
        by (cases e; auto) (metis IpcError.exhaust_sel)
      then show ?thesis using step Inl by auto
    next
      case False
      then show ?thesis
        using step Inl less.hyps [of "n + 1" _ c2 w2] by (auto split: if_splits)
    qed
  qed
qed

text \<open>A refused host key is tried again as often as any other failure.\<close>

lemma mismatch_tried_again:
  assumes "ssh_connect lib dbg auth c w = (Inl (ipc_err HostKeyMismatch d), c2, w2)" "1 < unat mx"
  shows "ssh_reconnect lib dbg auth mx mb 0 b c w = ssh_reconnect lib dbg auth mx mb 1 (min (b * 2) mb) c2 w2"
  using assms by (subst ssh_reconnect.simps) (simp add: ipc_err_def)

section \<open>Keys and their places\<close>

lemma id_char_plain: "list_all id_char sid \<Longrightarrow> CHR ''/'' \<notin> set sid \<and> CHR ''.'' \<notin> set sid \<and> quote_char \<notin> set sid"
  by (auto simp: id_char_def ascii_alphanumeric_def is_digit_def list_all_iff quote_char_def)

text \<open>The files of two servers are different files: the keys, their public parts, and one of each.\<close>

lemma key_files_apart:
  "key_file dir a = key_file dir b \<longleftrightarrow> a = b" "pub_key_file dir a = pub_key_file dir b \<longleftrightarrow> a = b"
  "key_file dir a \<noteq> pub_key_file dir b"
proof -
  show "key_file dir a \<noteq> pub_key_file dir b"
  proof
    assume "key_file dir a = pub_key_file dir b"
    then have "last (key_file dir a) = last (pub_key_file dir b)" by simp
    then show False by (simp add: key_file_def pub_key_file_def)
  qed
qed (simp_all add: key_file_def pub_key_file_def)

text \<open>Every write goes to one of the two files of the server, and only the private key is secret.\<close>

definition recording :: "('key, (string \<times> string \<times> bool) list) keygen \<Rightarrow> bool" where
  "recording kg \<longleftrightarrow> (\<forall>p t b w. kg_write kg p t b w = (Inr (), w @ [(p, t, b)]) \<or> (\<exists>e. kg_write kg p t b w = (Inl e, w)))"

lemma recorded_write:
  assumes "recording kg" "kg_write kg p t b w = (r, w')"
  shows "set w' \<subseteq> insert (p, t, b) (set w)"
  using assms(1) [unfolded recording_def, rule_format, of p t b w] assms(2) by auto

lemma keys_written:
  assumes rec: "recording kg" and "generate_keypair_at kg dir sid [] = (r, w)" "(p, t, secret) \<in> set w"
  shows "list_all id_char sid" "(p = key_file dir sid \<and> secret) \<or> (p = pub_key_file dir sid \<and> \<not> secret)"
proof -
  have no: "w \<noteq> []" using assms(3) by auto
  have ok: "list_all id_char sid"
    using assms(2) no by (auto simp: generate_keypair_at_def split: if_splits)
  obtain made where made: "write_keys kg dir sid made [] = (r, w)"
    using assms(2) no
    by (cases "kg_mkdir kg dir []"; cases "encrypted_key kg []") (simp_all add: generate_keypair_at_def split: if_splits)
  obtain key phrase priv where "made = (key, phrase, priv)" by (cases made)
  obtain r1 w1 where first: "kg_write kg (key_file dir sid) priv True [] = (r1, w1)"
    by (cases "kg_write kg (key_file dir sid) priv True []")
  have rest: "w = w1 \<or> (\<exists>line r2. kg_write kg (pub_key_file dir sid) line False w1 = (r2, w))"
    using made \<open>made = _\<close> first by (auto simp: write_keys_def Let_def split: prod.splits sum.splits)
  have "set w \<subseteq> {p. fst p = key_file dir sid \<and> snd (snd p)} \<union> {p. fst p = pub_key_file dir sid \<and> \<not> snd (snd p)}"
    using rest recorded_write [OF rec first] recorded_write [OF rec, of "pub_key_file dir sid" _ False w1] by fastforce
  with assms(3) ok show "list_all id_char sid"
    "(p = key_file dir sid \<and> secret) \<or> (p = pub_key_file dir sid \<and> \<not> secret)" by auto
qed

text \<open>
  A shell reads the second word that is echoed as the key itself, whatever it contains, and the first
  as the marker that the cleanup looks for.
\<close>

lemma pushed_key_is_one_word:
  obtains before where
    "push_command sanitize key name = before @ shell_escape key @ '' >> ~/.ssh/authorized_keys && chmod 600 ~/.ssh/authorized_keys''"
    "sh_word False (shell_escape key @ '' >> ~/.ssh/authorized_keys && chmod 600 ~/.ssh/authorized_keys'')
       = Some (key, '' >> ~/.ssh/authorized_keys && chmod 600 ~/.ssh/authorized_keys'')"
proof -
  have "sh_word False '' >> ~/.ssh/authorized_keys && chmod 600 ~/.ssh/authorized_keys''
      = Some ([], '' >> ~/.ssh/authorized_keys && chmod 600 ~/.ssh/authorized_keys'')"
    by (simp add: sh_special_def quote_char_def)
  then show ?thesis
    using that [of "''mkdir -p ~/.ssh && echo '' @ quoted (''# termfast: '' @ (if sanitize name = [] then ''termfast'' else sanitize name))
        @ '' >> ~/.ssh/authorized_keys && echo ''"]
    sh_word_escaped [of key "'' >> ~/.ssh/authorized_keys && chmod 600 ~/.ssh/authorized_keys''"]
    by (simp add: push_command_def Let_def shell_escape_def)
qed

text \<open>The command that removes a key looks for the marker the key was pushed with.\<close>

lemma cleanup_finds_marker:
  assumes "file_name path = Some name"
  obtains marker p q p' q' where "push_command sanitize key name = p @ marker @ q"
    "cleanup_command sanitize path = p' @ marker @ q'" "prefix ''# termfast: '' marker"
proof -
  let ?m = "''# termfast: '' @ (if sanitize name = [] then ''termfast'' else sanitize name)"
  have cleanup: "cleanup_command sanitize path = (''sed -i '' @ [CHR 0x27] @ ''/'') @ ?m @ (''/{N;d}'' @ [CHR 0x27] @
      '' ~/.ssh/authorized_keys 2>/dev/null || true'')"
    using assms by (simp add: cleanup_command_def quoted_def Let_def str_or_def)
  have push: "push_command sanitize key name = (''mkdir -p ~/.ssh && echo '' @ [CHR 0x27]) @ ?m @ ([CHR 0x27] @
      '' >> ~/.ssh/authorized_keys && echo '' @ shell_escape key @ '' >> ~/.ssh/authorized_keys && chmod 600 ~/.ssh/authorized_keys'')"
    by (simp add: push_command_def quoted_def Let_def)
  show ?thesis by (rule that [OF push cleanup]) simp
qed


section \<open>The client behind a server instance\<close>

text \<open>
  The surroundings of a server instance (\<open>ssh_env\<close>) with this client in the place of what is asked of
  SSH; the world is the client and the rest of it.
\<close>

definition with_client ::
  "('h, 'k, 'a, 'w) ssh_lib \<Rightarrow> bool \<Rightarrow> (AuthMethod, ('h, 'w) SshClientHandle \<times> 'w) ssh_env \<Rightarrow>
   (AuthMethod, ('h, 'w) SshClientHandle \<times> 'w) ssh_env" where
  "with_client lib dbg env =
     env\<lparr>env_connect := (\<lambda>auth (c, w). ssh_connect lib dbg auth c w),
         env_handle := (\<lambda>(c, w). sc_handle c \<noteq> None),
         env_connected := (\<lambda>(c, w). ssh_is_connected lib c w),
         env_disconnect := (\<lambda>(c, w). ssh_disconnect lib c w),
         env_recorded_key := (\<lambda>(c, w). get_recorded_host_key c),
         env_exec := (\<lambda>cmd t (c, w). case ssh_exec lib cmd t c w of (r, w') \<Rightarrow> (r, (c, w')))\<rparr>"

text \<open>What a server instance expects of SSH.\<close>

locale ssh_service =
  fixes env :: "('auth, 'w) ssh_env"
  assumes connected_handle: "env_connect env auth w = (Inr (), w') \<Longrightarrow> env_handle env w'"
    and disconnected: "\<exists>w'. env_disconnect env w = (Inr (), w') \<and> \<not> env_handle env w'"
    and connected_only_with_handle: "env_connected env w \<Longrightarrow> env_handle env w"
begin

lemma handle_reaches_all:
  assumes "env_connect env auth w = (Inr (), w')"
  shows "opener_handle (with_handle env si w')" "ssh_handle (port_forward_manager (with_handle env si w'))"
  using connected_handle [OF assms] by (simp_all add: with_handle_def set_ssh_handle_def)

lemma disconnect_ends:
  assumes "disconnect env si w = (r, si', w')"
  shows "r = Inr ()" "si_status si' = Disconnected" "\<not> env_connected env w'" "shown_status env si' w' = Disconnected"
proof -
  obtain w1 where w1: "env_disconnect env w = (Inr (), w1)" "\<not> env_handle env w1"
    using disconnected [of w] by blast
  with assms have "r = Inr () \<and> si_status si' = Disconnected \<and> w' = w1"
    by (auto simp: disconnect_def Let_def)
  with w1(2) connected_only_with_handle show "r = Inr ()" "si_status si' = Disconnected" "\<not> env_connected env w'"
    "shown_status env si' w' = Disconnected"
    by (auto simp: shown_status_def)
qed

end

interpretation ssh_client: ssh_service "with_client lib dbg env" for lib dbg env
  by unfold_locales
    (auto simp: with_client_def ssh_disconnect_def ssh_is_connected_def dest: ssh_connect_result(3) split: option.splits)

text \<open>
  Disconnecting a server always works, whatever the state of its client and of the network, and the
  server is then shown as disconnected.
\<close>

theorem server_disconnects:
  "\<exists>si' c' w'. disconnect (with_client lib dbg env) si (c, w) = (Inr (), si', (c', w')) \<and> sc_handle c' = None
     \<and> sc_state c' = SshIdle \<and> shown_status (with_client lib dbg env) si' (c', w') = Disconnected"
proof -
  obtain r si' c' w' where d: "disconnect (with_client lib dbg env) si (c, w) = (r, si', (c', w'))"
    by (metis prod.exhaust)
  then have "sc_handle c' = None \<and> sc_state c' = SshIdle"
    by (auto simp: disconnect_def with_client_def ssh_disconnect_def Let_def)
  with d ssh_client.disconnect_ends(1,4) [OF d] show ?thesis by auto
qed

end
